(* ===== verification/Prelude.thy ===== *)
theory Prelude
  imports Complex_Main "HOL-Library.Multiset"
begin

text \<open>
  Shared vocabulary of the development: the theorem collections, the result type that
  models thrown errors, and the JavaScript string operations the engine uses
  (\<^verbatim>\<open>split\<close>, \<^verbatim>\<open>join\<close>, \<^verbatim>\<open>trim\<close>, \<^verbatim>\<open>toLowerCase\<close>, \<^verbatim>\<open>includes\<close>, ...).

  A JavaScript string is a list of UTF-16 code units; the model keeps the code units
  0 to 255 (ISO Latin-1), which is Isabelle's \<^typ>\<open>string\<close>. Case mapping and white space
  are those of ECMAScript on that range; the two code units whose upper case lies outside
  it (micro sign and y with diaeresis) are left unchanged.
\<close>

named_theorems js_simps \<open>evaluation rules of the JavaScript value operations\<close>
named_theorems obj_simps \<open>property read-after-write laws of JavaScript objects\<close>
named_theorems res_simps \<open>case analysis of results that may be a thrown error\<close>

section \<open>Results: a thrown error or a value\<close>

datatype js_error = Error string | TypeError string | AdmissionError string

fun error_message :: "js_error \<Rightarrow> string" where
  "error_message (Error m) = m"
| "error_message (TypeError m) = m"
| "error_message (AdmissionError m) = m"

type_synonym 'a res = "js_error + 'a"

abbreviation Throw :: "string \<Rightarrow> 'a res" where
  "Throw m \<equiv> Inl (Error m)"

abbreviation Return :: "'a \<Rightarrow> 'a res" where
  "Return x \<equiv> Inr x"

definition res_bind :: "'a res \<Rightarrow> ('a \<Rightarrow> 'b res) \<Rightarrow> 'b res" where
  "res_bind r f = (case r of Inl e \<Rightarrow> Inl e | Inr x \<Rightarrow> f x)"

lemma not_isl_iff: "\<not> isl r \<longleftrightarrow> (\<exists>x. r = Inr x)"
  by (cases r) auto

lemma res_bind_simps [simp]:
  "res_bind (Inl e) f = Inl e"
  "res_bind (Inr x) f = f x"
  by (simp_all add: res_bind_def)

lemma res_bind_Inr_iff [res_simps]:
  "res_bind r f = Inr y \<longleftrightarrow> (\<exists>x. r = Inr x \<and> f x = Inr y)"
  by (cases r) auto

lemma res_bind_Inl_iff [res_simps]:
  "res_bind r f = Inl e \<longleftrightarrow> r = Inl e \<or> (\<exists>x. r = Inr x \<and> f x = Inl e)"
  by (cases r) auto

lemma res_bind_cong [fundef_cong]:
  "r = r' \<Longrightarrow> (\<And>x. r' = Inr x \<Longrightarrow> f x = g x) \<Longrightarrow> res_bind r f = res_bind r' g"
  by (cases r') auto

text \<open>\<^verbatim>\<open>xs.map(f)\<close> with an \<open>f\<close> that may throw: the first throw leaves the loop.\<close>

fun map_res :: "('a \<Rightarrow> 'b res) \<Rightarrow> 'a list \<Rightarrow> 'b list res" where
  "map_res f [] = Inr []"
| "map_res f (x # xs) = res_bind (f x) (\<lambda>y. res_bind (map_res f xs) (\<lambda>ys. Inr (y # ys)))"

lemma map_res_cong [fundef_cong]:
  assumes "xs = ys" and "\<And>x. x \<in> set ys \<Longrightarrow> f x = g x"
  shows "map_res f xs = map_res g ys"
  using assms(2) unfolding assms(1) by (induction ys) auto

lemma map_res_Inr_iff:
  "map_res f xs = Inr ys \<longleftrightarrow> list_all2 (\<lambda>x y. f x = Inr y) xs ys"
proof (induction xs arbitrary: ys)
  case Nil
  show ?case by (cases ys) auto
next
  case (Cons x xs)
  show ?case by (cases ys) (auto simp: Cons.IH res_simps)
qed

lemma map_res_elem: "map_res f xs = Inr ys \<Longrightarrow> x \<in> set xs \<Longrightarrow> \<exists>y \<in> set ys. f x = Inr y"
  by (induction xs arbitrary: ys) (auto simp: res_simps)

lemma map_res_Return: "(\<And>x. x \<in> set xs \<Longrightarrow> f x = Inr (g x)) \<Longrightarrow> map_res f xs = Inr (map g xs)"
  by (induction xs) auto

lemma map_res_list_all:
  "map_res f xs = Inr ys \<Longrightarrow> (\<And>x y. x \<in> set xs \<Longrightarrow> f x = Inr y \<Longrightarrow> P y) \<Longrightarrow> list_all P ys"
proof (induction xs arbitrary: ys)
  case (Cons x xs)
  from Cons.prems(1) obtain y ys' where y: "f x = Inr y" "map_res f xs = Inr ys'" "ys = y # ys'"
    by (auto simp: res_simps)
  have "P y" using Cons.prems(2) [OF _ y(1)] by simp
  moreover have "list_all P ys'"
    by (rule Cons.IH [OF y(2)]) (use Cons.prems(2) in auto)
  ultimately show ?case using y(3) by simp
qed simp

definition map_ok :: "('a \<Rightarrow> 'b) \<Rightarrow> 'a res \<Rightarrow> 'b res" where
  "map_ok f r = res_bind r (\<lambda>x. Inr (f x))"

lemma map_ok_Inr_iff [res_simps]: "map_ok f r = Inr y \<longleftrightarrow> (\<exists>x. r = Inr x \<and> y = f x)"
  by (auto simp: map_ok_def res_simps)

lemma map_ok_simps [simp]: "map_ok f (Inr x) = Inr (f x)" "map_ok f (Inl e) = Inl e"
  by (simp_all add: map_ok_def)

text \<open>A sequence of statements that may throw, each with a value: the first throw wins.\<close>

definition all_res :: "'a res list \<Rightarrow> 'a list res" where
  "all_res rs = map_res (\<lambda>r. r) rs"

text \<open>\<open>ok_all P r\<close>: if \<open>r\<close> is a value, the value satisfies \<open>P\<close>.\<close>

definition ok_all :: "('a \<Rightarrow> bool) \<Rightarrow> 'a res \<Rightarrow> bool" where
  "ok_all P r \<longleftrightarrow> (\<forall>x. r = Inr x \<longrightarrow> P x)"

lemma ok_all_simps [simp]:
  "ok_all P (Inl e)" "ok_all P (Inr x) \<longleftrightarrow> P x" "ok_all (\<lambda>x. True) r"
  by (simp_all add: ok_all_def)

lemma ok_all_map_ok: "ok_all (\<lambda>x. P (f x)) r \<Longrightarrow> ok_all P (map_ok f r)"
  by (auto simp: ok_all_def res_simps)

lemma ok_all_map_res:
  "(\<And>x. x \<in> set xs \<Longrightarrow> ok_all P (f x)) \<Longrightarrow> ok_all (list_all P) (map_res f xs)"
  by (auto simp: ok_all_def intro: map_res_list_all)

lemma ok_all_all_res:
  assumes "\<forall>r \<in> set rs. ok_all (list_all P) r"
  shows "ok_all (\<lambda>css. list_all P (concat css)) (all_res rs)"
  unfolding ok_all_def
proof (intro allI impI)
  fix css
  assume "all_res rs = Inr css"
  then have "list_all (list_all P) css"
    unfolding all_res_def by (rule map_res_list_all) (use assms in \<open>auto simp: ok_all_def\<close>)
  then show "list_all P (concat css)" by (auto simp: list_all_iff)
qed

text \<open>\<^verbatim>\<open>for (const x of xs) s = f(s, x)\<close> where the body may throw.\<close>

fun fold_res :: "('s \<Rightarrow> 'a \<Rightarrow> 's res) \<Rightarrow> 's \<Rightarrow> 'a list \<Rightarrow> 's res" where
  "fold_res f s [] = Inr s"
| "fold_res f s (x # xs) = res_bind (f s x) (\<lambda>s'. fold_res f s' xs)"

lemma fold_res_append:
  "fold_res f s (xs @ ys) = res_bind (fold_res f s xs) (\<lambda>s'. fold_res f s' ys)"
  by (induction xs arbitrary: s) (auto simp: res_bind_def split: sum.splits)

lemma fold_res_invariant:
  assumes "fold_res f s xs = Inr t" and "P s"
    and "\<And>s x s'. x \<in> set xs \<Longrightarrow> P s \<Longrightarrow> f s x = Inr s' \<Longrightarrow> P s'"
  shows "P t"
  using assms by (induction xs arbitrary: s) (auto simp: res_simps)

section \<open>Characters and strings\<close>

type_synonym jstr = string

definition code_unit :: "char \<Rightarrow> nat" where
  "code_unit c = of_char c"

definition is_space :: "char \<Rightarrow> bool" where
  "is_space c \<longleftrightarrow> code_unit c \<in> {9, 10, 11, 12, 13, 32, 160}"

definition lower_char :: "char \<Rightarrow> char" where
  "lower_char c = (let n = code_unit c in
     if (65 \<le> n \<and> n \<le> 90) \<or> (192 \<le> n \<and> n \<le> 222 \<and> n \<noteq> 215) then char_of (n + 32) else c)"

definition upper_char :: "char \<Rightarrow> string" where
  "upper_char c = (let n = code_unit c in
     if n = 223 then ''SS''
     else if (97 \<le> n \<and> n \<le> 122) \<or> (224 \<le> n \<and> n \<le> 254 \<and> n \<noteq> 247) then [char_of (n - 32)]
     else [c])"

text \<open>The same functions by nested tests, for evaluation by the simplifier.\<close>

lemma is_space_code [code]:
  "is_space c = (let n = code_unit c in if 32 < n then n = 160 else if n = 32 then True else if n < 9 then False else n \<le> 13)"
  by (auto simp: is_space_def Let_def)

lemma lower_char_code [code]:
  "lower_char c = (let n = code_unit c in
     if 90 < n then (if n < 192 then c else if 222 < n then c else if n = 215 then c else char_of (n + 32))
     else if n < 65 then c else char_of (n + 32))"
  by (auto simp: lower_char_def Let_def)

lemma upper_char_code [code]:
  "upper_char c = (let n = code_unit c in
     if n < 97 then [c] else if n \<le> 122 then [char_of (n - 32)] else if n < 223 then [c] else if n = 223 then ''SS''
     else if 254 < n then [c] else if n = 247 then [c] else [char_of (n - 32)])"
  by (auto simp: upper_char_def Let_def)

definition toLowerCase :: "jstr \<Rightarrow> jstr" where
  "toLowerCase s = map lower_char s"

definition toUpperCase :: "jstr \<Rightarrow> jstr" where
  "toUpperCase s = concat (map upper_char s)"

definition trim :: "jstr \<Rightarrow> jstr" where
  "trim s = rev (dropWhile is_space (rev (dropWhile is_space s)))"

fun split_on :: "char \<Rightarrow> jstr \<Rightarrow> jstr list" where
  "split_on d [] = [[]]"
| "split_on d (c # cs) =
     (if c = d then [] # split_on d cs
      else (case split_on d cs of [] \<Rightarrow> [[c]] | w # ws \<Rightarrow> (c # w) # ws))"

fun join :: "jstr \<Rightarrow> jstr list \<Rightarrow> jstr" where
  "join d [] = []"
| "join d [w] = w"
| "join d (w # v # ws) = w @ d @ join d (v # ws)"

fun starts_with :: "jstr \<Rightarrow> jstr \<Rightarrow> bool" where
  "starts_with s [] = True"
| "starts_with [] (p # ps) = False"
| "starts_with (c # cs) (p # ps) = (c = p \<and> starts_with cs ps)"

fun str_includes :: "jstr \<Rightarrow> jstr \<Rightarrow> bool" where
  "str_includes [] p = (p = [])"
| "str_includes (c # cs) p = (starts_with (c # cs) p \<or> str_includes cs p)"

definition ends_with :: "jstr \<Rightarrow> jstr \<Rightarrow> bool" where
  "ends_with s p = starts_with (rev s) (rev p)"

lemma starts_with_iff: "starts_with s p \<longleftrightarrow> (\<exists>t. s = p @ t)"
  by (induction s p rule: starts_with.induct) auto

lemma str_includes_iff: "str_includes s p \<longleftrightarrow> (\<exists>a b. s = a @ p @ b)"
proof (induction s)
  case Nil
  then show ?case by auto
next
  case (Cons c s)
  have "(\<exists>a b. c # s = a @ p @ b) \<longleftrightarrow> (\<exists>b. c # s = p @ b) \<or> (\<exists>a b. s = a @ p @ b)"
    by (metis append_Cons append_Nil list.sel(3) tl_append2 neq_Nil_conv)
  with Cons show ?case by (simp add: starts_with_iff)
qed

lemma toLowerCase_Nil [simp]: "toLowerCase [] = []"
  and toLowerCase_append: "toLowerCase (s @ t) = toLowerCase s @ toLowerCase t"
  by (simp_all add: toLowerCase_def)

lemma toLowerCase_eq_Nil [simp]: "toLowerCase s = [] \<longleftrightarrow> s = []"
  by (simp add: toLowerCase_def)

lemma split_on_nonempty [simp]: "split_on d s \<noteq> []"
  by (induction s) (auto split: list.splits)

lemma split_on_join: "join [d] (split_on d s) = s"
proof (induction s)
  case Nil
  then show ?case by simp
next
  case (Cons c s)
  obtain w ws where "split_on d s = w # ws" by (cases "split_on d s") auto
  with Cons show ?case by (cases ws) auto
qed

lemma split_on_pieces: "w \<in> set (split_on d s) \<Longrightarrow> d \<notin> set w"
  by (induction s arbitrary: w) (auto split: if_splits list.splits)

lemma split_on_simple: "d \<notin> set s \<Longrightarrow> split_on d s = [s]"
  by (induction s) auto

lemma split_on_append: "d \<notin> set w \<Longrightarrow> split_on d (w @ d # s) = w # split_on d s"
  by (induction w) auto

lemma split_on_joined: "ws \<noteq> [] \<Longrightarrow> \<forall>w\<in>set ws. d \<notin> set w \<Longrightarrow> split_on d (join [d] ws) = ws"
proof (induction ws)
  case (Cons w ws)
  then show ?case by (cases ws) (auto simp: split_on_simple split_on_append)
qed simp

section \<open>Printing numbers\<close>

definition digit_char :: "nat \<Rightarrow> char" where
  "digit_char n = char_of (48 + n)"

fun nat_str :: "nat \<Rightarrow> jstr" where
  "nat_str n = (if n < 10 then [digit_char n] else nat_str (n div 10) @ [digit_char (n mod 10)])"

declare nat_str.simps [simp del]

definition int_str :: "int \<Rightarrow> jstr" where
  "int_str i = (if i < 0 then CHR ''-'' # nat_str (nat (- i)) else nat_str (nat i))"

text \<open>Reading the digits back, for \<^verbatim>\<open>Number(text)\<close> and for the round trip.\<close>

definition is_digit :: "char \<Rightarrow> bool" where
  "is_digit c \<longleftrightarrow> 48 \<le> code_unit c \<and> code_unit c \<le> 57"

definition digit_val :: "char \<Rightarrow> nat" where
  "digit_val c = code_unit c - 48"

definition digits_val :: "jstr \<Rightarrow> nat" where
  "digits_val s = foldl (\<lambda>n c. 10 * n + digit_val c) 0 s"

lemma digit_char_props [simp]:
  assumes "n < 10"
  shows "is_digit (digit_char n)" and "digit_val (digit_char n) = n"
  using assms by (simp_all add: is_digit_def digit_val_def digit_char_def code_unit_def)

lemma nat_str_digits: "s = nat_str n \<Longrightarrow> s \<noteq> [] \<and> (\<forall>c \<in> set s. is_digit c) \<and> digits_val s = n"
proof (induction n arbitrary: s rule: nat_str.induct)
  case (1 n)
  show ?case
  proof (cases "n < 10")
    case True
    with "1.prems" show ?thesis
      by (simp add: nat_str.simps [of n] digits_val_def)
  next
    case False
    note ih = "1.IH" [OF False refl]
    have "s = nat_str (n div 10) @ [digit_char (n mod 10)]"
      using False "1.prems" by (simp add: nat_str.simps [of n])
    with ih show ?thesis by (auto simp: digits_val_def)
  qed
qed

lemma digits_val_nat_str [simp]: "digits_val (nat_str n) = n"
  and nat_str_nonempty [simp]: "nat_str n \<noteq> []"
  and nat_str_is_digit: "c \<in> set (nat_str n) \<Longrightarrow> is_digit c"
  using nat_str_digits [OF refl, of n] by auto

lemma nat_str_inject [simp]: "nat_str m = nat_str n \<longleftrightarrow> m = n"
  by (metis digits_val_nat_str)

section \<open>Stable sorting with a comparator\<close>

text \<open>
  \<^verbatim>\<open>Array.prototype.sort\<close> is stable; for a consistent comparator every stable sort gives the
  same list, so the model is insertion sort. \<open>le a b\<close> stands for \<^verbatim>\<open>compare(a, b) <= 0\<close>.
\<close>

fun insert_by :: "('a \<Rightarrow> 'a \<Rightarrow> bool) \<Rightarrow> 'a \<Rightarrow> 'a list \<Rightarrow> 'a list" where
  "insert_by le x [] = [x]"
| "insert_by le x (y # ys) = (if le x y then x # y # ys else y # insert_by le x ys)"

fun sort_by :: "('a \<Rightarrow> 'a \<Rightarrow> bool) \<Rightarrow> 'a list \<Rightarrow> 'a list" where
  "sort_by le [] = []"
| "sort_by le (x # xs) = insert_by le x (sort_by le xs)"

lemma mset_insert_by [simp]: "mset (insert_by le x xs) = add_mset x (mset xs)"
  by (induction xs) auto

lemma mset_sort_by [simp]: "mset (sort_by le xs) = mset xs"
  by (induction xs) auto

lemma set_insert_by [simp]: "set (insert_by le x xs) = insert x (set xs)"
  by (metis mset_insert_by set_mset_add_mset_insert set_mset_mset)

lemma set_sort_by [simp]: "set (sort_by le xs) = set xs"
  by (metis mset_sort_by set_mset_mset)

lemma length_sort_by [simp]: "length (sort_by le xs) = length xs"
  by (metis mset_sort_by size_mset)

lemma sort_by_eq_Nil [simp]: "sort_by le xs = [] \<longleftrightarrow> xs = []"
  by (metis length_0_conv length_sort_by)

lemma distinct_map_sort_by [simp]: "distinct (map f (sort_by le xs)) \<longleftrightarrow> distinct (map f xs)"
  by (rule mset_eq_imp_distinct_iff) simp

lemma sorted_insert_by:
  assumes total: "\<And>a b. le a b \<or> le b a" and trans: "\<And>a b c. le a b \<Longrightarrow> le b c \<Longrightarrow> le a c"
    and sorted: "sorted_wrt le xs"
  shows "sorted_wrt le (insert_by le x xs)"
  using sorted
proof (induction xs)
  case Nil
  then show ?case by simp
next
  case (Cons y ys)
  then show ?case using total [of x y] by (auto intro: trans)
qed

lemma sorted_sort_by:
  assumes "\<And>a b. le a b \<or> le b a" and "\<And>a b c. le a b \<Longrightarrow> le b c \<Longrightarrow> le a c"
  shows "sorted_wrt le (sort_by le xs)"
proof (induction xs)
  case (Cons x xs)
  from assms Cons.IH show ?case by (simp add: sorted_insert_by [where le = le])
qed simp

lemma sorted_wrt_unique:
  assumes "sorted_wrt le xs" and "sorted_wrt le ys" and "mset xs = mset ys"
    and "\<And>a b. a \<in> set xs \<Longrightarrow> b \<in> set xs \<Longrightarrow> le a b \<Longrightarrow> le b a \<Longrightarrow> a = b"
  shows "xs = ys"
  using assms
proof (induction xs arbitrary: ys)
  case (Cons x xs)
  then obtain y ys' where ys: "ys = y # ys'" by (cases ys) auto
  have s: "set (x # xs) = set ys" using Cons.prems(3) by (metis set_mset_mset)
  have "x = y"
  proof (rule ccontr)
    assume "x \<noteq> y"
    with s ys have "x \<in> set ys'" "y \<in> set xs" by auto
    with Cons.prems(1,2) ys have "le x y" "le y x" by auto
    with \<open>x \<noteq> y\<close> Cons.prems(4) \<open>y \<in> set xs\<close> show False by simp
  qed
  with Cons.IH [of ys'] Cons.prems ys show ?case by simp
qed simp

section \<open>Folds\<close>

lemma list_ex_concat_map: "list_ex P (concat (map f xs)) \<longleftrightarrow> (\<exists>x \<in> set xs. list_ex P (f x))"
  by (induction xs) auto

lemma foldl_invariant: "P s \<Longrightarrow> (\<And>s x. P s \<Longrightarrow> P (f s x)) \<Longrightarrow> P (foldl f s xs)"
  by (induction xs arbitrary: s) auto

end
