(* ===== verification/JsValues.thy ===== *)
theory JsValues
  imports Prelude
begin

text \<open>
  The values the engine computes with. Workflow definitions, agent outputs and the shared
  memory are untyped JSON-like values in the TypeScript source (\<^verbatim>\<open>unknown\<close>, \<^verbatim>\<open>any\<close>,
  \<^verbatim>\<open>Record<string, unknown>\<close>), so the model has one datatype for them and the JavaScript
  operations the source applies: truthiness, \<^verbatim>\<open>||\<close>, \<^verbatim>\<open>??\<close>, property access, \<^verbatim>\<open>in\<close>,
  \<^verbatim>\<open>String\<close>, \<^verbatim>\<open>Number\<close>, \<^verbatim>\<open>===\<close>, \<^verbatim>\<open>Object.is\<close>, \<^verbatim>\<open><\<close>, \<^verbatim>\<open>+\<close>, object spread, \<^verbatim>\<open>Object.entries\<close>,
  \<^verbatim>\<open>JSON.stringify\<close> and \<^verbatim>\<open>JSON.parse\<close> of its result.

  Numbers are exact rationals with the three non-finite values; IEEE rounding and the
  negative zero are not modelled. An object is its list of own properties in creation
  order. \<open>JHost n\<close> is a value the runtime supplies through a prototype
  (\<^verbatim>\<open>constructor\<close>, \<^verbatim>\<open>toString\<close>, ...): reading a property that is not an own property finds it,
  which matters where the source uses plain objects as dictionaries. Objects have no
  identity in the model: \<^verbatim>\<open>===\<close> between two object values is false.
\<close>

section \<open>Values\<close>

datatype jnum = Fin rat | NaN | PInf | NInf

datatype jval =
    JUndef
  | JNull
  | JBool bool
  | JNum jnum
  | JStr jstr
  | JArr "jval list"
  | JObj "(jstr \<times> jval) list"
  | JHost jstr

type_synonym jobj = "(jstr \<times> jval) list"

abbreviation num :: "rat \<Rightarrow> jval" where
  "num q \<equiv> JNum (Fin q)"

section \<open>Numbers\<close>

fun is_finite_num :: "jnum \<Rightarrow> bool" where
  "is_finite_num (Fin q) = True"
| "is_finite_num _ = False"

fun num_lt :: "jnum \<Rightarrow> jnum \<Rightarrow> bool" where
  "num_lt (Fin a) (Fin b) = (a < b)"
| "num_lt (Fin a) PInf = True"
| "num_lt NInf (Fin b) = True"
| "num_lt NInf PInf = True"
| "num_lt _ _ = False"

fun num_le :: "jnum \<Rightarrow> jnum \<Rightarrow> bool" where
  "num_le NaN _ = False"
| "num_le _ NaN = False"
| "num_le a b = (\<not> num_lt b a)"

fun num_add :: "jnum \<Rightarrow> jnum \<Rightarrow> jnum" where
  "num_add (Fin a) (Fin b) = Fin (a + b)"
| "num_add NaN _ = NaN"
| "num_add _ NaN = NaN"
| "num_add PInf NInf = NaN"
| "num_add NInf PInf = NaN"
| "num_add PInf _ = PInf"
| "num_add _ PInf = PInf"
| "num_add NInf _ = NInf"
| "num_add _ NInf = NInf"

fun num_eq :: "jnum \<Rightarrow> jnum \<Rightarrow> bool" where
  "num_eq NaN _ = False"
| "num_eq a b = (a = b)"

fun num_floor :: "jnum \<Rightarrow> jnum" where
  "num_floor (Fin q) = Fin (of_int \<lfloor>q\<rfloor>)"
| "num_floor x = x"

text \<open>\<^verbatim>\<open>Math.round\<close>: the nearest integer, ties towards plus infinity.\<close>

fun num_round :: "jnum \<Rightarrow> jnum" where
  "num_round (Fin q) = Fin (of_int \<lfloor>q + 1 / 2\<rfloor>)"
| "num_round x = x"

text \<open>\<^verbatim>\<open>Math.max\<close> and \<^verbatim>\<open>Math.min\<close> of two arguments.\<close>

definition num_max :: "jnum \<Rightarrow> jnum \<Rightarrow> jnum" where
  "num_max a b = (if a = NaN \<or> b = NaN then NaN else if num_lt a b then b else a)"

definition num_min :: "jnum \<Rightarrow> jnum \<Rightarrow> jnum" where
  "num_min a b = (if a = NaN \<or> b = NaN then NaN else if num_lt b a then b else a)"

lemma num_max_Fin [simp]: "num_max (Fin a) (Fin b) = Fin (max a b)"
  and num_min_Fin [simp]: "num_min (Fin a) (Fin b) = Fin (min a b)"
  by (auto simp: num_max_def num_min_def max_def min_def)

lemma num_le_Fin [simp]: "num_le (Fin a) (Fin b) \<longleftrightarrow> a \<le> b"
  by auto

text \<open>
  \<^verbatim>\<open>Number.prototype.toString\<close>: exact for integers and for decimals with at most
  17 fraction digits.
\<close>

fun frac_digits :: "nat \<Rightarrow> rat \<Rightarrow> jstr" where
  "frac_digits 0 q = []"
| "frac_digits (Suc n) q =
     (if q = 0 then [] else digit_char (nat \<lfloor>10 * q\<rfloor>) # frac_digits n (10 * q - of_int \<lfloor>10 * q\<rfloor>))"

definition rat_str :: "rat \<Rightarrow> jstr" where
  "rat_str q =
     (if q = of_int \<lfloor>q\<rfloor> then int_str \<lfloor>q\<rfloor>
      else (if q < 0 then ''-'' else []) @
        (let a = \<bar>q\<bar> in int_str \<lfloor>a\<rfloor> @ ''.'' @ frac_digits 17 (a - of_int \<lfloor>a\<rfloor>)))"

fun num_str :: "jnum \<Rightarrow> jstr" where
  "num_str (Fin q) = rat_str q"
| "num_str NaN = ''NaN''"
| "num_str PInf = ''Infinity''"
| "num_str NInf = ''-Infinity''"

text \<open>\<^verbatim>\<open>Number(text)\<close> on a string.\<close>

definition hex_val :: "char \<Rightarrow> nat option" where
  "hex_val c = (let n = code_unit c in
     if is_digit c then Some (n - 48)
     else if 97 \<le> n \<and> n \<le> 102 then Some (n - 87)
     else if 65 \<le> n \<and> n \<le> 70 then Some (n - 55) else None)"

definition radix_val :: "nat \<Rightarrow> jstr \<Rightarrow> jnum" where
  "radix_val r s =
     (if s = [] \<or> (\<exists>c \<in> set s. case hex_val c of None \<Rightarrow> True | Some d \<Rightarrow> r \<le> d) then NaN
      else Fin (of_nat (foldl (\<lambda>n c. r * n + (case hex_val c of None \<Rightarrow> 0 | Some d \<Rightarrow> d)) 0 s)))"

definition all_digits :: "jstr \<Rightarrow> bool" where
  "all_digits s \<longleftrightarrow> s \<noteq> [] \<and> list_all is_digit s"

definition scale10 :: "rat \<Rightarrow> jstr \<Rightarrow> jnum" where
  "scale10 m e =
     (case e of
        [] \<Rightarrow> NaN
      | c # cs \<Rightarrow>
          (if c = CHR ''-'' then (if all_digits cs then Fin (m / 10 ^ digits_val cs) else NaN)
           else if c = CHR ''+'' then (if all_digits cs then Fin (m * 10 ^ digits_val cs) else NaN)
           else if all_digits e then Fin (m * 10 ^ digits_val e) else NaN))"

definition parse_decimal :: "jstr \<Rightarrow> jnum" where
  "parse_decimal s =
     (let ip = takeWhile is_digit s;
          r = dropWhile is_digit s;
          dotted = (r \<noteq> [] \<and> hd r = CHR ''.'');
          fp = (if dotted then takeWhile is_digit (tl r) else []);
          r' = (if dotted then dropWhile is_digit (tl r) else r);
          m = of_nat (digits_val (ip @ fp)) / 10 ^ length fp
      in if ip = [] \<and> fp = [] then NaN
         else case r' of
             [] \<Rightarrow> Fin m
           | c # cs \<Rightarrow> if c = CHR ''e'' \<or> c = CHR ''E'' then scale10 m cs else NaN)"

fun num_neg :: "jnum \<Rightarrow> jnum" where
  "num_neg (Fin q) = Fin (- q)"
| "num_neg NaN = NaN"
| "num_neg PInf = NInf"
| "num_neg NInf = PInf"

definition parse_signed :: "jstr \<Rightarrow> jnum" where
  "parse_signed s =
     (let u = (\<lambda>t. if t = ''Infinity'' then PInf else parse_decimal t)
      in case s of
           [] \<Rightarrow> NaN
         | c # cs \<Rightarrow> if c = CHR ''-'' then num_neg (u cs) else if c = CHR ''+'' then u cs else u s)"

definition string_to_number :: "jstr \<Rightarrow> jnum" where
  "string_to_number s0 =
     (let s = trim s0 in
      if s = [] then Fin 0
      else if starts_with s ''0x'' \<or> starts_with s ''0X'' then radix_val 16 (drop 2 s)
      else if starts_with s ''0o'' \<or> starts_with s ''0O'' then radix_val 8 (drop 2 s)
      else if starts_with s ''0b'' \<or> starts_with s ''0B'' then radix_val 2 (drop 2 s)
      else parse_signed s)"

section \<open>Truthiness and the logical operators\<close>

fun truthy :: "jval \<Rightarrow> bool" where
  "truthy JUndef = False"
| "truthy JNull = False"
| "truthy (JBool b) = b"
| "truthy (JNum n) = (n \<noteq> NaN \<and> n \<noteq> Fin 0)"
| "truthy (JStr s) = (s \<noteq> [])"
| "truthy _ = True"

definition js_or :: "jval \<Rightarrow> jval \<Rightarrow> jval" where
  "js_or a b = (if truthy a then a else b)"

fun nullish :: "jval \<Rightarrow> bool" where
  "nullish JUndef = True"
| "nullish JNull = True"
| "nullish _ = False"

definition js_coalesce :: "jval \<Rightarrow> jval \<Rightarrow> jval" where
  "js_coalesce a b = (if nullish a then b else a)"

text \<open>\<^verbatim>\<open>a || b || c\<close> and \<^verbatim>\<open>a ?? b ?? c\<close> over a list of operands.\<close>

fun first_truthy :: "jval list \<Rightarrow> jval" where
  "first_truthy [] = JUndef"
| "first_truthy [v] = v"
| "first_truthy (v # w # ws) = js_or v (first_truthy (w # ws))"

fun first_defined :: "jval list \<Rightarrow> jval" where
  "first_defined [] = JUndef"
| "first_defined [v] = v"
| "first_defined (v # w # ws) = js_coalesce v (first_defined (w # ws))"

section \<open>Objects\<close>

text \<open>The property names every plain object inherits from \<^verbatim>\<open>Object.prototype\<close>.\<close>

definition object_proto :: "jstr list" where
  "object_proto =
     [''constructor'', ''__defineGetter__'', ''__defineSetter__'', ''hasOwnProperty'',
      ''__lookupGetter__'', ''__lookupSetter__'', ''isPrototypeOf'', ''propertyIsEnumerable'',
      ''toString'', ''valueOf'', ''__proto__'', ''toLocaleString'']"

definition array_proto :: "jstr list" where
  "array_proto = object_proto @
     [''at'', ''concat'', ''copyWithin'', ''fill'', ''find'', ''findIndex'', ''findLast'',
      ''findLastIndex'', ''lastIndexOf'', ''pop'', ''push'', ''reverse'', ''shift'', ''unshift'',
      ''slice'', ''sort'', ''splice'', ''includes'', ''indexOf'', ''join'', ''keys'', ''entries'',
      ''values'', ''forEach'', ''filter'', ''flat'', ''flatMap'', ''map'', ''every'', ''some'',
      ''reduce'', ''reduceRight'', ''toReversed'', ''toSorted'', ''toSpliced'', ''with'']"

definition string_proto :: "jstr list" where
  "string_proto = object_proto @
     [''anchor'', ''at'', ''big'', ''blink'', ''bold'', ''charAt'', ''charCodeAt'', ''codePointAt'',
      ''concat'', ''endsWith'', ''fontcolor'', ''fontsize'', ''fixed'', ''includes'', ''indexOf'',
      ''italics'', ''lastIndexOf'', ''link'', ''localeCompare'', ''match'', ''matchAll'',
      ''normalize'', ''padEnd'', ''padStart'', ''repeat'', ''replace'', ''replaceAll'', ''search'',
      ''slice'', ''small'', ''split'', ''strike'', ''sub'', ''substr'', ''substring'', ''sup'',
      ''startsWith'', ''trim'', ''trimStart'', ''trimLeft'', ''trimEnd'', ''trimRight'',
      ''toLocaleLowerCase'', ''toLocaleUpperCase'', ''toLowerCase'', ''toUpperCase'',
      ''isWellFormed'', ''toWellFormed'']"

definition number_proto :: "jstr list" where
  "number_proto = object_proto @ [''toExponential'', ''toFixed'', ''toPrecision'']"

definition function_proto :: "jstr list" where
  "function_proto = object_proto @ [''name'', ''length'', ''arguments'', ''caller'', ''apply'', ''bind'', ''call'']"

text \<open>\<^verbatim>\<open>o[k]\<close>: the own property, else what \<^verbatim>\<open>Object.prototype\<close> supplies.\<close>

definition obj_get :: "jobj \<Rightarrow> jstr \<Rightarrow> jval" where
  "obj_get o' k = (case map_of o' k of Some v \<Rightarrow> v
                   | None \<Rightarrow> if k \<in> set object_proto then JHost k else JUndef)"

text \<open>Definition of an own property (object literal, spread, \<^verbatim>\<open>Object.fromEntries\<close>).\<close>

fun obj_put :: "(jstr \<times> 'v) list \<Rightarrow> jstr \<Rightarrow> 'v \<Rightarrow> (jstr \<times> 'v) list" where
  "obj_put [] k v = [(k, v)]"
| "obj_put ((k', v') # o') k v = (if k = k' then (k, v) # o' else (k', v') # obj_put o' k v)"

text \<open>
  Assignment \<^verbatim>\<open>o[k] = v\<close>: as a definition, except that assigning \<^verbatim>\<open>__proto__\<close> never creates
  an own property.
\<close>

definition obj_assign :: "jobj \<Rightarrow> jstr \<Rightarrow> jval \<Rightarrow> jobj" where
  "obj_assign o' k v =
     (if k = ''__proto__'' \<and> k \<notin> fst ` set o' then o' else obj_put o' k v)"

definition obj_delete :: "(jstr \<times> 'v) list \<Rightarrow> jstr \<Rightarrow> (jstr \<times> 'v) list" where
  "obj_delete o' k = filter (\<lambda>kv. fst kv \<noteq> k) o'"

text \<open>\<^verbatim>\<open>{ ...a, ...b }\<close> on property lists, and an object literal from its entries.\<close>

definition obj_spread :: "jobj \<Rightarrow> jobj \<Rightarrow> jobj" where
  "obj_spread a b = foldl (\<lambda>acc kv. obj_put acc (fst kv) (snd kv)) a b"

definition obj_of :: "(jstr \<times> jval) list \<Rightarrow> jobj" where
  "obj_of kvs = obj_spread [] kvs"

text \<open>An array index: a canonical decimal numeral below \<^verbatim>\<open>2^32 - 1\<close>.\<close>

definition array_index :: "jstr \<Rightarrow> nat option" where
  "array_index k =
     (if all_digits k \<and> nat_str (digits_val k) = k \<and> digits_val k < 4294967295
      then Some (digits_val k) else None)"

text \<open>\<^verbatim>\<open>Object.entries\<close>: the integer keys in ascending order, then the rest in creation order.\<close>

definition js_entries :: "(jstr \<times> 'v) list \<Rightarrow> (jstr \<times> 'v) list" where
  "js_entries o' =
     sort_by (\<lambda>a b. the (array_index (fst a)) \<le> the (array_index (fst b)))
       (filter (\<lambda>kv. array_index (fst kv) \<noteq> None) o')
     @ filter (\<lambda>kv. array_index (fst kv) = None) o'"

section \<open>Property access\<close>

fun js_get :: "jval \<Rightarrow> jstr \<Rightarrow> jval" where
  "js_get (JObj o') k = obj_get o' k"
| "js_get (JArr xs) k =
     (case array_index k of
        Some i \<Rightarrow> if i < length xs then xs ! i else JUndef
      | None \<Rightarrow> if k = ''length'' then num (of_nat (length xs))
                else if k \<in> set array_proto then JHost k else JUndef)"
| "js_get (JStr s) k =
     (case array_index k of
        Some i \<Rightarrow> if i < length s then JStr [s ! i] else JUndef
      | None \<Rightarrow> if k = ''length'' then num (of_nat (length s))
                else if k \<in> set string_proto then JHost k else JUndef)"
| "js_get (JNum n) k = (if k \<in> set number_proto then JHost k else JUndef)"
| "js_get (JBool b) k = (if k \<in> set object_proto then JHost k else JUndef)"
| "js_get (JHost h) k =
     (if k \<in> set (if h = ''__proto__'' then object_proto else function_proto) then JHost k else JUndef)"
| "js_get JUndef k = JUndef"
| "js_get JNull k = JUndef"

text \<open>
  \<open>js_get\<close> is optional access \<^verbatim>\<open>v?.k\<close>; the plain \<^verbatim>\<open>v.k\<close> throws on \<^verbatim>\<open>undefined\<close> and \<^verbatim>\<open>null\<close>.
\<close>

definition js_member :: "jval \<Rightarrow> jstr \<Rightarrow> jval res" where
  "js_member v k =
     (case v of
        JUndef \<Rightarrow> Inl (TypeError (''Cannot read properties of undefined (reading '' @ [CHR 39] @ k @ [CHR 39] @ '')''))
      | JNull \<Rightarrow> Inl (TypeError (''Cannot read properties of null (reading '' @ [CHR 39] @ k @ [CHR 39] @ '')''))
      | _ \<Rightarrow> Inr (js_get v k))"

fun js_path :: "jval \<Rightarrow> jstr list \<Rightarrow> jval" where
  "js_path v [] = v"
| "js_path v (k # ks) = js_path (js_get v k) ks"

text \<open>\<^verbatim>\<open>k in o\<close> on a plain object.\<close>

definition obj_has :: "(jstr \<times> 'v) list \<Rightarrow> jstr \<Rightarrow> bool" where
  "obj_has o' k \<longleftrightarrow> k \<in> fst ` set o' \<or> k \<in> set object_proto"

text \<open>\<^verbatim>\<open>isRecord\<close> (compiler.ts, condition-evaluator.ts, mapping.ts): an object that is no array.\<close>

fun isRecord :: "jval \<Rightarrow> bool" where
  "isRecord (JObj o') = True"
| "isRecord (JHost h) = (h = ''__proto__'')"
| "isRecord _ = False"

fun own_props :: "jval \<Rightarrow> jobj" where
  "own_props (JObj o') = o'"
| "own_props (JArr xs) = zip (map nat_str [0..<length xs]) xs"
| "own_props (JStr s) = zip (map nat_str [0..<length s]) (map (\<lambda>c. JStr [c]) s)"
| "own_props _ = []"

fun is_object :: "jval \<Rightarrow> bool" where
  "is_object (JObj o') = True"
| "is_object (JArr xs) = True"
| "is_object (JHost h) = (h = ''__proto__'')"
| "is_object _ = False"

fun is_array :: "jval \<Rightarrow> bool" where
  "is_array (JArr xs) = True"
| "is_array _ = False"

fun arr_elems :: "jval \<Rightarrow> jval list" where
  "arr_elems (JArr xs) = xs"
| "arr_elems _ = []"

fun is_str :: "jval \<Rightarrow> bool" where
  "is_str (JStr s) = True"
| "is_str _ = False"

fun is_num :: "jval \<Rightarrow> bool" where
  "is_num (JNum n) = True"
| "is_num _ = False"

section \<open>Conversions, comparison, addition\<close>

fun to_string :: "jval \<Rightarrow> jstr" where
  "to_string JUndef = ''undefined''"
| "to_string JNull = ''null''"
| "to_string (JBool b) = (if b then ''true'' else ''false'')"
| "to_string (JNum n) = num_str n"
| "to_string (JStr s) = s"
| "to_string (JArr xs) = join '','' (map (\<lambda>v. if nullish v then [] else to_string v) xs)"
| "to_string (JObj o') = ''[object Object]''"
| "to_string (JHost h) =
     (if h = ''__proto__'' then ''[object Object]''
      else ''function '' @ (if h = ''constructor'' then ''Object'' else h) @ ''() { [native code] }'')"

fun to_number :: "jval \<Rightarrow> jnum" where
  "to_number JUndef = NaN"
| "to_number JNull = Fin 0"
| "to_number (JBool b) = Fin (if b then 1 else 0)"
| "to_number (JNum n) = n"
| "to_number (JStr s) = string_to_number s"
| "to_number (JArr xs) = string_to_number (to_string (JArr xs))"
| "to_number (JObj o') = NaN"
| "to_number (JHost h) = NaN"

fun str_lt :: "jstr \<Rightarrow> jstr \<Rightarrow> bool" where
  "str_lt _ [] = False"
| "str_lt [] (c # cs) = True"
| "str_lt (a # as) (c # cs) = (code_unit a < code_unit c \<or> a = c \<and> str_lt as cs)"

abbreviation str_le :: "jstr \<Rightarrow> jstr \<Rightarrow> bool" where
  "str_le a b \<equiv> \<not> str_lt b a"

text \<open>The value of an operand of \<^verbatim>\<open><\<close> and \<^verbatim>\<open>+\<close> after \<^verbatim>\<open>ToPrimitive\<close>.\<close>

fun to_primitive :: "jval \<Rightarrow> jval" where
  "to_primitive (JArr xs) = JStr (to_string (JArr xs))"
| "to_primitive (JObj o') = JStr (to_string (JObj o'))"
| "to_primitive (JHost h) = JStr (to_string (JHost h))"
| "to_primitive v = v"

definition js_lt :: "jval \<Rightarrow> jval \<Rightarrow> bool" where
  "js_lt a b =
     (case (to_primitive a, to_primitive b) of
        (JStr s, JStr t) \<Rightarrow> str_lt s t
      | (p, q) \<Rightarrow> num_lt (to_number p) (to_number q))"

definition js_ge :: "jval \<Rightarrow> jval \<Rightarrow> bool" where
  "js_ge a b =
     (case (to_primitive a, to_primitive b) of
        (JStr s, JStr t) \<Rightarrow> \<not> str_lt s t
      | (p, q) \<Rightarrow> num_le (to_number q) (to_number p))"

definition js_add :: "jval \<Rightarrow> jval \<Rightarrow> jval" where
  "js_add a b =
     (let p = to_primitive a; q = to_primitive b in
      if is_str p \<or> is_str q then JStr (to_string p @ to_string q)
      else JNum (num_add (to_number p) (to_number q)))"

fun strict_eq :: "jval \<Rightarrow> jval \<Rightarrow> bool" where
  "strict_eq (JNum a) (JNum b) = num_eq a b"
| "strict_eq (JArr a) (JArr b) = False"
| "strict_eq (JObj a) (JObj b) = False"
| "strict_eq a b = (a = b)"

fun object_is :: "jval \<Rightarrow> jval \<Rightarrow> bool" where
  "object_is (JNum a) (JNum b) = (a = b)"
| "object_is a b = strict_eq a b"

section \<open>JSON\<close>

definition nibble_char :: "nat \<Rightarrow> char" where
  "nibble_char n = char_of (if n < 10 then 48 + n else 87 + n)"

text \<open>\<^verbatim>\<open>encodeURIComponent\<close> on characters up to \<^verbatim>\<open>U+00FF\<close>, whose UTF-8 form has one or two bytes.\<close>

definition percent_byte :: "nat \<Rightarrow> jstr" where
  "percent_byte n = ''%'' @ concat (map (\<lambda>k. upper_char (nibble_char k)) [n div 16, n mod 16])"

definition unreserved :: "char \<Rightarrow> bool" where
  "unreserved c \<longleftrightarrow> (let n = code_unit c in
     48 \<le> n \<and> n \<le> 57 \<or> 65 \<le> n \<and> n \<le> 90 \<or> 97 \<le> n \<and> n \<le> 122 \<or> c \<in> set ''-_.!~*'' \<or> n \<in> {39, 40, 41})"

definition encodeURIComponent :: "jstr \<Rightarrow> jstr" where
  "encodeURIComponent s = concat (map (\<lambda>c.
     let n = code_unit c in
     if unreserved c then [c] else if n < 128 then percent_byte n else percent_byte (192 + n div 64) @ percent_byte (128 + n mod 64)) s)"

definition json_escape :: "char \<Rightarrow> jstr" where
  "json_escape c =
     (let n = code_unit c in
      if n = 34 then [CHR 92, CHR 34]
      else if n = 92 then [CHR 92, CHR 92]
      else if n = 8 then CHR 92 # ''b''
      else if n = 9 then CHR 92 # ''t''
      else if n = 10 then CHR 92 # ''n''
      else if n = 12 then CHR 92 # ''f''
      else if n = 13 then CHR 92 # ''r''
      else if n < 32 then CHR 92 # ''u00'' @ [nibble_char (n div 16), nibble_char (n mod 16)]
      else [c])"

definition json_quote :: "jstr \<Rightarrow> jstr" where
  "json_quote s = CHR 34 # concat (map json_escape s) @ [CHR 34]"

text \<open>\<^verbatim>\<open>JSON.stringify\<close>; \<open>None\<close> is \<^verbatim>\<open>undefined\<close>.\<close>

fun json_stringify :: "jval \<Rightarrow> jstr option" where
  "json_stringify JUndef = None"
| "json_stringify JNull = Some ''null''"
| "json_stringify (JBool b) = Some (if b then ''true'' else ''false'')"
| "json_stringify (JNum n) = Some (case n of Fin q \<Rightarrow> rat_str q | _ \<Rightarrow> ''null'')"
| "json_stringify (JStr s) = Some (json_quote s)"
| "json_stringify (JArr xs) =
     Some (''['' @ join '','' (map (\<lambda>v. case json_stringify v of None \<Rightarrow> ''null'' | Some t \<Rightarrow> t) xs) @ '']'')"
| "json_stringify (JObj o') =
     (let parts = map (\<lambda>kv. (fst kv, json_stringify (snd kv))) o';
          kept = js_entries (map (\<lambda>kt. (fst kt, the (snd kt))) (filter (\<lambda>kt. snd kt \<noteq> None) parts))
      in Some (''{'' @ join '','' (map (\<lambda>kv. json_quote (fst kv) @ '':'' @ snd kv) kept) @ ''}''))"
| "json_stringify (JHost h) = (if h = ''__proto__'' then Some ''{}'' else None)"

text \<open>
  \<^verbatim>\<open>JSON.parse(JSON.stringify(v))\<close> as one operation on values: \<^verbatim>\<open>undefined\<close> and functions
  vanish from objects and become \<^verbatim>\<open>null\<close> in arrays, non-finite numbers become \<^verbatim>\<open>null\<close>;
  \<open>None\<close> where \<^verbatim>\<open>JSON.stringify\<close> gives \<^verbatim>\<open>undefined\<close> (and \<^verbatim>\<open>JSON.parse\<close> would throw).
\<close>

fun json_clone :: "jval \<Rightarrow> jval option" where
  "json_clone JUndef = None"
| "json_clone JNull = Some JNull"
| "json_clone (JBool b) = Some (JBool b)"
| "json_clone (JNum n) = Some (if is_finite_num n then JNum n else JNull)"
| "json_clone (JStr s) = Some (JStr s)"
| "json_clone (JArr xs) =
     Some (JArr (map (\<lambda>v. case json_clone v of None \<Rightarrow> JNull | Some w \<Rightarrow> w) xs))"
| "json_clone (JObj o') =
     Some (JObj (concat (map (\<lambda>kv. case json_clone (snd kv) of None \<Rightarrow> [] | Some w \<Rightarrow> [(fst kv, w)]) o')))"
| "json_clone (JHost h) = (if h = ''__proto__'' then Some (JObj []) else None)"

text \<open>
  \<open>wf_val\<close>: no object has a key twice. \<open>is_json\<close>: the values a JSON document denotes.
\<close>

fun wf_val :: "jval \<Rightarrow> bool" where
  "wf_val (JArr xs) = list_all (\<lambda>v. wf_val v) xs"
| "wf_val (JObj o') = (distinct (map fst o') \<and> list_all (\<lambda>kv. wf_val (snd kv)) o')"
| "wf_val _ = True"

fun is_json :: "jval \<Rightarrow> bool" where
  "is_json JUndef = False"
| "is_json (JHost h) = False"
| "is_json (JNum n) = is_finite_num n"
| "is_json (JArr xs) = list_all (\<lambda>v. is_json v) xs"
| "is_json (JObj o') = (distinct (map fst o') \<and> list_all (\<lambda>kv. is_json (snd kv)) o')"
| "is_json _ = True"

end
