(* ===== verification/JsLaws.thy ===== *)
theory JsLaws
  imports JsValues
begin

text \<open>
  Laws of the JavaScript value operations: the dictionary interface that plain objects
  provide (\<open>dictionary\<close>, interpreted on property lists), preservation of well-formed values,
  the order of \<^verbatim>\<open>Object.entries\<close>, and that cloning through JSON keeps JSON values.
\<close>

section \<open>Plain objects as dictionaries\<close>

locale dictionary =
  fixes empty :: "'o"
    and get :: "'o \<Rightarrow> 'k \<Rightarrow> 'v"
    and put :: "'o \<Rightarrow> 'k \<Rightarrow> 'v \<Rightarrow> 'o"
    and remove :: "'o \<Rightarrow> 'k \<Rightarrow> 'o"
  assumes get_put: "get (put d k v) k' = (if k' = k then v else get d k')"
    and get_remove: "get (remove d k) k' = (if k' = k then get empty k else get d k')"
begin

lemma get_put_same: "get (put d k v) k = v"
  by (simp add: get_put)

lemma get_put_other: "k' \<noteq> k \<Longrightarrow> get (put d k v) k' = get d k'"
  by (simp add: get_put)

lemma get_put_all:
  "get (foldl (\<lambda>acc kv. put acc (fst kv) (snd kv)) d kvs) k =
     (case map_of (rev kvs) k of Some v \<Rightarrow> v | None \<Rightarrow> get d k)"
proof (induction kvs arbitrary: d)
  case (Cons kv kvs)
  have "map_of (rev (kv # kvs)) k = (case map_of (rev kvs) k of Some v \<Rightarrow> Some v
        | None \<Rightarrow> if k = fst kv then Some (snd kv) else None)"
    by (cases kv) (auto simp: map_add_def split: option.splits)
  then show ?case
    by (auto simp: Cons.IH get_put split: option.splits)
qed simp

lemma get_put_all_other:
  "k \<notin> fst ` set kvs \<Longrightarrow> get (foldl (\<lambda>acc kv. put acc (fst kv) (snd kv)) d kvs) k = get d k"
proof -
  assume "k \<notin> fst ` set kvs"
  then have "map_of (rev kvs) k = None" by (simp add: map_of_eq_None_iff)
  then show ?thesis by (simp add: get_put_all)
qed

end

lemma map_of_obj_put: "map_of (obj_put o' k v) k' = (if k' = k then Some v else map_of o' k')"
  by (induction o' k v rule: obj_put.induct) auto

lemma map_of_obj_delete: "map_of (obj_delete o' k) k' = (if k' = k then None else map_of o' k')"
  by (induction o') (auto simp: obj_delete_def)

interpretation obj: dictionary "[]" obj_get obj_put obj_delete
  by unfold_locales
    (auto simp: obj_get_def map_of_obj_put map_of_obj_delete split: option.splits)

lemmas obj_read_write [obj_simps, simp] = obj.get_put_same obj.get_put_other

lemma keys_obj_put [simp]: "fst ` set (obj_put o' k v) = insert k (fst ` set o')"
  by (induction o' k v rule: obj_put.induct) auto

lemma keys_obj_delete [simp]: "fst ` set (obj_delete o' k) = fst ` set o' - {k}"
  by (auto simp: obj_delete_def)

lemma distinct_obj_put: "distinct (map fst (obj_put o' k v)) \<longleftrightarrow> distinct (map fst o')"
proof (induction o' k v rule: obj_put.induct)
  case (2 k' v' o' k v)
  have "k' \<notin> fst ` set (obj_put o' k v) \<longleftrightarrow> k' \<notin> fst ` set o'" if "k \<noteq> k'"
    using that by simp
  with 2 show ?case by (auto simp del: keys_obj_put)
qed simp

lemma distinct_obj_delete: "distinct (map fst o') \<Longrightarrow> distinct (map fst (obj_delete o' k))"
  by (simp add: obj_delete_def distinct_map_filter)

lemma set_obj_put: "set (obj_put o' k v) \<subseteq> insert (k, v) (set o')"
  by (induction o' k v rule: obj_put.induct) auto

lemma obj_get_obj_put_eq: "obj_get (obj_put o' k v) k' = (if k' = k then v else obj_get o' k')"
  by (rule obj.get_put)

lemma obj_get_Cons: "obj_get ((k, v) # o') k' = (if k' = k then v else obj_get o' k')"
  by (simp add: obj_get_def)

lemma obj_get_own: "map_of o' k = Some v \<Longrightarrow> obj_get o' k = v"
  by (simp add: obj_get_def)

lemma obj_get_absent: "k \<notin> fst ` set o' \<Longrightarrow> k \<notin> set object_proto \<Longrightarrow> obj_get o' k = JUndef"
  by (simp add: obj_get_def map_of_eq_None_iff [symmetric])

lemma obj_spread_get:
  "obj_get (obj_spread a b) k = (case map_of (rev b) k of Some v \<Rightarrow> v | None \<Rightarrow> obj_get a k)"
  unfolding obj_spread_def by (rule obj.get_put_all)

lemma obj_spread_get_other: "k \<notin> fst ` set b \<Longrightarrow> obj_get (obj_spread a b) k = obj_get a k"
  unfolding obj_spread_def by (rule obj.get_put_all_other)

lemma keys_obj_spread [simp]: "fst ` set (obj_spread a b) = fst ` set a \<union> fst ` set b"
  unfolding obj_spread_def by (induction b arbitrary: a) auto

lemma distinct_obj_spread: "distinct (map fst (obj_spread a b)) \<longleftrightarrow> distinct (map fst a)"
  unfolding obj_spread_def by (induction b arbitrary: a) (auto simp: distinct_obj_put)

lemma set_obj_spread: "set (obj_spread a b) \<subseteq> set a \<union> set b"
  unfolding obj_spread_def
proof (induction b arbitrary: a)
  case (Cons kv b)
  have "set (obj_put a (fst kv) (snd kv)) \<subseteq> insert kv (set a)"
    using set_obj_put [of a "fst kv" "snd kv"] by simp
  with Cons [of "obj_put a (fst kv) (snd kv)"] show ?case by auto
qed simp

lemma map_of_rev_distinct:
  assumes "distinct (map fst b)"
  shows "map_of (rev b) k = map_of b k"
proof (cases "map_of b k")
  case None
  then have "map_of (rev b) k = None" by (simp add: map_of_eq_None_iff)
  with None show ?thesis by simp
next
  case (Some v)
  have "distinct (map fst (rev b))" using assms by (simp add: rev_map [symmetric])
  with Some show ?thesis by (auto dest: map_of_SomeD)
qed

lemma obj_put_fresh: "k \<notin> fst ` set o' \<Longrightarrow> obj_put o' k v = o' @ [(k, v)]"
  by (induction o' k v rule: obj_put.induct) auto

lemma obj_has_iff: "obj_has o' k \<longleftrightarrow> map_of o' k \<noteq> None \<or> k \<in> set object_proto"
  unfolding obj_has_def map_of_eq_None_iff by simp

section \<open>The code unit order of strings\<close>

lemma str_lt_asym: "str_lt a b \<Longrightarrow> str_lt b a \<Longrightarrow> False"
  by (induction a b rule: str_lt.induct) auto

lemma code_unit_inject [simp]: "code_unit a = code_unit b \<longleftrightarrow> a = b"
  by (simp add: code_unit_def)

lemma str_lt_linear: "str_lt a b \<or> a = b \<or> str_lt b a"
proof (induction a b rule: str_lt.induct)
  case (3 a as c cs)
  then show ?case by (cases "code_unit a" "code_unit c" rule: linorder_cases) auto
qed (auto, metis list.exhaust str_lt.simps(2))

lemma str_lt_trans: "str_lt a b \<Longrightarrow> str_lt b c \<Longrightarrow> str_lt a c"
proof (induction a b arbitrary: c rule: str_lt.induct)
  case (2 x xs)
  then show ?case by (cases c) auto
next
  case (3 a as b bs)
  then show ?case by (cases c) auto
qed simp

lemma str_le_antisym: "str_le a b \<Longrightarrow> str_le b a \<Longrightarrow> a = b"
  using str_lt_linear by blast

lemma str_le_trans: "str_le a b \<Longrightarrow> str_le b c \<Longrightarrow> str_le a c"
  using str_lt_linear [of a b] str_lt_linear [of b c] str_lt_trans by metis

section \<open>The order of Object.entries\<close>

lemma set_js_entries [simp]: "set (js_entries o') = set o'"
  by (auto simp: js_entries_def)

lemma mset_js_entries: "mset (js_entries o') = mset o'"
  by (simp add: js_entries_def)

lemma distinct_js_entries [simp]: "distinct (map fst (js_entries o')) \<longleftrightarrow> distinct (map fst o')"
  by (rule mset_eq_imp_distinct_iff) (simp add: mset_js_entries)

lemma length_js_entries [simp]: "length (js_entries o') = length o'"
  by (metis mset_js_entries size_mset)

section \<open>Values that came from JSON\<close>

lemma is_json_wf: "is_json v \<Longrightarrow> wf_val v"
  by (induction v) (auto simp: list_all_iff snds.simps)

text \<open>Cloning through JSON keeps JSON values, and its result is always a JSON value.\<close>

lemma json_clone_id: "is_json v \<Longrightarrow> json_clone v = Some v"
proof (induction v)
  case (JArr xs)
  then have "map (\<lambda>v. case json_clone v of None \<Rightarrow> JNull | Some w \<Rightarrow> w) xs = xs"
    by (intro map_idI) (auto simp: list_all_iff)
  then show ?case by simp
next
  case (JObj o')
  have each: "(case json_clone (snd kv) of None \<Rightarrow> [] | Some w \<Rightarrow> [(fst kv, w)]) = [kv]" if "kv \<in> set o'" for kv
    using JObj that by (cases kv) (force simp: list_all_iff)
  have "concat (map (\<lambda>kv. case json_clone (snd kv) of None \<Rightarrow> [] | Some w \<Rightarrow> [(fst kv, w)]) o') = concat (map (\<lambda>kv. [kv]) o')"
    by (intro arg_cong [where f = concat] map_cong refl each)
  then show ?case by simp
qed simp_all

lemma is_json_put:
  assumes "is_json (JObj o')" and "is_json v"
  shows "is_json (JObj (obj_put o' k v))"
proof -
  have "is_json (snd kv)" if "kv \<in> set (obj_put o' k v)" for kv
    using that set_obj_put [of o' k v] assms by (auto simp: list_all_iff)
  with assms(1) show ?thesis by (simp add: distinct_obj_put list_all_iff)
qed

lemma is_json_delete: "is_json (JObj o') \<Longrightarrow> is_json (JObj (obj_delete o' k))"
  by (simp add: distinct_obj_delete list_all_iff) (simp add: obj_delete_def)

lemma is_json_own: "is_json (JObj o') \<Longrightarrow> map_of o' k = Some v \<Longrightarrow> is_json v"
  by (auto simp: list_all_iff dest: map_of_SomeD)

end
