(* ===== verification/Conditions.thy ===== *)
theory Conditions
  imports JsLaws
begin

text \<open>
  \<^verbatim>\<open>engine/src/ai/graph-runtime/condition-evaluator.ts\<close>: the condition language of workflow
  edges. \<open>normalizeCondition\<close> turns a persisted JSON value into a \<open>condition\<close> (or throws),
  \<open>evaluateCondition\<close> decides it in an edge context, \<open>selectDeterministicEdge\<close> picks the one
  matching edge of lowest priority number or throws when the choice is ambiguous.
\<close>

section \<open>Data\<close>

datatype condition =
    Always
  | All "condition list"
  | Any "condition list"
  | Not condition
  | StatusIs jstr
  | OutputPortIs jstr
  | ReasonCodeIs jstr
  | ConfidenceGte rat
  | RetryCountLt rat
  | PassCountLt rat
  | ValueEquals jstr jval

text \<open>
  \<^verbatim>\<open>WorkflowNodeResult\<close> (contracts.ts): the required properties, and the optional ones
  (message, state\_patch, metrics, artifacts, diagnostics) as they were given.
\<close>

record node_result =
  status :: jstr
  output_port :: jstr
  reason_code :: jstr
  data :: jval
  optional_props :: jobj

definition node_result_value :: "node_result \<Rightarrow> jval" where
  "node_result_value r =
     JObj ([(''status'', JStr (status r)), (''output_port'', JStr (output_port r)),
            (''reason_code'', JStr (reason_code r)), (''data'', data r)] @ optional_props r)"

record edge_context =
  result :: node_result
  state :: jobj
  retry_count :: jnum
  pass_count :: jnum
  confidence :: jval

definition FORBIDDEN_PATH_PARTS :: "jstr list" where
  "FORBIDDEN_PATH_PARTS = [''__proto__'', ''prototype'', ''constructor'']"

section \<open>Reading a path\<close>

text \<open>\<^verbatim>\<open>path.split('.').filter(Boolean)\<close>\<close>

definition path_parts :: "jstr \<Rightarrow> jstr list" where
  "path_parts path = filter (\<lambda>p. p \<noteq> []) (split_on (CHR ''.'') path)"

text \<open>The walk shared by \<^verbatim>\<open>readPath\<close> and \<^verbatim>\<open>readMappedValue\<close>: records only, present keys only.\<close>

fun js_in :: "jstr \<Rightarrow> jval \<Rightarrow> bool" where
  "js_in k (JObj o') = obj_has o' k"
| "js_in k v = (k \<in> set object_proto)"

fun walk_path :: "jval \<Rightarrow> jstr list \<Rightarrow> jval" where
  "walk_path current [] = current"
| "walk_path current (part # parts) =
     (if \<not> isRecord current \<or> \<not> js_in part current then JUndef
      else walk_path (js_get current part) parts)"

definition readPath :: "jval \<Rightarrow> jstr \<Rightarrow> jval" where
  "readPath src path =
     (let parts = path_parts path in
      if parts = [] \<or> list_ex (\<lambda>p. p \<in> set FORBIDDEN_PATH_PARTS) parts then JUndef
      else walk_path src parts)"

section \<open>Normalization\<close>

definition asNumber :: "jval \<Rightarrow> jstr \<Rightarrow> rat res" where
  "asNumber v field =
     (case v of JNum (Fin q) \<Rightarrow> Inr q | _ \<Rightarrow> Throw (field @ '' must be a finite number''))"

definition asString :: "jval \<Rightarrow> jstr \<Rightarrow> jstr res" where
  "asString v field =
     (case v of JStr (c # cs) \<Rightarrow> Inr (c # cs) | _ \<Rightarrow> Throw (field @ '' must be a non-empty string''))"

text \<open>\<^verbatim>\<open>if (v !== undefined) conditions.push(...)\<close>: no condition or one.\<close>

definition push_unless_undefined :: "jval \<Rightarrow> condition res \<Rightarrow> condition list res" where
  "push_unless_undefined v r = (if v = JUndef then Inr [] else map_ok (\<lambda>c. [c]) r)"

definition conjunction :: "condition list \<Rightarrow> condition" where
  "conjunction cs = (case cs of [] \<Rightarrow> Always | [c] \<Rightarrow> c | _ \<Rightarrow> All cs)"

lemma obj_get_size: "size (obj_get o' k) < size (JObj o')"
proof (cases "map_of o' k")
  case (Some v)
  then have "(k, v) \<in> set o'" by (rule map_of_SomeD)
  then have "size v < Suc (size_list (size_prod (\<lambda>_. 0) size) o')"
    by (induction o') auto
  with Some show ?thesis by (simp add: obj_get_def)
qed (simp add: obj_get_def)

lemma arr_elems_size: "x \<in> set (arr_elems v) \<Longrightarrow> size x < size v"
  by (cases v) (auto simp: size_list_estimation' less_Suc_eq_le)

lemma elem_size: "x \<in> set (arr_elems (obj_get o' k)) \<Longrightarrow> size x < size (JObj o')"
  using arr_elems_size [of x "obj_get o' k"] obj_get_size [of o' k] by (rule less_trans)

function normalizeCondition :: "jval \<Rightarrow> condition res" where
  "normalizeCondition raw =
    (case raw of
       JUndef \<Rightarrow> Inr Always
     | JNull \<Rightarrow> Inr Always
     | JHost h \<Rightarrow> if isRecord raw then Inr Always else Throw ''Condition must be an object''
     | JObj o' \<Rightarrow>
        if is_str (obj_get o' ''op'') then
          (let op = to_string (obj_get o' ''op'') in
             if op = ''always'' then Inr Always
             else if op = ''all'' then
               (if is_array (obj_get o' ''conditions'')
                then map_ok All (map_res normalizeCondition (arr_elems (obj_get o' ''conditions'')))
                else Throw ''all.conditions must be an array'')
             else if op = ''any'' then
               (if is_array (obj_get o' ''conditions'')
                then map_ok Any (map_res normalizeCondition (arr_elems (obj_get o' ''conditions'')))
                else Throw ''any.conditions must be an array'')
             else if op = ''not'' then map_ok Not (normalizeCondition (obj_get o' ''condition''))
             else if op = ''status_is'' then map_ok StatusIs (asString (obj_get o' ''value'') ''status_is.value'')
             else if op = ''output_port_is'' then map_ok OutputPortIs (asString (obj_get o' ''value'') ''output_port_is.value'')
             else if op = ''reason_code_is'' then map_ok ReasonCodeIs (asString (obj_get o' ''value'') ''reason_code_is.value'')
             else if op = ''confidence_gte'' then map_ok ConfidenceGte (asNumber (obj_get o' ''value'') ''confidence_gte.value'')
             else if op = ''retry_count_lt'' then map_ok RetryCountLt (asNumber (obj_get o' ''value'') ''retry_count_lt.value'')
             else if op = ''pass_count_lt'' then map_ok PassCountLt (asNumber (obj_get o' ''value'') ''pass_count_lt.value'')
             else if op = ''value_equals'' then
               map_ok (\<lambda>p. ValueEquals p (obj_get o' ''value'')) (asString (obj_get o' ''path'') ''value_equals.path'')
             else Throw (''Unsupported condition operator: '' @ op))
         else
            (let g = obj_get o';
                 status = js_coalesce (g ''status_is'') (g ''status'');
                 outputPort = js_coalesce (g ''output_port_is'') (g ''output_port'');
                 reasonCode = js_coalesce (g ''reason_code_is'') (js_coalesce (g ''reason_code'') (g ''reason''));
                 confidence = js_coalesce (g ''confidence_gte'') (g ''min_confidence'');
                 retryCount = js_coalesce (g ''retry_count_lt'') (g ''max_retry_count'');
                 passCount = js_coalesce (g ''pass_count_lt'') (g ''max_passes'')
             in map_ok (\<lambda>css. conjunction (concat css)) (all_res
               [push_unless_undefined status (map_ok StatusIs (asString status ''status'')),
                push_unless_undefined outputPort (map_ok OutputPortIs (asString outputPort ''output_port'')),
                push_unless_undefined reasonCode (map_ok ReasonCodeIs (asString reasonCode ''reason_code'')),
                push_unless_undefined confidence (map_ok ConfidenceGte (asNumber confidence ''confidence'')),
                push_unless_undefined retryCount (map_ok RetryCountLt (asNumber retryCount ''retry_count'')),
                push_unless_undefined passCount (map_ok PassCountLt (asNumber passCount ''pass_count'')),
                push_unless_undefined (g ''all'')
                  (if is_array (obj_get o' ''all'')
                   then map_ok All (map_res normalizeCondition (arr_elems (obj_get o' ''all'')))
                   else Throw ''all must be an array''),
                push_unless_undefined (g ''any'')
                  (if is_array (obj_get o' ''any'')
                   then map_ok Any (map_res normalizeCondition (arr_elems (obj_get o' ''any'')))
                   else Throw ''any must be an array''),
                push_unless_undefined (g ''not'') (map_ok Not (normalizeCondition (obj_get o' ''not'')))]))
     | _ \<Rightarrow> Throw ''Condition must be an object'')"
  by pat_completeness auto
termination
  by (relation "measure size") (auto intro: obj_get_size elem_size simp del: jval.size)

declare normalizeCondition.simps [simp del]

section \<open>Evaluation\<close>

fun evaluateCondition :: "condition \<Rightarrow> edge_context \<Rightarrow> bool" where
  "evaluateCondition Always ctx = True"
| "evaluateCondition (All cs) ctx = list_all (\<lambda>c. evaluateCondition c ctx) cs"
| "evaluateCondition (Any cs) ctx = list_ex (\<lambda>c. evaluateCondition c ctx) cs"
| "evaluateCondition (Not c) ctx = (\<not> evaluateCondition c ctx)"
| "evaluateCondition (StatusIs v) ctx = (status (result ctx) = v)"
| "evaluateCondition (OutputPortIs v) ctx = (output_port (result ctx) = v)"
| "evaluateCondition (ReasonCodeIs v) ctx = (reason_code (result ctx) = v)"
| "evaluateCondition (ConfidenceGte v) ctx = js_ge (js_coalesce (confidence ctx) (JNum NInf)) (num v)"
| "evaluateCondition (RetryCountLt v) ctx = num_lt (retry_count ctx) (Fin v)"
| "evaluateCondition (PassCountLt v) ctx = num_lt (pass_count ctx) (Fin v)"
| "evaluateCondition (ValueEquals p v) ctx =
     object_is (readPath (JObj [(''result'', node_result_value (result ctx)), (''state'', JObj (state ctx))]) p) v"

section \<open>Edge selection\<close>

text \<open>\<^verbatim>\<open>SelectableEdge\<close>; richer edges extend the record, as \<^verbatim>\<open>T extends SelectableEdge\<close> does.\<close>

record selectable_edge =
  edge_id :: jstr
  edge_priority :: rat
  edge_condition :: condition

text \<open>
  The comparator \<^verbatim>\<open>a.priority - b.priority || a.id.localeCompare(b.id)\<close>; the collation
  \<^verbatim>\<open>localeCompare\<close> of the host is the parameter \<open>lc\<close>.
\<close>

definition edge_le ::
  "(jstr \<Rightarrow> jstr \<Rightarrow> int) \<Rightarrow> 'e selectable_edge_scheme \<Rightarrow> 'e selectable_edge_scheme \<Rightarrow> bool" where
  "edge_le lc a b =
     (if edge_priority a \<noteq> edge_priority b then edge_priority a < edge_priority b
      else lc (edge_id a) (edge_id b) \<le> 0)"

definition selectDeterministicEdge ::
  "(jstr \<Rightarrow> jstr \<Rightarrow> int) \<Rightarrow> 'e selectable_edge_scheme list \<Rightarrow> edge_context
     \<Rightarrow> 'e selectable_edge_scheme option res" where
  "selectDeterministicEdge lc edges ctx =
     (let matches = filter (\<lambda>e. evaluateCondition (edge_condition e) ctx) edges in
      if matches = [] then Inr None
      else
        (let ordered = sort_by (edge_le lc) matches;
             first = hd ordered;
             tied = filter (\<lambda>e. edge_priority e = edge_priority first) ordered
         in if 1 < length tied
            then Throw (''AMBIGUOUS_EDGE_MATCH: '' @ join '', '' (map edge_id tied))
            else Inr (Some first)))"

section \<open>Well-formed conditions and their JSON form\<close>

text \<open>
  \<open>wf_condition\<close>: what the type \<^verbatim>\<open>ConditionExpression\<close> means at run time (no empty string
  where \<^verbatim>\<open>asString\<close> checks for one). \<open>encode_condition\<close> is the JSON form of a condition.
\<close>

fun wf_condition :: "condition \<Rightarrow> bool" where
  "wf_condition (All cs) = list_all (\<lambda>c. wf_condition c) cs"
| "wf_condition (Any cs) = list_all (\<lambda>c. wf_condition c) cs"
| "wf_condition (Not c) = wf_condition c"
| "wf_condition (StatusIs v) = (v \<noteq> [])"
| "wf_condition (OutputPortIs v) = (v \<noteq> [])"
| "wf_condition (ReasonCodeIs v) = (v \<noteq> [])"
| "wf_condition (ValueEquals p v) = (p \<noteq> [])"
| "wf_condition _ = True"

fun encode_condition :: "condition \<Rightarrow> jval" where
  "encode_condition Always = JObj [(''op'', JStr ''always'')]"
| "encode_condition (All cs) = JObj [(''op'', JStr ''all''), (''conditions'', JArr (map (\<lambda>c. encode_condition c) cs))]"
| "encode_condition (Any cs) = JObj [(''op'', JStr ''any''), (''conditions'', JArr (map (\<lambda>c. encode_condition c) cs))]"
| "encode_condition (Not c) = JObj [(''op'', JStr ''not''), (''condition'', encode_condition c)]"
| "encode_condition (StatusIs v) = JObj [(''op'', JStr ''status_is''), (''value'', JStr v)]"
| "encode_condition (OutputPortIs v) = JObj [(''op'', JStr ''output_port_is''), (''value'', JStr v)]"
| "encode_condition (ReasonCodeIs v) = JObj [(''op'', JStr ''reason_code_is''), (''value'', JStr v)]"
| "encode_condition (ConfidenceGte v) = JObj [(''op'', JStr ''confidence_gte''), (''value'', num v)]"
| "encode_condition (RetryCountLt v) = JObj [(''op'', JStr ''retry_count_lt''), (''value'', num v)]"
| "encode_condition (PassCountLt v) = JObj [(''op'', JStr ''pass_count_lt''), (''value'', num v)]"
| "encode_condition (ValueEquals p v) = JObj [(''op'', JStr ''value_equals''), (''path'', JStr p), (''value'', v)]"

section \<open>Lemmas on normalization\<close>

lemma asString_Inr_iff: "asString v f = Inr s \<longleftrightarrow> v = JStr s \<and> s \<noteq> []"
  by (auto simp: asString_def split: jval.splits list.splits)

lemma asNumber_Inr_iff: "asNumber v f = Inr q \<longleftrightarrow> v = num q"
  by (auto simp: asNumber_def split: jval.splits jnum.splits)

lemma push_Inr_iff [res_simps]:
  "push_unless_undefined v r = Inr cs \<longleftrightarrow> (v = JUndef \<and> cs = []) \<or> (v \<noteq> JUndef \<and> (\<exists>c. r = Inr c \<and> cs = [c]))"
  by (auto simp: push_unless_undefined_def res_simps)

lemma normalize_encode: "wf_condition c \<Longrightarrow> normalizeCondition (encode_condition c) = Inr c"
proof (induction c)
  case (All cs)
  then have "map_res normalizeCondition (map encode_condition cs) = Inr cs"
    by (simp add: map_res_Inr_iff list_all2_conv_all_nth list_all_length)
  then show ?case by (simp add: normalizeCondition.simps obj_get_Cons)
next
  case (Any cs)
  then have "map_res normalizeCondition (map encode_condition cs) = Inr cs"
    by (simp add: map_res_Inr_iff list_all2_conv_all_nth list_all_length)
  then show ?case by (simp add: normalizeCondition.simps obj_get_Cons)
qed (auto simp: normalizeCondition.simps [of "JObj o'" for o'] obj_get_Cons asString_Inr_iff [THEN iffD2] asNumber_Inr_iff [THEN iffD2])

lemma conjunction_wf: "list_all wf_condition cs \<Longrightarrow> wf_condition (conjunction cs)"
  by (auto simp: conjunction_def split: list.splits)

lemma conjunction_eval: "evaluateCondition (conjunction cs) ctx \<longleftrightarrow> (\<forall>c \<in> set cs. evaluateCondition c ctx)"
  by (auto simp: conjunction_def list_all_iff split: list.splits)

lemma ok_all_push: "ok_all P r \<Longrightarrow> ok_all (list_all P) (push_unless_undefined v r)"
  by (auto simp: ok_all_def res_simps)

lemma ok_all_asString: "ok_all (\<lambda>s. s \<noteq> []) (asString v f)"
  by (simp add: ok_all_def asString_Inr_iff)

lemmas ok_all_intros = ok_all_push ok_all_map_ok ok_all_all_res ok_all_asString ok_all_map_res

lemma ok_all_conjunction:
  "ok_all (\<lambda>cs. list_all wf_condition (concat cs)) r \<Longrightarrow> ok_all (\<lambda>cs. wf_condition (conjunction (concat cs))) r"
  by (auto simp: ok_all_def intro: conjunction_wf)

lemma normalize_ok: "ok_all wf_condition (normalizeCondition raw)"
proof (induction raw rule: normalizeCondition.induct)
  case (1 raw)
  show ?case
  proof (cases raw)
    case (JObj o')
    note ih = "1.IH" [OF JObj]
    show ?thesis
    proof (cases "is_str (obj_get o' ''op'')")
      case True
      with ih(1-3) [OF True refl] show ?thesis
        by (auto simp: JObj normalizeCondition.simps [of "JObj o'"] Let_def intro!: ok_all_intros)
    next
      case False
      with ih(4-6) [OF False refl refl refl refl refl refl refl] show ?thesis
        by (simp add: JObj normalizeCondition.simps [of "JObj o'"] Let_def)
          (auto intro!: ok_all_intros ok_all_conjunction ok_all_map_ok [where P = wf_condition])
    qed
  qed (auto simp: normalizeCondition.simps ok_all_def)
qed

section \<open>What selection means\<close>

text \<open>
  The specification of \<^verbatim>\<open>selectDeterministicEdge\<close>: the matching edges whose priority number
  no other matching edge undercuts.
\<close>

definition best_matches :: "'e selectable_edge_scheme list \<Rightarrow> edge_context \<Rightarrow> 'e selectable_edge_scheme list" where
  "best_matches edges ctx =
     (let ms = filter (\<lambda>e. evaluateCondition (edge_condition e) ctx) edges
      in filter (\<lambda>e. list_all (\<lambda>m. edge_priority e \<le> edge_priority m) ms) ms)"

lemma sorted_insert_edge:
  "sorted_wrt (\<lambda>a b. edge_priority a \<le> edge_priority b) xs \<Longrightarrow>
   sorted_wrt (\<lambda>a b. edge_priority a \<le> edge_priority b) (insert_by (edge_le lc) x xs)"
proof (induction xs)
  case (Cons y ys)
  then have "sorted_wrt (\<lambda>a b. edge_priority a \<le> edge_priority b) (insert_by (edge_le lc) x ys)"
    by simp
  moreover have "edge_le lc x y \<Longrightarrow> edge_priority x \<le> edge_priority y"
    and "\<not> edge_le lc x y \<Longrightarrow> edge_priority y \<le> edge_priority x"
    by (auto simp: edge_le_def split: if_splits)
  ultimately show ?case using Cons.prems by auto
qed simp

lemma sorted_edges: "sorted_wrt (\<lambda>a b. edge_priority a \<le> edge_priority b) (sort_by (edge_le lc) xs)"
  by (induction xs) (simp_all add: sorted_insert_edge)

lemma tied_mset:
  fixes lc :: "jstr \<Rightarrow> jstr \<Rightarrow> int"
  assumes "ms \<noteq> []"
  defines "ordered \<equiv> sort_by (edge_le lc) ms"
  shows "mset (filter (\<lambda>e. edge_priority e = edge_priority (hd ordered)) ordered) =
         mset (filter (\<lambda>e. list_all (\<lambda>m. edge_priority e \<le> edge_priority m) ms) ms)"
    and "hd ordered \<in> set ms"
    and "list_all (\<lambda>m. edge_priority (hd ordered) \<le> edge_priority m) ms"
proof -
  have ne: "ordered \<noteq> []" and st: "set ordered = set ms" and mst: "mset ordered = mset ms"
    using assms by (simp_all add: ordered_def)
  obtain f rest where ord: "ordered = f # rest" using ne by (cases ordered) auto
  have "sorted_wrt (\<lambda>a b. edge_priority a \<le> edge_priority b) ordered"
    unfolding ordered_def by (rule sorted_edges)
  then have low: "edge_priority f \<le> edge_priority m" if "m \<in> set ms" for m
    using that st ord by auto
  show "hd ordered \<in> set ms" using ord st by auto
  show "list_all (\<lambda>m. edge_priority (hd ordered) \<le> edge_priority m) ms"
    using low ord by (simp add: list_all_iff)
  have iff: "list_all (\<lambda>m. edge_priority e \<le> edge_priority m) ms \<longleftrightarrow> edge_priority e = edge_priority f"
    if "e \<in> set ms" for e
  proof
    assume "list_all (\<lambda>m. edge_priority e \<le> edge_priority m) ms"
    moreover have "f \<in> set ms" using ord st by auto
    ultimately show "edge_priority e = edge_priority f"
      using low [OF that] by (simp add: list_all_iff antisym)
  next
    assume "edge_priority e = edge_priority f"
    with low show "list_all (\<lambda>m. edge_priority e \<le> edge_priority m) ms" by (simp add: list_all_iff)
  qed
  have "filter (\<lambda>e. list_all (\<lambda>m. edge_priority e \<le> edge_priority m) ms) ms
      = filter (\<lambda>e. edge_priority e = edge_priority f) ms"
    by (rule filter_cong) (simp_all add: iff)
  then show "mset (filter (\<lambda>e. edge_priority e = edge_priority (hd ordered)) ordered) =
         mset (filter (\<lambda>e. list_all (\<lambda>m. edge_priority e \<le> edge_priority m) ms) ms)"
    by (simp only: mset_filter mst) (simp add: ord)
qed

lemma select_cases:
  "selectDeterministicEdge lc edges ctx =
     (case best_matches edges ctx of
        [] \<Rightarrow> Inr None
      | [e] \<Rightarrow> Inr (Some e)
      | _ \<Rightarrow> Throw (''AMBIGUOUS_EDGE_MATCH: '' @ join '', '' (map edge_id
             (let ordered = sort_by (edge_le lc) (filter (\<lambda>e. evaluateCondition (edge_condition e) ctx) edges)
              in filter (\<lambda>e. edge_priority e = edge_priority (hd ordered)) ordered))))"
proof -
  define ms where "ms = filter (\<lambda>e. evaluateCondition (edge_condition e) ctx) edges"
  define ordered where "ordered = sort_by (edge_le lc) ms"
  define tied where "tied = filter (\<lambda>e. edge_priority e = edge_priority (hd ordered)) ordered"
  have sel: "selectDeterministicEdge lc edges ctx =
      (if ms = [] then Inr None else if 1 < length tied
       then Throw (''AMBIGUOUS_EDGE_MATCH: '' @ join '', '' (map edge_id tied)) else Inr (Some (hd ordered)))"
    by (simp add: selectDeterministicEdge_def Let_def ms_def ordered_def tied_def)
  have best: "best_matches edges ctx = filter (\<lambda>e. list_all (\<lambda>m. edge_priority e \<le> edge_priority m) ms) ms"
    by (simp add: best_matches_def Let_def ms_def)
  show ?thesis
  proof (cases "ms = []")
    case True
    then show ?thesis by (simp add: sel best)
  next
    case False
    note t = tied_mset [OF False, of lc, folded ordered_def, folded tied_def, folded best]
    have mem: "hd ordered \<in> set (best_matches edges ctx)" using t(2,3) by (simp add: best)
    have len: "length tied = length (best_matches edges ctx)" using t(1) by (metis size_mset)
    show ?thesis
    proof (cases "best_matches edges ctx" rule: remdups_adj.cases)
      case (2 e)
      with mem have "hd ordered = e" by simp
      with 2 False len show ?thesis by (simp add: sel)
    next
      case (3 a b cs)
      with False len show ?thesis by (simp add: sel ms_def [symmetric] ordered_def [symmetric] tied_def [symmetric])
    qed (use mem in simp)
  qed
qed

lemma select_spec:
  "selectDeterministicEdge lc edges ctx = Inr None \<longleftrightarrow> best_matches edges ctx = []"
  "selectDeterministicEdge lc edges ctx = Inr (Some e) \<longleftrightarrow> best_matches edges ctx = [e]"
  "(\<exists>m. selectDeterministicEdge lc edges ctx = Inl (Error m)) \<longleftrightarrow> 2 \<le> length (best_matches edges ctx)"
  by (auto simp: select_cases split: list.splits)

lemma best_matches_mset: "mset edges = mset edges' \<Longrightarrow> mset (best_matches edges ctx) = mset (best_matches edges' ctx)"
proof -
  assume *: "mset edges = mset edges'"
  define ms where "ms es = filter (\<lambda>e. evaluateCondition (edge_condition e) ctx) es" for es :: "'a selectable_edge_scheme list"
  have 1: "mset (ms edges) = mset (ms edges')" using * by (simp add: ms_def)
  then have "set (ms edges) = set (ms edges')" by (metis set_mset_mset)
  then have "list_all P (ms edges) = list_all P (ms edges')" for P by (simp add: list_all_iff)
  then show ?thesis
    unfolding best_matches_def Let_def ms_def [symmetric] mset_filter 1 by simp
qed

lemma select_order_independent:
  assumes "mset edges = mset edges'" and "selectDeterministicEdge lc edges ctx = Inr r"
  shows "selectDeterministicEdge lc' edges' ctx = Inr r"
proof -
  note m = best_matches_mset [OF assms(1), of ctx]
  show ?thesis
  proof (cases r)
    case None
    with assms(2) m show ?thesis by (simp add: select_spec)
  next
    case (Some e)
    with assms(2) have "best_matches edges ctx = [e]" by (simp add: select_spec)
    with m have "mset (best_matches edges' ctx) = {#e#}" by simp
    then have "best_matches edges' ctx = [e]" by simp
    with Some show ?thesis by (simp add: select_spec)
  qed
qed

lemma readPath_forbidden:
  "p \<in> set (path_parts path) \<Longrightarrow> p \<in> set FORBIDDEN_PATH_PARTS \<Longrightarrow> readPath src path = JUndef"
  by (auto simp: readPath_def Let_def list_ex_iff)
section \<open>Properties\<close>

text \<open>C31. Every condition that \<^verbatim>\<open>normalizeCondition\<close> accepts, in whichever persisted shape it
  came, has a canonical JSON form that normalizes to the same condition.\<close>

theorem normalized_condition_roundtrip:
  assumes "normalizeCondition raw = Inr c"
  shows "wf_condition c \<and> normalizeCondition (encode_condition c) = Inr c"
proof -
  from normalize_ok [of raw] assms have "wf_condition c" by (simp add: ok_all_def)
  then show ?thesis by (simp add: normalize_encode)
qed

theorem normalized_condition_roundtrip_witness:
  "wf_condition (All [StatusIs ''SUCCESS'', RetryCountLt 2]) \<and>
   normalizeCondition (encode_condition (All [StatusIs ''SUCCESS'', RetryCountLt 2]))
     = Inr (All [StatusIs ''SUCCESS'', RetryCountLt 2])"
proof (rule normalized_condition_roundtrip)
  show "normalizeCondition (JObj [(''status'', JStr ''SUCCESS''), (''max_retry_count'', num 2)])
      = Inr (All [StatusIs ''SUCCESS'', RetryCountLt 2])"
    by code_simp
qed

text \<open>\<^verbatim>\<open>selectDeterministicEdge\<close> returns nothing exactly when no edge matches, an edge
  exactly when it is the only matching edge of the lowest priority number, and throws exactly
  when two or more matching edges share the lowest priority number. This holds for every
  collation \<open>lc\<close> of the host.\<close>

theorem edge_selection_spec:
  "(selectDeterministicEdge lc edges ctx = Inr None \<longleftrightarrow> best_matches edges ctx = [])
   \<and> (\<forall>e. selectDeterministicEdge lc edges ctx = Inr (Some e) \<longleftrightarrow> best_matches edges ctx = [e])
   \<and> ((\<exists>m. selectDeterministicEdge lc edges ctx = Inl (Error m)) \<longleftrightarrow> 2 \<le> length (best_matches edges ctx))"
  by (simp add: select_spec)

text \<open>The selected edge does not depend on the order in which the edges are stored, nor on
  the collation used to break ties.\<close>

theorem edge_selection_order_independent:
  assumes "mset edges = mset edges'" and "selectDeterministicEdge lc edges ctx = Inr r"
  shows "selectDeterministicEdge lc' edges' ctx = Inr r"
  using assms by (rule select_order_independent)

definition sample_edges :: "selectable_edge list" where
  "sample_edges =
     [\<lparr>edge_id = ''a'', edge_priority = 2, edge_condition = Always\<rparr>,
      \<lparr>edge_id = ''b'', edge_priority = 1, edge_condition = StatusIs ''SUCCESS''\<rparr>]"

definition sample_context :: edge_context where
  "sample_context =
     \<lparr>result = \<lparr>status = ''SUCCESS'', output_port = ''ok'', reason_code = ''R'', data = JObj [], optional_props = []\<rparr>,
      state = [], retry_count = Fin 0, pass_count = Fin 0, confidence = JUndef\<rparr>"

theorem edge_selection_order_independent_witness:
  "selectDeterministicEdge (\<lambda>a b. 0) (rev sample_edges) sample_context
     = Inr (Some \<lparr>edge_id = ''b'', edge_priority = 1, edge_condition = StatusIs ''SUCCESS''\<rparr>)"
proof (rule edge_selection_order_independent)
  show "mset sample_edges = mset (rev sample_edges)" by simp
  show "selectDeterministicEdge (\<lambda>a b. 1) sample_edges sample_context
     = Inr (Some \<lparr>edge_id = ''b'', edge_priority = 1, edge_condition = StatusIs ''SUCCESS''\<rparr>)"
    by code_simp
qed

end
