(* ===== verification/StateMapping.thy ===== *)
theory StateMapping
  imports Conditions
begin

text \<open>
  \<^verbatim>\<open>engine/src/ai/graph-runtime/mapping.ts\<close>: mapping of inputs from the execution source
  (\<open>applyInputMapping\<close>) and application of state patches along dotted paths
  (\<open>applyStatePatches\<close>), with the guards that keep both away from prototype names and from
  state roots no node may write.
\<close>

section \<open>Guards\<close>

definition FORBIDDEN :: "jstr list" where
  "FORBIDDEN = [''__proto__'', ''prototype'', ''constructor'']"

definition ALLOWED_INPUT_ROOTS :: "jstr list" where
  "ALLOWED_INPUT_ROOTS = [''input'', ''execution'', ''context'', ''state'', ''result'', ''node'']"

definition ALLOWED_STATE_ROOTS :: "jstr list" where
  "ALLOWED_STATE_ROOTS =
     [''context'', ''browser'', ''plan'', ''security'', ''action'', ''validation'', ''recovery'',
      ''audit'', ''report'', ''control'']"

definition splitPath :: "jstr \<Rightarrow> jstr list res" where
  "splitPath path =
     (let parts = path_parts path in
      if parts = [] \<or> list_ex (\<lambda>p. p \<in> set FORBIDDEN) parts
      then Throw (''Unsafe or empty mapping path: '' @ path) else Inr parts)"

definition readMappedValue :: "jval \<Rightarrow> jstr \<Rightarrow> jval res" where
  "readMappedValue src path =
     res_bind (splitPath path) (\<lambda>parts.
       if hd parts \<notin> set ALLOWED_INPUT_ROOTS
       then Throw (''Mapping root is not allowed: '' @ hd parts)
       else Inr (walk_path src parts))"

section \<open>Input mapping\<close>

definition isMappingReference :: "jval \<Rightarrow> bool" where
  "isMappingReference v \<longleftrightarrow> isRecord v \<and> is_str (js_get v ''from'')"

text \<open>The value and the required flag of one entry of the mapping.\<close>

definition mappedEntry :: "jval \<Rightarrow> jval \<Rightarrow> (jval \<times> bool) res" where
  "mappedEntry src specification =
     (if is_str specification then
        map_ok (\<lambda>v. (v, False)) (readMappedValue src (to_string specification))
      else if isMappingReference specification then
        map_ok (\<lambda>v. (if v = JUndef then js_get specification ''default'' else v,
                     js_get specification ''required'' = JBool True))
          (readMappedValue src (to_string (js_get specification ''from'')))
      else Inr (specification, False))"

definition inputStep :: "jval \<Rightarrow> jobj \<Rightarrow> (jstr \<times> jval) \<Rightarrow> jobj res" where
  "inputStep src output entry =
     (if fst entry \<in> set FORBIDDEN then Throw (''Unsafe input target: '' @ fst entry)
      else res_bind (mappedEntry src (snd entry)) (\<lambda>(v, required).
        if v = JUndef \<and> required then Throw (''Required mapped input is missing: '' @ fst entry)
        else Inr (if v \<noteq> JUndef then obj_assign output (fst entry) v else output)))"

definition applyInputMapping :: "jobj \<Rightarrow> jval \<Rightarrow> jobj res" where
  "applyInputMapping mapping src = fold_res (inputStep src) [] (js_entries mapping)"

section \<open>State patches\<close>

datatype patch_op = SetOp | AppendOp | IncrementOp | RemoveOp

record state_patch =
  patch_op :: patch_op
  patch_path :: jstr
  patch_value :: jval

text \<open>\<^verbatim>\<open>cloneJson\<close>: \<^verbatim>\<open>undefined\<close> stays, everything else goes through JSON.\<close>

definition cloneJson :: "jval \<Rightarrow> jval res" where
  "cloneJson v =
     (if v = JUndef then Inr v
      else case json_clone v of
          Some w \<Rightarrow> Inr w
        | None \<Rightarrow> Throw ''\"undefined\" is not valid JSON'')"

definition ensureStatePath :: "jstr \<Rightarrow> jstr list res" where
  "ensureStatePath path =
     res_bind (splitPath path) (\<lambda>parts.
       if hd parts \<notin> set ALLOWED_STATE_ROOTS
       then Throw (''State patch root is not allowed: '' @ hd parts) else Inr parts)"

text \<open>The \<^verbatim>\<open>switch (patch.op)\<close> on the parent object and the last key of the path.\<close>

definition applyLeaf :: "state_patch \<Rightarrow> jobj \<Rightarrow> jstr \<Rightarrow> jobj res" where
  "applyLeaf patch parent key =
     (case patch_op patch of
        SetOp \<Rightarrow> map_ok (obj_assign parent key) (cloneJson (js_coalesce (patch_value patch) JNull))
      | RemoveOp \<Rightarrow> Inr (obj_delete parent key)
      | AppendOp \<Rightarrow>
          (let parent' = (if obj_get parent key = JUndef then obj_assign parent key (JArr []) else parent) in
           if \<not> is_array (obj_get parent' key)
           then Throw (''append target is not an array: '' @ patch_path patch)
           else map_ok (\<lambda>v. obj_assign parent' key (JArr (arr_elems (obj_get parent' key) @ [v])))
                  (cloneJson (js_coalesce (patch_value patch) JNull)))
      | IncrementOp \<Rightarrow>
          (let current = js_coalesce (obj_get parent key) (num 0);
               amount = js_coalesce (patch_value patch) (num 1)
           in if \<not> is_num current \<or> \<not> is_num amount
              then Throw (''increment requires numeric values: '' @ patch_path patch)
              else Inr (obj_assign parent key (js_add current amount))))"

text \<open>
  The walk to the parent object, creating missing objects on the way, with the update of the
  nested object written back on the way out. The state is a fresh JSON clone, so no two places
  of it share an object and the write-back is the in-place update of the source.
\<close>

fun patchAt :: "state_patch \<Rightarrow> jobj \<Rightarrow> jstr list \<Rightarrow> jobj res" where
  "patchAt patch parent [] = Inr parent"
| "patchAt patch parent [key] = applyLeaf patch parent key"
| "patchAt patch parent (part # p # ps) =
     (let parent' = (if obj_get parent part = JUndef then obj_assign parent part (JObj []) else parent);
          child = obj_get parent' part
      in if \<not> isRecord child then Throw (''Cannot patch through non-object path: '' @ patch_path patch)
         else map_ok (\<lambda>c. obj_assign parent' part (JObj c)) (patchAt patch (own_props child) (p # ps)))"

definition applyStatePatch :: "jobj \<Rightarrow> state_patch \<Rightarrow> jobj res" where
  "applyStatePatch st patch = res_bind (ensureStatePath (patch_path patch)) (patchAt patch st)"

definition applyStatePatches :: "jobj \<Rightarrow> state_patch list \<Rightarrow> jobj res" where
  "applyStatePatches initial patches =
     res_bind (cloneJson (JObj initial)) (\<lambda>st. fold_res applyStatePatch (own_props st) patches)"

section \<open>Path and update lemmas\<close>

lemma obj_assign_put [simp]: "k \<noteq> ''__proto__'' \<Longrightarrow> obj_assign o' k v = obj_put o' k v"
  by (simp add: obj_assign_def)

lemma splitPath_Inr_iff:
  "splitPath path = Inr parts \<longleftrightarrow>
     parts = path_parts path \<and> parts \<noteq> [] \<and> set parts \<inter> set FORBIDDEN = {}"
  by (auto simp: splitPath_def Let_def list_ex_iff)

lemma ensureStatePath_Inr_iff:
  "ensureStatePath path = Inr parts \<longleftrightarrow>
     parts = path_parts path \<and> parts \<noteq> [] \<and> set parts \<inter> set FORBIDDEN = {} \<and> hd parts \<in> set ALLOWED_STATE_ROOTS"
  by (auto simp: ensureStatePath_def res_simps splitPath_Inr_iff)

lemma FORBIDDEN_iff: "k \<notin> set FORBIDDEN \<longleftrightarrow> k \<noteq> ''__proto__'' \<and> k \<noteq> ''prototype'' \<and> k \<noteq> ''constructor''"
  by (auto simp: FORBIDDEN_def)

section \<open>What an update of one property keeps\<close>

locale leaf_update =
  fixes leaf :: "jobj \<Rightarrow> jstr \<Rightarrow> jobj res"
  assumes leaf_frame: "leaf o' k = Inr o'' \<Longrightarrow> k' \<noteq> k \<Longrightarrow> map_of o'' k' = map_of o' k'"
begin

lemma leaf_get: "leaf o' k = Inr o'' \<Longrightarrow> k' \<noteq> k \<Longrightarrow> obj_get o'' k' = obj_get o' k'"
  by (simp add: obj_get_def leaf_frame)

lemma leaf_has: "leaf o' k = Inr o'' \<Longrightarrow> k' \<noteq> k \<Longrightarrow> obj_has o'' k' = obj_has o' k'"
  by (simp add: obj_has_iff leaf_frame)

end

interpretation patch_leaf: leaf_update "applyLeaf p" for p
  by unfold_locales
    (auto simp: applyLeaf_def Let_def res_simps obj_assign_def map_of_obj_put map_of_obj_delete
       split: patch_op.splits if_splits)

fun diverges :: "jstr list \<Rightarrow> jstr list \<Rightarrow> bool" where
  "diverges (p # ps) (q # qs) = (p \<noteq> q \<or> diverges ps qs)"
| "diverges _ _ = False"

lemma walk_empty_object: "q \<notin> set object_proto \<Longrightarrow> walk_path (JObj []) (q # qs) = JUndef"
  by (simp add: obj_has_def)

lemma walk_cong:
  "obj_get o' q = obj_get o'' q \<Longrightarrow> obj_has o' q = obj_has o'' q \<Longrightarrow>
   walk_path (JObj o') (q # qs) = walk_path (JObj o'') (q # qs)"
  by simp

lemma obj_has_obj_put: "obj_has (obj_put o' k v) k' \<longleftrightarrow> k' = k \<or> obj_has o' k'"
  by (auto simp: obj_has_def)

lemma is_json_get: "is_json (JObj o') \<Longrightarrow> obj_get o' k = v \<Longrightarrow> v \<noteq> JUndef \<Longrightarrow> k \<notin> set object_proto \<Longrightarrow> map_of o' k = Some v \<and> is_json v"
  by (auto simp: obj_get_def list_all_iff dest: map_of_SomeD split: option.splits)

text \<open>What one step down a path does to the parent object.\<close>

lemma patchAt_step:
  assumes "patchAt patch parent (part # p # ps) = Inr st'" and "is_json (JObj parent)"
    and "part \<notin> set FORBIDDEN"
  obtains child c where "patchAt patch child (p # ps) = Inr c" "is_json (JObj child)"
    "\<And>k. obj_get st' k = (if k = part then JObj c else obj_get parent k)"
    "\<And>k. obj_has st' k \<longleftrightarrow> k = part \<or> obj_has parent k"
    "obj_get parent part = JUndef \<and> child = [] \<or> obj_get parent part = JObj child"
    "fst ` set st' = insert part (fst ` set parent)"
proof -
  have np: "part \<noteq> ''__proto__''" using assms(3) by (simp add: FORBIDDEN_iff)
  define parent' where "parent' = (if obj_get parent part = JUndef then obj_put parent part (JObj []) else parent)"
  from assms(1) np obtain c where rec: "isRecord (obj_get parent' part)"
    and c: "patchAt patch (own_props (obj_get parent' part)) (p # ps) = Inr c"
    and st': "st' = obj_put parent' part (JObj c)"
    by (auto simp: Let_def res_simps parent'_def split: if_splits)
  have json: "is_json (JObj parent')"
    using assms(2) is_json_put [of parent "JObj []"] by (simp add: parent'_def)
  have nh: "obj_get parent' part \<noteq> JHost ''__proto__''"
  proof (cases "map_of parent' part")
    case None
    then show ?thesis using np by (auto simp: obj_get_def)
  next
    case (Some v)
    with is_json_own [OF json Some] show ?thesis by (auto simp: obj_get_def)
  qed
  obtain child where child: "obj_get parent' part = JObj child"
    using rec nh by (cases "obj_get parent' part") auto
  have cj: "is_json (JObj child)"
  proof (cases "map_of parent' part")
    case None
    with child show ?thesis by (auto simp: obj_get_def split: if_splits)
  next
    case (Some v)
    with child is_json_own [OF json Some] show ?thesis by (auto simp: obj_get_def)
  qed
  have old: "obj_get parent part = JUndef \<and> child = [] \<or> obj_get parent part = JObj child"
    using child by (auto simp: parent'_def split: if_splits)
  have par: "part \<in> fst ` set parent \<or> obj_get parent part = JUndef"
    using old np by (auto simp: obj_get_def dest!: map_of_SomeD split: option.splits if_splits) force
  show thesis
  proof (rule that)
    show "patchAt patch child (p # ps) = Inr c" using c child by simp
  qed (use cj old par in \<open>auto simp: st' parent'_def obj_get_obj_put_eq obj_has_obj_put\<close>)
qed

text \<open>A patch at one path leaves every path that branches off unchanged.\<close>

lemma patchAt_frame:
  assumes "patchAt p st ps = Inr st'" and "diverges ps qs" and "is_json (JObj st)"
    and "set ps \<inter> set FORBIDDEN = {}" and "set qs \<inter> set object_proto = {}"
  shows "walk_path (JObj st') qs = walk_path (JObj st) qs"
  using assms
proof (induction ps arbitrary: st st' qs rule: induct_list012)
  case (2 key)
  then obtain q qs' where q: "qs = q # qs'" by (cases qs) auto
  with 2 show ?case
    unfolding q by (intro walk_cong) (simp_all add: patch_leaf.leaf_get patch_leaf.leaf_has)
next
  case (3 part r ps)
  obtain q qs' where q: "qs = q # qs'" using 3 by (cases qs) auto
  from 3 have "part \<notin> set FORBIDDEN" by simp
  then obtain child c
    where c: "patchAt p child (r # ps) = Inr c" and cj: "is_json (JObj child)"
      and get: "\<And>k. obj_get st' k = (if k = part then JObj c else obj_get st k)"
      and has: "\<And>k. obj_has st' k \<longleftrightarrow> k = part \<or> obj_has st k"
      and old: "obj_get st part = JUndef \<and> child = [] \<or> obj_get st part = JObj child"
    by (rule patchAt_step [OF 3(3) 3(5)]) blast
  show ?case
  proof (cases "q = part")
    case False
    then show ?thesis unfolding q by (intro walk_cong) (simp_all add: get has)
  next
    case True
    then have d: "diverges (r # ps) qs'" using 3 q by simp
    then obtain t ts where qs': "qs' = t # ts" by (cases qs') auto
    have t: "t \<notin> set object_proto" using 3 q qs' by auto
    have ih: "walk_path (JObj c) qs' = walk_path (JObj child) qs'"
      by (rule 3(2) [OF c d cj]) (use 3 q in auto)
    have new: "walk_path (JObj st') qs = walk_path (JObj c) qs'"
      using True q by (simp add: get has)
    from old show ?thesis
    proof
      assume "obj_get st part = JUndef \<and> child = []"
      then show ?thesis using new ih qs' t walk_empty_object [OF t, of ts] q True by simp
    next
      assume o: "obj_get st part = JObj child"
      then have "obj_has st part"
        by (auto simp: obj_get_def obj_has_iff split: option.splits if_splits)
      with o show ?thesis using new ih q True by simp
    qed
  qed
qed simp

lemma patchAt_set:
  assumes "patchAt p st ps = Inr st'" and "is_json (JObj st)" and "set ps \<inter> set FORBIDDEN = {}"
    and "ps \<noteq> []" and "patch_op p = SetOp" and "is_json (patch_value p)"
  shows "walk_path (JObj st') ps = patch_value p"
  using assms
proof (induction ps arbitrary: st st' rule: induct_list012)
  case (2 key)
  then have "key \<noteq> ''__proto__''" by (simp add: FORBIDDEN_iff)
  moreover have "js_coalesce (patch_value p) JNull = patch_value p"
    using \<open>is_json (patch_value p)\<close> by (cases "patch_value p") (auto simp: js_coalesce_def)
  moreover have "cloneJson (patch_value p) = Inr (patch_value p)"
    using \<open>is_json (patch_value p)\<close> by (auto simp: cloneJson_def json_clone_id)
  ultimately show ?case using 2 by (auto simp: applyLeaf_def obj_has_obj_put)
next
  case (3 part r ps)
  from 3 have "part \<notin> set FORBIDDEN" by simp
  then obtain child c
    where c: "patchAt p child (r # ps) = Inr c" and cj: "is_json (JObj child)"
      and get: "\<And>k. obj_get st' k = (if k = part then JObj c else obj_get st k)"
      and has: "\<And>k. obj_has st' k \<longleftrightarrow> k = part \<or> obj_has st k"
    by (rule patchAt_step [OF 3(3) 3(4)]) blast
  have "walk_path (JObj c) (r # ps) = patch_value p"
    by (rule 3(2) [OF c cj]) (use 3 in auto)
  then show ?case by (simp add: get has)
qed simp

lemma js_add_num: "is_num a \<Longrightarrow> is_num b \<Longrightarrow> js_add a b = JNum (num_add (to_number a) (to_number b))"
  by (cases a; cases b) (auto simp: js_add_def Let_def)

lemma is_json_coalesce: "is_json a \<or> nullish a \<Longrightarrow> is_json b \<Longrightarrow> is_json (js_coalesce a b)"
  by (auto simp: js_coalesce_def)

lemma cloneJson_json: "is_json v \<Longrightarrow> cloneJson v = Inr v"
  by (auto simp: cloneJson_def json_clone_id)

lemma obj_get_json_cases:
  assumes "is_json (JObj o')"
  shows "is_json (obj_get o' k) \<or> obj_get o' k = JUndef \<or> obj_get o' k = JHost k"
  using assms is_json_own [of o' k] by (auto simp: obj_get_def split: option.splits)

lemma applyLeaf_json:
  assumes "applyLeaf p o' k = Inr o''" and "is_json (JObj o')" and "k \<notin> set FORBIDDEN"
    and "is_json (patch_value p) \<or> patch_value p = JUndef"
  shows "is_json (JObj o'')"
proof -
  have k: "k \<noteq> ''__proto__''" using assms(3) by (simp add: FORBIDDEN_iff)
  have v: "is_json (js_coalesce (patch_value p) JNull)"
    using assms(4) by (intro is_json_coalesce) auto
  note put = is_json_put [OF assms(2)]
  show ?thesis
  proof (cases "patch_op p")
    case SetOp
    with assms(1) k v show ?thesis
      by (auto simp: applyLeaf_def cloneJson_json intro!: put simp del: is_json.simps)
  next
    case RemoveOp
    with assms(1,2) show ?thesis
      by (auto simp: applyLeaf_def simp del: is_json.simps intro: is_json_delete)
  next
    case IncrementOp
    let ?cur = "js_coalesce (obj_get o' k) (num 0)" and ?am = "js_coalesce (patch_value p) (num 1)"
    have "is_num ?cur" "is_num ?am" and o'': "o'' = obj_put o' k (js_add ?cur ?am)"
      using assms(1) IncrementOp k by (auto simp: applyLeaf_def Let_def split: if_splits)
    moreover have "is_json ?cur"
    proof (cases "nullish (obj_get o' k)")
      case False
      with \<open>is_num ?cur\<close> have "is_num (obj_get o' k)" by (simp add: js_coalesce_def)
      then show ?thesis using obj_get_json_cases [OF assms(2), of k]
        by (auto simp: js_coalesce_def)
    qed (simp add: js_coalesce_def)
    moreover have "is_json ?am" using assms(4) by (intro is_json_coalesce) auto
    ultimately have "is_json (js_add ?cur ?am)"
      by (cases ?cur; cases ?am) (auto simp: js_add_def Let_def elim!: is_finite_num.elims)
    then show ?thesis unfolding o'' by (rule put)
  next
    case AppendOp
    define o1 where "o1 = (if obj_get o' k = JUndef then obj_put o' k (JArr []) else o')"
    have j1: "is_json (JObj o1)" using put [of "JArr []" k] assms(2) by (simp add: o1_def)
    from assms(1) AppendOp k v have arr: "is_array (obj_get o1 k)"
      and o'': "o'' = obj_put o1 k (JArr (arr_elems (obj_get o1 k) @ [js_coalesce (patch_value p) JNull]))"
      by (auto simp: applyLeaf_def Let_def o1_def cloneJson_json split: if_splits)
    from arr obj_get_json_cases [OF j1, of k] have "is_json (obj_get o1 k)" by auto
    with arr v have "is_json (JArr (arr_elems (obj_get o1 k) @ [js_coalesce (patch_value p) JNull]))"
      by (cases "obj_get o1 k") auto
    then show ?thesis unfolding o'' by (intro is_json_put j1)
  qed
qed

lemma patchAt_json:
  assumes "patchAt p st ps = Inr st'" and "is_json (JObj st)" and "set ps \<inter> set FORBIDDEN = {}"
    and "is_json (patch_value p) \<or> patch_value p = JUndef"
  shows "is_json (JObj st')"
  using assms
proof (induction ps arbitrary: st st' rule: induct_list012)
  case (2 key)
  then show ?case by (intro applyLeaf_json [of p st key st']) auto
next
  case (3 part r ps)
  have np: "part \<noteq> ''__proto__''" using 3 by (simp add: FORBIDDEN_iff)
  define st1 where "st1 = (if obj_get st part = JUndef then obj_put st part (JObj []) else st)"
  have j1: "is_json (JObj st1)" using is_json_put [OF 3(4), of "JObj []" part] 3(4) by (simp add: st1_def)
  from 3(3) np obtain c where rec: "isRecord (obj_get st1 part)"
    and c: "patchAt p (own_props (obj_get st1 part)) (r # ps) = Inr c"
    and st': "st' = obj_put st1 part (JObj c)"
    by (auto simp: Let_def res_simps st1_def split: if_splits)
  have "is_json (JObj (own_props (obj_get st1 part)))"
    using rec obj_get_json_cases [OF j1, of part] by (cases "obj_get st1 part") auto
  then have "is_json (JObj c)" by (rule 3(2) [OF c]) (use 3 in auto)
  then show ?case unfolding st' by (intro is_json_put j1)
qed simp


lemma patchAt_head_frame:
  assumes "patchAt p st ps = Inr st'" and "set ps \<inter> set FORBIDDEN = {}" and "ps \<noteq> []" and "k \<noteq> hd ps"
  shows "map_of st' k = map_of st k"
  using assms
proof (induction ps arbitrary: st st' rule: induct_list012)
  case (2 key)
  then show ?case by (simp add: patch_leaf.leaf_frame)
next
  case (3 part r ps)
  have "part \<noteq> ''__proto__''" using 3 by (simp add: FORBIDDEN_iff)
  with 3 show ?case by (auto simp: Let_def res_simps map_of_obj_put split: if_splits)
qed simp

lemma applyStatePatch_Inr:
  assumes "applyStatePatch st p = Inr st'"
  shows "patchAt p st (path_parts (patch_path p)) = Inr st' \<and> path_parts (patch_path p) \<noteq> [] \<and>
    set (path_parts (patch_path p)) \<inter> set FORBIDDEN = {} \<and>
    hd (path_parts (patch_path p)) \<in> set ALLOWED_STATE_ROOTS"
  using assms by (auto simp: applyStatePatch_def res_simps ensureStatePath_Inr_iff)

definition json_patch :: "state_patch \<Rightarrow> bool" where
  "json_patch p \<longleftrightarrow> is_json (patch_value p) \<or> patch_value p = JUndef"

lemma applyStatePatch_json:
  "is_json (JObj st) \<Longrightarrow> json_patch p \<Longrightarrow> applyStatePatch st p = Inr st' \<Longrightarrow> is_json (JObj st')"
  using applyStatePatch_Inr [of st p st'] patchAt_json [of p st _ st'] by (auto simp: json_patch_def)

lemma applyStatePatch_protected:
  "k \<notin> set ALLOWED_STATE_ROOTS \<Longrightarrow> applyStatePatch st p = Inr st' \<Longrightarrow> map_of st' k = map_of st k"
  using applyStatePatch_Inr [of st p st'] patchAt_head_frame [of p st _ st' k] by auto

lemma applyStatePatches_json_start:
  "is_json (JObj st) \<Longrightarrow> applyStatePatches st ps = fold_res applyStatePatch st ps"
  by (simp add: applyStatePatches_def cloneJson_json res_simps del: is_json.simps)

section \<open>Properties\<close>

text \<open>
  A sequence of patches applied to a JSON state and ending in a \<open>set\<close> leaves exactly the
  patch value at the patched path, whatever the earlier patches did.
\<close>

theorem state_patches_last_write:
  assumes "is_json (JObj st)" and "list_all json_patch ps" and "patch_op p = SetOp"
    and "is_json (patch_value p)" and "applyStatePatches st (ps @ [p]) = Inr st'"
  shows "walk_path (JObj st') (path_parts (patch_path p)) = patch_value p"
proof -
  from assms obtain st1 where 1: "fold_res applyStatePatch st ps = Inr st1"
    and 2: "applyStatePatch st1 p = Inr st'"
    by (auto simp: applyStatePatches_json_start fold_res_append res_simps simp del: is_json.simps)
  have "is_json (JObj st1)"
    using 1 assms(1) by (rule fold_res_invariant)
      (use assms(2) in \<open>auto intro: applyStatePatch_json simp: list_all_iff simp del: is_json.simps\<close>)
  with applyStatePatch_Inr [OF 2] show ?thesis
    using assms(3,4) by (intro patchAt_set) auto
qed

definition sample_state :: jobj where
  "sample_state = [(''plan'', JObj [(''steps'', JArr [num 1])]), (''result'', JStr ''kept'')]"

definition sample_patches :: "state_patch list" where
  "sample_patches =
     [\<lparr>patch_op = AppendOp, patch_path = ''plan.steps'', patch_value = num 2\<rparr>,
      \<lparr>patch_op = IncrementOp, patch_path = ''control.count'', patch_value = JUndef\<rparr>]"

definition sample_set :: state_patch where
  "sample_set = \<lparr>patch_op = SetOp, patch_path = ''browser.url'', patch_value = JStr ''about:blank''\<rparr>"

theorem state_patches_last_write_witness:
  "\<exists>st'. applyStatePatches sample_state (sample_patches @ [sample_set]) = Inr st' \<and>
     walk_path (JObj st') [''browser'', ''url''] = JStr ''about:blank''"
proof -
  have 1: "is_json (JObj sample_state)" "list_all json_patch sample_patches"
    "patch_op sample_set = SetOp" "is_json (patch_value sample_set)" 
    by code_simp+
  have p: "path_parts (patch_path sample_set) = [''browser'', ''url'']"
    "patch_value sample_set = JStr ''about:blank''" by code_simp+
  have "\<not> isl (applyStatePatches sample_state (sample_patches @ [sample_set]))" by code_simp
  then obtain st' where "applyStatePatches sample_state (sample_patches @ [sample_set]) = Inr st'"
    using not_isl_iff by metis
  with state_patches_last_write [OF 1 this] p show ?thesis by simp
qed

text \<open>
  Patches change nothing but the paths they name: reading a path that branches off every
  patched path gives the value it had before, and the state stays a JSON value.
\<close>

theorem state_patches_frame:
  assumes "is_json (JObj st)" and "list_all json_patch ps"
    and "list_all (\<lambda>p. diverges (path_parts (patch_path p)) qs) ps"
    and "set qs \<inter> set object_proto = {}" and "applyStatePatches st ps = Inr st'"
  shows "walk_path (JObj st') qs = walk_path (JObj st) qs \<and> is_json (JObj st')"
proof -
  have "fold_res applyStatePatch st ps = Inr st'"
    using assms by (simp add: applyStatePatches_json_start del: is_json.simps)
  then show ?thesis
  proof (rule fold_res_invariant)
    fix s p s' assume p: "p \<in> set ps" and s': "applyStatePatch s p = Inr s'"
      and inv: "walk_path (JObj s) qs = walk_path (JObj st) qs \<and> is_json (JObj s)"
    have "json_patch p" "diverges (path_parts (patch_path p)) qs"
      using p assms(2,3) by (auto simp: list_all_iff)
    with inv s' applyStatePatch_Inr [OF s'] assms(4)
    show "walk_path (JObj s') qs = walk_path (JObj st) qs \<and> is_json (JObj s')"
      using patchAt_frame [of p s _ s' qs] applyStatePatch_json [of s p s'] by metis
  qed (use assms(1) in simp)
qed

theorem state_patches_frame_witness:
  "\<exists>st'. applyStatePatches sample_state sample_patches = Inr st' \<and>
     walk_path (JObj st') [''result''] = JStr ''kept'' \<and> is_json (JObj st')"
proof -
  have 1: "is_json (JObj sample_state)" "list_all json_patch sample_patches"
    "list_all (\<lambda>p. diverges (path_parts (patch_path p)) [''result'']) sample_patches"
    "set [''result''] \<inter> set object_proto = {}"
    by code_simp+
  have w: "walk_path (JObj sample_state) [''result''] = JStr ''kept''" by code_simp
  have "\<not> isl (applyStatePatches sample_state sample_patches)" by code_simp
  then obtain st' where "applyStatePatches sample_state sample_patches = Inr st'"
    using not_isl_iff by metis
  with state_patches_frame [OF 1 this] w show ?thesis by simp
qed

text \<open>
  C5. Only the allowed roots can be written: if any patch of the sequence names an empty path, a
  prototype name or a root outside the allowed ones, the whole application throws, and when it
  succeeds every top-level property outside the allowed roots is as it was.
\<close>

theorem state_patches_guarded:
  assumes "is_json (JObj st)"
  shows "((\<exists>p\<in>set ps. \<exists>e. ensureStatePath (patch_path p) = Inl e) \<longrightarrow> (\<exists>e. applyStatePatches st ps = Inl e)) \<and>
     (\<forall>st' k. applyStatePatches st ps = Inr st' \<longrightarrow> k \<notin> set ALLOWED_STATE_ROOTS \<longrightarrow> map_of st' k = map_of st k)"
proof -
  have eq: "applyStatePatches st ps = fold_res applyStatePatch st ps"
    using assms by (rule applyStatePatches_json_start)
  have bad: "\<exists>e. fold_res applyStatePatch s qs = Inl e"
    if "\<exists>p\<in>set qs. \<exists>e. ensureStatePath (patch_path p) = Inl e" for s qs
    using that
  proof (induction qs arbitrary: s)
    case (Cons q qs)
    show ?case
      by (cases "applyStatePatch s q") (use Cons in \<open>auto simp: applyStatePatch_def\<close>)
  qed simp
  have keep: "map_of st' k = map_of st k"
    if "fold_res applyStatePatch st ps = Inr st'" "k \<notin> set ALLOWED_STATE_ROOTS" for st' k
    using that(1) by (rule fold_res_invariant) (use that(2) applyStatePatch_protected in auto)
  show ?thesis unfolding eq using bad keep by blast
qed

theorem state_patches_guarded_witness:
  "\<exists>e. applyStatePatches sample_state [sample_set \<lparr>patch_path := ''result.leak''\<rparr>] = Inl e"
proof -
  have "ensureStatePath (patch_path (sample_set \<lparr>patch_path := ''result.leak''\<rparr>)) =
      Throw ''State patch root is not allowed: result''" by code_simp
  moreover have "is_json (JObj sample_state)" by code_simp
  ultimately show ?thesis using state_patches_guarded by force
qed

section \<open>Input mapping\<close>

lemma inputStep_Inr:
  assumes "inputStep src out e = Inr out'"
  shows "fst e \<notin> set FORBIDDEN \<and> (\<exists>v r. mappedEntry src (snd e) = Inr (v, r) \<and> (v = JUndef \<longrightarrow> \<not> r) \<and>
     out' = (if v = JUndef then out else obj_put out (fst e) v))"
  using assms by (auto simp: inputStep_def res_simps FORBIDDEN_iff split: if_splits prod.splits)

definition entry_mapped :: "jval \<Rightarrow> jobj \<Rightarrow> jstr \<times> jval \<Rightarrow> bool" where
  "entry_mapped src out e \<longleftrightarrow>
     (case mappedEntry src (snd e) of
        Inl _ \<Rightarrow> False
      | Inr (v, r) \<Rightarrow> (v = JUndef \<longrightarrow> \<not> r) \<and> map_of out (fst e) = (if v = JUndef then None else Some v))"

lemma inputFold_Inr:
  assumes "fold_res (inputStep src) out es = Inr out'" and "distinct (map fst es)"
    and "fst ` set out \<inter> fst ` set es = {}"
  shows "(\<forall>e\<in>set es. fst e \<notin> set FORBIDDEN \<and> entry_mapped src out' e) \<and>
     (\<forall>k. k \<notin> fst ` set es \<longrightarrow> map_of out' k = map_of out k)"
  using assms
proof (induction es arbitrary: out)
  case (Cons e es)
  from Cons.prems(1) obtain out1 where 1: "inputStep src out e = Inr out1"
    and 2: "fold_res (inputStep src) out1 es = Inr out'" by (auto simp: res_simps)
  from inputStep_Inr [OF 1] obtain v r where m: "mappedEntry src (snd e) = Inr (v, r)"
    and r: "v = JUndef \<longrightarrow> \<not> r" and o1: "out1 = (if v = JUndef then out else obj_put out (fst e) v)"
    and f: "fst e \<notin> set FORBIDDEN" by blast
  have "fst ` set out1 \<inter> fst ` set es = {}" using Cons.prems o1 by auto
  from Cons.IH [OF 2 _ this] Cons.prems(2)
  have ih: "\<forall>e\<in>set es. fst e \<notin> set FORBIDDEN \<and> entry_mapped src out' e"
    "\<And>k. k \<notin> fst ` set es \<Longrightarrow> map_of out' k = map_of out1 k" by auto
  have "map_of out (fst e) = None" using Cons.prems(3) by (auto simp: map_of_eq_None_iff)
  then have "entry_mapped src out' e"
    using ih(2) [of "fst e"] Cons.prems(2) m r o1 by (auto simp: entry_mapped_def map_of_obj_put)
  moreover have "map_of out' k = map_of out k" if "k \<notin> fst ` set (e # es)" for k
    using ih(2) [of k] that o1 by (auto simp: map_of_obj_put)
  ultimately show ?case using ih(1) f by auto
qed simp

text \<open>
  When the input mapping succeeds, the produced input has exactly the mapped properties: each
  entry of the mapping gives its literal, the value at its source path or its default, absent when
  that is \<^verbatim>\<open>undefined\<close> and never absent when required; there are no other properties and no
  prototype names.
\<close>

theorem input_mapping_spec:
  assumes "distinct (map fst mapping)" and "applyInputMapping mapping src = Inr out"
  shows "(\<forall>e\<in>set mapping. fst e \<notin> set FORBIDDEN \<and> entry_mapped src out e) \<and>
     (\<forall>k. k \<notin> fst ` set mapping \<longrightarrow> map_of out k = None)"
proof -
  have m: "mset (js_entries mapping) = mset mapping" by (rule mset_js_entries)
  then have s: "set (js_entries mapping) = set mapping" by (metis set_mset_mset)
  have "distinct (map fst (js_entries mapping))"
    using assms(1) m by (metis mset_map mset_eq_imp_distinct_iff)
  with inputFold_Inr [of src "[]" "js_entries mapping" out] assms(2) s show ?thesis
    by (auto simp: applyInputMapping_def)
qed

definition sample_mapping :: jobj where
  "sample_mapping =
     [(''target'', JStr ''context.url''),
      (''limit'', JObj [(''from'', JStr ''input.limit''), (''default'', num 3)]),
      (''kind'', num 7)]"

definition sample_source :: jval where
  "sample_source = JObj [(''context'', JObj [(''url'', JStr ''about:blank'')])]"

theorem input_mapping_spec_witness:
  "\<exists>out. applyInputMapping sample_mapping sample_source = Inr out \<and>
     map_of out ''target'' = Some (JStr ''about:blank'') \<and> map_of out ''limit'' = Some (num 3)"
proof -
  have d: "distinct (map fst sample_mapping)" by code_simp
  have "\<not> isl (applyInputMapping sample_mapping sample_source)" by code_simp
  then obtain out where out: "applyInputMapping sample_mapping sample_source = Inr out"
    using not_isl_iff by metis
  have e: "(''target'', JStr ''context.url'') \<in> set sample_mapping"
    "(''limit'', JObj [(''from'', JStr ''input.limit''), (''default'', num 3)]) \<in> set sample_mapping"
    by (simp_all add: sample_mapping_def)
  have m: "mappedEntry sample_source (JStr ''context.url'') = Inr (JStr ''about:blank'', False)"
    "mappedEntry sample_source (JObj [(''from'', JStr ''input.limit''), (''default'', num 3)]) = Inr (num 3, False)"
    by code_simp+
  have "entry_mapped sample_source out (''target'', JStr ''context.url'')"
    "entry_mapped sample_source out (''limit'', JObj [(''from'', JStr ''input.limit''), (''default'', num 3)])"
    using input_mapping_spec [OF d out] e by blast+
  with out m show ?thesis by (simp add: entry_mapped_def)
qed

end
