(* ===== verification/Contracts.thy ===== *)
theory Contracts
  imports StateMapping
begin

text \<open>
  \<^verbatim>\<open>engine/src/ai/graph-runtime/contracts.ts\<close> and \<^verbatim>\<open>v3-adapter-policy.ts\<close>: the data the graph
  runtime exchanges (adapter manifest, compiled nodes, edges and plan, compile issues) and the
  closed list of adapters a universal V3 graph may use. Field names carry a prefix for the
  interface they belong to; an optional property is an option.
\<close>

section \<open>Runtime manifest\<close>

record adapter_entry =
  adapter_key :: jstr
  adapter_version :: jstr
  adapter_purposes :: "jstr list"
  adapter_contract_versions :: "jstr list"
  adapter_capabilities :: "jstr list"
  adapter_side_effects :: jstr
  adapter_retryable :: "jstr list option"
  adapter_deprecated :: bool

record runtime_manifest =
  manifest_version :: jstr
  manifest_adapters :: "adapter_entry list"

section \<open>Compiled workflow\<close>

record retry_policy =
  max_attempts :: rat
  initial_backoff_ms :: rat
  max_backoff_ms :: rat
  retryable_reason_codes :: "jstr list"

record compiled_node =
  node_id :: jstr
  node_type :: jstr
  node_enabled :: bool
  native_adapter :: jstr
  contract_version :: jstr
  node_prompt :: jstr
  prompt_hash :: jstr
  implementation_hash :: jstr
  timeout_ms :: rat
  node_retry :: retry_policy
  node_capabilities :: "jstr list"
  input_mapping :: jval
  output_mapping :: jval
  input_ports :: "jstr list"
  output_ports :: "jstr list"
  terminal_ports :: "jstr list"
  node_config :: jval

text \<open>\<^verbatim>\<open>CompiledWorkflowEdge\<close> extends what edge selection needs of an edge.\<close>

record compiled_edge = selectable_edge +
  source_node_id :: jstr
  source_port :: "jstr option"
  target_node_id :: jstr
  target_port :: "jstr option"
  max_passes :: "rat option"
  data_mapping :: "(jstr \<times> jstr) list"

record compiled_plan =
  workflow_id :: jstr
  workflow_version :: jstr
  plan_purpose :: jstr
  plan_format :: jstr
  plan_runtime_mode :: jstr
  entry_node_id :: jstr
  plan_nodes :: "(jstr \<times> compiled_node) list"
  plan_edges :: "compiled_edge list"
  plan_hash :: jstr
  compiled_at :: jstr

datatype issue_severity = SevError | SevWarning

record compile_issue =
  severity :: issue_severity
  issue_code :: jstr
  issue_message :: jstr
  issue_path :: "jstr option"
  issue_node :: "jstr option"
  issue_edge :: "jstr option"

text \<open>\<^verbatim>\<open>WorkflowCompileResult\<close>: \<^verbatim>\<open>ok\<close> is true exactly when there is a plan.\<close>

record compile_result =
  compile_ok :: bool
  compile_plan :: "compiled_plan option"
  compile_issues :: "compile_issue list"

section \<open>Adapters of universal V3\<close>

definition V3_ATOMIC_ADAPTERS :: "jstr list" where
  "V3_ATOMIC_ADAPTERS =
     [''qa-context-resolver/v2'', ''qa-pre-execution-analyst/v2'', ''qa-browser-observer/v2'',
      ''qa-action-planner/v2'', ''qa-security-guard/v2'', ''qa-browser-action-executor/v2'',
      ''qa-step-validator/v2'', ''qa-recovery-strategist/v2'', ''qa-final-auditor/v2'',
      ''qa-execution-reporter/v2'']"

definition isV3AtomicAdapter :: "jstr \<Rightarrow> bool" where
  "isV3AtomicAdapter adapter \<longleftrightarrow> trim adapter \<in> set V3_ATOMIC_ADAPTERS"

end
