(* ===== verification/Compiler.thy ===== *)
theory Compiler
  imports Contracts
begin

text \<open>
  \<^verbatim>\<open>engine/src/ai/graph-runtime/compiler.ts\<close>: compilation of a persisted workflow snapshot, an
  untyped JSON value, into a plan or a list of issues. The digest \<^verbatim>\<open>createHash('sha256')\<close> is the
  parameter \<open>sha\<close>. The plain object \<^verbatim>\<open>nodes\<close> is an association list read with \<open>obj_has\<close>, so the
  names that \<^verbatim>\<open>Object.prototype\<close> supplies count as present, as they do in the source.
\<close>

section \<open>Reading untyped values\<close>

definition recordOf :: "jval \<Rightarrow> jval" where
  "recordOf v = (if isRecord v then v else JObj [])"

fun firstString :: "jval list \<Rightarrow> jstr option" where
  "firstString [] = None"
| "firstString (v # vs) =
     (if is_str v \<and> to_string v \<noteq> [] then Some (to_string v) else firstString vs)"

fun finite_value :: "jval \<Rightarrow> rat option" where
  "finite_value (JNum (Fin q)) = Some q"
| "finite_value _ = None"

fun firstNumber :: "jval list \<Rightarrow> rat option" where
  "firstNumber [] = None"
| "firstNumber (v # vs) = (if finite_value v \<noteq> None then finite_value v else firstNumber vs)"

fun opt_value :: "rat option \<Rightarrow> jval" where
  "opt_value None = JUndef"
| "opt_value (Some q) = num q"

fun opt_str :: "jstr option \<Rightarrow> jval" where
  "opt_str None = JUndef"
| "opt_str (Some s) = JStr s"

fun option_or :: "'a option \<Rightarrow> 'a \<Rightarrow> 'a" where
  "option_or None d = d"
| "option_or (Some x) d = x"

declare firstString.simps [simp del] firstNumber.simps [simp del]

section \<open>Canonical form and digest\<close>

definition key_le :: "jstr \<times> 'v \<Rightarrow> jstr \<times> 'v \<Rightarrow> bool" where
  "key_le a b = str_le (fst a) (fst b)"

fun stable :: "jval \<Rightarrow> jval" where
  "stable (JArr xs) = JArr (map (\<lambda>v. stable v) xs)"
| "stable (JObj o') = JObj (sort_by key_le (map (\<lambda>kv. (fst kv, stable (snd kv))) o'))"
| "stable (JHost h) = (if h = ''__proto__'' then JObj [] else JHost h)"
| "stable v = v"

text \<open>Every value the compiler hashes is a string or an object, so \<^verbatim>\<open>JSON.stringify\<close> gives a text.\<close>

definition hash :: "(jstr \<Rightarrow> jstr) \<Rightarrow> jval \<Rightarrow> jstr" where
  "hash sha v = sha (option_or (json_stringify (stable v)) [])"

section \<open>Extraction\<close>

definition array_or_graph :: "jval \<Rightarrow> jstr \<Rightarrow> jval list" where
  "array_or_graph snapshot field =
     (if is_array (js_get snapshot field) then arr_elems (js_get snapshot field)
      else arr_elems (js_get (recordOf (js_get snapshot ''graph'')) field))"

definition extractNodes :: "jval \<Rightarrow> jval list" where
  "extractNodes snapshot = array_or_graph snapshot ''nodes''"

definition extractEdges :: "jval \<Rightarrow> jval list" where
  "extractEdges snapshot = array_or_graph snapshot ''edges''"

definition agentContract :: "jval \<Rightarrow> jval" where
  "agentContract node = recordOf (js_get (recordOf (js_get node ''universal_agent'')) ''contract'')"

definition extractNativeAdapter :: "jval \<Rightarrow> jstr option" where
  "extractNativeAdapter node =
     firstString
       [js_get (recordOf (js_get (agentContract node) ''implementation'')) ''native_adapter'',
        js_get (recordOf (js_get node ''runtime'')) ''native_adapter'',
        js_get node ''native_adapter'']"

definition extractConfig :: "jval \<Rightarrow> jval" where
  "extractConfig node =
     recordOf (first_defined [js_get node ''configuration_json'', js_get node ''config'', js_get node ''configuration''])"

definition nodeConfig :: "jval \<Rightarrow> jval" where
  "nodeConfig node = recordOf (js_coalesce (js_get node ''config_json'') (extractConfig node))"

definition extractEffectiveV3Adapter :: "jval \<Rightarrow> jstr option" where
  "extractEffectiveV3Adapter node =
     firstString [js_get (nodeConfig node) ''runtime_adapter'', opt_str (extractNativeAdapter node)]"

definition extractContractVersion :: "jval \<Rightarrow> jstr" where
  "extractContractVersion node =
     option_or (firstString
       [js_get (agentContract node) ''version'', js_get (agentContract node) ''contract_version'',
        js_get (recordOf (js_get node ''universal_agent'')) ''version'', JStr ''1'']) ''1''"

definition extractPrompt :: "jval \<Rightarrow> jstr" where
  "extractPrompt node =
     (let prompt = recordOf (js_get node ''prompt'') in
      option_or (firstString
        [js_get node ''prompt_template'', js_get node ''system_prompt'',
         js_get prompt ''template'', js_get prompt ''text'', JStr []]) [])"

definition stringItem :: "jval \<Rightarrow> jstr list" where
  "stringItem item =
     (if is_str item \<and> trim (to_string item) \<noteq> [] then [trim (to_string item)]
      else if \<not> isRecord item then []
      else case firstString [js_get item ''id'', js_get item ''key'', js_get item ''name'', js_get item ''port''] of
          None \<Rightarrow> [] | Some i \<Rightarrow> [i])"

definition stringArray :: "jval \<Rightarrow> jstr list" where
  "stringArray v = concat (map stringItem (arr_elems v))"

definition workflowMetadata :: "jval \<Rightarrow> jval" where
  "workflowMetadata snapshot = recordOf (js_get snapshot ''workflow'')"

definition decisionPolicy :: "jval \<Rightarrow> jval" where
  "decisionPolicy snapshot =
     recordOf (js_coalesce (js_get (workflowMetadata snapshot) ''decision_policy_json'')
                 (js_get snapshot ''decision_policy_json''))"

definition runtimeModeFor :: "jval \<Rightarrow> jstr" where
  "runtimeModeFor snapshot =
     option_or (firstString
       [js_get snapshot ''runtime_mode'', js_get (workflowMetadata snapshot) ''runtime_mode'',
        js_get (decisionPolicy snapshot) ''runtime_mode'', JStr ''legacy'']) ''legacy''"

definition op_value :: "jstr \<Rightarrow> jval \<Rightarrow> jval" where
  "op_value op v = JObj [(''op'', JStr op), (''value'', v)]"

definition conditionForEdge :: "jval \<Rightarrow> jval" where
  "conditionForEdge rawEdge =
     (let conditionType = toLowerCase (option_or (firstString [js_get rawEdge ''condition_type'', JStr ''always'']) ''always'');
          condition = recordOf (js_coalesce (js_get rawEdge ''condition_json'') (js_get rawEdge ''condition''))
      in if truthy (js_get condition ''op'') then condition
         else if conditionType = ''always'' then JObj [(''op'', JStr ''always'')]
         else if conditionType = ''on_success'' then op_value ''status_is'' (JStr ''SUCCESS'')
         else if conditionType = ''on_failed'' then op_value ''status_is'' (JStr ''FAILED'')
         else if conditionType = ''on_blocked'' then op_value ''status_is'' (JStr ''BLOCKED'')
         else if conditionType = ''output_port'' \<or> conditionType = ''decision_is'' then
           op_value ''output_port_is'' (opt_str (firstString
             [js_get condition ''value'', js_get condition ''output_port'',
              js_get rawEdge ''source_handle'', js_get rawEdge ''source_port'']))
         else if conditionType = ''retry_count_lt'' then
           op_value ''retry_count_lt'' (opt_value (firstNumber [js_get condition ''max'', js_get condition ''value'', num 1]))
         else if conditionType = ''confidence_lt'' then
           JObj [(''op'', JStr ''not''), (''condition'', op_value ''confidence_gte''
             (opt_value (firstNumber [js_get condition ''value'', js_get condition ''threshold'', num 70])))]
         else if conditionType = ''on_rejected'' then
           JObj [(''op'', JStr ''any''), (''conditions'', JArr
             [op_value ''status_is'' (JStr ''FAILED''), op_value ''output_port_is'' (JStr ''rejected''),
              op_value ''output_port_is'' (JStr ''blocked'')])]
         else condition)"

definition mappingItem :: "jval \<Rightarrow> (jstr \<times> jstr) list" where
  "mappingItem item =
     (if \<not> isRecord item then []
      else case (firstString [js_get item ''source'', js_get item ''from''],
                 firstString [js_get item ''target'', js_get item ''to'']) of
          (Some s, Some t) \<Rightarrow> [(s, t)] | _ \<Rightarrow> [])"

definition dataMappingForEdge :: "jval \<Rightarrow> (jstr \<times> jstr) list" where
  "dataMappingForEdge rawEdge =
     concat (map mappingItem (arr_elems
       (js_coalesce (js_get rawEdge ''data_mapping_json'') (js_get rawEdge ''data_mapping''))))"

definition rfloor :: "rat \<Rightarrow> rat" where
  "rfloor q = of_int \<lfloor>q\<rfloor>"

definition compileRetryPolicy :: "jval \<Rightarrow> adapter_entry option \<Rightarrow> retry_policy" where
  "compileRetryPolicy node manifest =
     (let retry = recordOf (js_get node ''retry_policy'');
          explicitAttempts = firstNumber [js_get retry ''max_attempts''];
          configuredRetries = firstNumber [js_get retry ''max_retries'', js_get node ''max_retries''];
          maxAttempts = max 1 (rfloor (option_or explicitAttempts (option_or configuredRetries 0 + 1)));
          initialBackoff = max 0 (rfloor (option_or (firstNumber [js_get retry ''initial_backoff_ms'', js_get retry ''backoff_ms'', num 0]) 0));
          maxBackoff = max initialBackoff (rfloor (option_or (firstNumber [js_get retry ''max_backoff_ms'', num initialBackoff]) initialBackoff));
          requestedCodes = stringArray (js_get retry ''retryable_reason_codes'');
          allowedCodes = option_or (Option.bind manifest adapter_retryable) requestedCodes
      in \<lparr>max_attempts = maxAttempts, initial_backoff_ms = initialBackoff, max_backoff_ms = maxBackoff,
          retryable_reason_codes = filter (\<lambda>code. code \<in> set allowedCodes) requestedCodes\<rparr>)"

section \<open>Options and issues\<close>

text \<open>\<^verbatim>\<open>WorkflowCompilerOptions\<close>; \<open>opt_now\<close> is the text of the compile time.\<close>

record compiler_options =
  opt_runtime_mode :: "jstr option"
  opt_manifest :: "runtime_manifest option"
  opt_max_timeout :: "rat option"
  opt_max_attempts :: "rat option"
  opt_allow_legacy :: bool
  opt_now :: jstr

definition path_issue :: "jstr \<Rightarrow> jstr \<Rightarrow> jstr \<Rightarrow> compile_issue" where
  "path_issue code msg p =
     \<lparr>severity = SevError, issue_code = code, issue_message = msg, issue_path = Some p, issue_node = None, issue_edge = None\<rparr>"

definition plain_issue :: "jstr \<Rightarrow> jstr \<Rightarrow> compile_issue" where
  "plain_issue code msg =
     \<lparr>severity = SevError, issue_code = code, issue_message = msg, issue_path = None, issue_node = None, issue_edge = None\<rparr>"

definition node_issue :: "issue_severity \<Rightarrow> jstr \<Rightarrow> jstr \<Rightarrow> jstr \<Rightarrow> compile_issue" where
  "node_issue sev code msg n =
     \<lparr>severity = sev, issue_code = code, issue_message = msg, issue_path = None, issue_node = Some n, issue_edge = None\<rparr>"

definition edge_issue :: "jstr \<Rightarrow> jstr \<Rightarrow> jstr \<Rightarrow> compile_issue" where
  "edge_issue code msg e =
     \<lparr>severity = SevError, issue_code = code, issue_message = msg, issue_path = None, issue_node = None, issue_edge = Some e\<rparr>"

definition issue_if :: "bool \<Rightarrow> compile_issue \<Rightarrow> compile_issue list" where
  "issue_if b i = (if b then [i] else [])"

section \<open>Nodes\<close>

text \<open>\<^verbatim>\<open>new Map(adapters.map((entry) => [entry.key, entry]))\<close>: the last entry of a key wins.\<close>

definition manifestEntry :: "compiler_options \<Rightarrow> jstr \<Rightarrow> adapter_entry option" where
  "manifestEntry opts adapter =
     (case opt_manifest opts of
        None \<Rightarrow> None
      | Some m \<Rightarrow> map_of (rev (map (\<lambda>e. (adapter_key e, e)) (manifest_adapters m))) adapter)"

text \<open>What the node loop reads of the workflow: format, purpose, mode.\<close>

record workflow_head =
  wf_format :: jstr
  wf_purpose :: jstr
  wf_mode :: jstr

abbreviation strictV3 :: "workflow_head \<Rightarrow> bool" where
  "strictV3 h \<equiv> wf_format h = ''universal_v3''"

definition invalid_adapter :: jstr where
  "invalid_adapter = ''__invalid__/missing''"

definition chooseAdapter :: "compiler_options \<Rightarrow> workflow_head \<Rightarrow> jstr \<Rightarrow> jval \<Rightarrow> jstr \<times> compile_issue list" where
  "chooseAdapter opts h nid rawNode =
     (case (if strictV3 h then extractEffectiveV3Adapter rawNode else extractNativeAdapter rawNode) of
        Some adapter \<Rightarrow> (adapter, [])
      | None \<Rightarrow>
          if wf_format h = ''universal_v2'' \<or> strictV3 h then
            (invalid_adapter, [node_issue SevError ''NATIVE_ADAPTER_MISSING'' (wf_format h @ '' requires implementation.native_adapter'') nid])
          else if opt_allow_legacy opts \<or> wf_mode h = ''legacy'' then
            (let adapter = option_or (firstString [js_get rawNode ''agent_key'', js_get rawNode ''type'', js_get rawNode ''node_type'', JStr invalid_adapter]) invalid_adapter
             in (adapter, [node_issue SevWarning ''LEGACY_ADAPTER_FALLBACK'' (''Legacy fallback selected adapter '' @ adapter) nid]))
          else
            (invalid_adapter, [node_issue SevError ''NATIVE_ADAPTER_MISSING'' ''Native adapter is required in graph modes'' nid]))"

definition adapterIssues :: "compiler_options \<Rightarrow> workflow_head \<Rightarrow> jstr \<Rightarrow> jstr \<Rightarrow> jstr \<Rightarrow> compile_issue list" where
  "adapterIssues opts h nid adapter contractVersion =
     issue_if (strictV3 h \<and> \<not> isV3AtomicAdapter adapter)
       (node_issue SevError ''V3_ATOMIC_ADAPTER_REQUIRED'' (''universal_v3 only accepts built-in atomic qa-*/v2 adapters: '' @ adapter) nid) @
     issue_if (opt_manifest opts \<noteq> None \<and> manifestEntry opts adapter = None)
       (node_issue SevError ''UNKNOWN_RUNTIME_ADAPTER'' (''Adapter is not present in runtime manifest: '' @ adapter) nid) @
     (case manifestEntry opts adapter of
        None \<Rightarrow> []
      | Some e \<Rightarrow>
          issue_if (''*'' \<notin> set (adapter_purposes e) \<and> wf_purpose h \<notin> set (adapter_purposes e))
            (node_issue SevError ''ADAPTER_PURPOSE_MISMATCH'' (adapter @ '' does not support '' @ wf_purpose h) nid) @
          issue_if (contractVersion \<notin> set (adapter_contract_versions e))
            (node_issue SevError ''ADAPTER_CONTRACT_MISMATCH'' (adapter @ '' does not support contract '' @ contractVersion) nid))"

definition requestedCapabilities :: "jval \<Rightarrow> jstr list" where
  "requestedCapabilities rawNode =
     stringArray (js_coalesce (js_get rawNode ''capabilities'') (js_get (agentContract rawNode) ''capabilities''))"

definition capabilityIssues :: "compiler_options \<Rightarrow> jstr \<Rightarrow> jstr \<Rightarrow> jval \<Rightarrow> compile_issue list" where
  "capabilityIssues opts nid adapter rawNode =
     (let requested = requestedCapabilities rawNode;
          allowed = option_or (map_option adapter_capabilities (manifestEntry opts adapter)) requested;
          invalid = filter (\<lambda>c. c \<notin> set allowed) requested
      in issue_if (invalid \<noteq> [])
           (node_issue SevError ''CAPABILITY_NOT_ALLOWED'' (''Capabilities not allowed by adapter: '' @ join '', '' invalid) nid))"

definition nodeTimeout :: "compiler_options \<Rightarrow> jval \<Rightarrow> rat" where
  "nodeTimeout opts rawNode =
     (let timeoutSeconds = firstNumber [js_get rawNode ''timeout_sec''];
          timeoutRequested = max 1 (rfloor (option_or (firstNumber
            [js_get rawNode ''timeout_ms'', js_get (nodeConfig rawNode) ''timeout_ms'',
             opt_value (map_option (\<lambda>t. t * 1000) timeoutSeconds), num 30000]) 30000))
      in min timeoutRequested (option_or (opt_max_timeout opts) timeoutRequested))"

definition nodeRetryPolicy :: "compiler_options \<Rightarrow> jval \<Rightarrow> jstr \<Rightarrow> retry_policy" where
  "nodeRetryPolicy opts rawNode adapter =
     (let policy = compileRetryPolicy rawNode (manifestEntry opts adapter)
      in policy \<lparr>max_attempts := min (max_attempts policy) (option_or (opt_max_attempts opts) (max_attempts policy))\<rparr>)"

text \<open>\<open>side\<close> is \<open>input\<close> or \<open>output\<close>: V3 reads the ports of the contract only.\<close>

definition nodePorts :: "workflow_head \<Rightarrow> jval \<Rightarrow> jstr \<Rightarrow> jstr list" where
  "nodePorts h rawNode side =
     (let contractPorts = js_get (recordOf (js_get (agentContract rawNode) ''ports'')) (''control_'' @ side @ ''s'')
      in if strictV3 h then stringArray contractPorts
         else stringArray (first_defined
           [js_get rawNode (side @ ''_ports''), js_get (nodeConfig rawNode) (side @ ''_ports''),
            js_get (recordOf (js_get rawNode ''ports'')) (side @ ''s''), contractPorts]))"

definition terminalPorts :: "jval \<Rightarrow> jstr list" where
  "terminalPorts rawNode =
     stringArray (first_defined
       [js_get rawNode ''terminal_ports'', js_get (nodeConfig rawNode) ''terminal_ports'',
        js_get (recordOf (js_get rawNode ''terminal_policy'')) ''ports''])"

definition portIssues :: "workflow_head \<Rightarrow> jstr \<Rightarrow> jstr list \<Rightarrow> jstr list \<Rightarrow> compile_issue list" where
  "portIssues h nid outputs terminals =
     (if strictV3 h then
        issue_if (outputs = []) (node_issue SevError ''OUTPUT_PORTS_MISSING'' ''universal_v3 nodes must declare output ports'' nid) @
        concat (map (\<lambda>t. issue_if (t \<notin> set outputs)
          (node_issue SevError ''V3_TERMINAL_PORT_UNDECLARED'' (''Terminal port '' @ t @ '' is not declared by '' @ nid) nid)) terminals)
      else [])"

definition nodeMapping :: "jval \<Rightarrow> jstr \<Rightarrow> jval" where
  "nodeMapping rawNode field =
     recordOf (first_defined [js_get rawNode field, js_get (nodeConfig rawNode) field, js_get (agentContract rawNode) field])"

definition buildNode ::
  "(jstr \<Rightarrow> jstr) \<Rightarrow> compiler_options \<Rightarrow> workflow_head \<Rightarrow> jstr \<Rightarrow> jstr \<Rightarrow> jval \<Rightarrow> compiled_node" where
  "buildNode sha opts h nid adapter rawNode =
     (let contractVersion = extractContractVersion rawNode; prompt = extractPrompt rawNode in
      \<lparr>node_id = nid,
       node_type = option_or (firstString [js_get rawNode ''type'', js_get rawNode ''node_type'', JStr ''Unknown'']) ''Unknown'',
       node_enabled = (js_get rawNode ''enabled'' \<noteq> JBool False),
       native_adapter = adapter,
       contract_version = contractVersion,
       node_prompt = prompt,
       prompt_hash = hash sha (JStr prompt),
       implementation_hash = hash sha (JObj [(''adapter'', JStr adapter), (''contractVersion'', JStr contractVersion)]),
       timeout_ms = nodeTimeout opts rawNode,
       node_retry = nodeRetryPolicy opts rawNode adapter,
       node_capabilities = requestedCapabilities rawNode,
       input_mapping = nodeMapping rawNode ''input_mapping'',
       output_mapping = nodeMapping rawNode ''output_mapping'',
       input_ports = nodePorts h rawNode ''input'',
       output_ports = nodePorts h rawNode ''output'',
       terminal_ports = terminalPorts rawNode,
       node_config = nodeConfig rawNode\<rparr>)"

type_synonym node_table = "(jstr \<times> compiled_node) list"

definition rawNodeId :: "jval \<Rightarrow> jstr option" where
  "rawNodeId rawNode = firstString [js_get rawNode ''id'', js_get rawNode ''node_id'', js_get rawNode ''key'']"

text \<open>The body of \<^verbatim>\<open>rawNodes.forEach\<close>.\<close>

definition compileNode ::
  "(jstr \<Rightarrow> jstr) \<Rightarrow> compiler_options \<Rightarrow> workflow_head \<Rightarrow> node_table \<times> compile_issue list \<Rightarrow> nat \<times> jval
     \<Rightarrow> node_table \<times> compile_issue list" where
  "compileNode sha opts h = (\<lambda>(nodes, issues) (index, rawNode).
     if \<not> isRecord rawNode then
       (nodes, issues @ [path_issue ''NODE_NOT_OBJECT'' ''Node must be an object'' (''nodes['' @ nat_str index @ '']'')])
     else case rawNodeId rawNode of
         None \<Rightarrow> (nodes, issues @ [path_issue ''NODE_ID_MISSING'' ''Node ID is required'' (''nodes['' @ nat_str index @ '']'')])
       | Some nid \<Rightarrow>
           if obj_has nodes nid then
             (nodes, issues @ [node_issue SevError ''NODE_ID_DUPLICATE'' (''Duplicate node ID: '' @ nid) nid])
           else
             (let (adapter, adapterNotes) = chooseAdapter opts h nid rawNode;
                  node = buildNode sha opts h nid adapter rawNode
              in (obj_put nodes nid node,
                  issues @ adapterNotes @ adapterIssues opts h nid adapter (contract_version node) @
                  capabilityIssues opts nid adapter rawNode @
                  portIssues h nid (output_ports node) (terminal_ports node))))"

definition compileNodes ::
  "(jstr \<Rightarrow> jstr) \<Rightarrow> compiler_options \<Rightarrow> workflow_head \<Rightarrow> jval list \<Rightarrow> node_table \<times> compile_issue list" where
  "compileNodes sha opts h rawNodes = foldl (compileNode sha opts h) ([], []) (enumerate 0 rawNodes)"

section \<open>Edges\<close>

definition edgeCondition :: "jstr \<Rightarrow> jval \<Rightarrow> condition \<times> compile_issue list" where
  "edgeCondition eid rawEdge =
     (case normalizeCondition (conditionForEdge rawEdge) of
        Inr c \<Rightarrow> (c, [])
      | Inl e \<Rightarrow> (Always, [edge_issue ''CONDITION_INVALID'' (error_message e) eid]))"

definition buildEdge :: "jstr \<Rightarrow> jstr \<Rightarrow> jstr \<Rightarrow> condition \<Rightarrow> jval \<Rightarrow> compiled_edge" where
  "buildEdge eid src tgt condition rawEdge =
     \<lparr>edge_id = eid,
      edge_priority = rfloor (option_or (firstNumber [js_get rawEdge ''priority'', num 0]) 0),
      edge_condition = condition,
      source_node_id = src,
      source_port = firstString [js_get rawEdge ''source_handle'', js_get rawEdge ''source_port'', js_get rawEdge ''output_port''],
      target_node_id = tgt,
      target_port = firstString [js_get rawEdge ''target_handle'', js_get rawEdge ''target_port'', js_get rawEdge ''input_port''],
      max_passes = map_option (\<lambda>m. max 1 (rfloor m))
        (firstNumber [js_get rawEdge ''max_passes'', js_get (recordOf (js_get rawEdge ''condition_json'')) ''max_passes'']),
      data_mapping = dataMappingForEdge rawEdge\<rparr>"

definition rawEdgeId :: "nat \<Rightarrow> jval \<Rightarrow> jstr" where
  "rawEdgeId index rawEdge =
     (let fallback = ''edge-'' @ nat_str index
      in option_or (firstString [js_get rawEdge ''id'', js_get rawEdge ''edge_id'', JStr fallback]) fallback)"

text \<open>The body of \<^verbatim>\<open>rawEdges.forEach\<close>: the edge pushed, if any, and the issues.\<close>

definition compileEdge :: "node_table \<Rightarrow> nat \<times> jval \<Rightarrow> compiled_edge list \<times> compile_issue list" where
  "compileEdge nodes = (\<lambda>(index, rawEdge).
     if \<not> isRecord rawEdge then
       ([], [path_issue ''EDGE_NOT_OBJECT'' ''Edge must be an object'' (''edges['' @ nat_str index @ '']'')])
     else
       (let eid = rawEdgeId index rawEdge
        in case (firstString [js_get rawEdge ''source_node_id'', js_get rawEdge ''source'', js_get rawEdge ''from''],
                 firstString [js_get rawEdge ''target_node_id'', js_get rawEdge ''target'', js_get rawEdge ''to'']) of
            (Some src, Some tgt) \<Rightarrow>
              (let (condition, conditionIssues) = edgeCondition eid rawEdge
               in ([buildEdge eid src tgt condition rawEdge],
                   issue_if (\<not> obj_has nodes src) (edge_issue ''EDGE_SOURCE_UNKNOWN'' (''Unknown source node: '' @ src) eid) @
                   issue_if (\<not> obj_has nodes tgt) (edge_issue ''EDGE_TARGET_UNKNOWN'' (''Unknown target node: '' @ tgt) eid) @
                   conditionIssues))
          | _ \<Rightarrow> ([], [edge_issue ''EDGE_ENDPOINT_MISSING'' ''Edge source and target are required'' eid])))"

definition compileEdges :: "node_table \<Rightarrow> jval list \<Rightarrow> compiled_edge list \<times> compile_issue list" where
  "compileEdges nodes rawEdges =
     (let parts = map (compileEdge nodes) (enumerate 0 rawEdges)
      in (concat (map fst parts), concat (map snd parts)))"

section \<open>Whole-graph checks\<close>

definition headIssues :: "workflow_head \<Rightarrow> jval \<Rightarrow> compile_issue list" where
  "headIssues h policy =
     issue_if (strictV3 h \<and> wf_mode h \<noteq> ''graph_native'')
       (path_issue ''V3_REQUIRES_GRAPH_NATIVE'' ''universal_v3 requires runtime_mode graph_native'' ''workflow.decision_policy_json.runtime_mode'') @
     issue_if (strictV3 h \<and> js_get policy ''source_of_truth'' \<noteq> JStr ''persisted_graph'')
       (path_issue ''V3_REQUIRES_PERSISTED_GRAPH'' ''universal_v3 requires source_of_truth persisted_graph'' ''workflow.decision_policy_json.source_of_truth'') @
     issue_if (strictV3 h \<and> js_get policy ''legacy_step_runner_allowed'' \<noteq> JBool False)
       (path_issue ''V3_LEGACY_STEP_RUNNER_FORBIDDEN'' ''universal_v3 requires legacy_step_runner_allowed false'' ''workflow.decision_policy_json.legacy_step_runner_allowed'')"

definition explicitEntry :: "jval \<Rightarrow> jstr option" where
  "explicitEntry snapshot =
     firstString [js_get snapshot ''entry_node_id'', js_get (recordOf (js_get snapshot ''graph'')) ''entry_node_id'',
       js_get (workflowMetadata snapshot) ''entry_node_id'', js_get (decisionPolicy snapshot) ''entry_node_id'']"

text \<open>\<^verbatim>\<open>Object.values(nodes)\<close>\<close>

definition node_values :: "node_table \<Rightarrow> compiled_node list" where
  "node_values nodes = map snd (js_entries nodes)"

definition entryCandidates :: "node_table \<Rightarrow> compiled_edge list \<Rightarrow> compiled_node list" where
  "entryCandidates nodes edges =
     filter (\<lambda>n. node_enabled n \<and> node_id n \<notin> target_node_id ` set edges) (node_values nodes)"

definition entryNode :: "jval \<Rightarrow> node_table \<Rightarrow> compiled_edge list \<Rightarrow> jstr option" where
  "entryNode snapshot nodes edges =
     (case explicitEntry snapshot of
        Some e \<Rightarrow> Some e
      | None \<Rightarrow> (case entryCandidates nodes edges of [n] \<Rightarrow> Some (node_id n) | _ \<Rightarrow> None))"

text \<open>\<^verbatim>\<open>nodes[k]?.enabled\<close>, whose value on an inherited name is \<^verbatim>\<open>undefined\<close>.\<close>

definition enabled_at :: "node_table \<Rightarrow> jstr \<Rightarrow> bool" where
  "enabled_at nodes k = (case map_of nodes k of Some n \<Rightarrow> node_enabled n | None \<Rightarrow> False)"

definition entryIssues :: "workflow_head \<Rightarrow> jval \<Rightarrow> node_table \<Rightarrow> compiled_edge list \<Rightarrow> compile_issue list" where
  "entryIssues h snapshot nodes edges =
     (let entry = entryNode snapshot nodes edges in
      issue_if (case entry of None \<Rightarrow> True | Some e \<Rightarrow> \<not> obj_has nodes e)
        (plain_issue ''ENTRY_NODE_INVALID''
          (case explicitEntry snapshot of
             Some e \<Rightarrow> ''Entry node does not exist: '' @ e
           | None \<Rightarrow> ''Expected one entry node, found '' @ nat_str (length (entryCandidates nodes edges)))) @
      (case entry of
         None \<Rightarrow> []
       | Some e \<Rightarrow> issue_if (obj_has nodes e \<and> \<not> enabled_at nodes e)
           (node_issue SevError ''ENTRY_NODE_DISABLED'' (''Entry node is disabled: '' @ e) e)) @
      issue_if (strictV3 h \<and> explicitEntry snapshot = None)
        (path_issue ''V3_ENTRY_NODE_REQUIRED'' ''universal_v3 requires an explicit entry_node_id'' ''workflow.decision_policy_json.entry_node_id''))"

text \<open>
  The check of one end of a V3 edge. \<^verbatim>\<open>sourceNode.output_ports.includes\<close> throws when the name is
  only inherited: the node is then a built-in function without that property.
\<close>

definition v3Port ::
  "node_table \<Rightarrow> jstr \<Rightarrow> jstr option \<Rightarrow> (compiled_node \<Rightarrow> jstr list) \<Rightarrow> compile_issue \<Rightarrow> (jstr \<Rightarrow> jstr \<Rightarrow> compile_issue)
     \<Rightarrow> compile_issue list res" where
  "v3Port nodes k port ports missing undeclared =
     (case port of
        None \<Rightarrow> Inr [missing]
      | Some p \<Rightarrow>
          (case map_of nodes k of
             Some n \<Rightarrow> Inr (issue_if (p \<notin> set (ports n)) (undeclared p (node_id n)))
           | None \<Rightarrow>
               if k \<in> set object_proto
               then Inl (TypeError (''Cannot read properties of undefined (reading '' @ [CHR 39] @ ''includes'' @ [CHR 39] @ '')''))
               else Inr []))"

definition v3EdgeIssues :: "node_table \<Rightarrow> compiled_edge \<Rightarrow> compile_issue list res" where
  "v3EdgeIssues nodes e =
     res_bind (v3Port nodes (source_node_id e) (source_port e) output_ports
         (edge_issue ''V3_SOURCE_PORT_REQUIRED'' ''Every universal_v3 edge requires source_handle'' (edge_id e))
         (\<lambda>p n. edge_issue ''V3_SOURCE_PORT_UNDECLARED'' (''Edge port '' @ p @ '' is not declared by '' @ n) (edge_id e)))
       (\<lambda>a. map_ok (\<lambda>b. a @ b)
         (v3Port nodes (target_node_id e) (target_port e) input_ports
           (edge_issue ''V3_TARGET_PORT_REQUIRED'' ''Every universal_v3 edge requires target_handle'' (edge_id e))
           (\<lambda>p n. edge_issue ''V3_TARGET_PORT_UNDECLARED'' (''Edge target port '' @ p @ '' is not declared by '' @ n) (edge_id e))))"

definition enabledOutgoing :: "node_table \<Rightarrow> compiled_edge list \<Rightarrow> jstr list" where
  "enabledOutgoing nodes edges =
     map source_node_id (filter (\<lambda>e. enabled_at nodes (source_node_id e) \<and> enabled_at nodes (target_node_id e)) edges)"

definition v3TerminalIssues :: "node_table \<Rightarrow> compiled_edge list \<Rightarrow> compile_issue list" where
  "v3TerminalIssues nodes edges =
     concat (map (\<lambda>n. issue_if (node_id n \<notin> set (enabledOutgoing nodes edges) \<and> terminal_ports n = [])
         (node_issue SevError ''V3_TERMINAL_PORT_REQUIRED''
           (''Terminal universal_v3 node '' @ node_id n @ '' must declare terminal_ports'') (node_id n)))
       (filter node_enabled (node_values nodes)))"

definition v3Issues :: "workflow_head \<Rightarrow> node_table \<Rightarrow> compiled_edge list \<Rightarrow> compile_issue list res" where
  "v3Issues h nodes edges =
     (if strictV3 h then
        map_ok (\<lambda>per_edge. concat per_edge @ v3TerminalIssues nodes edges) (map_res (v3EdgeIssues nodes) edges)
      else Inr [])"

definition groupKey :: "compiled_edge \<Rightarrow> jstr" where
  "groupKey e = source_node_id e @ '':'' @ rat_str (edge_priority e)"

text \<open>The \<^verbatim>\<open>Map\<close> of edge lists by key, in insertion order.\<close>

definition addToGroup :: "(jstr \<times> compiled_edge list) list \<Rightarrow> compiled_edge \<Rightarrow> (jstr \<times> compiled_edge list) list" where
  "addToGroup groups e =
     obj_put groups (groupKey e) (option_or (map_of groups (groupKey e)) [] @ [e])"

definition edgeGroups :: "compiled_edge list \<Rightarrow> (jstr \<times> compiled_edge list) list" where
  "edgeGroups edges = foldl addToGroup [] edges"

definition ambiguityIssues :: "compiled_edge list \<Rightarrow> compile_issue list" where
  "ambiguityIssues edges =
     concat (map (\<lambda>(k, grp).
         let unconditional = filter (\<lambda>e. edge_condition e = Always) grp
         in issue_if (1 < length unconditional)
              (node_issue SevError ''AMBIGUOUS_UNCONDITIONAL_EDGES''
                (''Multiple unconditional edges share priority: '' @ join '', '' (map edge_id unconditional))
                (source_node_id (hd grp))))
       (edgeGroups edges))"

section \<open>The plan and its digest\<close>

definition str_array :: "jstr list \<Rightarrow> jval" where
  "str_array ss = JArr (map JStr ss)"

definition retry_json :: "retry_policy \<Rightarrow> jval" where
  "retry_json r =
     JObj [(''max_attempts'', num (max_attempts r)), (''initial_backoff_ms'', num (initial_backoff_ms r)),
           (''max_backoff_ms'', num (max_backoff_ms r)), (''retryable_reason_codes'', str_array (retryable_reason_codes r))]"

definition node_json :: "compiled_node \<Rightarrow> jval" where
  "node_json n =
     JObj [(''id'', JStr (node_id n)), (''type'', JStr (node_type n)), (''enabled'', JBool (node_enabled n)),
           (''native_adapter'', JStr (native_adapter n)), (''contract_version'', JStr (contract_version n)),
           (''prompt'', JStr (node_prompt n)), (''prompt_hash'', JStr (prompt_hash n)),
           (''implementation_hash'', JStr (implementation_hash n)), (''timeout_ms'', num (timeout_ms n)),
           (''retry_policy'', retry_json (node_retry n)), (''capabilities'', str_array (node_capabilities n)),
           (''input_mapping'', input_mapping n), (''output_mapping'', output_mapping n),
           (''input_ports'', str_array (input_ports n)), (''output_ports'', str_array (output_ports n)),
           (''terminal_ports'', str_array (terminal_ports n)), (''config'', node_config n)]"

definition edge_json :: "compiled_edge \<Rightarrow> jval" where
  "edge_json e =
     JObj [(''id'', JStr (edge_id e)), (''source_node_id'', JStr (source_node_id e)),
           (''source_port'', opt_str (source_port e)), (''target_node_id'', JStr (target_node_id e)),
           (''target_port'', opt_str (target_port e)), (''priority'', num (edge_priority e)),
           (''max_passes'', opt_value (max_passes e)), (''condition'', encode_condition (edge_condition e)),
           (''data_mapping'', JArr (map (\<lambda>(s, t). JObj [(''source'', JStr s), (''target'', JStr t)]) (data_mapping e)))]"

text \<open>\<^verbatim>\<open>{ ...planWithoutHash, compiled_at: undefined }\<close>\<close>

definition plan_json :: "compiled_plan \<Rightarrow> jval" where
  "plan_json p =
     JObj [(''workflow_id'', JStr (workflow_id p)), (''workflow_version'', JStr (workflow_version p)),
           (''purpose'', JStr (plan_purpose p)), (''format'', JStr (plan_format p)),
           (''runtime_mode'', JStr (plan_runtime_mode p)), (''entry_node_id'', JStr (entry_node_id p)),
           (''nodes'', JObj (map (\<lambda>kn. (fst kn, node_json (snd kn))) (plan_nodes p))),
           (''edges'', JArr (map edge_json (plan_edges p))), (''compiled_at'', JUndef)]"

definition workflowHead :: "compiler_options \<Rightarrow> jval \<Rightarrow> workflow_head" where
  "workflowHead opts snapshot =
     (let workflow = workflowMetadata snapshot in
      \<lparr>wf_format = option_or (firstString [js_get snapshot ''format'', js_get workflow ''format'', js_get workflow ''workflow_format'', JStr ''legacy'']) ''legacy'',
       wf_purpose = option_or (firstString [js_get snapshot ''purpose'', js_get workflow ''purpose'', js_get workflow ''workflow_purpose'', JStr ''unknown'']) ''unknown'',
       wf_mode = option_or (opt_runtime_mode opts) (runtimeModeFor snapshot)\<rparr>)"

definition buildPlan ::
  "(jstr \<Rightarrow> jstr) \<Rightarrow> compiler_options \<Rightarrow> workflow_head \<Rightarrow> jval \<Rightarrow> jstr \<Rightarrow> node_table \<Rightarrow> compiled_edge list \<Rightarrow> compiled_plan" where
  "buildPlan sha opts h snapshot entry nodes edges =
     (let plan =
        \<lparr>workflow_id = to_string (first_defined [js_get snapshot ''workflow_id'', js_get snapshot ''id'', js_get snapshot ''name'', JStr ''unknown'']),
         workflow_version = to_string (first_defined [js_get snapshot ''version'', js_get (workflowMetadata snapshot) ''version'', JStr ''unknown'']),
         plan_purpose = wf_purpose h, plan_format = wf_format h, plan_runtime_mode = wf_mode h,
         entry_node_id = entry, plan_nodes = nodes, plan_edges = edges, plan_hash = [], compiled_at = opt_now opts\<rparr>
      in plan \<lparr>plan_hash := hash sha (plan_json plan)\<rparr>)"

definition is_error :: "compile_issue \<Rightarrow> bool" where
  "is_error i \<longleftrightarrow> severity i = SevError"

definition compileWorkflowSnapshot ::
  "(jstr \<Rightarrow> jstr) \<Rightarrow> compiler_options \<Rightarrow> jval \<Rightarrow> compile_result res" where
  "compileWorkflowSnapshot sha opts snapshot =
     (let h = workflowHead opts snapshot;
          (nodes, nodeIssues) = compileNodes sha opts h (extractNodes snapshot);
          (edges, edgeIssues) = compileEdges nodes (extractEdges snapshot)
      in map_ok (\<lambda>strictIssues.
           let issues = headIssues h (decisionPolicy snapshot) @ nodeIssues @ edgeIssues @
                 entryIssues h snapshot nodes edges @ strictIssues @ ambiguityIssues edges
           in case entryNode snapshot nodes edges of
                None \<Rightarrow> \<lparr>compile_ok = False, compile_plan = None, compile_issues = issues\<rparr>
              | Some entry \<Rightarrow>
                  if list_ex is_error issues
                  then \<lparr>compile_ok = False, compile_plan = None, compile_issues = issues\<rparr>
                  else \<lparr>compile_ok = True, compile_plan = Some (buildPlan sha opts h snapshot entry nodes edges),
                        compile_issues = issues\<rparr>)
         (v3Issues h nodes edges))"

end
