(* ===== verification/CompilerProofs.thy ===== *)
theory CompilerProofs
  imports Compiler
begin

text \<open>
  Correctness of the workflow compiler: what a returned plan guarantees (\<open>valid_plan\<close>, \<open>v3_plan\<close>),
  that the verdict follows from the issues, that the digest ignores key order and compile time.
\<close>


section \<open>Issues\<close>

lemma issue_if_ok [simp]: "list_ex is_error (issue_if b i) \<longleftrightarrow> b \<and> is_error i"
  by (simp add: issue_if_def)

lemma issue_severity [simp]:
  "is_error (plain_issue c m)" "is_error (path_issue c m p)" "is_error (edge_issue c m e)" "is_error (node_issue SevError c m n)"
  "\<not> is_error (node_issue SevWarning c m n)"
  by (simp_all add: is_error_def plain_issue_def path_issue_def edge_issue_def node_issue_def)

section \<open>Nodes of a plan\<close>

text \<open>What the checks of the node loop establish of a compiled node.\<close>

definition manifest_allows :: "compiler_options \<Rightarrow> jstr \<Rightarrow> compiled_node \<Rightarrow> bool" where
  "manifest_allows opts purpose n =
     (case opt_manifest opts of
        None \<Rightarrow> True
      | Some m \<Rightarrow>
          (case manifestEntry opts (native_adapter n) of
             None \<Rightarrow> False
           | Some e \<Rightarrow> e \<in> set (manifest_adapters m) \<and> adapter_key e = native_adapter n \<and>
               (''*'' \<in> set (adapter_purposes e) \<or> purpose \<in> set (adapter_purposes e)) \<and>
               contract_version n \<in> set (adapter_contract_versions e) \<and>
               set (node_capabilities n) \<subseteq> set (adapter_capabilities e) \<and>
               (case adapter_retryable e of None \<Rightarrow> True | Some cs \<Rightarrow> set (retryable_reason_codes (node_retry n)) \<subseteq> set cs)))"

definition within_limits :: "compiler_options \<Rightarrow> compiled_node \<Rightarrow> bool" where
  "within_limits opts n \<longleftrightarrow>
     (case opt_max_timeout opts of None \<Rightarrow> 1 \<le> timeout_ms n | Some t \<Rightarrow> min 1 t \<le> timeout_ms n \<and> timeout_ms n \<le> t) \<and>
     (case opt_max_attempts opts of None \<Rightarrow> 1 \<le> max_attempts (node_retry n)
      | Some a \<Rightarrow> min 1 a \<le> max_attempts (node_retry n) \<and> max_attempts (node_retry n) \<le> a) \<and>
     0 \<le> initial_backoff_ms (node_retry n) \<and> initial_backoff_ms (node_retry n) \<le> max_backoff_ms (node_retry n)"

definition v3_node :: "compiled_node \<Rightarrow> bool" where
  "v3_node n \<longleftrightarrow> isV3AtomicAdapter (native_adapter n) \<and> output_ports n \<noteq> [] \<and>
     set (terminal_ports n) \<subseteq> set (output_ports n)"

definition node_checked :: "compiler_options \<Rightarrow> workflow_head \<Rightarrow> compiled_node \<Rightarrow> bool" where
  "node_checked opts h n \<longleftrightarrow>
     manifest_allows opts (wf_purpose h) n \<and> within_limits opts n \<and> (strictV3 h \<longrightarrow> v3_node n)"

lemma buildNode_fields [simp]:
  "node_id (buildNode sha opts h nid adapter raw) = nid"
  "native_adapter (buildNode sha opts h nid adapter raw) = adapter"
  "contract_version (buildNode sha opts h nid adapter raw) = extractContractVersion raw"
  "timeout_ms (buildNode sha opts h nid adapter raw) = nodeTimeout opts raw"
  "node_retry (buildNode sha opts h nid adapter raw) = nodeRetryPolicy opts raw adapter"
  "node_capabilities (buildNode sha opts h nid adapter raw) = requestedCapabilities raw"
  "output_ports (buildNode sha opts h nid adapter raw) = nodePorts h raw ''output''"
  "terminal_ports (buildNode sha opts h nid adapter raw) = terminalPorts raw"
  by (simp_all add: buildNode_def Let_def)

lemma capped:
  fixes r :: rat
  assumes "1 \<le> r"
  shows "case cap of None \<Rightarrow> 1 \<le> min r (option_or cap r)
    | Some t \<Rightarrow> min 1 t \<le> min r (option_or cap r) \<and> min r (option_or cap r) \<le> t"
  using assms by (auto split: option.splits)

lemma compileRetryPolicy_bounds:
  "1 \<le> max_attempts (compileRetryPolicy raw m)" "0 \<le> initial_backoff_ms (compileRetryPolicy raw m)"
  "initial_backoff_ms (compileRetryPolicy raw m) \<le> max_backoff_ms (compileRetryPolicy raw m)"
  by (simp_all add: compileRetryPolicy_def Let_def)

lemma within_limits_buildNode: "within_limits opts (buildNode sha opts h nid adapter raw)"
  unfolding within_limits_def buildNode_fields
proof (intro conjI)
  show "case opt_max_timeout opts of None \<Rightarrow> 1 \<le> nodeTimeout opts raw
      | Some t \<Rightarrow> min 1 t \<le> nodeTimeout opts raw \<and> nodeTimeout opts raw \<le> t"
    unfolding nodeTimeout_def Let_def by (rule capped) simp
  show "case opt_max_attempts opts of None \<Rightarrow> 1 \<le> max_attempts (nodeRetryPolicy opts raw adapter)
      | Some a \<Rightarrow> min 1 a \<le> max_attempts (nodeRetryPolicy opts raw adapter) \<and>
          max_attempts (nodeRetryPolicy opts raw adapter) \<le> a"
  proof -
    have "max_attempts (nodeRetryPolicy opts raw adapter) =
        (let r = max_attempts (compileRetryPolicy raw (manifestEntry opts adapter)) in min r (option_or (opt_max_attempts opts) r))"
      by (simp add: nodeRetryPolicy_def Let_def)
    then show ?thesis unfolding Let_def by (simp only: capped [OF compileRetryPolicy_bounds(1)])
  qed
qed (simp_all add: nodeRetryPolicy_def Let_def compileRetryPolicy_bounds)

lemma manifestEntry_Some:
  "manifestEntry opts a = Some e \<Longrightarrow> \<exists>m. opt_manifest opts = Some m \<and> e \<in> set (manifest_adapters m) \<and> adapter_key e = a"
  by (auto simp: manifestEntry_def dest!: map_of_SomeD split: option.splits)

lemma compileRetryPolicy_codes:
  "adapter_retryable e = Some cs \<Longrightarrow> set (retryable_reason_codes (compileRetryPolicy raw (Some e))) \<subseteq> set cs"
  by (auto simp: compileRetryPolicy_def Let_def)

lemma manifest_allows_buildNode:
  assumes "\<not> list_ex is_error (adapterIssues opts h nid adapter (extractContractVersion raw))"
    and "\<not> list_ex is_error (capabilityIssues opts nid adapter raw)"
  shows "manifest_allows opts (wf_purpose h) (buildNode sha opts h nid adapter raw)"
proof (cases "opt_manifest opts")
  case None
  then show ?thesis by (simp add: manifest_allows_def)
next
  case (Some m)
  with assms(1) obtain e where e: "manifestEntry opts adapter = Some e"
    by (auto simp: adapterIssues_def)
  from manifestEntry_Some [OF e] Some have "e \<in> set (manifest_adapters m)" "adapter_key e = adapter" by auto
  moreover have "set (requestedCapabilities raw) \<subseteq> set (adapter_capabilities e)"
    using assms(2) e by (auto simp: capabilityIssues_def Let_def filter_empty_conv)
  ultimately show ?thesis
    using assms(1) Some e compileRetryPolicy_codes [of e _ raw]
    by (auto simp: manifest_allows_def adapterIssues_def nodeRetryPolicy_def Let_def split: option.splits)
qed

lemma v3_buildNode:
  assumes "strictV3 h" and "\<not> list_ex is_error (adapterIssues opts h nid adapter v)"
    and "\<not> list_ex is_error (portIssues h nid (nodePorts h raw ''output'') (terminalPorts raw))"
  shows "v3_node (buildNode sha opts h nid adapter raw)"
  using assms by (auto simp: v3_node_def adapterIssues_def portIssues_def list_ex_concat_map)

definition nodes_inv :: "compiler_options \<Rightarrow> workflow_head \<Rightarrow> node_table \<times> compile_issue list \<Rightarrow> bool" where
  "nodes_inv opts h = (\<lambda>(nodes, issues).
     distinct (map fst nodes) \<and> (\<forall>(k, n) \<in> set nodes. node_id n = k \<and> k \<notin> set object_proto) \<and>
     (\<not> list_ex is_error issues \<longrightarrow> (\<forall>(k, n) \<in> set nodes. node_checked opts h n)))"

lemma nodes_inv_step:
  assumes "nodes_inv opts h st"
  shows "nodes_inv opts h (compileNode sha opts h st x)"
proof -
  obtain nodes issues where st: "st = (nodes, issues)" by (cases st)
  obtain index raw where x: "x = (index, raw)" by (cases x)
  show ?thesis
  proof (cases "rawNodeId raw")
    case None
    with assms show ?thesis by (auto simp: st x compileNode_def nodes_inv_def)
  next
    case (Some nid)
    obtain adapter warns where a: "chooseAdapter opts h nid raw = (adapter, warns)" by (cases "chooseAdapter opts h nid raw")
    show ?thesis
    proof (cases "isRecord raw \<and> \<not> obj_has nodes nid")
      case False
      with assms Some show ?thesis by (auto simp: st x compileNode_def nodes_inv_def)
    next
      case True
      then have fresh: "nid \<notin> fst ` set nodes" "nid \<notin> set object_proto" by (auto simp: obj_has_def)
      then show ?thesis
        using assms True Some
        by (auto simp: st x compileNode_def nodes_inv_def a obj_put_fresh node_checked_def
            within_limits_buildNode manifest_allows_buildNode v3_buildNode)
    qed
  qed
qed

lemma nodes_inv_compileNodes: "nodes_inv opts h (compileNodes sha opts h raws)"
  unfolding compileNodes_def by (rule foldl_invariant) (auto simp: nodes_inv_step, simp add: nodes_inv_def)


section \<open>Edges of a plan\<close>

definition edge_checked :: "node_table \<Rightarrow> compiled_edge \<Rightarrow> bool" where
  "edge_checked nodes e \<longleftrightarrow>
     obj_has nodes (source_node_id e) \<and> obj_has nodes (target_node_id e) \<and>
     wf_condition (edge_condition e) \<and> pred_option (\<lambda>m. 1 \<le> m) (max_passes e) \<and>
     edge_priority e = rfloor (edge_priority e)"

lemma rfloor_idem [simp]: "rfloor (rfloor q) = rfloor q"
  by (simp add: rfloor_def)

lemma buildEdge_fields [simp]:
  "edge_id (buildEdge eid src tgt c raw) = eid"
  "edge_condition (buildEdge eid src tgt c raw) = c"
  "source_node_id (buildEdge eid src tgt c raw) = src"
  "target_node_id (buildEdge eid src tgt c raw) = tgt"
  by (simp_all add: buildEdge_def)

lemma edgeCondition_wf: "edgeCondition eid raw = (c, is) \<Longrightarrow> wf_condition c"
  using normalize_ok [of "conditionForEdge raw"]
  by (auto simp: edgeCondition_def ok_all_def split: sum.splits)

lemma compileEdge_checked:
  assumes "compileEdge nodes x = (es, is)" and "\<not> list_ex is_error is"
  shows "list_all (edge_checked nodes) es"
proof -
  obtain index raw where x: "x = (index, raw)" by (cases x)
  define eid where "eid = rawEdgeId index raw"
  obtain c cis where c: "edgeCondition eid raw = (c, cis)" by (cases "edgeCondition eid raw")
  have "edge_checked nodes (buildEdge eid src tgt c raw)" if "obj_has nodes src" "obj_has nodes tgt" for src tgt
    using that edgeCondition_wf [OF c]
    by (auto simp: edge_checked_def buildEdge_def option.pred_map o_def option.pred_True)
  with assms show ?thesis
    unfolding x compileEdge_def Let_def prod.case eid_def [symmetric] c
    by (auto split: if_splits option.splits)
qed

lemma compileEdges_checked:
  assumes "compileEdges nodes raws = (es, is)" and "\<not> list_ex is_error is"
  shows "list_all (edge_checked nodes) es"
proof -
  have "list_all (edge_checked nodes) (fst (compileEdge nodes x))" if "x \<in> set (enumerate 0 raws)" for x
    using assms that compileEdge_checked [of nodes x] unfolding compileEdges_def Let_def
    by (auto simp: list_ex_concat_map) (metis prod.collapse)
  then show ?thesis using assms unfolding compileEdges_def Let_def by (fastforce simp: list_all_iff)
qed

text \<open>A V3 edge names declared ports of nodes that are in the table.\<close>

definition v3_edge :: "node_table \<Rightarrow> compiled_edge \<Rightarrow> bool" where
  "v3_edge nodes e =
     (case (map_of nodes (source_node_id e), source_port e, map_of nodes (target_node_id e), target_port e) of
        (Some s, Some p, Some t, Some q) \<Rightarrow> p \<in> set (output_ports s) \<and> q \<in> set (input_ports t)
      | _ \<Rightarrow> False)"

lemma v3Port_ok:
  assumes "v3Port nodes k port ports missing undeclared = Inr is" and "\<not> list_ex is_error is"
    and "obj_has nodes k" and "is_error missing" and "\<And>p n. is_error (undeclared p n)"
  shows "\<exists>n p. map_of nodes k = Some n \<and> port = Some p \<and> p \<in> set (ports n)"
  using assms by (auto simp: v3Port_def obj_has_iff split: option.splits if_splits)

lemma v3EdgeIssues_ok:
  assumes "v3EdgeIssues nodes e = Inr is" and "\<not> list_ex is_error is" and "edge_checked nodes e"
  shows "v3_edge nodes e"
proof -
  from assms(1,2) obtain a b where
    a: "v3Port nodes (source_node_id e) (source_port e) output_ports
         (edge_issue ''V3_SOURCE_PORT_REQUIRED'' ''Every universal_v3 edge requires source_handle'' (edge_id e))
         (\<lambda>p n. edge_issue ''V3_SOURCE_PORT_UNDECLARED'' (''Edge port '' @ p @ '' is not declared by '' @ n) (edge_id e)) = Inr a"
      "\<not> list_ex is_error a"
    and b: "v3Port nodes (target_node_id e) (target_port e) input_ports
         (edge_issue ''V3_TARGET_PORT_REQUIRED'' ''Every universal_v3 edge requires target_handle'' (edge_id e))
         (\<lambda>p n. edge_issue ''V3_TARGET_PORT_UNDECLARED'' (''Edge target port '' @ p @ '' is not declared by '' @ n) (edge_id e)) = Inr b"
      "\<not> list_ex is_error b"
    unfolding v3EdgeIssues_def res_bind_Inr_iff map_ok_Inr_iff by auto
  show ?thesis
    using v3Port_ok [OF a] v3Port_ok [OF b] assms(3)
    by (force simp: v3_edge_def edge_checked_def)
qed

definition v3_exit :: "node_table \<Rightarrow> compiled_edge list \<Rightarrow> compiled_node \<Rightarrow> bool" where
  "v3_exit nodes edges n \<longleftrightarrow>
     (node_enabled n \<longrightarrow> terminal_ports n \<noteq> [] \<or>
        (\<exists>e \<in> set edges. source_node_id e = node_id n \<and> enabled_at nodes (target_node_id e)))"

lemma v3TerminalIssues_ok:
  assumes "\<not> list_ex is_error (v3TerminalIssues nodes edges)" and "(k, n) \<in> set nodes"
  shows "v3_exit nodes edges n"
proof -
  have "n \<in> set (node_values nodes)" using assms(2) by (force simp: node_values_def)
  with assms(1) show ?thesis
    by (fastforce simp: v3TerminalIssues_def list_ex_concat_map v3_exit_def enabledOutgoing_def)
qed

section \<open>Ambiguous edges\<close>

definition unambiguous :: "compiled_edge list \<Rightarrow> bool" where
  "unambiguous edges \<longleftrightarrow>
     (\<forall>src pr. length (filter (\<lambda>e. source_node_id e = src \<and> edge_priority e = pr \<and> edge_condition e = Always) edges) \<le> 1)"

lemma edgeGroups_lookup:
  "map_of (edgeGroups edges) k = (let g = filter (\<lambda>e. groupKey e = k) edges in if g = [] then None else Some g)"
proof -
  have "map_of (foldl addToGroup gs edges) k =
      (let g = option_or (map_of gs k) [] @ filter (\<lambda>e. groupKey e = k) edges
       in if map_of gs k = None \<and> filter (\<lambda>e. groupKey e = k) edges = [] then None else Some g)" for gs
  proof (induction edges arbitrary: gs)
    case Nil
    show ?case by (cases "map_of gs k") auto
  next
    case (Cons e edges)
    show ?case unfolding foldl.simps Cons.IH
      by (cases "map_of gs (groupKey e)"; cases "groupKey e = k") (auto simp: Let_def addToGroup_def map_of_obj_put)
  qed
  from this [of "[]"] show ?thesis by (simp add: edgeGroups_def Let_def)
qed

lemma ambiguityIssues_ok:
  assumes "\<not> list_ex is_error (ambiguityIssues edges)"
  shows "length (filter (\<lambda>e. edge_condition e = Always) (filter (\<lambda>e. groupKey e = k) edges)) \<le> 1"
proof (cases "filter (\<lambda>e. groupKey e = k) edges = []")
  case True
  then show ?thesis by simp
next
  case False
  then have "map_of (edgeGroups edges) k = Some (filter (\<lambda>e. groupKey e = k) edges)"
    by (simp add: edgeGroups_lookup Let_def)
  then have "(k, filter (\<lambda>e. groupKey e = k) edges) \<in> set (edgeGroups edges)" by (rule map_of_SomeD)
  with assms show ?thesis
    by (force simp: ambiguityIssues_def list_ex_concat_map Let_def)
qed

lemma unambiguous_ok:
  assumes "\<not> list_ex is_error (ambiguityIssues edges)"
  shows "unambiguous edges"
  unfolding unambiguous_def
proof (intro allI)
  fix src pr
  show "length (filter (\<lambda>e. source_node_id e = src \<and> edge_priority e = pr \<and> edge_condition e = Always) edges) \<le> 1"
  proof -
    let ?k = "src @ '':'' @ rat_str pr"
    have "length (filter (\<lambda>e. source_node_id e = src \<and> edge_priority e = pr \<and> edge_condition e = Always) edges)
        \<le> length (filter (\<lambda>e. edge_condition e = Always) (filter (\<lambda>e. groupKey e = ?k) edges))"
      unfolding filter_filter by (induction edges) (auto simp: groupKey_def)
    also have "\<dots> \<le> 1" by (rule ambiguityIssues_ok [OF assms])
    finally show ?thesis .
  qed
qed



section \<open>The result of a compilation\<close>

definition compile_parts ::
  "(jstr \<Rightarrow> jstr) \<Rightarrow> compiler_options \<Rightarrow> jval \<Rightarrow> node_table \<times> compiled_edge list \<times> compile_issue list" where
  "compile_parts sha opts snapshot =
     (let h = workflowHead opts snapshot;
          (nodes, nodeIssues) = compileNodes sha opts h (extractNodes snapshot);
          (edges, edgeIssues) = compileEdges nodes (extractEdges snapshot)
      in (nodes, edges, nodeIssues @ edgeIssues))"

lemma compile_split:
  assumes "compile_parts sha opts snapshot = (nodes, edges, is)"
  shows "compileWorkflowSnapshot sha opts snapshot =
    map_ok (\<lambda>strict.
      let h = workflowHead opts snapshot;
          issues = headIssues h (decisionPolicy snapshot) @ is @ entryIssues h snapshot nodes edges @ strict @ ambiguityIssues edges
      in case entryNode snapshot nodes edges of
           None \<Rightarrow> \<lparr>compile_ok = False, compile_plan = None, compile_issues = issues\<rparr>
         | Some entry \<Rightarrow>
             if list_ex is_error issues
             then \<lparr>compile_ok = False, compile_plan = None, compile_issues = issues\<rparr>
             else \<lparr>compile_ok = True, compile_plan = Some (buildPlan sha opts h snapshot entry nodes edges),
                   compile_issues = issues\<rparr>)
     (v3Issues (workflowHead opts snapshot) nodes edges)"
  using assms unfolding compileWorkflowSnapshot_def compile_parts_def Let_def
  by (auto split: prod.splits cong: option.case_cong if_cong)

lemma compile_plan_cases:
  assumes "compileWorkflowSnapshot sha opts snapshot = Inr r" and "compile_plan r = Some p"
  obtains nodes edges "is" strict entry where
    "compile_parts sha opts snapshot = (nodes, edges, is)"
    "v3Issues (workflowHead opts snapshot) nodes edges = Inr strict"
    "entryNode snapshot nodes edges = Some entry"
    "p = buildPlan sha opts (workflowHead opts snapshot) snapshot entry nodes edges"
    "\<not> list_ex is_error (headIssues (workflowHead opts snapshot) (decisionPolicy snapshot))"
    "\<not> list_ex is_error is" "\<not> list_ex is_error (entryIssues (workflowHead opts snapshot) snapshot nodes edges)"
    "\<not> list_ex is_error strict" "\<not> list_ex is_error (ambiguityIssues edges)"
proof -
  obtain nodes edges "is" where parts: "compile_parts sha opts snapshot = (nodes, edges, is)"
    by (cases "compile_parts sha opts snapshot")
  from assms(1) obtain strict where s: "v3Issues (workflowHead opts snapshot) nodes edges = Inr strict"
    unfolding compile_split [OF parts] map_ok_Inr_iff by blast
  from assms show thesis
    unfolding compile_split [OF parts] s
    by (auto simp: Let_def split: option.splits if_splits intro!: that [OF parts s])
qed

lemma buildPlan_fields [simp]:
  "plan_nodes (buildPlan sha opts h snapshot entry nodes edges) = nodes"
  "plan_edges (buildPlan sha opts h snapshot entry nodes edges) = edges"
  "entry_node_id (buildPlan sha opts h snapshot entry nodes edges) = entry"
  "plan_format (buildPlan sha opts h snapshot entry nodes edges) = wf_format h"
  "plan_runtime_mode (buildPlan sha opts h snapshot entry nodes edges) = wf_mode h"
  "plan_purpose (buildPlan sha opts h snapshot entry nodes edges) = wf_purpose h"
  by (simp_all add: buildPlan_def Let_def)

lemma compile_parts_nodes:
  assumes "compile_parts sha opts snapshot = (nodes, edges, is)" and "\<not> list_ex is_error is"
  shows "distinct (map fst nodes) \<and> (\<forall>(k, n) \<in> set nodes. node_id n = k \<and> k \<notin> set object_proto \<and>
      node_checked opts (workflowHead opts snapshot) n)" and "list_all (edge_checked nodes) edges"
proof -
  obtain ni where n: "compileNodes sha opts (workflowHead opts snapshot) (extractNodes snapshot) = (nodes, ni)"
    and e: "\<exists>ei. compileEdges nodes (extractEdges snapshot) = (edges, ei) \<and> is = ni @ ei"
    using assms(1) by (auto simp: compile_parts_def Let_def split: prod.splits)
  show "distinct (map fst nodes) \<and> (\<forall>(k, n) \<in> set nodes. node_id n = k \<and> k \<notin> set object_proto \<and>
      node_checked opts (workflowHead opts snapshot) n)"
    using nodes_inv_compileNodes [of opts "workflowHead opts snapshot" sha "extractNodes snapshot"] e assms(2)
    unfolding n nodes_inv_def by auto
  show "list_all (edge_checked nodes) edges"
    using e assms(2) by (auto intro: compileEdges_checked)
qed

lemma entryIssues_ok:
  assumes "\<not> list_ex is_error (entryIssues h snapshot nodes edges)"
    and "entryNode snapshot nodes edges = Some entry"
  shows "(\<exists>n. map_of nodes entry = Some n \<and> node_enabled n) \<and> (strictV3 h \<longrightarrow> explicitEntry snapshot = Some entry)"
  using assms by (auto simp: entryIssues_def Let_def enabled_at_def entryNode_def split: option.splits)

definition valid_plan :: "compiler_options \<Rightarrow> compiled_plan \<Rightarrow> bool" where
  "valid_plan opts p \<longleftrightarrow>
     distinct (map fst (plan_nodes p)) \<and>
     (\<forall>(k, n) \<in> set (plan_nodes p). node_id n = k \<and> manifest_allows opts (plan_purpose p) n \<and> within_limits opts n) \<and>
     enabled_at (plan_nodes p) (entry_node_id p) \<and>
     list_all (edge_checked (plan_nodes p)) (plan_edges p) \<and> unambiguous (plan_edges p)"

definition v3_plan :: "compiled_plan \<Rightarrow> bool" where
  "v3_plan p \<longleftrightarrow>
     plan_runtime_mode p = ''graph_native'' \<and>
     (\<forall>(k, n) \<in> set (plan_nodes p). v3_node n \<and> v3_exit (plan_nodes p) (plan_edges p) n) \<and>
     list_all (v3_edge (plan_nodes p)) (plan_edges p)"

lemma compiled_valid:
  assumes "compileWorkflowSnapshot sha opts snapshot = Inr r" and "compile_plan r = Some p"
  shows "valid_plan opts p"
  using assms
proof (rule compile_plan_cases)
  fix nodes edges "is" strict entry
  assume a: "compile_parts sha opts snapshot = (nodes, edges, is)" "\<not> list_ex is_error is"
    and e: "entryNode snapshot nodes edges = Some entry"
      "\<not> list_ex is_error (entryIssues (workflowHead opts snapshot) snapshot nodes edges)"
    and p: "p = buildPlan sha opts (workflowHead opts snapshot) snapshot entry nodes edges"
    and u: "\<not> list_ex is_error (ambiguityIssues edges)"
  show ?thesis
    using compile_parts_nodes [OF a] entryIssues_ok [OF e(2,1)] unambiguous_ok [OF u]
    by (auto simp: p valid_plan_def enabled_at_def node_checked_def)
qed

lemma compiled_v3_closed:
  assumes "compileWorkflowSnapshot sha opts snapshot = Inr r" and "compile_plan r = Some p"
    and "plan_format p = ''universal_v3''"
  shows "v3_plan p"
  using assms(1,2)
proof (rule compile_plan_cases)
  fix nodes edges "is" strict entry
  assume a: "compile_parts sha opts snapshot = (nodes, edges, is)" "\<not> list_ex is_error is"
    and s: "v3Issues (workflowHead opts snapshot) nodes edges = Inr strict" "\<not> list_ex is_error strict"
    and p: "p = buildPlan sha opts (workflowHead opts snapshot) snapshot entry nodes edges"
    and hd: "\<not> list_ex is_error (headIssues (workflowHead opts snapshot) (decisionPolicy snapshot))"
  have v3: "strictV3 (workflowHead opts snapshot)" using assms(3) by (simp add: p)
  then obtain per where per: "map_res (v3EdgeIssues nodes) edges = Inr per"
    and strict: "strict = concat per @ v3TerminalIssues nodes edges"
    using s(1) by (auto simp: v3Issues_def res_simps)
  have "v3_edge nodes e" if e: "e \<in> set edges" for e
  proof -
    obtain "is'" where i: "v3EdgeIssues nodes e = Inr is'" "is' \<in> set per"
      using map_res_elem [OF per e] by blast
    with s(2) strict have "\<not> list_ex is_error is'" by (auto simp: list_ex_iff)
    moreover have "edge_checked nodes e" using compile_parts_nodes(2) [OF a] e by (simp add: list_all_iff)
    ultimately show ?thesis by (rule v3EdgeIssues_ok [OF i(1)])
  qed
  moreover have "v3_exit nodes edges n" if "(k, n) \<in> set nodes" for k n
    using v3TerminalIssues_ok [OF _ that] s(2) strict by simp
  ultimately show ?thesis
    using compile_parts_nodes(1) [OF a] v3 hd
    by (auto simp: p v3_plan_def node_checked_def headIssues_def list_all_iff)
qed

lemma verdict:
  shows "(\<forall>r. compileWorkflowSnapshot sha opts snapshot = Inr r \<longrightarrow>
      compile_ok r = (\<not> list_ex is_error (compile_issues r)) \<and> compile_ok r = (compile_plan r \<noteq> None)) \<and>
    (\<not> strictV3 (workflowHead opts snapshot) \<longrightarrow> \<not> isl (compileWorkflowSnapshot sha opts snapshot))"
proof -
  obtain nodes edges "is" where parts: "compile_parts sha opts snapshot = (nodes, edges, is)"
    by (cases "compile_parts sha opts snapshot")
  have "list_ex is_error (entryIssues (workflowHead opts snapshot) snapshot nodes edges)"
    if "entryNode snapshot nodes edges = None"
    using that by (simp add: entryIssues_def)
  then show ?thesis unfolding compile_split [OF parts]
    by (auto simp: map_ok_Inr_iff Let_def v3Issues_def split: option.splits)
qed




text \<open>
  C2. A universal V3 plan is closed: it runs in \<open>graph_native\<close> mode, every node uses an atomic
  adapter, declares its output ports and among them its terminal ports, every edge leaves and
  enters through declared ports of existing nodes, and every enabled node either has a terminal
  port or an edge to an enabled node.
\<close>

theorem compiled_v3_plan_closed:
  assumes "compileWorkflowSnapshot sha opts snapshot = Inr r" and "compile_plan r = Some p"
    and "plan_format p = ''universal_v3''"
  shows "v3_plan p"
  using assms by (rule compiled_v3_closed)

text \<open>
  The verdict of a compilation is its issue list: the result is ok, and then has a plan,
  exactly when no issue has severity error. Compilation never throws for a workflow that is not
  universal V3.
\<close>

theorem compile_verdict:
  shows "(\<forall>r. compileWorkflowSnapshot sha opts snapshot = Inr r \<longrightarrow>
      compile_ok r = (\<not> list_ex is_error (compile_issues r)) \<and> compile_ok r = (compile_plan r \<noteq> None)) \<and>
    (\<not> strictV3 (workflowHead opts snapshot) \<longrightarrow> \<not> isl (compileWorkflowSnapshot sha opts snapshot))"
  by (rule verdict)

section \<open>Canonical form\<close>

lemma sort_keys_perm:
  assumes "mset xs = mset ys" and "distinct (map fst xs)"
  shows "sort_by key_le xs = sort_by key_le ys"
proof (rule sorted_wrt_unique [where le = key_le])
  have sorted: "sorted_wrt key_le (sort_by key_le zs)" for zs :: "(jstr \<times> 'a) list"
    by (rule sorted_sort_by) (use str_lt_asym str_le_trans in \<open>auto simp: key_le_def\<close>)
  show "sorted_wrt key_le (sort_by key_le xs)" "sorted_wrt key_le (sort_by key_le ys)" by (rule sorted)+
  show "mset (sort_by key_le xs) = mset (sort_by key_le ys)" using assms(1) by simp
  fix a b assume "a \<in> set (sort_by key_le xs)" "b \<in> set (sort_by key_le xs)" "key_le a b" "key_le b a"
  then have "fst a = fst b" "a \<in> set xs" "b \<in> set xs" by (auto simp: key_le_def intro: str_le_antisym)
  with assms(2) show "a = b" by (metis distinct_map inj_onD)
qed

text \<open>Two values with the same contents, up to the order of object keys at any depth.\<close>

inductive same_content :: "jval \<Rightarrow> jval \<Rightarrow> bool" where
  leaf: "same_content v v"
| arr: "list_all2 same_content xs ys \<Longrightarrow> same_content (JArr xs) (JArr ys)"
| obj: "list_all2 (\<lambda>a b. fst a = fst b \<and> same_content (snd a) (snd b)) a b \<Longrightarrow> mset b = mset c \<Longrightarrow>
        distinct (map fst a) \<Longrightarrow> same_content (JObj a) (JObj c)"

lemma list_all2_map_eq: "list_all2 (\<lambda>a b. f a = f b) xs ys \<Longrightarrow> map f xs = map f ys"
  by (induction rule: list_all2_induct) auto

lemma stable_same_content: "same_content v w \<Longrightarrow> stable v = stable w"
proof (induction rule: same_content.induct)
  case (arr xs ys)
  then have "list_all2 (\<lambda>a b. stable a = stable b) xs ys" by (rule list_all2_mono) blast
  then show ?case by (simp add: list_all2_map_eq)
next
  case (obj a b c)
  let ?s = "\<lambda>kv. (fst kv, stable (snd kv))"
  from obj(1) have "list_all2 (\<lambda>x y. ?s x = ?s y) a b" by (rule list_all2_mono) simp
  then have "map ?s a = map ?s b" by (rule list_all2_map_eq)
  moreover have "mset (map ?s b) = mset (map ?s c)" by (simp only: mset_map obj(2))
  moreover have "distinct (map fst (map ?s a))" using obj(3) by (simp add: o_def)
  ultimately show ?case using sort_keys_perm [of "map ?s b" "map ?s c"] by simp
qed simp

text \<open>
  The digest of a value does not depend on the order of object keys anywhere in it.
\<close>

theorem hash_key_order:
  assumes "same_content v w"
  shows "hash sha v = hash sha w"
  using stable_same_content [OF assms] by (simp add: hash_def)

theorem hash_key_order_witness:
  "hash rev (JObj [(''b'', num 1), (''a'', JNull)]) = hash rev (JObj [(''a'', JNull), (''b'', num 1)])"
proof (rule hash_key_order)
  show "same_content (JObj [(''b'', num 1), (''a'', JNull)]) (JObj [(''a'', JNull), (''b'', num 1)])"
    by (rule same_content.obj [where b = "[(''b'', num 1), (''a'', JNull)]"]) (auto intro: same_content.leaf)
qed

lemma compile_time_unused [simp]:
  "workflowHead (opts\<lparr>opt_now := t\<rparr>) = workflowHead opts"
  "manifestEntry (opts\<lparr>opt_now := t\<rparr>) = manifestEntry opts"
  "chooseAdapter (opts\<lparr>opt_now := t\<rparr>) = chooseAdapter opts"
  "nodeTimeout (opts\<lparr>opt_now := t\<rparr>) = nodeTimeout opts"
  by (simp_all add: fun_eq_iff workflowHead_def manifestEntry_def chooseAdapter_def nodeTimeout_def)

lemma node_checks_time [simp]:
  "buildNode sha (opts\<lparr>opt_now := t\<rparr>) = buildNode sha opts"
  "adapterIssues (opts\<lparr>opt_now := t\<rparr>) = adapterIssues opts"
  "capabilityIssues (opts\<lparr>opt_now := t\<rparr>) = capabilityIssues opts"
  by (simp_all add: fun_eq_iff buildNode_def adapterIssues_def capabilityIssues_def nodeRetryPolicy_def)

lemma compileNode_time [simp]: "compileNode sha (opts\<lparr>opt_now := t\<rparr>) = compileNode sha opts"
  unfolding compileNode_def node_checks_time compile_time_unused ..

lemma compile_parts_time: "compile_parts sha (opts\<lparr>opt_now := t\<rparr>) snapshot = compile_parts sha opts snapshot"
  by (simp add: compile_parts_def compileNodes_def)

lemma buildPlan_time:
  "buildPlan sha (opts\<lparr>opt_now := t\<rparr>) h snapshot entry nodes edges =
     (buildPlan sha opts h snapshot entry nodes edges)\<lparr>compiled_at := t\<rparr>"
  by (simp add: buildPlan_def Let_def plan_json_def)

text \<open>
  Compilation is reproducible: compiling the same snapshot at another time gives the same
  issues and the same plan, digest included, except for the time stamp.
\<close>

theorem compile_reproducible:
  "compileWorkflowSnapshot sha (opts\<lparr>opt_now := t\<rparr>) snapshot =
     map_ok (\<lambda>r. r\<lparr>compile_plan := map_option (\<lambda>p. p\<lparr>compiled_at := t\<rparr>) (compile_plan r)\<rparr>)
       (compileWorkflowSnapshot sha opts snapshot)"
proof -
  obtain nodes edges "is" where parts: "compile_parts sha opts snapshot = (nodes, edges, is)"
    by (cases "compile_parts sha opts snapshot")
  then have parts': "compile_parts sha (opts\<lparr>opt_now := t\<rparr>) snapshot = (nodes, edges, is)"
    by (simp add: compile_parts_time)
  show ?thesis
    unfolding compile_split [OF parts] compile_split [OF parts'] compile_time_unused buildPlan_time
    by (cases "v3Issues (workflowHead opts snapshot) nodes edges") (auto simp: Let_def split: option.splits)
qed

section \<open>A sample workflow\<close>

definition sample_agent :: "jstr \<Rightarrow> jval" where
  "sample_agent adapter =
     JObj [(''contract'', JObj
       [(''implementation'', JObj [(''native_adapter'', JStr adapter)]),
        (''ports'', JObj [(''control_inputs'', JArr [JStr ''in'']), (''control_outputs'', JArr [JStr ''out''])])])]"

definition sample_snapshot :: jval where
  "sample_snapshot =
     JObj [(''id'', num 7), (''format'', JStr ''universal_v3''),
       (''runtime_mode'', JStr ''graph_native''), (''entry_node_id'', JStr ''a''),
       (''decision_policy_json'', JObj [(''source_of_truth'', JStr ''persisted_graph''), (''legacy_step_runner_allowed'', JBool False)]),
       (''nodes'', JArr
         [JObj [(''id'', JStr ''a''), (''universal_agent'', sample_agent ''qa-context-resolver/v2'')],
          JObj [(''id'', JStr ''b''), (''universal_agent'', sample_agent ''qa-execution-reporter/v2''),
                (''terminal_ports'', JArr [JStr ''out''])]]),
       (''edges'', JArr
         [JObj [(''id'', JStr ''e''), (''source'', JStr ''a''), (''source_handle'', JStr ''out''),
                (''target'', JStr ''b''), (''target_handle'', JStr ''in''), (''max_passes'', num 2)]])]"

definition sample_options :: compiler_options where
  "sample_options =
     \<lparr>opt_runtime_mode = None, opt_manifest = None, opt_max_timeout = Some 60000, opt_max_attempts = Some 3,
      opt_allow_legacy = False, opt_now = ''2024-01-01T00:00:00.000Z''\<rparr>"

definition sample_digest :: "jstr \<Rightarrow> jstr" where
  "sample_digest s = nat_str (length s)"

text \<open>That a compilation gives a plan, decided without computing the digest of the plan.\<close>

definition compiles :: "(jstr \<Rightarrow> jstr) \<Rightarrow> compiler_options \<Rightarrow> jval \<Rightarrow> bool" where
  "compiles sha opts snapshot =
     (let h = workflowHead opts snapshot; (nodes, edges, is) = compile_parts sha opts snapshot in
      case v3Issues h nodes edges of
        Inl _ \<Rightarrow> False
      | Inr strict \<Rightarrow> entryNode snapshot nodes edges \<noteq> None \<and>
          \<not> list_ex is_error (headIssues h (decisionPolicy snapshot) @ is @
            entryIssues h snapshot nodes edges @ strict @ ambiguityIssues edges))"

lemma compiles_plan:
  assumes "compiles sha opts snapshot"
  shows "\<exists>r p. compileWorkflowSnapshot sha opts snapshot = Inr r \<and> compile_plan r = Some p \<and>
    plan_format p = wf_format (workflowHead opts snapshot) \<and> plan_edges p = fst (snd (compile_parts sha opts snapshot))"
proof -
  obtain nodes edges "is" where parts: "compile_parts sha opts snapshot = (nodes, edges, is)"
    by (cases "compile_parts sha opts snapshot")
  from assms show ?thesis unfolding compile_split [OF parts]
    by (auto simp: compiles_def parts Let_def split: sum.splits)
qed

lemma sample_compiles: "compiles sample_digest sample_options sample_snapshot"
  "wf_format (workflowHead sample_options sample_snapshot) = ''universal_v3''"
  by code_simp+


theorem compiled_v3_plan_closed_witness:
  "\<exists>r p. compileWorkflowSnapshot sample_digest sample_options sample_snapshot = Inr r \<and>
     compile_plan r = Some p \<and> v3_plan p"
  using compiles_plan [OF sample_compiles(1)] compiled_v3_plan_closed sample_compiles(2) by metis

theorem compile_verdict_witness:
  "\<exists>r. compileWorkflowSnapshot sample_digest sample_options sample_snapshot = Inr r \<and> compile_ok r"
  using compiles_plan [OF sample_compiles(1)] compile_verdict by (metis option.distinct(1))

end
