(* ===== verification/Registry.thy ===== *)
theory Registry
  imports Contracts
begin

text \<open>
  \<^verbatim>\<open>engine/src/ai/graph-runtime/runtime-registry.ts\<close>: the registry of runtime adapters, two
  \<^verbatim>\<open>Map\<close>s built from a manifest and filled by \<open>register\<close>. An adapter is its key and its
  \<^verbatim>\<open>execute\<close> function, of an arbitrary type. The manifest entry is the one of the contracts.
\<close>

section \<open>State and operations\<close>

record 'x runtime_adapter =
  ra_key :: jstr
  ra_execute :: 'x

record 'x registry =
  reg_adapters :: "(jstr \<times> 'x runtime_adapter) list"
  reg_manifest :: "(jstr \<times> adapter_entry) list"

definition unknown_adapter :: "jstr \<Rightarrow> js_error" where
  "unknown_adapter k = Error (''Unknown runtime adapter: '' @ k)"

definition declareEntry :: "(jstr \<times> adapter_entry) list \<Rightarrow> adapter_entry \<Rightarrow> (jstr \<times> adapter_entry) list res" where
  "declareEntry m e =
     (if map_of m (adapter_key e) \<noteq> None
      then Throw (''Duplicate adapter in manifest: '' @ adapter_key e)
      else Inr (obj_put m (adapter_key e) e))"

definition newRegistry :: "runtime_manifest option \<Rightarrow> 'x registry res" where
  "newRegistry manifest =
     map_ok (\<lambda>m. \<lparr>reg_adapters = [], reg_manifest = m\<rparr>)
       (fold_res declareEntry [] (case manifest of None \<Rightarrow> [] | Some m \<Rightarrow> manifest_adapters m))"

definition register :: "'x registry \<Rightarrow> 'x runtime_adapter \<Rightarrow> 'x registry res" where
  "register r a =
     (if map_of (reg_adapters r) (ra_key a) \<noteq> None
      then Throw (''Runtime adapter already registered: '' @ ra_key a)
      else case map_of (reg_manifest r) (ra_key a) of
          None \<Rightarrow> Throw (''Adapter '' @ ra_key a @ '' is not declared in the runtime manifest'')
        | Some e \<Rightarrow>
            if adapter_deprecated e then Throw (''Cannot register deprecated adapter: '' @ ra_key a)
            else Inr (r\<lparr>reg_adapters := obj_put (reg_adapters r) (ra_key a) a\<rparr>))"

definition resolve :: "'x registry \<Rightarrow> jstr \<Rightarrow> 'x runtime_adapter res" where
  "resolve r k = (case map_of (reg_adapters r) k of None \<Rightarrow> Inl (unknown_adapter k) | Some a \<Rightarrow> Inr a)"

definition assertCompatible :: "'x registry \<Rightarrow> jstr \<Rightarrow> jstr \<Rightarrow> jstr \<Rightarrow> adapter_entry res" where
  "assertCompatible r k purpose contractVersion =
     (case map_of (reg_manifest r) k of
        None \<Rightarrow> Inl (unknown_adapter k)
      | Some e \<Rightarrow>
          if purpose \<notin> set (adapter_purposes e) \<and> ''*'' \<notin> set (adapter_purposes e)
          then Throw (''Adapter '' @ k @ '' does not support workflow purpose '' @ purpose)
          else if contractVersion \<notin> set (adapter_contract_versions e)
          then Throw (''Adapter '' @ k @ '' does not support contract '' @ contractVersion)
          else Inr e)"

definition listRegistered :: "'x registry \<Rightarrow> jstr list" where
  "listRegistered r = sort_by str_le (map fst (reg_adapters r))"

section \<open>The interface of a write-once map\<close>

text \<open>
  What the registry promises its clients, with the map abstract: \<open>enter\<close> stores under a fresh
  key only, so what a key resolves to never changes again.
\<close>

locale write_once =
  fixes look :: "'s \<Rightarrow> 'k \<Rightarrow> 'v option"
    and enter :: "'s \<Rightarrow> 'v \<Rightarrow> 's res"
    and key :: "'v \<Rightarrow> 'k"
  assumes enter_look: "enter s v = Inr s' \<Longrightarrow> look s' k = (if k = key v then Some v else look s k)"
    and enter_fresh: "enter s v = Inr s' \<Longrightarrow> look s (key v) = None"
begin

lemma enter_stable: "enter s v = Inr s' \<Longrightarrow> look s k = Some w \<Longrightarrow> look s' k = Some w"
  using enter_look enter_fresh by fastforce

lemma enter_all_stable:
  "fold_res enter s vs = Inr s' \<Longrightarrow> look s k = Some w \<Longrightarrow> look s' k = Some w"
  by (rule fold_res_invariant [where P = "\<lambda>t. look t k = Some w"]) (auto intro: enter_stable)

lemma enter_all_look: "fold_res enter s vs = Inr s' \<Longrightarrow> v \<in> set vs \<Longrightarrow> look s' (key v) = Some v"
proof (induction vs arbitrary: s)
  case (Cons u vs)
  then obtain s1 where s1: "enter s u = Inr s1" "fold_res enter s1 vs = Inr s'" by (auto simp: res_simps)
  show ?case
  proof (cases "v \<in> set vs")
    case False
    with Cons.prems s1(1) have "look s1 (key v) = Some v" by (simp add: enter_look)
    with s1(2) show ?thesis by (rule enter_all_stable)
  qed (use Cons.IH s1(2) in blast)
qed simp

lemma enter_all_distinct: "fold_res enter s vs = Inr s' \<Longrightarrow> distinct (map key vs)"
proof (induction vs arbitrary: s)
  case (Cons u vs)
  then obtain s1 where s1: "enter s u = Inr s1" "fold_res enter s1 vs = Inr s'" by (auto simp: res_simps)
  have "key u \<notin> key ` set vs"
  proof
    assume "key u \<in> key ` set vs"
    then obtain v where v: "v \<in> set vs" "key v = key u" by auto
    then obtain xs ys where vs: "vs = xs @ v # ys" by (meson split_list)
    with s1(2) obtain s2 s3 where "fold_res enter s1 xs = Inr s2" "enter s2 v = Inr s3"
      by (auto simp: fold_res_append res_simps)
    moreover have "look s1 (key u) = Some u" using s1(1) by (simp add: enter_look)
    ultimately show False using enter_all_stable enter_fresh v(2) by fastforce
  qed
  with Cons.IH [OF s1(2)] show ?case by simp
qed simp

end

interpretation registry: write_once "\<lambda>r. map_of (reg_adapters r)" register ra_key
  by unfold_locales (auto simp: register_def map_of_obj_put split: if_splits option.splits)

interpretation manifest: write_once map_of declareEntry adapter_key
  by unfold_locales (auto simp: declareEntry_def map_of_obj_put split: if_splits)

section \<open>Reachable registries\<close>

inductive reachable_registry :: "runtime_manifest option \<Rightarrow> 'x registry \<Rightarrow> bool" for manifest where
  construct: "newRegistry manifest = Inr r \<Longrightarrow> reachable_registry manifest r"
| register: "reachable_registry manifest r \<Longrightarrow> register r a = Inr r' \<Longrightarrow> reachable_registry manifest r'"

definition registry_inv :: "'x registry \<Rightarrow> bool" where
  "registry_inv r \<longleftrightarrow>
     distinct (map fst (reg_adapters r)) \<and>
     (\<forall>(k, a) \<in> set (reg_adapters r). ra_key a = k \<and>
        (case map_of (reg_manifest r) k of Some e \<Rightarrow> \<not> adapter_deprecated e | None \<Rightarrow> False))"

lemma registry_inv_new: "newRegistry manifest = Inr r \<Longrightarrow> registry_inv r"
  by (auto simp: newRegistry_def res_simps registry_inv_def)

lemma registry_inv_register: "registry_inv r \<Longrightarrow> register r a = Inr r' \<Longrightarrow> registry_inv r'"
proof -
  assume inv: "registry_inv r" and "register r a = Inr r'"
  then obtain e where e: "map_of (reg_manifest r) (ra_key a) = Some e" "\<not> adapter_deprecated e"
    and fresh: "ra_key a \<notin> fst ` set (reg_adapters r)"
    and r': "r' = r\<lparr>reg_adapters := obj_put (reg_adapters r) (ra_key a) a\<rparr>"
    by (auto simp: register_def map_of_eq_None_iff [symmetric] split: if_splits option.splits)
  from inv e fresh show ?thesis by (auto simp: r' registry_inv_def obj_put_fresh)
qed

lemma reachable_registry_inv: "reachable_registry manifest r \<Longrightarrow> registry_inv r"
  by (induction rule: reachable_registry.induct) (auto intro: registry_inv_new registry_inv_register)

lemma reachable_manifest:
  "reachable_registry manifest r \<Longrightarrow> \<exists>r0 :: 'x registry. newRegistry manifest = Inr r0 \<and> reg_manifest (r :: 'x registry) = reg_manifest r0"
proof (induction rule: reachable_registry.induct)
  case (register r a r')
  then show ?case by (auto simp: register_def split: if_splits option.splits)
qed blast

lemma newRegistry_manifest:
  "newRegistry (Some m) = Inr r \<Longrightarrow> e \<in> set (manifest_adapters m) \<Longrightarrow> map_of (reg_manifest r) (adapter_key e) = Some e"
  by (auto simp: newRegistry_def res_simps intro: manifest.enter_all_look)

section \<open>Properties\<close>

text \<open>
  C23. In every registry that construction and registrations can produce, an adapter that resolves
  carries the key it is resolved under, is declared in the manifest and is not deprecated; and the
  listing is sorted and holds exactly the keys that resolve.
\<close>

theorem registry_sound:
  assumes "reachable_registry manifest r"
  shows "(resolve r k = Inr a \<longrightarrow> ra_key a = k \<and> (\<exists>e. map_of (reg_manifest r) k = Some e \<and> \<not> adapter_deprecated e)) \<and>
    (k \<in> set (listRegistered r) \<longleftrightarrow> \<not> isl (resolve r k)) \<and> sorted_wrt str_le (listRegistered r)"
proof -
  have inv: "registry_inv r" using assms by (rule reachable_registry_inv)
  have "k \<in> set (listRegistered r) \<longleftrightarrow> map_of (reg_adapters r) k \<noteq> None"
    by (simp add: listRegistered_def map_of_eq_None_iff)
  moreover have "sorted_wrt str_le (listRegistered r)"
    unfolding listRegistered_def by (rule sorted_sort_by) (use str_lt_asym str_le_trans in auto)
  moreover have "ra_key a = k \<and> (\<exists>e. map_of (reg_manifest r) k = Some e \<and> \<not> adapter_deprecated e)"
    if "map_of (reg_adapters r) k = Some a"
    using inv map_of_SomeD [OF that] by (auto simp: registry_inv_def split: option.splits)
  ultimately show ?thesis by (auto simp: resolve_def split: option.splits)
qed

definition sample_manifest :: runtime_manifest where
  "sample_manifest = \<lparr>manifest_version = ''1'', manifest_adapters =
     [\<lparr>adapter_key = ''a/v1'', adapter_version = ''1'', adapter_purposes = [''*''], adapter_contract_versions = [''1''],
       adapter_capabilities = [], adapter_side_effects = ''none'', adapter_retryable = None, adapter_deprecated = False\<rparr>]\<rparr>"

definition sample_registry :: "unit registry" where
  "sample_registry =
     \<lparr>reg_adapters = [(''a/v1'', \<lparr>ra_key = ''a/v1'', ra_execute = ()\<rparr>)],
      reg_manifest = [(''a/v1'', hd (manifest_adapters sample_manifest))]\<rparr>"

lemma sample_registry_reachable: "reachable_registry (Some sample_manifest) sample_registry"
proof (rule reachable_registry.register)
  show "reachable_registry (Some sample_manifest) (sample_registry\<lparr>reg_adapters := []\<rparr>)"
    by (rule reachable_registry.construct) (simp add: newRegistry_def sample_manifest_def sample_registry_def declareEntry_def)
  show "register (sample_registry\<lparr>reg_adapters := []\<rparr>) \<lparr>ra_key = ''a/v1'', ra_execute = ()\<rparr> = Inr sample_registry"
    by (simp add: register_def sample_registry_def sample_manifest_def)
qed

theorem registry_sound_witness:
  "''a/v1'' \<in> set (listRegistered sample_registry) \<and> sorted_wrt str_le (listRegistered sample_registry)"
  using registry_sound [OF sample_registry_reachable, of "''a/v1''" undefined]
  by (simp add: resolve_def sample_registry_def)

text \<open>
  Registration is write-once: it succeeds exactly for a fresh key the manifest declares as
  not deprecated, the registered adapter then resolves, every other key resolves as before, and a
  second registration of the key throws.
\<close>

theorem register_resolve:
  "((\<exists>r'. register r a = Inr r') \<longleftrightarrow>
      map_of (reg_adapters r) (ra_key a) = None \<and>
      (\<exists>e. map_of (reg_manifest r) (ra_key a) = Some e \<and> \<not> adapter_deprecated e)) \<and>
   (\<forall>r'. register r a = Inr r' \<longrightarrow>
      resolve r' (ra_key a) = Inr a \<and> (\<forall>k. k \<noteq> ra_key a \<longrightarrow> resolve r' k = resolve r k) \<and>
      (\<forall>b. ra_key b = ra_key a \<longrightarrow> isl (register r' b)))"
proof -
  have "isl (register r' b)" if "register r a = Inr r'" "ra_key b = ra_key a" for r' b
    using registry.enter_look [OF that(1)] that(2) by (auto simp: register_def)
  moreover have "resolve r' (ra_key a) = Inr a" "k \<noteq> ra_key a \<Longrightarrow> resolve r' k = resolve r k"
    if "register r a = Inr r'" for r' k
    using registry.enter_look [OF that] by (auto simp: resolve_def)
  moreover have "(\<exists>r'. register r a = Inr r') \<longleftrightarrow>
      map_of (reg_adapters r) (ra_key a) = None \<and>
      (\<exists>e. map_of (reg_manifest r) (ra_key a) = Some e \<and> \<not> adapter_deprecated e)"
    by (auto simp: register_def split: option.splits)
  ultimately show ?thesis by blast
qed

theorem register_resolve_witness:
  "resolve sample_registry ''a/v1'' = Inr \<lparr>ra_key = ''a/v1'', ra_execute = ()\<rparr>"
proof -
  have "register (sample_registry\<lparr>reg_adapters := []\<rparr>) \<lparr>ra_key = ''a/v1'', ra_execute = ()\<rparr> = Inr sample_registry"
    by (simp add: register_def sample_registry_def sample_manifest_def)
  with register_resolve [of "sample_registry\<lparr>reg_adapters := []\<rparr>" "\<lparr>ra_key = ''a/v1'', ra_execute = ()\<rparr>"]
  show ?thesis by auto
qed

end
