(* ===== verification/WorkflowParts.thy ===== *)
theory WorkflowParts
  imports Contracts
begin

text \<open>
  The small modules the workflow executor is built from, under
  \<^verbatim>\<open>engine/src/ai/graph-runtime\<close>: \<^verbatim>\<open>runtime-mode.ts\<close>, \<^verbatim>\<open>workflow-mode.ts\<close>,
  \<^verbatim>\<open>workflow-routing.ts\<close>, \<^verbatim>\<open>workflow-timeout.ts\<close> and \<^verbatim>\<open>workflow-mapping.ts\<close>. Definitions, nodes,
  edges, agent inputs and agent outputs are JSON-like values read the way the source reads them.
  Times are rationals (milliseconds); the clock is an argument.
\<close>

section \<open>Runtime mode flags\<close>

record mode_flags =
  graph_compat_enabled :: bool
  graph_native_enabled :: bool
  shadow_compare_enabled :: bool
  eligible_purposes :: "jstr list"

definition resolveRuntimeMode :: "jval \<Rightarrow> mode_flags \<Rightarrow> jstr" where
  "resolveRuntimeMode snapshot flags =
     (let requested = js_coalesce (js_get snapshot ''runtime_mode'') (JStr ''legacy'');
          purpose = js_coalesce (js_get snapshot ''purpose'') (JStr ''unknown'')
      in if purpose \<notin> JStr ` set (eligible_purposes flags) then ''legacy''
         else if requested = JStr ''graph_native'' then
           (if graph_native_enabled flags then ''graph_native'' else ''graph_compat'')
         else if requested = JStr ''shadow_compare'' then
           (if shadow_compare_enabled flags then ''shadow_compare'' else ''legacy'')
         else if requested = JStr ''graph_compat'' then
           (if graph_compat_enabled flags then ''graph_compat'' else ''legacy'')
         else ''legacy'')"

definition mayExecuteSideEffectsTwice :: "jstr \<Rightarrow> bool" where
  "mayExecuteSideEffectsTwice mode \<longleftrightarrow> mode \<noteq> ''shadow_compare''"

section \<open>Workflow modes\<close>

definition graphDispatchEnabled :: "jval \<Rightarrow> bool" where
  "graphDispatchEnabled d =
     (let mode = toLowerCase (to_string (first_truthy
        [js_path d [''workflow'', ''runtime_mode''], js_path d [''workflow'', ''decision_policy_json'', ''runtime_mode''], JStr []]))
      in mode = ''graph_compat'' \<or> mode = ''graph_native'' \<or> mode = ''shadow_compare'')"

definition workflowFormat :: "jval \<Rightarrow> jstr" where
  "workflowFormat d = toLowerCase (to_string (js_or (js_path d [''workflow'', ''workflow_format'']) (JStr ''legacy_v1'')))"

definition isUniversalWorkflow :: "jval \<Rightarrow> bool" where
  "isUniversalWorkflow d \<longleftrightarrow> workflowFormat d = ''universal_v2'' \<or> workflowFormat d = ''universal_v3''"

definition isGraphAuthoritativeV3 :: "jval \<Rightarrow> bool" where
  "isGraphAuthoritativeV3 d \<longleftrightarrow> workflowFormat d = ''universal_v3''"

section \<open>Routing\<close>

definition def_nodes :: "jval \<Rightarrow> jval list" where
  "def_nodes d = arr_elems (js_get d ''nodes'')"

definition def_edges :: "jval \<Rightarrow> jval list" where
  "def_edges d = arr_elems (js_get d ''edges'')"

definition str_field :: "jval \<Rightarrow> jstr \<Rightarrow> jstr" where
  "str_field v k = to_string (js_get v k)"

definition not_disabled :: "jval \<Rightarrow> bool" where
  "not_disabled node \<longleftrightarrow> js_get node ''enabled'' \<noteq> JBool False"

definition startNode :: "jval \<Rightarrow> jval option" where
  "startNode d =
     (let explicit = js_path d [''workflow'', ''decision_policy_json'', ''entry_node_id''] in
      if truthy explicit then
        find (\<lambda>n. str_field n ''id'' = to_string explicit \<and> not_disabled n) (def_nodes d)
      else
        (let targets = map (\<lambda>e. str_field e ''target_node_id'') (def_edges d) in
         case find (\<lambda>n. not_disabled n \<and> str_field n ''id'' \<notin> set targets) (def_nodes d) of
           Some n \<Rightarrow> Some n
         | None \<Rightarrow> find not_disabled (def_nodes d)))"

definition conditionMatches :: "jval \<Rightarrow> jval \<Rightarrow> jnum \<Rightarrow> bool" where
  "conditionMatches edge output retryCount =
     (let condition = toLowerCase (to_string (js_or (js_get edge ''condition_type'') (JStr ''always'')));
          outputPort = toLowerCase (to_string (first_truthy
            [js_path output [''decision'', ''universal_result'', ''route'', ''outputPort''],
             js_path output [''decision'', ''route'', ''outputPort''], JStr []]));
          status = js_get output ''status''
      in if condition = ''output_port'' \<or> condition = ''decision_is'' then
           (let expected = toLowerCase (to_string (first_truthy
              [js_path edge [''condition_json'', ''value''], js_path edge [''condition_json'', ''output_port''],
               js_get edge ''source_handle'', JStr []]))
            in expected \<noteq> [] \<and> outputPort = expected)
         else if condition = ''always'' then True
         else if condition = ''on_success'' then status = JStr ''SUCCESS''
         else if condition = ''on_failed'' then status = JStr ''FAILED''
         else if condition = ''on_blocked'' then status = JStr ''BLOCKED''
         else if condition = ''on_rejected'' then
           status = JStr ''FAILED'' \<or> js_path output [''decision'', ''approved''] = JBool False \<or>
           js_path output [''decision'', ''rejected''] = JBool True
         else if condition = ''confidence_lt'' then
           num_lt (to_number (js_or (js_get output ''confidence'') (num 0)))
             (to_number (first_defined
               [js_path edge [''condition_json'', ''value''], js_path edge [''condition_json'', ''threshold''], num 70]))
         else if condition = ''retry_count_lt'' then
           num_lt retryCount (to_number (first_defined
               [js_path edge [''condition_json'', ''max''], js_path edge [''condition_json'', ''value''], num 1]))
         else False)"

section \<open>Timeouts\<close>

text \<open>A number times a positive constant.\<close>

fun num_scale :: "rat \<Rightarrow> jnum \<Rightarrow> jnum" where
  "num_scale c (Fin q) = Fin (c * q)"
| "num_scale c n = n"

text \<open>\<open>elapsed\<close> is \<^verbatim>\<open>Date.now() - workflowStartedAt\<close>.\<close>

definition resolveLegacyNodeTimeoutMs :: "jval \<Rightarrow> jval \<Rightarrow> rat \<Rightarrow> jnum" where
  "resolveLegacyNodeTimeoutMs node workflowTimeoutMs elapsed =
     (let bounded = num_lt (Fin 0) (to_number (js_or workflowTimeoutMs (num 0)));
          remaining = (if bounded then num_max (Fin 1000) (num_add (to_number workflowTimeoutMs) (Fin (- elapsed))) else Fin 0);
          configured = num_scale 1000 (num_max (Fin 1) (to_number (js_or (js_get node ''timeout_sec'') (num 60))));
          type = toLowerCase (to_string (js_or (js_get node ''type'') (JStr [])))
      in if type \<in> {''executor'', ''browser_action_agent'', ''contextresolver'', ''auditor''} \<and>
            num_le configured (Fin 60000) \<and> num_lt (Fin 0) remaining
         then remaining
         else if num_lt (Fin 0) remaining then num_min configured remaining else configured)"

text \<open>
  A pending computation: the time after which it settles, if it ever does, and what it settles
  to. \<^verbatim>\<open>withTimeout\<close> races it against a timer; the result comes with the time that passed.
\<close>

record promise =
  settles :: "rat option"
  outcome :: "jval res"

definition withTimeout :: "promise \<Rightarrow> jnum \<Rightarrow> jval \<Rightarrow> jval res \<times> rat" where
  "withTimeout p timeout fallback =
     (case settles p of
        Some t \<Rightarrow>
          if num_le (Fin t) timeout then (outcome p, t)
          else (Inr fallback, case timeout of Fin m \<Rightarrow> max 1 m | _ \<Rightarrow> 1)
      | None \<Rightarrow> (Inr fallback, case timeout of Fin m \<Rightarrow> max 1 m | _ \<Rightarrow> 1))"

section \<open>Node input and output mapping\<close>

definition valueAtPath :: "jval \<Rightarrow> jval \<Rightarrow> jval" where
  "valueAtPath src path = js_path src (path_parts (to_string (js_or path (JStr []))))"

text \<open>\<^verbatim>\<open>typeof v === 'object' && !Array.isArray(v)\<close> for a truthy \<^verbatim>\<open>v\<close>.\<close>

definition plain_object :: "jval \<Rightarrow> bool" where
  "plain_object v \<longleftrightarrow> truthy v \<and> isRecord v"

text \<open>\<^verbatim>\<open>{ ...v }\<close> and an object with further properties.\<close>

definition with_props :: "jval \<Rightarrow> jobj \<Rightarrow> jval" where
  "with_props v kvs = JObj (obj_spread (own_props v) kvs)"

definition path_entry :: "jval \<Rightarrow> bool" where
  "path_entry v \<longleftrightarrow> is_str v \<and> trim (to_string v) \<noteq> []"

definition applyNodeInputMapping :: "jval \<Rightarrow> jval \<Rightarrow> jval" where
  "applyNodeInputMapping node input =
     (let mapping = js_or (js_path node [''config_json'', ''input_mapping'']) (js_get node ''input_mapping'');
          edgeInputs = js_path input [''sharedMemory'', ''universal_inputs'', str_field node ''id''];
          hasEdgeInputs = plain_object edgeInputs
      in if \<not> plain_object mapping \<and> \<not> hasEdgeInputs then input
         else
           (let src = JObj [(''context'', js_get input ''context''), (''observation'', js_get input ''observation''),
                            (''step'', js_get input ''step''), (''sharedMemory'', js_get input ''sharedMemory''),
                            (''history'', js_get input ''history'')];
                mappedInputs = map (\<lambda>(t, p). (t, valueAtPath src p))
                  (filter (\<lambda>(t, p). path_entry p) (js_entries (own_props (js_or mapping (JObj [])))));
                inputs = obj_spread (if hasEdgeInputs then own_props edgeInputs else []) (obj_of mappedInputs)
            in with_props input
                 [(''context'', with_props (js_get input ''context'') [(''workflow_inputs'', JObj inputs)])]))"

definition strip_shared_memory :: "jstr \<Rightarrow> jstr" where
  "strip_shared_memory t = (if starts_with t ''sharedMemory.'' then drop (length ''sharedMemory.'') t else t)"

definition applyNodeOutputMapping :: "jval \<Rightarrow> jval \<Rightarrow> jval" where
  "applyNodeOutputMapping node output =
     (let mapping = js_or (js_path node [''config_json'', ''output_mapping'']) (js_get node ''output_mapping'')
      in if \<not> plain_object mapping then output
         else
           (let patch = js_or (js_get output ''sharedMemoryPatch'') (JObj []);
                src = JObj [(''output'', output), (''decision'', js_get output ''decision''), (''sharedMemory'', patch)];
                mappedPatch = map (\<lambda>(t, p). (strip_shared_memory t, valueAtPath src p))
                  (filter (\<lambda>(t, p). path_entry p \<and> t \<notin> {''__proto__'', ''prototype'', ''constructor''}) (js_entries (own_props mapping)))
            in with_props output [(''sharedMemoryPatch'', with_props patch (obj_of mappedPatch))]))"

end
