(* ===== verification/V3Runtime.thy ===== *)
theory V3Runtime
  imports Compiler WorkflowParts
begin

text \<open>
  \<^verbatim>\<open>engine/src/ai/graph-runtime/v3-runtime.ts\<close>: running one node of a compiled V3 plan (timeout,
  bounded technical retries with backoff, normalization of the adapter's answer) and choosing
  the next edge by output port, remaining passes and condition. The adapter is the parameter
  \<open>call\<close>, the promise of its n-th invocation.
\<close>

section \<open>Reading an agent output\<close>

definition outputPortFor :: "jval \<Rightarrow> jstr" where
  "outputPortFor output =
     toLowerCase (trim (to_string (first_truthy
       [js_path output [''decision'', ''universal_result'', ''route'', ''outputPort''],
        js_path output [''decision'', ''route'', ''outputPort''],
        js_path output [''decision'', ''output_port''], JStr []])))"

definition reasonCodeFor :: "jval \<Rightarrow> jstr" where
  "reasonCodeFor output =
     trim (to_string (first_truthy
       [js_path output [''decision'', ''universal_result'', ''reason_code''],
        js_path output [''decision'', ''reason_code''], js_get output ''reason'', JStr ''NODE_RESULT'']))"

section \<open>Normalization of an adapter answer\<close>

definition graph_native_shape :: "jval \<Rightarrow> bool" where
  "graph_native_shape v \<longleftrightarrow>
     truthy v \<and> is_object v \<and>
     (js_in ''output_port'' v \<or> js_in ''outputPort'' v \<or>
      js_get v ''status'' = JStr ''RETRYABLE'' \<or> js_get v ''status'' = JStr ''CANCELLED'')"

definition array_or_empty :: "jval \<Rightarrow> jval" where
  "array_or_empty v = (if is_array v then v else JArr [])"

definition agentStatus :: "jstr \<Rightarrow> jstr" where
  "agentStatus rawStatus =
     (if rawStatus = ''SUCCESS'' then ''SUCCESS''
      else if rawStatus = ''SKIPPED'' then ''SKIPPED''
      else if rawStatus = ''BLOCKED'' \<or> rawStatus = ''CANCELLED'' then ''BLOCKED'' else ''FAILED'')"

definition proposedAction :: "jval \<Rightarrow> jval \<Rightarrow> jval" where
  "proposedAction v dat =
     first_truthy
       [js_get v ''proposed_action'', js_path v [''decision'', ''proposed_action''], js_get dat ''proposed_action'',
        js_path v [''sharedMemoryPatch'', ''planned_action''], js_get v ''action'',
        js_path v [''decision'', ''action''], js_get dat ''action'']"

definition normalizeGraphNativeOutput :: "jval \<Rightarrow> jval \<Rightarrow> jval" where
  "normalizeGraphNativeOutput v node =
     (if \<not> graph_native_shape v then with_props v [(''events'', array_or_empty (js_get v ''events''))]
      else
        (let rawStatus = toUpperCase (to_string (js_or (js_get v ''status'') (JStr ''FAILED'')));
             st = agentStatus rawStatus;
             outputPort = toLowerCase (to_string (first_truthy
               [js_get v ''output_port'', js_get v ''outputPort'', JStr (if st = ''SUCCESS'' then ''success'' else toLowerCase st)]));
             reasonCode = to_string (first_truthy [js_get v ''reason_code'', js_get v ''reasonCode'', JStr rawStatus]);
             dat = (if plain_object (js_get v ''data'') then js_get v ''data'' else JObj []);
             action = proposedAction v dat;
             conf = to_number (js_get v ''confidence'')
         in JObj
           [(''status'', JStr st),
            (''confidence'', if is_finite_num conf then JNum conf else JUndef),
            (''reason'', JStr (to_string (first_truthy [js_get v ''message'', js_get v ''reason'', JStr reasonCode]))),
            (''events'', array_or_empty (js_get v ''events'')),
            (''decision'', with_props (js_or (js_get v ''decision'') (JObj []))
               ([(''graph_native'', JBool True), (''raw_status'', JStr rawStatus), (''reason_code'', JStr reasonCode),
                 (''outputs'', dat),
                 (''route'', with_props (js_or (js_path v [''decision'', ''route'']) (JObj [])) [(''outputPort'', JStr outputPort)])]
                @ (if is_array (js_get v ''evidence_refs'') then [(''evidence_refs'', js_get v ''evidence_refs'')] else [])
                @ (if truthy (js_get v ''metrics'') then [(''metrics'', js_get v ''metrics'')] else []))),
            (''sharedMemoryPatch'', with_props (js_or (js_get v ''sharedMemoryPatch'') (JObj []))
               ([(''graph_node_outputs'', JObj [(str_field node ''id'', dat)]), (''last_node_output'', dat)]
                @ (if truthy action then [(''planned_action'', action)] else [])))]))"

section \<open>Technical retries\<close>

definition shouldRetry :: "jval \<Rightarrow> compiled_node \<Rightarrow> nat \<Rightarrow> bool" where
  "shouldRetry raw cn attempt =
     (let retry = node_retry cn in
      if max_attempts retry \<le> of_nat attempt then False
      else
        (let rawStatus = toUpperCase (to_string (js_or (js_get raw ''status'') (JStr [])));
             reasonCode = to_string (first_truthy [js_get raw ''reason_code'', js_get raw ''reasonCode'', JStr []])
         in rawStatus = ''RETRYABLE'' \<or>
            (retryable_reason_codes retry \<noteq> [] \<and> reasonCode \<in> set (retryable_reason_codes retry))))"

definition retryDelay :: "compiled_node \<Rightarrow> nat \<Rightarrow> rat" where
  "retryDelay cn attempt =
     (let delay = min (max_backoff_ms (node_retry cn)) (initial_backoff_ms (node_retry cn) * max 1 (2 ^ (attempt - 1)))
      in if 0 < delay then min delay 5000 else 0)"

definition timeoutOutput :: "jval \<Rightarrow> jval" where
  "timeoutOutput node =
     JObj [(''status'', JStr ''BLOCKED''), (''reason'', JStr (''Timeout del nodo '' @ str_field node ''name'')),
           (''events'', JArr []),
           (''decision'', JObj [(''reason_code'', JStr ''NODE_TIMEOUT''), (''route'', JObj [(''outputPort'', JStr ''blocked'')])])]"

text \<open>
  The \<^verbatim>\<open>do ... while (true)\<close> loop: the last answer, the attempts made and the time that passed.
\<close>

function retryLoop ::
  "compiled_node \<Rightarrow> (nat \<Rightarrow> promise) \<Rightarrow> jnum \<Rightarrow> jval \<Rightarrow> nat \<Rightarrow> rat \<Rightarrow> jval res \<times> nat \<times> rat" where
  "retryLoop cn call timeout fallback attempt elapsed =
     (case withTimeout (call attempt) timeout fallback of
        (Inl e, t) \<Rightarrow> (Inl e, attempt, elapsed + t)
      | (Inr raw, t) \<Rightarrow>
          if \<not> shouldRetry raw cn attempt then (Inr raw, attempt, elapsed + t)
          else retryLoop cn call timeout fallback (attempt + 1) (elapsed + t + retryDelay cn attempt))"
  by pat_completeness auto
termination
proof (relation "measure (\<lambda>(cn, call, timeout, fallback, attempt, elapsed). nat \<lceil>max_attempts (node_retry cn)\<rceil> - attempt)")
  fix cn :: compiled_node and attempt :: nat and raw :: jval
  assume "\<not> \<not> shouldRetry raw cn attempt"
  then have "of_nat attempt < max_attempts (node_retry cn)"
    by (auto simp: shouldRetry_def Let_def not_le split: if_splits)
  then have "attempt < nat \<lceil>max_attempts (node_retry cn)\<rceil>" by linarith
  then have "nat \<lceil>max_attempts (node_retry cn)\<rceil> - (attempt + 1) < nat \<lceil>max_attempts (node_retry cn)\<rceil> - attempt" by linarith
  then show "((cn, call, timeout, fallback, attempt + 1, el'), cn, call, timeout, fallback, attempt, el)
     \<in> measure (\<lambda>(cn, call, timeout, fallback, attempt, elapsed). nat \<lceil>max_attempts (node_retry cn)\<rceil> - attempt)"
    for call :: "nat \<Rightarrow> promise" and timeout :: jnum and fallback :: jval and el' el :: rat by simp
qed simp

declare retryLoop.simps [simp del]

definition executeGraphNativeHandler ::
  "jval \<Rightarrow> compiled_node \<Rightarrow> (nat \<Rightarrow> promise) \<Rightarrow> jnum \<Rightarrow> jval res \<times> nat \<times> rat" where
  "executeGraphNativeHandler node cn call timeout =
     (case retryLoop cn call timeout (timeoutOutput node) 1 0 of
        (Inl e, attempt, elapsed) \<Rightarrow> (Inl e, attempt, elapsed)
      | (Inr raw, attempt, elapsed) \<Rightarrow>
          (let normalized = normalizeGraphNativeOutput raw node
           in (Inr (with_props normalized
                 [(''decision'', with_props (js_or (js_get normalized ''decision'') (JObj []))
                    [(''technical_attempts'', num (of_nat attempt))])]), attempt, elapsed)))"

section \<open>The runtime view of a compiled node\<close>

definition runtimeNodeFromCompiled :: "jval \<Rightarrow> compiled_node \<Rightarrow> jval" where
  "runtimeNodeFromCompiled node cn =
     (let agent = js_get node ''universal_agent'';
          contract = js_coalesce (js_path node [''universal_agent'', ''contract'']) (JObj []);
          inMap = with_props (input_mapping cn) [];
          outMap = with_props (output_mapping cn) []
      in with_props node
        [(''prompt_template'', JStr (node_prompt cn)), (''timeout_sec'', num (timeout_ms cn / 1000)),
         (''retry_policy'', retry_json (node_retry cn)), (''input_mapping'', inMap), (''output_mapping'', outMap),
         (''output_ports'', str_array (output_ports cn)), (''terminal_ports'', str_array (terminal_ports cn)),
         (''config_json'', with_props (node_config cn)
            [(''runtime_adapter'', JStr (native_adapter cn)), (''input_mapping'', inMap), (''output_mapping'', outMap),
             (''output_ports'', str_array (output_ports cn)), (''terminal_ports'', str_array (terminal_ports cn)),
             (''timeout_ms'', num (timeout_ms cn))]),
         (''universal_agent'',
            if truthy agent then
              with_props agent [(''contract'', with_props contract
                [(''implementation'', with_props (js_coalesce (js_get contract ''implementation'') (JObj []))
                   [(''native_adapter'', JStr (native_adapter cn))])])]
            else agent)])"

text \<open>\<open>elapsed\<close> is \<^verbatim>\<open>Date.now() - workflowStartedAt\<close>.\<close>

definition compiledNodeTimeoutMs :: "compiled_node \<Rightarrow> rat option \<Rightarrow> rat \<Rightarrow> rat" where
  "compiledNodeTimeoutMs cn workflowTimeoutMs elapsed =
     (case workflowTimeoutMs of
        None \<Rightarrow> timeout_ms cn
      | Some w \<Rightarrow> if w \<le> 0 then timeout_ms cn else min (timeout_ms cn) (max 1 (w - elapsed)))"

section \<open>Choosing the next edge\<close>

definition nodeResultFor :: "jval \<Rightarrow> node_result" where
  "nodeResultFor output =
     (let st = js_get output ''status'' in
      \<lparr>status = (if st = JStr ''SUCCESS'' then ''SUCCESS'' else if st = JStr ''BLOCKED'' then ''BLOCKED''
                 else if st = JStr ''SKIPPED'' then ''SKIPPED'' else ''FAILED''),
       output_port = outputPortFor output,
       reason_code = reasonCodeFor output,
       data = first_truthy
         [js_path output [''decision'', ''universal_result'', ''outputs''], js_path output [''decision'', ''outputs''], JObj []],
       optional_props = []\<rparr>)"

text \<open>\<^verbatim>\<open>edgePasses[id] || 0\<close> on the plain object of counters.\<close>

definition passes :: "jobj \<Rightarrow> jstr \<Rightarrow> jval" where
  "passes edgePasses eid = js_or (obj_get edgePasses eid) (num 0)"

definition pass_limit :: "compiled_edge \<Rightarrow> rat" where
  "pass_limit e = (case max_passes e of None \<Rightarrow> 1 | Some m \<Rightarrow> if m = 0 then 1 else m)"

definition v3Candidates :: "compiled_plan \<Rightarrow> jval \<Rightarrow> jval \<Rightarrow> jobj \<Rightarrow> compiled_edge list" where
  "v3Candidates plan nodeId output edgePasses =
     filter (\<lambda>e. JStr (source_node_id e) = nodeId \<and>
         \<not> js_ge (passes edgePasses (edge_id e)) (num (pass_limit e)) \<and>
         (case source_port e of None \<Rightarrow> True | Some p \<Rightarrow> p = [] \<or> toLowerCase p = outputPortFor output))
       (plan_edges plan)"

definition selectCompiledV3Edge ::
  "(jstr \<Rightarrow> jstr \<Rightarrow> int) \<Rightarrow> compiled_plan \<Rightarrow> jval \<Rightarrow> jval \<Rightarrow> jobj \<Rightarrow> jobj \<Rightarrow> jnum \<Rightarrow> compiled_edge option res" where
  "selectCompiledV3Edge lc plan nodeId output st edgePasses retryCount =
     (let candidates = v3Candidates plan nodeId output edgePasses in
      selectDeterministicEdge lc candidates
        \<lparr>result = nodeResultFor output, state = st, retry_count = retryCount,
         pass_count = foldl (\<lambda>m e. num_max m (to_number (passes edgePasses (edge_id e)))) (Fin 0) candidates,
         confidence = js_get output ''confidence''\<rparr>)"

definition countPass :: "jobj \<Rightarrow> jstr \<Rightarrow> jobj" where
  "countPass edgePasses eid = obj_assign edgePasses eid (js_add (passes edgePasses eid) (num 1))"

end
