(* ===== verification/UniversalAgent.thy ===== *)
theory UniversalAgent
  imports WorkflowParts
begin

text \<open>
  \<^verbatim>\<open>engine/src/ai/universal-agent.ts\<close>: the contract of universal agents. Validation against the
  allow lists, the context an adapter receives (\<open>prepareUniversalAgentExecution\<close>), and the
  enforcement of the declared memory namespaces, evidence and ports on what it returns
  (\<open>finalizeUniversalAgentExecution\<close>).
\<close>

section \<open>Allow lists\<close>

definition UNIVERSAL_AGENT_CONTRACT_VERSION :: jstr where
  "UNIVERSAL_AGENT_CONTRACT_VERSION = ''treseko.universal-agent/v1''"

definition FORBIDDEN_CAPABILITIES :: "jstr list" where
  "FORBIDDEN_CAPABILITIES = [''agent.a2a_remote'', ''script.execute'']"

definition ALLOWED_ADAPTERS :: "jstr list" where
  "ALLOWED_ADAPTERS =
     [''legacy-context-resolver/v1'', ''legacy-pre-execution-analyst/v1'', ''legacy-observer/v1'',
      ''legacy-planner/v1'', ''legacy-security-guard/v1'', ''legacy-executor/v1'',
      ''legacy-validator/v1'', ''legacy-recovery/v1'', ''legacy-auditor/v1'', ''legacy-reporter/v1'',
      ''qa-context-resolver/v2'', ''qa-pre-execution-analyst/v2'', ''qa-browser-observer/v2'',
      ''qa-action-planner/v2'', ''qa-security-guard/v2'', ''qa-browser-action-executor/v2'',
      ''qa-step-validator/v2'', ''qa-recovery-strategist/v2'', ''qa-final-auditor/v2'',
      ''qa-execution-reporter/v2'',
      ''universal-llm/v1'', ''universal-rules/v1'', ''universal-transform/v1'', ''universal-browser/v1'',
      ''universal-validator/v1'', ''universal-human-approval/v1'', ''universal-http/v1'',
      ''universal-mcp/v1'', ''universal-reporter/v1'', ''universal-script-sandbox/v1'',
      ''universal-a2a-disabled/v1'', ''universal-subworkflow/v1'']"

section \<open>Envelope and validation\<close>

definition routeFor :: "jval \<Rightarrow> jstr" where
  "routeFor st =
     (if st = JStr ''SUCCESS'' \<or> st = JStr ''SKIPPED'' then ''success''
      else if st = JStr ''BLOCKED'' then ''blocked'' else ''failed'')"

definition requestedOutputPort :: "jval \<Rightarrow> jstr" where
  "requestedOutputPort output =
     toLowerCase (trim (to_string (first_truthy
       [js_path output [''decision'', ''route'', ''outputPort''], js_path output [''decision'', ''outputPort''],
        js_path output [''decision'', ''action''], JStr []])))"

text \<open>\<^verbatim>\<open>candidate.contract.implementation.native_adapter\<close>, which throws without an implementation.\<close>

definition contractAdapter :: "jval \<Rightarrow> jval res" where
  "contractAdapter contract = js_member (js_get contract ''implementation'') ''native_adapter''"

definition withAdapter :: "jval \<Rightarrow> jstr \<Rightarrow> jval" where
  "withAdapter envelope adapter =
     with_props envelope [(''contract'', with_props (js_get envelope ''contract'')
       [(''implementation'', with_props (js_path envelope [''contract'', ''implementation'']) [(''native_adapter'', JStr adapter)])])]"

text \<open>\<open>None\<close> is \<^verbatim>\<open>null\<close>: the node carries no universal contract.\<close>

definition universalEnvelopeFor :: "jval \<Rightarrow> jval option res" where
  "universalEnvelopeFor node =
     (let candidate = js_get node ''universal_agent'';
          runtimeAdapter = js_path node [''config_json'', ''runtime_adapter'']
      in if \<not> truthy candidate \<or> \<not> truthy (js_get candidate ''contract'') then Inr None
         else if is_str runtimeAdapter \<and> trim (to_string runtimeAdapter) \<noteq> [] then
           map_ok (\<lambda>declared.
               if runtimeAdapter \<noteq> declared then Some (withAdapter candidate (trim (to_string runtimeAdapter)))
               else Some candidate)
             (contractAdapter (js_get candidate ''contract''))
         else Inr (Some candidate))"

definition validateUniversalAgentContract :: "jval \<Rightarrow> unit res" where
  "validateUniversalAgentContract contract =
     (let capabilities = js_get contract ''capabilities'' in
      if \<not> truthy contract \<or> \<not> is_object contract then Throw ''El nodo universal no contiene un contrato.''
      else if js_get contract ''contract_version'' \<noteq> JStr UNIVERSAL_AGENT_CONTRACT_VERSION
      then Throw ''Version de contrato universal no compatible.''
      else if js_path contract [''implementation'', ''runtime_key''] \<noteq> JStr ''universal-agent-runtime/v1''
      then Throw ''Runtime universal no permitido.''
      else if to_string (js_or (js_path contract [''implementation'', ''native_adapter'']) (JStr [])) \<notin> set ALLOWED_ADAPTERS
      then Throw ''Adaptador universal no registrado.''
      else if \<not> is_array capabilities \<or> arr_elems capabilities = []
      then Throw ''El contrato universal no declara capabilities.''
      else if list_ex (\<lambda>c. c \<in> JStr ` set FORBIDDEN_CAPABILITIES) (arr_elems capabilities)
      then Throw ''El contrato solicita una capability deshabilitada.''
      else if truthy (js_path contract [''security'', ''allow_private_network'']) \<or>
              truthy (js_path contract [''security'', ''allow_filesystem'']) \<or>
              truthy (js_path contract [''security'', ''allow_shell'']) \<or>
              truthy (js_path contract [''security'', ''allow_arbitrary_code''])
      then Throw ''El contrato universal solicita una capacidad de host prohibida.''
      else if to_string (js_or (js_path contract [''implementation'', ''editable_strategy'']) (JStr []))
                \<notin> {''prompt'', ''rules'', ''mapping'', ''hybrid'', ''none''}
      then Throw ''La estrategia editable del agente universal es invalida.''
      else Inr ())"

section \<open>Preparation\<close>

definition declaredInputs :: "jval \<Rightarrow> jval \<Rightarrow> jobj" where
  "declaredInputs contract input =
     (let src = JObj [(''context'', js_get input ''context''), (''sharedMemory'', js_get input ''sharedMemory''),
                      (''observation'', js_get input ''observation''), (''step'', js_get input ''step'')];
          mappings = js_or (js_path contract [''inputs'', ''mapping'']) (JObj [])
      in obj_of (map (\<lambda>(t, s). (t, js_path src (path_parts (to_string s)))) (js_entries (own_props mappings))))"

definition prepareUniversalAgentExecution :: "jval \<Rightarrow> jval \<Rightarrow> (jval \<times> jval) res" where
  "prepareUniversalAgentExecution node input =
     res_bind (universalEnvelopeFor node) (\<lambda>found.
       case found of
         None \<Rightarrow> Throw (''El nodo '' @ str_field node ''name'' @ '' no referencia una version universal.'')
       | Some envelope \<Rightarrow>
           (let contract = js_get envelope ''contract'';
                edgeInputs = js_or (js_path input [''sharedMemory'', ''universal_inputs'', str_field node ''id'']) (JObj []);
                mappedInputs = obj_spread (declaredInputs contract input) (own_props edgeInputs)
            in res_bind (validateUniversalAgentContract contract) (\<lambda>_.
                 res_bind (js_member (js_get contract ''instructions'') ''mode'') (\<lambda>mode.
                   Inr (envelope,
                     with_props input [(''context'', with_props (js_get input ''context'')
                       [(''universal_agent'', JObj
                          [(''key'', js_get contract ''key''), (''version'', js_get envelope ''version''),
                           (''native_adapter'', js_path contract [''implementation'', ''native_adapter'']),
                           (''capabilities'', js_get contract ''capabilities''),
                           (''instructions_mode'', mode), (''mapped_inputs'', JObj mappedInputs)])])])))))"

section \<open>Finalization\<close>

definition writeNamespaces :: "jval \<Rightarrow> jval list" where
  "writeNamespaces envelope =
     arr_elems (js_or (js_path envelope [''contract'', ''memory'', ''write_namespaces'']) (JArr []))"

definition key_namespace :: "jstr \<Rightarrow> jstr" where
  "key_namespace k = hd (split_on (CHR ''.'') k)"

definition safePatch :: "jval \<Rightarrow> jval \<Rightarrow> jval" where
  "safePatch envelope output =
     (let allowed = writeNamespaces envelope;
          patch = js_or (js_get output ''sharedMemoryPatch'') (JObj [])
      in if JStr ''execution'' \<in> set allowed then patch
         else JObj (obj_of (filter (\<lambda>kv. JStr (key_namespace (fst kv)) \<in> set allowed) (js_entries (own_props patch)))))"

definition evidenceRefs :: "jval \<Rightarrow> jval" where
  "evidenceRefs output =
     (let refs = js_path output [''decision'', ''evidence_refs''] in if is_array refs then refs else JArr [])"

definition evidenceMissing :: "jval \<Rightarrow> jval \<Rightarrow> bool" where
  "evidenceMissing envelope output \<longleftrightarrow>
     truthy (js_get (js_or (js_path envelope [''contract'', ''output_contract'', ''required_evidence'']) (JArr [])) ''length'') \<and>
     arr_elems (evidenceRefs output) = [] \<and> js_get output ''status'' = JStr ''SUCCESS''"

definition declaredPorts :: "jval \<Rightarrow> jstr list" where
  "declaredPorts envelope =
     map (\<lambda>item. toLowerCase (trim (to_string item)))
       (arr_elems (js_or (js_path envelope [''contract'', ''ports'', ''control_outputs'']) (JArr [])))"

definition universalResult :: "jval \<Rightarrow> jval \<Rightarrow> jval \<Rightarrow> jval \<Rightarrow> jval \<Rightarrow> jstr \<Rightarrow> jval \<Rightarrow> jval" where
  "universalResult output st reason outputs adapter port refs =
     JObj [(''status'', st), (''reason'', reason),
           (''confidence'', JNum (to_number (js_or (js_get output ''confidence'') (num 0)))),
           (''outputs'', outputs), (''evidence_refs'', refs),
           (''metrics'', js_or (js_path output [''decision'', ''metrics'']) (JObj [])),
           (''route'', JObj [(''outputPort'', JStr port)]), (''implementation'', adapter)]"

definition publishedOutputs :: "jval \<Rightarrow> jval \<Rightarrow> jval" where
  "publishedOutputs patch output =
     (let outs = js_path output [''decision'', ''outputs'']
      in with_props patch (if truthy outs \<and> is_object outs then own_props outs else []))"

definition finalizeUniversalAgentExecution :: "jval \<Rightarrow> jval \<Rightarrow> jval res" where
  "finalizeUniversalAgentExecution envelope output =
     (let patch = safePatch envelope output;
          decision = js_or (js_get output ''decision'') (JObj []);
          requestedPort = requestedOutputPort output;
          defaultPort = routeFor (js_get output ''status'');
          adapter = contractAdapter (js_get envelope ''contract'')
      in if evidenceMissing envelope output then
           Inr (with_props output
             [(''status'', JStr ''BLOCKED''),
              (''reason'', JStr ''El contrato universal requiere evidencia que el adaptador no produjo.''),
              (''sharedMemoryPatch'', patch), (''next'', JNull)])
         else if requestedPort \<noteq> [] \<and> requestedPort \<notin> set (declaredPorts envelope) then
           map_ok (\<lambda>implementation. with_props output
             [(''status'', JStr ''BLOCKED''),
              (''reason'', JStr (''El agente solicito un puerto no declarado: '' @ requestedPort)),
              (''sharedMemoryPatch'', patch), (''next'', JNull),
              (''decision'', with_props decision
                [(''universal_result'', universalResult output (JStr ''BLOCKED'') (JStr (''Puerto no declarado: '' @ requestedPort))
                   (JObj []) implementation (if ''blocked'' \<in> set (declaredPorts envelope) then ''blocked'' else defaultPort)
                   (evidenceRefs output))])]) adapter
         else
           map_ok (\<lambda>implementation. with_props output
             [(''sharedMemoryPatch'', patch),
              (''decision'', with_props decision
                [(''universal_result'', universalResult output (js_get output ''status'')
                   (js_or (js_get output ''reason'') (JStr [])) (publishedOutputs patch output) implementation
                   (if requestedPort \<noteq> [] then requestedPort else defaultPort) (evidenceRefs output))])]) adapter)"

end
