(* ===== verification/Handlers.thy ===== *)
theory Handlers
  imports UniversalAgent
begin

text \<open>
  Dispatch of a persisted node to its handler:
  \<^verbatim>\<open>engine/src/ai/graph-runtime/node-runtime-view.ts\<close>, \<^verbatim>\<open>authoritative-handler-resolver.ts\<close>,
  \<^verbatim>\<open>builtin-adapter-aliases.ts\<close> and the dispatch table of \<^verbatim>\<open>builtin-atomic-adapters.ts\<close>. A handler
  is named, not run: \<open>Registered k\<close> is the function stored in the handler map under \<open>k\<close>,
  \<open>Inherited k\<close> the function a plain object has under that name from \<^verbatim>\<open>Object.prototype\<close>, and
  the two atomic constructors are the built-in adapters. The wrapper that puts the node's context
  on the handler's first argument is part of calling a handler and not modelled.
\<close>

section \<open>The runtime view of a persisted node\<close>

definition view_record :: "jval \<Rightarrow> jval" where
  "view_record v = (if plain_object v then v else JUndef)"

fun firstNonBlank :: "jval list \<Rightarrow> jval" where
  "firstNonBlank [] = JUndef"
| "firstNonBlank (v # vs) = (if is_str v \<and> trim (to_string v) \<noteq> [] then v else firstNonBlank vs)"

fun firstRecord :: "jval list \<Rightarrow> jval" where
  "firstRecord [] = JUndef"
| "firstRecord (v # vs) = (if plain_object v then v else firstRecord vs)"

text \<open>\<^verbatim>\<open>if (mutable[k] === undefined) mutable[k] = v\<close>\<close>

definition default_prop :: "jstr \<Rightarrow> jval \<Rightarrow> jobj \<Rightarrow> jobj" where
  "default_prop k v o' = (if obj_get o' k = JUndef then obj_assign o' k v else o')"

definition viewPrompt :: "jval \<Rightarrow> jval" where
  "viewPrompt node =
     (let contract = view_record (js_get (view_record (js_coalesce (js_get node ''universal_agent'') (js_get node ''universalAgent''))) ''contract'');
          instructions = view_record (js_coalesce (js_get contract ''instructions'') (js_get contract ''prompt''));
          nodeConfig = view_record (js_coalesce (js_get node ''config_json'') (js_get node ''config''))
      in firstNonBlank
        [js_get node ''prompt_template'', js_get node ''prompt'', js_get node ''system_prompt'', js_get node ''systemPrompt'',
         js_get nodeConfig ''prompt_template'', js_get nodeConfig ''prompt'',
         js_get instructions ''prompt_template'', js_get instructions ''prompt'', js_get instructions ''system_prompt''])"

definition hydratePersistedNodeRuntimeView :: "jval \<Rightarrow> jval" where
  "hydratePersistedNodeRuntimeView node =
     (let contract = view_record (js_get (view_record (js_coalesce (js_get node ''universal_agent'') (js_get node ''universalAgent''))) ''contract'');
          implementation = view_record (js_get contract ''implementation'');
          execution = view_record (js_coalesce (js_get contract ''execution'') (js_get contract ''runtime''));
          prompt = viewPrompt node;
          config = js_coalesce (firstRecord
            [js_get node ''config_json'', js_get node ''config'', js_get execution ''config'', js_get implementation ''config'']) (JObj []);
          o1 = (if truthy prompt
                then default_prop ''system_prompt'' prompt (default_prop ''prompt'' prompt (default_prop ''prompt_template'' prompt (own_props node)))
                else own_props node);
          o2 = default_prop ''config'' config (default_prop ''config_json'' config o1);
          field = (\<lambda>a b c. first_defined [js_get node a, js_get node b, c])
      in JObj (obj_assign o2 ''runtime_effective''
           (with_props (js_coalesce (view_record (obj_get o2 ''runtime_effective'')) (JObj []))
             [(''native_adapter'', firstNonBlank [js_get implementation ''native_adapter'', js_get implementation ''nativeAdapter'']),
              (''prompt'', prompt), (''config'', config),
              (''input_mapping'', field ''input_mapping'' ''inputMapping'' (js_get contract ''input_mapping'')),
              (''output_mapping'', field ''output_mapping'' ''outputMapping'' (js_get contract ''output_mapping'')),
              (''output_schema'', field ''output_schema'' ''outputSchema'' (js_get contract ''output_schema'')),
              (''retry_policy'', field ''retry_policy'' ''retryPolicy'' (js_get execution ''retry_policy'')),
              (''timeout_ms'', field ''timeout_ms'' ''timeoutMs'' (js_get execution ''timeout_ms''))])))"

section \<open>Handlers\<close>

datatype handler =
    Registered jstr
  | Inherited jstr
  | AtomicAgent jstr "handler option"
  | BrowserActionOnce

text \<open>\<^verbatim>\<open>handlers[k]\<close>; the list holds the keys with a handler.\<close>

definition handlerAt :: "jstr list \<Rightarrow> jstr \<Rightarrow> handler option" where
  "handlerAt handlers k =
     (if k \<in> set handlers then Some (Registered k)
      else if k \<in> set object_proto then Some (Inherited k) else None)"

definition BUILTIN_ADAPTER_HANDLER_ALIASES :: "(jstr \<times> jstr list) list" where
  "BUILTIN_ADAPTER_HANDLER_ALIASES =
     [(''legacy-auditor/v1'', [''Auditor'', ''auditor'']),
      (''legacy-context-resolver/v1'', [''ContextResolver'', ''context_resolver'']),
      (''legacy-executor/v1'', [''Executor'', ''executor'']),
      (''legacy-observer/v1'', [''Observer'', ''observer'']),
      (''legacy-planner/v1'', [''Planner'', ''planner'']),
      (''legacy-pre-execution-analyst/v1'', [''PreExecutionAnalyst'', ''pre_execution_analyst'']),
      (''legacy-recovery/v1'', [''Recovery'', ''recovery'']),
      (''legacy-reporter/v1'', [''Reporter'', ''reporter'']),
      (''legacy-security-guard/v1'', [''SecurityGuard'', ''security_guard'']),
      (''legacy-validator/v1'', [''Validator'', ''validator'']),
      (''qa-action-planner/v2'', [''Planner'', ''planner'']),
      (''qa-browser-action-executor/v2'', [''Executor'', ''executor'']),
      (''qa-browser-observer/v2'', [''Observer'', ''observer'']),
      (''qa-context-resolver/v2'', [''ContextResolver'', ''context_resolver'']),
      (''qa-execution-reporter/v2'', [''Reporter'', ''reporter'']),
      (''qa-final-auditor/v2'', [''Auditor'', ''auditor'']),
      (''qa-pre-execution-analyst/v2'', [''PreExecutionAnalyst'', ''pre_execution_analyst'']),
      (''qa-recovery-strategist/v2'', [''Recovery'', ''recovery'']),
      (''qa-security-guard/v2'', [''SecurityGuard'', ''security_guard'']),
      (''qa-step-validator/v2'', [''Validator'', ''validator''])]"

text \<open>
  The alias of an adapter that is registered, if any. An adapter named like an inherited property
  (\<^verbatim>\<open>toString\<close>) has no alias list but a function there, on which \<^verbatim>\<open>?.map\<close> is no function: it throws.
\<close>

definition aliasHandler :: "jstr list \<Rightarrow> jstr \<Rightarrow> handler option res" where
  "aliasHandler handlers adapter =
     (case map_of BUILTIN_ADAPTER_HANDLER_ALIASES adapter of
        Some keys \<Rightarrow>
          Inr (case find (\<lambda>k. handlerAt handlers k \<noteq> None) keys of None \<Rightarrow> None | Some k \<Rightarrow> handlerAt handlers k)
      | None \<Rightarrow>
          if adapter \<in> set object_proto
          then Inl (TypeError ''BUILTIN_ADAPTER_HANDLER_ALIASES[adapter]?.map is not a function'')
          else Inr None)"

definition builtInAtomicHandlerFor :: "jstr \<Rightarrow> handler option \<Rightarrow> handler option" where
  "builtInAtomicHandlerFor adapter fallback =
     (if adapter \<in> {''qa-context-resolver/v2'', ''qa-pre-execution-analyst/v2'', ''qa-browser-observer/v2'',
          ''qa-action-planner/v2'', ''qa-security-guard/v2''} then Some (AtomicAgent adapter fallback)
      else if adapter = ''qa-browser-action-executor/v2'' then Some BrowserActionOnce
      else if adapter \<in> {''qa-step-validator/v2'', ''qa-recovery-strategist/v2'', ''qa-final-auditor/v2'',
          ''qa-execution-reporter/v2''} then Some (AtomicAgent adapter fallback)
      else None)"

definition nativeAdapterForNode :: "jval \<Rightarrow> jstr option" where
  "nativeAdapterForNode node =
     (let value = first_defined
        [js_path node [''config_json'', ''runtime_adapter''],
         js_path node [''universal_agent'', ''contract'', ''implementation'', ''native_adapter''],
         js_path node [''universalAgent'', ''contract'', ''implementation'', ''native_adapter''],
         js_path node [''universalAgent'', ''contract'', ''implementation'', ''nativeAdapter'']]
      in if is_str value \<and> trim (to_string value) \<noteq> [] then Some (trim (to_string value)) else None)"

definition isUniversalWorkflowNode :: "jval \<Rightarrow> bool" where
  "isUniversalWorkflowNode node \<longleftrightarrow>
     truthy (js_path node [''universal_agent'', ''contract'']) \<or> truthy (js_path node [''universalAgent'', ''contract''])"

text \<open>
  Resolution: the hydrated node and the handler, or the error. \<open>required\<close> is the adapter a compiled
  V3 node demands, which also asks for an atomic one.
\<close>

definition resolveAuthoritativeWorkflowHandler ::
  "jval \<Rightarrow> jstr list \<Rightarrow> jstr option \<Rightarrow> jval \<times> handler res" where
  "resolveAuthoritativeWorkflowHandler node0 handlers required =
     (let nodeId = to_string (first_defined [js_get node0 ''id'', js_get node0 ''node_id'', JStr ''<unknown-node>'']);
          node = hydratePersistedNodeRuntimeView node0
      in (node,
        if isUniversalWorkflowNode node then
          (case (if required = None \<or> required = Some [] then nativeAdapterForNode node else required) of
             None \<Rightarrow> Throw (''Universal workflow node '' @ nodeId @ '' does not declare implementation.native_adapter'')
           | Some adapter \<Rightarrow>
               if required \<noteq> None \<and> \<not> isV3AtomicAdapter adapter
               then Throw (''Universal V3 node '' @ nodeId @ '' requires an atomic qa-*/v2 adapter: '' @ adapter)
               else res_bind (aliasHandler handlers adapter) (\<lambda>alias.
                 let exact = handlerAt handlers adapter;
                     fallback = (if exact \<noteq> None then exact else alias);
                     atomic = builtInAtomicHandlerFor adapter fallback
                 in case (if atomic \<noteq> None then atomic else fallback) of
                      None \<Rightarrow> Throw (''Runtime adapter '' @ adapter @ '' is not registered for node '' @ nodeId)
                    | Some h \<Rightarrow> Inr h))
        else
          (let legacyKey = js_or (js_get node ''agent_key'') (js_get node ''type'');
               byKey = (if truthy legacyKey then handlerAt handlers (to_string legacyKey) else None);
               byType = (if truthy (js_get node ''type'') then handlerAt handlers (str_field node ''type'') else None)
           in case (if byKey \<noteq> None then byKey else if byType \<noteq> None then byType else handlerAt handlers ''default'') of
                None \<Rightarrow> Throw (''No legacy workflow handler is registered for node '' @ nodeId)
              | Some h \<Rightarrow> Inr h)))"

end
