(* ===== verification/PlannerContract.thy ===== *)
theory PlannerContract
  imports WorkflowParts
begin

text \<open>
  The structured step contract of \<^verbatim>\<open>engine/src/ai/custom-agents.ts\<close>: values given explicitly in the
  data of a test step (\<open>explicitStepValue\<close>) and the action they determine without a model
  (\<open>deterministicPlannerAction\<close>), or impose on a proposed one (\<open>applyExplicitStepContract\<close>).
\<close>

section \<open>The key-value scan\<close>

definition is_separator :: "char \<Rightarrow> bool" where
  "is_separator c \<longleftrightarrow> c = CHR '','' \<or> c = CHR '';'' \<or> c = CHR 10"

text \<open>
  \<^verbatim>\<open>\s*([^,;\n]+)\<close> after the equals sign: blanks are skipped; when only blanks are left before a
  separator, the match backs off to the last blank that is no line break.
\<close>

definition captureValue :: "jstr \<Rightarrow> jstr option" where
  "captureValue r =
     (let blanks = takeWhile is_space r; rest = dropWhile is_space r in
      if rest \<noteq> [] \<and> \<not> is_separator (hd rest) then Some (takeWhile (\<lambda>c. \<not> is_separator c) rest)
      else if list_ex (\<lambda>c. \<not> is_separator c) blanks then Some '' '' else None)"

text \<open>\<^verbatim>\<open>\s*key\s*=\s*([^,;\n]+)\<close> at one position, ignoring case.\<close>

definition matchKey :: "jstr \<Rightarrow> jstr \<Rightarrow> jstr option" where
  "matchKey key s =
     (let r = dropWhile is_space s in
      if \<not> starts_with (toLowerCase r) (toLowerCase key) then None
      else case dropWhile is_space (drop (length key) r) of
          [] \<Rightarrow> None
        | c # cs \<Rightarrow> if c = CHR ''='' then captureValue cs else None)"

text \<open>The leftmost match, at the start of the text or after a separator.\<close>

fun scanAfter :: "jstr \<Rightarrow> jstr \<Rightarrow> jstr option" where
  "scanAfter key [] = None"
| "scanAfter key (c # cs) =
     (if is_separator c \<and> matchKey key cs \<noteq> None then matchKey key cs else scanAfter key cs)"

definition scanKey :: "jstr \<Rightarrow> jstr \<Rightarrow> jstr option" where
  "scanKey key s = (if matchKey key s \<noteq> None then matchKey key s else scanAfter key s)"

definition explicitStepValue :: "jval \<Rightarrow> jstr \<Rightarrow> jstr option" where
  "explicitStepValue step key =
     (let dat = js_coalesce (js_get step ''data'') (js_get step ''datos'') in
      if plain_object dat then
        (let v = js_get dat key in if nullish v then None else Some (trim (to_string v)))
      else map_option trim (scanKey key (to_string (js_coalesce dat (JStr [])))))"

section \<open>Actions\<close>

definition normalizePlannerActionType :: "jstr \<Rightarrow> jstr" where
  "normalizePlannerActionType rawType =
     (let type = toLowerCase (trim rawType) in
      if type \<in> {''get_url'', ''open_url'', ''navigate_url'', ''navigate_to'', ''go_to'', ''goto_url''} then ''navigate''
      else if type \<in> {''type_text'', ''input_text'', ''enter_text'', ''set_value'', ''write'', ''write_text''} then ''fill''
      else if type \<in> {''select_option'', ''choose_option'', ''pick_option''} then ''select''
      else if type \<in> {''tap'', ''press_button'', ''click_button''} then ''click''
      else type)"

definition is_word_char :: "char \<Rightarrow> bool" where
  "is_word_char c \<longleftrightarrow>
     is_digit c \<or> c = CHR ''_'' \<or> (65 \<le> code_unit c \<and> code_unit c \<le> 90) \<or> (97 \<le> code_unit c \<and> code_unit c \<le> 122)"

text \<open>\<^verbatim>\<open>/^(?:comprobar|...|observar)\b/i\<close>\<close>

definition isCheckAction :: "jstr \<Rightarrow> bool" where
  "isCheckAction s \<longleftrightarrow>
     list_ex (\<lambda>w. starts_with (toLowerCase s) w \<and> (drop (length w) s = [] \<or> \<not> is_word_char (hd (drop (length w) s))))
       [''comprobar'', ''verificar'', ''validar'', ''confirmar'', ''revisar'', ''observar'']"

definition mentions :: "jstr \<Rightarrow> jstr list \<Rightarrow> bool" where
  "mentions s ws \<longleftrightarrow> list_ex (\<lambda>w. str_includes (toLowerCase s) w) ws"

definition present :: "jstr option \<Rightarrow> bool" where
  "present v \<longleftrightarrow> v \<noteq> None \<and> v \<noteq> Some []"

definition opt_jstr :: "jstr option \<Rightarrow> jval" where
  "opt_jstr v = (case v of None \<Rightarrow> JUndef | Some s \<Rightarrow> JStr s)"

definition stepActionText :: "jval \<Rightarrow> jstr" where
  "stepActionText step = to_string (first_defined [js_get step ''action'', js_get step ''accion'', JStr []])"

definition applyExplicitStepContract :: "jval \<Rightarrow> jval \<Rightarrow> jval" where
  "applyExplicitStepContract action step =
     (let selector = explicitStepValue step ''selector'';
          url = explicitStepValue step ''url'';
          value = explicitStepValue step ''value'';
          optionValue = explicitStepValue step ''option_value'';
          stepAction = toLowerCase (stepActionText step);
          type0 = normalizePlannerActionType (to_string (js_coalesce (js_get action ''type'') (JStr [])));
          type = (if isCheckAction stepAction then ''no_op''
                  else if present url \<and> \<not> present selector then ''navigate''
                  else if present selector \<and> optionValue \<noteq> None then ''select''
                  else if present selector \<and> value \<noteq> None then ''fill''
                  else if present selector \<and> mentions stepAction
                    [''abrir'', ''hacer clic'', ''presionar'', ''agregar'', ''quitar'', ''volver'', ''iniciar'', ''continuar'', ''finalizar'', ''intentar'']
                  then ''click'' else type0)
      in with_props action
        ([(''type'', JStr type)]
         @ (if present selector then [(''selector'', opt_jstr selector)] else [])
         @ (if present url \<and> type = ''navigate'' then [(''url'', opt_jstr url)] else [])
         @ (if value \<noteq> None then [(''value'', opt_jstr value)] else [])
         @ (if optionValue \<noteq> None then [(''value'', opt_jstr optionValue), (''option'', opt_jstr optionValue)] else [])))"

definition stepNumber :: "jval \<Rightarrow> jnum" where
  "stepNumber step = to_number (js_coalesce (js_get step ''number'') (js_get step ''numero_paso''))"

text \<open>\<open>JUndef\<close>: the step does not determine an action.\<close>

definition deterministicPlannerAction :: "jval \<Rightarrow> jval" where
  "deterministicPlannerAction step =
     (let selector = explicitStepValue step ''selector'';
          url = explicitStepValue step ''url'';
          value = explicitStepValue step ''value'';
          optionValue = explicitStepValue step ''option_value'';
          normalizedAction = toLowerCase (trim (stepActionText step));
          expected = first_defined [js_get step ''expected'', js_get step ''expected_result'', js_get step ''resultado_esperado''];
          base = [(''step_number'', if is_finite_num (stepNumber step) then JNum (stepNumber step) else JUndef),
                  (''reason'', JStr ''Accion resuelta desde el contrato estructurado del paso.'')]
                 @ (if truthy expected then [(''expected'', JStr (to_string expected))] else [])
      in if isCheckAction normalizedAction \<and> present selector then
           JObj (base @ [(''type'', JStr ''no_op''), (''selector'', opt_jstr selector)])
         else if present url \<and> \<not> present selector then
           JObj (base @ [(''type'', JStr ''navigate''), (''url'', opt_jstr url)])
         else if present selector \<and> optionValue \<noteq> None then
           JObj (base @ [(''type'', JStr ''select''), (''selector'', opt_jstr selector), (''value'', opt_jstr optionValue), (''option'', opt_jstr optionValue)])
         else if present selector \<and> value \<noteq> None then
           JObj (base @ [(''type'', JStr ''fill''), (''selector'', opt_jstr selector), (''value'', opt_jstr value)])
         else if present selector \<and> mentions normalizedAction
             [''abrir'', ''hacer clic'', ''clic'', ''click'', ''presionar'', ''pulsar'', ''agregar'', ''quitar'', ''volver'',
              ''iniciar'', ''continuar'', ''finalizar'', ''intentar'', ''enviar''] then
           JObj (base @ [(''type'', JStr ''click''), (''selector'', opt_jstr selector)])
         else JUndef)"

section \<open>Properties\<close>

text \<open>
  The deterministic planner never invents a target: whatever action it returns, its
  selector, URL and value are the ones written in the data of the step, the kind of action is one
  of the five executable kinds, and a step without selector and URL gets no action.
\<close>

theorem planner_action_from_step:
  assumes "deterministicPlannerAction step = JObj a"
  shows "obj_get a ''type'' \<in> JStr ` {''no_op'', ''navigate'', ''select'', ''fill'', ''click''} \<and>
    (obj_get a ''selector'' = JUndef \<or> Some (to_string (obj_get a ''selector'')) = explicitStepValue step ''selector'') \<and>
    (obj_get a ''url'' = JUndef \<or> Some (to_string (obj_get a ''url'')) = explicitStepValue step ''url'') \<and>
    (obj_get a ''value'' = JUndef \<or> Some (to_string (obj_get a ''value'')) \<in> explicitStepValue step ` {''value'', ''option_value''}) \<and>
    (present (explicitStepValue step ''selector'') \<or> present (explicitStepValue step ''url''))"
proof -
  define n where "n = (if is_finite_num (stepNumber step) then JNum (stepNumber step) else JUndef)"
  define ex where "ex = first_defined [js_get step ''expected'', js_get step ''expected_result'', js_get step ''resultado_esperado'']"
  have str: "Some (to_string (opt_jstr v)) = v" if "v \<noteq> None" for v
    using that by (auto simp: opt_jstr_def)
  have some: "opt_jstr (Some y) = JStr y" for y by (simp add: opt_jstr_def)
  have p: "present v \<Longrightarrow> v \<noteq> None" for v by (simp add: present_def)
  show ?thesis
    using assms unfolding deterministicPlannerAction_def Let_def n_def [symmetric] ex_def [symmetric]
    by (cases "truthy ex") (auto simp: obj_get_Cons object_proto_def obj_get_def [of "[]"] str some p split: if_splits)
qed

definition sample_step :: jval where
  "sample_step = JObj [(''number'', num 2), (''action'', JStr ''Ingresar usuario''), (''data'', JStr ''selector = #user; value=ana'')]"

theorem planner_action_from_step_witness:
  "\<exists>a. deterministicPlannerAction sample_step = JObj a \<and> obj_get a ''selector'' = JStr ''#user'' \<and>
     Some (to_string (obj_get a ''selector'')) = explicitStepValue sample_step ''selector''"
proof -
  have a: "deterministicPlannerAction sample_step = JObj
    [(''step_number'', num 2), (''reason'', JStr ''Accion resuelta desde el contrato estructurado del paso.''),
     (''type'', JStr ''fill''), (''selector'', JStr ''#user''), (''value'', JStr ''ana'')]" by code_simp
  show ?thesis using planner_action_from_step [OF a] a by (auto simp: obj_get_Cons)
qed

end
