(* ===== verification/AgentManifests.thy ===== *)
theory AgentManifests
  imports JsLaws
begin

text \<open>
  \<^verbatim>\<open>engine/src/ai/agent-runtime-manifest.ts\<close>: the public manifest of the built-in agents and its
  lookup by agent key, with or without the prefix of block agents.
\<close>

record agent_manifest =
  am_implementation :: jstr
  am_version :: nat
  am_source :: jstr
  am_strategy :: jstr
  am_inputs :: "jstr list"
  am_outputs :: "jstr list"

definition agent_entry :: "jstr \<Rightarrow> jstr \<Rightarrow> jstr \<Rightarrow> jstr list \<Rightarrow> jstr list \<Rightarrow> agent_manifest" where
  "agent_entry impl src strategy inputs outputs =
     \<lparr>am_implementation = impl, am_version = 1, am_source = src, am_strategy = strategy,
      am_inputs = inputs, am_outputs = outputs\<rparr>"

definition AGENT_RUNTIME_MANIFESTS :: "(jstr \<times> agent_manifest) list" where
  "AGENT_RUNTIME_MANIFESTS =
     [(''CHATBOT_CONTEXT_AGENT'', agent_entry ''chatbot-context/v1'' ''engine/src/chatbot-evaluator.ts#chatbot_context_agent'' ''rules''
        [''chatbot.config'', ''context.variables''] [''sharedMemory.endpoint'']),
      (''CHATBOT_HTTP_AGENT'', agent_entry ''chatbot-http/v1'' ''engine/src/chatbot-evaluator.ts#chatbot_http_agent'' ''rules''
        [''chatbot.config'', ''context.variables''] [''sharedMemory.turns'', ''sharedMemory.conversation'']),
      (''CHATBOT_ASSERTIONS_AGENT'', agent_entry ''chatbot-assertions/v1'' ''engine/src/chatbot-evaluator.ts#chatbot_assertions_agent'' ''rules''
        [''sharedMemory.turns''] [''sharedMemory.assertions'']),
      (''CHATBOT_SECURITY_AGENT'', agent_entry ''chatbot-security/v1'' ''engine/src/chatbot-evaluator.ts#chatbot_security_agent'' ''rules''
        [''sharedMemory.turns''] [''sharedMemory.security_findings'']),
      (''CHATBOT_JUDGE_AGENT'', agent_entry ''chatbot-judge/v1'' ''engine/src/chatbot-evaluator.ts#chatbot_judge_agent'' ''prompt''
        [''sharedMemory.turns'', ''chatbot.evaluation''] [''sharedMemory.judge'']),
      (''CHATBOT_REPORTER_AGENT'', agent_entry ''chatbot-reporter/v1'' ''engine/src/chatbot-evaluator.ts#chatbot_reporter_agent'' ''none''
        [''sharedMemory''] [''chatbot.result'']),
      (''CONTEXT_RESOLVER'', agent_entry ''context-resolver/v1'' ''engine/src/index.ts#ContextResolver'' ''prompt''
        [''case.steps'', ''context.variables'', ''sharedMemory.base_url_candidate''] [''sharedMemory.base_url'', ''sharedMemory.total_steps'']),
      (''PRE_EXECUTION_ANALYST'', agent_entry ''pre-execution-analyst/v1'' ''engine/src/index.ts#PreExecutionAnalyst'' ''prompt''
        [''case.action'', ''case.data'', ''case.expected''] [''sharedMemory.execution_validation_plans'']),
      (''OBSERVER'', agent_entry ''browser-observer/v1'' ''engine/src/automation/observation.ts#observeBrowser'' ''prompt''
        [''browser.page'', ''sharedMemory.current_step''] [''sharedMemory.last_observation'']),
      (''AI_AGENT'', agent_entry ''qa-planner/v1'' ''engine/src/automation/step-runner.ts#runQaSteps'' ''prompt''
        [''step.contract'', ''sharedMemory.last_observation'', ''sharedMemory.history''] [''sharedMemory.proposed_action'', ''sharedMemory.last_confidence'']),
      (''QA_GUARD'', agent_entry ''qa-security-guard/v1'' ''engine/src/automation/action-executor.ts#validateAction'' ''rules''
        [''sharedMemory.proposed_action'', ''sharedMemory.last_observation''] [''sharedMemory.approved_action'', ''sharedMemory.guard_reason'']),
      (''SENTINEL'', agent_entry ''browser-executor/v1'' ''engine/src/automation/step-runner.ts#runQaSteps'' ''none''
        [''sharedMemory.approved_action'', ''sharedMemory.current_step''] [''sharedMemory.last_execution'', ''sharedMemory.detected_errors'']),
      (''VALIDATOR'', agent_entry ''contract-validator/v1'' ''engine/src/automation/step-contract.ts#evaluateStepContract'' ''rules''
        [''step.contract'', ''sharedMemory.last_execution'', ''sharedMemory.last_observation''] [''sharedMemory.validation'', ''sharedMemory.current_step'']),
      (''RECOVERY'', agent_entry ''recovery-policy/v1'' ''engine/src/automation/step-runner.ts#deterministicRecoveryAction'' ''rules''
        [''sharedMemory.validation'', ''sharedMemory.retry_count''] [''sharedMemory.recovery_decision'', ''sharedMemory.retry_count'']),
      (''AUDITOR'', agent_entry ''evidence-auditor/v1'' ''engine/src/audit/consensus.ts#resolveAuditConsensus'' ''prompt''
        [''evidence.bundle'', ''sharedMemory.history''] [''sharedMemory.audit_status'', ''sharedMemory.audit_evidence_refs'']),
      (''REPORTER'', agent_entry ''execution-reporter/v1'' ''engine/src/automation/report-generator.ts#ReportGenerator'' ''none''
        [''sharedMemory'', ''workflow.traces''] [''report.summary'', ''report.metrics''])]"

text \<open>\<^verbatim>\<open>key.replace(/^BLOCK_/, '')\<close>\<close>

definition strip_prefix :: "jstr \<Rightarrow> jstr \<Rightarrow> jstr" where
  "strip_prefix p s = (if starts_with s p then drop (length p) s else s)"

text \<open>
  The lookup in the table; a key in upper case is never one of the names that
  \<^verbatim>\<open>Object.prototype\<close> supplies, all of which have lower case letters.
\<close>

definition runtimeManifestFor :: "jval \<Rightarrow> agent_manifest option" where
  "runtimeManifestFor agentKey =
     (let key = toUpperCase (to_string (js_or agentKey (JStr []))) in
      case map_of AGENT_RUNTIME_MANIFESTS key of
        Some m \<Rightarrow> Some m
      | None \<Rightarrow> map_of AGENT_RUNTIME_MANIFESTS (strip_prefix ''BLOCK_'' key))"

end
