(* ===== verification/Executor.thy ===== *)
theory Executor
  imports V3Runtime Handlers PlannerContract AgentManifests
begin

text \<open>
  \<^verbatim>\<open>engine/src/ai/workflow.ts\<close>: the workflow executor. \<open>executeWorkflowGraph\<close> compiles a V3
  definition, then runs the loop \<^verbatim>\<open>while (current)\<close>: one step dispatches the current node to its
  handler, merges the shared memory, records history and trace, and selects the next node.

  What lies outside the program is the record \<open>world\<close>: the registered handler names, the promise
  of the n-th handler call, the digest, the collation and the text of a clock value. The clock
  advances by what is awaited; synchronous code takes no time. A promise that loses the race
  against its timeout has no further effect.

  The loop has fuel, and a nested workflow runs with one unit less of depth; \<open>None\<close> means that
  one of the two ran out.
\<close>

section \<open>State\<close>

record world =
  w_handlers :: "jstr list"
  w_call :: "handler \<Rightarrow> nat \<Rightarrow> jval \<Rightarrow> jval \<Rightarrow> promise"
  w_sha :: "jstr \<Rightarrow> jstr"
  w_collate :: "jstr \<Rightarrow> jstr \<Rightarrow> int"
  w_stamp :: "rat \<Rightarrow> jstr"

text \<open>What one run of the executor keeps fixed.\<close>

record run_setup =
  s_definition :: jval
  s_base :: jval
  s_timeout :: "rat option"
  s_plan :: "compiled_plan option"
  s_outgoing :: "(jstr \<times> jval list) list"
  s_started :: rat

record exec_state =
  x_nodes :: "(jstr \<times> jval) list"
  x_current :: "jval option"
  x_memory :: jobj
  x_history :: "jval list"
  x_traces :: "jval list"
  x_edge_passes :: jobj
  x_node_passes :: jobj
  x_last :: jval
  x_clock :: rat
  x_calls :: nat

record run_result =
  r_status :: jstr
  r_memory :: jobj
  r_history :: "jval list"
  r_traces :: "jval list"
  r_last :: jval

text \<open>The result of a run or what it threw, with the clock and the handler calls made at its end.\<close>

type_synonym run_out = "run_result res \<times> rat \<times> nat"

datatype step_out = Done run_out | Continue exec_state | NoFuel

definition finish :: "exec_state \<Rightarrow> jstr \<Rightarrow> step_out" where
  "finish x st =
     Done (Inr \<lparr>r_status = st, r_memory = x_memory x, r_history = x_history x, r_traces = x_traces x, r_last = x_last x\<rparr>,
       x_clock x, x_calls x)"

section \<open>Shared memory\<close>

definition TERMINAL_TYPES :: "jstr list" where
  "TERMINAL_TYPES = [''Reporter'', ''End'']"

definition mergedField :: "jobj \<Rightarrow> jval \<Rightarrow> jstr \<Rightarrow> jobj" where
  "mergedField base patch k =
     (if truthy (js_get patch k) \<and> is_object (js_get patch k)
      then [(k, JObj (obj_spread (own_props (js_or (obj_get base k) (JObj []))) (own_props (js_get patch k))))]
      else [])"

definition mergePatch :: "jobj \<Rightarrow> jval \<Rightarrow> jobj" where
  "mergePatch base patch =
     (if \<not> truthy patch \<or> \<not> is_object patch then base
      else obj_spread (obj_spread (obj_spread base (own_props patch)) (mergedField base patch ''graph_node_outputs''))
             (mergedField base patch ''retry_count''))"

definition initialMemory :: "jval \<Rightarrow> jobj" where
  "initialMemory baseInput =
     obj_spread
       [(''base_url'', JStr []), (''current_step'', JNull), (''last_action'', JNull), (''last_observation'', JNull),
        (''detected_errors'', JArr []), (''visited_urls'', JArr []), (''credentials_used'', JObj []),
        (''confidence_by_step'', JObj []), (''retry_count'', JObj [])]
       (own_props (js_or (js_get baseInput ''sharedMemory'') (JObj [])))"

section \<open>Nested workflows\<close>

definition MAX_SUBWORKFLOW_DEPTH :: rat where
  "MAX_SUBWORKFLOW_DEPTH = 5"

definition nestedWorkflowResultStatus :: "jstr \<Rightarrow> jstr" where
  "nestedWorkflowResultStatus st =
     (if st = ''PASSED'' then ''SUCCESS''
      else if st = ''BLOCKED'' \<or> st = ''TIMEOUT'' then ''BLOCKED'' else ''FAILED'')"

definition isWorkflowDefinition :: "jval \<Rightarrow> bool" where
  "isWorkflowDefinition v \<longleftrightarrow>
     truthy v \<and> is_object v \<and> truthy (js_get v ''workflow'') \<and> is_array (js_get v ''nodes'') \<and> is_array (js_get v ''edges'')"

definition blockedOutput :: "jstr \<Rightarrow> jval" where
  "blockedOutput reason =
     JObj [(''status'', JStr ''BLOCKED''), (''confidence'', num 100), (''reason'', JStr reason), (''events'', JArr [])]"

definition workflowTitle :: "jval \<Rightarrow> jstr" where
  "workflowTitle d = to_string (js_or (js_path d [''workflow'', ''name'']) (js_path d [''workflow'', ''id'']))"

text \<open>The reason for which a nested workflow is refused, if any.\<close>

definition nestedRefusal :: "jval \<Rightarrow> jval \<Rightarrow> jstr option" where
  "nestedRefusal node input =
     (let child = js_path node [''config_json'', ''subworkflow_definition''];
          depth = to_number (js_or (js_path input [''sharedMemory'', ''__workflow_depth'']) (num 0))
      in if \<not> isWorkflowDefinition child then
           Some (''El subworkflow '' @ str_field node ''name'' @ '' no tiene una definicion valida'')
         else if num_le (Fin MAX_SUBWORKFLOW_DEPTH) depth then
           Some (''Profundidad maxima de subworkflows alcanzada en '' @ str_field node ''name'')
         else if 100 < length (def_nodes child) \<or> 300 < length (def_edges child) then
           Some (''El subworkflow '' @ workflowTitle child @ '' supera los limites del motor'')
         else if js_path child [''workflow'', ''workflow_format''] \<noteq> JStr ''universal_v2'' then
           Some ''El subworkflow debe usar el formato universal_v2''
         else (case map_res universalEnvelopeFor (filter not_disabled (def_nodes child)) of
             Inl e \<Rightarrow> Some (''Contrato universal invalido en subworkflow: '' @ error_message e)
           | Inr _ \<Rightarrow> None))"

definition nestedInput :: "jval \<Rightarrow> jval \<Rightarrow> jval" where
  "nestedInput node input =
     (let depth = to_number (js_or (js_path input [''sharedMemory'', ''__workflow_depth'']) (num 0))
      in with_props input
        [(''context'', with_props (js_get input ''context'') [(''parent_workflow_node'', js_get node ''id'')]),
         (''sharedMemory'', with_props (js_get input ''sharedMemory'') [(''__workflow_depth'', JNum (num_add depth (Fin 1)))])])"

definition nestedOutput :: "jval \<Rightarrow> jval \<Rightarrow> run_result \<Rightarrow> jval" where
  "nestedOutput node child nested =
     (let wid = js_path child [''workflow'', ''id'']; version = js_path child [''workflow'', ''version''] in
      JObj [(''status'', JStr (nestedWorkflowResultStatus (r_status nested))),
            (''confidence'', js_coalesce (js_get (r_last nested) ''confidence'') (num (if r_status nested = ''PASSED'' then 100 else 60))),
            (''reason'', js_or (js_get (r_last nested) ''reason'')
               (JStr (''Subworkflow '' @ workflowTitle child @ '' finalizado como '' @ r_status nested))),
            (''decision'', JObj [(''subworkflow'', JObj [(''id'', wid), (''workflow_version'', version), (''status'', JStr (r_status nested))])]),
            (''events'', JArr [JObj [(''type'', JStr ''subworkflow_completed''), (''node_id'', js_get node ''id''),
               (''workflow_id'', wid), (''workflow_version'', version), (''status'', JStr (r_status nested))]]),
            (''sharedMemoryPatch'', JObj (r_memory nested))])"

type_synonym runner = "jval \<Rightarrow> jval \<Rightarrow> rat \<Rightarrow> nat \<Rightarrow> run_out option"

text \<open>A nested run as the promise that \<^verbatim>\<open>withTimeout\<close> races, with the handler calls it made.\<close>

definition executeNestedWorkflow :: "runner \<Rightarrow> jval \<Rightarrow> jval \<Rightarrow> rat \<Rightarrow> nat \<Rightarrow> (promise \<times> nat) option" where
  "executeNestedWorkflow run node input clock calls =
     (case nestedRefusal node input of
        Some reason \<Rightarrow> Some (\<lparr>settles = Some 0, outcome = Inr (blockedOutput reason)\<rparr>, calls)
      | None \<Rightarrow>
          (let child = js_path node [''config_json'', ''subworkflow_definition''] in
           case run child (nestedInput node input) clock calls of
             None \<Rightarrow> None
           | Some (r, clock', calls') \<Rightarrow>
               Some (\<lparr>settles = Some (clock' - clock), outcome = map_ok (nestedOutput node child) r\<rparr>, calls')))"

section \<open>Running one node\<close>

text \<open>The output of a node with the time that passed and the calls made so far.\<close>

type_synonym node_run = "(jval res \<times> rat \<times> nat) option"

definition simpleTimeout :: "jval \<Rightarrow> jval" where
  "simpleTimeout node =
     JObj [(''status'', JStr ''BLOCKED''), (''reason'', JStr (''Timeout del nodo '' @ str_field node ''name'')), (''events'', JArr [])]"

definition dispatchErrorOutput :: "jstr \<Rightarrow> jval" where
  "dispatchErrorOutput msg =
     JObj [(''status'', JStr ''BLOCKED''), (''reason'', JStr (''Despacho del grafo invalido: '' @ msg)), (''events'', JArr []),
           (''decision'', JObj [(''graph_runtime_error'', JStr msg),
              (''graph_runtime_error_code'', JStr
                 (if str_includes msg ''native_adapter'' then ''MISSING_NATIVE_ADAPTER''
                  else if str_includes msg ''not registered'' then ''UNKNOWN_RUNTIME_ADAPTER''
                  else ''WORKFLOW_HANDLER_RESOLUTION_FAILED''))])]"

definition universalErrorOutput :: "jstr \<Rightarrow> jval" where
  "universalErrorOutput msg =
     JObj [(''status'', JStr ''BLOCKED''), (''reason'', JStr (''Contrato universal invalido: '' @ msg)), (''events'', JArr [])]"

definition callHandler ::
  "world \<Rightarrow> compiled_node option \<Rightarrow> handler \<Rightarrow> jval \<Rightarrow> jval \<Rightarrow> jnum \<Rightarrow> nat \<Rightarrow> jval res \<times> rat \<times> nat" where
  "callHandler w cn h node input timeout calls =
     (case cn of
        Some c \<Rightarrow>
          (case executeGraphNativeHandler node c (\<lambda>attempt. w_call w h (calls + attempt - 1) node input) timeout of
             (r, attempts, t) \<Rightarrow> (r, t, calls + attempts))
      | None \<Rightarrow>
          (case withTimeout (w_call w h calls node input) timeout (simpleTimeout node) of
             (r, t) \<Rightarrow> (r, t, calls + 1)))"

definition runNode ::
  "world \<Rightarrow> runner \<Rightarrow> compiled_node option \<Rightarrow> jval \<Rightarrow> jval \<Rightarrow> jstr option \<Rightarrow> handler option res \<Rightarrow> bool \<Rightarrow> jnum \<Rightarrow> rat \<Rightarrow> nat \<Rightarrow> node_run" where
  "runNode w run cn node input universalError handler isSubworkflow timeout clock calls =
     (case universalError of
        Some msg \<Rightarrow> Some (Inr (universalErrorOutput msg), 0, calls)
      | None \<Rightarrow>
          (case handler of
             Inl e \<Rightarrow> Some (Inr (dispatchErrorOutput (error_message e)), 0, calls)
           | Inr found \<Rightarrow>
               if isSubworkflow then
                 (case executeNestedWorkflow run node input clock calls of
                    None \<Rightarrow> None
                  | Some (p, calls') \<Rightarrow>
                      (case withTimeout p timeout (simpleTimeout node) of (r, t) \<Rightarrow> Some (r, t, calls')))
               else (case found of
                   Some h \<Rightarrow> Some (callHandler w cn h node input timeout calls)
                 | None \<Rightarrow> Some (Inr (JObj [(''status'', JStr ''SKIPPED''),
                     (''reason'', JStr (''Sin handler para '' @ str_field node ''type'')), (''events'', JArr [])]), 0, calls))))"

text \<open>The action a V3 planner node gets from the structured step, whatever its adapter proposed.\<close>

definition plannerFallback :: "jobj \<Rightarrow> jval \<Rightarrow> jval" where
  "plannerFallback memory input =
     (let currentStep = to_number (js_or (obj_get memory ''current_step'') (num 1));
          qaSteps = js_path input [''context'', ''qaSteps''];
          manualSteps = js_path input [''context'', ''manualSteps''];
          steps = (if is_array qaSteps then arr_elems qaSteps else arr_elems manualSteps);
          step = (case find (\<lambda>c. num_eq (stepNumber c) currentStep) steps of None \<Rightarrow> JUndef | Some s \<Rightarrow> s);
          action = deterministicPlannerAction step;
          baseUrl = obj_get memory ''base_url''
      in if truthy action then action
         else if num_eq currentStep (Fin 1) \<and> is_str baseUrl \<and> truthy baseUrl then
           JObj [(''type'', JStr ''navigate''), (''url'', baseUrl), (''step_number'', JNum currentStep),
                 (''reason'', JStr ''Navegacion resuelta por Context Resolver.'')]
         else JUndef)"

definition applyPlannerFallback :: "jval \<Rightarrow> jval \<Rightarrow> jval" where
  "applyPlannerFallback action output =
     (if truthy action then
        (let decision = js_or (js_get output ''decision'') (JObj []) in
         with_props output
           [(''decision'', with_props decision
              [(''proposed_action'', action),
               (''metrics'', with_props (js_or (js_path output [''decision'', ''metrics'']) (JObj []))
                  [(''implementation'', JStr ''v3-graph-structured-step-contract'')])]),
            (''sharedMemoryPatch'', with_props (js_or (js_get output ''sharedMemoryPatch'') (JObj [])) [(''planned_action'', action)])])
      else output)"

section \<open>Trace and history\<close>

definition traceStatus :: "jval \<Rightarrow> jstr" where
  "traceStatus output =
     (let st = js_get output ''status'' in
      if st = JStr ''BLOCKED'' then ''BLOCKED'' else if st = JStr ''FAILED'' then ''FAILED''
      else if st = JStr ''SKIPPED'' then ''SKIPPED'' else ''SUCCESS'')"

definition manifestMetrics :: "jval \<Rightarrow> jobj" where
  "manifestMetrics agentKey =
     (case runtimeManifestFor agentKey of
        None \<Rightarrow> []
      | Some m \<Rightarrow> [(''implementation'', JStr (am_implementation m)), (''implementation_version'', num (of_nat (am_version m))),
                   (''source_module'', JStr (am_source m)), (''editable_strategy'', JStr (am_strategy m))])"

text \<open>Reading \<^verbatim>\<open>contract.implementation.native_adapter\<close> here throws like in the source.\<close>

definition envelopeMetrics :: "run_setup \<Rightarrow> jval option \<Rightarrow> jobj res" where
  "envelopeMetrics s envelope =
     (case envelope of
        None \<Rightarrow> Inr []
      | Some e \<Rightarrow>
          map_ok (\<lambda>adapter.
              [(''workflow_format'', JStr (workflowFormat (s_definition s)))]
              @ (case s_plan s of
                   None \<Rightarrow> []
                 | Some p \<Rightarrow> [(''graph_plan_hash'', JStr (plan_hash p)), (''graph_runtime_mode'', JStr (plan_runtime_mode p))])
              @ [(''universal_agent_version_id'', js_get e ''version_id''), (''universal_agent_version'', js_get e ''version''),
                 (''universal_agent_key'', js_path e [''contract'', ''key'']), (''implementation'', adapter),
                 (''capabilities'', js_path e [''contract'', ''capabilities'']), (''contract_hash'', js_get e ''contract_hash'')])
            (contractAdapter (js_get e ''contract'')))"

definition historyEntry :: "world \<Rightarrow> jval \<Rightarrow> jval \<Rightarrow> rat \<Rightarrow> jval" where
  "historyEntry w node output clock =
     JObj [(''ts'', JStr (w_stamp w clock)), (''node_id'', js_get node ''id''), (''node_name'', js_get node ''name''),
           (''status'', js_get output ''status''), (''reason'', js_get output ''reason''), (''confidence'', js_get output ''confidence'')]"

definition traceEntry :: "world \<Rightarrow> run_setup \<Rightarrow> jval \<Rightarrow> jval \<Rightarrow> jval \<Rightarrow> jobj \<Rightarrow> jobj \<Rightarrow> rat \<Rightarrow> rat \<Rightarrow> jnum \<Rightarrow> jval" where
  "traceEntry w s node input output memory metrics started clock timeout =
     (let d = s_definition s in
      JObj [(''ts'', JStr (w_stamp w clock)), (''workflow_id'', js_path d [''workflow'', ''id'']),
            (''workflow_version'', JNum (to_number (js_or (js_path d [''workflow'', ''version'']) (num 1)))),
            (''node_id'', js_get node ''id''), (''node_name'', js_get node ''name''), (''node_type'', js_get node ''type''),
            (''status'', JStr (traceStatus output)),
            (''input_json'', JObj [(''executionId'', js_get input ''executionId''), (''caseId'', js_get input ''caseId''),
               (''current_step'', obj_get memory ''current_step'')]),
            (''output_json'', output),
            (''metrics_json'', with_props (js_or (js_path output [''decision'', ''metrics'']) (JObj []))
               ([(''timeout_ms'', JNum timeout)] @ manifestMetrics (js_get node ''agent_key'') @ metrics)),
            (''started_at'', JStr (w_stamp w started)), (''ended_at'', JStr (w_stamp w clock))])"

section \<open>One enabled node\<close>

definition countNode :: "jobj \<Rightarrow> jstr \<Rightarrow> jobj" where
  "countNode nodePasses nid = obj_assign nodePasses nid (js_add (js_or (obj_get nodePasses nid) (num 0)) (num 1))"

definition stepInput :: "run_setup \<Rightarrow> exec_state \<Rightarrow> jval" where
  "stepInput s x =
     with_props (s_base s)
       [(''context'', with_props (js_get (s_base s) ''context'') [(''workflow_format'', JStr (workflowFormat (s_definition s)))]),
        (''history'', JArr (x_history x)), (''sharedMemory'', JObj (x_memory x))]"

definition compiledNodeOf :: "run_setup \<Rightarrow> jval \<Rightarrow> compiled_node option" where
  "compiledNodeOf s node =
     (case s_plan s of None \<Rightarrow> None | Some p \<Rightarrow> map_of (plan_nodes p) (str_field node ''id''))"

definition envelopeAdapter :: "jval option \<Rightarrow> jstr" where
  "envelopeAdapter envelope =
     (case envelope of
        None \<Rightarrow> []
      | Some e \<Rightarrow> to_string (js_or (js_path e [''contract'', ''implementation'', ''native_adapter'']) (JStr [])))"

text \<open>The handler of a node and the node after resolution (which may add its runtime view to it).\<close>

definition findHandler :: "world \<Rightarrow> run_setup \<Rightarrow> compiled_node option \<Rightarrow> jval \<Rightarrow> jstr \<Rightarrow> jval \<times> handler option res" where
  "findHandler w s cn node universalAdapter =
     (if graphDispatchEnabled (s_definition s) then
        (case resolveAuthoritativeWorkflowHandler node (w_handlers w) (map_option native_adapter cn) of
           (node', r) \<Rightarrow> (node', map_ok Some r))
      else
        (let look = handlerAt (w_handlers w);
             found = (if look (str_field node ''type'') \<noteq> None then look (str_field node ''type'')
                      else if look (str_field node ''agent_key'') \<noteq> None then look (str_field node ''agent_key'')
                      else if look universalAdapter \<noteq> None then look universalAdapter
                      else look ''default'')
         in (node, Inr found)))"

definition nodeTimeoutMs :: "run_setup \<Rightarrow> compiled_node option \<Rightarrow> jval \<Rightarrow> rat \<Rightarrow> jnum" where
  "nodeTimeoutMs s cn node clock =
     (case cn of
        Some c \<Rightarrow> Fin (compiledNodeTimeoutMs c (s_timeout s) (clock - s_started s))
      | None \<Rightarrow> resolveLegacyNodeTimeoutMs node (opt_value (s_timeout s)) (clock - s_started s))"

text \<open>
  The output after mapping, planner contract and contract enforcement; \<open>envelopeMetrics\<close> is read
  with it, since both throw for a contract without an implementation.
\<close>

definition settleOutput :: "run_setup \<Rightarrow> jobj \<Rightarrow> jval \<Rightarrow> jval \<Rightarrow> jval option \<Rightarrow> jstr \<Rightarrow> jval \<Rightarrow> (jval \<times> jobj) res" where
  "settleOutput s memory node input envelope universalAdapter output0 =
     (let output1 = applyNodeOutputMapping node output0;
          output2 = (if workflowFormat (s_definition s) = ''universal_v3'' \<and> universalAdapter = ''qa-action-planner/v2''
                     then applyPlannerFallback (plannerFallback memory input) output1 else output1)
      in res_bind (case envelope of None \<Rightarrow> Inr output2 | Some e \<Rightarrow> finalizeUniversalAgentExecution e output2)
           (\<lambda>output. map_ok (\<lambda>metrics. (output, metrics)) (envelopeMetrics s envelope)))"

text \<open>
  The body of the loop for an enabled node, up to the trace, in three parts: the bookkeeping after
  the node ran, running it with its prepared input, and reading its contract. The result is
  \<open>Continue\<close> with the node's output in \<open>x_last\<close>, or \<open>Done\<close> when something throws.
\<close>

definition recordVisit ::
  "world \<Rightarrow> run_setup \<Rightarrow> exec_state \<Rightarrow> jval \<Rightarrow> compiled_node option \<Rightarrow> jval \<Rightarrow> jval \<Rightarrow> jval option \<Rightarrow> jnum \<Rightarrow> jval res \<times> rat \<times> nat \<Rightarrow> step_out" where
  "recordVisit w s x current cn node input envelope timeout = (\<lambda>(done_run, t, calls).
     let clock = x_clock x + t;
         current' = (if cn = None then node else current)
     in case res_bind done_run (settleOutput s (x_memory x) node input envelope (envelopeAdapter envelope)) of
          Inl e \<Rightarrow> Done (Inl e, clock, calls)
        | Inr (output, metrics) \<Rightarrow>
            (let memory = mergePatch (x_memory x) (js_get output ''sharedMemoryPatch'') in
             Continue (x\<lparr>
               x_nodes := (if cn = None then obj_put (x_nodes x) (str_field current ''id'') current' else x_nodes x),
               x_current := Some current',
               x_memory := memory,
               x_history := x_history x @ arr_elems (js_or (js_get output ''events'') (JArr [])) @ [historyEntry w current' output clock],
               x_traces := x_traces x @ [traceEntry w s current' input output memory metrics (x_clock x) clock timeout],
               x_last := output,
               x_clock := clock,
               x_calls := calls\<rparr>)))"

definition runPrepared ::
  "world \<Rightarrow> runner \<Rightarrow> run_setup \<Rightarrow> exec_state \<Rightarrow> jval \<Rightarrow> compiled_node option \<Rightarrow> jval \<Rightarrow> jval option \<Rightarrow> step_out" where
  "runPrepared w run s x current cn node0 envelope =
     (let prepared = (if isUniversalWorkflow (s_definition s) then map_ok snd (prepareUniversalAgentExecution node0 (stepInput s x)) else Inr (stepInput s x));
          universalError = (case prepared of Inl e \<Rightarrow> Some (error_message e) | Inr _ \<Rightarrow> None);
          input = applyNodeInputMapping node0 (case prepared of Inl e \<Rightarrow> stepInput s x | Inr i \<Rightarrow> i);
          found = findHandler w s cn node0 (envelopeAdapter envelope);
          timeout = nodeTimeoutMs s cn (fst found) (x_clock x)
      in case runNode w run cn (fst found) input universalError (snd found) (envelopeAdapter envelope = ''universal-subworkflow/v1'')
                timeout (x_clock x) (x_calls x) of
           None \<Rightarrow> NoFuel
         | Some done_run \<Rightarrow> recordVisit w s x current cn (fst found) input envelope timeout done_run)"

definition visitNode :: "world \<Rightarrow> runner \<Rightarrow> run_setup \<Rightarrow> exec_state \<Rightarrow> jval \<Rightarrow> step_out" where
  "visitNode w run s x current =
     (let cn = compiledNodeOf s current;
          node0 = (case cn of None \<Rightarrow> current | Some c \<Rightarrow> runtimeNodeFromCompiled current c);
          x1 = x\<lparr>x_node_passes := countNode (x_node_passes x) (str_field node0 ''id'')\<rparr>
      in case (if isUniversalWorkflow (s_definition s) then universalEnvelopeFor node0 else Inr None) of
           Inl e \<Rightarrow> Done (Inl e, x_clock x1, x_calls x1)
         | Inr envelope \<Rightarrow> runPrepared w run s x1 current cn node0 envelope)"

section \<open>Selecting the next node\<close>

definition finalStatus :: "jval \<Rightarrow> jstr" where
  "finalStatus output =
     (if js_get output ''status'' = JStr ''SUCCESS'' then ''PASSED''
      else if js_get output ''status'' = JStr ''BLOCKED'' then ''BLOCKED'' else ''FAILED'')"

definition terminalStatus :: "jval \<Rightarrow> jstr" where
  "terminalStatus output =
     (if js_get output ''status'' = JStr ''SUCCESS'' \<or> js_get output ''status'' = JStr ''SKIPPED'' then ''PASSED''
      else if js_get output ''status'' = JStr ''BLOCKED'' then ''BLOCKED'' else ''FAILED'')"

definition isTerminal :: "run_setup \<Rightarrow> exec_state \<Rightarrow> jval \<Rightarrow> bool" where
  "isTerminal s x current =
     (case s_plan s of
        Some p \<Rightarrow> (case compiledNodeOf s current of
            None \<Rightarrow> False | Some c \<Rightarrow> outputPortFor (x_last x) \<in> set (terminal_ports c))
      | None \<Rightarrow> js_get current ''type'' \<in> JStr ` set TERMINAL_TYPES)"

definition retryCountOf :: "exec_state \<Rightarrow> jval \<Rightarrow> jnum" where
  "retryCountOf x nodeId =
     to_number (first_truthy
       [js_path (JObj (x_memory x)) [''retry_count'', to_string nodeId], obj_get (x_node_passes x) (to_string nodeId), num 0])"

text \<open>\<^verbatim>\<open>sharedMemory.universal_inputs\<close> after the data mapping of an edge; \<open>entries\<close> are source and target.\<close>

definition edgeInputs :: "exec_state \<Rightarrow> jstr \<Rightarrow> (jval \<times> jstr) list \<Rightarrow> jobj" where
  "edgeInputs x target entries =
     (let targetInputs = own_props (js_or (obj_get (x_memory x) ''universal_inputs'') (JObj []));
          currentInputs = own_props (js_or (obj_get targetInputs target) (JObj []));
          src = JObj [(''outputs'', first_truthy
                        [js_path (x_last x) [''decision'', ''universal_result'', ''outputs''], js_path (x_last x) [''decision'', ''outputs''], JObj []]),
                      (''memory'', JObj (x_memory x))];
          mapped = foldl (\<lambda>acc (from, tgt).
            if starts_with tgt ''inputs.'' then obj_assign acc (drop (length ''inputs.'') tgt) (valueAtPath src from) else acc)
            currentInputs entries
      in obj_put (x_memory x) ''universal_inputs'' (JObj (obj_assign targetInputs target (JObj mapped))))"

definition selectV3 :: "world \<Rightarrow> run_setup \<Rightarrow> compiled_plan \<Rightarrow> exec_state \<Rightarrow> jval \<Rightarrow> step_out" where
  "selectV3 w s plan x current =
     (let nodeId = js_get current ''id'' in
      case selectCompiledV3Edge (w_collate w) plan nodeId (x_last x) (x_memory x) (x_edge_passes x) (retryCountOf x nodeId) of
        Inl e \<Rightarrow>
          (let reason = error_message e in
           finish (x\<lparr>
             x_last := JObj [(''status'', JStr ''BLOCKED''), (''reason'', JStr (''Seleccion de conexion V3 bloqueada: '' @ reason)),
               (''events'', JArr []),
               (''decision'', JObj [(''graph_runtime_error_code'', JStr ''AMBIGUOUS_EDGE_MATCH''), (''graph_runtime_error'', JStr reason)])],
             x_history := x_history x @ [JObj [(''ts'', JStr (w_stamp w (x_clock x))), (''node_id'', nodeId),
               (''status'', JStr ''BLOCKED''), (''reason'', JStr reason)]]\<rparr>) ''BLOCKED'')
      | Inr None \<Rightarrow> finish x (finalStatus (x_last x))
      | Inr (Some e) \<Rightarrow>
          Continue (x\<lparr>
            x_edge_passes := countPass (x_edge_passes x) (edge_id e),
            x_memory := (if data_mapping e = [] then x_memory x
                         else edgeInputs x (target_node_id e) (map (\<lambda>(a, b). (JStr a, b)) (data_mapping e))),
            x_current := map_of (x_nodes x) (target_node_id e)\<rparr>))"

text \<open>\<^verbatim>\<open>find\<close> over the outgoing edges, whose test initializes the counter of each edge it visits.\<close>

fun findEdge :: "run_setup \<Rightarrow> exec_state \<Rightarrow> jval \<Rightarrow> jobj \<Rightarrow> jval list \<Rightarrow> jobj \<times> jval option" where
  "findEdge s x nodeId counts [] = (counts, None)"
| "findEdge s x nodeId counts (edge # es) =
     (let eid = str_field edge ''id'';
          counts' = obj_assign counts eid (js_or (obj_get counts eid) (num 0));
          limit = to_number (js_or (js_get edge ''max_passes'') (num 1));
          sourceHandle = toLowerCase (to_string (js_or (js_get edge ''source_handle'') (JStr [])));
          output = (if x_last x = JUndef then JObj [(''status'', JStr ''SKIPPED''), (''events'', JArr [])] else x_last x)
      in if \<not> js_ge (obj_get counts' eid) (JNum limit) \<and>
            \<not> (isUniversalWorkflow (s_definition s) \<and> sourceHandle \<noteq> [] \<and> sourceHandle \<noteq> outputPortFor (x_last x)) \<and>
            conditionMatches edge output (retryCountOf x nodeId)
         then (counts', Some edge)
         else findEdge s x nodeId counts' es)"

definition selectLegacy :: "run_setup \<Rightarrow> exec_state \<Rightarrow> jval \<Rightarrow> step_out" where
  "selectLegacy s x current =
     (let nodeId = js_get current ''id'';
          outgoing = (if is_str nodeId then option_or (map_of (s_outgoing s) (to_string nodeId)) [] else [])
      in case findEdge s x nodeId (x_edge_passes x) outgoing of
           (counts, None) \<Rightarrow> finish (x\<lparr>x_edge_passes := counts\<rparr>) (finalStatus (x_last x))
         | (counts, Some edge) \<Rightarrow>
             (let eid = str_field edge ''id'';
                  counts' = obj_assign counts eid (js_add (obj_get counts eid) (num 1));
                  target = str_field edge ''target_node_id'';
                  mapping = arr_elems (js_get edge ''data_mapping_json'')
              in Continue (x\<lparr>
                   x_edge_passes := counts',
                   x_memory := (if isUniversalWorkflow (s_definition s) \<and> mapping \<noteq> []
                     then edgeInputs x target (map (\<lambda>m. (JStr (to_string (js_or (js_get m ''source'') (JStr []))),
                                                        to_string (js_or (js_get m ''target'') (JStr [])))) mapping)
                     else x_memory x),
                   x_current := map_of (x_nodes x) target\<rparr>)))"

definition selectNext :: "world \<Rightarrow> run_setup \<Rightarrow> exec_state \<Rightarrow> jval \<Rightarrow> step_out" where
  "selectNext w s x current =
     (if isTerminal s x current then finish x (terminalStatus (x_last x))
      else if truthy (js_get (x_last x) ''next'') \<and> \<not> isUniversalWorkflow (s_definition s) then
        Continue (x\<lparr>x_current := map_of (x_nodes x) (str_field (x_last x) ''next'')\<rparr>)
      else case s_plan s of
          Some plan \<Rightarrow> selectV3 w s plan x current
        | None \<Rightarrow> selectLegacy s x current)"

section \<open>The loop\<close>

definition timedOut :: "run_setup \<Rightarrow> exec_state \<Rightarrow> bool" where
  "timedOut s x \<longleftrightarrow>
     (case s_timeout s of None \<Rightarrow> 900000 | Some t \<Rightarrow> if t = 0 then 900000 else t) < x_clock x - s_started s"

definition disabledOutput :: jval where
  "disabledOutput = JObj [(''status'', JStr ''SKIPPED''), (''reason'', JStr ''Nodo deshabilitado''), (''events'', JArr [])]"

text \<open>The runtime view of a compiled node keeps the flag \<^verbatim>\<open>enabled\<close> of the node.\<close>

definition loopStep :: "world \<Rightarrow> runner \<Rightarrow> run_setup \<Rightarrow> exec_state \<Rightarrow> step_out" where
  "loopStep w run s x =
     (case x_current x of
        None \<Rightarrow> finish x ''RUNNING''
      | Some current \<Rightarrow>
          if timedOut s x then finish x ''TIMEOUT''
          else if \<not> not_disabled current then selectNext w s (x\<lparr>x_last := disabledOutput\<rparr>) current
          else (case visitNode w run s x current of
              Continue x' \<Rightarrow> selectNext w s x' (option_or (x_current x') current)
            | stop \<Rightarrow> stop))"

fun run_loop :: "nat \<Rightarrow> (exec_state \<Rightarrow> step_out) \<Rightarrow> exec_state \<Rightarrow> run_out option" where
  "run_loop 0 step x = None"
| "run_loop (Suc n) step x =
     (case step x of
        Done r \<Rightarrow> Some r
      | NoFuel \<Rightarrow> None
      | Continue x' \<Rightarrow> run_loop n step x')"

section \<open>A run\<close>

definition nodesById :: "jval \<Rightarrow> (jstr \<times> jval) list" where
  "nodesById d = foldl (\<lambda>m n. obj_put m (str_field n ''id'') n) [] (def_nodes d)"

definition priority_le :: "jval \<Rightarrow> jval \<Rightarrow> bool" where
  "priority_le a b \<longleftrightarrow>
     \<not> num_lt (to_number (js_or (js_get b ''priority'') (num 0))) (to_number (js_or (js_get a ''priority'') (num 0)))"

definition outgoingEdges :: "jval \<Rightarrow> (jstr \<times> jval list) list" where
  "outgoingEdges d =
     map (\<lambda>(k, es). (k, sort_by priority_le es))
       (foldl (\<lambda>m e. obj_put m (str_field e ''source_node_id'') (option_or (map_of m (str_field e ''source_node_id'')) [] @ [e]))
          [] (def_edges d))"

definition v3CompileOptions :: "world \<Rightarrow> rat option \<Rightarrow> rat \<Rightarrow> compiler_options" where
  "v3CompileOptions w timeoutMs clock =
     \<lparr>opt_runtime_mode = None, opt_manifest = None, opt_max_timeout = timeoutMs, opt_max_attempts = Some 10,
      opt_allow_legacy = False, opt_now = w_stamp w clock\<rparr>"

text \<open>The result when a V3 definition does not compile.\<close>

definition severity_json :: "issue_severity \<Rightarrow> jval" where
  "severity_json v = JStr (case v of SevError \<Rightarrow> ''error'' | SevWarning \<Rightarrow> ''warning'')"

definition issue_json :: "compile_issue \<Rightarrow> jval" where
  "issue_json i =
     JObj ([(''severity'', severity_json (severity i)), (''code'', JStr (issue_code i)), (''message'', JStr (issue_message i))]
       @ (case issue_path i of None \<Rightarrow> [] | Some p \<Rightarrow> [(''path'', JStr p)])
       @ (case issue_node i of None \<Rightarrow> [] | Some n \<Rightarrow> [(''node_id'', JStr n)])
       @ (case issue_edge i of None \<Rightarrow> [] | Some e \<Rightarrow> [(''edge_id'', JStr e)]))"

definition compileFailure :: "jval \<Rightarrow> compile_issue list \<Rightarrow> run_result" where
  "compileFailure baseInput issues =
     (let reason = join '' | '' (map (\<lambda>i. issue_code i @ '': '' @ issue_message i) (filter is_error issues)) in
      \<lparr>r_status = ''BLOCKED'',
       r_memory = own_props (js_or (js_get baseInput ''sharedMemory'') (JObj [])),
       r_history = arr_elems (js_or (js_get baseInput ''history'') (JArr [])),
       r_traces = [],
       r_last = JObj [(''status'', JStr ''BLOCKED''), (''reason'', JStr (''Workflow universal_v3 invalido: '' @ reason)),
         (''events'', JArr []),
         (''decision'', JObj [(''graph_runtime_error_code'', JStr ''V3_COMPILE_FAILED''), (''compile_issues'', JArr (map issue_json issues))])]\<rparr>)"

definition runSetup :: "jval \<Rightarrow> jval \<Rightarrow> rat option \<Rightarrow> compiled_plan option \<Rightarrow> rat \<Rightarrow> run_setup" where
  "runSetup d baseInput timeoutMs plan clock =
     \<lparr>s_definition = d, s_base = baseInput, s_timeout = timeoutMs, s_plan = plan, s_outgoing = outgoingEdges d, s_started = clock\<rparr>"

definition initialState :: "jval \<Rightarrow> jval \<Rightarrow> compiled_plan option \<Rightarrow> rat \<Rightarrow> nat \<Rightarrow> exec_state" where
  "initialState d baseInput plan clock calls =
     \<lparr>x_nodes = nodesById d,
      x_current = (case plan of Some p \<Rightarrow> map_of (nodesById d) (entry_node_id p) | None \<Rightarrow> startNode d),
      x_memory = initialMemory baseInput,
      x_history = arr_elems (js_or (js_get baseInput ''history'') (JArr [])),
      x_traces = [], x_edge_passes = [], x_node_passes = [], x_last = JUndef, x_clock = clock, x_calls = calls\<rparr>"

text \<open>The compilation at the start of a run: a plan for V3, none otherwise, or how the run ends.\<close>

definition compileForRun :: "world \<Rightarrow> jval \<Rightarrow> jval \<Rightarrow> rat option \<Rightarrow> rat \<Rightarrow> (run_result res) + (compiled_plan option)" where
  "compileForRun w d baseInput timeoutMs clock =
     (if isGraphAuthoritativeV3 d then
        (case compileWorkflowSnapshot (w_sha w) (v3CompileOptions w timeoutMs clock) d of
           Inl e \<Rightarrow> Inl (Inl e)
         | Inr r \<Rightarrow>
             (case compile_plan r of
                None \<Rightarrow> Inl (Inr (compileFailure baseInput (compile_issues r)))
              | Some p \<Rightarrow> Inr (Some p)))
      else Inr None)"

fun executeWorkflowGraph :: "nat \<Rightarrow> nat \<Rightarrow> world \<Rightarrow> rat option \<Rightarrow> runner" where
  "executeWorkflowGraph 0 fuel w timeoutMs d baseInput clock calls = None"
| "executeWorkflowGraph (Suc depth) fuel w timeoutMs d baseInput clock calls =
     (case compileForRun w d baseInput timeoutMs clock of
        Inl r \<Rightarrow> Some (r, clock, calls)
      | Inr plan \<Rightarrow>
          run_loop fuel
            (loopStep w (\<lambda>d' i' c' n'. executeWorkflowGraph depth fuel w timeoutMs d' i' c' n') (runSetup d baseInput timeoutMs plan clock))
            (initialState d baseInput plan clock calls))"

end
