(* ===== verification/V3Proofs.thy ===== *)
theory V3Proofs
  imports V3Runtime
begin

text \<open>
  Bounds on running one V3 node (attempts and time) and what the choice of the next V3 edge
  guarantees.
\<close>

section \<open>Timeouts and retries\<close>

text \<open>Promises settle in the future.\<close>

definition in_future :: "promise \<Rightarrow> bool" where
  "in_future p \<longleftrightarrow> (case settles p of None \<Rightarrow> True | Some t \<Rightarrow> 0 \<le> t)"

lemma withTimeout_bound:
  assumes "withTimeout p (Fin m) fallback = (r, t)" and "in_future p"
  shows "0 \<le> t \<and> t \<le> max 1 m"
  using assms by (auto simp: withTimeout_def in_future_def split: option.splits if_splits)

lemma retryDelay_bound: "0 \<le> retryDelay cn attempt \<and> retryDelay cn attempt \<le> 5000"
  by (simp add: retryDelay_def Let_def)

definition attempt_limit :: "compiled_node \<Rightarrow> nat" where
  "attempt_limit cn = max 1 (nat \<lceil>max_attempts (node_retry cn)\<rceil>)"

lemma shouldRetry_limit: "shouldRetry raw cn attempt \<Longrightarrow> attempt + 1 \<le> attempt_limit cn"
proof -
  assume "shouldRetry raw cn attempt"
  then have "of_nat attempt < max_attempts (node_retry cn)"
    by (auto simp: shouldRetry_def Let_def not_le split: if_splits)
  then show ?thesis unfolding attempt_limit_def by linarith
qed

lemma retryLoop_unfold:
  assumes "withTimeout (call attempt) timeout fallback = (r0, t0)"
  shows "retryLoop cn call timeout fallback attempt elapsed =
    (if \<exists>raw. r0 = Inr raw \<and> shouldRetry raw cn attempt
     then retryLoop cn call timeout fallback (attempt + 1) (elapsed + t0 + retryDelay cn attempt)
     else (r0, attempt, elapsed + t0))"
  by (subst retryLoop.simps) (auto simp: assms split: sum.splits)

lemma retryLoop_attempts:
  assumes "retryLoop cn call timeout fallback attempt elapsed = (r, n, t)" and "attempt \<le> attempt_limit cn"
  shows "attempt \<le> n \<and> n \<le> attempt_limit cn"
  using assms
proof (induction "attempt_limit cn - attempt" arbitrary: attempt elapsed rule: less_induct)
  case less
  obtain r0 t0 where w: "withTimeout (call attempt) timeout fallback = (r0, t0)"
    by (cases "withTimeout (call attempt) timeout fallback")
  show ?case
  proof (cases "\<exists>raw. r0 = Inr raw \<and> shouldRetry raw cn attempt")
    case False
    with less.prems show ?thesis by (simp add: retryLoop_unfold [of call, OF w])
  next
    case True
    then have lim: "attempt + 1 \<le> attempt_limit cn" using shouldRetry_limit by blast
    have rec: "retryLoop cn call timeout fallback (attempt + 1) (elapsed + t0 + retryDelay cn attempt) = (r, n, t)"
      using less.prems(1) True by (simp add: retryLoop_unfold [of call, OF w])
    have "attempt + 1 \<le> n \<and> n \<le> attempt_limit cn" using less.hyps [OF _ rec lim] lim by simp
    then show ?thesis by simp
  qed
qed

lemma retryLoop_time:
  assumes "retryLoop cn call (Fin m) fallback attempt elapsed = (r, n, t)" and "\<And>k. in_future (call k)"
    and "attempt \<le> attempt_limit cn"
  shows "t \<le> elapsed + of_nat (n + 1 - attempt) * max 1 m + of_nat (n - attempt) * 5000"
  using assms
proof (induction "attempt_limit cn - attempt" arbitrary: attempt elapsed rule: less_induct)
  case less
  obtain r0 t0 where w: "withTimeout (call attempt) (Fin m) fallback = (r0, t0)"
    by (cases "withTimeout (call attempt) (Fin m) fallback")
  have t0: "t0 \<le> max 1 m" using withTimeout_bound [OF w] less.prems(2) by blast
  show ?case
  proof (cases "\<exists>raw. r0 = Inr raw \<and> shouldRetry raw cn attempt")
    case False
    with less.prems(1) t0 show ?thesis by (simp add: retryLoop_unfold [of call, OF w])
  next
    case True
    then have lim: "attempt + 1 \<le> attempt_limit cn" using shouldRetry_limit by blast
    have rec: "retryLoop cn call (Fin m) fallback (attempt + 1) (elapsed + t0 + retryDelay cn attempt) = (r, n, t)"
      using less.prems(1) True by (simp add: retryLoop_unfold [of call, OF w])
    have n: "attempt + 1 \<le> n" using retryLoop_attempts [OF rec lim] by simp
    have "t \<le> elapsed + t0 + retryDelay cn attempt + of_nat (n + 1 - (attempt + 1)) * max 1 m + of_nat (n - (attempt + 1)) * 5000"
      using less.hyps [OF _ rec less.prems(2) lim] lim by simp
    also have "\<dots> \<le> elapsed + max 1 m + 5000 + of_nat (n + 1 - (attempt + 1)) * max 1 m + of_nat (n - (attempt + 1)) * 5000"
      using t0 retryDelay_bound [of cn attempt] by linarith
    also have "\<dots> = elapsed + of_nat (n + 1 - attempt) * max 1 m + of_nat (n - attempt) * 5000"
    proof -
      have "n + 1 - attempt = Suc (n + 1 - (attempt + 1))" "n - attempt = Suc (n - (attempt + 1))" using n by simp_all
      then show ?thesis by (simp add: algebra_simps)
    qed
    finally show ?thesis .
  qed
qed

text \<open>
  A node of a V3 plan is bounded in calls and in time: the adapter is called at least once and
  at most \<^verbatim>\<open>max_attempts\<close> times (rounded up, at least one), and with timeout \<open>m\<close> the whole node
  takes at most \<open>m\<close> (at least a millisecond) per attempt and five seconds between two attempts.
\<close>

theorem native_handler_bounded:
  assumes "executeGraphNativeHandler node cn call (Fin m) = (r, n, t)" and "\<And>k. in_future (call k)"
  shows "1 \<le> n \<and> n \<le> max 1 (nat \<lceil>max_attempts (node_retry cn)\<rceil>) \<and>
    t \<le> of_nat n * max 1 m + of_nat (n - 1) * 5000"
proof -
  obtain r' where l: "retryLoop cn call (Fin m) (timeoutOutput node) 1 0 = (r', n, t)"
    using assms(1) by (auto simp: executeGraphNativeHandler_def Let_def split: prod.splits sum.splits)
  have 1: "1 \<le> attempt_limit cn" by (simp add: attempt_limit_def)
  show ?thesis
    using retryLoop_attempts [OF l 1] retryLoop_time [OF l assms(2) 1] by (simp add: attempt_limit_def)
qed

definition sample_node :: compiled_node where
  "sample_node =
     \<lparr>node_id = ''a'', node_type = ''Agent'', node_enabled = True, native_adapter = ''qa-step-validator/v2'',
      contract_version = ''1'', node_prompt = [], prompt_hash = [], implementation_hash = [], timeout_ms = 1000,
      node_retry = \<lparr>max_attempts = 3, initial_backoff_ms = 100, max_backoff_ms = 1000, retryable_reason_codes = []\<rparr>,
      node_capabilities = [], input_mapping = JObj [], output_mapping = JObj [], input_ports = [],
      output_ports = [''out''], terminal_ports = [], node_config = JObj []\<rparr>"

definition sample_call :: "nat \<Rightarrow> promise" where
  "sample_call k = \<lparr>settles = Some 10, outcome = Inr (JObj [(''status'', JStr ''RETRYABLE'')])\<rparr>"

theorem native_handler_bounded_witness:
  "case executeGraphNativeHandler (JObj []) sample_node sample_call (Fin 1000) of
     (r, n, t) \<Rightarrow> n = 3 \<and> t = 330 \<and> n \<le> 3 \<and> t \<le> of_nat n * 1000 + of_nat (n - 1) * 5000"
proof -
  have e: "case executeGraphNativeHandler (JObj []) sample_node sample_call (Fin 1000) of (r, n, t) \<Rightarrow> n = 3 \<and> t = 330"
    by code_simp
  obtain r n t where x: "executeGraphNativeHandler (JObj []) sample_node sample_call (Fin 1000) = (r, n, t)"
    by (cases "executeGraphNativeHandler (JObj []) sample_node sample_call (Fin 1000)")
  have "in_future (sample_call k)" for k by (simp add: in_future_def sample_call_def)
  note b = native_handler_bounded [OF x this]
  have "max_attempts (node_retry sample_node) = 3" by (simp add: sample_node_def)
  with b e show ?thesis unfolding x by simp
qed

section \<open>Choosing an edge\<close>

lemma select_in: "selectDeterministicEdge lc edges ctx = Inr (Some e) \<Longrightarrow> e \<in> set edges \<and> evaluateCondition (edge_condition e) ctx"
proof -
  assume "selectDeterministicEdge lc edges ctx = Inr (Some e)"
  then have "best_matches edges ctx = [e]" by (simp add: select_spec)
  then have "e \<in> set (best_matches edges ctx)" by simp
  then show ?thesis by (auto simp: best_matches_def Let_def)
qed



definition sample_edge :: compiled_edge where
  "sample_edge = \<lparr>edge_id = ''e'', edge_priority = 0, edge_condition = Always, source_node_id = ''a'', source_port = Some ''Out'',
     target_node_id = ''b'', target_port = Some ''in'', max_passes = Some 2, data_mapping = []\<rparr>"

definition sample_plan :: compiled_plan where
  "sample_plan =
     \<lparr>workflow_id = ''1'', workflow_version = ''1'', plan_purpose = ''qa'', plan_format = ''universal_v3'',
      plan_runtime_mode = ''graph_native'', entry_node_id = ''a'', plan_nodes = [(''a'', sample_node)],
      plan_edges = [sample_edge], plan_hash = [], compiled_at = []\<rparr>"

definition sample_output :: jval where
  "sample_output = JObj [(''status'', JStr ''SUCCESS''), (''decision'', JObj [(''output_port'', JStr ''out'')])]"


end
