(* ===== verification/ExecutorProofs.thy ===== *)
theory ExecutorProofs
  imports Executor CompilerProofs V3Proofs
begin

text \<open>
  Termination and bounds of universal V3 runs. The locale \<open>bounded_loop\<close> is the interface between
  the loop and its measure; it is interpreted on the loop step of the executor, with the passes
  the plan still allows as the measure.
\<close>


section \<open>Loops that stop\<close>

locale bounded_loop =
  fixes step :: "exec_state \<Rightarrow> step_out"
    and inv :: "exec_state \<Rightarrow> bool"
    and mu :: "exec_state \<Rightarrow> nat"
  assumes step_inv: "inv x \<Longrightarrow> step x = Continue x' \<Longrightarrow> inv x'"
    and step_mu: "inv x \<Longrightarrow> step x = Continue x' \<Longrightarrow> mu x' < mu x"
    and step_fuel: "inv x \<Longrightarrow> step x \<noteq> NoFuel"
begin

lemma loop_returns: "inv x \<Longrightarrow> mu x < n \<Longrightarrow> \<exists>r. run_loop n step x = Some r"
proof (induction n arbitrary: x)
  case (Suc n)
  show ?case
  proof (cases "step x")
    case (Continue x')
    with Suc.prems step_inv step_mu have "inv x'" "mu x' < n" by fastforce+
    with Suc.IH Continue show ?thesis by simp
  qed (use step_fuel Suc.prems in auto)
qed simp

text \<open>A quantity that grows by at most \<open>k\<close> per step grows by at most \<open>k\<close> per unit of the measure.\<close>

lemma loop_growth:
  assumes grow: "\<And>x x'. inv x \<Longrightarrow> step x = Continue x' \<Longrightarrow> x_calls x' \<le> x_calls x + k"
    and stop: "\<And>x r t c. inv x \<Longrightarrow> step x = Done (r, t, c) \<Longrightarrow> c \<le> x_calls x + k"
  shows "inv x \<Longrightarrow> run_loop n step x = Some (r, t, c) \<Longrightarrow> c \<le> x_calls x + k * (mu x + 1)"
proof (induction n arbitrary: x)
  case (Suc n)
  show ?case
  proof (cases "step x")
    case (Done out)
    with Suc.prems stop [OF Suc.prems(1)] show ?thesis by fastforce
  next
    case (Continue x')
    have "c \<le> x_calls x' + k * (mu x' + 1)"
      using Suc.IH step_inv [OF Suc.prems(1) Continue] Suc.prems(2) Continue by simp
    also have "\<dots> \<le> x_calls x + k + k * mu x"
      using grow [OF Suc.prems(1) Continue] step_mu [OF Suc.prems(1) Continue]
      by (intro add_mono mult_le_mono2) auto
    finally show ?thesis by simp
  qed (use Suc.prems in simp)
qed simp

end

section \<open>Counters of edge passes\<close>

text \<open>The number a counter object holds for an edge.\<close>

definition pass_no :: "jobj \<Rightarrow> jstr \<Rightarrow> nat" where
  "pass_no counts eid = (case passes counts eid of JNum (Fin q) \<Rightarrow> nat \<lfloor>q\<rfloor> | _ \<Rightarrow> 0)"

definition counters_ok :: "jobj \<Rightarrow> bool" where
  "counters_ok counts \<longleftrightarrow> (\<forall>k. k \<notin> set object_proto \<longrightarrow> (\<exists>n. passes counts k = num (of_nat n)))"

definition pass_max :: "compiled_edge \<Rightarrow> nat" where
  "pass_max e = nat \<lceil>pass_limit e\<rceil>"

definition pass_budget :: "compiled_plan \<Rightarrow> nat" where
  "pass_budget p = sum_list (map pass_max (plan_edges p))"

definition budget_left :: "compiled_plan \<Rightarrow> jobj \<Rightarrow> nat" where
  "budget_left p counts = sum_list (map (\<lambda>e. pass_max e - pass_no counts (edge_id e)) (plan_edges p))"

lemma counters_ok_empty: "counters_ok []"
  by (auto simp: counters_ok_def passes_def obj_get_def js_or_def intro: exI [of _ 0])

lemma passes_pass_no: "counters_ok counts \<Longrightarrow> k \<notin> set object_proto \<Longrightarrow> passes counts k = num (of_nat (pass_no counts k))"
  by (auto simp: counters_ok_def pass_no_def)

lemma js_ge_num [simp]: "js_ge (num a) (num b) \<longleftrightarrow> b \<le> a"
  by (simp add: js_ge_def not_less)

lemma countPass_put:
  assumes "counters_ok counts" and "eid \<notin> set object_proto"
  shows "countPass counts eid = obj_put counts eid (num (of_nat (pass_no counts eid + 1)))"
proof -
  have "eid \<noteq> ''__proto__''" using assms(2) by (auto simp: object_proto_def)
  then show ?thesis
    using passes_pass_no [OF assms] by (simp add: countPass_def js_add_def Let_def add.commute)
qed

lemma passes_countPass:
  assumes "counters_ok counts" and "eid \<notin> set object_proto"
  shows "passes (countPass counts eid) k = (if k = eid then num (of_nat (pass_no counts eid + 1)) else passes counts k)"
  by (simp add: countPass_put [OF assms] passes_def obj_get_obj_put_eq js_or_def)

lemma counters_ok_countPass: "counters_ok counts \<Longrightarrow> eid \<notin> set object_proto \<Longrightarrow> counters_ok (countPass counts eid)"
  using passes_countPass unfolding counters_ok_def by (metis (full_types))

lemma pass_no_countPass:
  "counters_ok counts \<Longrightarrow> eid \<notin> set object_proto \<Longrightarrow>
   pass_no (countPass counts eid) k = (if k = eid then pass_no counts eid + 1 else pass_no counts k)"
  by (cases "k = eid") (simp_all add: pass_no_def [of "countPass counts eid"] passes_countPass pass_no_def [of counts k] del: of_nat_Suc of_nat_add)

lemma sum_list_strict_mono:
  fixes f g :: "'a \<Rightarrow> nat"
  assumes "x \<in> set xs" and "f x < g x" and "\<And>y. y \<in> set xs \<Longrightarrow> f y \<le> g y"
  shows "sum_list (map f xs) < sum_list (map g xs)"
  using assms
proof (induction xs)
  case (Cons y ys)
  have le: "sum_list (map f ys) \<le> sum_list (map g ys)" using Cons.prems(3) by (intro sum_list_mono) auto
  show ?case
  proof (cases "x = y")
    case True
    with Cons.prems(2) le show ?thesis by simp
  next
    case False
    with Cons have "sum_list (map f ys) < sum_list (map g ys)" by simp
    with Cons.prems(3) [of y] show ?thesis by simp
  qed
qed simp

lemma budget_left_countPass:
  assumes "counters_ok counts" and "edge_id e \<notin> set object_proto" and "e \<in> set (plan_edges p)"
    and "\<not> js_ge (passes counts (edge_id e)) (num (pass_limit e))"
  shows "budget_left p (countPass counts (edge_id e)) < budget_left p counts"
  unfolding budget_left_def
proof (rule sum_list_strict_mono [OF assms(3)])
  have "of_nat (pass_no counts (edge_id e)) < pass_limit e"
    using assms(4) by (simp add: passes_pass_no [OF assms(1,2)] not_le)
  then have "pass_no counts (edge_id e) < pass_max e" unfolding pass_max_def by linarith
  then show "pass_max e - pass_no (countPass counts (edge_id e)) (edge_id e) < pass_max e - pass_no counts (edge_id e)"
    by (simp add: pass_no_countPass [OF assms(1,2)])
qed (auto simp: pass_no_countPass [OF assms(1,2)])

lemma budget_left_empty: "set (map edge_id (plan_edges p)) \<inter> set object_proto = {} \<Longrightarrow> budget_left p [] = pass_budget p"
proof -
  assume "set (map edge_id (plan_edges p)) \<inter> set object_proto = {}"
  then have "pass_no [] (edge_id e) = 0" if "e \<in> set (plan_edges p)" for e
    using that by (auto simp: pass_no_def passes_def obj_get_def js_or_def)
  then show ?thesis unfolding budget_left_def pass_budget_def
    by (intro arg_cong [where f = sum_list] map_cong) auto
qed


section \<open>Steps of a V3 run\<close>

lemma nodesById_fold:
  assumes "map_of (foldl (\<lambda>m n. obj_put m (str_field n ''id'') n) m ns) k = Some n"
    and "\<forall>n. map_of m k = Some n \<longrightarrow> str_field n ''id'' = k"
  shows "str_field n ''id'' = k"
  using assms
proof (induction ns arbitrary: m)
  case (Cons a ns)
  show ?case
    by (rule Cons.IH [of "obj_put m (str_field a ''id'') a"]) (use Cons.prems in \<open>auto simp: map_of_obj_put\<close>)
qed simp

lemma nodesById_id: "map_of (nodesById d) k = Some n \<Longrightarrow> str_field n ''id'' = k"
  unfolding nodesById_def by (rule nodesById_fold) auto

lemma js_member_get: "js_get v k \<noteq> JUndef \<Longrightarrow> js_member v k = Inr (js_get v k)"
  by (cases v) (auto simp: js_member_def)

text \<open>What a visit of a compiled node leaves alone.\<close>

lemma recordVisit_frame:
  assumes "recordVisit w s x current (Some c) node input envelope timeout done_run = Continue x'"
  shows "x_nodes x' = x_nodes x \<and> x_edge_passes x' = x_edge_passes x \<and> x_current x' = Some current \<and>
    x_calls x' = snd (snd done_run)"
  using assms by (auto simp: recordVisit_def Let_def split: sum.splits prod.splits)

lemma recordVisit_done:
  "recordVisit w s x current cn node input envelope timeout done_run = Done (r, t, n) \<Longrightarrow> n = snd (snd done_run)"
  "recordVisit w s x current cn node input envelope timeout done_run \<noteq> NoFuel"
  by (auto simp: recordVisit_def Let_def split: sum.splits prod.splits)

lemma visitNode_frame:
  assumes "visitNode w run s x current = Continue x'" and "compiledNodeOf s current = Some c"
  shows "x_nodes x' = x_nodes x \<and> x_edge_passes x' = x_edge_passes x \<and> x_current x' = Some current"
  using assms
  by (auto simp: visitNode_def runPrepared_def Let_def simp del: not_None_eq split: sum.splits option.splits dest!: recordVisit_frame)

lemma spread_get [simp]: "js_get (with_props v kvs) k = (case map_of (rev kvs) k of Some u \<Rightarrow> u | None \<Rightarrow> obj_get (own_props v) k)"
  by (simp add: with_props_def obj_spread_get)

text \<open>The contract a compiled node is run with names the adapter it was compiled for.\<close>

lemma envelope_of_compiled:
  assumes "universalEnvelopeFor (runtimeNodeFromCompiled current c) = Inr envelope"
  shows "envelopeAdapter envelope = [] \<or> envelopeAdapter envelope = native_adapter c"
proof -
  let ?n = "runtimeNodeFromCompiled current c"
  let ?agent = "js_get current ''universal_agent''"
  have cfg: "js_path ?n [''config_json'', ''runtime_adapter''] = JStr (native_adapter c)"
    by (simp add: runtimeNodeFromCompiled_def Let_def)
  have cand: "js_path ?n [''universal_agent'', ''contract'', ''implementation'', ''native_adapter''] = JStr (native_adapter c)"
    if "truthy (js_get ?n ''universal_agent'')"
    using that by (auto simp: runtimeNodeFromCompiled_def Let_def split: if_splits)
  show ?thesis
  proof (cases "truthy (js_get ?n ''universal_agent'') \<and> truthy (js_path ?n [''universal_agent'', ''contract''])")
    case False
    then have "envelope = None" using assms by (auto simp: universalEnvelopeFor_def Let_def)
    then show ?thesis by (simp add: envelopeAdapter_def)
  next
    case True
    have "contractAdapter (js_path ?n [''universal_agent'', ''contract'']) = Inr (JStr (native_adapter c))"
      using True cand js_member_get [of "js_path ?n [''universal_agent'', ''contract'', ''implementation'']" "''native_adapter''"]
      by (simp add: contractAdapter_def)
    then have "envelope = Some (js_get ?n ''universal_agent'')"
      using assms True cfg by (auto simp: universalEnvelopeFor_def Let_def split: if_splits)
    then show ?thesis using cand True by (simp add: envelopeAdapter_def js_or_def)
  qed
qed

lemma atomic_not_subworkflow: "isV3AtomicAdapter a \<Longrightarrow> a \<noteq> ''universal-subworkflow/v1''"
proof
  assume "isV3AtomicAdapter a" "a = ''universal-subworkflow/v1''"
  moreover have "\<not> isV3AtomicAdapter ''universal-subworkflow/v1''" by code_simp
  ultimately show False by simp
qed

lemma runNode_fuel: "runNode w run cn node input ue h False timeout clock calls \<noteq> None"
  by (auto simp: runNode_def simp del: not_None_eq split: option.splits sum.splits)

lemma visitNode_fuel:
  assumes "compiledNodeOf s current = Some c" and "isV3AtomicAdapter (native_adapter c)"
  shows "visitNode w run s x current \<noteq> NoFuel"
proof -
  let ?node = "runtimeNodeFromCompiled current c"
  have "runPrepared w run s x1 current (Some c) ?node envelope \<noteq> NoFuel"
    if "(if isUniversalWorkflow (s_definition s) then universalEnvelopeFor ?node else Inr None) = Inr envelope" for x1 envelope
  proof -
    have "envelopeAdapter envelope \<noteq> ''universal-subworkflow/v1''"
      using that envelope_of_compiled [of current c envelope] atomic_not_subworkflow [OF assms(2)]
      by (auto simp: envelopeAdapter_def split: if_splits)
    then show ?thesis
      using runNode_fuel recordVisit_done(2)
      by (auto simp: runPrepared_def Let_def simp del: not_None_eq split: option.splits)
  qed
  then show ?thesis by (auto simp: visitNode_def Let_def assms(1) simp del: not_None_eq split: sum.splits)
qed


lemma callHandler_calls:
  assumes "callHandler w (Some c) h node input timeout calls = (r, t, n)"
  shows "n \<le> calls + attempt_limit c"
proof -
  obtain r' k t' where e: "executeGraphNativeHandler node c (\<lambda>attempt. w_call w h (calls + attempt - 1) node input) timeout = (r', k, t')"
    by (cases "executeGraphNativeHandler node c (\<lambda>attempt. w_call w h (calls + attempt - 1) node input) timeout")
  then obtain r'' where "retryLoop c (\<lambda>attempt. w_call w h (calls + attempt - 1) node input) timeout (timeoutOutput node) 1 0 = (r'', k, t')"
    by (auto simp: executeGraphNativeHandler_def Let_def split: prod.splits sum.splits)
  then have "k \<le> attempt_limit c" by (rule retryLoop_attempts [THEN conjunct2]) (simp add: attempt_limit_def)
  with assms e show ?thesis by (simp add: callHandler_def)
qed

lemma runNode_calls:
  assumes "runNode w run (Some c) node input ue h False timeout clock calls = Some done_run"
  shows "snd (snd done_run) \<le> calls + attempt_limit c"
  using assms callHandler_calls [of w c _ node input timeout calls]
  by (cases done_run) (auto simp: runNode_def split: option.splits sum.splits)

lemma runPrepared_calls:
  assumes "envelopeAdapter envelope \<noteq> ''universal-subworkflow/v1''"
  shows "runPrepared w run s x current (Some c) node envelope = Continue x' \<Longrightarrow> x_calls x' \<le> x_calls x + attempt_limit c"
    and "runPrepared w run s x current (Some c) node envelope = Done (r, t, n) \<Longrightarrow> n \<le> x_calls x + attempt_limit c"
  using assms
  by (auto simp: runPrepared_def Let_def simp del: not_None_eq split: option.splits
      dest!: recordVisit_frame recordVisit_done(1) runNode_calls)

lemma visitNode_calls:
  assumes "compiledNodeOf s current = Some c" and "isV3AtomicAdapter (native_adapter c)"
  shows "visitNode w run s x current = Continue x' \<Longrightarrow> x_calls x' \<le> x_calls x + attempt_limit c"
    and "visitNode w run s x current = Done (r, t, n) \<Longrightarrow> n \<le> x_calls x + attempt_limit c"
proof -
  have ne: "envelopeAdapter envelope \<noteq> ''universal-subworkflow/v1''"
    if "(if isUniversalWorkflow (s_definition s) then universalEnvelopeFor (runtimeNodeFromCompiled current c) else Inr None) = Inr envelope" for envelope
    using that envelope_of_compiled [of current c envelope] atomic_not_subworkflow [OF assms(2)]
    by (auto simp: envelopeAdapter_def split: if_splits)
  obtain x1 where x1: "x_calls x1 = x_calls x" and v: "visitNode w run s x current =
      (case (if isUniversalWorkflow (s_definition s) then universalEnvelopeFor (runtimeNodeFromCompiled current c) else Inr None) of
         Inl e \<Rightarrow> Done (Inl e, x_clock x1, x_calls x1)
       | Inr envelope \<Rightarrow> runPrepared w run s x1 current (Some c) (runtimeNodeFromCompiled current c) envelope)"
    by (rule that [of "x\<lparr>x_node_passes := countNode (x_node_passes x) (str_field (runtimeNodeFromCompiled current c) ''id'')\<rparr>"])
      (simp, simp only: visitNode_def Let_def assms(1) option.case)
  show "x_calls x' \<le> x_calls x + attempt_limit c" if "visitNode w run s x current = Continue x'"
  proof -
    from that v obtain envelope where e: "(if isUniversalWorkflow (s_definition s) then universalEnvelopeFor (runtimeNodeFromCompiled current c) else Inr None) = Inr envelope"
      and r: "runPrepared w run s x1 current (Some c) (runtimeNodeFromCompiled current c) envelope = Continue x'"
      by (auto split: sum.splits)
    from runPrepared_calls(1) [OF ne [OF e] r] x1 show ?thesis by simp
  qed
  show "n \<le> x_calls x + attempt_limit c" if "visitNode w run s x current = Done (r, t, n)"
  proof (cases "if isUniversalWorkflow (s_definition s) then universalEnvelopeFor (runtimeNodeFromCompiled current c) else Inr None")
    case (Inl e)
    with that v x1 show ?thesis by simp
  next
    case (Inr envelope)
    with that v have r: "runPrepared w run s x1 current (Some c) (runtimeNodeFromCompiled current c) envelope = Done (r, t, n)" by simp
    from runPrepared_calls(2) [OF ne [OF Inr] r] x1 show ?thesis by simp
  qed
qed

lemma selectV3_continue:
  assumes "selectV3 w s p x current = Continue x'"
  obtains e where "e \<in> set (plan_edges p)" "\<not> js_ge (passes (x_edge_passes x) (edge_id e)) (num (pass_limit e))"
    "x_edge_passes x' = countPass (x_edge_passes x) (edge_id e)" "x_nodes x' = x_nodes x"
    "x_current x' = map_of (x_nodes x) (target_node_id e)" "x_calls x' = x_calls x"
proof -
  from assms obtain e where e: "selectCompiledV3Edge (w_collate w) p (js_get current ''id'') (x_last x) (x_memory x)
      (x_edge_passes x) (retryCountOf x (js_get current ''id'')) = Inr (Some e)"
    by (auto simp: selectV3_def Let_def finish_def split: sum.splits option.splits)
  then have "e \<in> set (v3Candidates p (js_get current ''id'') (x_last x) (x_edge_passes x))"
    using select_in unfolding selectCompiledV3Edge_def Let_def by blast
  then have "e \<in> set (plan_edges p)" "\<not> js_ge (passes (x_edge_passes x) (edge_id e)) (num (pass_limit e))"
    by (auto simp: v3Candidates_def)
  then show thesis by (rule that) (use assms e in \<open>auto simp: selectV3_def Let_def\<close>)
qed

lemma selectNext_V3:
  assumes "s_plan s = Some p" and "isUniversalWorkflow (s_definition s)"
  shows "selectNext w s x current = Continue x' \<Longrightarrow> selectV3 w s p x current = Continue x'"
    and "selectNext w s x current \<noteq> NoFuel"
    and "selectNext w s x current = Done (r, t, n) \<Longrightarrow> n = x_calls x"
  using assms by (auto simp: selectNext_def selectV3_def Let_def finish_def split: if_splits sum.splits option.splits)

definition v3_setup :: "run_setup \<Rightarrow> compiled_plan \<Rightarrow> bool" where
  "v3_setup s p \<longleftrightarrow>
     s_plan s = Some p \<and> isUniversalWorkflow (s_definition s) \<and> v3_plan p \<and>
     (\<forall>(k, n) \<in> set (plan_nodes p). attempt_limit n \<le> 10) \<and>
     set (map edge_id (plan_edges p)) \<inter> set object_proto = {}"

definition v3_inv :: "run_setup \<Rightarrow> exec_state \<Rightarrow> bool" where
  "v3_inv s x \<longleftrightarrow>
     (\<exists>p. v3_setup s p) \<and> counters_ok (x_edge_passes x) \<and>
     (\<forall>k n. map_of (x_nodes x) k = Some n \<longrightarrow> str_field n ''id'' = k) \<and>
     (\<forall>c. x_current x = Some c \<longrightarrow> compiledNodeOf s c \<noteq> None)"

definition v3_measure :: "run_setup \<Rightarrow> exec_state \<Rightarrow> nat" where
  "v3_measure s x = budget_left (the (s_plan s)) (x_edge_passes x)"

lemma compiledNodeOf_checked:
  assumes "v3_setup s p" and "compiledNodeOf s current = Some c"
  shows "isV3AtomicAdapter (native_adapter c) \<and> attempt_limit c \<le> 10"
  using assms by (auto simp: v3_setup_def compiledNodeOf_def v3_plan_def v3_node_def dest!: map_of_SomeD)

lemma v3_edge_target:
  assumes "v3_setup s p" and "e \<in> set (plan_edges p)" and "str_field n ''id'' = target_node_id e"
  shows "compiledNodeOf s n \<noteq> None"
  using assms by (auto simp: v3_setup_def v3_plan_def list_all_iff v3_edge_def compiledNodeOf_def split: option.splits)

text \<open>A continued selection keeps the invariant and uses up a pass.\<close>

lemma v3_select_step:
  assumes "v3_setup s p" and "counters_ok (x_edge_passes x)"
    and "\<forall>k n. map_of (x_nodes x) k = Some n \<longrightarrow> str_field n ''id'' = k"
    and "selectNext w s x current = Continue x'"
  shows "v3_inv s x' \<and> budget_left p (x_edge_passes x') < budget_left p (x_edge_passes x) \<and> x_calls x' = x_calls x"
proof -
  have sel: "selectV3 w s p x current = Continue x'"
    using selectNext_V3(1) assms(1,4) by (auto simp: v3_setup_def)
  then obtain e where e: "e \<in> set (plan_edges p)" "\<not> js_ge (passes (x_edge_passes x) (edge_id e)) (num (pass_limit e))"
    "x_edge_passes x' = countPass (x_edge_passes x) (edge_id e)" "x_nodes x' = x_nodes x"
    "x_current x' = map_of (x_nodes x) (target_node_id e)" "x_calls x' = x_calls x"
    by (rule selectV3_continue)
  have "edge_id e \<notin> set object_proto" using assms(1) e(1) by (auto simp: v3_setup_def)
  with assms e show ?thesis
    using counters_ok_countPass budget_left_countPass v3_edge_target [OF assms(1) e(1)]
    by (auto simp: v3_inv_def)
qed

lemma loopStep_cases:
  assumes "x_current x = Some current"
  obtains (stop) st where "loopStep w run s x = finish x st"
  | (skip) y where "loopStep w run s x = selectNext w s y current" "x_nodes y = x_nodes x"
      "x_edge_passes y = x_edge_passes x" "x_calls y = x_calls x"
  | (visit) y where "visitNode w run s x current = Continue y" "loopStep w run s x = selectNext w s y (option_or (x_current y) current)"
  | (ended) "loopStep w run s x = visitNode w run s x current" "\<forall>y. visitNode w run s x current \<noteq> Continue y"
proof (cases "timedOut s x")
  case True
  with assms show thesis by (intro stop) (simp add: loopStep_def)
next
  case False
  show thesis
  proof (cases "not_disabled current")
    case False
    with \<open>\<not> timedOut s x\<close> assms show thesis
      by (intro skip [of "x\<lparr>x_last := disabledOutput\<rparr>"]) (simp_all add: loopStep_def)
  next
    case True
    with \<open>\<not> timedOut s x\<close> assms show thesis
      using visit ended by (cases "visitNode w run s x current") (simp_all add: loopStep_def)
  qed
qed

lemma v3_loop_step:
  assumes inv: "v3_inv s x" and step: "loopStep w run s x = Continue x'"
  shows "v3_inv s x' \<and> v3_measure s x' < v3_measure s x \<and> x_calls x' \<le> x_calls x + 10"
proof -
  obtain p where p: "v3_setup s p" using inv by (auto simp: v3_inv_def)
  then have plan: "the (s_plan s) = p" by (simp add: v3_setup_def)
  obtain current where cur: "x_current x = Some current"
    using step by (cases "x_current x") (auto simp: loopStep_def finish_def)
  obtain c where c: "compiledNodeOf s current = Some c" using inv cur by (auto simp: v3_inv_def)
  note chk = compiledNodeOf_checked [OF p c]
  have base: "counters_ok (x_edge_passes x)" "\<forall>k n. map_of (x_nodes x) k = Some n \<longrightarrow> str_field n ''id'' = k"
    using inv by (auto simp: v3_inv_def)
  show ?thesis
  proof (cases rule: loopStep_cases [OF cur, of w run s, case_names stop skip visit ended])
    case (skip y)
    with step base v3_select_step [OF p, of y w current x'] show ?thesis
      by (simp add: v3_measure_def plan)
  next
    case (visit y)
    note f = visitNode_frame [OF visit(1) c]
    have "selectNext w s y (option_or (x_current y) current) = Continue x'" using visit(2) step by simp
    with f base v3_select_step [OF p, of y w "option_or (x_current y) current" x']
    show ?thesis using visitNode_calls(1) [of s current c w run x y] c chk visit(1)
      by (fastforce simp: v3_measure_def plan)
  next
    case ended
    with step show ?thesis by metis
  qed (use step in \<open>auto simp: finish_def\<close>)
qed

lemma v3_loop_done:
  assumes inv: "v3_inv s x"
  shows "loopStep w run s x \<noteq> NoFuel" and "loopStep w run s x = Done (r, t, n) \<Longrightarrow> n \<le> x_calls x + 10"
proof -
  obtain p where p: "v3_setup s p" using inv by (auto simp: v3_inv_def)
  then have u: "s_plan s = Some p" "isUniversalWorkflow (s_definition s)" by (auto simp: v3_setup_def)
  have "loopStep w run s x \<noteq> NoFuel \<and> (loopStep w run s x = Done (r, t, n) \<longrightarrow> n \<le> x_calls x + 10)"
  proof (cases "x_current x")
    case None
    then show ?thesis by (auto simp: loopStep_def finish_def)
  next
    case (Some current)
    obtain c where c: "compiledNodeOf s current = Some c" using inv Some by (auto simp: v3_inv_def)
    note chk = compiledNodeOf_checked [OF p c]
    show ?thesis
    proof (cases rule: loopStep_cases [OF Some, of w run s, case_names stop skip visit ended])
      case (skip y)
      with selectNext_V3(2,3) [OF u, of w y current] show ?thesis by auto
    next
      case (visit y)
      have "x_calls y \<le> x_calls x + 10" using visitNode_calls(1) [OF c _ visit(1)] chk by linarith
      with visit(2) selectNext_V3(2,3) [OF u, of w y "option_or (x_current y) current"] show ?thesis by auto
    next
      case ended
      have "n \<le> x_calls x + 10" if "visitNode w run s x current = Done (r, t, n)"
        using visitNode_calls(2) [OF c _ that] chk by linarith
      with ended(1) show ?thesis using visitNode_fuel [OF c] chk by auto
    qed (auto simp: finish_def)
  qed
  then show "loopStep w run s x \<noteq> NoFuel" "loopStep w run s x = Done (r, t, n) \<Longrightarrow> n \<le> x_calls x + 10" by auto
qed

interpretation v3_run: bounded_loop "loopStep w run s" "v3_inv s" "v3_measure s" for w run s
  by unfold_locales (use v3_loop_step v3_loop_done(1) in blast)+


section \<open>From a compilation to the loop\<close>

lemma compile_attempts:
  assumes "compileWorkflowSnapshot sha opts d = Inr r" and "compile_plan r = Some p"
    and "opt_max_attempts opts = Some 10" and "(k, n) \<in> set (plan_nodes p)"
  shows "attempt_limit n \<le> 10"
proof -
  have "within_limits opts n"
    using compiled_valid [OF assms(1,2)] assms(4) by (auto simp: valid_plan_def)
  then have "max_attempts (node_retry n) \<le> 10" using assms(3) by (simp add: within_limits_def)
  then show ?thesis by (simp add: attempt_limit_def nat_le_iff ceiling_le_iff)
qed

lemma v3_universal: "isGraphAuthoritativeV3 d \<Longrightarrow> isUniversalWorkflow d"
  by (simp add: isGraphAuthoritativeV3_def isUniversalWorkflow_def)

lemma v3_initial:
  assumes "isGraphAuthoritativeV3 d"
    and c: "compileWorkflowSnapshot (w_sha w) (v3CompileOptions w timeoutMs clock) d = Inr r" "compile_plan r = Some p"
    and "plan_format p = ''universal_v3''" and "set (map edge_id (plan_edges p)) \<inter> set object_proto = {}"
  shows "v3_inv (runSetup d baseInput timeoutMs (Some p) clock) (initialState d baseInput (Some p) clock calls)"
proof -
  have v3: "v3_plan p" by (rule compiled_v3_closed [OF c assms(4)])
  have "valid_plan (v3CompileOptions w timeoutMs clock) p" by (rule compiled_valid [OF c])
  then have entry: "map_of (plan_nodes p) (entry_node_id p) \<noteq> None"
    by (auto simp: valid_plan_def enabled_at_def split: option.splits)
  have "attempt_limit n \<le> 10" if "(k, n) \<in> set (plan_nodes p)" for k n
    by (rule compile_attempts [OF c _ that]) (simp add: v3CompileOptions_def)
  then have "v3_setup (runSetup d baseInput timeoutMs (Some p) clock) p"
    using v3 assms(5) v3_universal [OF assms(1)] by (auto simp: v3_setup_def runSetup_def)
  then show ?thesis
    using entry nodesById_id counters_ok_empty
    by (auto simp: v3_inv_def initialState_def compiledNodeOf_def runSetup_def)
qed

lemma run_loop_of_graph:
  assumes "isGraphAuthoritativeV3 d"
    and "compileWorkflowSnapshot (w_sha w) (v3CompileOptions w timeoutMs clock) d = Inr r" "compile_plan r = Some p"
  shows "executeWorkflowGraph (Suc depth) fuel w timeoutMs d baseInput clock calls =
    run_loop fuel (loopStep w (executeWorkflowGraph depth fuel w timeoutMs) (runSetup d baseInput timeoutMs (Some p) clock))
      (initialState d baseInput (Some p) clock calls)"
  using assms by (simp add: compileForRun_def)

lemma v3_returns:
  assumes "isGraphAuthoritativeV3 d"
    and "compileWorkflowSnapshot (w_sha w) (v3CompileOptions w timeoutMs clock) d = Inr r" "compile_plan r = Some p"
    and "plan_format p = ''universal_v3''" and "set (map edge_id (plan_edges p)) \<inter> set object_proto = {}"
    and "pass_budget p < fuel"
  shows "\<exists>out. executeWorkflowGraph (Suc 0) fuel w timeoutMs d baseInput clock calls = Some out"
  unfolding run_loop_of_graph [OF assms(1-3)]
proof (rule v3_run.loop_returns [OF v3_initial [OF assms(1-5)]])
  show "v3_measure (runSetup d baseInput timeoutMs (Some p) clock) (initialState d baseInput (Some p) clock calls) < fuel"
    using assms(5,6) by (simp add: v3_measure_def runSetup_def initialState_def budget_left_empty)
qed

section \<open>Properties\<close>

text \<open>
  C1. A universal V3 run always ends. When the definition compiles to a V3 plan and no edge id is a
  name of \<^verbatim>\<open>Object.prototype\<close>, one loop iteration more than the total of the pass limits of all edges
  suffices, whatever the handlers answer, and no nested workflow is started.
\<close>

theorem v3_run_terminates:
  assumes "isGraphAuthoritativeV3 d"
    and "compileWorkflowSnapshot (w_sha w) (v3CompileOptions w timeoutMs clock) d = Inr r" "compile_plan r = Some p"
    and "plan_format p = ''universal_v3''" and "set (map edge_id (plan_edges p)) \<inter> set object_proto = {}"
    and "pass_budget p < fuel"
  shows "\<exists>out. executeWorkflowGraph (Suc 0) fuel w timeoutMs d baseInput clock calls = Some out"
  using assms by (rule v3_returns)

text \<open>
  C27. The handler calls of a universal V3 run are bounded by the plan: at most ten for every edge
  pass the plan allows, and ten for the entry node.
\<close>

theorem v3_run_calls_bounded:
  assumes "isGraphAuthoritativeV3 d"
    and "compileWorkflowSnapshot (w_sha w) (v3CompileOptions w timeoutMs clock) d = Inr r" "compile_plan r = Some p"
    and "plan_format p = ''universal_v3''" and "set (map edge_id (plan_edges p)) \<inter> set object_proto = {}"
    and "executeWorkflowGraph (Suc depth) fuel w timeoutMs d baseInput clock calls = Some (out, t, n)"
  shows "n \<le> calls + 10 * (pass_budget p + 1)"
proof -
  let ?s = "runSetup d baseInput timeoutMs (Some p) clock" and ?x = "initialState d baseInput (Some p) clock calls"
  have "n \<le> x_calls ?x + 10 * (v3_measure ?s ?x + 1)"
  proof (rule v3_run.loop_growth)
    show "v3_inv ?s ?x" by (rule v3_initial [OF assms(1-5)])
    show "run_loop fuel (loopStep w (executeWorkflowGraph depth fuel w timeoutMs) ?s) ?x = Some (out, t, n)"
      using assms(6) unfolding run_loop_of_graph [OF assms(1-3)] .
  qed (use v3_loop_step v3_loop_done(2) in blast)+
  then show ?thesis
    using assms(5) by (simp add: v3_measure_def runSetup_def initialState_def budget_left_empty)
qed

text \<open>
  C29. A V3 definition that does not compile is never run: the result is \<^verbatim>\<open>BLOCKED\<close> with the error
  code of a failed compilation, memory and history of the caller, no trace and no handler call.
\<close>

theorem v3_invalid_blocked:
  assumes "isGraphAuthoritativeV3 d"
    and "compileWorkflowSnapshot (w_sha w) (v3CompileOptions w timeoutMs clock) d = Inr r"
    and "\<not> compile_ok r"
  shows "\<exists>out. executeWorkflowGraph (Suc depth) fuel w timeoutMs d baseInput clock calls = Some (Inr out, clock, calls) \<and>
    r_status out = ''BLOCKED'' \<and> r_traces out = [] \<and>
    r_memory out = own_props (js_or (js_get baseInput ''sharedMemory'') (JObj [])) \<and>
    js_path (r_last out) [''decision'', ''graph_runtime_error_code''] = JStr ''V3_COMPILE_FAILED''"
proof -
  have "compile_plan r = None" using verdict [of "w_sha w" "v3CompileOptions w timeoutMs clock" d] assms(2,3) by auto
  then show ?thesis
    using assms(1,2) by (simp add: compileForRun_def compileFailure_def Let_def obj_get_Cons)
qed


section \<open>A sample run\<close>

definition sample_contract :: "jstr \<Rightarrow> jval" where
  "sample_contract adapter =
     JObj [(''contract_version'', JStr UNIVERSAL_AGENT_CONTRACT_VERSION), (''key'', JStr ''agent''),
       (''implementation'', JObj [(''runtime_key'', JStr ''universal-agent-runtime/v1''), (''native_adapter'', JStr adapter), (''editable_strategy'', JStr ''none'')]),
       (''instructions'', JObj [(''mode'', JStr ''none'')]), (''capabilities'', JArr [JStr ''qa'']),
       (''ports'', JObj [(''control_inputs'', JArr [JStr ''in'']), (''control_outputs'', JArr [JStr ''out''])])]"

definition sample_run_node :: "jstr \<Rightarrow> jstr \<Rightarrow> jobj \<Rightarrow> jval" where
  "sample_run_node nid adapter extra =
     JObj ([(''id'', JStr nid), (''name'', JStr nid), (''type'', JStr ''Agent''), (''agent_key'', JStr ''agent''),
            (''universal_agent'', JObj [(''version_id'', JStr ''v''), (''version'', JStr ''1''), (''contract'', sample_contract adapter)])] @ extra)"

definition sample_definition :: jval where
  "sample_definition =
     JObj [(''workflow'', JObj [(''id'', JStr ''wf''), (''version'', num 1), (''workflow_format'', JStr ''universal_v3''),
         (''decision_policy_json'', JObj [(''runtime_mode'', JStr ''graph_native''), (''source_of_truth'', JStr ''persisted_graph''),
            (''legacy_step_runner_allowed'', JBool False), (''entry_node_id'', JStr ''a'')])]),
       (''nodes'', JArr [sample_run_node ''a'' ''qa-context-resolver/v2'' [],
                         sample_run_node ''b'' ''qa-execution-reporter/v2'' [(''terminal_ports'', JArr [JStr ''out''])]]),
       (''edges'', JArr [JObj [(''id'', JStr ''e''), (''source'', JStr ''a''), (''source_handle'', JStr ''out''),
                (''target'', JStr ''b''), (''target_handle'', JStr ''in''), (''max_passes'', num 2)]])]"

definition sample_world :: world where
  "sample_world =
     \<lparr>w_handlers = [],
      w_call = (\<lambda>h n node input. \<lparr>settles = Some 5, outcome = Inr (JObj [(''status'', JStr ''SUCCESS''), (''output_port'', JStr ''out'')])\<rparr>),
      w_sha = (\<lambda>s. nat_str (length s)), w_collate = (\<lambda>a b. 0), w_stamp = (\<lambda>t. ''t'')\<rparr>"

lemma sample_definition_compiles:
  "isGraphAuthoritativeV3 sample_definition"
  "compiles (w_sha sample_world) (v3CompileOptions sample_world None 0) sample_definition"
  "wf_format (workflowHead (v3CompileOptions sample_world None 0) sample_definition) = ''universal_v3''"
  "map edge_id (fst (snd (compile_parts (w_sha sample_world) (v3CompileOptions sample_world None 0) sample_definition))) = [''e'']"
  "sum_list (map pass_max (fst (snd (compile_parts (w_sha sample_world) (v3CompileOptions sample_world None 0) sample_definition)))) = 2"
  "set [''e''] \<inter> set object_proto = {}"
  by code_simp+

lemma sample_definition_plan:
  obtains r p where
    "compileWorkflowSnapshot (w_sha sample_world) (v3CompileOptions sample_world None 0) sample_definition = Inr r"
    "compile_plan r = Some p" "plan_format p = ''universal_v3''"
    "set (map edge_id (plan_edges p)) \<inter> set object_proto = {}" "pass_budget p = 2"
proof -
  obtain r p where "compileWorkflowSnapshot (w_sha sample_world) (v3CompileOptions sample_world None 0) sample_definition = Inr r"
    "compile_plan r = Some p" "plan_format p = ''universal_v3''"
    "plan_edges p = fst (snd (compile_parts (w_sha sample_world) (v3CompileOptions sample_world None 0) sample_definition))"
    using compiles_plan [OF sample_definition_compiles(2)] sample_definition_compiles(3) by metis
  then show thesis
    using that [of r p] sample_definition_compiles(4-6) by (simp add: pass_budget_def del: set_map)
qed

theorem v3_run_terminates_witness:
  "\<exists>out. executeWorkflowGraph (Suc 0) 3 sample_world None sample_definition (JObj []) 0 0 = Some out"
  by (rule sample_definition_plan) (rule v3_run_terminates [OF sample_definition_compiles(1)], assumption+, simp)

theorem v3_run_calls_bounded_witness:
  "\<exists>out t n. executeWorkflowGraph (Suc 0) 3 sample_world None sample_definition (JObj []) 0 0 = Some (out, t, n) \<and> n \<le> 30"
proof -
  obtain r p where c: "compileWorkflowSnapshot (w_sha sample_world) (v3CompileOptions sample_world None 0) sample_definition = Inr r"
    "compile_plan r = Some p" "plan_format p = ''universal_v3''"
    "set (map edge_id (plan_edges p)) \<inter> set object_proto = {}" and b: "pass_budget p = 2"
    by (rule sample_definition_plan)
  have "pass_budget p < 3" using b by simp
  from v3_returns [OF sample_definition_compiles(1) c this, of "JObj []" 0] obtain out t n where
    "executeWorkflowGraph (Suc 0) 3 sample_world None sample_definition (JObj []) 0 0 = Some (out, t, n)" by auto
  with v3_run_calls_bounded [OF sample_definition_compiles(1) c this] b show ?thesis by force
qed

definition broken_definition :: jval where
  "broken_definition = JObj [(''workflow'', JObj [(''workflow_format'', JStr ''universal_v3'')]), (''nodes'', JArr []), (''edges'', JArr [])]"

theorem v3_invalid_blocked_witness:
  "\<exists>out. executeWorkflowGraph 1 5 sample_world None broken_definition (JObj []) 0 0 = Some (Inr out, 0, 0) \<and> r_status out = ''BLOCKED''"
proof -
  have "case compileWorkflowSnapshot (w_sha sample_world) (v3CompileOptions sample_world None 0) broken_definition of
      Inl e \<Rightarrow> False | Inr r \<Rightarrow> \<not> compile_ok r" by code_simp
  then obtain r where "compileWorkflowSnapshot (w_sha sample_world) (v3CompileOptions sample_world None 0) broken_definition = Inr r"
    "\<not> compile_ok r" by (auto split: sum.splits)
  moreover have "isGraphAuthoritativeV3 broken_definition" by code_simp
  ultimately show ?thesis using v3_invalid_blocked [of broken_definition sample_world None 0 r 0 5 "JObj []" 0] by auto
qed

end
