(* ===== verification/JsonText.thy ===== *)
theory JsonText
  imports JsLaws
begin

text \<open>
  \<^verbatim>\<open>JSON.parse\<close> on the modelled strings: a recursive descent parser of the grammar of ECMA-404.
  A parser returns the value and the rest of the text, \<open>None\<close> is \<^verbatim>\<open>SyntaxError\<close>. An escape
  \<^verbatim>\<open>\uXXXX\<close> above \<^verbatim>\<open>00FF\<close> denotes a code unit outside the model and is refused.

  The fuel of \<open>json_parse\<close> is twice the length of the text plus one; \<open>json_parse_fuel\<close> shows that more
  fuel never changes the outcome.
\<close>

definition skip_ws :: "jstr \<Rightarrow> jstr" where
  "skip_ws s = dropWhile (\<lambda>c. code_unit c \<in> {9, 10, 13, 32}) s"

lemma skip_ws_length: "length (skip_ws s) \<le> length s"
  by (simp add: skip_ws_def length_dropWhile_le)

section \<open>Strings\<close>

definition hex4 :: "jstr \<Rightarrow> nat option" where
  "hex4 s = (if length s < 4 then None
     else foldl (\<lambda>acc c. case (acc, hex_val c) of (Some n, Some d) \<Rightarrow> Some (16 * n + d) | _ \<Rightarrow> None) (Some 0) (take 4 s))"

text \<open>The character an escape stands for and the rest of the text, after the backslash.\<close>

definition parse_escape :: "jstr \<Rightarrow> (char \<times> jstr) option" where
  "parse_escape s =
     (case s of
        [] \<Rightarrow> None
      | e # r \<Rightarrow>
          if e \<in> {CHR 34, CHR 92, CHR ''/''} then Some (e, r)
          else if e = CHR ''b'' then Some (CHR 8, r)
          else if e = CHR ''f'' then Some (CHR 12, r)
          else if e = CHR ''n'' then Some (CHR 10, r)
          else if e = CHR ''r'' then Some (CHR 13, r)
          else if e = CHR ''t'' then Some (CHR 9, r)
          else if e = CHR ''u'' then
            (case hex4 r of
               Some n \<Rightarrow> if n < 256 then Some (char_of n, drop 4 r) else None
             | None \<Rightarrow> None)
          else None)"

lemma parse_escape_length: "parse_escape s = Some (c, r) \<Longrightarrow> length r < length s"
  by (auto simp: parse_escape_def split: list.splits if_splits option.splits)

text \<open>The text of a string literal after the opening quote.\<close>

function parse_chars :: "jstr \<Rightarrow> (jstr \<times> jstr) option" where
  "parse_chars s =
     (case s of
        [] \<Rightarrow> None
      | c # r \<Rightarrow>
          if c = CHR 34 then Some ([], r)
          else if c = CHR 92 then
            (case parse_escape r of
               None \<Rightarrow> None
             | Some (d, r') \<Rightarrow> map_option (\<lambda>(t, u). (d # t, u)) (parse_chars r'))
          else if code_unit c < 32 then None
          else map_option (\<lambda>(t, u). (c # t, u)) (parse_chars r))"
  by pat_completeness auto
termination
  by (relation "measure length") (auto dest: parse_escape_length)

declare parse_chars.simps [simp del]

lemma parse_chars_length: "parse_chars s = Some (t, r) \<Longrightarrow> length r < length s"
proof (induction s arbitrary: t r rule: parse_chars.induct)
  case (1 s)
  show ?case
  proof (cases s)
    case Nil
    with "1.prems" show ?thesis by (simp add: parse_chars.simps)
  next
    case (Cons c u)
    have eq: "parse_chars s = (if c = CHR 34 then Some ([], u)
        else if c = CHR 92 then
          (case parse_escape u of None \<Rightarrow> None | Some (d, r') \<Rightarrow> map_option (\<lambda>(t, v). (d # t, v)) (parse_chars r'))
        else if code_unit c < 32 then None else map_option (\<lambda>(t, v). (c # t, v)) (parse_chars u))"
      using Cons by (subst parse_chars.simps) simp
    show ?thesis using "1.prems" "1.IH" [OF Cons] unfolding eq
      by (fastforce simp: Cons split: if_splits option.splits dest: parse_escape_length)
  qed
qed

definition parse_string :: "jstr \<Rightarrow> (jstr \<times> jstr) option" where
  "parse_string s = (case s of [] \<Rightarrow> None | c # r \<Rightarrow> if c = CHR 34 then parse_chars r else None)"

lemma parse_string_length: "parse_string s = Some (t, r) \<Longrightarrow> length r < length s"
  by (auto simp: parse_string_def split: list.splits if_splits dest: parse_chars_length)

section \<open>Numbers\<close>

definition parse_digits :: "jstr \<Rightarrow> (jstr \<times> jstr) option" where
  "parse_digits s = (if takeWhile is_digit s = [] then None else Some (takeWhile is_digit s, dropWhile is_digit s))"

definition parse_exponent :: "rat \<Rightarrow> jstr \<Rightarrow> (rat \<times> jstr) option" where
  "parse_exponent m s =
     (if s \<noteq> [] \<and> hd s \<in> {CHR ''e'', CHR ''E''} then
        (let signed = (tl s \<noteq> [] \<and> hd (tl s) \<in> {CHR ''+'', CHR ''-''});
             neg = (signed \<and> hd (tl s) = CHR ''-'')
         in case parse_digits (if signed then tl (tl s) else tl s) of
              None \<Rightarrow> None
            | Some (ds, r) \<Rightarrow> Some (if neg then m / 10 ^ digits_val ds else m * 10 ^ digits_val ds, r))
      else Some (m, s))"

definition parse_unsigned :: "jstr \<Rightarrow> (rat \<times> jstr) option" where
  "parse_unsigned s =
     (case (if s \<noteq> [] \<and> hd s = CHR ''0'' then Some (''0'', tl s) else parse_digits s) of
        None \<Rightarrow> None
      | Some (ip, r) \<Rightarrow>
          (if r \<noteq> [] \<and> hd r = CHR ''.'' then
             (case parse_digits (tl r) of
                None \<Rightarrow> None
              | Some (fp, r') \<Rightarrow> parse_exponent (of_nat (digits_val (ip @ fp)) / 10 ^ length fp) r')
           else parse_exponent (of_nat (digits_val ip)) r))"

definition parse_number :: "jstr \<Rightarrow> (jval \<times> jstr) option" where
  "parse_number s =
     (if s \<noteq> [] \<and> hd s = CHR ''-'' then map_option (\<lambda>(q, r). (num (- q), r)) (parse_unsigned (tl s))
      else map_option (\<lambda>(q, r). (num q, r)) (parse_unsigned s))"

lemma parse_number_length: "parse_number s = Some (v, r) \<Longrightarrow> length r < length s"
proof -
  have d: "length r < length s" if "parse_digits s = Some (ds, r)" for s ds r
  proof -
    have "takeWhile is_digit s \<noteq> []" "r = dropWhile is_digit s" using that by (auto simp: parse_digits_def split: if_splits)
    then show ?thesis by (metis append_Nil length_append length_greater_0_conv less_add_same_cancel2 takeWhile_dropWhile_id)
  qed
  have t: "s \<noteq> [] \<Longrightarrow> length (tl s) < length s" for s :: jstr by (cases s) auto
  have e: "length r \<le> length s" if "parse_exponent m s = Some (q, r)" for m s q r
    using that by (auto simp: parse_exponent_def Let_def dest!: d split: if_splits option.splits)
  have u: "length r < length s" if "parse_unsigned s = Some (q, r)" for s q r
    using that unfolding parse_unsigned_def
    by (cases s) (auto dest!: d e split: if_splits option.splits)
  assume "parse_number s = Some (v, r)"
  then show ?thesis by (cases s) (auto simp: parse_number_def dest!: u split: if_splits)
qed

section \<open>Values\<close>

definition parse_scalar :: "jstr \<Rightarrow> (jval \<times> jstr) option" where
  "parse_scalar s =
     (if s \<noteq> [] \<and> hd s = CHR 34 then map_option (\<lambda>(t, u). (JStr t, u)) (parse_chars (tl s))
      else if starts_with s ''null'' then Some (JNull, drop 4 s)
      else if starts_with s ''true'' then Some (JBool True, drop 4 s)
      else if starts_with s ''false'' then Some (JBool False, drop 5 s)
      else parse_number s)"

text \<open>\<open>expect c s\<close>: the rest of the text after white space and the character \<open>c\<close>.\<close>

definition expect :: "char \<Rightarrow> jstr \<Rightarrow> jstr option" where
  "expect c s = (let u = skip_ws s in if u \<noteq> [] \<and> hd u = c then Some (tl u) else None)"

fun parse_value :: "nat \<Rightarrow> jstr \<Rightarrow> (jval \<times> jstr) option"
  and parse_elements :: "nat \<Rightarrow> jval list \<Rightarrow> jstr \<Rightarrow> (jval \<times> jstr) option"
  and parse_members :: "nat \<Rightarrow> jobj \<Rightarrow> jstr \<Rightarrow> (jval \<times> jstr) option" where
  "parse_value 0 s = None"
| "parse_value (Suc n) s =
     (case expect (CHR ''{'') s of
        Some r \<Rightarrow> (case expect (CHR ''}'') r of Some u \<Rightarrow> Some (JObj [], u) | None \<Rightarrow> parse_members n [] r)
      | None \<Rightarrow>
          (case expect (CHR ''['') s of
             Some r \<Rightarrow> (case expect (CHR '']'') r of Some u \<Rightarrow> Some (JArr [], u) | None \<Rightarrow> parse_elements n [] r)
           | None \<Rightarrow> parse_scalar (skip_ws s)))"
| "parse_elements 0 acc s = None"
| "parse_elements (Suc n) acc s =
     (case parse_value n s of
        None \<Rightarrow> None
      | Some (v, r) \<Rightarrow>
          (case expect (CHR '','') r of
             Some u \<Rightarrow> parse_elements n (acc @ [v]) u
           | None \<Rightarrow> map_option (\<lambda>u. (JArr (acc @ [v]), u)) (expect (CHR '']'') r)))"
| "parse_members 0 acc s = None"
| "parse_members (Suc n) acc s =
     (case parse_string (skip_ws s) of
        None \<Rightarrow> None
      | Some (k, r) \<Rightarrow>
          (case expect (CHR '':'') r of
             None \<Rightarrow> None
           | Some u \<Rightarrow>
               (case parse_value n u of
                  None \<Rightarrow> None
                | Some (v, r') \<Rightarrow>
                    (case expect (CHR '','') r' of
                       Some u' \<Rightarrow> parse_members n (obj_put acc k v) u'
                     | None \<Rightarrow> map_option (\<lambda>u'. (JObj (obj_put acc k v), u')) (expect (CHR ''}'') r')))))"

definition json_parse :: "jstr \<Rightarrow> jval option" where
  "json_parse s =
     (case parse_value (Suc (2 * length s)) s of
        None \<Rightarrow> None
      | Some (v, r) \<Rightarrow> if skip_ws r = [] then Some v else None)"

section \<open>The fuel suffices\<close>

lemma expect_length: "expect c s = Some r \<Longrightarrow> length r < length s"
  using skip_ws_length [of s] by (cases "skip_ws s") (auto simp: expect_def split: if_splits)

lemma parse_scalar_length: "parse_scalar s = Some (v, r) \<Longrightarrow> length r < length s"
  by (cases s) (auto simp: parse_scalar_def dest: parse_chars_length parse_number_length split: if_splits)

lemma parse_length:
  "parse_value n s = Some (v, r) \<Longrightarrow> length r < length s"
  "parse_elements n acc s = Some (v, r) \<Longrightarrow> length r < length s"
  "parse_members n m s = Some (v, r) \<Longrightarrow> length r < length s"
proof (induction n s and n acc s and n m s arbitrary: v r and v r and v r rule: parse_value_parse_elements_parse_members.induct)
  case (2 n s)
  have "length r < length s" if "parse_scalar (skip_ws s) = Some (v, r)"
    using parse_scalar_length [OF that] skip_ws_length [of s] by simp
  then show ?case using "2.prems" "2.IH"
    by (fastforce split: option.splits dest!: expect_length)
next
  case (4 n acc s)
  show ?case using "4.prems" "4.IH"
    by (fastforce split: option.splits dest!: expect_length)
next
  case (6 n m s)
  have "length r < length s" if "parse_string (skip_ws s) = Some (k, r)" for k r
    using parse_string_length [OF that] skip_ws_length [of s] by simp
  then show ?case using "6.prems" "6.IH"
    by (fastforce split: option.splits dest!: expect_length)
qed simp_all

lemma parse_fuel:
  "2 * length s < n \<Longrightarrow> parse_value n s = parse_value (n + d) s"
  "Suc (2 * length s) < n \<Longrightarrow> parse_elements n acc s = parse_elements (n + d) acc s"
  "Suc (2 * length s) < n \<Longrightarrow> parse_members n m s = parse_members (n + d) m s"
proof (induction n s and n acc s and n m s rule: parse_value_parse_elements_parse_members.induct)
  case (2 n s)
  have "parse_members n [] r = parse_members (n + d) [] r" if "expect (CHR ''{'') s = Some r" "expect (CHR ''}'') r = None" for r
    using "2.IH"(2) [OF that] expect_length [OF that(1)] "2.prems" by simp
  moreover have "parse_elements n [] r = parse_elements (n + d) [] r"
    if "expect (CHR ''{'') s = None" "expect (CHR ''['') s = Some r" "expect (CHR '']'') r = None" for r
    using "2.IH"(1) [OF that] expect_length [OF that(2)] "2.prems" by simp
  ultimately show ?case by (auto split: option.splits)
next
  case (4 n acc s)
  have v: "parse_value n s = parse_value (n + d) s" using "4.IH"(1) "4.prems" by simp
  have "parse_elements n (acc @ [a]) u = parse_elements (n + d) (acc @ [a]) u"
    if "parse_value n s = Some (a, r)" "expect (CHR '','') r = Some u" for a r u
    using "4.IH"(2) [OF that(1) refl that(2)] parse_length(1) [OF that(1)] expect_length [OF that(2)] "4.prems" by simp
  then show ?case using v by (auto split: option.splits)
next
  case (6 n m s)
  have l: "length r < length s" if "parse_string (skip_ws s) = Some (k, r)" for k r
    using parse_string_length [OF that] skip_ws_length [of s] by simp
  have v: "parse_value n u = parse_value (n + d) u"
    if "parse_string (skip_ws s) = Some (k, r)" "expect (CHR '':'') r = Some u" for k r u
    using "6.IH"(1) [OF that(1) refl that(2)] l [OF that(1)] expect_length [OF that(2)] "6.prems" by simp
  have "parse_members n (obj_put m k a) w = parse_members (n + d) (obj_put m k a) w"
    if "parse_string (skip_ws s) = Some (k, r)" "expect (CHR '':'') r = Some u"
      "parse_value n u = Some (a, r')" "expect (CHR '','') r' = Some w" for k r u a r' w
    using "6.IH"(2) [OF that(1) refl that(2,3) refl that(4)] l [OF that(1)] expect_length [OF that(2)]
      parse_length(1) [OF that(3)] expect_length [OF that(4)] "6.prems" by simp
  with v show ?case by (auto split: option.splits)
qed simp_all

lemma json_parse_fuel:
  assumes "2 * length s < n"
  shows "json_parse s = (case parse_value n s of None \<Rightarrow> None | Some (v, r) \<Rightarrow> if skip_ws r = [] then Some v else None)"
proof -
  have "parse_value (Suc (2 * length s)) s = parse_value (Suc (2 * length s) + (n - Suc (2 * length s))) s"
    by (rule parse_fuel) simp
  moreover have "Suc (2 * length s) + (n - Suc (2 * length s)) = n" using assms by simp
  ultimately show ?thesis by (simp add: json_parse_def)
qed

section \<open>Reading back a quoted string\<close>

text \<open>A character that \<^verbatim>\<open>JSON.stringify\<close> writes as it is.\<close>

definition plain_char :: "char \<Rightarrow> bool" where
  "plain_char c \<longleftrightarrow> code_unit c \<noteq> 34 \<and> code_unit c \<noteq> 92 \<and> 32 \<le> code_unit c"

lemma json_escape_plain: "plain_char c \<Longrightarrow> json_escape c = [c]"
  by (auto simp: plain_char_def json_escape_def Let_def)

lemma concat_json_escape_plain: "list_all plain_char s \<Longrightarrow> concat (map json_escape s) = s"
  by (induction s) (auto simp: json_escape_plain)

lemma parse_chars_plain: "list_all plain_char s \<Longrightarrow> parse_chars (s @ CHR 34 # r) = Some (s, r)"
proof (induction s)
  case Nil
  show ?case by (subst parse_chars.simps) simp
next
  case (Cons c s)
  then have "c \<noteq> CHR 34" "c \<noteq> CHR 92" "\<not> code_unit c < 32"
    by (auto simp: plain_char_def code_unit_def)
  with Cons show ?case by (subst parse_chars.simps) simp
qed

text \<open>Every string reads back, escapes included, so that quoting is injective.\<close>

lemma hex_val_nibble: "k < 16 \<Longrightarrow> hex_val (nibble_char k) = Some k"
  by (auto simp: hex_val_def nibble_char_def code_unit_def is_digit_def Let_def)

lemma hex4_control:
  assumes "n < 32"
  shows "hex4 (CHR ''0'' # CHR ''0'' # nibble_char (n div 16) # nibble_char (n mod 16) # r) = Some n"
proof -
  have "hex_val (CHR ''0'') = Some 0" by (simp add: hex_val_def code_unit_def is_digit_def Let_def)
  moreover have "n div 16 < 16" "n mod 16 < 16" using assms by simp_all
  ultimately show ?thesis by (simp add: hex4_def hex_val_nibble)
qed

lemma parse_escape_escape:
  assumes "code_unit c \<in> {34, 92} \<or> code_unit c < 32"
  shows "\<exists>e. json_escape c = CHR 92 # e \<and> (\<forall>r. parse_escape (e @ r) = Some (c, r))"
proof -
  have c: "c = char_of (code_unit c)" by (simp add: code_unit_def)
  show ?thesis
  proof (cases "code_unit c \<in> {34, 92, 8, 9, 10, 12, 13}")
    case True
    then show ?thesis using c by (auto simp: json_escape_def parse_escape_def char_of_def bit_iff_odd)
  next
    case False
    then have n: "code_unit c < 32" using assms by auto
    then show ?thesis
      using False hex4_control [OF n] c
      by (intro exI [of _ "''u00'' @ [nibble_char (code_unit c div 16), nibble_char (code_unit c mod 16)]"])
        (simp add: json_escape_def parse_escape_def Let_def)
  qed
qed

lemma parse_chars_escape: "parse_chars (json_escape c @ r) = map_option (\<lambda>(t, u). (c # t, u)) (parse_chars r)"
proof (cases "code_unit c \<in> {34, 92} \<or> code_unit c < 32")
  case True
  then obtain e where "json_escape c = CHR 92 # e" "parse_escape (e @ r) = Some (c, r)" using parse_escape_escape by blast
  then show ?thesis by (subst parse_chars.simps) simp
next
  case False
  then have "plain_char c" "c \<noteq> CHR 34" "c \<noteq> CHR 92" by (auto simp: plain_char_def code_unit_def)
  with False show ?thesis by (subst parse_chars.simps) (simp add: json_escape_plain)
qed

lemma parse_chars_quoted: "parse_chars (concat (map json_escape s) @ CHR 34 # r) = Some (s, r)"
proof (induction s)
  case Nil
  show ?case by (subst parse_chars.simps) simp
qed (simp add: parse_chars_escape)

lemma parse_string_quote: "parse_string (json_quote s @ r) = Some (s, r)"
  by (simp add: parse_string_def json_quote_def parse_chars_quoted)

lemma json_quote_cancel: "json_quote s @ r = json_quote s' @ r' \<longleftrightarrow> s = s' \<and> r = r'"
  by (metis parse_string_quote option.inject prod.inject)

lemma json_quote_Cons: "\<exists>t. json_quote s = CHR 34 # t" by (simp add: json_quote_def)

lemma join_quotes_inject: "join '','' (map json_quote xs) = join '','' (map json_quote ys) \<Longrightarrow> xs = ys"
proof (induction xs arbitrary: ys)
  case Nil
  then show ?case by (cases ys rule: remdups_adj.cases) (auto simp: json_quote_def)
next
  case (Cons x xs)
  then obtain y ys' where ys: "ys = y # ys'" by (cases xs; cases ys) (auto simp: json_quote_def)
  have j: "join '','' (map json_quote (z # zs)) = json_quote z @ (if zs = [] then [] else '','' @ join '','' (map json_quote zs))" for z zs
    by (cases zs) simp_all
  show ?case using Cons.prems Cons.IH unfolding ys j json_quote_cancel by (auto split: if_splits)
qed

end
