(* ===== verification/Transitions.thy ===== *)
theory Transitions
  imports Main
begin

text \<open>
  Interfaces of step relations: a system with an invariant, and a system whose steps moreover only
  move down a preorder. Their runs are reflexive transitive closures of the step relation.
\<close>

lemma two_steps: "r x y \<Longrightarrow> r y z \<Longrightarrow> r\<^sup>*\<^sup>* x z"
  by (rule converse_rtranclp_into_rtranclp [OF _ r_into_rtranclp])

locale invariant_system =
  fixes step :: "'s \<Rightarrow> 's \<Rightarrow> bool"
    and inv :: "'s \<Rightarrow> bool"
  assumes inv_step: "step s s' \<Longrightarrow> inv s \<Longrightarrow> inv s'"
begin

lemma inv_run: "step\<^sup>*\<^sup>* s s' \<Longrightarrow> inv s \<Longrightarrow> inv s'"
  by (induction rule: rtranclp_induct) (auto intro: inv_step)

end

locale descending_system = invariant_system +
  fixes below :: "'s \<Rightarrow> 's \<Rightarrow> bool"
  assumes below_refl: "below s s"
    and below_trans: "below s s' \<Longrightarrow> below s' s'' \<Longrightarrow> below s s''"
    and below_step: "step s s' \<Longrightarrow> inv s \<Longrightarrow> below s' s"
begin

lemma below_run: "step\<^sup>*\<^sup>* s s' \<Longrightarrow> inv s \<Longrightarrow> below s' s \<and> inv s'"
proof (induction rule: rtranclp_induct)
  case base
  then show ?case by (simp add: below_refl)
next
  case (step t u)
  then have "below u t" "below t s" "inv u" by (auto intro: below_step inv_step)
  then show ?case using below_trans by blast
qed

end

end
