(* ===== verification/Admission.thy ===== *)
theory Admission
  imports JsonText Transitions
begin

unbundle bit_operations_syntax

text \<open>
  \<^verbatim>\<open>engine/src/update-admission.ts\<close>: the fence that keeps new work out of the engine while it is
  updated. A marker file in a private directory closes admission; a request takes a lease before it
  starts and releases it when its response completes; the updater may stop the process once the
  marker is present, no lease is active and no delivery waits in the local spool.

  The file system maps a path to what \<^verbatim>\<open>lstat\<close> reports on it, an error code or an inode. Other
  processes act between two system calls: an operation that makes several takes the file system
  each of them meets. File contents are ASCII or fail as marker just like the bytes they stand for.
\<close>

section \<open>Files\<close>

datatype errno = ENOENT | EEXIST | OtherCode

datatype file_kind = RegularFile | Directory | SymbolicLink | OtherKind

record inode =
  f_kind :: file_kind
  f_mode :: nat
  f_uid :: nat
  f_content :: jstr
  f_names :: "jstr list"
  f_readable :: bool

type_synonym files = "(jstr \<times> (errno + inode)) list"

definition lstat :: "files \<Rightarrow> jstr \<Rightarrow> errno + inode" where
  "lstat fs p = (case map_of fs p of None \<Rightarrow> Inl ENOENT | Some r \<Rightarrow> r)"

text \<open>What an operation throws: the error of a system call or an error the code constructs.\<close>

datatype fault = Errno errno | Thrown js_error

record process =
  p_uid :: "nat option"
  p_pid :: nat
  p_started :: jstr
  p_identity :: jstr

text \<open>\<^verbatim>\<open>path.isAbsolute\<close>, \<^verbatim>\<open>path.dirname\<close> and \<^verbatim>\<open>path.join\<close> on POSIX paths; \<open>path_join\<close> for an absolute path without \<^verbatim>\<open>..\<close>.\<close>

definition isAbsolute :: "jstr \<Rightarrow> bool" where
  "isAbsolute p \<longleftrightarrow> p \<noteq> [] \<and> hd p = CHR ''/''"

definition dirname :: "jstr \<Rightarrow> jstr" where
  "dirname p =
     (let up = dropWhile (\<lambda>c. c \<noteq> CHR ''/'') (dropWhile (\<lambda>c. c = CHR ''/'') (rev (tl p)))
      in if up = [] then (if isAbsolute p then ''/'' else ''.'')
         else if isAbsolute p \<and> tl up = [] then ''//''
         else hd p # rev (tl up))"

definition path_join :: "jstr \<Rightarrow> jstr \<Rightarrow> jstr" where
  "path_join p name = CHR ''/'' # join ''/'' (filter (\<lambda>w. w \<noteq> [] \<and> w \<noteq> ''.'') (split_on (CHR ''/'') p) @ [name])"

definition climbs :: "jstr \<Rightarrow> bool" where
  "climbs p \<longleftrightarrow> ''..'' \<in> set (split_on (CHR ''/'') p)"

section \<open>Guards\<close>

definition UPDATE_ADMISSION_PROTOCOL :: jstr where
  "UPDATE_ADMISSION_PROTOCOL = ''treseko-engine-update-admission''"

definition UPDATE_ADMISSION_VERSION :: nat where
  "UPDATE_ADMISSION_VERSION = 1"

definition MARKER_NAME :: jstr where
  "MARKER_NAME = ''.treseko-engine-update-fence''"

definition MAX_MARKER_BYTES :: nat where
  "MAX_MARKER_BYTES = 4096"

definition alnum :: "char \<Rightarrow> bool" where
  "alnum c \<longleftrightarrow> (let n = code_unit c in (48 \<le> n \<and> n \<le> 57) \<or> (65 \<le> n \<and> n \<le> 90) \<or> (97 \<le> n \<and> n \<le> 122))"

definition TRANSACTION_RE :: "jstr \<Rightarrow> bool" where
  "TRANSACTION_RE t \<longleftrightarrow>
     t \<noteq> [] \<and> alnum (hd t) \<and> length (tl t) \<le> 99 \<and> list_all (\<lambda>c. alnum c \<or> c \<in> set ''._:-'') (tl t)"

definition safeTransaction :: "jval \<Rightarrow> bool" where
  "safeTransaction v = (case v of JStr t \<Rightarrow> TRANSACTION_RE t | _ \<Rightarrow> False)"

text \<open>Mode without group and other bits, owned by root or by the process.\<close>

definition private_inode :: "process \<Rightarrow> inode \<Rightarrow> bool" where
  "private_inode p i \<longleftrightarrow>
     f_mode i AND 63 = 0 \<and> (f_uid i = 0 \<or> f_uid i = (case p_uid p of Some u \<Rightarrow> u | None \<Rightarrow> f_uid i))"

definition privateDirectory :: "process \<Rightarrow> files \<Rightarrow> jstr \<Rightarrow> fault + unit" where
  "privateDirectory p fs d =
     (case lstat fs d of
        Inl e \<Rightarrow> Inl (Errno e)
      | Inr i \<Rightarrow>
          if f_kind i \<noteq> Directory \<or> \<not> private_inode p i
          then Inl (Thrown (Error ''Engine update control directory is not private'')) else Inr ())"

text \<open>The loop of \<^verbatim>\<open>safeLocalPath\<close> over the parents of a path that does not exist.\<close>

definition path_weight :: "jstr \<Rightarrow> nat" where
  "path_weight p = (if p = [] then 3 else if p = ''.'' then 1 else 2 * length p)"

lemma up_shorter:
  assumes "up = dropWhile (\<lambda>c. c \<noteq> d) (dropWhile (\<lambda>c. c = d) cs)" and "up \<noteq> []"
  shows "length up < length cs"
proof (cases "dropWhile (\<lambda>c. c = d) cs")
  case Nil
  with assms show ?thesis by simp
next
  case (Cons e es)
  then have "e \<noteq> d" by (metis (full_types) hd_dropWhile list.distinct(1) list.sel(1))
  then have "length up \<le> length es" using assms Cons by (simp add: length_dropWhile_le)
  moreover have "length (e # es) \<le> length cs" using Cons length_dropWhile_le by metis
  ultimately show ?thesis by simp
qed

lemma dirname_weight:
  assumes "dirname p \<noteq> p"
  shows "path_weight (dirname p) < path_weight p"
proof -
  define up where "up = dropWhile (\<lambda>c. c \<noteq> CHR ''/'') (dropWhile (\<lambda>c. c = CHR ''/'') (rev (tl p)))"
  have d: "dirname p = (if up = [] then (if isAbsolute p then ''/'' else ''.'')
      else if isAbsolute p \<and> tl up = [] then ''//'' else hd p # rev (tl up))"
    unfolding dirname_def up_def Let_def by (rule refl)
  have w: "path_weight q \<le> 2 * length q" if "q \<noteq> []" for q
    using that by (cases q) (auto simp: path_weight_def)
  have p: "2 * length p \<le> path_weight p" if "p \<noteq> ''.''"
    using that by (auto simp: path_weight_def)
  consider (root) "up = []" "isAbsolute p" | (here) "up = []" "\<not> isAbsolute p" | (up) "up \<noteq> []" by blast
  then show ?thesis
  proof cases
    case root
    then have e: "dirname p = ''/''" using d by simp
    have "2 \<le> length p" "p \<noteq> ''.''"
    proof -
      obtain cs where "p = CHR ''/'' # cs" using root(2) by (cases p) (auto simp: isAbsolute_def)
      then show "2 \<le> length p" "p \<noteq> ''.''" using assms e by (cases cs; simp)+
    qed
    with e p w [of "''/''"] show ?thesis by simp
  next
    case here
    then have e: "dirname p = ''.''" using d by simp
    then have "p \<noteq> ''.''" using assms by metis
    then show ?thesis using e by (cases p) (simp_all add: path_weight_def)
  next
    case up
    then have "length up < length (tl p)" using up_shorter [OF up_def] by simp
    moreover have "p \<noteq> ''.''" using calculation by auto
    moreover have "length (dirname p) = max (length up) (length (dirname p))" "length (dirname p) \<le> Suc (length up)"
      "dirname p \<noteq> []" using up by (cases up; simp add: d)+
    ultimately show ?thesis using w [of "dirname p"] p by simp
  qed
qed

function parentIsDirectory :: "files \<Rightarrow> jstr \<Rightarrow> bool" where
  "parentIsDirectory fs parent =
     (if dirname parent = parent then True
      else case lstat fs parent of
          Inr i \<Rightarrow> f_kind i = Directory
        | Inl e \<Rightarrow> e = ENOENT \<and> parentIsDirectory fs (dirname parent))"
  by pat_completeness auto
termination
  by (relation "measure (\<lambda>(fs, p). path_weight p)") (auto simp: dirname_weight)

declare parentIsDirectory.simps [simp del]

definition safeLocalPath :: "files \<Rightarrow> jstr \<Rightarrow> bool" where
  "safeLocalPath fs d \<longleftrightarrow>
     isAbsolute d \<and> \<not> climbs d \<and>
     (case lstat fs d of
        Inr i \<Rightarrow> f_kind i \<noteq> SymbolicLink
      | Inl e \<Rightarrow> e = ENOENT \<and> parentIsDirectory fs (dirname d))"

datatype spool_state = SpoolEmpty | SpoolPending | SpoolUnavailable

definition pendingLocalDeliveries :: "files \<Rightarrow> jstr \<Rightarrow> nat \<times> spool_state" where
  "pendingLocalDeliveries fs d =
     (if \<not> safeLocalPath fs d then (0, SpoolUnavailable)
      else case lstat fs d of
          Inl e \<Rightarrow> (0, if e = ENOENT then SpoolEmpty else SpoolUnavailable)
        | Inr i \<Rightarrow>
            if f_kind i \<noteq> Directory \<or> \<not> f_readable i then (0, SpoolUnavailable)
            else (let count = length (filter (\<lambda>name. ends_with name ''.json'') (f_names i))
                  in (count, if count \<noteq> 0 then SpoolPending else SpoolEmpty)))"

section \<open>The admission object\<close>

datatype lease_kind = RunTask | RunTaskSync | External

fun kind_name :: "lease_kind \<Rightarrow> jstr" where
  "kind_name RunTask = ''run-task''"
| "kind_name RunTaskSync = ''run-task-sync''"
| "kind_name External = ''external''"

record admission =
  a_directory :: "jstr option"
  a_pending :: jstr
  a_leases :: "(jstr \<times> lease_kind) list"

definition newAdmission :: "files \<Rightarrow> jstr \<Rightarrow> jstr \<Rightarrow> admission res" where
  "newAdmission fs directory pendingDirectory =
     (if directory \<noteq> [] \<and> (\<not> isAbsolute directory \<or> climbs directory)
      then Inl (TypeError ''Engine update control directory must be absolute and must not contain ..'')
      else if pendingDirectory \<noteq> [] \<and> (\<not> isAbsolute pendingDirectory \<or> climbs pendingDirectory)
      then Inl (TypeError ''Engine pending delivery directory must be absolute and must not contain ..'')
      else if pendingDirectory \<noteq> [] \<and> \<not> safeLocalPath fs pendingDirectory
      then Inl (TypeError ''Engine pending delivery directory must not use symlinks'')
      else Inr \<lparr>a_directory = (if directory = [] then None else Some directory), a_pending = pendingDirectory, a_leases = []\<rparr>)"

definition marker_path :: "jstr \<Rightarrow> jstr" where
  "marker_path d = path_join d MARKER_NAME"

datatype marker_state = Disabled | Absent | Present jstr | Invalid

text \<open>The marker a file holds: a JSON object with schema 1, a safe transaction and no other key.\<close>

definition parseMarker :: "jstr \<Rightarrow> marker_state" where
  "parseMarker raw =
     (case json_parse raw of
        None \<Rightarrow> Invalid
      | Some v \<Rightarrow>
          if \<not> strict_eq (js_get v ''schema'') (num 1) \<or> \<not> safeTransaction (js_get v ''transaction'') \<or>
             list_ex (\<lambda>kv. fst kv \<notin> {''schema'', ''transaction''}) (own_props v)
          then Invalid else Present (to_string (js_get v ''transaction'')))"

definition readMarker :: "process \<Rightarrow> files \<Rightarrow> admission \<Rightarrow> marker_state" where
  "readMarker p fs a =
     (case a_directory a of
        None \<Rightarrow> Disabled
      | Some d \<Rightarrow>
          (case privateDirectory p fs d of
             Inl e \<Rightarrow> Invalid
           | Inr _ \<Rightarrow>
               (case lstat fs (marker_path d) of
                  Inl e \<Rightarrow> if e = ENOENT then Absent else Invalid
                | Inr i \<Rightarrow>
                    if f_kind i \<noteq> RegularFile \<or> \<not> f_readable i \<or> \<not> private_inode p i \<or>
                       MAX_MARKER_BYTES < length (f_content i)
                    then Invalid else parseMarker (f_content i))))"

record admission_status =
  st_protocol :: jstr
  st_version :: nat
  st_enabled :: bool
  st_open :: bool
  st_marker :: marker_state
  st_owner :: "jstr option"
  st_fenced :: bool
  st_drainable :: bool
  st_active :: nat
  st_by_kind :: "(jstr \<times> nat) list"
  st_pid :: nat
  st_started :: jstr
  st_identity :: jstr
  st_pending :: nat
  st_spool :: spool_state
  st_needs_confirmation :: bool

definition countKind :: "(jstr \<times> nat) list \<Rightarrow> lease_kind \<Rightarrow> (jstr \<times> nat) list" where
  "countKind counts k =
     obj_put counts (kind_name k) ((case map_of counts (kind_name k) of None \<Rightarrow> 0 | Some n \<Rightarrow> n) + 1)"

definition marker_owner :: "marker_state \<Rightarrow> jstr option" where
  "marker_owner m = (case m of Present t \<Rightarrow> Some t | _ \<Rightarrow> None)"

definition admissionStatus :: "process \<Rightarrow> files \<Rightarrow> admission \<Rightarrow> admission_status" where
  "admissionStatus p fs a =
     (let marker = readMarker p fs a;
          active = length (a_leases a);
          pending = pendingLocalDeliveries fs (a_pending a);
          fenced = (marker_owner marker \<noteq> None)
      in \<lparr>st_protocol = UPDATE_ADMISSION_PROTOCOL, st_version = UPDATE_ADMISSION_VERSION,
          st_enabled = (marker \<noteq> Disabled), st_open = (marker = Disabled \<or> marker = Absent), st_marker = marker,
          st_owner = marker_owner marker, st_fenced = fenced,
          st_drainable = (fenced \<and> active = 0 \<and> snd pending = SpoolEmpty),
          st_active = active, st_by_kind = foldl countKind [] (map snd (a_leases a)),
          st_pid = p_pid p, st_started = p_started p, st_identity = p_identity p,
          st_pending = fst pending, st_spool = snd pending, st_needs_confirmation = True\<rparr>)"

definition assertAdmissionOpen :: "process \<Rightarrow> files \<Rightarrow> admission \<Rightarrow> unit res" where
  "assertAdmissionOpen p fs a =
     (let s = admissionStatus p fs a in
      if st_marker s = Invalid then Inl (AdmissionError ''Engine update admission control is unreadable or corrupt'')
      else if st_fenced s then Inl (AdmissionError ''Engine admission is fenced for an update'')
      else Inr ())"

section \<open>Leases\<close>

definition lease_id :: "lease_kind \<Rightarrow> jstr \<Rightarrow> jstr \<Rightarrow> jstr" where
  "lease_id k label uuid = kind_name k @ '':'' @ label @ '':'' @ uuid"

text \<open>The closure that \<^verbatim>\<open>beginLease\<close> returns, with its flag \<^verbatim>\<open>released\<close>.\<close>

record lease =
  l_id :: jstr
  l_released :: bool

definition putLease :: "admission \<Rightarrow> jstr \<Rightarrow> lease_kind \<Rightarrow> admission" where
  "putLease a i k = a\<lparr>a_leases := obj_put (a_leases a) i k\<rparr>"

definition dropLease :: "admission \<Rightarrow> jstr \<Rightarrow> admission" where
  "dropLease a i = a\<lparr>a_leases := obj_delete (a_leases a) i\<rparr>"

text \<open>\<open>fs1\<close> and \<open>fs2\<close> are the file systems the first and the second check meet.\<close>

definition beginLease ::
  "process \<Rightarrow> files \<Rightarrow> files \<Rightarrow> admission \<Rightarrow> lease_kind \<Rightarrow> jstr \<Rightarrow> jstr \<Rightarrow> lease res \<times> admission" where
  "beginLease p fs1 fs2 a k label uuid =
     (case assertAdmissionOpen p fs1 a of
        Inl e \<Rightarrow> (Inl e, a)
      | Inr _ \<Rightarrow>
          (let i = lease_id k label uuid; a1 = putLease a i k in
           case assertAdmissionOpen p fs2 a1 of
             Inl e \<Rightarrow> (Inl e, dropLease a1 i)
           | Inr _ \<Rightarrow> (Inr \<lparr>l_id = i, l_released = False\<rparr>, a1)))"

definition release :: "lease \<Rightarrow> admission \<Rightarrow> lease \<times> admission" where
  "release l a = (if l_released l then (l, a) else (l\<lparr>l_released := True\<rparr>, dropLease a (l_id l)))"

section \<open>The fence\<close>

definition marker_text :: "jstr \<Rightarrow> jstr" where
  "marker_text t =
     (case json_stringify (JObj [(''schema'', num 1), (''transaction'', JStr t)]) of None \<Rightarrow> [] | Some s \<Rightarrow> s) @ [CHR 10]"

text \<open>How the system calls of \<^verbatim>\<open>acquireFence\<close> after the exclusive open end.\<close>

datatype create_io = CreateOk | OpenFails errno | WriteFails jstr | SyncFails

definition created :: "process \<Rightarrow> jstr \<Rightarrow> inode" where
  "created p text = \<lparr>f_kind = RegularFile, f_mode = 384, f_uid = (case p_uid p of Some u \<Rightarrow> u | None \<Rightarrow> 0),
     f_content = text, f_names = [], f_readable = True\<rparr>"

definition createMarker :: "process \<Rightarrow> create_io \<Rightarrow> files \<Rightarrow> jstr \<Rightarrow> jstr \<Rightarrow> (fault + unit) \<times> files" where
  "createMarker p io fs path t =
     (if map_of fs path \<noteq> None then (Inl (Errno EEXIST), fs)
      else case io of
          OpenFails e \<Rightarrow> (Inl (Errno e), fs)
        | WriteFails part \<Rightarrow> (Inl (Errno OtherCode), obj_put fs path (Inr (created p part)))
        | SyncFails \<Rightarrow> (Inl (Errno OtherCode), obj_put fs path (Inr (created p (marker_text t))))
        | CreateOk \<Rightarrow> (Inr (), obj_put fs path (Inr (created p (marker_text t)))))"

text \<open>The \<^verbatim>\<open>catch\<close> of \<^verbatim>\<open>acquireFence\<close>; \<open>fs\<close> is what the second reading meets.\<close>

definition fenceCatch :: "process \<Rightarrow> files \<Rightarrow> admission \<Rightarrow> jstr \<Rightarrow> fault \<Rightarrow> unit res" where
  "fenceCatch p fs a t e =
     (case e of
        Thrown (AdmissionError m) \<Rightarrow> Inl (AdmissionError m)
      | Errno EEXIST \<Rightarrow>
          (let current = readMarker p fs a in
           if current = Present t then Inr ()
           else if current = Invalid then Inl (AdmissionError ''Engine update admission control is unreadable or corrupt'')
           else Inl (AdmissionError ''Engine fence belongs to another transaction''))
      | _ \<Rightarrow> Inl (AdmissionError ''Engine update admission fence could not be written''))"

definition acquireFence ::
  "process \<Rightarrow> create_io \<Rightarrow> files \<Rightarrow> files \<Rightarrow> files \<Rightarrow> admission \<Rightarrow> jstr \<Rightarrow> unit res \<times> files" where
  "acquireFence p io fs1 fs2 fs3 a t =
     (if \<not> safeTransaction (JStr t) then (Inl (TypeError ''Invalid update transaction''), fs1)
      else case a_directory a of
          None \<Rightarrow> (Inl (AdmissionError ''Engine update admission control is not configured''), fs1)
        | Some d \<Rightarrow>
            (case privateDirectory p fs1 d of
               Inl e \<Rightarrow> (fenceCatch p fs3 a t e, fs1)
             | Inr _ \<Rightarrow>
                 (case readMarker p fs1 a of
                    Invalid \<Rightarrow> (Inl (AdmissionError ''Engine update admission control is unreadable or corrupt''), fs1)
                  | Present t' \<Rightarrow>
                      (if t' \<noteq> t then Inl (AdmissionError ''Engine fence belongs to another transaction'') else Inr (), fs1)
                  | _ \<Rightarrow>
                      (case createMarker p io fs2 (marker_path d) t of
                         (Inr _, fs) \<Rightarrow> (Inr (), fs)
                       | (Inl e, fs) \<Rightarrow> (fenceCatch p fs3 a t e, if e = Errno EEXIST then fs3 else fs)))))"

datatype unlink_io = UnlinkOk | UnlinkFails errno | UnlinkSyncFails errno

definition releaseFence ::
  "process \<Rightarrow> unlink_io \<Rightarrow> files \<Rightarrow> files \<Rightarrow> admission \<Rightarrow> jstr \<Rightarrow> (fault + unit) \<times> files" where
  "releaseFence p io fs1 fs2 a t =
     (if \<not> safeTransaction (JStr t) then (Inl (Thrown (TypeError ''Invalid update transaction'')), fs1)
      else case a_directory a of
          None \<Rightarrow> (Inr (), fs1)
        | Some d \<Rightarrow>
            (case readMarker p fs1 a of
               Disabled \<Rightarrow> (Inr (), fs1)
             | Absent \<Rightarrow> (Inr (), fs1)
             | Invalid \<Rightarrow> (Inl (Thrown (AdmissionError ''Engine update admission control is unreadable or corrupt'')), fs1)
             | Present t' \<Rightarrow>
                 if t' \<noteq> t then (Inl (Thrown (AdmissionError ''Engine fence belongs to another transaction'')), fs1)
                 else if map_of fs2 (marker_path d) = None then (Inl (Errno ENOENT), fs2)
                 else (case io of
                     UnlinkFails e \<Rightarrow> (Inl (Errno e), fs2)
                   | UnlinkSyncFails e \<Rightarrow> (Inl (Errno e), obj_delete fs2 (marker_path d))
                   | UnlinkOk \<Rightarrow> (Inr (), obj_delete fs2 (marker_path d)))))"

section \<open>Requests\<close>

definition EXTERNAL_ADMISSION_PATHS :: "jstr list" where
  "EXTERNAL_ADMISSION_PATHS =
     [''/generate-stories-sync'', ''/generate-test-cases-sync'', ''/diagnose-quality-sync'',
      ''/provider-health'', ''/opencode/providers'', ''/agent-health'']"

datatype response_event = FinishEvent | EndCall

text \<open>One event of a response; the listener of \<^verbatim>\<open>finish\<close> is registered with \<^verbatim>\<open>once\<close> and fires while \<open>armed\<close>.\<close>

definition responseEvent :: "bool \<times> lease \<times> admission \<Rightarrow> response_event \<Rightarrow> bool \<times> lease \<times> admission" where
  "responseEvent = (\<lambda>(armed, l, a) e.
     case e of
       FinishEvent \<Rightarrow> if armed then (False, release l a) else (armed, l, a)
     | EndCall \<Rightarrow> (armed, release l a))"

definition releaseLeaseWhenResponseCompletes :: "lease \<Rightarrow> admission \<Rightarrow> response_event list \<Rightarrow> bool \<times> lease \<times> admission" where
  "releaseLeaseWhenResponseCompletes l a es = foldl responseEvent (True, l, a) es"

datatype request_outcome = Unauthenticated | Refused nat jval | Admitted lease

text \<open>A request on one of the external paths.\<close>

definition externalAdmission ::
  "process \<Rightarrow> files \<Rightarrow> files \<Rightarrow> admission \<Rightarrow> bool \<Rightarrow> jstr \<Rightarrow> jstr \<Rightarrow> jstr \<Rightarrow> request_outcome \<times> admission" where
  "externalAdmission p fs1 fs2 a authenticated method path uuid =
     (if \<not> authenticated then (Unauthenticated, a)
      else case beginLease p fs1 fs2 a External (method @ '':'' @ path) uuid of
          (Inl e, a') \<Rightarrow> (Refused 503 (JObj [(''error'', JObj [(''error_code'', JStr ''ENGINE_UPDATE_ADMISSION_BLOCKED''),
              (''message'', JStr (''El Engine est'' @ [CHR 225] @ '' cerrado para actualizaciones.''))])]), a')
        | (Inr l, a') \<Rightarrow> (Admitted l, a'))"

definition admissionRoute :: "process \<Rightarrow> files \<Rightarrow> admission \<Rightarrow> bool \<Rightarrow> admission_status option" where
  "admissionRoute p fs a authenticated = (if authenticated then Some (admissionStatus p fs a) else None)"

end
