(* ===== verification/AdmissionProofs.thy ===== *)
theory AdmissionProofs
  imports Admission
begin

text \<open>
  Proofs about the update fence: the marker file reads back what was written, a file at the marker
  path keeps admission closed, and the step relation of \<^verbatim>\<open>beginLease\<close> interleaved with other
  processes, with its invariant and the guarantee the updater relies on.
\<close>

lemma marker_path_neq: "marker_path d \<noteq> d"
proof
  define f where "f = filter (\<lambda>w. w \<noteq> [] \<and> w \<noteq> ''.'') (split_on (CHR ''/'') d)"
  have n: "CHR ''/'' \<notin> set MARKER_NAME" "MARKER_NAME \<noteq> []" "MARKER_NAME \<noteq> ''.''"
    by (simp_all add: MARKER_NAME_def)
  have "split_on (CHR ''/'') (join ''/'' (f @ [MARKER_NAME])) = f @ [MARKER_NAME]"
    by (rule split_on_joined) (auto simp: f_def n dest: split_on_pieces)
  then have "filter (\<lambda>w. w \<noteq> [] \<and> w \<noteq> ''.'') (split_on (CHR ''/'') (marker_path d)) = f @ [MARKER_NAME]"
    by (simp add: marker_path_def path_join_def f_def [symmetric] n) (simp add: f_def)
  moreover assume "marker_path d = d"
  ultimately have "f = f @ [MARKER_NAME]" by (simp add: f_def)
  then show False by simp
qed

lemma assert_open_iff: "assertAdmissionOpen p fs a = Inr () \<longleftrightarrow> st_open (admissionStatus p fs a)"
  by (cases "readMarker p fs a") (simp_all add: assertAdmissionOpen_def admissionStatus_def Let_def marker_owner_def)

lemma open_leases [simp]:
  "readMarker p fs (putLease a i k) = readMarker p fs a"
  "readMarker p fs (dropLease a i) = readMarker p fs a"
  by (simp_all add: readMarker_def putLease_def dropLease_def)

lemma st_open_readMarker: "st_open (admissionStatus p fs a) \<longleftrightarrow> readMarker p fs a \<in> {Disabled, Absent}"
  by (auto simp: admissionStatus_def Let_def)

lemma parse_members_plain:
  assumes "list_all plain_char k"
  shows "parse_members (Suc n) acc (CHR 34 # k @ CHR 34 # CHR '':'' # u) =
    (case parse_value n u of
       None \<Rightarrow> None
     | Some (v, r') \<Rightarrow>
         (case expect (CHR '','') r' of
            Some u' \<Rightarrow> parse_members n (obj_put acc k v) u'
          | None \<Rightarrow> map_option (\<lambda>u'. (JObj (obj_put acc k v), u')) (expect (CHR ''}'') r')))"
  by (simp add: parse_string_def parse_chars_plain [OF assms] skip_ws_def expect_def code_unit_def)

lemma parse_value_plain:
  assumes "list_all plain_char t"
  shows "parse_value (Suc n) (CHR 34 # t @ CHR 34 # r) = Some (JStr t, r)"
  by (simp add: parse_scalar_def parse_chars_plain [OF assms] skip_ws_def expect_def code_unit_def)

lemma transaction_plain: "TRANSACTION_RE t \<Longrightarrow> list_all plain_char t"
  by (cases t) (auto simp: TRANSACTION_RE_def list_all_iff alnum_def plain_char_def code_unit_def Let_def)

lemma marker_text_eq:
  assumes "TRANSACTION_RE t"
  shows "marker_text t = CHR ''{'' # CHR 34 # ''schema'' @ CHR 34 # CHR '':'' # CHR ''1'' # CHR '','' #
    CHR 34 # ''transaction'' @ CHR 34 # CHR '':'' # CHR 34 # t @ CHR 34 # CHR ''}'' # [CHR 10]"
proof -
  have 1: "rat_str 1 = ''1''" by code_simp
  have 2: "js_entries [(''schema'', a), (''transaction'', b)] = [(''schema'', a), (''transaction'', b)]" for a b :: jstr
  proof -
    have "array_index ''schema'' = None" "array_index ''transaction'' = None" by code_simp+
    then show ?thesis by (simp add: js_entries_def)
  qed
  have 3: "json_quote ''schema'' = CHR 34 # ''schema'' @ [CHR 34]" "json_quote ''transaction'' = CHR 34 # ''transaction'' @ [CHR 34]"
    by code_simp+
  show ?thesis
    using transaction_plain [OF assms]
    by (simp add: marker_text_def 1 2 3) (simp add: json_quote_def concat_json_escape_plain)
qed
lemma parseMarker_text:
  assumes t: "TRANSACTION_RE t"
  shows "parseMarker (marker_text t) = Present t"
proof -
  let ?s = "marker_text t" and ?v = "JObj [(''schema'', num 1), (''transaction'', JStr t)]"
  have pl: "list_all plain_char t" "list_all plain_char ''schema''" "list_all plain_char ''transaction''"
    using transaction_plain [OF t] by (simp_all add: plain_char_def code_unit_def)
  have one: "parse_value (Suc n) (CHR ''1'' # CHR '','' # r) = Some (num 1, CHR '','' # r)" for n r
    by (simp add: expect_def skip_ws_def code_unit_def parse_scalar_def parse_number_def parse_unsigned_def parse_digits_def
        parse_exponent_def is_digit_def digits_val_def digit_val_def)
  let ?u = "CHR 34 # ''transaction'' @ CHR 34 # CHR '':'' # CHR 34 # t @ CHR 34 # CHR ''}'' # [CHR 10]"
  have 2: "parse_members (Suc (Suc n)) acc ?u = Some (JObj (obj_put acc ''transaction'' (JStr t)), [CHR 10])" for n acc
    by (subst parse_members_plain [OF pl(3)], subst parse_value_plain [OF pl(1)]) (simp add: expect_def skip_ws_def code_unit_def)
  have e: "expect (CHR ''{'') (CHR ''{'' # r) = Some r" "expect (CHR ''}'') (CHR 34 # r) = None"
    "expect (CHR '','') (CHR '','' # r) = Some r" for r
    by (simp_all add: expect_def skip_ws_def code_unit_def)
  have 1: "parse_members (Suc (Suc (Suc n))) [] (CHR 34 # ''schema'' @ CHR 34 # CHR '':'' # CHR ''1'' # CHR '','' # ?u) =
      Some (?v, [CHR 10])" for n
    by (subst parse_members_plain [OF pl(2)], subst one) (simp only: option.case prod.case e 2, simp)
  have "parse_value (Suc (Suc (Suc (Suc n)))) ?s = Some (?v, [CHR 10])" for n
    unfolding marker_text_eq [OF t] by (subst parse_value.simps, subst e, simp only: option.case e 1)
  then have "json_parse ?s = Some ?v"
    by (subst json_parse_fuel [where n = "Suc (Suc (Suc (Suc (2 * length (marker_text t)))))"])
      (simp_all add: skip_ws_def code_unit_def del: parse_value.simps)
  moreover have "safeTransaction (JStr t)" using t by (simp add: safeTransaction_def)
  ultimately show ?thesis by (simp add: parseMarker_def obj_get_def)
qed

lemma marker_text_length: "TRANSACTION_RE t \<Longrightarrow> length (marker_text t) \<le> MAX_MARKER_BYTES"
  by (auto simp: marker_text_eq MAX_MARKER_BYTES_def TRANSACTION_RE_def)

lemma created_private [simp]: "private_inode p (created p text)"
  by (simp add: private_inode_def created_def split: option.splits)

lemma lstat_put: "lstat (obj_put fs q r) q' = (if q' = q then r else lstat fs q')"
  by (simp add: lstat_def map_of_obj_put)

lemma privateDirectory_put_marker [simp]:
  "privateDirectory p (obj_put fs (marker_path d) r) d = privateDirectory p fs d"
  using marker_path_neq [of d] by (simp add: privateDirectory_def lstat_put)

text \<open>A file at the marker path keeps admission closed, whatever it holds.\<close>

lemma marker_file_closes:
  assumes "a_directory a = Some d" and "lstat fs (marker_path d) = Inr i"
  shows "\<not> st_open (admissionStatus p fs a)"
  using assms by (auto simp: st_open_readMarker readMarker_def parseMarker_def split: sum.splits option.splits)

lemma readMarker_enabled: "a_directory a = Some d \<Longrightarrow> readMarker p fs a \<noteq> Disabled"
  by (auto simp: readMarker_def parseMarker_def split: sum.splits option.splits)

lemma readMarker_created:
  assumes "a_directory a = Some d" "privateDirectory p fs d = Inr ()" "TRANSACTION_RE t"
  shows "readMarker p (obj_put fs (marker_path d) (Inr (created p (marker_text t)))) a = Present t"
  using assms marker_text_length [OF assms(3)] parseMarker_text [OF assms(3)]
  by (simp add: readMarker_def lstat_put) (simp add: created_def)

lemma fence_acquired:
  assumes "acquireFence p io fs fs fs a t = (r, fs')"
  shows "(r = Inr () \<longrightarrow> readMarker p fs' a = Present t) \<and>
    (fs' \<noteq> fs \<longrightarrow> \<not> st_open (admissionStatus p fs' a)) \<and>
    (readMarker p fs a \<notin> {Absent, Disabled, Present t} \<longrightarrow> isl r \<and> fs' = fs)"
proof (cases "safeTransaction (JStr t) \<and> a_directory a \<noteq> None")
  case False
  then show ?thesis using assms by (auto simp: acquireFence_def split: option.splits if_splits)
next
  case True
  then obtain d where d: "a_directory a = Some d" and t: "TRANSACTION_RE t" and safe: "safeTransaction (JStr t)"
    by (auto simp: safeTransaction_def)
  show ?thesis
  proof (cases "privateDirectory p fs d")
    case (Inl e)
    then have "readMarker p fs a = Invalid" using d by (simp add: readMarker_def)
    then show ?thesis using assms d Inl safe
      by (auto simp: acquireFence_def fenceCatch_def Let_def split: fault.splits js_error.splits errno.splits)
  next
    case (Inr u)
    then have priv: "privateDirectory p fs d = Inr ()" by simp
    have closes: "\<not> st_open (admissionStatus p (obj_put fs (marker_path d) (Inr i)) a)" for i
      by (rule marker_file_closes [OF d]) (simp add: lstat_put)
    show ?thesis
    proof (cases "readMarker p fs a")
      case Absent
      then have "map_of fs (marker_path d) = None \<or> map_of fs (marker_path d) = Some (Inl ENOENT)"
        using d priv by (auto simp: readMarker_def lstat_def parseMarker_def split: option.splits sum.splits if_splits)
      then show ?thesis
        using assms d priv safe Absent closes readMarker_created [OF d priv t]
        by (auto simp: acquireFence_def createMarker_def fenceCatch_def Let_def split: create_io.splits errno.splits)
    qed (use assms d priv safe readMarker_enabled [OF d] in \<open>auto simp: acquireFence_def split: if_splits\<close>)
  qed
qed

lemma fence_released:
  assumes "releaseFence p io fs fs a t = (r, fs')"
  shows "(fs' \<noteq> fs \<longrightarrow> readMarker p fs a = Present t) \<and> (r = Inr () \<longrightarrow> st_open (admissionStatus p fs' a))"
proof -
  have del: "readMarker p (obj_delete fs (marker_path d)) a = Absent"
    if "a_directory a = Some d" "readMarker p fs a = Present t" for d
    using that marker_path_neq [of d]
    by (auto simp: readMarker_def privateDirectory_def lstat_def map_of_obj_delete split: option.splits sum.splits if_splits)
  show ?thesis
    using assms del
    by (auto simp: releaseFence_def st_open_readMarker readMarker_def
        split: option.splits marker_state.splits if_splits unlink_io.splits)
qed

section \<open>Interleaving\<close>

text \<open>
  The engine is one thread, but other processes change the files between the steps of
  \<^verbatim>\<open>beginLease\<close>: first check, insertion, second check. \<open>sys_granted\<close> are the closures handed out.
\<close>

datatype lease_pc = Idle | Checked lease_kind jstr | Inserted jstr

record admission_system =
  sys_files :: files
  sys_admission :: admission
  sys_pc :: lease_pc
  sys_granted :: "lease list"

definition fresh_lease :: "admission_system \<Rightarrow> jstr \<Rightarrow> bool" where
  "fresh_lease s i \<longleftrightarrow> i \<notin> fst ` set (a_leases (sys_admission s)) \<and> i \<notin> l_id ` set (sys_granted s)"

definition releaseNth :: "admission_system \<Rightarrow> nat \<Rightarrow> admission_system" where
  "releaseNth s n =
     (case release (sys_granted s ! n) (sys_admission s) of
        (l, a) \<Rightarrow> s\<lparr>sys_granted := (sys_granted s)[n := l], sys_admission := a\<rparr>)"

inductive admission_step :: "process \<Rightarrow> admission_system \<Rightarrow> admission_system \<Rightarrow> bool" for p where
  check: "sys_pc s = Idle \<Longrightarrow> assertAdmissionOpen p (sys_files s) (sys_admission s) = Inr () \<Longrightarrow>
    fresh_lease s (lease_id k label uuid) \<Longrightarrow> admission_step p s (s\<lparr>sys_pc := Checked k (lease_id k label uuid)\<rparr>)"
| insert: "sys_pc s = Checked k i \<Longrightarrow>
    admission_step p s (s\<lparr>sys_pc := Inserted i, sys_admission := putLease (sys_admission s) i k\<rparr>)"
| confirm: "sys_pc s = Inserted i \<Longrightarrow> assertAdmissionOpen p (sys_files s) (sys_admission s) = Inr () \<Longrightarrow>
    admission_step p s (s\<lparr>sys_pc := Idle, sys_granted := \<lparr>l_id = i, l_released = False\<rparr> # sys_granted s\<rparr>)"
| abort: "sys_pc s = Inserted i \<Longrightarrow> assertAdmissionOpen p (sys_files s) (sys_admission s) = Inl e \<Longrightarrow>
    admission_step p s (s\<lparr>sys_pc := Idle, sys_admission := dropLease (sys_admission s) i\<rparr>)"
| release: "sys_pc s = Idle \<Longrightarrow> n < length (sys_granted s) \<Longrightarrow> admission_step p s (releaseNth s n)"
| others: "admission_step p s (s\<lparr>sys_files := fs\<rparr>)"

definition system_open :: "process \<Rightarrow> admission_system \<Rightarrow> bool" where
  "system_open p s \<longleftrightarrow> st_open (admissionStatus p (sys_files s) (sys_admission s))"

definition active_ids :: "lease list \<Rightarrow> jstr set" where
  "active_ids ls = l_id ` {l \<in> set ls. \<not> l_released l}"

definition in_flight :: "lease_pc \<Rightarrow> jstr set" where
  "in_flight pc = (case pc of Inserted i \<Rightarrow> {i} | _ \<Rightarrow> {})"

text \<open>The lease table holds the granted leases not yet released and the one being granted.\<close>

definition lease_inv :: "admission_system \<Rightarrow> bool" where
  "lease_inv s \<longleftrightarrow>
     distinct (map l_id (sys_granted s)) \<and>
     fst ` set (a_leases (sys_admission s)) = active_ids (sys_granted s) \<union> in_flight (sys_pc s) \<and>
     (case sys_pc s of Idle \<Rightarrow> True | Checked k i \<Rightarrow> i \<notin> l_id ` set (sys_granted s) | Inserted i \<Rightarrow> i \<notin> l_id ` set (sys_granted s))"

lemma lease_keys [simp]:
  "fst ` set (a_leases (putLease a i k)) = insert i (fst ` set (a_leases a))"
  "fst ` set (a_leases (dropLease a i)) = fst ` set (a_leases a) - {i}"
  by (simp_all add: putLease_def dropLease_def)

lemma active_ids_simps [simp]:
  "active_ids [] = {}"
  "active_ids (l # ls) = (if l_released l then active_ids ls else insert (l_id l) (active_ids ls))"
  by (auto simp: active_ids_def)

lemma active_ids_granted: "active_ids ls \<subseteq> l_id ` set ls"
  by (auto simp: active_ids_def)

lemma active_ids_release:
  "distinct (map l_id ls) \<Longrightarrow> n < length ls \<Longrightarrow>
     active_ids (ls[n := (ls ! n)\<lparr>l_released := True\<rparr>]) = active_ids ls - {l_id (ls ! n)}"
proof (induction ls arbitrary: n)
  case (Cons l ls)
  show ?case
  proof (cases n)
    case 0
    then show ?thesis using Cons.prems active_ids_granted [of ls] by auto
  next
    case (Suc m)
    then have "l_id l \<noteq> l_id (ls ! m)" using Cons.prems by auto
    then show ?thesis using Cons Suc by auto
  qed
qed simp

lemma releaseNth_simps:
  "sys_pc (releaseNth s n) = sys_pc s" "sys_files (releaseNth s n) = sys_files s"
  "n < length (sys_granted s) \<Longrightarrow> map l_id (sys_granted (releaseNth s n)) = map l_id (sys_granted s)"
  "a_directory (sys_admission (releaseNth s n)) = a_directory (sys_admission s)"
  by (auto simp: releaseNth_def release_def dropLease_def map_update list_update_same_conv split: prod.splits)

lemma releaseNth_keys:
  assumes "lease_inv s" "n < length (sys_granted s)" "sys_pc s = Idle"
  shows "fst ` set (a_leases (sys_admission (releaseNth s n))) = active_ids (sys_granted (releaseNth s n)) \<and>
    active_ids (sys_granted (releaseNth s n)) \<subseteq> active_ids (sys_granted s)"
proof (cases "l_released (sys_granted s ! n)")
  case True
  with assms show ?thesis by (simp add: releaseNth_def release_def lease_inv_def in_flight_def)
next
  case False
  have "active_ids ((sys_granted s)[n := (sys_granted s ! n)\<lparr>l_released := True\<rparr>]) =
      active_ids (sys_granted s) - {l_id (sys_granted s ! n)}"
    using assms by (intro active_ids_release) (auto simp: lease_inv_def)
  with False assms show ?thesis
    by (simp add: releaseNth_def release_def lease_inv_def in_flight_def)
qed

lemma admission_step_inv:
  assumes "admission_step p s s'" and "lease_inv s"
  shows "lease_inv s'"
  using assms
proof cases
  case (check k label uuid)
  with assms(2) show ?thesis by (auto simp: lease_inv_def in_flight_def fresh_lease_def)
next
  case (insert k i)
  with assms(2) show ?thesis by (auto simp: lease_inv_def in_flight_def)
next
  case (confirm i)
  with assms(2) show ?thesis by (auto simp: lease_inv_def in_flight_def)
next
  case (abort i e)
  have "i \<notin> active_ids (sys_granted s)"
    using assms(2) abort(2) active_ids_granted by (auto simp: lease_inv_def)
  with abort assms(2) show ?thesis by (auto simp: lease_inv_def in_flight_def)
next
  case (release n)
  have "map l_id (sys_granted s') = map l_id (sys_granted s)" "sys_pc s' = Idle"
    using release by (simp_all add: releaseNth_simps)
  with releaseNth_keys [OF assms(2) release(3,2)] assms(2) show ?thesis
    by (simp add: release(1) lease_inv_def in_flight_def)
next
  case (others fs)
  with assms(2) show ?thesis by (simp add: lease_inv_def split: lease_pc.splits)
qed

text \<open>A step during which admission stays closed grants nothing.\<close>

definition closed_step :: "process \<Rightarrow> admission_system \<Rightarrow> admission_system \<Rightarrow> bool" where
  "closed_step p s s' \<longleftrightarrow> admission_step p s s' \<and> \<not> system_open p s \<and> \<not> system_open p s'"

lemma closed_step_shrinks:
  assumes "closed_step p s s'" and "lease_inv s"
  shows "map l_id (sys_granted s') = map l_id (sys_granted s) \<and> active_ids (sys_granted s') \<subseteq> active_ids (sys_granted s)"
proof -
  have "admission_step p s s'" "\<not> system_open p s" using assms(1) by (simp_all add: closed_step_def)
  then show ?thesis
  proof cases
    case (release n)
    then show ?thesis using releaseNth_keys [OF assms(2) release(3,2)] by (simp add: releaseNth_simps)
  qed (auto simp: system_open_def assert_open_iff)
qed


interpretation admission_runs: invariant_system "admission_step p" lease_inv for p
  by unfold_locales (rule admission_step_inv)

interpretation closed_runs: descending_system "closed_step p" lease_inv
    "\<lambda>t s. map l_id (sys_granted t) = map l_id (sys_granted s) \<and> active_ids (sys_granted t) \<subseteq> active_ids (sys_granted s)" for p
proof
  fix s s' assume "closed_step p s s'" "lease_inv s"
  then show "lease_inv s'" by (auto simp: closed_step_def intro: admission_step_inv)
next
  fix s s' assume "closed_step p s s'" "lease_inv s"
  then show "map l_id (sys_granted s') = map l_id (sys_granted s) \<and> active_ids (sys_granted s') \<subseteq> active_ids (sys_granted s)"
    by (rule closed_step_shrinks)
qed auto

definition started :: "files \<Rightarrow> admission \<Rightarrow> admission_system" where
  "started fs a = \<lparr>sys_files = fs, sys_admission = a, sys_pc = Idle, sys_granted = []\<rparr>"

lemma started_inv: "newAdmission fs d q = Inr a \<Longrightarrow> lease_inv (started fs a)"
  by (auto simp: newAdmission_def started_def lease_inv_def in_flight_def split: if_splits)

section \<open>Properties\<close>

text \<open>
  C6. Once the fence is up no work starts. From any state the engine can reach, while admission
  stays closed, whatever other processes do to the files and even if the fence appears in the middle
  of \<^verbatim>\<open>beginLease\<close>: no lease is granted, and whenever the engine is between requests its table
  holds only leases granted before and not released. So once the status reports drainable it keeps
  reporting no active lease.
\<close>

theorem fence_drains:
  assumes "newAdmission fs0 d q = Inr a" and "(admission_step p)\<^sup>*\<^sup>* (started fs0 a) s"
    and "(closed_step p)\<^sup>*\<^sup>* s s'" and "sys_pc s' = Idle"
  shows "map l_id (sys_granted s') = map l_id (sys_granted s) \<and>
    fst ` set (a_leases (sys_admission s')) \<subseteq> active_ids (sys_granted s) \<and>
    (sys_pc s = Idle \<and> st_drainable (admissionStatus p (sys_files s) (sys_admission s)) \<longrightarrow>
      st_active (admissionStatus p (sys_files s') (sys_admission s')) = 0)"
proof -
  have i: "lease_inv s" using admission_runs.inv_run [OF assms(2) started_inv [OF assms(1)]] .
  note b = closed_runs.below_run [OF assms(3) i]
  have keys: "fst ` set (a_leases (sys_admission s')) = active_ids (sys_granted s')"
    using b assms(4) by (simp add: lease_inv_def in_flight_def)
  have "active_ids (sys_granted s) = {}"
    if "sys_pc s = Idle" "st_drainable (admissionStatus p (sys_files s) (sys_admission s))"
    using i that by (simp add: lease_inv_def in_flight_def admissionStatus_def Let_def)
  with keys b show ?thesis by (auto simp: admissionStatus_def Let_def)
qed

definition sample_process :: process where
  "sample_process = \<lparr>p_uid = Some 1000, p_pid = 1, p_started = [], p_identity = []\<rparr>"

definition sample_dir :: inode where
  "sample_dir = \<lparr>f_kind = Directory, f_mode = 448, f_uid = 1000, f_content = [], f_names = [], f_readable = True\<rparr>"

definition sample_files :: files where
  "sample_files = [(''/ctl'', Inr sample_dir), (''/spool'', Inr sample_dir)]"

definition sample_admission :: admission where
  "sample_admission = \<lparr>a_directory = Some ''/ctl'', a_pending = ''/spool'', a_leases = []\<rparr>"

definition fenced_files :: files where
  "fenced_files = snd (acquireFence sample_process CreateOk sample_files sample_files sample_files sample_admission ''update-7'')"

lemma sample_admission_facts:
  "newAdmission sample_files ''/ctl'' ''/spool'' = Inr sample_admission"
  "assertAdmissionOpen sample_process sample_files sample_admission = Inr ()"
  "acquireFence sample_process CreateOk sample_files sample_files sample_files sample_admission ''update-7'' = (Inr (), fenced_files)"
  "readMarker sample_process fenced_files sample_admission = Present ''update-7''"
  by code_simp+

lemma sample_fenced_closed: "\<not> st_open (admissionStatus sample_process fenced_files a)"
  if "readMarker sample_process fenced_files a = Present t" for a t
  using that by (simp add: st_open_readMarker)

theorem fence_drains_witness:
  "\<exists>s s'. (closed_step sample_process)\<^sup>*\<^sup>* s s' \<and> sys_pc s = Checked RunTask (lease_id RunTask ''x'' ''1'') \<and>
     sys_pc s' = Idle \<and> sys_granted s' = [] \<and> a_leases (sys_admission s') = []"
proof -
  let ?i = "lease_id RunTask ''x'' ''1''" and ?p = sample_process
  let ?sa = "started sample_files sample_admission"
  let ?sb = "?sa\<lparr>sys_pc := Checked RunTask ?i\<rparr>"
  let ?sc = "?sb\<lparr>sys_files := fenced_files\<rparr>"
  let ?sd = "?sc\<lparr>sys_pc := Inserted ?i, sys_admission := putLease sample_admission ?i RunTask\<rparr>"
  let ?sz = "?sd\<lparr>sys_pc := Idle, sys_admission := dropLease (putLease sample_admission ?i RunTask) ?i\<rparr>"
  note m = sample_admission_facts(4)
  have "fresh_lease ?sa ?i" by (simp add: fresh_lease_def started_def sample_admission_def)
  then have 1: "admission_step ?p ?sa ?sb"
    by (intro admission_step.check) (simp_all add: started_def sample_admission_facts)
  have 2: "admission_step ?p ?sb ?sc" by (rule admission_step.others)
  have 3: "admission_step ?p ?sc ?sd"
    using admission_step.insert [of ?sc RunTask ?i ?p] by (simp add: started_def)
  have closed: "\<not> system_open ?p ?sc" "\<not> system_open ?p ?sd" "\<not> system_open ?p ?sz"
    by (simp_all add: system_open_def started_def st_open_readMarker m)
  then obtain e where "assertAdmissionOpen ?p (sys_files ?sd) (sys_admission ?sd) = Inl e"
    by (cases "assertAdmissionOpen ?p (sys_files ?sd) (sys_admission ?sd)") (auto simp: system_open_def assert_open_iff [symmetric])
  then have 4: "admission_step ?p ?sd ?sz"
    using admission_step.abort [of ?sd ?i ?p e] by simp
  have "closed_step ?p ?sc ?sd" "closed_step ?p ?sd ?sz"
    unfolding closed_step_def using 3 4 closed by blast+
  then have run: "(closed_step ?p)\<^sup>*\<^sup>* ?sc ?sz" by (rule two_steps [of "closed_step ?p"])
  from 1 2 have reach: "(admission_step ?p)\<^sup>*\<^sup>* ?sa ?sc" by (rule two_steps [of "admission_step ?p"])
  have "a_leases (sys_admission ?sz) = []"
    using fence_drains [OF sample_admission_facts(1) reach run] by (simp add: started_def del: lease_keys)
  then show ?thesis using run by (intro exI [of _ ?sc] exI [of _ ?sz]) (simp add: started_def)
qed

lemma drop_put: "i \<notin> fst ` set (a_leases a) \<Longrightarrow> dropLease (putLease a i k) i = a"
proof -
  assume "i \<notin> fst ` set (a_leases a)"
  then have "filter (\<lambda>kv. fst kv \<noteq> i) (a_leases a) = a_leases a" by (intro filter_True) auto
  then show ?thesis
    using \<open>i \<notin> fst ` set (a_leases a)\<close> by (simp add: dropLease_def putLease_def obj_put_fresh obj_delete_def)
qed



text \<open>
  C32. Taking the fence is all or nothing for admission: when \<^verbatim>\<open>acquireFence\<close> returns, the marker
  reads back as the transaction; whatever a failed write left behind, admission is closed as soon as
  the files changed at all; and a fence of another transaction or a corrupt one is refused and kept.
\<close>

theorem fence_acquire:
  assumes "acquireFence p io fs fs fs a t = (r, fs')"
  shows "(r = Inr () \<longrightarrow> readMarker p fs' a = Present t) \<and>
    (fs' \<noteq> fs \<longrightarrow> \<not> st_open (admissionStatus p fs' a)) \<and>
    (readMarker p fs a \<notin> {Absent, Disabled, Present t} \<longrightarrow> isl r \<and> fs' = fs)"
  using assms by (rule fence_acquired)

theorem fence_acquire_witness:
  "readMarker sample_process fenced_files sample_admission = Present ''update-7''"
  using fence_acquire [OF sample_admission_facts(3)] by simp

text \<open>
  Only its owner lowers the fence: \<^verbatim>\<open>releaseFence\<close> changes the files only when the marker
  holds the given transaction, and when it returns admission is open.
\<close>

theorem fence_release:
  assumes "releaseFence p io fs fs a t = (r, fs')"
  shows "(fs' \<noteq> fs \<longrightarrow> readMarker p fs a = Present t) \<and> (r = Inr () \<longrightarrow> st_open (admissionStatus p fs' a))"
  using assms by (rule fence_released)

theorem fence_release_witness:
  "releaseFence sample_process UnlinkOk fenced_files fenced_files sample_admission ''update-7'' = (Inr (), sample_files) \<and>
   st_open (admissionStatus sample_process sample_files sample_admission)"
proof -
  have "releaseFence sample_process UnlinkOk fenced_files fenced_files sample_admission ''update-7'' = (Inr (), sample_files)"
    by code_simp
  with fence_release [OF this] show ?thesis by simp
qed

lemma release_again: "release (fst (release l a)) b = (fst (release l a), b)"
  by (simp add: release_def)

lemma response_events:
  assumes "l_released l"
  shows "\<exists>armed'. foldl responseEvent (armed, l, a) es = (armed', l, a)"
  using assms
proof (induction es arbitrary: armed)
  case (Cons e es)
  then show ?case by (cases e) (auto simp: responseEvent_def release_def)
qed simp

text \<open>
  A request gives its lease back exactly once: whatever order and number of \<^verbatim>\<open>finish\<close> events
  and \<^verbatim>\<open>end\<close> calls its response sees, as long as there is one, the lease is removed and every
  other lease is kept.
\<close>

theorem response_releases_once:
  assumes "es \<noteq> []" and "\<not> l_released l"
  shows "\<exists>armed. releaseLeaseWhenResponseCompletes l a es = (armed, l\<lparr>l_released := True\<rparr>, dropLease a (l_id l))"
proof -
  obtain e es' where es: "es = e # es'" using assms(1) by (cases es) auto
  obtain armed where "responseEvent (True, l, a) e = (armed, l\<lparr>l_released := True\<rparr>, dropLease a (l_id l))"
    using assms(2) by (cases e) (auto simp: responseEvent_def release_def)
  then show ?thesis
    using response_events [of "l\<lparr>l_released := True\<rparr>" armed "dropLease a (l_id l)" es']
    by (simp add: releaseLeaseWhenResponseCompletes_def es)
qed

theorem response_releases_once_witness:
  "\<exists>armed. releaseLeaseWhenResponseCompletes \<lparr>l_id = ''b'', l_released = False\<rparr>
       (sample_admission\<lparr>a_leases := [(''a'', RunTask), (''b'', External)]\<rparr>) [EndCall, FinishEvent, EndCall] =
     (armed, \<lparr>l_id = ''b'', l_released = True\<rparr>, sample_admission\<lparr>a_leases := [(''a'', RunTask)]\<rparr>)"
  using response_releases_once [of "[EndCall, FinishEvent, EndCall]" "\<lparr>l_id = ''b'', l_released = False\<rparr>"
      "sample_admission\<lparr>a_leases := [(''a'', RunTask), (''b'', External)]\<rparr>"]
  by (simp add: dropLease_def obj_delete_def)

end
