(* ===== verification/Consensus.thy ===== *)
theory Consensus
  imports JsLaws
begin

text \<open>
  \<^verbatim>\<open>engine/src/audit/consensus.ts\<close>: the evidence bundle of a finished execution and the verdict
  that combines its technical status with the decision of a visual auditor. The records follow the
  interfaces of \<^verbatim>\<open>audit/consensus.ts\<close> and \<^verbatim>\<open>automation/action-types.ts\<close>; a property the code reads
  with \<^verbatim>\<open>?.\<close> is an option. A checkpoint is passed through unread and is a plain value.
\<close>

section \<open>Data\<close>

datatype backend_status = PASO | FALLO | BLOQUEADO

record qa_step =
  q_number :: jnum
  q_action :: jstr
  q_data :: jstr
  q_expected :: jstr

record validation =
  v_ok :: bool
  v_reason :: jstr
  v_conclusive :: bool

record ai_action =
  act_name :: jstr
  act_reason :: jstr

record execution_outcome =
  e_ok :: bool
  e_message :: jstr

record page_view =
  pv_url :: jstr
  pv_title :: jstr
  pv_text :: "jstr list"

record contract_view =
  c_coverage :: jstr
  c_unresolved :: "jstr list"

record history_item =
  h_step :: jnum
  h_attempt :: jnum
  h_before :: "page_view option"
  h_after :: "page_view option"
  h_action :: "ai_action option"
  h_execution :: "execution_outcome option"
  h_screenshot :: "jstr option"
  h_validation :: "validation option"
  h_post :: "validation option"
  h_contract :: "contract_view option"
  h_checkpoint :: "jval option"

record step_run =
  s_number :: jnum
  s_status :: backend_status
  s_history :: "history_item list"

record audit_decision =
  d_status :: jstr
  d_reason :: jstr
  d_confidence :: jnum
  d_evidence :: "jstr list"
  d_failed :: "jstr list"
  d_missing :: "jstr list"
  d_contradictions :: "jstr list"

record audit_attempt =
  at_ref :: jstr
  at_step :: jnum
  at_attempt :: jnum
  at_expected :: jstr
  at_action :: jstr
  at_action_reason :: jstr
  at_execution_ok :: bool
  at_execution_message :: jstr
  at_validation_ok :: bool
  at_validation_reason :: jstr
  at_conclusive :: bool
  at_url_before :: jstr
  at_url_after :: jstr
  at_title_after :: jstr
  at_text_after :: "jstr list"
  at_screenshot :: "jstr option"
  at_coverage :: "jstr option"
  at_unresolved :: "jstr list option"
  at_checkpoint :: "jval option"

record audit_step =
  as_number :: jnum
  as_action :: jstr
  as_data :: jstr
  as_expected :: jstr
  as_status :: backend_status
  as_attempts :: "audit_attempt list"

record audit_summary =
  su_total :: nat
  su_passed :: nat
  su_failed :: nat
  su_conclusive :: nat
  su_failed_assertions :: nat
  su_screenshots :: nat
  su_full :: nat
  su_partial :: nat
  su_semantic :: nat

record audit_bundle =
  b_objective :: jstr
  b_status :: backend_status
  b_errors :: "jstr list"
  b_final_url :: jstr
  b_final_title :: jstr
  b_steps :: "audit_step list"
  b_summary :: audit_summary

record audit_image =
  im_ref :: jstr
  im_base64 :: jstr

datatype resolution = Agreement | TechnicalFailure | TechnicalOverride | InsufficientEvidence

record audit_consensus =
  co_status :: backend_status
  co_reason :: jstr
  co_confidence :: jnum
  co_review :: bool
  co_resolution :: resolution

section \<open>Evidence\<close>

text \<open>\<^verbatim>\<open>a || b\<close> on strings.\<close>

definition str_or :: "jstr \<Rightarrow> jstr \<Rightarrow> jstr" where
  "str_or a b = (if a = [] then b else a)"

definition opt_field :: "('a \<Rightarrow> jstr) \<Rightarrow> 'a option \<Rightarrow> jstr" where
  "opt_field f x = (case x of None \<Rightarrow> [] | Some y \<Rightarrow> f y)"

definition normalizeVisualStatus :: "jstr \<Rightarrow> backend_status" where
  "normalizeVisualStatus st =
     (let normalized = toUpperCase st in
      if normalized \<in> {''PASSED'', ''PASS'', ''PASO'', ''SUCCESS'', ''OK''} then PASO
      else if normalized \<in> {''BLOCKED'', ''BLOQUEADO'', ''SKIPPED''} then BLOQUEADO
      else FALLO)"

definition compactVisibleText :: "jstr list \<Rightarrow> jstr list" where
  "compactVisibleText value = map (take 240) (take 30 (filter (\<lambda>t. t \<noteq> []) (map trim value)))"

definition attemptEvidenceRef :: "history_item \<Rightarrow> jstr" where
  "attemptEvidenceRef item = ''step-'' @ num_str (h_step item) @ ''-attempt-'' @ num_str (h_attempt item)"

text \<open>The counters and tables that \<^verbatim>\<open>buildAuditEvidence\<close> updates while it maps the steps.\<close>

record audit_tally =
  ta_images :: "audit_image list"
  ta_refs :: "(jstr \<times> jstr) list"
  ta_conclusive :: nat
  ta_failed :: nat

definition proves :: "history_item \<Rightarrow> bool" where
  "proves item \<longleftrightarrow>
     (case h_execution item of None \<Rightarrow> False | Some e \<Rightarrow> e_ok e) \<and>
     (case h_post item of None \<Rightarrow> False | Some v \<Rightarrow> v_conclusive v \<and> v_ok v)"

text \<open>The index of the last attempt that proves the step, otherwise of the last attempt.\<close>

definition effectiveAttempt :: "history_item list \<Rightarrow> nat option" where
  "effectiveAttempt history =
     (case filter (\<lambda>n. proves (history ! n)) (rev [0..<length history]) of
        n # _ \<Rightarrow> Some n
      | [] \<Rightarrow> if history = [] then None else Some (length history - 1))"

definition screenshotRef :: "audit_tally \<Rightarrow> history_item \<Rightarrow> jstr option" where
  "screenshotRef t item =
     (case h_screenshot item of
        None \<Rightarrow> None
      | Some img \<Rightarrow>
          if img = [] then None
          else Some (case map_of (ta_refs t) img of Some r \<Rightarrow> r | None \<Rightarrow> attemptEvidenceRef item @ ''-screenshot''))"

definition tallyImage :: "audit_tally \<Rightarrow> history_item \<Rightarrow> audit_tally" where
  "tallyImage t item =
     (case (h_screenshot item, screenshotRef t item) of
        (Some img, Some r) \<Rightarrow>
          if map_of (ta_refs t) img = None
          then t\<lparr>ta_refs := (img, r) # ta_refs t, ta_images := ta_images t @ [\<lparr>im_ref = r, im_base64 = img\<rparr>]\<rparr>
          else t
      | _ \<Rightarrow> t)"

definition tallyAssertion :: "bool \<Rightarrow> history_item \<Rightarrow> audit_tally \<Rightarrow> audit_tally" where
  "tallyAssertion effective item t =
     (case h_post item of
        Some v \<Rightarrow>
          if effective \<and> v_conclusive v
          then t\<lparr>ta_conclusive := ta_conclusive t + 1, ta_failed := (if v_ok v then ta_failed t else ta_failed t + 1)\<rparr>
          else t
      | None \<Rightarrow> t)"

definition auditAttempt :: "qa_step \<Rightarrow> history_item \<Rightarrow> jstr option \<Rightarrow> audit_attempt" where
  "auditAttempt step item shot =
     \<lparr>at_ref = attemptEvidenceRef item, at_step = h_step item, at_attempt = h_attempt item,
      at_expected = str_or (q_expected step) ''-'',
      at_action = str_or (opt_field act_name (h_action item)) ''-'',
      at_action_reason = str_or (opt_field act_reason (h_action item)) ''-'',
      at_execution_ok = (case h_execution item of None \<Rightarrow> False | Some e \<Rightarrow> e_ok e),
      at_execution_message = str_or (opt_field e_message (h_execution item)) ''-'',
      at_validation_ok = (case h_post item of Some v \<Rightarrow> v_ok v | None \<Rightarrow> (case h_validation item of Some v \<Rightarrow> v_ok v | None \<Rightarrow> False)),
      at_validation_reason = str_or (opt_field v_reason (h_post item)) (str_or (opt_field v_reason (h_validation item)) ''Sin validacion registrada''),
      at_conclusive = (case h_post item of Some v \<Rightarrow> v_conclusive v | None \<Rightarrow> False),
      at_url_before = opt_field pv_url (h_before item), at_url_after = opt_field pv_url (h_after item),
      at_title_after = opt_field pv_title (h_after item),
      at_text_after = compactVisibleText (case h_after item of None \<Rightarrow> [] | Some v \<Rightarrow> pv_text v),
      at_screenshot = shot,
      at_coverage = (case h_contract item of None \<Rightarrow> None | Some c \<Rightarrow> if c_coverage c = [] then None else Some (c_coverage c)),
      at_unresolved = map_option c_unresolved (h_contract item),
      at_checkpoint = h_checkpoint item\<rparr>"

fun auditAttempts :: "qa_step \<Rightarrow> nat option \<Rightarrow> nat \<Rightarrow> history_item list \<Rightarrow> audit_tally \<Rightarrow> audit_attempt list \<times> audit_tally" where
  "auditAttempts step eff n [] t = ([], t)"
| "auditAttempts step eff n (item # items) t =
     (case auditAttempts step eff (Suc n) items (tallyAssertion (eff = Some n) item (tallyImage t item)) of
        (as, t') \<Rightarrow> (auditAttempt step item (screenshotRef t item) # as, t'))"

definition auditStep :: "step_run list \<Rightarrow> qa_step \<Rightarrow> audit_tally \<Rightarrow> audit_step \<times> audit_tally" where
  "auditStep resultSteps step t =
     (let found = map_of (rev (map (\<lambda>r. (s_number r, r)) resultSteps)) (q_number step);
          history = (case found of None \<Rightarrow> [] | Some r \<Rightarrow> s_history r)
      in case auditAttempts step (effectiveAttempt history) 0 history t of
           (attempts, t') \<Rightarrow>
             (\<lparr>as_number = q_number step, as_action = str_or (q_action step) ''-'', as_data = str_or (q_data step) ''-'',
               as_expected = str_or (q_expected step) ''-'',
               as_status = (case found of None \<Rightarrow> BLOQUEADO | Some r \<Rightarrow> s_status r), as_attempts = attempts\<rparr>, t'))"

fun auditSteps :: "step_run list \<Rightarrow> qa_step list \<Rightarrow> audit_tally \<Rightarrow> audit_step list \<times> audit_tally" where
  "auditSteps rs [] t = ([], t)"
| "auditSteps rs (q # qs) t =
     (case auditStep rs q t of (s, t1) \<Rightarrow> (case auditSteps rs qs t1 of (ss, t2) \<Rightarrow> (s # ss, t2)))"

definition technicalStatus :: "qa_step list \<Rightarrow> step_run list \<Rightarrow> jstr list \<Rightarrow> backend_status" where
  "technicalStatus qaSteps resultSteps errors =
     (if errors \<noteq> [] then (if list_ex (\<lambda>r. s_status r = FALLO) resultSteps then FALLO else BLOQUEADO)
      else if length resultSteps = length qaSteps \<and> list_all (\<lambda>r. s_status r = PASO) resultSteps then PASO else BLOQUEADO)"

definition covers :: "jstr \<Rightarrow> audit_step \<Rightarrow> bool" where
  "covers c s = list_ex (\<lambda>a. at_coverage a = Some c) (as_attempts s)"

definition buildAuditEvidence ::
  "jstr \<Rightarrow> qa_step list \<Rightarrow> step_run list \<Rightarrow> jstr list \<Rightarrow> audit_bundle \<times> audit_image list" where
  "buildAuditEvidence objective qaSteps resultSteps errors =
     (case auditSteps resultSteps qaSteps \<lparr>ta_images = [], ta_refs = [], ta_conclusive = 0, ta_failed = 0\<rparr> of
        (steps, t) \<Rightarrow>
          (let attempts = concat (map as_attempts steps);
               final = (if attempts = [] then None else Some (last attempts))
           in (\<lparr>b_objective = objective, b_status = technicalStatus qaSteps resultSteps errors, b_errors = errors,
                b_final_url = opt_field at_url_after final, b_final_title = opt_field at_title_after final,
                b_steps = steps,
                b_summary = \<lparr>su_total = length qaSteps,
                  su_passed = length (filter (\<lambda>r. s_status r = PASO) resultSteps),
                  su_failed = length (filter (\<lambda>r. s_status r \<noteq> PASO) resultSteps),
                  su_conclusive = ta_conclusive t, su_failed_assertions = ta_failed t, su_screenshots = length (ta_images t),
                  su_full = length (filter (covers ''full'') steps), su_partial = length (filter (covers ''partial'') steps),
                  su_semantic = length (filter (\<lambda>s. \<not> covers ''full'' s) steps)\<rparr>\<rparr>,
               drop (length (ta_images t) - 6) (ta_images t))))"

section \<open>Verdict\<close>

definition clampConfidence :: "jval \<Rightarrow> jnum" where
  "clampConfidence v = num_max (Fin 0) (num_min (Fin 100) (num_round (to_number (js_or v (num 0)))))"

definition attemptRefs :: "audit_attempt \<Rightarrow> jstr list" where
  "attemptRefs a = filter (\<lambda>r. r \<noteq> []) (at_ref a # (case at_screenshot a of None \<Rightarrow> [] | Some r \<Rightarrow> [r]))"

definition validEvidenceRefs :: "audit_bundle \<Rightarrow> jstr list" where
  "validEvidenceRefs b = concat (map attemptRefs (concat (map as_attempts (b_steps b))))"

definition citedEvidenceRefs :: "audit_bundle \<Rightarrow> audit_decision \<Rightarrow> jstr list" where
  "citedEvidenceRefs b d = filter (\<lambda>r. r \<in> set (validEvidenceRefs b)) (d_evidence d)"

definition visualDecisionHasEvidence :: "audit_bundle \<Rightarrow> audit_decision \<Rightarrow> bool" where
  "visualDecisionHasEvidence b d \<longleftrightarrow>
     0 < length (citedEvidenceRefs b d) \<and> length (citedEvidenceRefs b d) = length (d_evidence d)"

definition visualPassCanOverride :: "audit_bundle \<Rightarrow> audit_decision \<Rightarrow> bool" where
  "visualPassCanOverride b d \<longleftrightarrow>
     b_status b = FALLO \<and> normalizeVisualStatus (d_status d) = PASO \<and> visualDecisionHasEvidence b d \<and>
     num_le (Fin 80) (clampConfidence (JNum (d_confidence d))) \<and>
     d_failed d = [] \<and> d_missing d = [] \<and> d_contradictions d = [] \<and>
     list_ex (\<lambda>s. as_status s = FALLO) (b_steps b) \<and>
     list_all (\<lambda>s. as_status s \<noteq> FALLO \<or>
       list_ex (\<lambda>a. at_execution_ok a \<and> at_conclusive a \<and> \<not> at_validation_ok a) (as_attempts s)) (b_steps b)"

definition semanticStepsHaveEvidence :: "audit_bundle \<Rightarrow> audit_decision \<Rightarrow> bool" where
  "semanticStepsHaveEvidence b d \<longleftrightarrow>
     list_all (\<lambda>s. as_attempts s = [] \<or> (case at_unresolved (last (as_attempts s)) of None \<Rightarrow> True | Some us \<Rightarrow> us = []) \<or>
         at_ref (last (as_attempts s)) \<in> set (citedEvidenceRefs b d) \<or>
         (case at_screenshot (last (as_attempts s)) of None \<Rightarrow> False | Some r \<Rightarrow> r \<noteq> [] \<and> r \<in> set (citedEvidenceRefs b d)))
       (b_steps b)"

definition conclusiveTechnicalEvidence :: "audit_bundle \<Rightarrow> bool" where
  "conclusiveTechnicalEvidence b \<longleftrightarrow>
     b_steps b \<noteq> [] \<and>
     list_all (\<lambda>s. as_status s = PASO \<and> list_ex (\<lambda>a. at_conclusive a \<and> at_validation_ok a) (as_attempts s)) (b_steps b) \<and>
     su_failed_assertions (b_summary b) = 0"

definition visualFailureHasEvidence :: "audit_bundle \<Rightarrow> audit_decision \<Rightarrow> bool" where
  "visualFailureHasEvidence b d \<longleftrightarrow>
     normalizeVisualStatus (d_status d) = FALLO \<and> visualDecisionHasEvidence b d \<and> d_failed d \<noteq> [] \<and> d_missing d = []"

text \<open>\<^verbatim>\<open>confidence || n\<close>.\<close>

definition num_or :: "jnum \<Rightarrow> rat \<Rightarrow> jnum" where
  "num_or n q = (if truthy (JNum n) then n else Fin q)"

definition technicalFailure :: "audit_bundle \<Rightarrow> jnum \<Rightarrow> audit_consensus" where
  "technicalFailure b conf =
     (let deterministic = (b_status b = FALLO \<and> 0 < su_failed_assertions (b_summary b)) in
      \<lparr>co_status = b_status b,
       co_reason = str_or (join '' | '' (b_errors b)) ''La ejecucion tecnica no finalizo correctamente.'',
       co_confidence = (if deterministic then Fin 100 else num_max conf (Fin 90)),
       co_review = (\<not> deterministic), co_resolution = TechnicalFailure\<rparr>)"

definition resolveAuditConsensus :: "audit_bundle \<Rightarrow> audit_decision \<Rightarrow> audit_consensus" where
  "resolveAuditConsensus b d =
     (let visual = normalizeVisualStatus (d_status d);
          conf = clampConfidence (JNum (d_confidence d))
      in if visualPassCanOverride b d then
           \<lparr>co_status = PASO,
            co_reason = ''La evidencia visual citada confirma el resultado esperado y corrige una asercion textual determinista: '' @ d_reason d,
            co_confidence = conf, co_review = num_lt conf (Fin 90), co_resolution = TechnicalOverride\<rparr>
         else if b_status b \<noteq> PASO then technicalFailure b conf
         else if visual = PASO \<and> visualDecisionHasEvidence b d \<and> semanticStepsHaveEvidence b d \<and>
                 d_missing d = [] \<and> d_contradictions d = [] \<and> d_failed d = [] then
           \<lparr>co_status = PASO, co_reason = str_or (d_reason d) ''La evidencia tecnica y la auditoria final coinciden.'',
            co_confidence = conf, co_review = (num_lt conf (Fin 70) \<or> d_missing d \<noteq> [] \<or> d_contradictions d \<noteq> []),
            co_resolution = Agreement\<rparr>
         else if conclusiveTechnicalEvidence b then
           \<lparr>co_status = PASO,
            co_reason = ''La ejecucion tecnica comprobo el resultado, pero la auditoria visual no pudo confirmarlo de forma trazable: '' @
              (if visual = PASO then ''el auditor no cito evidencia valida para sostener su dictamen''
               else str_or (d_reason d) ''sin motivo detallado''),
            co_confidence = num_min (num_or conf 70) (Fin 85), co_review = True, co_resolution = TechnicalOverride\<rparr>
         else if visualFailureHasEvidence b d then
           \<lparr>co_status = FALLO,
            co_reason = str_or (d_reason d) ''La evidencia citada demuestra que no se cumplio el resultado esperado.'',
            co_confidence = conf, co_review = (num_lt conf (Fin 70) \<or> d_contradictions d \<noteq> []), co_resolution = Agreement\<rparr>
         else
           \<lparr>co_status = BLOQUEADO,
            co_reason = ''La ejecucion tecnica termino sin errores, pero falta evidencia determinista para resolver el dictamen del auditor: '' @
              (if visualDecisionHasEvidence b d then str_or (d_reason d) ''sin motivo detallado''
               else ''no se citaron referencias de evidencia validas''),
            co_confidence = num_min (num_or conf 60) (Fin 70), co_review = True, co_resolution = InsufficientEvidence\<rparr>)"

definition stringList :: "jval \<Rightarrow> jstr list" where
  "stringList v = (if is_array v then map to_string (arr_elems v) else [])"

definition normalizeAuditDecision :: "jval \<Rightarrow> audit_decision" where
  "normalizeAuditDecision v =
     (let st = toUpperCase (to_string (js_or (js_get v ''status'') (JStr ''BLOCKED''))) in
      \<lparr>d_status = (if st \<in> {''PASSED'', ''FAILED'', ''BLOCKED'', ''SKIPPED''} then st else ''BLOCKED''),
       d_reason = to_string (js_or (js_get v ''reason'') (JStr ''El auditor no devolvio un motivo verificable.'')),
       d_confidence = clampConfidence (js_get v ''confidence''),
       d_evidence = stringList (js_get v ''evidence_refs''),
       d_failed = stringList (js_get v ''failed_expectations''),
       d_missing = stringList (js_get v ''missing_evidence''),
       d_contradictions = stringList (js_get v ''contradictions'')\<rparr>)"

section \<open>Confidence\<close>

lemma clampConfidence_JNum: "\<exists>q. clampConfidence (JNum n) = Fin q \<and> 0 \<le> q \<and> q \<le> 100"
  by (cases n) (auto simp: clampConfidence_def js_or_def num_max_def num_min_def)

section \<open>Evidence\<close>

text \<open>Every screenshot is stored once, under the reference of the attempt that stored it.\<close>

definition tally_inv :: "audit_tally \<Rightarrow> bool" where
  "tally_inv t \<longleftrightarrow> distinct (map im_base64 (ta_images t)) \<and> fst ` set (ta_refs t) = im_base64 ` set (ta_images t)"

definition shown_by :: "audit_attempt list \<Rightarrow> audit_image \<Rightarrow> bool" where
  "shown_by as i \<longleftrightarrow> im_ref i \<noteq> [] \<and> (\<exists>a \<in> set as. at_screenshot a = Some (im_ref i))"

lemma tallyAssertion_simps [simp]:
  "ta_images (tallyAssertion e item t) = ta_images t" "ta_refs (tallyAssertion e item t) = ta_refs t"
  by (simp_all add: tallyAssertion_def split: option.splits)

lemma tallyAssertion_inv [simp]: "tally_inv (tallyAssertion e item t) = tally_inv t"
  by (simp add: tally_inv_def)

lemma tallyAssertion_counts:
  "ta_conclusive t \<le> ta_conclusive (tallyAssertion e item t)"
  "ta_conclusive (tallyAssertion e item t) \<le> ta_conclusive t + (if e then 1 else 0)"
  "ta_failed (tallyAssertion e item t) + ta_conclusive t \<le> ta_conclusive (tallyAssertion e item t) + ta_failed t"
  by (auto simp: tallyAssertion_def split: option.splits)

lemma tallyImage_counts [simp]:
  "ta_conclusive (tallyImage t item) = ta_conclusive t" "ta_failed (tallyImage t item) = ta_failed t"
  by (simp_all add: tallyImage_def split: option.splits)

lemma tallyImage_inv:
  assumes "tally_inv t"
  shows "tally_inv (tallyImage t item)"
proof -
  have "img \<notin> im_base64 ` set (ta_images t)" if "map_of (ta_refs t) img = None" for img
    using that assms by (simp add: tally_inv_def map_of_eq_None_iff)
  then show ?thesis using assms by (auto simp: tallyImage_def tally_inv_def split: option.splits)
qed

lemma tallyImage_new:
  assumes "i \<in> set (ta_images (tallyImage t item))"
  shows "i \<in> set (ta_images t) \<or> im_ref i \<noteq> [] \<and> screenshotRef t item = Some (im_ref i)"
  using assms by (auto simp: tallyImage_def screenshotRef_def attemptEvidenceRef_def split: option.splits if_splits)

lemma auditAttempts_inv:
  "auditAttempts step eff n items t = (as, t') \<Longrightarrow> tally_inv t \<Longrightarrow> tally_inv t'"
proof (induction step eff n items t arbitrary: as t' rule: auditAttempts.induct)
  case (2 step eff n item items t)
  then show ?case by (auto simp: tallyImage_inv split: prod.splits)
qed simp

lemma auditAttempts_images:
  "auditAttempts step eff n items t = (as, t') \<Longrightarrow> i \<in> set (ta_images t') \<Longrightarrow> i \<in> set (ta_images t) \<or> shown_by as i"
proof (induction step eff n items t arbitrary: as t' rule: auditAttempts.induct)
  case (2 step eff n item items t)
  obtain as0 where r: "auditAttempts step eff (Suc n) items (tallyAssertion (eff = Some n) item (tallyImage t item)) = (as0, t')"
    and as: "as = auditAttempt step item (screenshotRef t item) # as0"
    using "2.prems"(1) by (auto split: prod.splits)
  from "2.IH" [OF r "2.prems"(2)] consider "i \<in> set (ta_images (tallyImage t item))" | "shown_by as0 i" by auto
  then show ?case
  proof cases
    case 1
    then show ?thesis using tallyImage_new [OF 1] by (auto simp: as shown_by_def auditAttempt_def)
  next
    case 2
    then show ?thesis by (auto simp: as shown_by_def)
  qed
qed simp

lemma auditAttempts_counts:
  "auditAttempts step eff n items t = (as, t') \<Longrightarrow>
     ta_conclusive t' \<le> ta_conclusive t + (if \<exists>k\<ge>n. eff = Some k then 1 else 0) \<and>
     ta_failed t' + ta_conclusive t \<le> ta_conclusive t' + ta_failed t"
proof (induction step eff n items t arbitrary: as t' rule: auditAttempts.induct)
  case (2 step eff n item items t)
  let ?u = "tallyAssertion (eff = Some n) item (tallyImage t item)"
  obtain as0 where r: "auditAttempts step eff (Suc n) items ?u = (as0, t')"
    using "2.prems" by (auto split: prod.splits)
  note ih = "2.IH" [OF r]
  note c = tallyAssertion_counts [where t = "tallyImage t item" and e = "eff = Some n" and item = item]
  have "(if eff = Some n then 1 else 0) + (if \<exists>k\<ge>Suc n. eff = Some k then 1 else 0) \<le> (if \<exists>k\<ge>n. eff = Some k then 1 else (0 :: nat))"
    by (auto dest: Suc_leD)
  then show ?case using ih c by (simp del: if_split)
qed simp

lemma auditSteps_spec:
  "auditSteps rs qs t = (ss, t') \<Longrightarrow> tally_inv t \<Longrightarrow>
     tally_inv t' \<and> length ss = length qs \<and>
     (\<forall>i \<in> set (ta_images t'). i \<in> set (ta_images t) \<or> shown_by (concat (map as_attempts ss)) i) \<and>
     ta_conclusive t' \<le> ta_conclusive t + length qs \<and> ta_failed t' + ta_conclusive t \<le> ta_conclusive t' + ta_failed t"
proof (induction rs qs t arbitrary: ss t' rule: auditSteps.induct)
  case (2 rs q qs t)
  obtain s t1 ss0 where s: "auditStep rs q t = (s, t1)" and r: "auditSteps rs qs t1 = (ss0, t')" and ss: "ss = s # ss0"
    using "2.prems"(1) by (auto split: prod.splits)
  obtain eff items where a: "auditAttempts q eff 0 items t = (as_attempts s, t1)"
    using s by (auto simp: auditStep_def Let_def split: prod.splits)
  have "tally_inv t1" using auditAttempts_inv [OF a "2.prems"(2)] .
  note ih = "2.IH" [OF s [symmetric] r this]
  have "shown_by (as_attempts s @ xs) i" if "shown_by (as_attempts s) i \<or> shown_by xs i" for xs i
    using that by (auto simp: shown_by_def)
  then show ?case
    using ih auditAttempts_images [OF a] auditAttempts_counts [OF a] by (auto simp: ss split: if_splits)
qed simp

lemma evidence_spec:
  assumes "buildAuditEvidence objective qaSteps resultSteps errors = (b, images)"
  shows "distinct (map im_base64 images) \<and> length images = min 6 (su_screenshots (b_summary b)) \<and>
    im_ref ` set images \<subseteq> set (validEvidenceRefs b) \<and>
    su_failed_assertions (b_summary b) \<le> su_conclusive (b_summary b) \<and> su_conclusive (b_summary b) \<le> length qaSteps \<and>
    length (b_steps b) = length qaSteps"
proof -
  let ?t = "\<lparr>ta_images = [], ta_refs = [], ta_conclusive = 0, ta_failed = 0\<rparr>"
  obtain ss t where r: "auditSteps resultSteps qaSteps ?t = (ss, t)"
    by (cases "auditSteps resultSteps qaSteps ?t")
  have inv: "tally_inv ?t" by (simp add: tally_inv_def)
  note sp = auditSteps_spec [OF r inv]
  have b: "b_steps b = ss" "su_screenshots (b_summary b) = length (ta_images t)" "su_conclusive (b_summary b) = ta_conclusive t"
    "su_failed_assertions (b_summary b) = ta_failed t" and images: "images = drop (length (ta_images t) - 6) (ta_images t)"
    using assms r by (auto simp: buildAuditEvidence_def Let_def)
  have "im_ref i \<in> set (validEvidenceRefs b)" if "i \<in> set images" for i
  proof -
    have "i \<in> set (ta_images t)" using that images by (auto dest: in_set_dropD)
    then have "shown_by (concat (map as_attempts ss)) i" using sp by auto
    then show ?thesis by (force simp: shown_by_def validEvidenceRefs_def attemptRefs_def b(1))
  qed
  moreover have "distinct (map im_base64 images)"
    using sp by (auto simp: images tally_inv_def drop_map [symmetric])
  ultimately show ?thesis using sp b images by auto
qed

lemma hasEvidence_iff:
  "visualDecisionHasEvidence b d \<longleftrightarrow> d_evidence d \<noteq> [] \<and> set (d_evidence d) \<subseteq> set (validEvidenceRefs b)"
proof -
  have "length (filter P xs) = length xs \<longleftrightarrow> list_all P xs" for P and xs :: "jstr list"
    by (induction xs) (auto simp: list_all_iff, metis Suc_n_not_le_n length_filter_le)
  then have "length (citedEvidenceRefs b d) = length (d_evidence d) \<longleftrightarrow> set (d_evidence d) \<subseteq> set (validEvidenceRefs b)"
    by (auto simp: citedEvidenceRefs_def list_all_iff)
  then show ?thesis unfolding visualDecisionHasEvidence_def by (metis length_greater_0_conv)
qed

section \<open>Properties\<close>

text \<open>
  C8. A case passes only for a reason: when the consensus is \<^verbatim>\<open>PASO\<close>, the execution was not
  technically blocked, and either every step was conclusively proved by the execution itself, or the
  auditor passed it, reported nothing failed, missing or contradictory, and cited at least one
  evidence reference, all of them references of the bundle; overriding a technical failure takes a
  confidence of at least 80. Without human review only the second reason counts, with confidence of
  at least 70.
\<close>

theorem consensus_pass_justified:
  assumes "co_status (resolveAuditConsensus b d) = PASO"
  shows "b_status b \<noteq> BLOQUEADO \<and>
    (b_status b = PASO \<and> conclusiveTechnicalEvidence b \<and> co_review (resolveAuditConsensus b d) \<or>
     normalizeVisualStatus (d_status d) = PASO \<and> d_failed d = [] \<and> d_missing d = [] \<and> d_contradictions d = [] \<and>
     d_evidence d \<noteq> [] \<and> set (d_evidence d) \<subseteq> set (validEvidenceRefs b) \<and>
     (b_status b = FALLO \<longrightarrow> num_le (Fin 80) (co_confidence (resolveAuditConsensus b d))) \<and>
     (co_review (resolveAuditConsensus b d) \<or> num_le (Fin 70) (co_confidence (resolveAuditConsensus b d))))"
proof -
  obtain q where q: "clampConfidence (JNum (d_confidence d)) = Fin q" using clampConfidence_JNum by blast
  show ?thesis
    using assms
    by (auto simp: resolveAuditConsensus_def technicalFailure_def visualPassCanOverride_def hasEvidence_iff Let_def q split: if_splits)
qed

text \<open>Every consensus carries a confidence between 0 and 100, whatever number the auditor reported.\<close>

theorem consensus_confidence_bounds:
  "\<exists>q. co_confidence (resolveAuditConsensus b d) = Fin q \<and> 0 \<le> q \<and> q \<le> 100"
proof -
  obtain q where q: "clampConfidence (JNum (d_confidence d)) = Fin q" "0 \<le> q" "q \<le> 100" using clampConfidence_JNum by blast
  then show ?thesis
    by (auto simp: resolveAuditConsensus_def technicalFailure_def Let_def num_or_def)
qed


definition sample_item :: "rat \<Rightarrow> jstr \<Rightarrow> bool \<Rightarrow> history_item" where
  "sample_item n shot ok =
     \<lparr>h_step = Fin 1, h_attempt = Fin n, h_before = None, h_after = None, h_action = None,
      h_execution = Some \<lparr>e_ok = True, e_message = []\<rparr>, h_screenshot = Some shot, h_validation = None,
      h_post = Some \<lparr>v_ok = ok, v_reason = [], v_conclusive = True\<rparr>, h_contract = None, h_checkpoint = None\<rparr>"

definition sample_qa :: "qa_step list" where
  "sample_qa = [\<lparr>q_number = Fin 1, q_action = ''click'', q_data = [], q_expected = ''ok''\<rparr>]"

definition sample_runs :: "step_run list" where
  "sample_runs = [\<lparr>s_number = Fin 1, s_status = PASO,
     s_history = [sample_item 1 ''aa'' False, sample_item 2 ''bb'' True, sample_item 3 ''aa'' False]\<rparr>]"

definition sample_bundle :: audit_bundle where
  "sample_bundle = fst (buildAuditEvidence ''login'' sample_qa sample_runs [])"

definition sample_decision :: audit_decision where
  "sample_decision = \<lparr>d_status = ''PASSED'', d_reason = ''seen'', d_confidence = Fin 95,
     d_evidence = [''step-1-attempt-1-screenshot''], d_failed = [], d_missing = [], d_contradictions = []\<rparr>"

theorem consensus_pass_justified_witness:
  "co_status (resolveAuditConsensus sample_bundle sample_decision) = PASO \<and>
   set (d_evidence sample_decision) \<subseteq> set (validEvidenceRefs sample_bundle)"
proof -
  have p: "co_status (resolveAuditConsensus sample_bundle sample_decision) = PASO" "\<not> co_review (resolveAuditConsensus sample_bundle sample_decision)"
    by code_simp+
  with consensus_pass_justified [OF p(1)] show ?thesis by simp
qed


end
