(* ===== verification/SecureTransport.thy ===== *)
theory SecureTransport
  imports JsLaws "HOL-Library.Word"
begin

unbundle bit_operations_syntax

text \<open>
  \<^verbatim>\<open>engine/src/ai/mcp-secure-transport.ts\<close>: which destinations the engine refuses to contact, the
  resolution of a host name to a safe address, and the fetch that is pinned to it.

  \<^verbatim>\<open>net.isIP\<close> is the syntax check of Node. The result of \<^verbatim>\<open>new URL\<close> is the record \<open>url\<close> and the
  parser is a parameter where a text has to be parsed; so are the resolver and the network. A 32-bit
  integer is a word, a \<^verbatim>\<open>bigint\<close> an integer. Octets and groups that reach the arithmetic have
  passed \<^verbatim>\<open>isIP\<close> (or are the constants of the file), so shift-and-or is base 256 or 65536 notation.
\<close>

section \<open>Address syntax\<close>

definition is_octet :: "jstr \<Rightarrow> bool" where
  "is_octet s \<longleftrightarrow>
     (if all_digits s \<and> length s \<le> 3 \<and> (length s = 1 \<or> hd s \<noteq> CHR ''0'') then digits_val s \<le> 255 else False)"

definition isIPv4 :: "jstr \<Rightarrow> bool" where
  "isIPv4 s \<longleftrightarrow> length (split_on (CHR ''.'') s) = 4 \<and> list_all is_octet (split_on (CHR ''.'') s)"

text \<open>\<^verbatim>\<open>text.split('::')\<close>\<close>

fun split_double :: "jstr \<Rightarrow> jstr list" where
  "split_double [] = [[]]"
| "split_double [c] = [[c]]"
| "split_double (c # d # cs) =
     (if c = CHR '':'' \<and> d = CHR '':'' then [] # split_double cs
      else (case split_double (d # cs) of [] \<Rightarrow> [[c]] | w # ws \<Rightarrow> (c # w) # ws))"

definition is_group :: "jstr \<Rightarrow> bool" where
  "is_group s \<longleftrightarrow> s \<noteq> [] \<and> length s \<le> 4 \<and> list_all (\<lambda>c. hex_val c \<noteq> None) s"

text \<open>How many groups a list of pieces stands for: the last one may be an IPv4 address, which counts twice.\<close>

definition group_count :: "bool \<Rightarrow> jstr list \<Rightarrow> nat option" where
  "group_count tail ws =
     (if ws = [] then Some 0
      else if list_all is_group ws then Some (length ws)
      else if tail \<and> list_all is_group (butlast ws) \<and> isIPv4 (last ws) then Some (length ws + 1)
      else None)"

definition pieces :: "jstr \<Rightarrow> jstr list" where
  "pieces s = (if s = [] then [] else split_on (CHR '':'') s)"

definition ipv6_body :: "jstr \<Rightarrow> bool" where
  "ipv6_body s \<longleftrightarrow>
     (case split_double s of
        [a] \<Rightarrow> group_count True (pieces a) = Some 8
      | [a, b] \<Rightarrow>
          (case (group_count False (pieces a), group_count True (pieces b)) of
             (Some m, Some n) \<Rightarrow> m + n \<le> 7
           | _ \<Rightarrow> False)
      | _ \<Rightarrow> False)"

definition zone_char :: "char \<Rightarrow> bool" where
  "zone_char c \<longleftrightarrow> (let n = code_unit c in
     (48 \<le> n \<and> n \<le> 57) \<or> (65 \<le> n \<and> n \<le> 90) \<or> (97 \<le> n \<and> n \<le> 122) \<or> c \<in> set ''-.:'')"

definition isIPv6 :: "jstr \<Rightarrow> bool" where
  "isIPv6 s \<longleftrightarrow>
     (let body = takeWhile (\<lambda>c. c \<noteq> CHR ''%'') s; rest = dropWhile (\<lambda>c. c \<noteq> CHR ''%'') s
      in ipv6_body body \<and> CHR '':'' \<in> set body \<and> (rest = [] \<or> tl rest \<noteq> [] \<and> list_all zone_char (tl rest)))"

definition isIP :: "jstr \<Rightarrow> nat" where
  "isIP s = (if isIPv4 s then 4 else if isIPv6 s then 6 else 0)"

section \<open>Numbers of addresses\<close>

definition ipv4ToNumber :: "jstr \<Rightarrow> 32 word" where
  "ipv4ToNumber s = foldl (\<lambda>v part. v * 256 + of_nat (digits_val part)) 0 (split_on (CHR ''.'') s)"

fun hex_str :: "nat \<Rightarrow> jstr" where
  "hex_str n = (if n < 16 then [nibble_char n] else hex_str (n div 16) @ [nibble_char (n mod 16)])"

declare hex_str.simps [simp del]

definition hex_num :: "jstr \<Rightarrow> int" where
  "hex_num s = foldl (\<lambda>n c. 16 * n + (case hex_val c of None \<Rightarrow> 0 | Some d \<Rightarrow> int d)) 0 s"

text \<open>The four numbers of a trailing dotted quad.\<close>

definition dotted_tail :: "jstr \<Rightarrow> (nat \<times> nat \<times> nat \<times> nat) option" where
  "dotted_tail s =
     (let ws = split_on (CHR ''.'') s; n = length ws in
      if n < 4 then None
      else let a = rev (takeWhile is_digit (rev (ws ! (n - 4)))); b = ws ! (n - 3); c = ws ! (n - 2); d = ws ! (n - 1)
        in if a \<noteq> [] \<and> all_digits b \<and> all_digits c \<and> all_digits d
           then Some (digits_val a, digits_val b, digits_val c, digits_val d) else None)"

definition before_last_colon :: "jstr \<Rightarrow> jstr" where
  "before_last_colon s =
     (if CHR '':'' \<in> set s then rev (tl (dropWhile (\<lambda>c. c \<noteq> CHR '':'') (rev s))) else butlast s)"

definition ipv6_normalized :: "jstr \<Rightarrow> jstr" where
  "ipv6_normalized mapped =
     (case dotted_tail mapped of
        Some (a, b, c, d) \<Rightarrow> before_last_colon mapped @ '':'' @ hex_str (256 * a + b) @ '':'' @ hex_str (256 * c + d)
      | None \<Rightarrow> mapped)"

definition ipv6ToBigInt :: "jstr \<Rightarrow> int option" where
  "ipv6ToBigInt address =
     (let halves = split_double (ipv6_normalized (toLowerCase address)) in
      if 2 < length halves then None
      else let left = pieces (halves ! 0);
               right = (if length halves = 2 then pieces (halves ! 1) else []);
               groups = (if length halves = 2 then left @ replicate (8 - length left - length right) ''0'' @ right else left)
        in if length groups \<noteq> 8 \<or> \<not> list_all is_group groups then None
           else Some (foldl (\<lambda>v g. v * 65536 + hex_num g) 0 groups))"

definition inCidr :: "int \<Rightarrow> int \<Rightarrow> nat \<Rightarrow> bool" where
  "inCidr address network bits \<longleftrightarrow> address div 2 ^ (128 - bits) = network div 2 ^ (128 - bits)"

definition v6 :: "jstr \<Rightarrow> nat \<Rightarrow> int \<times> nat" where
  "v6 network bits = (case ipv6ToBigInt network of None \<Rightarrow> 0 | Some n \<Rightarrow> n, bits)"

definition FORBIDDEN_V6 :: "(int \<times> nat) list" where
  "FORBIDDEN_V6 =
     [v6 ''::'' 128, v6 ''::1'' 128, v6 ''::'' 96,
      v6 ''::ffff:0:0'' 96, v6 ''100::'' 64, v6 ''2001::'' 32,
      v6 ''2001:2::'' 48, v6 ''2001:3::'' 48, v6 ''2001:10::'' 28,
      v6 ''2001:20::'' 28, v6 ''2001:db8::'' 32, v6 ''fc00::'' 7,
      v6 ''fe80::'' 10, v6 ''ff00::'' 8, v6 ''2002:c000:204::'' 48]"

definition FORBIDDEN_V4 :: "(32 word \<times> 32 word) list" where
  "FORBIDDEN_V4 =
     [(0x00000000, 0xff000000), (0x0a000000, 0xff000000), (0x64400000, 0xffc00000),
      (0x7f000000, 0xff000000), (0xa9fe0000, 0xffff0000), (0xac100000, 0xfff00000),
      (0xc0000000, 0xffffff00), (0xc0000200, 0xffffff00), (0xc0586300, 0xffffff00),
      (0xc0a80000, 0xffff0000), (0xc6120000, 0xfffe0000), (0xc6336400, 0xffffff00),
      (0xc01fc400, 0xffffff00), (0xc034c100, 0xffffff00),
      (0xcb007100, 0xffffff00), (0xe0000000, 0xf0000000), (0xf0000000, 0xf0000000)]"

section \<open>Forbidden addresses\<close>

definition strip_brackets :: "jstr \<Rightarrow> jstr" where
  "strip_brackets s =
     (let t = (if s \<noteq> [] \<and> hd s = CHR ''['' then tl s else s)
      in if t \<noteq> [] \<and> last t = CHR '']'' then butlast t else t)"

definition strip_dot :: "jstr \<Rightarrow> jstr" where
  "strip_dot s = (if s \<noteq> [] \<and> last s = CHR ''.'' then butlast s else s)"

definition normalHost :: "jstr \<Rightarrow> jstr" where
  "normalHost hostname = strip_dot (toLowerCase (strip_brackets hostname))"

definition is_dotted :: "jstr \<Rightarrow> bool" where
  "is_dotted s \<longleftrightarrow> length (split_on (CHR ''.'') s) = 4 \<and> list_all all_digits (split_on (CHR ''.'') s)"

definition dottedMapped :: "jstr \<Rightarrow> jstr option" where
  "dottedMapped host =
     (if starts_with host ''::ffff:'' \<and> is_dotted (drop 7 host) then Some (drop 7 host)
      else if starts_with host ''::'' \<and> is_dotted (drop 2 host) then Some (drop 2 host)
      else None)"

definition octets :: "int \<Rightarrow> jstr" where
  "octets value =
     join ''.'' (map (\<lambda>n. nat_str (nat n)) [value div 2 ^ 24, value div 2 ^ 16 mod 256, value div 2 ^ 8 mod 256, value mod 256])"

definition forbiddenV4 :: "jstr \<Rightarrow> bool" where
  "forbiddenV4 host = list_ex (\<lambda>(network, msk). ipv4ToNumber host AND msk = network) FORBIDDEN_V4"

lemma colon_normalHost: "CHR '':'' \<in> set (normalHost h) \<Longrightarrow> CHR '':'' \<in> set h"
proof -
  have l: "c = CHR '':''" if "lower_char c = CHR '':''" for c
  proof -
    have n: "of_char (lower_char c) = (58 :: nat)" using that by simp
    have "of_char c < (256 :: nat)" by simp
    then have "lower_char c = c"
      using n by (auto simp: lower_char_def Let_def code_unit_def split: if_splits)
    with that show ?thesis by simp
  qed
  have b: "set (strip_brackets s) \<subseteq> set s" for s
    by (auto simp: strip_brackets_def Let_def dest: in_set_butlastD list.set_sel(2) split: if_splits)
  have d: "set (strip_dot s) \<subseteq> set s" for s
    by (auto simp: strip_dot_def dest: in_set_butlastD)
  assume "CHR '':'' \<in> set (normalHost h)"
  then have "CHR '':'' \<in> set (toLowerCase (strip_brackets h))" using d by (auto simp: normalHost_def)
  then show ?thesis using b l by (fastforce simp: toLowerCase_def)
qed

lemma no_colon_dotted: "is_dotted s \<Longrightarrow> CHR '':'' \<notin> set s"
proof -
  assume "is_dotted s"
  then have "\<forall>w \<in> set (split_on (CHR ''.'') s). CHR '':'' \<notin> set w"
    by (force simp: is_dotted_def list_all_iff all_digits_def is_digit_def code_unit_def)
  moreover have "CHR '':'' \<in> set s \<Longrightarrow> \<exists>w \<in> set (split_on (CHR ''.'') s). CHR '':'' \<in> set w"
    by (induction s) (auto split: list.splits)
  ultimately show ?thesis by blast
qed

lemma no_colon_octets: "CHR '':'' \<notin> set (octets v)"
proof -
  have "CHR '':'' \<notin> set (nat_str n)" for n
    using nat_str_is_digit [of "CHR '':''" n] by (auto simp: is_digit_def code_unit_def)
  then show ?thesis by (simp add: octets_def)
qed

lemma dottedMapped_colon: "dottedMapped h = Some q \<Longrightarrow> CHR '':'' \<in> set h \<and> CHR '':'' \<notin> set q"
  by (auto simp: dottedMapped_def starts_with_iff dest: no_colon_dotted split: if_splits)

function isForbiddenAddress :: "jstr \<Rightarrow> bool" where
  "isForbiddenAddress hostname =
     (let host = normalHost hostname in
      case dottedMapped host of
        Some quad \<Rightarrow> isForbiddenAddress quad
      | None \<Rightarrow>
          if isIP host = 4 then forbiddenV4 host
          else if isIP host = 6 then
            (case ipv6ToBigInt host of
               None \<Rightarrow> True
             | Some address \<Rightarrow>
                 if address div 2 ^ 32 = 0xffff then isForbiddenAddress (octets (address mod 2 ^ 32))
                 else list_ex (\<lambda>(network, bits). inCidr address network bits) FORBIDDEN_V6)
          else host = ''localhost'' \<or> ends_with host ''.local'' \<or> ends_with host ''.localhost'')"
  by pat_completeness auto
termination
proof (relation "measure (\<lambda>h. if CHR '':'' \<in> set h then 1 else 0)", goal_cases)
  case 1
  show ?case by simp
next
  case (2 h host address)
  have "CHR '':'' \<in> set host" using 2 by (auto simp: isIP_def isIPv6_def Let_def dest: set_takeWhileD split: if_splits)
  then show ?case using 2 colon_normalHost no_colon_octets by auto
next
  case (3 h host quad)
  then show ?case using dottedMapped_colon colon_normalHost by fastforce
qed

declare isForbiddenAddress.simps [simp del]

definition isTrustedPrivateAddress :: "jstr \<Rightarrow> bool" where
  "isTrustedPrivateAddress host \<longleftrightarrow>
     isIP host = 4 \<and>
     (starts_with host ''10.'' \<or> starts_with host ''192.168.'' \<or>
      list_ex (\<lambda>n. starts_with host (''172.'' @ nat_str n @ ''.'')) [16..<32])"

section \<open>Resolution and pinned fetch\<close>

record url =
  u_text :: jstr
  u_protocol :: jstr
  u_hostname :: jstr
  u_host :: jstr
  u_username :: jstr
  u_password :: jstr
  u_hash :: jstr

text \<open>\<open>lookup\<close> is the resolver, \<open>None\<close> when it fails.\<close>

definition resolveSafeAddress :: "(jstr \<Rightarrow> jstr list option) \<Rightarrow> jstr \<Rightarrow> bool \<Rightarrow> jstr option" where
  "resolveSafeAddress lookup hostname trustedPrivate =
     (if isForbiddenAddress hostname \<and> \<not> (trustedPrivate \<and> isTrustedPrivateAddress hostname) then None
      else if isIP hostname \<noteq> 0 then Some hostname
      else case lookup hostname of
          None \<Rightarrow> None
        | Some addresses \<Rightarrow>
            if addresses \<noteq> [] \<and>
               list_all (\<lambda>a. isIP a \<noteq> 0 \<and> (\<not> isForbiddenAddress a \<or> trustedPrivate \<and> isTrustedPrivateAddress a)) addresses
            then Some (hd addresses) else None)"

text \<open>A response of the network: the URL it reports (empty when it reports none) and its content.\<close>

record 'b reply =
  re_url :: jstr
  re_content :: 'b

definition unsafeDestination :: "url \<Rightarrow> bool \<Rightarrow> bool \<Rightarrow> url \<Rightarrow> bool" where
  "unsafeDestination pinned allowInsecureHttp trustedPrivate supplied \<longleftrightarrow>
     u_text supplied \<noteq> u_text pinned \<or>
     \<not> (u_protocol supplied = ''https:'' \<or> allowInsecureHttp \<and> u_protocol supplied = ''http:'') \<or>
     isForbiddenAddress (u_hostname supplied) \<and> \<not> (trustedPrivate \<and> isTrustedPrivateAddress (u_hostname supplied))"

text \<open>
  The function \<^verbatim>\<open>createPinnedFetch\<close> returns. \<open>net\<close> is the request to the pinned URL, \<open>parse\<close> the URL
  parser, whose failure on the reported URL throws.
\<close>

definition pinnedFetch :: "(jstr \<Rightarrow> url option) \<Rightarrow> (jstr \<Rightarrow> 'b reply res) \<Rightarrow> url \<Rightarrow> bool \<Rightarrow> bool \<Rightarrow> url \<Rightarrow> 'b reply res" where
  "pinnedFetch parse net pinned allowInsecureHttp trustedPrivate supplied =
     (if unsafeDestination pinned allowInsecureHttp trustedPrivate supplied
      then Throw ''MCP_UNSAFE_DESTINATION''
      else res_bind (net (u_text pinned)) (\<lambda>response.
        if re_url response = [] then Inr response
        else case parse (re_url response) of
            None \<Rightarrow> Inl (TypeError ''Invalid URL'')
          | Some u \<Rightarrow> if u_text u \<noteq> u_text pinned then Throw ''MCP_UNSAFE_REDIRECT'' else Inr response))"

text \<open>The body that \<^verbatim>\<open>requestPinned\<close> collects from the chunks of a response, at most 256 KiB.\<close>

definition collectBody :: "jstr list \<Rightarrow> jstr res" where
  "collectBody chunks =
     fold_res (\<lambda>body chunk. if 256 * 1024 < length body + length chunk then Throw ''MCP_RESPONSE_TOO_LARGE'' else Inr (body @ chunk)) [] chunks"

end
