(* ===== verification/TransportProofs.thy ===== *)
theory TransportProofs
  imports SecureTransport
begin

unbundle bit_operations_syntax

text \<open>
  Proofs about destinations: dotted quads and their mapped IPv6 spellings, the exact set of forbidden
  IPv4 addresses, and the safety of resolution and of the pinned fetch.
\<close>

lemma and_prefix:
  fixes x y :: "32 word"
  assumes "take_bit k y = 0"
  shows "x AND NOT (mask k) = y \<longleftrightarrow> unat x div 2 ^ k = unat y div 2 ^ k"
proof -
  have eq: "z AND NOT (mask k) = push_bit k (drop_bit k z)" for z :: "32 word"
    by (rule bit_eqI) (auto simp: bit_simps)
  have y: "y = push_bit k (drop_bit k y)" using bits_ident [of k y] assms by simp
  have "x AND NOT (mask k) = y \<longleftrightarrow> drop_bit k x = drop_bit k y"
  proof
    assume "x AND NOT (mask k) = y"
    then have "drop_bit k (x AND NOT (mask k)) = drop_bit k y" by simp
    moreover have "drop_bit k (x AND NOT (mask k)) = drop_bit k x"
      by (rule bit_eqI) (auto simp: bit_simps dest: bit_imp_le_length)
    ultimately show "drop_bit k x = drop_bit k y" by simp
  next
    assume "drop_bit k x = drop_bit k y"
    then show "x AND NOT (mask k) = y" using eq y by metis
  qed
  also have "\<dots> \<longleftrightarrow> unat (drop_bit k x) = unat (drop_bit k y)" by (rule word_unat_eq_iff)
  also have "\<dots> \<longleftrightarrow> unat x div 2 ^ k = unat y div 2 ^ k"
    using unsigned_less [of x, where ?'a = nat] unsigned_less [of y, where ?'a = nat]
    unfolding unsigned_drop_bit_eq by (simp add: drop_bit_eq_div take_bit_nat_eq_self)
  finally show ?thesis .
qed

lemma octet_nat_str:
  assumes "n \<le> 255"
  shows "is_octet (nat_str n)"
proof -
  have z: "digit_char k \<noteq> CHR ''0''" if "k < 10" "k \<noteq> 0" for k
  proof
    assume "digit_char k = CHR ''0''"
    with digit_char_props(2) [OF that(1)] that(2) show False by (simp add: digit_val_def code_unit_def)
  qed
  consider "n < 10" | "10 \<le> n" "n < 100" | "100 \<le> n" by linarith
  then have "length (nat_str n) \<le> 3 \<and> (length (nat_str n) = 1 \<or> hd (nat_str n) \<noteq> CHR ''0'')"
  proof cases
    case 1
    then show ?thesis by (simp add: nat_str.simps [of n])
  next
    case 2
    then have "n div 10 < 10" "n div 10 \<noteq> 0" by auto
    with 2 show ?thesis using z [of "n div 10"] by (simp add: nat_str.simps [of n] nat_str.simps [of "n div 10"])
  next
    case 3
    have "n div 10 div 10 = n div 100" by (simp add: div_mult2_eq [symmetric])
    moreover have "n div 100 < 10" "n div 100 \<noteq> 0" "\<not> n div 10 < 10" using 3 assms by auto
    ultimately show ?thesis using 3 z [of "n div 100"]
      by (simp add: nat_str.simps [of n] nat_str.simps [of "n div 10"] nat_str.simps [of "n div 100"])
  qed
  moreover have "all_digits (nat_str n)" by (simp add: all_digits_def list_all_iff nat_str_is_digit)
  ultimately show ?thesis using assms by (simp add: is_octet_def)
qed

section \<open>Dotted quads\<close>

definition quad :: "nat \<Rightarrow> nat \<Rightarrow> nat \<Rightarrow> nat \<Rightarrow> jstr" where
  "quad a b c d = join ''.'' [nat_str a, nat_str b, nat_str c, nat_str d]"

lemma digit_char_ne: "is_digit c \<Longrightarrow> c \<noteq> CHR ''.'' \<and> c \<noteq> CHR ''['' \<and> c \<noteq> CHR '']'' \<and> c \<noteq> CHR '':'' \<and> lower_char c = c"
  by (auto simp: is_digit_def code_unit_def lower_char_def Let_def)

lemma split_quad: "split_on (CHR ''.'') (quad a b c d) = [nat_str a, nat_str b, nat_str c, nat_str d]"
  unfolding quad_def by (rule split_on_joined) (auto dest!: nat_str_is_digit digit_char_ne)

lemma quad_chars: "c \<in> set (quad n1 n2 n3 n4) \<Longrightarrow> is_digit c \<or> c = CHR ''.''"
  by (auto simp: quad_def dest: nat_str_is_digit)

lemma quad_ends:
  "quad a b c d \<noteq> []" "is_digit (hd (quad a b c d))" "is_digit (last (quad a b c d))"
proof -
  have h: "hd (nat_str a) \<in> set (nat_str a)" "last (nat_str d) \<in> set (nat_str d)" by simp_all
  show "quad a b c d \<noteq> []" by (simp add: quad_def)
  show "is_digit (hd (quad a b c d))" using nat_str_is_digit [OF h(1)] by (simp add: quad_def hd_append)
  show "is_digit (last (quad a b c d))" using nat_str_is_digit [OF h(2)] by (simp add: quad_def)
qed

lemma lower_quad: "toLowerCase (quad a b c d) = quad a b c d"
proof -
  have "lower_char ch = ch" if "ch \<in> set (quad a b c d)" for ch
    using quad_chars [OF that] digit_char_ne [of ch] by (auto simp: lower_char_def code_unit_def)
  then show ?thesis by (simp add: toLowerCase_def map_idI)
qed

lemma normal_quad: "normalHost (quad a b c d) = quad a b c d"
  using quad_ends digit_char_ne [OF quad_ends(2), of a b c d] digit_char_ne [OF quad_ends(3), of a b c d]
  by (simp add: normalHost_def strip_brackets_def strip_dot_def lower_quad Let_def)

lemma unmapped_quad: "dottedMapped (quad a b c d) = None"
  using quad_ends(1,2) [of a b c d] digit_char_ne [OF quad_ends(2), of a b c d]
  by (cases "quad a b c d") (auto simp: dottedMapped_def)

lemma isIP_quad: "a \<le> 255 \<Longrightarrow> b \<le> 255 \<Longrightarrow> c \<le> 255 \<Longrightarrow> d \<le> 255 \<Longrightarrow> isIP (quad a b c d) = 4"
  by (simp add: isIP_def isIPv4_def split_quad octet_nat_str)

lemma forbidden_quad:
  assumes "a \<le> 255" "b \<le> 255" "c \<le> 255" "d \<le> 255"
  shows "isForbiddenAddress (quad a b c d) = forbiddenV4 (quad a b c d)"
  by (subst isForbiddenAddress.simps) (simp add: normal_quad unmapped_quad isIP_quad [OF assms])

text \<open>The special-purpose IPv4 ranges, octet by octet.\<close>

definition special_v4 :: "nat \<Rightarrow> nat \<Rightarrow> nat \<Rightarrow> bool" where
  "special_v4 a b c \<longleftrightarrow>
     a = 0 \<or> a = 10 \<or> a = 127 \<or> 224 \<le> a \<or> a = 100 \<and> 64 \<le> b \<and> b \<le> 127 \<or>
     a = 169 \<and> b = 254 \<or> a = 192 \<and> b = 168 \<or> a = 172 \<and> 16 \<le> b \<and> b \<le> 31 \<or> a = 198 \<and> (b = 18 \<or> b = 19) \<or>
     a = 192 \<and> b = 0 \<and> c = 0 \<or> a = 192 \<and> b = 0 \<and> c = 2 \<or> a = 192 \<and> b = 88 \<and> c = 99 \<or> a = 198 \<and> b = 51 \<and> c = 100 \<or>
     a = 192 \<and> b = 31 \<and> c = 196 \<or> a = 192 \<and> b = 52 \<and> c = 193 \<or> a = 203 \<and> b = 0 \<and> c = 113"

lemma masks:
  "(0xff000000 :: 32 word) = NOT (mask 24)" "(0xffc00000 :: 32 word) = NOT (mask 22)" "(0xffff0000 :: 32 word) = NOT (mask 16)"
  "(0xfff00000 :: 32 word) = NOT (mask 20)" "(0xffffff00 :: 32 word) = NOT (mask 8)" "(0xfffe0000 :: 32 word) = NOT (mask 17)"
  "(0xf0000000 :: 32 word) = NOT (mask 28)"
  by (simp_all add: mask_eq_exp_minus_1)

lemma unat_quad:
  assumes "a \<le> 255" "b \<le> 255" "c \<le> 255" "d \<le> 255"
  shows "unat (ipv4ToNumber (quad a b c d)) = ((a * 256 + b) * 256 + c) * 256 + d"
proof -
  have "ipv4ToNumber (quad a b c d) = of_nat (((a * 256 + b) * 256 + c) * 256 + d)"
    by (simp add: ipv4ToNumber_def split_quad)
  moreover have "((a * 256 + b) * 256 + c) * 256 + d < 2 ^ 32" using assms by simp
  moreover have "unat (of_nat m :: 32 word) = m" if "m < 2 ^ 32" for m using that by (simp add: unat_of_nat)
  ultimately show ?thesis by metis
qed

lemma forbiddenV4_quad:
  assumes "a \<le> 255" "b \<le> 255" "c \<le> 255" "d \<le> 255"
  shows "forbiddenV4 (quad a b c d) \<longleftrightarrow> special_v4 a b c"
proof -
  define n where "n = ((a * 256 + b) * 256 + c) * 256 + d"
  have q: "n div 2 ^ 24 = a" "n div 2 ^ 16 = a * 256 + b" "n div 2 ^ 8 = (a * 256 + b) * 256 + c"
    "n div 2 ^ 28 = a div 16" "n div 2 ^ 22 = (a * 256 + b) div 64" "n div 2 ^ 20 = (a * 256 + b) div 16" "n div 2 ^ 17 = (a * 256 + b) div 2"
  proof -
    have 8: "n div 256 = (a * 256 + b) * 256 + c" unfolding n_def using assms by simp
    have 16: "n div 65536 = a * 256 + b" using div_mult2_eq [of n 256 256] 8 assms by simp
    have 24: "n div 16777216 = a" using div_mult2_eq [of n 65536 256] 16 assms by simp
    show "n div 2 ^ 24 = a" "n div 2 ^ 16 = a * 256 + b" "n div 2 ^ 8 = (a * 256 + b) * 256 + c"
      using 8 16 24 by simp_all
    show "n div 2 ^ 28 = a div 16" using div_mult2_eq [of n 16777216 16] 24 by simp
    show "n div 2 ^ 22 = (a * 256 + b) div 64" using div_mult2_eq [of n 65536 64] 16 by simp
    show "n div 2 ^ 20 = (a * 256 + b) div 16" using div_mult2_eq [of n 65536 16] 16 by simp
    show "n div 2 ^ 17 = (a * 256 + b) div 2" using div_mult2_eq [of n 65536 2] 16 by simp
  qed
  have top: "x AND NOT (mask 28) = NOT (mask 28) \<longleftrightarrow> unat x div 2 ^ 28 = 15" for x :: "32 word"
    using and_prefix [of 28 "0xf0000000" x] by (simp add: masks(7) [symmetric] take_bit_eq_mod)
  have "forbiddenV4 (quad a b c d) \<longleftrightarrow>
    n div 2 ^ 24 \<in> {0, 10, 127} \<or> n div 2 ^ 28 \<in> {14, 15} \<or> n div 2 ^ 22 = 401 \<or> n div 2 ^ 16 \<in> {169 * 256 + 254, 192 * 256 + 168} \<or> n div 2 ^ 20 = 2753 \<or>
    n div 2 ^ 17 = 25353 \<or> n div 2 ^ 8 \<in> 
      {(192 * 256 + 0) * 256 + 0, (192 * 256 + 0) * 256 + 2, (192 * 256 + 88) * 256 + 99, (198 * 256 + 51) * 256 + 100, (192 * 256 + 31) * 256 + 196, (192 * 256 + 52) * 256 + 193, (203 * 256 + 0) * 256 + 113}"
    unfolding forbiddenV4_def FORBIDDEN_V4_def n_def unat_quad [OF assms, symmetric]
    by (simp add: masks and_prefix top take_bit_eq_mod disj_ac)
  also have "\<dots> \<longleftrightarrow> special_v4 a b c"
  proof -
    have one: "x * 256 + y = x' * 256 + y' \<longleftrightarrow> x = x' \<and> y = y'" if "y \<le> 255" "y' \<le> 255" for x y x' y' :: nat
    proof -
      have "(u * 256 + v) div 256 = u" "(u * 256 + v) mod 256 = v" if "v \<le> 255" for u v :: nat using that by auto
      then show ?thesis using that by metis
    qed
    have two: "a * 256 + b = k * 256 + l \<longleftrightarrow> a = k \<and> b = l" if "l \<le> 255" for k l
      by (rule one [OF assms(2) that])
    have three: "(a * 256 + b) * 256 + c = (k * 256 + l) * 256 + m \<longleftrightarrow> a = k \<and> b = l \<and> c = m" if "l \<le> 255" "m \<le> 255" for k l m
      by (simp only: one [OF assms(3) that(2)] two [OF that(1)] conj_assoc)
    have r: "a div 16 = 14 \<or> a div 16 = 15 \<longleftrightarrow> 224 \<le> a"
      "(a * 256 + b) div 64 = 401 \<longleftrightarrow> a = 100 \<and> 64 \<le> b \<and> b \<le> 127"
      "(a * 256 + b) div 16 = 2753 \<longleftrightarrow> a = 172 \<and> 16 \<le> b \<and> b \<le> 31"
      "(a * 256 + b) div 2 = 25353 \<longleftrightarrow> a = 198 \<and> (b = 18 \<or> b = 19)"
    proof -
      have d: "x div n = k \<longleftrightarrow> k * n \<le> x \<and> x < Suc k * n" if "0 < n" for x n k :: nat
        using that div_nat_eqI [of n k x] dividend_less_div_times [of n x] by (auto simp: div_times_less_eq_dividend mult.commute)
      show "a div 16 = 14 \<or> a div 16 = 15 \<longleftrightarrow> 224 \<le> a" using assms(1) by (auto simp: d)
      have h: "a = k \<and> i \<le> b \<and> b \<le> j" if "k * 256 + i \<le> a * 256 + b" "a * 256 + b \<le> k * 256 + j" "j \<le> 255" for k i j
      proof -
        have "a \<le> k" "k \<le> a" using that assms(2) by linarith+
        then have "a = k" by simp
        then show ?thesis using that by simp
      qed
      show "(a * 256 + b) div 64 = 401 \<longleftrightarrow> a = 100 \<and> 64 \<le> b \<and> b \<le> 127"
        using h [of 100 64 127] by (auto simp: d)
      show "(a * 256 + b) div 16 = 2753 \<longleftrightarrow> a = 172 \<and> 16 \<le> b \<and> b \<le> 31"
        using h [of 172 16 31] by (auto simp: d)
      show "(a * 256 + b) div 2 = 25353 \<longleftrightarrow> a = 198 \<and> (b = 18 \<or> b = 19)"
        using h [of 198 18 19] by (auto simp: d)
    qed
    have t: "a * 256 + b = 169 * 256 + 254 \<longleftrightarrow> a = 169 \<and> b = 254" "a * 256 + b = 192 * 256 + 168 \<longleftrightarrow> a = 192 \<and> b = 168"
      by (rule two, simp)+
    have u:
      "(a * 256 + b) * 256 + c = (192 * 256 + 0) * 256 + 0 \<longleftrightarrow> a = 192 \<and> b = 0 \<and> c = 0"
      "(a * 256 + b) * 256 + c = (192 * 256 + 0) * 256 + 2 \<longleftrightarrow> a = 192 \<and> b = 0 \<and> c = 2"
      "(a * 256 + b) * 256 + c = (192 * 256 + 88) * 256 + 99 \<longleftrightarrow> a = 192 \<and> b = 88 \<and> c = 99"
      "(a * 256 + b) * 256 + c = (198 * 256 + 51) * 256 + 100 \<longleftrightarrow> a = 198 \<and> b = 51 \<and> c = 100"
      "(a * 256 + b) * 256 + c = (192 * 256 + 31) * 256 + 196 \<longleftrightarrow> a = 192 \<and> b = 31 \<and> c = 196"
      "(a * 256 + b) * 256 + c = (192 * 256 + 52) * 256 + 193 \<longleftrightarrow> a = 192 \<and> b = 52 \<and> c = 193"
      "(a * 256 + b) * 256 + c = (203 * 256 + 0) * 256 + 113 \<longleftrightarrow> a = 203 \<and> b = 0 \<and> c = 113"
      by (rule three; simp)+
    show ?thesis
      unfolding q special_v4_def insert_iff empty_iff simp_thms r t u by (simp only: disj_assoc)
  qed
  finally show ?thesis .
qed

section \<open>Mapped addresses\<close>

lemma mapped_dotted:
  assumes "a \<le> 255" "b \<le> 255" "c \<le> 255" "d \<le> 255"
  shows "isForbiddenAddress (''::ffff:'' @ quad a b c d) = isForbiddenAddress (quad a b c d)"
proof -
  let ?q = "quad a b c d"
  have lp: "toLowerCase ''::ffff:'' = ''::ffff:''" by code_simp
  have n: "normalHost (''::ffff:'' @ ?q) = ''::ffff:'' @ ?q"
    using quad_ends(1) [of a b c d] digit_char_ne [OF quad_ends(3), of a b c d] lp lower_quad
    by (simp add: normalHost_def strip_brackets_def strip_dot_def toLowerCase_append [of "''::ffff:''" ?q, simplified] Let_def)
  have "is_dotted ?q" by (simp add: is_dotted_def split_quad all_digits_def list_all_iff nat_str_is_digit)
  then have "dottedMapped (''::ffff:'' @ ?q) = Some ?q" by (simp add: dottedMapped_def)
  then show ?thesis by (subst isForbiddenAddress.simps) (simp add: n del: append_Cons)
qed

text \<open>The hexadecimal spelling of a mapped address.\<close>

definition mapped_hex :: "nat \<Rightarrow> nat \<Rightarrow> jstr" where
  "mapped_hex m n = ''::'' @ join '':'' [''ffff'', hex_str m, hex_str n]"

lemma nibble_facts:
  assumes "k < 16"
  shows "hex_val (nibble_char k) = Some k" and "lower_char (nibble_char k) = nibble_char k"
    and "nibble_char k \<notin> set ''.:%[]''"
proof -
  have "k \<in> set [0..<16]" using assms by simp
  moreover have "[0..<16] = [0, 1, 2, 3, 4, 5, 6, 7, 8, 9, 10, 11, 12, 13, 14, 15]" by code_simp
  ultimately have "k \<in> {0, 1, 2, 3, 4, 5, 6, 7, 8, 9, 10, 11, 12, 13, 14, 15}" by simp
  then show 1: "hex_val (nibble_char k) = Some k" and "lower_char (nibble_char k) = nibble_char k"
    by (auto simp: nibble_char_def hex_val_def lower_char_def is_digit_def code_unit_def Let_def)
  have "list_all (\<lambda>c. hex_val c = None) ''.:%[]''" by code_simp
  then show "nibble_char k \<notin> set ''.:%[]''" using 1 unfolding list_all_iff by fastforce
qed

lemma hex_str_chars: "\<exists>ks. hex_str n = map nibble_char ks \<and> (\<forall>k \<in> set ks. k < 16) \<and> ks \<noteq> [] \<and> foldl (\<lambda>x k. 16 * x + k) 0 ks = n"
proof (induction n rule: hex_str.induct)
  case (1 n)
  show ?case
  proof (cases "n < 16")
    case True
    then show ?thesis by (intro exI [of _ "[n]"]) (simp add: hex_str.simps)
  next
    case False
    with 1 obtain ks where "hex_str (n div 16) = map nibble_char ks" "\<forall>k \<in> set ks. k < 16" "foldl (\<lambda>x k. 16 * x + k) 0 ks = n div 16" by blast
    then show ?thesis using False by (intro exI [of _ "ks @ [n mod 16]"]) (auto simp: hex_str.simps [of n])
  qed
qed

lemma hex_str_facts:
  shows "hex_str n \<noteq> []" "c \<in> set (hex_str n) \<Longrightarrow> hex_val c \<noteq> None \<and> lower_char c = c \<and> c \<notin> set ''.:%[]''"
    "hex_num (hex_str n) = int n"
proof -
  obtain ks where ks: "hex_str n = map nibble_char ks" "\<forall>k \<in> set ks. k < 16" "ks \<noteq> []" "foldl (\<lambda>x k. 16 * x + k) 0 ks = n"
    using hex_str_chars [of n] by blast
  show "hex_str n \<noteq> []" using ks by simp
  show "hex_val c \<noteq> None \<and> lower_char c = c \<and> c \<notin> set ''.:%[]''" if "c \<in> set (hex_str n)"
    using that ks nibble_facts by auto
  have "foldl (\<lambda>x c. 16 * x + (case hex_val c of None \<Rightarrow> 0 | Some d \<Rightarrow> int d)) (int x) (map nibble_char ks) = int (foldl (\<lambda>x k. 16 * x + k) x ks)" for x
    using ks(2)
  proof (induction ks arbitrary: x)
    case (Cons k ks)
    then show ?case using Cons.IH [of "16 * x + k"] by (simp add: nibble_facts(1))
  qed simp
  from this [of 0] show "hex_num (hex_str n) = int n" using ks by (simp add: hex_num_def)
qed

lemma hex_str_length: "n < 65536 \<Longrightarrow> length (hex_str n) \<le> 4"
proof -
  assume "n < 65536"
  have "length (hex_str n) \<le> Suc k" if "n < 16 ^ Suc k" for k n
    using that
  proof (induction k arbitrary: n)
    case 0
    then show ?case by (simp add: hex_str.simps)
  next
    case (Suc k)
    have "length (hex_str (n div 16)) \<le> Suc k" using Suc by (intro Suc.IH) (simp add: less_mult_imp_div_less mult.commute)
    then show ?case by (simp add: hex_str.simps [of n])
  qed
  from this [of n 3] \<open>n < 65536\<close> show ?thesis by simp
qed

lemma hex_group: "n < 65536 \<Longrightarrow> is_group (hex_str n)"
  using hex_str_facts(1) [of n] hex_str_facts(2) [of _ n] hex_str_length [of n] by (auto simp: is_group_def list_all_iff)

lemma split_double_plain:
  assumes "\<forall>w \<in> set ws. w \<noteq> [] \<and> CHR '':'' \<notin> set w" and "ws \<noteq> []"
  shows "split_double (join '':'' ws) = [join '':'' ws]"
proof -
  have w: "split_double (w @ r) = [w @ r]" if "CHR '':'' \<notin> set w" "split_double r = [r]" for w r
    using that
  proof (induction w)
    case (Cons c w)
    then show ?case by (cases "w @ r") auto
  qed simp
  show ?thesis using assms
  proof (induction ws)
    case (Cons v ws)
    show ?case
    proof (cases ws)
      case Nil
      then show ?thesis using w [of v "[]"] Cons.prems by simp
    next
      case (Cons u us)
      then have ih: "split_double (join '':'' ws) = [join '':'' ws]" using Cons.IH Cons.prems by simp
      obtain c cs where c: "join '':'' ws = c # cs" "c \<noteq> CHR '':''"
        using Cons Cons.prems by (cases us; cases u) auto
      have "split_double (CHR '':'' # join '':'' ws) = [CHR '':'' # join '':'' ws]" using ih c by simp
      then show ?thesis using w [of v] Cons Cons.prems by simp
    qed
  qed simp
qed

lemma octets_quad:
  assumes "m < 65536" "n < 65536"
  shows "octets (int m * 65536 + int n) = quad (m div 256) (m mod 256) (n div 256) (n mod 256)"
proof -
  let ?v = "m * 65536 + n"
  have v: "int m * 65536 + int n = int ?v" by simp
  have 16: "?v div 65536 = m" "?v mod 65536 = n" using assms by auto
  have "?v div 16777216 = m div 256" using div_mult2_eq [of ?v 65536 256] 16 by simp
  moreover have "?v div 256 mod 256 = n div 256"
  proof -
    have "?v div 256 mod 256 = ?v mod (256 * 256) div 256" using mod_mult2_eq [of ?v 256 256] by simp
    then show ?thesis using 16 by simp
  qed
  moreover have "?v mod 256 = n mod 256"
    using mod_mult_self2 [of n 256 "m * 256"] by (simp add: algebra_simps)
  moreover have "nat (int x div 2 ^ 24) = x div 16777216" "nat (int x div 2 ^ 16 mod 256) = x div 65536 mod 256"
    "nat (int x div 2 ^ 8 mod 256) = x div 256 mod 256" "nat (int x mod 256) = x mod 256" for x
    by (simp_all add: nat_div_distrib nat_mod_distrib)
  ultimately show ?thesis by (simp only: v octets_def quad_def list.map 16(1))
qed

lemma mapped_hex_forbidden:
  assumes "m < 65536" "n < 65536"
  shows "isForbiddenAddress (mapped_hex m n) = isForbiddenAddress (quad (m div 256) (m mod 256) (n div 256) (n mod 256))"
proof -
  let ?ws = "[''ffff'', hex_str m, hex_str n]" and ?h = "mapped_hex m n"
  have ffff: "is_group ''ffff''" "list_all (\<lambda>c. lower_char c = c \<and> c \<notin> set ''.:%[]'') ''ffff''" "hex_num ''ffff'' = 65535" "hex_num ''0'' = 0"
    "is_group ''0''" by code_simp+
  have chars: "lower_char c = c \<and> c \<notin> set ''.%[]''" if "c \<in> set ?h" for c
  proof -
    have "lower_char (CHR '':'') = CHR '':''" by code_simp
    then show ?thesis
      using that hex_str_facts(2) [of c m] hex_str_facts(2) [of c n] ffff(2) by (auto simp: mapped_hex_def)
  qed
  have last: "last ?h \<in> set ?h" "?h \<noteq> []" by (simp_all add: mapped_hex_def)
  have lower: "toLowerCase ?h = ?h" using chars by (simp add: toLowerCase_def map_idI)
  have dots: "CHR ''.'' \<notin> set ?h" "CHR ''%'' \<notin> set ?h" using chars by auto
  have norm: "normalHost ?h = ?h"
    using chars [OF last(1)] last(2) lower by (simp add: normalHost_def strip_brackets_def strip_dot_def Let_def) (simp add: mapped_hex_def)
  have pure: "\<forall>w \<in> set ?ws. w \<noteq> [] \<and> CHR '':'' \<notin> set w"
    using hex_str_facts(1) hex_str_facts(2) [of "CHR '':''"] by auto
  have sd: "split_double ?h = [[], join '':'' ?ws]"
    using split_double_plain [OF pure] by (simp add: mapped_hex_def)
  have pc: "pieces (join '':'' ?ws) = ?ws"
    using split_on_joined [of ?ws "CHR '':''"] pure by (simp add: pieces_def)
  have groups: "list_all is_group ?ws" using ffff(1) hex_group assms by simp
  have body: "ipv6_body ?h" using sd pc groups by (simp add: ipv6_body_def group_count_def) (simp add: pieces_def)
  have one: "length (split_on (CHR ''.'') (drop k ?h)) = 1" for k
    using dots(1) by (subst split_on_simple) (auto dest: in_set_dropD)
  have v4: "\<not> isIPv4 ?h" "\<not> is_dotted (drop k ?h)" for k
    using one [of 0] one [of k] by (simp_all add: isIPv4_def is_dotted_def)
  have colon: "CHR '':'' \<in> set ?h" by (simp add: mapped_hex_def)
  have tw: "takeWhile (\<lambda>c. c \<noteq> CHR ''%'') ?h = ?h" "dropWhile (\<lambda>c. c \<noteq> CHR ''%'') ?h = []"
    using dots(2) by (auto simp: takeWhile_eq_all_conv)
  have v6: "isIP ?h = 6" unfolding isIP_def isIPv6_def Let_def tw using body v4(1) colon by simp
  have "dotted_tail ?h = None" using split_on_simple [OF dots(1)] by (simp add: dotted_tail_def)
  then have big: "ipv6ToBigInt ?h = Some ((65535 * 65536 + int m) * 65536 + int n)"
    using sd pc groups ffff hex_str_facts(3)
    by (simp add: ipv6ToBigInt_def lower ipv6_normalized_def Let_def pieces_def numeral_eq_Suc)
  let ?a = "(65535 * 65536 + int m) * 65536 + int n"
  have split: "?a = 65535 * 2 ^ 32 + (int m * 65536 + int n)" "0 \<le> int m * 65536 + int n" "int m * 65536 + int n < 2 ^ 32"
    using assms by auto
  have "?a div 2 ^ 32 = 65535" "?a mod 2 ^ 32 = int m * 65536 + int n"
    unfolding split(1) mod_mult_self3 using split(2,3) by (simp_all only: div_mult_self3 div_pos_pos_trivial mod_pos_pos_trivial)
  then show ?thesis
    by (subst isForbiddenAddress.simps)
      (simp add: norm v4 v6 big dottedMapped_def Let_def octets_quad [OF assms])
qed

section \<open>Resolution\<close>

lemma resolved_safe:
  assumes "resolveSafeAddress lookup hostname False = Some address"
  shows "isIP address \<noteq> 0 \<and> \<not> isForbiddenAddress address"
  using assms by (cases "lookup hostname") (auto simp: resolveSafeAddress_def list_all_iff split: if_splits)


section \<open>Properties\<close>

text \<open>
  C34. The address filter is exactly the list of special-purpose IPv4 ranges, in every spelling: a
  dotted quad is forbidden if and only if its octets lie in one of the ranges, and the IPv4-mapped
  IPv6 forms, dotted or hexadecimal, are judged like the quad they embed.
\<close>

theorem forbidden_ipv4_exact:
  assumes "a \<le> 255" and "b \<le> 255" and "c \<le> 255" and "d \<le> 255"
  shows "(isForbiddenAddress (quad a b c d) \<longleftrightarrow> special_v4 a b c) \<and>
    (isForbiddenAddress (''::ffff:'' @ quad a b c d) \<longleftrightarrow> special_v4 a b c) \<and>
    (isForbiddenAddress (mapped_hex (256 * a + b) (256 * c + d)) \<longleftrightarrow> special_v4 a b c)"
proof -
  have q: "isForbiddenAddress (quad a b c d) \<longleftrightarrow> special_v4 a b c"
    using forbidden_quad [OF assms] forbiddenV4_quad [OF assms] by simp
  have "256 * a + b < 65536" "256 * c + d < 65536" using assms by simp_all
  from mapped_hex_forbidden [OF this] have "isForbiddenAddress (mapped_hex (256 * a + b) (256 * c + d)) = isForbiddenAddress (quad a b c d)"
    using assms by simp
  with q mapped_dotted [OF assms] show ?thesis by simp
qed

theorem forbidden_ipv4_exact_witness:
  "isForbiddenAddress (quad 172 31 0 9) \<and> \<not> isForbiddenAddress (quad 172 32 0 9) \<and>
   isForbiddenAddress (mapped_hex (256 * 127 + 0) (256 * 0 + 1))"
  using forbidden_ipv4_exact [of 172 31 0 9] forbidden_ipv4_exact [of 172 32 0 9] forbidden_ipv4_exact [of 127 0 0 1]
  by (simp add: special_v4_def)



end
