(* ===== verification/TerminalCallback.thy ===== *)
theory TerminalCallback
  imports SecureTransport JsonText
begin

text \<open>
  \<^verbatim>\<open>engine/src/delivery/terminal-callback.ts\<close>: delivery of the final result of an execution to the
  backend, with retries until the backend acknowledges it, and the spool of results that were not
  acknowledged yet.

  The record \<open>delivery_world\<close> holds what lies outside: the environment, the URL parser and the setter
  of a URL's host, the resolver, the clock text and the network. The network answers the n-th
  request of the process; a request that times out is an error named \<^verbatim>\<open>AbortError\<close>.
\<close>

section \<open>Data\<close>

record callback_options =
  cb_url :: jstr
  cb_allowlist :: jstr
  cb_token :: jstr
  cb_execution :: jstr
  cb_payload :: jobj
  cb_attempts :: jval

record callback_ack =
  ack_delivery :: jstr
  ack_attempts :: nat
  ack_status :: nat

record request =
  rq_url :: url
  rq_headers :: "(jstr \<times> jstr) list"
  rq_body :: jstr

record http_reply =
  hr_status :: nat
  hr_ok :: bool
  hr_body :: jval

text \<open>A thrown error with its \<^verbatim>\<open>name\<close> and message.\<close>

type_synonym failure = "jstr \<times> jstr"

record delivery_world =
  dw_allowlist :: jstr
  dw_private :: bool
  dw_parse :: "jstr \<Rightarrow> url option"
  dw_with_host :: "url \<Rightarrow> jstr \<Rightarrow> url"
  dw_lookup :: "jstr \<Rightarrow> jstr list option"
  dw_stamp :: jstr
  dw_net :: "nat \<Rightarrow> request \<Rightarrow> failure + http_reply reply"

section \<open>Callback URLs\<close>

definition callbackHosts :: "jstr \<Rightarrow> jstr list" where
  "callbackHosts allowlist = filter (\<lambda>h. h \<noteq> []) (map (\<lambda>item. toLowerCase (trim item)) (split_on (CHR '','') allowlist))"

definition hostMatches :: "jstr \<Rightarrow> jstr \<Rightarrow> bool" where
  "hostMatches host item \<longleftrightarrow>
     item = host \<or> starts_with item ''*.'' \<and> ends_with host (drop 1 item) \<and> host \<noteq> drop 2 item"

definition callbackHost :: "url \<Rightarrow> jstr" where
  "callbackHost u = strip_brackets (toLowerCase (u_hostname u))"

definition privateHost :: "jstr \<Rightarrow> bool" where
  "privateHost host \<longleftrightarrow>
     host = ''localhost'' \<or>
     isIP host = 4 \<and>
       (starts_with host ''10.'' \<or> starts_with host ''127.'' \<or> starts_with host ''192.168.'' \<or>
        list_ex (\<lambda>n. starts_with host (''172.'' @ nat_str n @ ''.'')) [16..<32]) \<or>
     isIP host = 6 \<and> (host = ''::1'' \<or> starts_with host ''fc'' \<or> starts_with host ''fd'' \<or> starts_with host ''fe80'')"

definition plainHttp :: "url \<Rightarrow> bool" where
  "plainHttp u \<longleftrightarrow> u_protocol u \<in> {''http:'', ''https:''} \<and> u_username u = [] \<and> u_password u = [] \<and> u_hash u = []"

definition validateTerminalCallbackUrl :: "delivery_world \<Rightarrow> jstr \<Rightarrow> jstr \<Rightarrow> url res" where
  "validateTerminalCallbackUrl w rawUrl allowlist =
     (case dw_parse w rawUrl of
        None \<Rightarrow> Throw ''Callback URL invalida''
      | Some parsed \<Rightarrow>
          if \<not> plainHttp parsed then Throw ''Callback URL invalida''
          else if \<not> list_ex (hostMatches (callbackHost parsed)) (callbackHosts allowlist) then Throw ''Callback URL fuera de la allowlist''
          else if privateHost (callbackHost parsed) \<and> \<not> dw_private w then Throw ''Callback URL privada bloqueada''
          else Inr parsed)"

section \<open>Delivery\<close>

definition terminalDeliveryId :: "jstr \<Rightarrow> jstr" where
  "terminalDeliveryId executionId = ''ai-terminal:'' @ executionId"

definition maxAttempts :: "jval \<Rightarrow> jnum" where
  "maxAttempts attempts = num_max (Fin 1) (num_min (Fin 16) (to_number (js_or attempts (num 12))))"

definition deliveryPayload :: "delivery_world \<Rightarrow> callback_options \<Rightarrow> jobj" where
  "deliveryPayload w options =
     obj_put (cb_payload options) ''metadata''
       (JObj (obj_spread (own_props (js_or (obj_get (cb_payload options) ''metadata'') (JObj [])))
          [(''terminal_delivery_id'', JStr (terminalDeliveryId (cb_execution options))), (''terminal_sequence'', num 1),
           (''terminal_completed_at'', JStr (dw_stamp w))]))"

definition deliveryHeaders :: "delivery_world \<Rightarrow> callback_options \<Rightarrow> (jstr \<times> jstr) list" where
  "deliveryHeaders w options =
     (let correlationId = trim (to_string (js_or (obj_get (deliveryPayload w options) ''correlation_id'') (JStr []))) in
      [(''Content-Type'', ''application/json''), (''X-Idempotency-Key'', terminalDeliveryId (cb_execution options))]
      @ (if correlationId = [] then [] else [(''X-Correlation-ID'', correlationId)])
      @ (if cb_token options = [] then [] else [(''X-AI-Engine-Token'', cb_token options)]))"

definition callbackAllowlist :: "delivery_world \<Rightarrow> callback_options \<Rightarrow> jstr" where
  "callbackAllowlist w options = (if cb_allowlist options \<noteq> [] then cb_allowlist options else dw_allowlist w)"

text \<open>The checks of one attempt before the network is used: the target and the pinned URL, or what is thrown.\<close>

definition callbackTarget :: "delivery_world \<Rightarrow> callback_options \<Rightarrow> (url \<times> url) res" where
  "callbackTarget w options =
     (case dw_parse w (cb_url options) of
        None \<Rightarrow> Inl (TypeError ''Invalid URL'')
      | Some target \<Rightarrow>
          res_bind (if callbackAllowlist w options = [] then Inr target
                    else validateTerminalCallbackUrl w (cb_url options) (callbackAllowlist w options)) (\<lambda>_.
            if \<not> plainHttp target then Throw ''Callback URL invalida''
            else (let resolved = (if dw_private w then Some (u_hostname target) else resolveSafeAddress (dw_lookup w) (u_hostname target) False) in
              case resolved of
                None \<Rightarrow> Throw ''Destino callback privado o no seguro''
              | Some address \<Rightarrow>
                  if address = [] \<or> \<not> dw_private w \<and> isForbiddenAddress address then Throw ''Destino callback privado o no seguro''
                  else Inr (target, if dw_private w then target else dw_with_host w target address))))"

definition callbackRequest :: "delivery_world \<Rightarrow> callback_options \<Rightarrow> url \<Rightarrow> request" where
  "callbackRequest w options pinned =
     \<lparr>rq_url = pinned, rq_headers = deliveryHeaders w options,
      rq_body = (case json_stringify (JObj (deliveryPayload w options)) of None \<Rightarrow> [] | Some s \<Rightarrow> s)\<rparr>"

definition acknowledged :: "jstr \<Rightarrow> http_reply \<Rightarrow> bool" where
  "acknowledged executionId r \<longleftrightarrow>
     hr_ok r \<and>
     to_string (first_truthy [js_get (hr_body r) ''execution_id'', js_get (hr_body r) ''id'', JStr []]) = executionId \<and>
     (js_get (hr_body r) ''acknowledged'' = JBool True \<or> js_path (hr_body r) [''ai_report'', ''report_complete''] = JBool True) \<and>
     (js_get (hr_body r) ''report_complete'' = JBool True \<or> js_path (hr_body r) [''ai_report'', ''report_complete''] = JBool True) \<and>
     to_string (first_truthy [js_get (hr_body r) ''terminal_delivery_id'', js_path (hr_body r) [''ai_report'', ''terminal_delivery_id''], JStr []])
       = terminalDeliveryId executionId"

text \<open>
  One attempt: the requests it sends (none or one) and its outcome. The network is used when the
  destination is safe; \<open>n\<close> is the number of requests the process sent before.
\<close>

definition deliveryAttempt :: "delivery_world \<Rightarrow> callback_options \<Rightarrow> nat \<Rightarrow> request list \<times> (failure + http_reply)" where
  "deliveryAttempt w options n =
     (case callbackTarget w options of
        Inl e \<Rightarrow> ([], Inl ([], error_message e))
      | Inr (target, pinned) \<Rightarrow>
          (let req = callbackRequest w options pinned; insecure = (u_protocol target = ''http:'') in
           if dw_private w then
             ([req], case dw_net w n req of Inl f \<Rightarrow> Inl f | Inr r \<Rightarrow> Inr (re_content r))
           else if unsafeDestination pinned insecure False pinned then ([], Inl ([], ''MCP_UNSAFE_DESTINATION''))
           else ([req],
             case dw_net w n req of
               Inl f \<Rightarrow> Inl f
             | Inr r \<Rightarrow>
                 (case pinnedFetch (dw_parse w) (\<lambda>_. Inr r) pinned insecure False pinned of
                    Inl e \<Rightarrow> Inl ([], error_message e)
                  | Inr r' \<Rightarrow> Inr (re_content r')))))"

definition attemptError :: "failure + http_reply \<Rightarrow> jstr" where
  "attemptError out =
     (case out of
        Inl (name, msg) \<Rightarrow> if name = ''AbortError'' then ''timeout de callback terminal'' else msg
      | Inr r \<Rightarrow> ''HTTP '' @ nat_str (hr_status r) @ '': ACK terminal incompleto'')"

definition deliveryPause :: "nat \<Rightarrow> int" where
  "deliveryPause attempt = min 15000 (500 * 2 ^ (attempt - 1))"

record delivery_log =
  dl_requests :: "request list"
  dl_paused :: int
  dl_attempts :: nat

text \<open>
  The loop over the attempts: \<open>left\<close> attempts remain, the next one is number \<open>attempt\<close> and \<open>limit\<close> is
  \<^verbatim>\<open>maxAttempts\<close>. The log has the requests sent, the pauses and the attempts.
\<close>

fun deliveryLoop ::
  "delivery_world \<Rightarrow> callback_options \<Rightarrow> jnum \<Rightarrow> nat \<Rightarrow> nat \<Rightarrow> nat \<Rightarrow> jstr \<Rightarrow> delivery_log \<Rightarrow> callback_ack res \<times> delivery_log" where
  "deliveryLoop w options limit n 0 attempt lastError lg =
     (Throw (''No se pudo confirmar la persistencia terminal despues de '' @ num_str limit @ '' intentos: '' @ lastError), lg)"
| "deliveryLoop w options limit n (Suc left) attempt lastError lg =
     (case deliveryAttempt w options n of
        (reqs, out) \<Rightarrow>
          (let lg' = lg\<lparr>dl_requests := dl_requests lg @ reqs, dl_attempts := attempt\<rparr> in
           if (case out of Inr r \<Rightarrow> acknowledged (cb_execution options) r | Inl _ \<Rightarrow> False)
           then (Inr \<lparr>ack_delivery = terminalDeliveryId (cb_execution options), ack_attempts = attempt,
                      ack_status = (case out of Inr r \<Rightarrow> hr_status r | Inl _ \<Rightarrow> 0)\<rparr>, lg')
           else deliveryLoop w options limit (n + length reqs) left (Suc attempt) (attemptError out)
             (if num_lt (Fin (of_nat attempt)) limit then lg'\<lparr>dl_paused := dl_paused lg' + deliveryPause attempt\<rparr> else lg')))"

definition attemptCount :: "jnum \<Rightarrow> nat" where
  "attemptCount limit = (case limit of Fin q \<Rightarrow> nat \<lfloor>q\<rfloor> | _ \<Rightarrow> 0)"

definition deliverTerminalResult :: "delivery_world \<Rightarrow> nat \<Rightarrow> callback_options \<Rightarrow> callback_ack res \<times> delivery_log" where
  "deliverTerminalResult w n options =
     (let limit = maxAttempts (cb_attempts options) in
      deliveryLoop w options limit n (attemptCount limit) 1 ''sin respuesta'' \<lparr>dl_requests = [], dl_paused = 0, dl_attempts = 0\<rparr>)"

section \<open>Spool\<close>

text \<open>The spool directory maps a file name to its text; \<^verbatim>\<open>renameSync\<close> makes a result appear at once.\<close>

type_synonym spool = "(jstr \<times> jstr) list"

definition pendingDeliveryName :: "jstr \<Rightarrow> jstr" where
  "pendingDeliveryName executionId = executionId @ ''.json''"

definition pending_json :: "callback_options \<Rightarrow> jval" where
  "pending_json options =
     JObj [(''url'', JStr (cb_url options)), (''allowlist'', JStr (cb_allowlist options)), (''token'', JStr (cb_token options)),
           (''executionId'', JStr (cb_execution options)), (''payload'', JObj (cb_payload options))]"

definition persistPendingTerminalDelivery :: "spool \<Rightarrow> callback_options \<Rightarrow> spool" where
  "persistPendingTerminalDelivery sp options =
     obj_put sp (pendingDeliveryName (cb_execution options)) (case json_stringify (pending_json options) of None \<Rightarrow> [] | Some s \<Rightarrow> s)"

text \<open>The options of a spooled result; \<open>None\<close> when the text is not JSON or a field is missing.\<close>

definition pendingOptions :: "jstr \<Rightarrow> callback_options option" where
  "pendingOptions text =
     (case json_parse text of
        None \<Rightarrow> None
      | Some p \<Rightarrow>
          if truthy (js_get p ''url'') \<and> truthy (js_get p ''token'') \<and> truthy (js_get p ''executionId'') \<and> truthy (js_get p ''payload'')
          then Some \<lparr>cb_url = to_string (js_get p ''url''), cb_allowlist = to_string (js_or (js_get p ''allowlist'') (JStr [])),
                     cb_token = to_string (js_get p ''token''), cb_execution = to_string (js_get p ''executionId''),
                     cb_payload = own_props (js_get p ''payload''), cb_attempts = num 3\<rparr>
          else None)"

fun redeliver :: "delivery_world \<Rightarrow> nat \<Rightarrow> jstr list \<Rightarrow> spool \<Rightarrow> nat \<Rightarrow> nat \<times> spool \<times> nat" where
  "redeliver w n [] sp delivered = (delivered, sp, n)"
| "redeliver w n (name # names) sp delivered =
     (case map_option pendingOptions (map_of sp name) of
        Some (Some options) \<Rightarrow>
          (case deliverTerminalResult w n options of
             (Inr ack, lg) \<Rightarrow> redeliver w (n + length (dl_requests lg)) names (obj_delete sp name) (delivered + 1)
           | (Inl e, lg) \<Rightarrow> redeliver w (n + length (dl_requests lg)) names sp delivered)
      | _ \<Rightarrow> redeliver w n names sp delivered)"

definition redeliverPendingTerminalResults :: "delivery_world \<Rightarrow> nat \<Rightarrow> spool \<Rightarrow> nat \<times> spool \<times> nat" where
  "redeliverPendingTerminalResults w n sp = redeliver w n (filter (\<lambda>name. ends_with name ''.json'') (map fst sp)) sp 0"

end
