(* ===== verification/CallbackProofs.thy ===== *)
theory CallbackProofs
  imports TerminalCallback TransportProofs
begin

text \<open>
  The properties of terminal delivery: an acknowledgement is sound, the work of a delivery is
  bounded and its requests go to safe destinations, and the spool loses no result.
\<close>

section \<open>Attempts\<close>

lemma maxAttempts_cases: "maxAttempts v = NaN \<or> (\<exists>q. maxAttempts v = Fin q \<and> 1 \<le> q \<and> q \<le> 16)"
  by (cases "to_number (js_or v (num 12))") (auto simp: maxAttempts_def num_max_def num_min_def)

lemma attemptCount_le: "attemptCount (maxAttempts v) \<le> 16"
proof -
  have "nat \<lfloor>q\<rfloor> \<le> 16" if "q \<le> 16" for q :: rat using that by (simp add: nat_le_iff floor_le_iff)
  then show ?thesis using maxAttempts_cases [of v] by (auto simp: attemptCount_def)
qed

lemma attempt_requests: "deliveryAttempt w options n = (reqs, out) \<Longrightarrow> length reqs \<le> 1"
  by (auto simp: deliveryAttempt_def Let_def split: sum.splits prod.splits if_splits)

definition good_request :: "delivery_world \<Rightarrow> callback_options \<Rightarrow> request \<Rightarrow> bool" where
  "good_request w options r \<longleftrightarrow>
     (''X-Idempotency-Key'', terminalDeliveryId (cb_execution options)) \<in> set (rq_headers r) \<and>
     (\<not> dw_private w \<longrightarrow> \<not> isForbiddenAddress (u_hostname (rq_url r))) \<and>
     (\<exists>target. dw_parse w (cb_url options) = Some target \<and> plainHttp target \<and>
        (callbackAllowlist w options \<noteq> [] \<longrightarrow>
           list_ex (hostMatches (callbackHost target)) (callbackHosts (callbackAllowlist w options))))"

lemma callbackTarget_good:
  assumes "callbackTarget w options = Inr (target, pinned)"
  shows "dw_parse w (cb_url options) = Some target \<and> plainHttp target \<and>
    (callbackAllowlist w options \<noteq> [] \<longrightarrow> list_ex (hostMatches (callbackHost target)) (callbackHosts (callbackAllowlist w options)))"
  using assms
  by (auto simp: callbackTarget_def validateTerminalCallbackUrl_def res_simps Let_def split: option.splits if_splits)

lemma attempt_good:
  assumes "deliveryAttempt w options n = (reqs, out)" and "r \<in> set reqs"
  shows "good_request w options r"
proof -
  obtain target pinned where t: "callbackTarget w options = Inr (target, pinned)"
    using assms by (auto simp: deliveryAttempt_def split: sum.splits)
  have r: "r = callbackRequest w options pinned" "\<not> dw_private w \<longrightarrow> \<not> isForbiddenAddress (u_hostname pinned)"
    using assms t by (auto simp: deliveryAttempt_def unsafeDestination_def Let_def split: if_splits)
  show ?thesis
    using callbackTarget_good [OF t] r by (simp add: good_request_def callbackRequest_def deliveryHeaders_def Let_def)
qed

definition attempt_acks :: "callback_options \<Rightarrow> failure + http_reply \<Rightarrow> bool" where
  "attempt_acks options out = (case out of Inr r \<Rightarrow> acknowledged (cb_execution options) r | Inl _ \<Rightarrow> False)"

definition attempted :: "request list \<Rightarrow> nat \<Rightarrow> delivery_log \<Rightarrow> delivery_log" where
  "attempted reqs attempt lg = lg\<lparr>dl_requests := dl_requests lg @ reqs, dl_attempts := attempt\<rparr>"

definition paused :: "jnum \<Rightarrow> nat \<Rightarrow> delivery_log \<Rightarrow> delivery_log" where
  "paused limit attempt lg =
     (if num_lt (Fin (of_nat attempt)) limit then lg\<lparr>dl_paused := dl_paused lg + deliveryPause attempt\<rparr> else lg)"

lemma attempted_simps [simp]:
  "dl_requests (attempted reqs k lg) = dl_requests lg @ reqs" "dl_attempts (attempted reqs k lg) = k"
  "dl_paused (attempted reqs k lg) = dl_paused lg"
  by (simp_all add: attempted_def)

lemma paused_simps [simp]:
  "dl_requests (paused limit k lg) = dl_requests lg" "dl_attempts (paused limit k lg) = dl_attempts lg"
  by (simp_all add: paused_def)

lemma pause_nonneg [simp]: "0 \<le> deliveryPause k" "0 \<le> sum_list (map deliveryPause ks)"
  by (induction ks) (auto simp: deliveryPause_def)

lemma paused_le: "limit = NaN \<or> (\<exists>q. limit = Fin q \<and> q \<le> 16) \<Longrightarrow>
  dl_paused (paused limit k lg) \<le> dl_paused lg + (if k < 16 then deliveryPause k else 0)"
  by (auto simp: paused_def)

text \<open>The two ways an attempt goes on: it is acknowledged, or the loop continues after a pause.\<close>

lemma loop_acked:
  assumes "deliveryAttempt w options n = (reqs, out)" and "attempt_acks options out"
  shows "\<exists>reply. out = Inr reply \<and> acknowledged (cb_execution options) reply \<and>
    deliveryLoop w options limit n (Suc left) attempt le lg =
    (Inr \<lparr>ack_delivery = terminalDeliveryId (cb_execution options), ack_attempts = attempt, ack_status = hr_status reply\<rparr>,
     attempted reqs attempt lg)"
  using assms by (cases out) (simp_all add: attempt_acks_def attempted_def Let_def)

lemma loop_again:
  assumes "deliveryAttempt w options n = (reqs, out)" and "\<not> attempt_acks options out"
  shows "deliveryLoop w options limit n (Suc left) attempt le lg =
    deliveryLoop w options limit (n + length reqs) left (Suc attempt) (attemptError out) (paused limit attempt (attempted reqs attempt lg))"
  using assms by (simp add: attempt_acks_def attempted_def paused_def Let_def)

lemma pause_sum: "(if k < 16 then deliveryPause k else 0) + sum_list (map deliveryPause [Suc k..<16]) = sum_list (map deliveryPause [k..<16])"
  by (simp add: upt_conv_Cons)

lemma loop_log:
  assumes "limit = NaN \<or> (\<exists>q. limit = Fin q \<and> q \<le> 16)"
  shows "deliveryLoop w options limit n left attempt le lg = (r, lg') \<Longrightarrow>
     list_all (good_request w options) (dl_requests lg) \<Longrightarrow>
     list_all (good_request w options) (dl_requests lg') \<and>
     length (dl_requests lg') \<le> length (dl_requests lg) + left \<and>
     dl_paused lg' \<le> dl_paused lg + sum_list (map deliveryPause [attempt..<16])"
proof (induction left arbitrary: n attempt le lg)
  case (Suc left)
  obtain reqs out where a: "deliveryAttempt w options n = (reqs, out)" by (cases "deliveryAttempt w options n")
  have g: "list_all (good_request w options) (dl_requests (attempted reqs attempt lg))" and l: "length reqs \<le> 1"
    using Suc.prems(2) attempt_good [OF a] attempt_requests [OF a] by (auto simp: list_all_iff)
  show ?case
  proof (cases "attempt_acks options out")
    case True
    have "lg' = attempted reqs attempt lg" using loop_acked [OF a True, of limit left attempt le lg] Suc.prems(1) by auto
    then show ?thesis using g l by simp
  next
    case False
    note ih = Suc.IH [OF Suc.prems(1) [unfolded loop_again [OF a False]]]
    have "list_all (good_request w options) (dl_requests lg')" "length (dl_requests lg') \<le> length (dl_requests lg) + length reqs + left"
      "dl_paused lg' \<le> dl_paused (paused limit attempt (attempted reqs attempt lg)) + sum_list (map deliveryPause [Suc attempt..<16])"
      using ih g by simp_all
    then show ?thesis
      using l paused_le [OF assms, of attempt "attempted reqs attempt lg"] pause_sum [of attempt] by simp
  qed
qed simp

lemma loop_ack:
  "deliveryLoop w options limit n left attempt le lg = (Inr ack, lg') \<Longrightarrow>
     ack_delivery ack = terminalDeliveryId (cb_execution options) \<and> attempt \<le> ack_attempts ack \<and> ack_attempts ack < attempt + left \<and>
     dl_attempts lg' = ack_attempts ack \<and>
     (\<exists>m reqs reply. deliveryAttempt w options m = (reqs, Inr reply) \<and> acknowledged (cb_execution options) reply \<and> ack_status ack = hr_status reply)"
proof (induction left arbitrary: n attempt le lg)
  case (Suc left)
  obtain reqs out where a: "deliveryAttempt w options n = (reqs, out)" by (cases "deliveryAttempt w options n")
  show ?case
  proof (cases "attempt_acks options out")
    case True
    then obtain reply where "out = Inr reply" "acknowledged (cb_execution options) reply" "lg' = attempted reqs attempt lg"
      "ack = \<lparr>ack_delivery = terminalDeliveryId (cb_execution options), ack_attempts = attempt, ack_status = hr_status reply\<rparr>"
      using loop_acked [OF a True, of limit left attempt le lg] Suc.prems by auto
    with a show ?thesis by (simp, metis)
  next
    case False
    show ?thesis using Suc.IH [OF Suc.prems [unfolded loop_again [OF a False]]] by simp
  qed
qed simp

lemma loop_none:
  assumes "\<And>m reqs out. deliveryAttempt w options m = (reqs, out) \<Longrightarrow> \<not> attempt_acks options out"
  shows "\<exists>e lg'. deliveryLoop w options limit n left attempt le lg = (Inl e, lg')"
proof (induction left arbitrary: n attempt le lg)
  case (Suc left)
  obtain reqs out where a: "deliveryAttempt w options n = (reqs, out)" by (cases "deliveryAttempt w options n")
  show ?case using Suc.IH loop_again [OF a assms [OF a]] by metis
qed simp

lemma pause_total: "sum_list (map deliveryPause [1..<16]) = 165500"
  by (simp add: deliveryPause_def upt_rec)

section \<open>Spool\<close>

lemma delete_length:
  "distinct (map fst sp) \<Longrightarrow> map_of sp name = Some text \<Longrightarrow> Suc (length (obj_delete sp name)) = length sp"
proof (induction sp)
  case (Cons kv sp)
  have "name \<notin> fst ` set sp \<Longrightarrow> filter (\<lambda>kv. fst kv \<noteq> name) sp = sp" by (force simp: filter_id_conv)
  then show ?case using Cons by (cases kv) (auto simp: obj_delete_def split: if_splits)
qed simp

definition delivered_text :: "delivery_world \<Rightarrow> jstr \<Rightarrow> bool" where
  "delivered_text w text \<longleftrightarrow>
     (\<exists>options m ack lg. pendingOptions text = Some options \<and> deliverTerminalResult w m options = (Inr ack, lg))"

definition spool_kept :: "delivery_world \<Rightarrow> spool \<Rightarrow> spool \<Rightarrow> bool" where
  "spool_kept w sp sp' \<longleftrightarrow>
     (\<forall>name text. map_of sp name = Some text \<longrightarrow> map_of sp' name = Some text \<or> map_of sp' name = None \<and> delivered_text w text)"

lemma spool_kept_refl: "spool_kept w sp sp" by (simp add: spool_kept_def)

lemma spool_kept_trans: "spool_kept w a b \<Longrightarrow> spool_kept w b c \<Longrightarrow> map_of c \<subseteq>\<^sub>m map_of b \<Longrightarrow> spool_kept w a c"
  unfolding spool_kept_def map_le_def by (metis domIff not_None_eq)

lemma delete_kept: "map_of sp name = Some text \<Longrightarrow> delivered_text w text \<Longrightarrow> spool_kept w sp (obj_delete sp name)"
  by (simp add: spool_kept_def map_of_obj_delete)

lemma delete_below: "map_of (obj_delete sp name) \<subseteq>\<^sub>m map_of sp"
  by (auto simp: map_le_def map_of_obj_delete)

lemma redeliver_kept:
  "redeliver w n names sp d = (d', sp', n') \<Longrightarrow> distinct (map fst sp) \<Longrightarrow>
     spool_kept w sp sp' \<and> map_of sp' \<subseteq>\<^sub>m map_of sp \<and> d' + length sp' = d + length sp"
proof (induction names arbitrary: n sp d)
  case (Cons name names)
  show ?case
  proof (cases "map_option pendingOptions (map_of sp name)")
    case so: (Some popt)
    show ?thesis
    proof (cases popt)
      case (Some options)
      obtain r lg where dl: "deliverTerminalResult w n options = (r, lg)" by (cases "deliverTerminalResult w n options")
      obtain body where t: "map_of sp name = Some body" "pendingOptions body = Some options"
        using so Some by auto
      show ?thesis
      proof (cases r)
        case (Inr ack)
        let ?sp = "obj_delete sp name"
        have run: "redeliver w (n + length (dl_requests lg)) names ?sp (d + 1) = (d', sp', n')"
          using Cons.prems(1) t dl Inr by simp
        have "delivered_text w body" using t dl Inr by (auto simp: delivered_text_def)
        note kept = delete_kept [OF t(1) this]
        note ih = Cons.IH [OF run distinct_obj_delete [OF Cons.prems(2)]]
        show ?thesis
          using ih spool_kept_trans [OF kept] map_le_trans [OF _ delete_below [of sp name]] delete_length [OF Cons.prems(2) t(1)] by auto
      qed (use Cons t dl in simp)
    qed (use Cons so in simp)
  qed (use Cons in simp)
qed (simp add: spool_kept_refl)

section \<open>A delivery that is acknowledged at the second attempt\<close>

definition demo_world :: delivery_world where
  "demo_world =
     (let u = (\<lambda>host. \<lparr>u_text = ''https://'' @ host @ ''/r'', u_protocol = ''https:'', u_hostname = host, u_host = host,
                     u_username = [], u_password = [], u_hash = []\<rparr>) in
      \<lparr>dw_allowlist = ''*.example.com'', dw_private = False, dw_parse = (\<lambda>s. Some (u (if s = ''https://93.184.216.34/r'' then ''93.184.216.34'' else ''api.example.com''))),
       dw_with_host = (\<lambda>_ host. u host), dw_lookup = (\<lambda>_. Some [''93.184.216.34'']), dw_stamp = ''2026-01-01T00:00:00.000Z'',
       dw_net = (\<lambda>n _. if n = 0 then Inl (''AbortError'', [])
         else Inr \<lparr>re_url = ''https://93.184.216.34/r'', re_content = \<lparr>hr_status = 200, hr_ok = True, hr_body =
           JObj [(''id'', JStr ''e1''), (''acknowledged'', JBool True), (''report_complete'', JBool True),
                 (''terminal_delivery_id'', JStr ''ai-terminal:e1'')]\<rparr>\<rparr>)\<rparr>)"

definition demo_options :: callback_options where
  "demo_options = \<lparr>cb_url = ''https://api.example.com/r'', cb_allowlist = [], cb_token = ''t'', cb_execution = ''e1'', cb_payload = [], cb_attempts = JUndef\<rparr>"

definition demo_spool :: spool where
  "demo_spool = [(''e1.json'', ''{\"url\":\"u\",\"token\":\"t\",\"executionId\":\"e1\",\"payload\":{}}''), (''note.txt'', [])]"

lemma demo_delivery:
  "fst (deliverTerminalResult demo_world 0 demo_options) =
     Inr \<lparr>ack_delivery = ''ai-terminal:e1'', ack_attempts = 2, ack_status = 200\<rparr>"
  by code_simp

lemma demo_redelivery: "redeliverPendingTerminalResults demo_world 1 demo_spool = (1, [(''note.txt'', [])], 2)"
  by code_simp

section \<open>Properties\<close>

text \<open>
  C9. A delivery that reports success was confirmed: some attempt reached the backend, and its reply
  was a success status naming this execution and this delivery and saying that the report is complete. The
  acknowledgement has the idempotency key of the execution and the number of the attempt, at
  most 16; and when no attempt can be acknowledged the delivery ends with an error.
\<close>

theorem delivery_ack_sound:
  "(\<forall>ack lg. deliverTerminalResult w n options = (Inr ack, lg) \<longrightarrow>
      ack_delivery ack = terminalDeliveryId (cb_execution options) \<and>
      1 \<le> ack_attempts ack \<and> ack_attempts ack \<le> 16 \<and> dl_attempts lg = ack_attempts ack \<and>
      (\<exists>m reqs reply. deliveryAttempt w options m = (reqs, Inr reply) \<and> acknowledged (cb_execution options) reply \<and>
         ack_status ack = hr_status reply)) \<and>
   ((\<forall>m reqs reply. deliveryAttempt w options m = (reqs, Inr reply) \<longrightarrow> \<not> acknowledged (cb_execution options) reply) \<longrightarrow>
      (\<exists>e lg. deliverTerminalResult w n options = (Inl e, lg)))"
proof (intro conjI allI impI)
  fix ack lg assume "deliverTerminalResult w n options = (Inr ack, lg)"
  from loop_ack [OF this [unfolded deliverTerminalResult_def Let_def]] attemptCount_le [of "cb_attempts options"]
  show "ack_delivery ack = terminalDeliveryId (cb_execution options)" "1 \<le> ack_attempts ack" "ack_attempts ack \<le> 16"
      "dl_attempts lg = ack_attempts ack"
      "\<exists>m reqs reply. deliveryAttempt w options m = (reqs, Inr reply) \<and> acknowledged (cb_execution options) reply \<and>
         ack_status ack = hr_status reply"
    by auto
next
  assume "\<forall>m reqs reply. deliveryAttempt w options m = (reqs, Inr reply) \<longrightarrow> \<not> acknowledged (cb_execution options) reply"
  then show "\<exists>e lg. deliverTerminalResult w n options = (Inl e, lg)"
    unfolding deliverTerminalResult_def Let_def
    by (intro loop_none) (auto simp: attempt_acks_def split: sum.splits)
qed

theorem delivery_ack_sound_witness:
  "\<exists>reqs reply m. deliveryAttempt demo_world demo_options m = (reqs, Inr reply) \<and>
     acknowledged (cb_execution demo_options) reply \<and> hr_status reply = 200"
proof -
  obtain lg where "deliverTerminalResult demo_world 0 demo_options =
      (Inr \<lparr>ack_delivery = ''ai-terminal:e1'', ack_attempts = 2, ack_status = 200\<rparr>, lg)"
    using demo_delivery by (cases "deliverTerminalResult demo_world 0 demo_options") auto
  from delivery_ack_sound [of demo_world 0 demo_options, THEN conjunct1, rule_format, OF this] show ?thesis by auto
qed

text \<open>
  A delivery is bounded and safe: it sends at most 16 requests and pauses for at
  most 165.5 seconds in all, and every request carries the idempotency key of the execution,
  goes to a plain HTTP or HTTPS target without credentials, to a host of the allowlist when there is one, and never to a
  forbidden address unless private destinations are enabled.
\<close>

theorem delivery_bounded:
  assumes "deliverTerminalResult w n options = (r, lg)"
  shows "length (dl_requests lg) \<le> 16 \<and> dl_paused lg \<le> 165500 \<and> list_all (good_request w options) (dl_requests lg)"
proof -
  let ?limit = "maxAttempts (cb_attempts options)"
  have "?limit = NaN \<or> (\<exists>q. ?limit = Fin q \<and> q \<le> 16)" using maxAttempts_cases by blast
  from loop_log [OF this assms [unfolded deliverTerminalResult_def Let_def]] attemptCount_le [of "cb_attempts options"] pause_total
  show ?thesis by simp
qed

theorem delivery_bounded_witness:
  "length (dl_requests (snd (deliverTerminalResult demo_world 0 demo_options))) \<le> 16"
  using delivery_bounded [OF prod.collapse [symmetric], of demo_world 0 demo_options] by blast

text \<open>
  Redelivery loses nothing: a spooled result disappears only when a delivery of it was
  acknowledged, every other file is kept as it was, nothing is added, and the number that is returned is the
  number of files removed.
\<close>

theorem redelivery_keeps:
  assumes "distinct (map fst sp)" and "redeliverPendingTerminalResults w n sp = (delivered, sp', n')"
  shows "spool_kept w sp sp' \<and> map_of sp' \<subseteq>\<^sub>m map_of sp \<and> delivered + length sp' = length sp"
  using redeliver_kept [OF assms(2) [unfolded redeliverPendingTerminalResults_def] assms(1)] by simp

theorem redelivery_keeps_witness: "spool_kept demo_world demo_spool [(''note.txt'', [])]"
proof -
  have "distinct (map fst demo_spool)" by code_simp
  from redelivery_keeps [OF this demo_redelivery] show ?thesis by blast
qed

end
