(* ===== verification/CaseBatches.thy ===== *)
theory CaseBatches
  imports JsLaws
begin

text \<open>
  Authoring of test cases in bounded batches: \<^verbatim>\<open>engine/src/case-authoring-batching.ts\<close>, the contract of
  one proposal in \<^verbatim>\<open>engine/src/case-proposal-contract.ts\<close>, and \<^verbatim>\<open>normalizeCaseProposalCategory\<close> of
  \<^verbatim>\<open>engine/src/generation-contracts.ts\<close>.

  The workflow agent and the hash of a prompt are parameters (fields of \<open>authoring\<close>); the agent sees the
  number of the call and the request. Durations and
  the fields that are the same in every trace (the node and the execution mode) are left out. Accented letters
  of the prompts are written by their code.
\<close>

section \<open>Batches\<close>

definition MAX_CASES_PER_AUTHORING_BATCH :: nat where
  "MAX_CASES_PER_AUTHORING_BATCH = 6"

definition COMPLETION_TOKENS_PER_CASE_BUDGET :: int where
  "COMPLETION_TOKENS_PER_CASE_BUDGET = 1800"

definition authoringBatchSize :: "jnum \<Rightarrow> nat" where
  "authoringBatchSize maxCompletionTokens =
     (let tokenBudget = (case maxCompletionTokens of Fin q \<Rightarrow> max 1 \<lfloor>q\<rfloor> | _ \<Rightarrow> 4096) in
      nat (max 1 (min (int MAX_CASES_PER_AUTHORING_BATCH) (tokenBudget div COMPLETION_TOKENS_PER_CASE_BUDGET))))"

text \<open>The consecutive slices of \<open>k\<close> items, the last one shorter.\<close>

function slices :: "nat \<Rightarrow> 'a list \<Rightarrow> 'a list list" where
  "slices k [] = []"
| "slices k (x # xs) = (x # take (k - 1) xs) # slices k (drop (k - 1) xs)"
  by pat_completeness auto
termination
  by (relation "measure (\<lambda>(k, xs). length xs)") auto

definition caseAuthoringBatches :: "jval \<Rightarrow> jnum \<Rightarrow> jval list list" where
  "caseAuthoringBatches scenarios maxCompletionTokens = slices (authoringBatchSize maxCompletionTokens) (arr_elems scenarios)"

definition splitCaseAuthoringBatch :: "'a list \<Rightarrow> ('a list \<times> 'a list) option" where
  "splitCaseAuthoringBatch scenarios =
     (if length scenarios < 2 then None
      else let middle = (length scenarios + 1) div 2 in Some (take middle scenarios, drop middle scenarios))"

definition providerCompletionWasTruncated :: "jval \<Rightarrow> bool" where
  "providerCompletionWasTruncated result =
     (let raw = first_truthy [js_get result ''rawResponse'', js_get result ''raw_response'', JObj []];
          finish = toLowerCase (to_string (first_truthy
            [js_path raw [''choices'', ''0'', ''finish_reason''], js_path raw [''candidates'', ''0'', ''finishReason''],
             js_get raw ''stop_reason'', js_get raw ''stopReason'', JStr []]))
      in finish \<in> {''length'', ''max_tokens'', ''max_output_tokens'', ''max_tokens_reached''})"

section \<open>The contract of a proposal\<close>

text \<open>\<^verbatim>\<open>String(v || "").trim()\<close>, and \<^verbatim>\<open>[...new Set(xs)]\<close>.\<close>

definition text_of :: "jval \<Rightarrow> jstr" where
  "text_of v = trim (to_string (js_or v (JStr [])))"

definition set_list :: "'a list \<Rightarrow> 'a list" where
  "set_list xs = rev (remdups (rev xs))"

definition CASE_CATEGORIES :: "jstr list" where
  "CASE_CATEGORIES = [''POSITIVE'', ''NEGATIVE'', ''BOUNDARY'', ''STATE_TRANSITION'', ''RBAC'', ''SECURITY'', ''ACCESSIBILITY'',
     ''INTEGRATION'', ''PERFORMANCE'']"

definition stepIssues :: "nat \<Rightarrow> jval \<Rightarrow> jstr list" where
  "stepIssues index step =
     (let label = ''STEP_'' @ nat_str (index + 1) in
      (if num_eq (to_number (js_get step ''number'')) (Fin (of_nat (index + 1))) then [] else [label @ ''_SEQUENCE_INVALID''])
      @ (if text_of (js_get step ''action'') = [] then [label @ ''_ACTION_REQUIRED''] else [])
      @ (if text_of (js_get step ''expected_result'') = [] then [label @ ''_EXPECTED_RESULT_REQUIRED''] else []))"

definition localIdValid :: "jval \<Rightarrow> bool" where
  "localIdValid v = (case v of JStr s \<Rightarrow> trim s \<noteq> [] \<and> length s \<le> 80 | _ \<Rightarrow> False)"

definition caseProposalContractIssues :: "jval \<Rightarrow> jstr list \<Rightarrow> jstr list" where
  "caseProposalContractIssues item allowedCriterionIds =
     (if \<not> is_object item \<or> is_array item then [''PROPOSAL_OBJECT_REQUIRED'']
      else (let steps = js_get item ''steps''; refs = js_get item ''criterion_refs'' in
        set_list (
          (if localIdValid (js_get item ''local_id'') then [] else [''LOCAL_ID_REQUIRED''])
          @ (if text_of (js_get item ''title'') = [] then [''TITLE_REQUIRED''] else [])
          @ (if \<not> is_array steps \<or> arr_elems steps = [] then [''STEPS_REQUIRED'']
             else concat (map (\<lambda>(i, step). stepIssues i step) (enumerate 0 (arr_elems steps))))
          @ (if \<not> is_array refs \<or> arr_elems refs = [] then [''CRITERION_REFS_REQUIRED'']
             else if list_all (\<lambda>r. to_string r \<in> set allowedCriterionIds) (arr_elems refs) then [] else [''CRITERION_REF_UNKNOWN''])
          @ (if toUpperCase (to_string (js_or (js_get item ''category'') (JStr []))) \<in> set CASE_CATEGORIES then [] else [''CATEGORY_INVALID''])
          @ (if toUpperCase (to_string (js_or (js_get item ''test_type'') (JStr ''MANUAL''))) = ''MANUAL'' then [] else [''TEST_TYPE_NOT_MANUAL'']))))"

definition validCaseProposal :: "jval \<Rightarrow> jstr list \<Rightarrow> bool" where
  "validCaseProposal item allowedCriterionIds \<longleftrightarrow> length (caseProposalContractIssues item allowedCriterionIds) = 0"

definition normalizeCaseStep :: "jval \<Rightarrow> jval" where
  "normalizeCaseStep step =
     (if \<not> is_object step then step
      else (let d = js_get step ''data'' in
        if nullish d then JObj (obj_put (own_props step) ''data'' (JStr []))
        else if is_object d then JObj (obj_put (own_props step) ''data'' (case json_stringify d of Some t \<Rightarrow> JStr t | None \<Rightarrow> JUndef))
        else step))"

definition normalizeCaseProposalCategory :: "jval \<Rightarrow> jval" where
  "normalizeCaseProposalCategory item =
     (if \<not> is_object item then item
      else JObj (obj_spread (obj_put (own_props item) ''category'' (JStr (toUpperCase (text_of (js_get item ''category'')))))
        (case js_get item ''steps'' of JArr steps \<Rightarrow> [(''steps'', JArr (map normalizeCaseStep steps))] | _ \<Rightarrow> [])))"

section \<open>One batch\<close>

record authoring =
  ca_agent :: "nat \<Rightarrow> jobj \<Rightarrow> js_error + jval"
  ca_hash :: "jstr \<Rightarrow> jstr"
  ca_request :: jobj
  ca_memory :: jobj
  ca_allowed :: "jstr list"
  ca_node_name :: jstr

record batch_trace =
  bt_prompt_hash :: jstr
  bt_status :: jval
  bt_retry :: nat
  bt_index :: nat
  bt_scenarios :: nat
  bt_returned :: nat
  bt_metrics :: jval

record batch_error =
  be_error :: js_error
  be_issues :: "jstr list"
  be_traces :: "batch_trace list option"

record batch_state =
  bs_proposals :: "jval list"
  bs_scopes :: "jval list"
  bs_traces :: "batch_trace list"
  bs_calls :: nat

definition recordTrace :: "authoring \<Rightarrow> jval \<Rightarrow> jstr \<Rightarrow> jval \<Rightarrow> nat \<Rightarrow> nat \<Rightarrow> nat \<Rightarrow> batch_state \<Rightarrow> batch_state" where
  "recordTrace env result' prompt st' scenarioCount returnedCount retryCount bs =
     bs\<lparr>bs_traces := bs_traces bs @ [\<lparr>bt_prompt_hash = ca_hash env prompt, bt_status = st', bt_retry = retryCount,
        bt_index = length (bs_traces bs) + 1, bt_scenarios = scenarioCount, bt_returned = returnedCount,
        bt_metrics = js_or (js_get result' ''metrics'') (JObj [])\<rparr>]\<rparr>"

definition callAgent :: "authoring \<Rightarrow> jobj \<Rightarrow> jstr \<Rightarrow> nat \<Rightarrow> nat \<Rightarrow> batch_state \<Rightarrow> batch_state \<times> (batch_error + jval)" where
  "callAgent env callRequest prompt scenarioCount retryCount bs =
     (let called = bs\<lparr>bs_calls := bs_calls bs + 1\<rparr> in
      case ca_agent env (bs_calls bs) callRequest of
        Inl e \<Rightarrow> (let failed = recordTrace env JNull prompt (JStr ''PROVIDER_ERROR'') scenarioCount 0 retryCount called in
                  (failed, Inl \<lparr>be_error = e, be_issues = [], be_traces = Some (bs_traces failed)\<rparr>))
      | Inr result' \<Rightarrow> (called, Inr result'))"

definition parseProposals :: "jval \<Rightarrow> jval list" where
  "parseProposals value = (case js_get value ''propuestas'' of JArr xs \<Rightarrow> map normalizeCaseProposalCategory xs | _ \<Rightarrow> [])"

definition batchOutput :: "jval \<Rightarrow> jval res" where
  "batchOutput result' =
     map_ok (\<lambda>d. if is_object (js_get d ''decision'') then js_get d ''decision'' else d) (js_member result' ''data'')"

definition proposalLabel :: "nat \<Rightarrow> jstr \<Rightarrow> jstr" where
  "proposalLabel index issue = ''PROPOSAL_'' @ nat_str (index + 1) @ '':'' @ issue"

definition validateProposals :: "jstr list \<Rightarrow> jval list \<Rightarrow> jstr list" where
  "validateProposals allowed values =
     concat (map (\<lambda>(i, proposal). map (proposalLabel i) (caseProposalContractIssues proposal allowed)) (enumerate 0 values))"

definition criterionRefs :: "jval \<Rightarrow> jstr list" where
  "criterionRefs v = sort_by str_le (map to_string (arr_elems (js_get v ''criterion_refs'')))"

definition refsText :: "jval \<Rightarrow> jstr option" where
  "refsText v = json_stringify (JArr (map JStr (criterionRefs v)))"

definition refIssues :: "jval list \<Rightarrow> jval list \<Rightarrow> jstr list" where
  "refIssues batch items =
     concat (map (\<lambda>(i, proposal).
       if refsText proposal \<noteq> refsText (if i < length batch then batch ! i else JUndef)
       then [proposalLabel i ''SCENARIO_CRITERION_REFS_MISMATCH''] else []) (enumerate 0 items))"

fun localIdIssues :: "jstr list \<Rightarrow> nat \<Rightarrow> jval list \<Rightarrow> jstr list" where
  "localIdIssues seen index [] = []"
| "localIdIssues seen index (proposal # items) =
     (let k = text_of (js_get proposal ''local_id'') in
      (if k \<noteq> [] \<and> k \<in> set seen then [proposalLabel index ''LOCAL_ID_DUPLICATE''] else [])
      @ localIdIssues (if k \<noteq> [] then k # seen else seen) (index + 1) items)"

definition validateBatch :: "authoring \<Rightarrow> jval list \<Rightarrow> batch_state \<Rightarrow> jval list \<Rightarrow> jstr list" where
  "validateBatch env batch bs items =
     set_list (validateProposals (ca_allowed env) items
       @ (if length items \<noteq> length batch then [''SCENARIO_CASE_COUNT_MISMATCH''] else [])
       @ refIssues batch items
       @ localIdIssues (map (\<lambda>p. to_string (js_or (js_get p ''local_id'') (JStr []))) (bs_proposals bs)) 0 items)"

definition batchIssues :: "authoring \<Rightarrow> jval list \<Rightarrow> batch_state \<Rightarrow> jval list \<Rightarrow> jstr list" where
  "batchIssues env batch bs values = (if values = [] then [''PROPOSALS_REQUIRED''] else validateBatch env batch bs values)"

definition batchMemory :: "authoring \<Rightarrow> jval list \<Rightarrow> batch_state \<Rightarrow> jobj" where
  "batchMemory env batch bs =
     obj_spread (ca_memory env)
       [(''scenarios'', JArr batch), (''max_cases'', num (of_nat (length batch))), (''propuestas'', JArr (bs_proposals bs))]"

definition batchPrompt :: "authoring \<Rightarrow> jval list \<Rightarrow> jstr" where
  "batchPrompt env batch =
     to_string (obj_get (ca_request env) ''promptTemplate'') @ [CHR 10] @ ''Este lote contiene '' @ nat_str (length batch)
     @ '' escenarios. Devuelve exactamente un caso manual por cada escenario, en el mismo orden recibido y sin casos adicionales. Usa un local_id nuevo que no aparezca en propuestas previas. Conserva exactamente las referencias de criterio del escenario correspondiente. Eval''
     @ [CHR 0xFA] @ ''a y redacta solo su condici'' @ [CHR 0xF3]
     @ ''n, datos y resultado observable; no copies otro escenario ni combines varios. No incluyas escenarios de otros lotes.''"

definition repairPrompt :: "jstr \<Rightarrow> jstr list \<Rightarrow> jstr" where
  "repairPrompt prompt issues =
     prompt @ [CHR 10] @ ''La respuesta anterior incumpli'' @ [CHR 0xF3] @ '' el contrato: '' @ join '', '' issues
     @ ''. Repara este lote una sola vez. Devuelve exactamente un caso por escenario, con local_id '' @ [CHR 0xFA]
     @ ''nico, categor'' @ [CHR 0xED] @ ''a permitida, test_type MANUAL, referencias de criterio de la lista y pasos consecutivos con acci'' @ [CHR 0xF3]
     @ ''n y resultado observable. No inventes UUID ni criterios. S'' @ [CHR 0xF3] @ ''lo JSON.''"

definition batchRequest :: "authoring \<Rightarrow> jval list \<Rightarrow> batch_state \<Rightarrow> jobj" where
  "batchRequest env batch bs =
     obj_spread (ca_request env) [(''promptTemplate'', JStr (batchPrompt env batch)), (''input'', JObj (batchMemory env batch bs))]"

definition repairRequest :: "authoring \<Rightarrow> jval list \<Rightarrow> batch_state \<Rightarrow> jval list \<Rightarrow> jstr list \<Rightarrow> jobj" where
  "repairRequest env batch bs values issues =
     obj_spread (batchRequest env batch bs)
       [(''nodeName'', JStr (ca_node_name env @ '' - reparaci'' @ [CHR 0xF3] @ ''n'')),
        (''promptTemplate'', JStr (repairPrompt (batchPrompt env batch) issues)),
        (''input'', JObj (obj_spread (batchMemory env batch bs)
           [(''invalid_proposals'', JArr values), (''contract_issues'', JArr (map JStr issues))]))]"

type_synonym visit = "batch_state \<times> (batch_error + (jval list \<times> jval list) option)"

text \<open>
  The outcome of a visit: an error, \<open>Inr (Some (a, b))\<close> when the batch is replaced by its halves, \<open>Inr None\<close>
  when its proposals were accepted.
\<close>

definition truncatedBatch :: "authoring \<Rightarrow> jval list \<Rightarrow> jstr \<Rightarrow> jval \<Rightarrow> jval list \<Rightarrow> nat \<Rightarrow> batch_state \<Rightarrow> visit" where
  "truncatedBatch env batch prompt result' values retryCount bs =
     (let noted = recordTrace env result' prompt (JStr ''OUTPUT_TRUNCATED_SPLIT'') (length batch) (length values) retryCount bs in
      (noted, case splitCaseAuthoringBatch batch of
         Some halves \<Rightarrow> Inr (Some halves)
       | None \<Rightarrow> Inl \<lparr>be_error = Error ''CASE_GENERATION_OUTPUT_TRUNCATED'', be_issues = [''OUTPUT_TOKEN_LIMIT_REACHED''],
                      be_traces = Some (bs_traces noted)\<rparr>))"

definition settleBatch :: "authoring \<Rightarrow> jval list \<Rightarrow> jstr \<Rightarrow> jval \<Rightarrow> jval list \<Rightarrow> jstr list \<Rightarrow> nat \<Rightarrow> batch_state \<Rightarrow> visit" where
  "settleBatch env batch prompt result' values issues retryCount bs =
     (if issues \<noteq> [] then
        (let noted = recordTrace env result' prompt (JStr ''INVALID_CONTRACT'') (length batch) (length values) retryCount bs in
         (noted, Inl \<lparr>be_error = Error ''CASE_GENERATION_CONTRACT_INVALID'', be_issues = take 40 issues,
                      be_traces = Some (bs_traces noted)\<rparr>))
      else
        (recordTrace env result' prompt (js_or (js_path result' [''data'', ''status'']) (JStr ''SUCCESS'')) (length batch) (length values)
           retryCount (bs\<lparr>bs_proposals := bs_proposals bs @ values, bs_scopes := bs_scopes bs @ batch\<rparr>), Inr None))"

definition repairBatch :: "authoring \<Rightarrow> jval list \<Rightarrow> jval \<Rightarrow> jval list \<Rightarrow> jstr list \<Rightarrow> batch_state \<Rightarrow> visit" where
  "repairBatch env batch result' values issues bs =
     (let noted = recordTrace env result' (batchPrompt env batch) (JStr ''CONTRACT_REPAIR_REQUIRED'') (length batch) (length values) 0 bs;
          prompt = repairPrompt (batchPrompt env batch) issues
      in case callAgent env (repairRequest env batch bs values issues) prompt (length batch) 1 noted of
           (called, Inl e) \<Rightarrow> (called, Inl e)
         | (called, Inr again) \<Rightarrow>
             (case batchOutput again of
                Inl e \<Rightarrow> (called, Inl \<lparr>be_error = e, be_issues = [], be_traces = None\<rparr>)
              | Inr output \<Rightarrow>
                  (let repaired = parseProposals output in
                   if providerCompletionWasTruncated again then truncatedBatch env batch prompt again repaired 1 called
                   else settleBatch env batch prompt again repaired (batchIssues env batch called repaired) 1 called)))"

definition visitBatch :: "authoring \<Rightarrow> jval list \<Rightarrow> batch_state \<Rightarrow> visit" where
  "visitBatch env batch bs =
     (let prompt = batchPrompt env batch in
      case callAgent env (batchRequest env batch bs) prompt (length batch) 0 bs of
        (called, Inl e) \<Rightarrow> (called, Inl e)
      | (called, Inr result') \<Rightarrow>
          (case batchOutput result' of
             Inl e \<Rightarrow> (called, Inl \<lparr>be_error = e, be_issues = [], be_traces = None\<rparr>)
           | Inr output \<Rightarrow>
               (let values = parseProposals output; issues = batchIssues env batch called values in
                if providerCompletionWasTruncated result' then truncatedBatch env batch prompt result' values 0 called
                else if issues = [] then settleBatch env batch prompt result' values [] 0 called
                else repairBatch env batch result' values issues called)))"

section \<open>All batches\<close>

lemma split_parts:
  assumes "splitCaseAuthoringBatch xs = Some (a, b)"
  shows "a @ b = xs \<and> 0 < length a \<and> 0 < length b \<and> length a + length b = length xs"
  using assms by (auto simp: splitCaseAuthoringBatch_def Let_def split: if_splits)

lemma truncated_halves: "truncatedBatch env batch prompt r vs n bs = (bs', Inr (Some (a, b))) \<Longrightarrow> splitCaseAuthoringBatch batch = Some (a, b)"
  by (auto simp: truncatedBatch_def Let_def split: option.splits)

lemma settle_halves: "settleBatch env batch prompt r vs is' n bs \<noteq> (bs', Inr (Some (a, b)))"
  by (auto simp: settleBatch_def Let_def)

lemma visit_halves:
  "visitBatch env batch bs = (bs', Inr (Some (a, b))) \<Longrightarrow> splitCaseAuthoringBatch batch = Some (a, b)"
  by (auto simp: visitBatch_def repairBatch_def Let_def settle_halves split: prod.splits sum.splits if_splits dest: truncated_halves)

text \<open>
  The work left: a batch of \<open>n\<close> scenarios is visited at most \<open>2 n - 1\<close> times, counting the visits of its
  parts.
\<close>

definition visits_left :: "jval list list \<Rightarrow> nat" where
  "visits_left batches = sum_list (map (\<lambda>b. 2 * length b - 1) batches)"

lemma visits_left_simps [simp]:
  "visits_left [] = 0" "visits_left (b # bs) = (2 * length b - 1) + visits_left bs"
  by (simp_all add: visits_left_def)

lemma visits_left_split: "splitCaseAuthoringBatch b = Some (x, y) \<Longrightarrow> visits_left (x # y # rest) < visits_left (b # rest)"
proof -
  assume "splitCaseAuthoringBatch b = Some (x, y)"
  then have "0 < length x \<and> 0 < length y \<and> length x + length y = length b" using split_parts by blast
  then show ?thesis by (simp only: visits_left_simps) linarith
qed

function runBatches :: "authoring \<Rightarrow> jval list list \<Rightarrow> batch_state \<Rightarrow> batch_state \<times> (batch_error + unit)" where
  "runBatches env [] bs = (bs, Inr ())"
| "runBatches env (batch # rest) bs =
     (case visitBatch env batch bs of
        (bs', Inl e) \<Rightarrow> (bs', Inl e)
      | (bs', Inr (Some (a, b))) \<Rightarrow> runBatches env (a # b # rest) bs'
      | (bs', Inr None) \<Rightarrow> runBatches env rest bs')"
  by pat_completeness auto
termination
  by (relation "measures [\<lambda>(env, batches, bs). visits_left batches, \<lambda>(env, batches, bs). length batches]")
    (simp_all only: in_measures wf_measures, auto dest!: visit_halves [OF sym] visits_left_split)

declare runBatches.simps(2) [simp del]

definition generateCaseProposalsInBatches ::
  "authoring \<Rightarrow> jval \<Rightarrow> jnum \<Rightarrow> batch_state \<times> (batch_error + unit)" where
  "generateCaseProposalsInBatches env scenarios maxCompletionTokens =
     (let pending = caseAuthoringBatches scenarios maxCompletionTokens;
          start = \<lparr>bs_proposals = [], bs_scopes = [], bs_traces = [], bs_calls = 0\<rparr>
      in if pending = []
         then (start, Inl \<lparr>be_error = Error ''CASE_GENERATION_CONTRACT_INVALID'', be_issues = [''SCENARIOS_REQUIRED''], be_traces = Some []\<rparr>)
         else runBatches env pending start)"

end
