(* ===== verification/CaseBatchProofs.thy ===== *)
theory CaseBatchProofs
  imports CaseBatches JsonText
begin

text \<open>
  The properties of batched case authoring: the batches partition the scenarios, a run ends after a
  bounded number of calls of the agent, and a successful run has one valid proposal per scenario, in order.
\<close>

lemma run_Cons:
  assumes "visitBatch env batch bs = (c, o')"
  shows "runBatches env (batch # rest) bs =
    (case o' of Inl e \<Rightarrow> (c, Inl e) | Inr None \<Rightarrow> runBatches env rest c | Inr (Some (a, b)) \<Rightarrow> runBatches env (a # b # rest) c)"
  using assms by (subst runBatches.simps) (simp split: sum.splits option.splits)

definition refStrings :: "jval \<Rightarrow> jstr list" where
  "refStrings v = map to_string (arr_elems (js_get v ''criterion_refs''))"

definition fits :: "jstr list \<Rightarrow> jval \<Rightarrow> jval \<Rightarrow> bool" where
  "fits allowed scenario proposal \<longleftrightarrow>
     validCaseProposal proposal allowed \<and> mset (refStrings proposal) = mset (refStrings scenario)"

section \<open>Batches\<close>

lemma authoringBatchSize_bounds: "1 \<le> authoringBatchSize n \<and> authoringBatchSize n \<le> 6"
  by (auto simp: authoringBatchSize_def MAX_CASES_PER_AUTHORING_BATCH_def Let_def nat_le_iff le_nat_iff)

lemma concat_slices: "concat (slices k xs) = xs"
  by (induction k xs rule: slices.induct) (metis append_Cons append_take_drop_id concat.simps slices.simps)+

lemma slices_size: "1 \<le> k \<Longrightarrow> b \<in> set (slices k xs) \<Longrightarrow> 1 \<le> length b \<and> length b \<le> k"
  by (induction k xs rule: slices.induct) auto

section \<open>Validation\<close>

lemma set_list_Nil [simp]: "set_list xs = [] \<longleftrightarrow> xs = []" by (simp add: set_list_def)

lemma refsText_mset: "refsText a = refsText b \<Longrightarrow> mset (refStrings a) = mset (refStrings b)"
proof -
  have t: "refsText v = Some (''['' @ join '','' (map json_quote (criterionRefs v)) @ '']'')" for v
    by (simp add: refsText_def comp_def)
  have m: "mset (criterionRefs v) = mset (refStrings v)" for v by (simp add: criterionRefs_def refStrings_def)
  assume "refsText a = refsText b"
  then have "criterionRefs a = criterionRefs b" unfolding t by (auto dest: join_quotes_inject)
  then show ?thesis using m by metis
qed

lemma concat_enumerate_Nil:
  assumes "concat (map (\<lambda>(i, x). f i x) (enumerate 0 xs)) = []" and "i < length xs"
  shows "f i (xs ! i) = []"
proof -
  have "(i, xs ! i) \<in> set (enumerate 0 xs)" using assms(2) by (simp add: in_set_enumerate_eq)
  with assms(1) show ?thesis by force
qed

lemma batchIssues_fit:
  assumes "batchIssues env batch bs values = []"
  shows "list_all2 (fits (ca_allowed env)) batch values"
proof -
  have v: "validateBatch env batch bs values = []" using assms by (simp add: batchIssues_def split: if_splits)
  then have len: "length values = length batch" by (simp add: validateBatch_def split: if_splits)
  have "caseProposalContractIssues (values ! i) (ca_allowed env) = [] \<and> refsText (values ! i) = refsText (batch ! i)"
    if "i < length values" for i
  proof -
    have "validateProposals (ca_allowed env) values = []" "refIssues batch values = []" using v by (simp_all add: validateBatch_def)
    then have "map (proposalLabel i) (caseProposalContractIssues (values ! i) (ca_allowed env)) = []"
      "refsText (values ! i) = refsText (if i < length batch then batch ! i else JUndef)"
      using concat_enumerate_Nil [OF _ that, of "\<lambda>i p. map (proposalLabel i) (caseProposalContractIssues p (ca_allowed env))"]
        concat_enumerate_Nil [OF _ that, of "\<lambda>i p. if refsText p \<noteq> refsText (if i < length batch then batch ! i else JUndef)
          then [proposalLabel i ''SCENARIO_CRITERION_REFS_MISMATCH''] else []"]
      unfolding validateProposals_def refIssues_def by (simp_all split: if_splits)
    then show ?thesis using that len by simp
  qed
  then have "fits (ca_allowed env) (batch ! i) (values ! i)" if "i < length batch" for i
    using that len refsText_mset [of "values ! i" "batch ! i"] unfolding fits_def validCaseProposal_def by simp
  then show ?thesis using len by (simp add: list_all2_conv_all_nth)
qed

section \<open>One visit\<close>

lemma record_simps [simp]:
  "bs_proposals (recordTrace env r p st sc rc n bs) = bs_proposals bs" "bs_scopes (recordTrace env r p st sc rc n bs) = bs_scopes bs"
  "bs_calls (recordTrace env r p st sc rc n bs) = bs_calls bs"
  by (simp_all add: recordTrace_def)

lemma callAgent_simps:
  assumes "callAgent env req prompt sc n bs = (bs', out)"
  shows "bs_proposals bs' = bs_proposals bs \<and> bs_scopes bs' = bs_scopes bs \<and> bs_calls bs' = Suc (bs_calls bs)"
  using assms by (auto simp: callAgent_def Let_def split: sum.splits)

definition accepted :: "authoring \<Rightarrow> jval list \<Rightarrow> batch_state \<Rightarrow> batch_state \<Rightarrow> bool" where
  "accepted env batch bs bs' \<longleftrightarrow>
     (\<exists>values. list_all2 (fits (ca_allowed env)) batch values \<and>
        bs_proposals bs' = bs_proposals bs @ values \<and> bs_scopes bs' = bs_scopes bs @ batch)"

definition outcome_ok :: "authoring \<Rightarrow> jval list \<Rightarrow> batch_state \<Rightarrow> visit \<Rightarrow> bool" where
  "outcome_ok env batch bs v \<longleftrightarrow>
     (case v of
        (bs', Inl e) \<Rightarrow> True
      | (bs', Inr None) \<Rightarrow> accepted env batch bs bs'
      | (bs', Inr (Some h)) \<Rightarrow> bs_proposals bs' = bs_proposals bs \<and> bs_scopes bs' = bs_scopes bs) \<and>
     bs_calls (fst v) \<le> bs_calls bs + 2"

lemma truncated_ok:
  "bs_proposals c = bs_proposals bs \<Longrightarrow> bs_scopes c = bs_scopes bs \<Longrightarrow> bs_calls c \<le> bs_calls bs + 2 \<Longrightarrow>
   outcome_ok env batch bs (truncatedBatch env batch prompt r vs n c)"
  by (auto simp: outcome_ok_def truncatedBatch_def Let_def split: option.splits)

lemma settle_ok:
  "bs_proposals c = bs_proposals bs \<Longrightarrow> bs_scopes c = bs_scopes bs \<Longrightarrow> bs_calls c \<le> bs_calls bs + 2 \<Longrightarrow>
   (iss = [] \<Longrightarrow> batchIssues env batch c vs = []) \<Longrightarrow> outcome_ok env batch bs (settleBatch env batch prompt r vs iss n c)"
  by (auto simp: outcome_ok_def settleBatch_def accepted_def Let_def dest: batchIssues_fit)

lemma error_ok: "bs_calls c \<le> bs_calls bs + 2 \<Longrightarrow> outcome_ok env batch bs (c, Inl e)"
  by (simp add: outcome_ok_def)

lemma repair_ok:
  assumes "bs_proposals c = bs_proposals bs" "bs_scopes c = bs_scopes bs" "bs_calls c = Suc (bs_calls bs)"
  shows "outcome_ok env batch bs (repairBatch env batch r vs iss c)"
  using assms unfolding repairBatch_def Let_def
  by (auto split: prod.splits sum.splits if_splits dest!: callAgent_simps intro!: error_ok truncated_ok settle_ok)

lemma visit_ok: "outcome_ok env batch bs (visitBatch env batch bs)"
  unfolding visitBatch_def Let_def
  by (auto split: prod.splits sum.splits if_splits dest!: callAgent_simps intro!: error_ok truncated_ok settle_ok repair_ok)

section \<open>The run\<close>

lemma run_ok:
  "list_all (\<lambda>b. b \<noteq> []) batches \<Longrightarrow> runBatches env batches bs = (bs', out) \<Longrightarrow>
   bs_calls bs' \<le> bs_calls bs + 2 * visits_left batches \<and> (out = Inr () \<longrightarrow> accepted env (concat batches) bs bs')"
proof (induction env batches bs rule: runBatches.induct)
  case (2 env batch rest bs)
  obtain c o' where v: "visitBatch env batch bs = (c, o')" by (cases "visitBatch env batch bs")
  have calls: "bs_calls c \<le> bs_calls bs + 2" and pos: "1 \<le> 2 * length batch - 1"
    using visit_ok [of env batch bs] v "2.prems"(1) by (auto simp: outcome_ok_def Suc_le_eq) (cases batch, auto)
  show ?case
  proof (cases o')
    case (Inl e)
    then show ?thesis using "2.prems"(2) calls pos by (auto simp: run_Cons [OF v])
  next
    case (Inr h)
    show ?thesis
    proof (cases h)
      case None
      have acc: "accepted env batch bs c" using visit_ok [of env batch bs] v Inr None by (simp add: outcome_ok_def)
      have ih: "bs_calls bs' \<le> bs_calls c + 2 * visits_left rest \<and> (out = Inr () \<longrightarrow> accepted env (concat rest) c bs')"
        using "2.IH"(1) [OF v [symmetric] Inr None] "2.prems" Inr None by (simp add: run_Cons [OF v])
      then show ?thesis
        using calls pos acc by (auto simp: accepted_def intro: list_all2_appendI)
    next
      case (Some ab)
      obtain a b where ab: "ab = (a, b)" by (cases ab)
      have sp: "splitCaseAuthoringBatch batch = Some (a, b)" using visit_halves v Inr Some ab by blast
      note parts = split_parts [OF sp]
      have same: "bs_proposals c = bs_proposals bs" "bs_scopes c = bs_scopes bs"
        using visit_ok [of env batch bs] v Inr Some by (auto simp: outcome_ok_def)
      have ih: "bs_calls bs' \<le> bs_calls c + 2 * visits_left (a # b # rest) \<and> (out = Inr () \<longrightarrow> accepted env (concat (a # b # rest)) c bs')"
        using "2.IH"(2) [OF v [symmetric] Inr Some ab [symmetric]] "2.prems" Inr Some ab parts by (auto simp add: run_Cons [OF v])
      have "concat (a # b # rest) = concat (batch # rest)" using parts by simp
      then show ?thesis using ih calls visits_left_split [OF sp, of rest] same by (auto simp: accepted_def)
    qed
  qed
qed (simp add: accepted_def)

section \<open>Two batches with the same identifier\<close>

definition demo_case :: jval where
  "demo_case = JObj [(''local_id'', JStr ''A ''), (''title'', JStr ''t''), (''category'', JStr ''positive''), (''criterion_refs'', JArr [JStr ''c'']),
     (''steps'', JArr [JObj [(''number'', num 1), (''action'', JStr ''a''), (''expected_result'', JStr ''r'')]])]"

definition demo_authoring :: authoring where
  "demo_authoring = \<lparr>ca_agent = (\<lambda>n r. Inr (JObj [(''data'', JObj [(''propuestas'', JArr [demo_case])])])), ca_hash = (\<lambda>_. []),
     ca_request = [], ca_memory = [], ca_allowed = [''c''], ca_node_name = []\<rparr>"

definition demo_scenarios :: jval where
  "demo_scenarios = JArr [JObj [(''criterion_refs'', JArr [JStr ''c''])], JObj [(''criterion_refs'', JArr [JStr ''c''])]]"

lemma demo_authoring_run:
  "generateCaseProposalsInBatches demo_authoring demo_scenarios (Fin 1000) =
     (fst (generateCaseProposalsInBatches demo_authoring demo_scenarios (Fin 1000)), Inr ())"
  by code_simp

section \<open>Properties\<close>

text \<open>
  C17. A successful authoring run returns exactly one proposal per scenario, in the order of the
  scenarios: the scopes are the scenarios, and the i-th proposal satisfies the contract of a case and has, as a multiset, exactly the
  criterion references of the i-th scenario, whatever batches were split or repaired on the way.
\<close>

theorem case_batches_aligned:
  assumes "generateCaseProposalsInBatches env scenarios maxTokens = (bs, Inr ())"
  shows "bs_scopes bs = arr_elems scenarios \<and> list_all2 (fits (ca_allowed env)) (arr_elems scenarios) (bs_proposals bs)"
proof -
  let ?pending = "caseAuthoringBatches scenarios maxTokens"
  have ne: "list_all (\<lambda>b. b \<noteq> []) ?pending"
    using slices_size authoringBatchSize_bounds by (fastforce simp: list_all_iff caseAuthoringBatches_def)
  have "accepted env (concat ?pending) \<lparr>bs_proposals = [], bs_scopes = [], bs_traces = [], bs_calls = 0\<rparr> bs"
    using assms run_ok [OF ne] by (auto simp: generateCaseProposalsInBatches_def Let_def split: if_splits)
  then show ?thesis by (auto simp: accepted_def caseAuthoringBatches_def concat_slices)
qed

theorem case_batches_aligned_witness:
  "bs_scopes (fst (generateCaseProposalsInBatches demo_authoring demo_scenarios (Fin 1000))) = arr_elems demo_scenarios"
  using case_batches_aligned [OF demo_authoring_run] by blast

text \<open>
  The number of calls of the agent is bounded by the size of the suite: two for each visit of
  a batch, so fewer than four per scenario, with every split and repair counted.
\<close>

theorem case_batches_bounded:
  assumes "generateCaseProposalsInBatches env scenarios maxTokens = (bs, out)"
  shows "bs_calls bs + 2 * length (caseAuthoringBatches scenarios maxTokens) \<le> 4 * length (arr_elems scenarios)"
proof -
  let ?pending = "caseAuthoringBatches scenarios maxTokens"
  have ne: "list_all (\<lambda>b. b \<noteq> []) ?pending"
    using slices_size authoringBatchSize_bounds by (fastforce simp: list_all_iff caseAuthoringBatches_def)
  have "visits_left bts + length bts = 2 * length (concat bts)" if "list_all (\<lambda>b. b \<noteq> []) bts" for bts
    using that by (induction bts) (auto simp: neq_Nil_conv)
  from this [OF ne] have v: "visits_left ?pending + length ?pending = 2 * length (arr_elems scenarios)"
    by (simp add: caseAuthoringBatches_def concat_slices)
  have "bs_calls bs \<le> 2 * visits_left ?pending"
    using assms run_ok [OF ne, of env "\<lparr>bs_proposals = [], bs_scopes = [], bs_traces = [], bs_calls = 0\<rparr>" bs out]
    by (auto simp: generateCaseProposalsInBatches_def Let_def split: if_splits)
  then show ?thesis using v by simp
qed

theorem case_batches_bounded_witness:
  "bs_calls (fst (generateCaseProposalsInBatches demo_authoring demo_scenarios (Fin 1000))) \<le> 8"
proof -
  have "length (arr_elems demo_scenarios) = 2" by code_simp
  then show ?thesis using case_batches_bounded [OF demo_authoring_run] by simp
qed

text \<open>
  The batches are the scenarios cut into consecutive parts of one to six, whatever the
  token limit is (also when it is not a number).
\<close>

theorem case_batches_partition:
  "concat (caseAuthoringBatches scenarios maxTokens) = arr_elems scenarios \<and>
   list_all (\<lambda>b. 1 \<le> length b \<and> length b \<le> 6) (caseAuthoringBatches scenarios maxTokens)"
  using slices_size authoringBatchSize_bounds [of maxTokens]
  by (fastforce simp: caseAuthoringBatches_def concat_slices list_all_iff)

text \<open>
  An identifier with a blank at its end escapes the duplicate check across batches: the
  identifiers of earlier batches are remembered as they are written and the new ones are looked up
  trimmed, so a run can succeed with two proposals of the same \<^verbatim>\<open>local_id\<close>.
\<close>

theorem duplicate_local_id:
  "\<exists>env bs p q. generateCaseProposalsInBatches env demo_scenarios (Fin 1000) = (bs, Inr ()) \<and> bs_proposals bs = [p, q] \<and>
     js_get p ''local_id'' = js_get q ''local_id''"
proof -
  have "map (\<lambda>p. js_get p ''local_id'') (bs_proposals (fst (generateCaseProposalsInBatches demo_authoring demo_scenarios (Fin 1000)))) =
      [JStr ''A '', JStr ''A '']"
    by code_simp
  then obtain p q where "bs_proposals (fst (generateCaseProposalsInBatches demo_authoring demo_scenarios (Fin 1000))) = [p, q]"
      "js_get p ''local_id'' = js_get q ''local_id''"
    by (auto simp: map_eq_Cons_conv)
  then show ?thesis using demo_authoring_run by metis
qed

end
