(* ===== verification/ProviderAdapters.thy ===== *)
theory ProviderAdapters
  imports JsLaws
begin

text \<open>
  \<^verbatim>\<open>engine/src/ai/provider-adapters.ts\<close>: the request each AI provider gets, the normalised form
  of its answer and of its errors. The HTTP client is the parameter \<open>post\<close> of \<open>generateWithProvider\<close>.
\<close>

section \<open>Data\<close>

record provider_message =
  pm_role :: jstr
  pm_content :: jval

record generate_request =
  gr_model :: jstr
  gr_messages :: "provider_message list"
  gr_temperature :: jval
  gr_max_tokens :: jnum
  gr_disable_thinking :: bool
  gr_response_format :: jval
  gr_output_schema :: jval

record provider_config =
  pc_provider :: jstr
  pc_endpoint :: jstr
  pc_api_key :: jstr
  pc_timeout :: rat

record usage =
  us_prompt :: jnum
  us_completion :: jnum
  us_total :: jnum
  us_cached :: jnum
  us_reasoning :: jnum

record provider_result =
  pr_content :: jstr
  pr_raw :: jval
  pr_usage :: usage
  pr_model :: jval
  pr_finish :: jval
  pr_request_id :: jval

text \<open>
  An error of the engine: \<open>ae_category\<close> is set on a \<^verbatim>\<open>ProviderRequestError\<close>, with its \<^verbatim>\<open>status\<close>, \<^verbatim>\<open>retryAfterMs\<close> and
  \<^verbatim>\<open>raw\<close> fields; \<open>ae_response_status\<close> and \<open>ae_code\<close> are \<^verbatim>\<open>response.status\<close> and \<^verbatim>\<open>code\<close> of other errors.
\<close>

record ai_error =
  ae_message :: jstr
  ae_category :: "jstr option"
  ae_status :: jval
  ae_retry_after :: jval
  ae_raw :: jval
  ae_response_status :: jval
  ae_code :: jval

section \<open>Content\<close>

definition trimSlash :: "jstr \<Rightarrow> jstr" where
  "trimSlash value = rev (dropWhile (\<lambda>c. c = CHR ''/'') (rev value))"

definition isText :: "jval \<Rightarrow> bool" where
  "isText item \<longleftrightarrow> js_get item ''type'' = JStr ''text'' \<or> js_get item ''type'' = JStr ''input_text''"

text \<open>\<^verbatim>\<open>String(item.text || '')\<close>, and \<^verbatim>\<open>join\<close> of an array of values.\<close>

definition itemText :: "jval \<Rightarrow> jstr" where
  "itemText item = to_string (js_or (js_get item ''text'') (JStr []))"

definition join_vals :: "jstr \<Rightarrow> jval list \<Rightarrow> jstr" where
  "join_vals sep vs = join sep (map (\<lambda>v. if nullish v then [] else to_string v) vs)"

definition textContent :: "jval \<Rightarrow> jstr" where
  "textContent content =
     (case content of
        JStr s \<Rightarrow> s
      | JArr items \<Rightarrow> join [CHR 10] (map itemText (filter isText items))
      | _ \<Rightarrow> to_string (js_coalesce content (JStr [])))"

text \<open>The media type and the data of an image given as a \<^verbatim>\<open>data:\<close> URL.\<close>

definition dataUrl :: "jval \<Rightarrow> (jstr \<times> jval) option" where
  "dataUrl item =
     (let url = to_string (js_or (js_path item [''image_url'', ''url'']) (JStr [])) in
      if js_get item ''type'' = JStr ''image_url'' \<and> starts_with url ''data:'' then
        (let parts = split_on (CHR '','') (to_string (js_path item [''image_url'', ''url''])) in
         Some (hd (split_on (CHR '';'') (drop 5 (hd parts))), if length parts < 2 then JUndef else JStr (parts ! 1)))
      else None)"

definition anthropicContent :: "jval \<Rightarrow> jval" where
  "anthropicContent content =
     (case content of
        JStr s \<Rightarrow> JStr s
      | JArr items \<Rightarrow> JArr (map (\<lambda>item.
          if isText item then JObj [(''type'', JStr ''text''), (''text'', JStr (itemText item))]
          else case dataUrl item of
            Some (mediaType, payload) \<Rightarrow>
              JObj [(''type'', JStr ''image''),
                    (''source'', JObj [(''type'', JStr ''base64''), (''media_type'', JStr mediaType), (''data'', payload)])]
          | None \<Rightarrow> JObj [(''type'', JStr ''text''), (''text'', JStr [])]) items)
      | _ \<Rightarrow> JStr (to_string (js_coalesce content (JStr []))))"

definition geminiParts :: "jval \<Rightarrow> jval" where
  "geminiParts content =
     (case content of
        JStr s \<Rightarrow> JArr [JObj [(''text'', JStr s)]]
      | JArr items \<Rightarrow> JArr (map (\<lambda>item.
          if isText item then JObj [(''text'', JStr (itemText item))]
          else case dataUrl item of
            Some (mediaType, payload) \<Rightarrow> JObj [(''inlineData'', JObj [(''mimeType'', JStr mediaType), (''data'', payload)])]
          | None \<Rightarrow> JObj [(''text'', JStr [])]) items)
      | _ \<Rightarrow> JArr [JObj [(''text'', JStr (to_string (js_coalesce content (JStr []))))]])"

section \<open>Output schemas\<close>

definition SCHEMA_TYPES :: "jstr list" where
  "SCHEMA_TYPES = [''object'', ''array'', ''string'', ''number'', ''integer'', ''boolean'', ''null'']"

definition SCHEMA_KEYS :: "jstr list" where
  "SCHEMA_KEYS = [''type'', ''properties'', ''items'', ''required'', ''additionalProperties'', ''enum'', ''const'', ''minimum'', ''maximum'',
     ''minItems'', ''maxItems'', ''minLength'', ''maxLength'', ''pattern'', ''description'']"

text \<open>A decimal numeral \<^verbatim>\<open>-?\d+(\.\d+)?\<close> at the start of a text, and the rest.\<close>

definition readDecimal :: "jstr \<Rightarrow> (jstr \<times> jstr) option" where
  "readDecimal s =
     (let sign = (if s \<noteq> [] \<and> hd s = CHR ''-'' then ''-'' else []);
          r = drop (length sign) s; ip = takeWhile is_digit r; r' = dropWhile is_digit r;
          fp = (if r' \<noteq> [] \<and> hd r' = CHR ''.'' then takeWhile is_digit (tl r') else [])
      in if ip = [] then None
         else if fp = [] then Some (sign @ ip, r') else Some (sign @ ip @ ''.'' @ fp, drop (1 + length fp) r'))"

text \<open>The range of \<^verbatim>\<open>number 0..100\<close>; \<open>Some None\<close> when there is none, \<open>None\<close> when the text has another form.\<close>

definition numericRange :: "jstr \<Rightarrow> (jstr \<times> jstr) option option" where
  "numericRange rest =
     (if rest = [] then Some None
      else if \<not> is_space (hd rest) then None
      else case readDecimal (dropWhile is_space rest) of
             None \<Rightarrow> None
           | Some (lo, r) \<Rightarrow>
               if \<not> starts_with r ''..'' then None
               else case readDecimal (drop 2 r) of
                      Some (hi, []) \<Rightarrow> Some (Some (lo, hi))
                    | _ \<Rightarrow> None)"

definition numericLeaf :: "jstr \<Rightarrow> jval option" where
  "numericLeaf description =
     (let lower = toLowerCase description;
          name = (if starts_with lower ''number'' then ''number'' else if starts_with lower ''integer'' then ''integer'' else [])
      in if name = [] then None
         else map_option (\<lambda>range. JObj ((''type'', JStr name)
             # (case range of None \<Rightarrow> [] | Some (lo, hi) \<Rightarrow> [(''minimum'', JNum (string_to_number lo)), (''maximum'', JNum (string_to_number hi))])))
           (numericRange (drop (length name) description)))"

definition schemaLeaf :: "jstr \<Rightarrow> jval" where
  "schemaLeaf text =
     (let description = trim text;
          alternatives = filter (\<lambda>a. a \<noteq> []) (map trim (split_on (CHR ''|'') description)) in
      if 1 < length alternatives then JObj [(''type'', JStr ''string''), (''enum'', JArr (map JStr alternatives))]
      else if description = ''[]'' \<or> toLowerCase description = ''array'' then JObj [(''type'', JStr ''array''), (''items'', JObj [(''type'', JStr ''string'')])]
      else case numericLeaf description of
        Some schema \<Rightarrow> schema
      | None \<Rightarrow> if toLowerCase description = ''boolean'' then JObj [(''type'', JStr ''boolean'')] else JObj [(''type'', JStr ''string'')])"

definition isSchemaNode :: "jobj \<Rightarrow> bool" where
  "isSchemaNode o' \<longleftrightarrow>
     toLowerCase (to_string (js_or (obj_get o' ''type'') (JStr []))) \<in> set SCHEMA_TYPES \<and> list_all (\<lambda>kv. fst kv \<in> set SCHEMA_KEYS) o'"

definition objectSchema :: "jobj \<Rightarrow> jval" where
  "objectSchema properties =
     JObj [(''type'', JStr ''object''), (''properties'', JObj properties), (''required'', JArr (map (\<lambda>kv. JStr (fst kv)) (js_entries properties))),
           (''additionalProperties'', JBool False)]"

lemma size_own_props: "kv \<in> set (own_props v) \<Longrightarrow> is_object v \<Longrightarrow> size (snd kv) < size v"
proof (cases v)
  case (JArr xs)
  assume "kv \<in> set (own_props v)"
  then have "(fst kv, snd kv) \<in> set (zip (map nat_str [0..<length xs]) xs)" using JArr by simp
  then have "snd kv \<in> set xs" by (rule set_zip_rightD)
  then show ?thesis using JArr by (simp add: less_Suc_eq_le size_list_estimation')
next
  case (JObj ps)
  assume "kv \<in> set (own_props v)"
  then have "kv \<in> set ps" using JObj by simp
  then have "size (snd kv) < Suc (size_list (size_prod (\<lambda>_. 0) size) ps)"
    by (induction ps) auto
  then show ?thesis using JObj by (simp add: size_list_estimation')
qed auto

lemma size_member: "map_of ps k = Some v \<Longrightarrow> size v < size (JObj ps)"
  using size_own_props [of "(k, v)" "JObj ps"] by (simp add: map_of_SomeD)

function convertSchema :: "jval \<Rightarrow> jval" where
  "convertSchema (JArr xs) =
     JObj [(''type'', JStr ''array''),
           (''items'', case xs of [] \<Rightarrow> schemaLeaf ''string'' | x # _ \<Rightarrow> if nullish x then schemaLeaf ''string'' else convertSchema x)]"
| "convertSchema (JBool b) = JObj [(''type'', JStr ''boolean'')]"
| "convertSchema (JNum n) = JObj [(''type'', JStr (case n of Fin q \<Rightarrow> if q = of_int \<lfloor>q\<rfloor> then ''integer'' else ''number'' | _ \<Rightarrow> ''number''))]"
| "convertSchema (JObj o') =
     (if \<not> isSchemaNode o' then
        objectSchema (obj_of (map (\<lambda>kv. (fst kv, convertSchema (snd kv))) (js_entries o')))
      else
        (let props = (case map_of o' ''properties'' of Some p \<Rightarrow> p | None \<Rightarrow> JUndef);
             converted = (if is_object props then obj_of (map (\<lambda>kv. (fst kv, convertSchema (snd kv))) (js_entries (own_props props))) else []);
             typed = (if is_object props
                      then obj_put (obj_put (obj_put o' ''properties'' (JObj converted)) ''required''
                             (if is_array (obj_get o' ''required'') then obj_get o' ''required''
                              else JArr (map (\<lambda>kv. JStr (fst kv)) (js_entries converted)))) ''additionalProperties'' (JBool False)
                      else o')
         in JObj (case map_of o' ''items'' of
                    None \<Rightarrow> typed
                  | Some items \<Rightarrow> if items = JUndef then typed else obj_put typed ''items'' (convertSchema items))))"
| "convertSchema (JStr s) = schemaLeaf s"
| "convertSchema JUndef = schemaLeaf ''string''"
| "convertSchema JNull = schemaLeaf ''string''"
| "convertSchema (JHost h) = (if h = ''__proto__'' then objectSchema [] else schemaLeaf (to_string (JHost h)))"
  by pat_completeness auto
termination
proof (relation "measure size")
  fix o' :: jobj and kv
  assume "kv \<in> set (js_entries o')"
  then show "(snd kv, JObj o') \<in> measure size" using size_own_props [of kv "JObj o'"] by simp
next
  fix o' :: jobj and props kv
  assume p: "props = (case map_of o' ''properties'' of None \<Rightarrow> JUndef | Some p \<Rightarrow> p)" "is_object props"
    and kv: "kv \<in> set (js_entries (own_props props))"
  then have "map_of o' ''properties'' = Some props" by (auto split: option.splits)
  then show "(snd kv, JObj o') \<in> measure size"
    using size_member [of o' "''properties''" props] size_own_props [of kv props] p(2) kv by simp
qed (auto dest: size_member)

definition workflowOutputJsonSchema :: "jval \<Rightarrow> jval" where
  "workflowOutputJsonSchema value =
     (let schema = convertSchema value in
      if js_get schema ''type'' \<noteq> JStr ''object'' then objectSchema [(''result'', schema)] else schema)"

section \<open>Requests\<close>

definition normalizeProvider :: "jstr \<Rightarrow> jstr" where
  "normalizeProvider provider =
     (let value = map (\<lambda>c. if c = CHR ''_'' then CHR ''-'' else c) (toLowerCase (if provider = [] then ''openai-compatible'' else provider)) in
      if value = ''lmstudio'' then ''lm-studio''
      else if value = ''google'' then ''gemini''
      else if value = ''custom-http'' then ''openai-compatible''
      else value)"

record prepared =
  pq_kind :: jstr
  pq_url :: jstr
  pq_headers :: "(jstr \<times> jstr) list"
  pq_body :: jval

definition systemText :: "provider_message list \<Rightarrow> jstr" where
  "systemText messages =
     join [CHR 10, CHR 10] (filter (\<lambda>t. t \<noteq> []) (map (\<lambda>m. textContent (pm_content m)) (filter (\<lambda>m. pm_role m = ''system'') messages)))"

definition dialogue :: "(jval \<Rightarrow> jval) \<Rightarrow> jstr \<Rightarrow> jstr \<Rightarrow> provider_message list \<Rightarrow> jval" where
  "dialogue convert assistant field messages =
     JArr (map (\<lambda>m. JObj [(''role'', JStr (if pm_role m = ''assistant'' then assistant else ''user'')), (field, convert (pm_content m))])
       (filter (\<lambda>m. pm_role m \<noteq> ''system'') messages))"

definition anthropicRequest :: "provider_config \<Rightarrow> generate_request \<Rightarrow> prepared" where
  "anthropicRequest config request =
     \<lparr>pq_kind = ''anthropic-messages'', pq_url = trimSlash (pc_endpoint config) @ ''/messages'',
      pq_headers = [(''content-type'', ''application/json''), (''anthropic-version'', ''2023-06-01'')]
        @ (if pc_api_key config = [] then [] else [(''x-api-key'', pc_api_key config)]),
      pq_body = JObj ([(''model'', JStr (gr_model request)), (''max_tokens'', JNum (gr_max_tokens request)), (''temperature'', gr_temperature request)]
        @ (if systemText (gr_messages request) = [] then [] else [(''system'', JStr (systemText (gr_messages request)))])
        @ [(''messages'', dialogue anthropicContent ''assistant'' ''content'' (gr_messages request))])\<rparr>"

definition geminiRequest :: "provider_config \<Rightarrow> generate_request \<Rightarrow> prepared" where
  "geminiRequest config request =
     \<lparr>pq_kind = ''gemini-generate-content'',
      pq_url = trimSlash (pc_endpoint config) @ ''/models/'' @ encodeURIComponent (gr_model request) @ '':generateContent''
        @ (if pc_api_key config = [] then [] else ''?key='' @ encodeURIComponent (pc_api_key config)),
      pq_headers = [(''content-type'', ''application/json'')],
      pq_body = JObj ((if systemText (gr_messages request) = [] then []
          else [(''systemInstruction'', JObj [(''parts'', JArr [JObj [(''text'', JStr (systemText (gr_messages request)))]])])])
        @ [(''contents'', dialogue geminiParts ''model'' ''parts'' (gr_messages request)),
           (''generationConfig'', JObj [(''temperature'', gr_temperature request), (''maxOutputTokens'', JNum (gr_max_tokens request)),
              (''responseMimeType'', JStr ''application/json'')])])\<rparr>"

definition messagesJson :: "provider_message list \<Rightarrow> jval" where
  "messagesJson messages = JArr (map (\<lambda>m. JObj [(''role'', JStr (pm_role m)), (''content'', pm_content m)]) messages)"

definition bearer :: "jstr \<Rightarrow> (jstr \<times> jstr) list" where
  "bearer key = (if key = [] then [] else [(''Authorization'', ''Bearer '' @ key)])"

definition openaiRequest :: "provider_config \<Rightarrow> generate_request \<Rightarrow> prepared" where
  "openaiRequest config request =
     \<lparr>pq_kind = ''openai-responses'', pq_url = trimSlash (pc_endpoint config) @ ''/responses'',
      pq_headers = (''content-type'', ''application/json'') # bearer (pc_api_key config),
      pq_body = JObj [(''model'', JStr (gr_model request)), (''input'', messagesJson (gr_messages request)),
        (''temperature'', gr_temperature request), (''max_output_tokens'', JNum (gr_max_tokens request)),
        (''text'', JObj [(''format'', JObj [(''type'', JStr ''json_object'')])])]\<rparr>"

definition defaultSchema :: jval where
  "defaultSchema = JObj [(''type'', JStr ''object''),
     (''properties'', JObj [(''action'', JObj [(''type'', JStr ''string'')]), (''status'', JObj [(''type'', JStr ''string'')]),
        (''reason'', JObj [(''type'', JStr ''string'')]), (''confidence'', JObj [(''type'', JStr ''number'')])]),
     (''additionalProperties'', JBool True)]"

definition responseFormat :: "jstr \<Rightarrow> generate_request \<Rightarrow> jval" where
  "responseFormat provider request =
     (if gr_response_format request = JStr ''text'' then JObj [(''type'', JStr ''text'')]
      else if provider = ''lm-studio'' then
        JObj [(''type'', JStr ''json_schema''),
              (''json_schema'', JObj [(''name'', JStr ''treseko_workflow_response''), (''strict'', JBool False),
                 (''schema'', if truthy (gr_output_schema request) then workflowOutputJsonSchema (gr_output_schema request) else defaultSchema)])]
      else JObj [(''type'', JStr ''json_object'')])"

definition chatRequest :: "jstr \<Rightarrow> provider_config \<Rightarrow> generate_request \<Rightarrow> prepared" where
  "chatRequest provider config request =
     \<lparr>pq_kind = (if provider = ''azure-openai'' then ''azure-openai-chat'' else ''openai-chat''),
      pq_url = trimSlash (pc_endpoint config) @ ''/chat/completions'',
      pq_headers = (''content-type'', ''application/json'')
        # (if provider = ''azure-openai'' \<and> pc_api_key config \<noteq> [] then [(''api-key'', pc_api_key config)] else bearer (pc_api_key config)),
      pq_body = JObj ([(''model'', JStr (gr_model request)), (''messages'', messagesJson (gr_messages request)),
          (''temperature'', gr_temperature request), (''max_tokens'', JNum (gr_max_tokens request)), (''response_format'', responseFormat provider request)]
        @ (if gr_disable_thinking request
           then [(''reasoning_effort'', JStr ''none''), (''chat_template_kwargs'', JObj [(''enable_thinking'', JBool False)])] else []))\<rparr>"

definition providerRequest :: "provider_config \<Rightarrow> generate_request \<Rightarrow> prepared" where
  "providerRequest config request =
     (let provider = normalizeProvider (pc_provider config) in
      if provider = ''anthropic'' then anthropicRequest config request
      else if provider = ''gemini'' then geminiRequest config request
      else if provider = ''openai'' then openaiRequest config request
      else chatRequest provider config request)"

section \<open>Responses and errors\<close>

text \<open>\<^verbatim>\<open>Number(v || 0)\<close>, and \<^verbatim>\<open>Number(v || a + b)\<close>.\<close>

definition count_of :: "jval \<Rightarrow> jnum" where
  "count_of v = to_number (js_or v (num 0))"

definition total_of :: "jval \<Rightarrow> jnum \<Rightarrow> jnum \<Rightarrow> jnum" where
  "total_of v a b = to_number (js_or v (JNum (num_add a b)))"

text \<open>The elements of \<^verbatim>\<open>v || []\<close>; a value that is no array has no \<^verbatim>\<open>filter\<close> or \<^verbatim>\<open>map\<close>.\<close>

definition array_or_empty :: "jval \<Rightarrow> jval list res" where
  "array_or_empty v = (if \<not> truthy v then Inr [] else case v of JArr xs \<Rightarrow> Inr xs | _ \<Rightarrow> Inl (TypeError ''filter is not a function''))"

definition anthropicResponse :: "jval \<Rightarrow> jval \<Rightarrow> provider_result res" where
  "anthropicResponse body headers =
     (let input = count_of (js_path body [''usage'', ''input_tokens'']); output = count_of (js_path body [''usage'', ''output_tokens'']) in
      map_ok (\<lambda>items.
        \<lparr>pr_content = trim (join_vals [CHR 10] (map (\<lambda>item. js_get item ''text'') (filter (\<lambda>item. js_get item ''type'' = JStr ''text'') items))),
         pr_raw = body,
         pr_usage = \<lparr>us_prompt = input, us_completion = output, us_total = num_add input output,
                     us_cached = count_of (js_path body [''usage'', ''cache_read_input_tokens'']), us_reasoning = Fin 0\<rparr>,
         pr_model = js_get body ''model'', pr_finish = js_get body ''stop_reason'', pr_request_id = js_get headers ''request-id''\<rparr>)
        (array_or_empty (js_get body ''content'')))"

definition geminiResponse :: "jval \<Rightarrow> jval \<Rightarrow> provider_result res" where
  "geminiResponse body headers =
     (let us = js_or (js_get body ''usageMetadata'') (JObj []);
          input = count_of (js_get us ''promptTokenCount''); output = count_of (js_get us ''candidatesTokenCount'') in
      map_ok (\<lambda>items.
        \<lparr>pr_content = trim (join_vals [CHR 10] (map (\<lambda>item. js_or (js_get item ''text'') (JStr [])) items)), pr_raw = body,
         pr_usage = \<lparr>us_prompt = input, us_completion = output, us_total = total_of (js_get us ''totalTokenCount'') input output,
                     us_cached = count_of (js_get us ''cachedContentTokenCount''), us_reasoning = count_of (js_get us ''thoughtsTokenCount'')\<rparr>,
         pr_model = js_get body ''modelVersion'', pr_finish = js_path body [''candidates'', ''0'', ''finishReason''],
         pr_request_id = js_get headers ''x-request-id''\<rparr>)
        (array_or_empty (js_path body [''candidates'', ''0'', ''content'', ''parts''])))"

text \<open>\<^verbatim>\<open>flatMap(item => item?.content || [])\<close>: an array is spliced in, another value is one element.\<close>

definition outputItems :: "jval list \<Rightarrow> jval list" where
  "outputItems items =
     concat (map (\<lambda>item. case js_or (js_get item ''content'') (JArr []) of JArr xs \<Rightarrow> xs | v \<Rightarrow> [v]) items)"

definition openaiContent :: "jval \<Rightarrow> jval res" where
  "openaiContent body =
     (if truthy (js_get body ''output_text'') then Inr (js_get body ''output_text'')
      else map_ok (\<lambda>items. JStr (join_vals [CHR 10] (map (\<lambda>item. js_get item ''text'')
             (filter (\<lambda>item. js_get item ''type'' = JStr ''output_text'') (outputItems items)))))
           (array_or_empty (js_get body ''output'')))"

definition openaiResponse :: "jval \<Rightarrow> jval \<Rightarrow> provider_result res" where
  "openaiResponse body headers =
     (let us = js_or (js_get body ''usage'') (JObj []);
          input = count_of (js_get us ''input_tokens''); output = count_of (js_get us ''output_tokens'') in
      map_ok (\<lambda>content.
        \<lparr>pr_content = trim (to_string (js_or content (JStr []))), pr_raw = body,
         pr_usage = \<lparr>us_prompt = input, us_completion = output, us_total = total_of (js_get us ''total_tokens'') input output,
                     us_cached = count_of (js_path us [''input_tokens_details'', ''cached_tokens'']),
                     us_reasoning = count_of (js_path us [''output_tokens_details'', ''reasoning_tokens''])\<rparr>,
         pr_model = js_get body ''model'', pr_finish = js_get body ''status'',
         pr_request_id = js_or (js_get body ''id'') (js_get headers ''x-request-id'')\<rparr>)
        (openaiContent body))"

definition chatResponse :: "jval \<Rightarrow> jval \<Rightarrow> provider_result" where
  "chatResponse body headers =
     (let us = js_or (js_get body ''usage'') (JObj []);
          input = count_of (js_get us ''prompt_tokens''); output = count_of (js_get us ''completion_tokens'') in
      \<lparr>pr_content = trim (to_string (js_or (js_path body [''choices'', ''0'', ''message'', ''content'']) (JStr []))), pr_raw = body,
       pr_usage = \<lparr>us_prompt = input, us_completion = output, us_total = total_of (js_get us ''total_tokens'') input output,
                   us_cached = count_of (js_path us [''prompt_tokens_details'', ''cached_tokens'']),
                   us_reasoning = count_of (js_path us [''completion_tokens_details'', ''reasoning_tokens''])\<rparr>,
       pr_model = js_get body ''model'', pr_finish = js_path body [''choices'', ''0'', ''finish_reason''],
       pr_request_id = js_or (js_get body ''id'') (js_get headers ''x-request-id'')\<rparr>)"

definition normalizeProviderResponse :: "jstr \<Rightarrow> jval \<Rightarrow> jval \<Rightarrow> provider_result res" where
  "normalizeProviderResponse kind body headers =
     (if kind = ''anthropic-messages'' then anthropicResponse body headers
      else if kind = ''gemini-generate-content'' then geminiResponse body headers
      else if kind = ''openai-responses'' then openaiResponse body headers
      else Inr (chatResponse body headers))"

text \<open>The error of the HTTP client: its \<^verbatim>\<open>response\<close> and its \<^verbatim>\<open>code\<close>.\<close>

record http_error =
  he_response :: jval
  he_code :: jval

definition errorStatus :: "http_error \<Rightarrow> jnum option" where
  "errorStatus e =
     (let n = to_number (js_or (js_get (he_response e) ''status'') (num 0)) in if truthy (JNum n) then Some n else None)"

definition errorCategory :: "http_error \<Rightarrow> jstr" where
  "errorCategory e =
     (let s = errorStatus e in
      if s = Some (Fin 401) then ''authentication_failed''
      else if s = Some (Fin 403) then ''permission_denied''
      else if s = Some (Fin 402) then ''payment_required''
      else if s = Some (Fin 429) then ''rate_limited''
      else if (case s of Some n \<Rightarrow> num_le (Fin 500) n | None \<Rightarrow> False) then ''provider_unavailable''
      else if (case s of Some n \<Rightarrow> num_le (Fin 400) n | None \<Rightarrow> False) then ''invalid_request''
      else if he_code e = JStr ''ECONNABORTED'' then ''timeout''
      else if truthy (he_code e) then ''network_error''
      else ''invalid_response'')"

definition num_times :: "rat \<Rightarrow> jnum \<Rightarrow> jnum" where
  "num_times k n = (case n of Fin q \<Rightarrow> Fin (k * q) | _ \<Rightarrow> n)"

definition normalizeProviderError :: "http_error \<Rightarrow> ai_error" where
  "normalizeProviderError e =
     (let retryAfter = to_number (js_or (js_path (he_response e) [''headers'', ''retry-after'']) (num 0)) in
      \<lparr>ae_message = ''Proveedor IA: '' @ errorCategory e, ae_category = Some (errorCategory e),
       ae_status = (case errorStatus e of Some n \<Rightarrow> JNum n | None \<Rightarrow> JUndef),
       ae_retry_after = (if num_lt (Fin 0) retryAfter then JNum (num_times 1000 retryAfter) else JUndef),
       ae_raw = js_get (he_response e) ''data'', ae_response_status = JUndef, ae_code = JUndef\<rparr>)"

definition generateWithProvider ::
  "(prepared \<Rightarrow> rat \<Rightarrow> http_error + jval \<times> jval) \<Rightarrow> provider_config \<Rightarrow> generate_request \<Rightarrow> ai_error + provider_result" where
  "generateWithProvider post config request =
     (let req = providerRequest config request in
      case post req (pc_timeout config) of
        Inl e \<Rightarrow> Inl (normalizeProviderError e)
      | Inr (body, headers) \<Rightarrow>
          (case normalizeProviderResponse (pq_kind req) body headers of
             Inl _ \<Rightarrow> Inl (normalizeProviderError \<lparr>he_response = JUndef, he_code = JUndef\<rparr>)
           | Inr r \<Rightarrow> Inr r))"

end
