(* ===== verification/RequestRetry.thy ===== *)
theory RequestRetry
  imports ProviderAdapters
begin

text \<open>
  \<^verbatim>\<open>engine/src/ai/requestRetry.ts\<close>: a model call with retries, repair of answers that are no JSON, a
  deadline, cancellation and fallback providers.

  The context is the \<^verbatim>\<open>AIClient\<close> the function is called with. What it reads from outside is in
  \<open>retry_world\<close>, by the number of the iteration: the clock at its start and in its error handler, the abort
  signal at both places, the HTTP client and the parser \<^verbatim>\<open>safeJsonParse\<close> of the context. Trace entries are left out.
\<close>

record fallback_config =
  fb_provider :: jstr
  fb_endpoint :: jstr
  fb_model :: jstr
  fb_api_key :: jstr

record retry_context =
  rc_provider :: jstr
  rc_endpoint :: jstr
  rc_model :: jstr
  rc_api_key :: jstr
  rc_temperature :: jval
  rc_retry_temperature :: jval
  rc_max_tokens :: jnum
  rc_disable_thinking :: bool
  rc_prompt_cost :: rat
  rc_completion_cost :: rat
  rc_token_cost :: rat
  rc_request_timeout :: jval
  rc_max_retries :: jnum
  rc_fallbacks :: "fallback_config list"
  rc_resolve_key :: "(jstr \<Rightarrow> jstr) option"

record retry_args =
  ra_temperature :: jval
  ra_max_tokens :: jval
  ra_response_format :: jval
  ra_timeout :: jval
  ra_schema :: jval

record retry_world =
  rw_start :: rat
  rw_now :: "nat \<Rightarrow> rat"
  rw_caught :: "nat \<Rightarrow> rat"
  rw_aborted :: "nat \<Rightarrow> bool"
  rw_aborted_caught :: "nat \<Rightarrow> bool"
  rw_post :: "nat \<Rightarrow> prepared \<Rightarrow> rat \<Rightarrow> http_error + jval \<times> jval"
  rw_parse :: "jstr \<Rightarrow> js_error + jval"

record ai_metrics =
  am_provider :: jstr
  am_model :: jstr
  am_temperature :: jval
  am_fallback :: bool
  am_usage :: usage
  am_cost :: jnum

record ai_result =
  ai_data :: jval
  ai_metrics :: ai_metrics
  ai_prompt :: "provider_message list"
  ai_raw :: jval

section \<open>Parts of an attempt\<close>

definition effectiveRequestTimeoutMs :: "jval \<Rightarrow> jval \<Rightarrow> rat" where
  "effectiveRequestTimeoutMs configured override' =
     (let ceil' = (case to_number configured of Fin c \<Rightarrow> if 0 < c then c else 900000 | _ \<Rightarrow> 900000) in
      case to_number override' of Fin v \<Rightarrow> if 0 < v then max 1 (min ceil' v) else ceil' | _ \<Rightarrow> ceil')"

text \<open>
  The number of attempts that \<^verbatim>\<open>attempts < context.maxRetries\<close> allows. The client never makes the
  field infinite: it is clamped to five, or parsed from a decimal text.
\<close>

definition attemptLimit :: "jnum \<Rightarrow> nat" where
  "attemptLimit n = (case n of Fin q \<Rightarrow> nat \<lceil>q\<rceil> | _ \<Rightarrow> 0)"

definition requestTokens :: "retry_context \<Rightarrow> retry_args \<Rightarrow> jnum" where
  "requestTokens ctx args =
     num_max (Fin 32) (num_min (rc_max_tokens ctx) (to_number (js_or (ra_max_tokens args) (JNum (rc_max_tokens ctx)))))"

definition attemptTemperature :: "retry_context \<Rightarrow> retry_args \<Rightarrow> nat \<Rightarrow> jval" where
  "attemptTemperature ctx args attempts =
     js_coalesce (ra_temperature args) (if 0 < attempts then rc_retry_temperature ctx else rc_temperature ctx)"

definition attemptConfig :: "retry_context \<Rightarrow> rat \<Rightarrow> rat \<Rightarrow> provider_config" where
  "attemptConfig ctx requestTimeoutMs remainingMs =
     \<lparr>pc_provider = rc_provider ctx, pc_endpoint = rc_endpoint ctx, pc_api_key = rc_api_key ctx,
      pc_timeout = max 1 (min requestTimeoutMs remainingMs)\<rparr>"

definition attemptRequest :: "retry_context \<Rightarrow> retry_args \<Rightarrow> provider_message list \<Rightarrow> nat \<Rightarrow> generate_request" where
  "attemptRequest ctx args messages attempts =
     \<lparr>gr_model = rc_model ctx, gr_messages = messages, gr_temperature = attemptTemperature ctx args attempts,
      gr_max_tokens = requestTokens ctx args, gr_disable_thinking = rc_disable_thinking ctx,
      gr_response_format = ra_response_format args, gr_output_schema = ra_schema args\<rparr>"

definition estimatedCost :: "retry_context \<Rightarrow> usage \<Rightarrow> jnum" where
  "estimatedCost ctx u =
     (if rc_prompt_cost ctx \<noteq> 0 \<or> rc_completion_cost ctx \<noteq> 0
      then num_add (num_times (rc_prompt_cost ctx / 1000) (us_prompt u)) (num_times (rc_completion_cost ctx / 1000) (us_completion u))
      else num_times (rc_token_cost ctx / 1000) (us_total u))"

definition plainError :: "jstr \<Rightarrow> ai_error" where
  "plainError msg = \<lparr>ae_message = msg, ae_category = None, ae_status = JUndef, ae_retry_after = JUndef, ae_raw = JUndef,
     ae_response_status = JUndef, ae_code = JUndef\<rparr>"

definition providerError :: "jstr \<Rightarrow> jstr \<Rightarrow> ai_error" where
  "providerError msg category = (plainError msg)\<lparr>ae_category := Some category\<rparr>"

definition cancelledError :: ai_error where
  "cancelledError = providerError ''Solicitud IA cancelada'' ''cancelled''"

definition timeoutError :: ai_error where
  "timeoutError = providerError (''Se agot'' @ [CHR 0xF3] @ '' el tiempo m'' @ [CHR 0xE1] @ ''ximo del nodo del workflow'') ''timeout''"

definition exhaustedError :: ai_error where
  "exhaustedError = plainError (''No se pudo obtener un JSON v'' @ [CHR 0xE1] @ ''lido tras varios intentos.'')"

definition retriable :: "ai_error \<Rightarrow> bool" where
  "retriable e \<longleftrightarrow>
     (case ae_category e of
        Some c \<Rightarrow> c \<in> {''provider_unavailable'', ''rate_limited'', ''timeout'', ''network_error''} | None \<Rightarrow> False) \<or>
     ae_response_status e = num 500 \<or> ae_code e = JStr ''ECONNRESET''"

text \<open>A message without its images, after a failure.\<close>

definition visualNote :: jstr where
  "visualNote = [CHR 10] @ ''(NOTA: Hubo un fallo visual, conf'' @ [CHR 0xED] @ ''a solo en el DOM)''"

definition textOnly :: "provider_message \<Rightarrow> provider_message" where
  "textOnly m =
     (case pm_content m of
        JArr parts \<Rightarrow>
          (let textPart = (case find (\<lambda>p. js_get p ''type'' = JStr ''text'') parts of Some p \<Rightarrow> p | None \<Rightarrow> JUndef) in
           m\<lparr>pm_content := js_add (js_or (js_get textPart ''text'') (JStr ''Analizando estado del DOM...'')) (JStr visualNote)\<rparr>)
      | _ \<Rightarrow> m)"

definition repairMessages :: "jstr \<Rightarrow> jstr \<Rightarrow> provider_message list" where
  "repairMessages content msg =
     [\<lparr>pm_role = ''assistant'', pm_content = JStr content\<rparr>,
      \<lparr>pm_role = ''user'', pm_content = JStr (''ERROR T'' @ [CHR 0xC9] @ ''CNICO: Tu respuesta anterior no fue un JSON v'' @ [CHR 0xE1]
         @ ''lido (Error: '' @ msg @ '').'' @ [CHR 10]
         @ ''Por favor, RE-GENERA el objeto JSON completo desde cero, asegur'' @ [CHR 0xE1] @ ''ndote de:'' @ [CHR 10]
         @ ''1. Abrir y cerrar todas las llaves {}.'' @ [CHR 10]
         @ ''2. No incluir comentarios o texto fuera del JSON.'' @ [CHR 10]
         @ ''3. Usar el formato exacto solicitado.'')\<rparr>]"

section \<open>The loop\<close>

text \<open>
  The state of the loop: the context (the provider changes), the messages, \<^verbatim>\<open>attempts\<close>, \<^verbatim>\<open>fallbackIndex\<close>, the
  number of iterations and the requests sent so far.
\<close>

record retry_state =
  rs_ctx :: retry_context
  rs_messages :: "provider_message list"
  rs_attempts :: nat
  rs_fallback :: nat
  rs_iteration :: nat
  rs_sent :: "(provider_config \<times> generate_request) list"

datatype attempt_outcome = Done ai_result retry_state | Failed ai_error retry_state | Again retry_state

text \<open>
  The switch to a fallback: provider, endpoint and model are assigned before the key is looked up, and a
  context without \<^verbatim>\<open>resolveProviderApiKey\<close> makes that lookup throw.
\<close>

definition switchProvider :: "retry_context \<Rightarrow> fallback_config \<Rightarrow> ai_error option \<times> retry_context" where
  "switchProvider ctx fb =
     (let switched = ctx\<lparr>rc_provider := fb_provider fb, rc_endpoint := fb_endpoint fb, rc_model := fb_model fb\<rparr> in
      if fb_api_key fb \<noteq> [] then (None, switched\<lparr>rc_api_key := fb_api_key fb\<rparr>)
      else case rc_resolve_key ctx of
             Some resolve \<Rightarrow> (None, switched\<lparr>rc_api_key := resolve (fb_provider fb)\<rparr>)
           | None \<Rightarrow> (Some (plainError ''context.resolveProviderApiKey is not a function''), switched))"

definition catchError :: "retry_world \<Rightarrow> rat \<Rightarrow> ai_error \<Rightarrow> retry_state \<Rightarrow> attempt_outcome" where
  "catchError w deadline e st =
     (let k = rs_iteration st; ctx = rs_ctx st; next' = st\<lparr>rs_iteration := k + 1\<rparr> in
      if rw_aborted_caught w k then Failed cancelledError next'
      else if \<not> retriable e then Failed e next'
      else if deadline \<le> rw_caught w k then Failed e next'
      else (let st' = next'\<lparr>rs_messages := map textOnly (rs_messages st), rs_attempts := rs_attempts st + 1\<rparr> in
        if attemptLimit (rc_max_retries ctx) \<le> rs_attempts st' \<and> rs_fallback st < length (rc_fallbacks ctx) then
          (case switchProvider ctx (rc_fallbacks ctx ! rs_fallback st) of
             (Some e', ctx') \<Rightarrow> Failed e' (st'\<lparr>rs_ctx := ctx', rs_fallback := rs_fallback st + 1\<rparr>)
           | (None, ctx') \<Rightarrow> Again (st'\<lparr>rs_ctx := ctx', rs_fallback := rs_fallback st + 1, rs_attempts := 0\<rparr>))
        else Again st'))"

definition attemptResult :: "retry_state \<Rightarrow> retry_args \<Rightarrow> provider_result \<Rightarrow> jval \<Rightarrow> ai_result" where
  "attemptResult st args response parsed =
     \<lparr>ai_data = (case parsed of JArr xs \<Rightarrow> (case xs of [] \<Rightarrow> JUndef | x # _ \<Rightarrow> x) | v \<Rightarrow> v),
      ai_metrics = \<lparr>am_provider = rc_provider (rs_ctx st), am_model = rc_model (rs_ctx st),
        am_temperature = attemptTemperature (rs_ctx st) args (rs_attempts st), am_fallback = (0 < rs_fallback st),
        am_usage = pr_usage response, am_cost = estimatedCost (rs_ctx st) (pr_usage response)\<rparr>,
      ai_prompt = rs_messages st, ai_raw = pr_raw response\<rparr>"

definition attempt :: "retry_world \<Rightarrow> retry_args \<Rightarrow> rat \<Rightarrow> rat \<Rightarrow> retry_state \<Rightarrow> attempt_outcome" where
  "attempt w args requestTimeoutMs deadline st =
     (let k = rs_iteration st; ctx = rs_ctx st; remainingMs = deadline - rw_now w k in
      if remainingMs \<le> 0 then catchError w deadline timeoutError st
      else if rw_aborted w k then catchError w deadline cancelledError st
      else (let config = attemptConfig ctx requestTimeoutMs remainingMs;
                request = attemptRequest ctx args (rs_messages st) (rs_attempts st);
                sent = st\<lparr>rs_sent := rs_sent st @ [(config, request)]\<rparr> in
        case generateWithProvider (rw_post w k) config request of
          Inl e \<Rightarrow> catchError w deadline e sent
        | Inr response \<Rightarrow>
            (case rw_parse w (pr_content response) of
               Inr parsed \<Rightarrow> Done (attemptResult st args response parsed) (sent\<lparr>rs_iteration := k + 1\<rparr>)
             | Inl je \<Rightarrow>
                 (let counted = sent\<lparr>rs_attempts := rs_attempts st + 1\<rparr> in
                  if attemptLimit (rc_max_retries ctx) \<le> rs_attempts counted
                  then catchError w deadline (plainError (error_message je)) counted
                  else Again (counted\<lparr>rs_iteration := k + 1,
                    rs_messages := rs_messages st @ repairMessages (pr_content response) (error_message je)\<rparr>)))))"

definition attempts_left :: "retry_state \<Rightarrow> nat" where
  "attempts_left st =
     (attemptLimit (rc_max_retries (rs_ctx st)) - rs_attempts st)
     + (length (rc_fallbacks (rs_ctx st)) - rs_fallback st) * attemptLimit (rc_max_retries (rs_ctx st))"

text \<open>What no attempt changes, and that an attempt which goes on has used up one of the attempts left.\<close>

lemma switch_keeps [simp]:
  "switchProvider ctx fb = (e, ctx') \<Longrightarrow> rc_max_retries ctx' = rc_max_retries ctx \<and> rc_fallbacks ctx' = rc_fallbacks ctx"
  by (auto simp: switchProvider_def Let_def split: if_splits option.splits)

definition goes_on :: "retry_state \<Rightarrow> retry_state \<Rightarrow> bool" where
  "goes_on st st' \<longleftrightarrow>
     rc_max_retries (rs_ctx st') = rc_max_retries (rs_ctx st) \<and> rc_fallbacks (rs_ctx st') = rc_fallbacks (rs_ctx st) \<and>
     attempts_left st' < attempts_left st"

lemma attempts_left_fallback:
  fixes lim n f :: nat
  shows "n < lim \<Longrightarrow> i < f \<Longrightarrow> lim + (f - Suc i) * lim < lim - n + (f - i) * lim"
proof -
  assume "n < lim" "i < f"
  then have "(f - i) * lim = lim + (f - Suc i) * lim" by (metis Suc_diff_Suc mult_Suc)
  then show ?thesis using \<open>n < lim\<close> by simp
qed

lemma catch_goes_on:
  assumes "rs_attempts st < attemptLimit (rc_max_retries (rs_ctx st))" "catchError w d e st = Again st'"
  shows "goes_on st st'"
proof -
  let ?lim = "attemptLimit (rc_max_retries (rs_ctx st))"
  note fb = attempts_left_fallback [OF assms(1), of "rs_fallback st" "length (rc_fallbacks (rs_ctx st))"]
  show ?thesis
    using assms fb
    by (auto simp: catchError_def goes_on_def attempts_left_def Let_def split: if_splits prod.splits option.splits dest!: switch_keeps)
qed

lemma attempt_goes_on:
  assumes "rs_attempts st < attemptLimit (rc_max_retries (rs_ctx st))" "attempt w args t d st = Again st'"
  shows "goes_on st st'"
proof -
  have sent: "goes_on st st'" if "catchError w d e (st\<lparr>rs_sent := q\<rparr>) = Again st'" for e q
    using catch_goes_on [OF _ that] assms(1) by (auto simp: goes_on_def attempts_left_def)
  have json: "catchError w d (plainError m) s \<noteq> Again st'" for m s
    by (simp add: catchError_def retriable_def plainError_def Let_def)
  have again: "goes_on st (st\<lparr>rs_sent := q, rs_attempts := Suc (rs_attempts st), rs_iteration := k, rs_messages := m\<rparr>)" for q k m
    using assms(1) by (simp add: goes_on_def attempts_left_def)
  show ?thesis
    using assms(2) unfolding attempt_def Let_def
    by (auto simp: json again split: if_splits sum.splits dest: catch_goes_on [OF assms(1)] sent)
qed

function sendLoop :: "retry_world \<Rightarrow> retry_args \<Rightarrow> rat \<Rightarrow> rat \<Rightarrow> retry_state \<Rightarrow> (ai_error + ai_result) \<times> retry_state" where
  "sendLoop w args requestTimeoutMs deadline st =
     (if rs_attempts st < attemptLimit (rc_max_retries (rs_ctx st)) then
        (case attempt w args requestTimeoutMs deadline st of
           Done r st' \<Rightarrow> (Inr r, st')
         | Failed e st' \<Rightarrow> (Inl e, st')
         | Again st' \<Rightarrow> sendLoop w args requestTimeoutMs deadline st')
      else (Inl exhaustedError, st))"
  by pat_completeness auto
termination
  by (relation "measure (\<lambda>(w, args, t, d, st). attempts_left st)") (auto dest: attempt_goes_on [OF _ sym] attempt_goes_on simp: goes_on_def)

declare sendLoop.simps [simp del]

definition sendWithRetry :: "retry_world \<Rightarrow> retry_context \<Rightarrow> provider_message list \<Rightarrow> retry_args \<Rightarrow> (ai_error + ai_result) \<times> retry_state" where
  "sendWithRetry w ctx messages args =
     (let requestTimeoutMs = effectiveRequestTimeoutMs (rc_request_timeout ctx) (ra_timeout args) in
      sendLoop w args requestTimeoutMs (rw_start w + requestTimeoutMs)
        \<lparr>rs_ctx = ctx, rs_messages = messages, rs_attempts = 0, rs_fallback = 0, rs_iteration = 0, rs_sent = []\<rparr>)"

end
