(* ===== verification/RetryProofs.thy ===== *)
theory RetryProofs
  imports RequestRetry
begin

text \<open>
  The properties of a model call with retries: how many requests it sends and where to, that its result is the answer to its
  last request, that client errors are final, and what happens with a fallback that has no key.
\<close>

section \<open>Requests\<close>

text \<open>
  The identity of a destination: provider, endpoint, model and key. A call may use the client's own, or that of a
  fallback with the key given for it (or resolved for its provider).
\<close>

type_synonym destination = "jstr \<times> jstr \<times> jstr \<times> jstr"

definition own_destination :: "retry_context \<Rightarrow> destination" where
  "own_destination ctx = (rc_provider ctx, rc_endpoint ctx, rc_model ctx, rc_api_key ctx)"

definition fallback_key :: "retry_context \<Rightarrow> fallback_config \<Rightarrow> jstr option" where
  "fallback_key ctx fb = (if fb_api_key fb \<noteq> [] then Some (fb_api_key fb) else map_option (\<lambda>resolve. resolve (fb_provider fb)) (rc_resolve_key ctx))"

definition destinations :: "retry_context \<Rightarrow> destination set" where
  "destinations ctx =
     insert (own_destination ctx)
       {(fb_provider fb, fb_endpoint fb, fb_model fb, key) | fb key. fb \<in> set (rc_fallbacks ctx) \<and> fallback_key ctx fb = Some key}"

definition sent_to :: "provider_config \<times> generate_request \<Rightarrow> destination" where
  "sent_to cr = (pc_provider (fst cr), pc_endpoint (fst cr), gr_model (snd cr), pc_api_key (fst cr))"

definition allowed_request :: "retry_context \<Rightarrow> rat \<Rightarrow> provider_config \<times> generate_request \<Rightarrow> bool" where
  "allowed_request ctx t cr \<longleftrightarrow> sent_to cr \<in> destinations ctx \<and> 1 \<le> pc_timeout (fst cr) \<and> pc_timeout (fst cr) \<le> max 1 t"

text \<open>A state of the call: its destination is an allowed one and so is that of every request sent.\<close>

definition loop_inv :: "retry_context \<Rightarrow> rat \<Rightarrow> retry_state \<Rightarrow> bool" where
  "loop_inv ctx t st \<longleftrightarrow>
     own_destination (rs_ctx st) \<in> destinations ctx \<and> rc_fallbacks (rs_ctx st) = rc_fallbacks ctx \<and>
     rc_max_retries (rs_ctx st) = rc_max_retries ctx \<and>
     rc_resolve_key (rs_ctx st) = rc_resolve_key ctx \<and> list_all (allowed_request ctx t) (rs_sent st)"

lemma switch_cases:
  assumes "switchProvider c fb = (None, c')"
  shows "\<exists>key. fallback_key c fb = Some key \<and>
    c' = c\<lparr>rc_provider := fb_provider fb, rc_endpoint := fb_endpoint fb, rc_model := fb_model fb, rc_api_key := key\<rparr>"
  using assms by (cases "rc_resolve_key c") (auto simp: switchProvider_def fallback_key_def Let_def split: if_splits)

lemma switch_destination:
  assumes "switchProvider c fb = (None, c')" "fb \<in> set (rc_fallbacks ctx)" "rc_resolve_key c = rc_resolve_key ctx"
  shows "own_destination c' \<in> destinations ctx \<and> rc_resolve_key c' = rc_resolve_key ctx \<and> rc_fallbacks c' = rc_fallbacks c \<and>
    rc_max_retries c' = rc_max_retries c"
proof -
  obtain key where k: "fallback_key c fb = Some key"
      "c' = c\<lparr>rc_provider := fb_provider fb, rc_endpoint := fb_endpoint fb, rc_model := fb_model fb, rc_api_key := key\<rparr>"
    using switch_cases [OF assms(1)] by blast
  have "fallback_key ctx fb = Some key" using k(1) unfolding fallback_key_def assms(3) .
  then have "(fb_provider fb, fb_endpoint fb, fb_model fb, key) \<in> destinations ctx" using assms(2) unfolding destinations_def by blast
  then show ?thesis using k(2) assms(3) by (simp add: own_destination_def)
qed

lemma catch_inv: "catchError w d e st = Again st' \<Longrightarrow> loop_inv ctx t st \<Longrightarrow> loop_inv ctx t st'"
  unfolding catchError_def Let_def
  by (auto simp: loop_inv_def split: if_splits prod.splits option.splits dest!: switch_destination [where ctx = ctx])

lemma catch_sent: "catchError w d e st = Failed e' st' \<Longrightarrow> rs_sent st' = rs_sent st"
  "catchError w d e st = Again st' \<Longrightarrow> rs_sent st' = rs_sent st" "catchError w d e st \<noteq> Done r st'"
  by (auto simp: catchError_def Let_def split: if_splits prod.splits option.splits)

lemma request_allowed:
  "loop_inv ctx t st \<Longrightarrow> allowed_request ctx t (attemptConfig (rs_ctx st) t m, attemptRequest (rs_ctx st) args ms n)"
  by (auto simp: loop_inv_def allowed_request_def sent_to_def attemptConfig_def attemptRequest_def own_destination_def)

definition step_ok :: "retry_context \<Rightarrow> rat \<Rightarrow> retry_state \<Rightarrow> attempt_outcome \<Rightarrow> bool" where
  "step_ok ctx t st out \<longleftrightarrow>
     (case out of
        Done r st' \<Rightarrow> list_all (allowed_request ctx t) (rs_sent st') \<and> length (rs_sent st') \<le> length (rs_sent st) + 1
      | Failed e st' \<Rightarrow> list_all (allowed_request ctx t) (rs_sent st') \<and> length (rs_sent st') \<le> length (rs_sent st) + 1
      | Again st' \<Rightarrow> loop_inv ctx t st' \<and> length (rs_sent st') \<le> length (rs_sent st) + 1)"

lemma catch_ok:
  assumes "loop_inv ctx t s" "length (rs_sent s) \<le> length (rs_sent st) + 1"
  shows "step_ok ctx t st (catchError w d e s)"
proof -
  have a: "list_all (allowed_request ctx t) (rs_sent s)" using assms(1) by (simp add: loop_inv_def)
  show ?thesis
  proof (cases "catchError w d e s")
    case (Failed e' s')
    then show ?thesis using a assms(2) catch_sent(1) [OF Failed] by (simp add: step_ok_def)
  next
    case (Again s')
    then show ?thesis using catch_inv [OF Again assms(1)] assms(2) catch_sent(2) [OF Again] by (simp add: step_ok_def)
  qed (simp add: catch_sent(3))
qed

lemma loop_inv_update [simp]:
  "loop_inv ctx t (st\<lparr>rs_attempts := a\<rparr>) = loop_inv ctx t st" "loop_inv ctx t (st\<lparr>rs_iteration := k\<rparr>) = loop_inv ctx t st"
  "loop_inv ctx t (st\<lparr>rs_messages := ms\<rparr>) = loop_inv ctx t st"
  "loop_inv ctx t (st\<lparr>rs_sent := rs_sent st @ [cr]\<rparr>) = (loop_inv ctx t st \<and> allowed_request ctx t cr)"
  by (auto simp: loop_inv_def)

lemma step_intros:
  assumes "loop_inv ctx t s" "length (rs_sent s) \<le> length (rs_sent st) + 1"
  shows "step_ok ctx t st (Done r s)" "step_ok ctx t st (Again s)"
  using assms by (auto simp: step_ok_def loop_inv_def)

lemma attempt_ok:
  assumes "loop_inv ctx t st"
  shows "step_ok ctx t st (attempt w args t d st)"
  using assms request_allowed [OF assms] unfolding attempt_def Let_def
  by (auto split: sum.split simp del: One_nat_def intro!: catch_ok step_intros)

lemma sendLoop_ok:
  "sendLoop w args t d st = (out, st') \<Longrightarrow> loop_inv ctx t st \<Longrightarrow>
   list_all (allowed_request ctx t) (rs_sent st') \<and> length (rs_sent st') \<le> length (rs_sent st) + attempts_left st"
proof (induction w args t d st rule: sendLoop.induct)
  case (1 w args t d st)
  show ?case
  proof (cases "rs_attempts st < attemptLimit (rc_max_retries (rs_ctx st))")
    case True
    then have pos: "1 \<le> attempts_left st" by (simp add: attempts_left_def)
    note ok = attempt_ok [OF "1.prems"(2), of w args d]
    show ?thesis
    proof (cases "attempt w args t d st")
      case (Again s)
      have "sendLoop w args t d s = (out, st')" using "1.prems"(1) True Again by (simp add: sendLoop.simps [of w args t d st])
      note ih = "1.IH" [OF True Again this]
      have "loop_inv ctx t s" "length (rs_sent s) \<le> length (rs_sent st) + 1" using ok Again by (simp_all add: step_ok_def)
      then show ?thesis using ih attempt_goes_on [OF True Again] by (auto simp: goes_on_def)
    qed (use "1.prems"(1) True ok pos in \<open>auto simp: sendLoop.simps [of w args t d st] step_ok_def\<close>)
  next
    case False
    then show ?thesis using "1.prems" by (simp add: sendLoop.simps [of w args t d st] loop_inv_def)
  qed
qed

section \<open>Answers\<close>

text \<open>The result \<open>r\<close> is the parsed answer to the last request sent, and names that request's provider, model and messages.\<close>

definition answered :: "retry_world \<Rightarrow> ai_result \<Rightarrow> (provider_config \<times> generate_request) list \<Rightarrow> bool" where
  "answered w r sent \<longleftrightarrow>
     (\<exists>k rest config request response parsed.
        sent = rest @ [(config, request)] \<and> generateWithProvider (rw_post w k) config request = Inr response \<and>
        rw_parse w (pr_content response) = Inr parsed \<and>
        ai_data r = (case parsed of JArr xs \<Rightarrow> (case xs of [] \<Rightarrow> JUndef | x # _ \<Rightarrow> x) | v \<Rightarrow> v) \<and> ai_raw r = pr_raw response \<and>
        am_provider (ai_metrics r) = pc_provider config \<and> am_model (ai_metrics r) = gr_model request \<and>
        am_usage (ai_metrics r) = pr_usage response \<and> ai_prompt r = gr_messages request)"

lemma attempt_answered: "attempt w args t d st = Done r st' \<Longrightarrow> answered w r (rs_sent st')"
  unfolding attempt_def Let_def answered_def
  by (auto simp: catch_sent(3) attemptResult_def attemptConfig_def attemptRequest_def split: if_splits sum.splits) blast

lemma sendLoop_answered: "sendLoop w args t d st = (Inr r, st') \<Longrightarrow> answered w r (rs_sent st')"
proof (induction w args t d st rule: sendLoop.induct)
  case (1 w args t d st)
  then show ?case
    using attempt_answered [of w args t d st r st'] unfolding sendLoop.simps [of w args t d st]
    by (auto split: if_splits attempt_outcome.splits)
qed

section \<open>Errors that are not retried\<close>

lemma client_error_category:
  assumes "errorStatus e = Some (Fin q)" "400 \<le> q" "q < 500" "q \<noteq> 429"
  shows "\<not> retriable (normalizeProviderError e)"
  using assms by (auto simp: retriable_def normalizeProviderError_def errorCategory_def Let_def)

section \<open>A client with one fallback\<close>

definition demo_client :: retry_context where
  "demo_client = \<lparr>rc_provider = ''openai'', rc_endpoint = ''https://a'', rc_model = ''m'', rc_api_key = ''secret'', rc_temperature = num 0,
     rc_retry_temperature = num 0, rc_max_tokens = Fin 256, rc_disable_thinking = False, rc_prompt_cost = 0, rc_completion_cost = 0,
     rc_token_cost = 1, rc_request_timeout = num 5000, rc_max_retries = Fin 1,
     rc_fallbacks = [\<lparr>fb_provider = ''ollama'', fb_endpoint = ''http://b'', fb_model = ''n'', fb_api_key = []\<rparr>], rc_resolve_key = None\<rparr>"

definition demo_retry_world :: "(http_error + jval \<times> jval) \<Rightarrow> retry_world" where
  "demo_retry_world reply = \<lparr>rw_start = 0, rw_now = (\<lambda>_. 0), rw_caught = (\<lambda>_. 0), rw_aborted = (\<lambda>_. False), rw_aborted_caught = (\<lambda>_. False),
     rw_post = (\<lambda>_ _ _. reply), rw_parse = (\<lambda>s. Inr (JStr s))\<rparr>"

definition demo_args :: retry_args where
  "demo_args = \<lparr>ra_temperature = JUndef, ra_max_tokens = JUndef, ra_response_format = JUndef, ra_timeout = JUndef, ra_schema = JUndef\<rparr>"

definition http_status :: "rat \<Rightarrow> http_error" where
  "http_status n = \<lparr>he_response = JObj [(''status'', num n)], he_code = JUndef\<rparr>"

definition demo_answer :: jval where
  "demo_answer = JObj [(''output_text'', JStr ''{}'')]"

lemma demo_success:
  "fst (sendWithRetry (demo_retry_world (Inr (demo_answer, JUndef))) demo_client [] demo_args) \<noteq> Inl exhaustedError \<and>
   (case fst (sendWithRetry (demo_retry_world (Inr (demo_answer, JUndef))) demo_client [] demo_args) of Inr r \<Rightarrow> ai_data r = JStr ''{}'' | Inl _ \<Rightarrow> False)"
  by code_simp

section \<open>Properties\<close>



text \<open>
  A call that succeeds returns the parsed content of the answer to its last request (the first
  element when that is an array), with the usage and raw answer of that request and the provider, model and messages it was sent with.
\<close>

theorem retry_result_sound:
  assumes "sendWithRetry w ctx messages args = (Inr r, st)"
  shows "answered w r (rs_sent st)"
  using assms unfolding sendWithRetry_def Let_def by (rule sendLoop_answered)

theorem retry_result_sound_witness:
  "\<exists>(r :: ai_result) (st :: retry_state). answered (demo_retry_world (Inr (demo_answer, JUndef))) r (rs_sent st) \<and> ai_data r = JStr ''{}''"
proof -
  obtain r st where run: "sendWithRetry (demo_retry_world (Inr (demo_answer, JUndef))) demo_client [] demo_args = (Inr r, st)"
    and parsed: "ai_data r = JStr ''{}''"
    using demo_success
    by (cases "sendWithRetry (demo_retry_world (Inr (demo_answer, JUndef))) demo_client [] demo_args") (auto split: sum.splits)
  have "answered (demo_retry_world (Inr (demo_answer, JUndef))) r (rs_sent st)" by (rule retry_result_sound [OF run])
  then show ?thesis using parsed by blast
qed

text \<open>
  A client error of the provider (a 4xx status other than 429) ends the call at once: one request
  is sent and the normalised error is thrown, whatever retries and fallbacks are configured.
\<close>

theorem client_errors_not_retried:
  assumes "0 < attemptLimit (rc_max_retries ctx)" and "rw_now w 0 = rw_start w" and "\<not> rw_aborted w 0" and "\<not> rw_aborted_caught w 0"
    and "\<And>req t. rw_post w 0 req t = Inl e"
    and "errorStatus e = Some (Fin q)" and "400 \<le> q" and "q < 500" and "q \<noteq> 429"
  shows "fst (sendWithRetry w ctx messages args) = Inl (normalizeProviderError e) \<and> length (rs_sent (snd (sendWithRetry w ctx messages args))) = 1"
proof -
  have pos: "\<not> effectiveRequestTimeoutMs a b \<le> 0" for a b
    by (auto simp: effectiveRequestTimeoutMs_def Let_def split: jnum.splits)
  note nr = client_error_category [OF assms(6-9)]
  show ?thesis
    using assms(1-5) pos nr unfolding sendWithRetry_def Let_def
    by (subst (1 2) sendLoop.simps) (simp add: attempt_def generateWithProvider_def catchError_def Let_def)
qed

theorem client_errors_not_retried_witness:
  "length (rs_sent (snd (sendWithRetry (demo_retry_world (Inl (http_status 401))) demo_client [] demo_args))) = 1"
proof -
  have "0 < attemptLimit (rc_max_retries demo_client)" "errorStatus (http_status 401) = Some (Fin 401)" by code_simp+
  then show ?thesis
    using client_errors_not_retried [of demo_client "demo_retry_world (Inl (http_status 401))" "http_status 401" 401 "[]" demo_args]
    by (simp add: demo_retry_world_def)
qed

text \<open>
  A fallback without a key of its own is never used by a client that has no \<^verbatim>\<open>resolveProviderApiKey\<close>, as is
  the case for \<^verbatim>\<open>AIClient\<close>: when the last attempt fails for a reason that should move on to the fallback, the call ends with
  a \<^verbatim>\<open>TypeError\<close>, and the client is left with the provider, endpoint and model of the fallback but the key of the first provider.
\<close>

theorem keyless_fallback_fails:
  assumes "rc_resolve_key ctx = None" and "rc_fallbacks ctx = fb # fbs" and "fb_api_key fb = []" and "attemptLimit (rc_max_retries ctx) = 1"
    and "rw_now w 0 = rw_start w" and "\<not> rw_aborted w 0" and "\<not> rw_aborted_caught w 0" and "rw_caught w 0 = rw_start w"
    and "\<And>req t. rw_post w 0 req t = Inl e" and "retriable (normalizeProviderError e)"
  shows "fst (sendWithRetry w ctx messages args) = Inl (plainError ''context.resolveProviderApiKey is not a function'') \<and>
    own_destination (rs_ctx (snd (sendWithRetry w ctx messages args))) = (fb_provider fb, fb_endpoint fb, fb_model fb, rc_api_key ctx)"
proof -
  have pos: "\<not> effectiveRequestTimeoutMs a b \<le> 0" for a b
    by (auto simp: effectiveRequestTimeoutMs_def Let_def split: jnum.splits)
  show ?thesis
    using assms pos unfolding sendWithRetry_def Let_def
    by (subst (1 2) sendLoop.simps)
      (simp add: attempt_def generateWithProvider_def catchError_def switchProvider_def own_destination_def Let_def)
qed

theorem keyless_fallback_fails_witness:
  "own_destination (rs_ctx (snd (sendWithRetry (demo_retry_world (Inl (http_status 503))) demo_client [] demo_args))) =
     (''ollama'', ''http://b'', ''n'', ''secret'')"
proof -
  have "attemptLimit (rc_max_retries demo_client) = 1" "retriable (normalizeProviderError (http_status 503))" by code_simp+
  then show ?thesis
    using keyless_fallback_fails [of demo_client _ _ "demo_retry_world (Inl (http_status 503))" "http_status 503" "[]" demo_args]
    by (simp add: demo_retry_world_def demo_client_def)
qed

end
