(* ===== verification/Rx.thy ===== *)
theory Rx
  imports Prelude
begin

text \<open>
  The regular expressions of JavaScript the sources use: character classes, sequences, alternatives, greedy and
  lazy repetition, numbered groups, anchors, word boundaries and lookahead, with the matching order of the
  language.

  A match attempt yields the list of its outcomes in the order a backtracking matcher would try them, so
  the first element is the match. A position is the character before it, the text from it on, and the
  captures made so far, latest first.
\<close>

section \<open>Expressions and matching\<close>

datatype rx =
    Eps
  | Sym "char \<Rightarrow> bool"
  | Cat rx rx
  | Or rx rx
  | Rep nat "nat option" bool rx
  | Grp nat rx
  | Bol
  | Eol
  | WordB
  | Look rx

type_synonym capture = "nat \<times> jstr"
type_synonym rx_pos = "char option \<times> jstr \<times> capture list"

definition rest_of :: "rx_pos \<Rightarrow> jstr" where
  "rest_of st = fst (snd st)"

definition is_word :: "char \<Rightarrow> bool" where
  "is_word c \<longleftrightarrow> (let n = code_unit c in 48 \<le> n \<and> n \<le> 57 \<or> 65 \<le> n \<and> n \<le> 90 \<or> 97 \<le> n \<and> n \<le> 122 \<or> n = 95)"

fun groups :: "rx \<Rightarrow> nat list" where
  "groups (Cat a b) = groups a @ groups b"
| "groups (Or a b) = groups a @ groups b"
| "groups (Rep mn mx g a) = groups a"
| "groups (Grp n a) = n # groups a"
| "groups (Look a) = groups a"
| "groups _ = []"

text \<open>The iterations of a repetition that must happen, and those that may and then must consume a character.\<close>

fun mandatory :: "(rx_pos \<Rightarrow> rx_pos list) \<Rightarrow> nat \<Rightarrow> rx_pos \<Rightarrow> rx_pos list" where
  "mandatory f 0 st = [st]"
| "mandatory f (Suc n) st = concat (map (mandatory f n) (f st))"

fun optional :: "(rx_pos \<Rightarrow> rx_pos list) \<Rightarrow> bool \<Rightarrow> nat \<Rightarrow> rx_pos \<Rightarrow> rx_pos list" where
  "optional f greedy 0 st = [st]"
| "optional f greedy (Suc n) st =
     (let further = concat (map (optional f greedy n) (filter (\<lambda>st'. length (rest_of st') < length (rest_of st)) (f st)))
      in if greedy then further @ [st] else st # further)"

definition word_before :: "char option \<Rightarrow> bool" where
  "word_before p = (case p of Some c \<Rightarrow> is_word c | None \<Rightarrow> False)"

fun runs :: "rx \<Rightarrow> rx_pos \<Rightarrow> rx_pos list" where
  "runs Eps st = [st]"
| "runs (Sym p) (b, r, cs) = (case r of [] \<Rightarrow> [] | c # r' \<Rightarrow> if p c then [(Some c, r', cs)] else [])"
| "runs (Cat x y) st = concat (map (runs y) (runs x st))"
| "runs (Or x y) st = runs x st @ runs y st"
| "runs (Rep mn mx greedy x) st =
     (let f = (\<lambda>(b, r, cs). runs x (b, r, filter (\<lambda>nt. fst nt \<notin> set (groups x)) cs)) in
      concat (map (\<lambda>st'. optional f greedy (case mx of None \<Rightarrow> length (rest_of st') | Some m \<Rightarrow> min (m - mn) (length (rest_of st'))) st')
        (mandatory f mn st)))"
| "runs (Grp n x) (b, r, cs) =
     map (\<lambda>(b', r', cs'). (b', r', (n, take (length r - length r') r) # cs')) (runs x (b, r, cs))"
| "runs Bol (b, r, cs) = (if b = None then [(b, r, cs)] else [])"
| "runs Eol (b, r, cs) = (if r = [] then [(b, r, cs)] else [])"
| "runs WordB (b, r, cs) =
     (if word_before b \<noteq> word_before (case r of [] \<Rightarrow> None | c # _ \<Rightarrow> Some c) then [(b, r, cs)] else [])"
| "runs (Look x) (b, r, cs) = (case runs x (b, r, cs) of [] \<Rightarrow> [] | (_, _, cs') # _ \<Rightarrow> [(b, r, cs')])"

text \<open>The first match at or after a position: the text skipped, the text matched, the captures and the position after it.\<close>

record rx_match =
  rm_skipped :: jstr
  rm_text :: jstr
  rm_caps :: "capture list"
  rm_before :: "char option"
  rm_rest :: jstr

fun rx_from :: "rx \<Rightarrow> char option \<Rightarrow> jstr \<Rightarrow> rx_match option" where
  "rx_from x b [] =
     (case runs x (b, [], []) of
        (b', r', cs) # _ \<Rightarrow> Some \<lparr>rm_skipped = [], rm_text = [], rm_caps = cs, rm_before = b', rm_rest = r'\<rparr>
      | [] \<Rightarrow> None)"
| "rx_from x b (c # s) =
     (case runs x (b, c # s, []) of
        (b', r', cs) # _ \<Rightarrow>
          Some \<lparr>rm_skipped = [], rm_text = take (length (c # s) - length r') (c # s), rm_caps = cs, rm_before = b', rm_rest = r'\<rparr>
      | [] \<Rightarrow> map_option (\<lambda>m. m\<lparr>rm_skipped := c # rm_skipped m\<rparr>) (rx_from x (Some c) s))"

definition rx_exec :: "rx \<Rightarrow> jstr \<Rightarrow> rx_match option" where
  "rx_exec x s = rx_from x None s"

definition rx_test :: "rx \<Rightarrow> jstr \<Rightarrow> bool" where
  "rx_test x s \<longleftrightarrow> rx_exec x s \<noteq> None"

text \<open>\<^verbatim>\<open>match[n]\<close>; \<open>None\<close> is \<^verbatim>\<open>undefined\<close>.\<close>

definition rx_cap :: "rx_match \<Rightarrow> nat \<Rightarrow> jstr option" where
  "rx_cap m n = map_of (rm_caps m) n"

section \<open>Where matches end\<close>

lemma rest_of_simp [simp]: "rest_of (b, r, cs) = r"
  by (simp add: rest_of_def)

definition shrinks :: "(rx_pos \<Rightarrow> rx_pos list) \<Rightarrow> bool" where
  "shrinks f \<longleftrightarrow> (\<forall>st st'. st' \<in> set (f st) \<longrightarrow> (\<exists>t. rest_of st = t @ rest_of st'))"

lemma shrinksD: "shrinks f \<Longrightarrow> st' \<in> set (f st) \<Longrightarrow> \<exists>t. rest_of st = t @ rest_of st'"
  unfolding shrinks_def by blast

lemma shrinksI: "(\<And>st st'. st' \<in> set (f st) \<Longrightarrow> \<exists>t. rest_of st = t @ rest_of st') \<Longrightarrow> shrinks f"
  unfolding shrinks_def by blast

lemma shrinks_mandatory: "shrinks f \<Longrightarrow> shrinks (mandatory f n)"
proof (induction n)
  case (Suc n)
  have "\<exists>t. rest_of st = t @ rest_of st''" if "st' \<in> set (f st)" "st'' \<in> set (mandatory f n st')" for st st' st''
    using shrinksD [OF Suc.prems that(1)] shrinksD [OF Suc.IH [OF Suc.prems] that(2)] by fastforce
  then show ?case by (intro shrinksI) auto
qed (simp add: shrinks_def)

lemma shrinks_optional: "shrinks f \<Longrightarrow> shrinks (optional f g n)"
proof (induction n)
  case (Suc n)
  have "\<exists>t. rest_of st = t @ rest_of st''" if "st' \<in> set (f st)" "st'' \<in> set (optional f g n st')" for st st' st''
    using shrinksD [OF Suc.prems that(1)] shrinksD [OF Suc.IH [OF Suc.prems] that(2)] by fastforce
  then show ?case by (intro shrinksI) (auto simp: Let_def split: if_splits)
qed (simp add: shrinks_def)

lemma shrinks_compose:
  assumes "shrinks f" and "\<And>st'. shrinks (g st')"
  shows "shrinks (\<lambda>st. concat (map (\<lambda>st'. g st' st') (f st)))"
proof -
  have "\<exists>t. rest_of st = t @ rest_of st''" if "st' \<in> set (f st)" "st'' \<in> set (g st' st')" for st st' st''
    using shrinksD [OF assms(1) that(1)] shrinksD [OF assms(2) that(2)] by fastforce
  then show ?thesis by (intro shrinksI) auto
qed

lemma runs_shrinks: "shrinks (runs x)"
proof (induction x)
  case (Cat x y)
  then show ?case using shrinks_compose [of "runs x" "\<lambda>_. runs y"] by (simp add: shrinks_def)
next
  case (Or x y)
  then show ?case by (intro shrinksI) (auto dest: shrinksD)
next
  case (Rep mn mx g x)
  let ?f = "\<lambda>(b, r, cs). runs x (b, r, filter (\<lambda>nt. fst nt \<notin> set (groups x)) cs)"
  have f: "shrinks ?f" using Rep by (auto simp: shrinks_def)
  show ?case
    using shrinks_compose [OF shrinks_mandatory [OF f, of mn] shrinks_optional [OF f]]
    by (simp add: shrinks_def Let_def)
next
  case (Grp n x)
  have "\<exists>t. r = t @ r'" if "(b', r', cs') \<in> set (runs x (b, r, cs))" for b r cs b' r' cs'
    using shrinksD [OF Grp that] by simp
  then show ?case by (intro shrinksI) auto
qed (auto simp: shrinks_def split: list.splits)

lemma rx_from_text:
  "rx_from x b s = Some m \<Longrightarrow> s = rm_skipped m @ rm_text m @ rm_rest m"
proof (induction s arbitrary: b m)
  case Nil
  then obtain b' r' cs where "(b', r', cs) \<in> set (runs x (b, [], []))" "m = \<lparr>rm_skipped = [], rm_text = [], rm_caps = cs, rm_before = b', rm_rest = r'\<rparr>"
    by (fastforce split: list.splits)
  then show ?case using shrinksD [OF runs_shrinks, of "(b', r', cs)" x "(b, [], [])"] by simp
next
  case (Cons c s)
  show ?case
  proof (cases "runs x (b, c # s, [])")
    case Nil
    then show ?thesis using Cons by (auto split: prod.splits)
  next
    case (Cons st sts)
    obtain b' r' cs where st: "st = (b', r', cs)" by (cases st)
    have "\<exists>t. c # s = t @ r'" using shrinksD [OF runs_shrinks, of st x "(b, c # s, [])"] Cons st by simp
    then have "take (length (c # s) - length r') (c # s) @ r' = c # s" by (metis append_eq_conv_conj diff_add_inverse2 length_append)
    then show ?thesis using Cons Cons.prems st by auto
  qed
qed

section \<open>All matches and replacement\<close>

text \<open>
  \<^verbatim>\<open>matchAll\<close>: after an empty match the search goes on one character later. Each match comes with its index in the text.
\<close>

function all_from :: "rx \<Rightarrow> char option \<Rightarrow> nat \<Rightarrow> jstr \<Rightarrow> (nat \<times> rx_match) list" where
  "all_from x b i s =
     (case rx_from x b s of
        None \<Rightarrow> []
      | Some m \<Rightarrow>
          (let k = i + length (rm_skipped m) in
           (k, m) #
           (if rm_text m \<noteq> [] then all_from x (rm_before m) (k + length (rm_text m)) (rm_rest m)
            else case rm_rest m of [] \<Rightarrow> [] | c # r \<Rightarrow> all_from x (Some c) (k + 1) r)))"
  by pat_completeness auto
termination
proof (relation "measure (\<lambda>(x, b, i, s). length s)", simp)
  fix x b i s m k
  assume "rx_from x b s = Some m" "rm_text m \<noteq> []"
  then show "((x, rm_before m, k + length (rm_text m), rm_rest m), x, b, i, s) \<in> measure (\<lambda>(x, b, i, s). length s)"
    using rx_from_text [of x b s m] by simp
next
  fix x b i s m k c r
  assume "rx_from x b s = Some m" "rm_rest m = c # r"
  then show "((x, Some c, k + 1, r), x, b, i, s) \<in> measure (\<lambda>(x, b, i, s). length s)"
    using rx_from_text [of x b s m] by simp
qed

declare all_from.simps [simp del]

definition rx_all :: "rx \<Rightarrow> jstr \<Rightarrow> (nat \<times> rx_match) list" where
  "rx_all x s = all_from x None 0 s"

text \<open>\<^verbatim>\<open>s.replace(/x/g, f)\<close>, and \<^verbatim>\<open>s.replace(/x/, f)\<close>.\<close>

fun rebuild :: "(rx_match \<Rightarrow> jstr) \<Rightarrow> nat \<Rightarrow> jstr \<Rightarrow> (nat \<times> rx_match) list \<Rightarrow> jstr" where
  "rebuild f i s [] = s"
| "rebuild f i s ((k, m) # ms) =
     take (k - i) s @ f m @ rebuild f (k + length (rm_text m)) (drop (k - i + length (rm_text m)) s) ms"

definition rx_replace_all :: "rx \<Rightarrow> (rx_match \<Rightarrow> jstr) \<Rightarrow> jstr \<Rightarrow> jstr" where
  "rx_replace_all x f s = rebuild f 0 s (rx_all x s)"

definition rx_replace :: "rx \<Rightarrow> (rx_match \<Rightarrow> jstr) \<Rightarrow> jstr \<Rightarrow> jstr" where
  "rx_replace x f s = (case rx_exec x s of None \<Rightarrow> s | Some m \<Rightarrow> rm_skipped m @ f m @ rm_rest m)"

section \<open>Building expressions\<close>

text \<open>The classes are named predicates, so that an expression is a term without binders.\<close>

definition is_in :: "jstr \<Rightarrow> char \<Rightarrow> bool" where "is_in s c \<longleftrightarrow> c \<in> set s"
definition not_in :: "jstr \<Rightarrow> char \<Rightarrow> bool" where "not_in s c \<longleftrightarrow> c \<notin> set s"
definition not_space :: "char \<Rightarrow> bool" where "not_space c \<longleftrightarrow> \<not> is_space c"
definition not_word :: "char \<Rightarrow> bool" where "not_word c \<longleftrightarrow> \<not> is_word c"
definition no_newline :: "char \<Rightarrow> bool" where "no_newline c \<longleftrightarrow> code_unit c \<noteq> 10 \<and> code_unit c \<noteq> 13"
definition word_in :: "jstr \<Rightarrow> char \<Rightarrow> bool" where "word_in s c \<longleftrightarrow> is_word c \<or> c \<in> set s"

definition either_case :: "(char \<Rightarrow> bool) \<Rightarrow> char \<Rightarrow> bool" where
  "either_case p c \<longleftrightarrow> p c \<or> p (lower_char c) \<or> (case upper_char c of [d] \<Rightarrow> p d | _ \<Rightarrow> False)"

text \<open>Two predicates by nested tests, for evaluation by the simplifier.\<close>

lemma is_word_code [code]:
  "is_word c = (let n = code_unit c in
     if 95 < n then (if n < 97 then False else n \<le> 122) else if n = 95 then True else if 57 < n then (if n < 65 then False else n \<le> 90) else 48 \<le> n)"
  by (auto simp: is_word_def Let_def)

lemma either_case_code [code]:
  "either_case p c =
     (if p c then True else if p (lower_char c) then True else case upper_char c of [d] \<Rightarrow> if d = c then False else p d | _ \<Rightarrow> False)"
  by (auto simp: either_case_def split: list.split)

fun lit :: "jstr \<Rightarrow> rx" where
  "lit [] = Eps"
| "lit (c # s) = Cat (Sym ((=) c)) (lit s)"

fun cat :: "rx list \<Rightarrow> rx" where
  "cat [] = Eps"
| "cat [x] = x"
| "cat (x # y # xs) = Cat x (cat (y # xs))"

fun alt :: "rx list \<Rightarrow> rx" where
  "alt [] = Sym (\<lambda>_. False)"
| "alt [x] = x"
| "alt (x # y # xs) = Or x (alt (y # xs))"

definition words :: "jstr list \<Rightarrow> rx" where
  "words ws = alt (map lit ws)"

abbreviation star :: "rx \<Rightarrow> rx" where "star x \<equiv> Rep 0 None True x"
abbreviation plus1 :: "rx \<Rightarrow> rx" where "plus1 x \<equiv> Rep 1 None True x"
abbreviation opt :: "rx \<Rightarrow> rx" where "opt x \<equiv> Rep 0 (Some 1) True x"
abbreviation lazy_star :: "rx \<Rightarrow> rx" where "lazy_star x \<equiv> Rep 0 None False x"
abbreviation lazy_plus :: "rx \<Rightarrow> rx" where "lazy_plus x \<equiv> Rep 1 None False x"

definition space :: rx where "space = Sym is_space"
definition nonspace :: rx where "nonspace = Sym not_space"
definition digit :: rx where "digit = Sym is_digit"
definition any_char :: rx where "any_char = Sym no_newline"
definition one_of :: "jstr \<Rightarrow> rx" where "one_of s = Sym (is_in s)"
definition none_of :: "jstr \<Rightarrow> rx" where "none_of s = Sym (not_in s)"
definition word_or :: "jstr \<Rightarrow> rx" where "word_or s = Sym (word_in s)"
definition nonword :: rx where "nonword = Sym not_word"

text \<open>The flag \<^verbatim>\<open>i\<close>: a character matches when it or its other case does.\<close>

fun ignore_case :: "rx \<Rightarrow> rx" where
  "ignore_case (Sym p) = Sym (either_case p)"
| "ignore_case (Cat x y) = Cat (ignore_case x) (ignore_case y)"
| "ignore_case (Or x y) = Or (ignore_case x) (ignore_case y)"
| "ignore_case (Rep mn mx g x) = Rep mn mx g (ignore_case x)"
| "ignore_case (Grp n x) = Grp n (ignore_case x)"
| "ignore_case (Look x) = Look (ignore_case x)"
| "ignore_case x = x"

end
