(* ===== verification/McpTool.thy ===== *)
theory McpTool
  imports SecureTransport JsonText Rx
begin

text \<open>
  \<^verbatim>\<open>engine/src/ai/mcp-tool-agent.ts\<close>: the agent that calls one tool of an MCP server. It checks the
  persisted contract, allowlist, scope, confirmation and arguments, opens a session through the pinned
  fetch, compares the tool with the catalogue of the server, calls it and redacts what it returns.

  The record \<open>mcp_world\<close> holds what lies outside: the URL parser, the setter of a host, the resolver, the JSON schema
  validator, the credential store, the collation that sorts keys, and the network, which answers the n-th request of the
  agent.
\<close>

section \<open>Redaction\<close>

definition SECRET_KEYS :: rx where
  "SECRET_KEYS = ignore_case (cat [Bol, alt
     [lit ''authorization'', cat [lit ''proxy'', any_char, lit ''authorization''], cat [lit ''api'', opt (one_of ''-_''), lit ''key''],
      cat [lit ''set'', opt (one_of ''-_''), lit ''cookie''], lit ''cookie'', lit ''credential'', lit ''password'', lit ''passwd'', lit ''secret'',
      cat [lit ''access'', opt (one_of ''-_''), lit ''token''], cat [lit ''refresh'', opt (one_of ''-_''), lit ''token''], lit ''token'',
      cat [lit ''session'', opt (one_of ''-_''), lit ''id''], cat [lit ''private'', opt (one_of ''-_''), lit ''key'']], Eol])"

definition isSecretKey :: "jstr \<Rightarrow> bool" where
  "isSecretKey k \<longleftrightarrow> rx_test SECRET_KEYS k"

definition alnum :: "char \<Rightarrow> bool" where
  "alnum c \<longleftrightarrow> is_word c \<and> c \<noteq> CHR ''_''"

definition reference_char :: "char \<Rightarrow> bool" where
  "reference_char c \<longleftrightarrow> alnum c \<or> c \<in> set ''._:-''"

definition OPAQUE_REFERENCE :: rx where
  "OPAQUE_REFERENCE = cat [Bol, lit ''vault:'', Sym alnum, Rep 0 (Some 127) True (Sym reference_char), Eol]"

definition redacted :: jstr where
  "redacted = ''[redacted]''"

text \<open>The group \<^verbatim>\<open>$1\<close> of a match and the mark.\<close>

definition keep_first :: "rx_match \<Rightarrow> jstr" where
  "keep_first m = (case rx_cap m 1 of Some t \<Rightarrow> t | None \<Rightarrow> []) @ redacted"

definition value_char :: "char \<Rightarrow> bool" where
  "value_char c \<longleftrightarrow> \<not> is_space c \<and> code_unit c \<notin> {34, 39, 44, 59}"

definition valueStop :: rx where
  "valueStop = plus1 (Sym value_char)"

definition BEARER :: rx where
  "BEARER = ignore_case (cat [Grp 1 (cat [lit ''Bearer'', plus1 space]), valueStop])"

definition ASSIGNED_SECRET :: rx where
  "ASSIGNED_SECRET = ignore_case (cat [Grp 1 (cat [WordB,
     alt [lit ''password'', lit ''passwd'', lit ''secret'', cat [lit ''api'', opt (one_of ''_-''), lit ''key''],
          cat [lit ''access'', opt (one_of ''_-''), lit ''token'']],
     star space, one_of '':='', star space]), valueStop])"

definition scrubText :: "jstr \<Rightarrow> jstr \<Rightarrow> jstr" where
  "scrubText credential s =
     rx_replace_all ASSIGNED_SECRET keep_first
       (rx_replace_all BEARER keep_first
         (rx_replace_all (if credential = [] then cat [Eol, Bol] else lit credential) (\<lambda>_. redacted) s))"

definition looksJson :: "jstr \<Rightarrow> bool" where
  "looksJson s \<longleftrightarrow> (case dropWhile is_space s of [] \<Rightarrow> False | c # _ \<Rightarrow> c = CHR ''['' \<or> c = CHR ''{'')"

text \<open>
  The size of a value, with the characters of its strings: JSON text is longer than the value it denotes, so
  that redaction may descend into strings that hold JSON.
\<close>

fun weight :: "jval \<Rightarrow> nat" where
  "weight (JStr s) = length s + 1"
| "weight (JArr xs) = 1 + sum_list (map weight xs)"
| "weight (JObj o') = 1 + sum_list (map (\<lambda>kv. weight (snd kv)) o')"
| "weight _ = 1"

lemma weight_put: "sum_list (map (\<lambda>kv. weight (snd kv)) (obj_put o' k v)) \<le> sum_list (map (\<lambda>kv. weight (snd kv)) o') + weight v"
  by (induction o' k v rule: obj_put.induct) auto

lemma parse_chars_weight: "parse_chars u = Some (t, r) \<Longrightarrow> length t + 1 + length r \<le> length u"
proof (induction u arbitrary: t r rule: parse_chars.induct)
  case (1 u)
  show ?case
  proof (cases u)
    case Nil
    with "1.prems" show ?thesis by (simp add: parse_chars.simps)
  next
    case (Cons c v)
    have eq: "parse_chars u = (if c = CHR 34 then Some ([], v)
        else if c = CHR 92 then
          (case parse_escape v of None \<Rightarrow> None | Some (d, r') \<Rightarrow> map_option (\<lambda>(t, w). (d # t, w)) (parse_chars r'))
        else if code_unit c < 32 then None else map_option (\<lambda>(t, w). (c # t, w)) (parse_chars v))"
      using Cons by (subst parse_chars.simps) simp
    show ?thesis using "1.prems" "1.IH" [OF Cons] unfolding eq
      by (fastforce simp: Cons split: if_splits option.splits dest: parse_escape_length)
  qed
qed

lemma parse_number_weight: "parse_number s = Some (v, r) \<Longrightarrow> weight v + length r \<le> length s"
  using parse_number_length [of s v r] by (auto simp: parse_number_def split: if_splits)

lemma parse_scalar_weight: "parse_scalar s = Some (v, r) \<Longrightarrow> weight v + length r \<le> length s"
  by (cases s)
    (auto simp: parse_scalar_def dest: parse_chars_weight parse_number_weight split: if_splits)

lemma parse_weight:
  "parse_value n s = Some (v, r) \<Longrightarrow> weight v + length r \<le> length s"
  "parse_elements n acc s = Some (v, r) \<Longrightarrow> weight v + length r \<le> length s + 1 + sum_list (map weight acc)"
  "parse_members n m s = Some (v, r) \<Longrightarrow> weight v + length r \<le> length s + 1 + sum_list (map (\<lambda>kv. weight (snd kv)) m)"
proof (induction n s and n acc s and n m s arbitrary: v r and v r and v r rule: parse_value_parse_elements_parse_members.induct)
  case (2 n s)
  have "weight v + length r \<le> length s" if "parse_scalar (skip_ws s) = Some (v, r)"
    using parse_scalar_weight [OF that] skip_ws_length [of s] by simp
  then show ?case using "2.prems" "2.IH"
    by (fastforce split: option.splits dest!: expect_length)
next
  case (4 n acc s)
  obtain a u where a: "parse_value n s = Some (a, u)" using "4.prems" by (auto split: option.splits)
  have w: "weight a + length u \<le> length s" by (rule "4.IH"(1) [OF a])
  show ?case
  proof (cases "expect (CHR '','') u")
    case None
    then show ?thesis using "4.prems" a w by (auto dest: expect_length)
  next
    case (Some u')
    have "weight v + length r \<le> length u' + 1 + sum_list (map weight (acc @ [a]))"
      using "4.IH"(2) [OF a refl Some] "4.prems" a Some by simp
    then show ?thesis using w expect_length [OF Some] by simp
  qed
next
  case (6 n m s)
  obtain k u u' a x where k: "parse_string (skip_ws s) = Some (k, u)" "expect (CHR '':'') u = Some u'" "parse_value n u' = Some (a, x)"
    using "6.prems" by (auto split: option.splits)
  have w: "weight a + length x \<le> length u'" by (rule "6.IH"(1) [OF k(1) refl k(2,3)])
  have l: "length u' < length s" using parse_string_length [OF k(1)] skip_ws_length [of s] expect_length [OF k(2)] by simp
  note p = weight_put [of m k a]
  show ?case
  proof (cases "expect (CHR '','') x")
    case None
    then show ?thesis using "6.prems" k w l p by (auto dest: expect_length)
  next
    case (Some x')
    have "weight v + length r \<le> length x' + 1 + sum_list (map (\<lambda>kv. weight (snd kv)) (obj_put m k a))"
      using "6.IH"(2) [OF k(1) refl k(2,3) refl Some] "6.prems" k Some by simp
    then show ?thesis using w l p expect_length [OF Some] by simp
  qed
qed simp_all

lemma json_parse_weight: "json_parse s = Some v \<Longrightarrow> weight v \<le> length s"
proof -
  assume "json_parse s = Some v"
  then obtain r where "parse_value (Suc (2 * length s)) s = Some (v, r)"
    unfolding json_parse_def by (auto simp del: parse_value.simps split: option.splits if_splits)
  from parse_weight(1) [OF this] show ?thesis by simp
qed

text \<open>\<^verbatim>\<open>scrub\<close>: secret properties are replaced, strings that hold a JSON object or array are redacted inside.\<close>

function scrub :: "jstr \<Rightarrow> jval \<Rightarrow> jval" where
  "scrub credential (JArr xs) = JArr (map (scrub credential) xs)"
| "scrub credential (JObj o') =
     JObj (obj_of (js_entries (map (\<lambda>kv. (fst kv, if isSecretKey (fst kv) then JStr redacted else scrub credential (snd kv))) o')))"
| "scrub credential (JStr s) =
     (case (if looksJson s then json_parse s else None) of
        Some v \<Rightarrow> if is_object v then (case json_stringify (scrub credential v) of Some t \<Rightarrow> JStr t | None \<Rightarrow> JUndef)
                  else JStr (scrubText credential s)
      | None \<Rightarrow> JStr (scrubText credential s))"
| "scrub credential JUndef = JUndef"
| "scrub credential JNull = JNull"
| "scrub credential (JBool b) = JBool b"
| "scrub credential (JNum n) = JNum n"
| "scrub credential (JHost h) = (if h = ''__proto__'' then JObj [] else JHost h)"
  by pat_completeness auto
termination
proof (relation "measure (\<lambda>(c, v). weight v)", simp)
  fix credential :: jstr and xs :: "jval list" and x
  assume "x \<in> set xs"
  then show "((credential, x), credential, JArr xs) \<in> measure (\<lambda>(c, v). weight v)"
    using member_le_sum_list [of "weight x" "map weight xs"] by simp
next
  fix credential :: jstr and o' :: jobj and kv
  assume "kv \<in> set o'"
  then show "((credential, snd kv), credential, JObj o') \<in> measure (\<lambda>(c, v). weight v)"
    using member_le_sum_list [of "weight (snd kv)" "map (\<lambda>kv. weight (snd kv)) o'"] by simp
next
  fix credential :: jstr and s v
  assume "(if looksJson s then json_parse s else None) = Some v"
  then have "weight v \<le> length s" by (auto split: if_splits dest: json_parse_weight)
  then show "((credential, v), credential, JStr s) \<in> measure (\<lambda>(c, v). weight v)" by simp
qed

definition utf8_bytes :: "jstr \<Rightarrow> int" where
  "utf8_bytes s = sum_list (map (\<lambda>c. if code_unit c < 128 then 1 else 2) s)"

definition MAX_RESPONSE_BYTES :: int where
  "MAX_RESPONSE_BYTES = 262144"

definition MAX_RESULT_BYTES :: int where
  "MAX_RESULT_BYTES = MAX_RESPONSE_BYTES - 512"

definition boundedResult :: "jval \<Rightarrow> jstr \<Rightarrow> jval res" where
  "boundedResult value credential =
     (let safe = scrub credential value; serialized = (case json_stringify safe of Some t \<Rightarrow> t | None \<Rightarrow> []) in
      if utf8_bytes serialized \<le> MAX_RESULT_BYTES then Inr safe else Throw ''MCP_RESULT_TOO_LARGE'')"

section \<open>Checks on values\<close>

fun canonical :: "(jstr \<Rightarrow> jstr \<Rightarrow> bool) \<Rightarrow> jval \<Rightarrow> jval" where
  "canonical le (JArr xs) = JArr (map (canonical le) xs)"
| "canonical le (JObj o') =
     JObj (obj_of (sort_by (\<lambda>a b. le (fst a) (fst b)) (js_entries (map (\<lambda>kv. (fst kv, canonical le (snd kv))) o'))))"
| "canonical le (JHost h) = (if h = ''__proto__'' then JObj [] else JHost h)"
| "canonical le v = v"

definition sameJson :: "(jstr \<Rightarrow> jstr \<Rightarrow> bool) \<Rightarrow> jval \<Rightarrow> jval \<Rightarrow> bool" where
  "sameJson le a b \<longleftrightarrow> json_stringify (canonical le a) = json_stringify (canonical le b)"

text \<open>An inline secret: a property with a secret name and a value, at any depth.\<close>

fun containsInlineUnsafeValue :: "jval \<Rightarrow> jstr \<Rightarrow> bool" where
  "containsInlineUnsafeValue (JArr xs) key = (isSecretKey key \<or> list_ex (\<lambda>v. containsInlineUnsafeValue v []) xs)"
| "containsInlineUnsafeValue (JObj o') key = (isSecretKey key \<or> list_ex (\<lambda>kv. containsInlineUnsafeValue (snd kv) (fst kv)) o')"
| "containsInlineUnsafeValue v key = (isSecretKey key \<and> \<not> nullish v \<and> v \<noteq> JStr [])"

definition matchesSchema :: "(jval \<Rightarrow> jval \<Rightarrow> bool) \<Rightarrow> jval \<Rightarrow> jval \<Rightarrow> bool" where
  "matchesSchema validate schema args \<longleftrightarrow> js_get schema ''type'' = JStr ''object'' \<and> validate schema args"

text \<open>\<^verbatim>\<open>v.includes(x)\<close> for a string \<^verbatim>\<open>x\<close>, after \<^verbatim>\<open>?.\<close>: a value without such a method throws.\<close>

definition js_includes :: "jval \<Rightarrow> jstr \<Rightarrow> bool res" where
  "js_includes v x =
     (case v of
        JUndef \<Rightarrow> Inr False
      | JNull \<Rightarrow> Inr False
      | JArr xs \<Rightarrow> Inr (JStr x \<in> set xs)
      | JStr s \<Rightarrow> Inr (str_includes s x)
      | _ \<Rightarrow> Inl (TypeError ''includes is not a function''))"

section \<open>The world of the agent\<close>

record mcp_url = url +
  mu_search :: jstr
  mu_origin :: jstr

record mcp_request =
  mq_url :: jstr
  mq_hostname :: jstr
  mq_headers :: "(jstr \<times> jstr) list"
  mq_body :: jval

record mcp_content =
  mc_status :: int
  mc_ok :: bool
  mc_session :: jstr
  mc_chunks :: "(int \<times> jstr) list"

record mcp_world =
  mw_parse :: "jstr \<Rightarrow> mcp_url option"
  mw_with_host :: "mcp_url \<Rightarrow> jstr \<Rightarrow> mcp_url"
  mw_lookup :: "jstr \<Rightarrow> jstr list option"
  mw_schema :: "jval \<Rightarrow> jval \<Rightarrow> bool"
  mw_credential :: "(jstr \<Rightarrow> jval res) option"
  mw_collate :: "jstr \<Rightarrow> jstr \<Rightarrow> bool"
  mw_net :: "nat \<Rightarrow> mcp_request \<Rightarrow> mcp_content reply res"

text \<open>What is decided before the network is used, and the two ways the agent stops.\<close>

datatype mcp_stop = Blocked jstr | Crashed

record mcp_plan =
  mp_ref :: jval
  mp_endpoint :: jval
  mp_tool :: jval
  mp_args :: jval
  mp_target :: mcp_url
  mp_pinned :: mcp_url
  mp_secret :: jstr
  mp_timeout :: jnum
  mp_retries :: jnum

record mcp_state =
  ms_sent :: "mcp_request list"
  ms_session :: "jstr option"
  ms_protocol :: bool

section \<open>Guards\<close>

definition safeUrl :: "mcp_world \<Rightarrow> jval \<Rightarrow> jval \<Rightarrow> bool" where
  "safeUrl w value allowedHosts \<longleftrightarrow>
     (case mw_parse w (to_string value) of
        None \<Rightarrow> False
      | Some u \<Rightarrow>
          u_protocol u = ''https:'' \<and> u_username u = [] \<and> u_password u = [] \<and> mu_search u = [] \<and> u_hash u = [] \<and>
          \<not> isForbiddenAddress (u_hostname u) \<and>
          (case allowedHosts of JArr hosts \<Rightarrow> JStr (toLowerCase (u_hostname u)) \<in> set hosts | _ \<Rightarrow> False))"

definition mcpConfig :: "jval \<Rightarrow> jval" where
  "mcpConfig node = first_truthy [js_get node ''config_json'', js_get node ''config'', JObj []]"

definition mcpContract :: "jval \<Rightarrow> jval" where
  "mcpContract node =
     first_truthy [js_path node [''universal_agent'', ''contract''], js_path node [''universalAgent'', ''contract''], JObj []]"

definition mcpEndpoint :: "jval \<Rightarrow> jval" where
  "mcpEndpoint node =
     js_get (js_get (mcpConfig node) ''mcp_endpoints'') (to_string (js_get (mcpConfig node) ''mcp_endpoint_ref''))"

definition mcpRef :: "jval \<Rightarrow> jval" where
  "mcpRef node = js_get (mcpConfig node) ''mcp_tool_ref''"

definition mcpTool :: "jval \<Rightarrow> jval" where
  "mcpTool node = js_get (js_get (mcpEndpoint node) ''tools'') (to_string (mcpRef node))"

definition openPolicy :: "jval \<Rightarrow> bool" where
  "openPolicy node \<longleftrightarrow>
     list_ex (\<lambda>key. js_get (js_or (js_get (mcpContract node) ''security'') (JObj [])) key \<noteq> JBool False)
       [''allow_private_network'', ''allow_filesystem'', ''allow_shell'', ''allow_arbitrary_code'']"

definition allowlisted :: "mcp_world \<Rightarrow> jval \<Rightarrow> bool" where
  "allowlisted w node \<longleftrightarrow>
     truthy (js_get (mcpEndpoint node) ''admin_allowlisted'') \<and> truthy (mcpTool node) \<and>
     safeUrl w (js_get (mcpEndpoint node) ''url'') (js_get (mcpEndpoint node) ''allowed_hosts'') \<and>
     strict_eq (js_get (mcpTool node) ''name'') (mcpRef node) \<and> truthy (js_get (mcpTool node) ''input_schema'')"

definition governed :: "jval \<Rightarrow> bool" where
  "governed tool \<longleftrightarrow> js_get tool ''operation'' \<in> {JStr ''preview'', JStr ''commit'', JStr ''rollback''}"

definition scope_char :: "char \<Rightarrow> bool" where
  "scope_char c \<longleftrightarrow> (let n = code_unit c in 97 \<le> n \<and> n \<le> 122 \<or> 48 \<le> n \<and> n \<le> 57) \<or> c \<in> set ''.-''"

definition SCOPE :: rx where
  "SCOPE = cat [Bol, lit ''mcp.'', plus1 (Sym scope_char), Eol]"

definition validScope :: "jval \<Rightarrow> bool" where
  "validScope v = (case v of JStr s \<Rightarrow> rx_test SCOPE s | _ \<Rightarrow> False)"

definition has_elem :: "jval \<Rightarrow> jval \<Rightarrow> bool" where
  "has_elem v x = (case v of JArr xs \<Rightarrow> x \<in> set xs | _ \<Rightarrow> False)"

definition from_input :: "jval \<Rightarrow> jstr \<Rightarrow> jval" where
  "from_input input key = first_truthy [js_get input key, js_path input [''context'', key], js_path input [''sharedMemory'', key]]"

definition expectedConfirmation :: "jval \<Rightarrow> jval" where
  "expectedConfirmation tool = js_path (js_get tool ''input_schema'') [''properties'', ''confirmation'', ''const'']"

text \<open>The checks on a governed operation; \<open>None\<close> when they pass.\<close>

definition governedRefusal :: "jval \<Rightarrow> jval \<Rightarrow> jval \<Rightarrow> jstr option" where
  "governedRefusal endpoint tool input =
     (let scope = js_get tool ''required_scope''; expected = expectedConfirmation tool in
      if \<not> validScope scope then Some ''Scope MCP gobernado invalido''
      else if \<not> has_elem (js_get endpoint ''allowed_scopes'') scope then Some ''Allowlist de scope MCP ausente''
      else if \<not> has_elem (from_input input ''mcp_scopes'') scope then Some ''Scope MCP requerido ausente''
      else if truthy expected \<and> \<not> strict_eq (from_input input ''workflow_confirmation'') expected then Some ''Confirmacion de workflow MCP requerida''
      else None)"

definition mcpArguments :: "jval \<Rightarrow> jval" where
  "mcpArguments input = first_truthy [js_get input ''mcp_arguments'', js_get input ''arguments'', JObj []]"

definition opaqueReference :: "jval \<Rightarrow> bool" where
  "opaqueReference v = (case v of JStr s \<Rightarrow> rx_test OPAQUE_REFERENCE s | _ \<Rightarrow> False)"

definition mcpTimeoutMs :: "jval \<Rightarrow> jnum" where
  "mcpTimeoutMs contract =
     (let sec = to_number (js_or (js_path contract [''execution'', ''timeout_sec'']) (num 60)) in
      num_max (Fin 1000) (num_min (case sec of Fin q \<Rightarrow> Fin (q * 1000) | n \<Rightarrow> n) (Fin 7200000)))"

definition mcpRetries :: "jval \<Rightarrow> jnum" where
  "mcpRetries contract =
     num_max (Fin 0) (num_min (to_number (js_or (js_path contract [''execution'', ''max_retries'']) (num 0))) (Fin 3))"

text \<open>The checks before the network, in the order of the code.\<close>

definition mcpPlan :: "mcp_world \<Rightarrow> jval \<Rightarrow> jval \<Rightarrow> mcp_stop + mcp_plan" where
  "mcpPlan w node input =
     (let contract = mcpContract node; endpoint = mcpEndpoint node; tool = mcpTool node;
          operation = js_get tool ''operation''; args = mcpArguments input in
      if js_path contract [''implementation'', ''native_adapter''] \<noteq> JStr ''universal-mcp/v1'' then Inl (Blocked ''Contrato MCP no autorizado'')
      else case js_includes (js_get contract ''capabilities'') ''integration.mcp_call'' of
        Inl _ \<Rightarrow> Inl Crashed
      | Inr granted \<Rightarrow>
          if \<not> granted then Inl (Blocked ''Contrato MCP no autorizado'')
          else if openPolicy node then Inl (Blocked ''Politica de seguridad MCP invalida'')
          else if \<not> allowlisted w node then Inl (Blocked ''Endpoint o herramienta fuera de la allowlist persistida'')
          else if operation = JStr ''read'' \<and> js_get tool ''read_only'' \<noteq> JBool True then Inl (Blocked ''La metadata de lectura MCP es contradictoria'')
          else if \<not> governed tool \<and> operation \<noteq> JStr ''read'' then Inl (Blocked ''Operacion MCP no gobernada'')
          else case (if governed tool then governedRefusal endpoint tool input else None) of
            Some reason \<Rightarrow> Inl (Blocked reason)
          | None \<Rightarrow>
              (case mw_parse w (to_string (js_get endpoint ''url'')) of
                 None \<Rightarrow> Inl Crashed
               | Some target \<Rightarrow>
                   (case resolveSafeAddress (mw_lookup w) (u_hostname target) False of
                      None \<Rightarrow> Inl (Blocked ''Endpoint o herramienta fuera de la allowlist persistida'')
                    | Some address \<Rightarrow>
                        if address = [] then Inl (Blocked ''Endpoint o herramienta fuera de la allowlist persistida'')
                        else if \<not> matchesSchema (mw_schema w) (js_get tool ''input_schema'') args \<or> containsInlineUnsafeValue args []
                        then Inl (Blocked ''Los argumentos no cumplen el schema MCP seguro'')
                        else if \<not> opaqueReference (js_get endpoint ''credential_id'') then Inl (Blocked ''Falta la referencia segura de credencial'')
                        else case mw_credential w of
                          None \<Rightarrow> Inl (Blocked ''Resolver seguro MCP no configurado'')
                        | Some resolveCredential \<Rightarrow>
                            (case resolveCredential (to_string (js_get endpoint ''credential_id'')) of
                               Inl _ \<Rightarrow> Inl Crashed
                             | Inr (JStr secret) \<Rightarrow>
                                 if secret = [] then Inl (Blocked ''Falta la referencia segura de credencial'')
                                 else Inr \<lparr>mp_ref = mcpRef node, mp_endpoint = endpoint, mp_tool = tool, mp_args = args, mp_target = target,
                                           mp_pinned = mw_with_host w target address, mp_secret = secret,
                                           mp_timeout = mcpTimeoutMs contract, mp_retries = mcpRetries contract\<rparr>
                             | Inr _ \<Rightarrow> Inl (Blocked ''Falta la referencia segura de credencial'')))))"

section \<open>Requests\<close>

definition sessionHeaders :: "mcp_state \<Rightarrow> (jstr \<times> jstr) list" where
  "sessionHeaders st =
     (case ms_session st of None \<Rightarrow> [] | Some s \<Rightarrow> [(''mcp-session-id'', s)])
     @ (if ms_protocol st then [(''mcp-protocol-version'', ''2025-03-26'')] else [])"

definition mcpHeaders :: "mcp_plan \<Rightarrow> mcp_state \<Rightarrow> (jstr \<times> jstr) list" where
  "mcpHeaders p st =
     [(''content-type'', ''application/json''), (''accept'', ''application/json, text/event-stream''),
      (''x-mcp-api-key'', mp_secret p), (''host'', u_host (mp_target p))] @ sessionHeaders st"

text \<open>
  A request through the pinned fetch, which sets the \<^verbatim>\<open>host\<close> header itself. The request is recorded when it reaches the network.
\<close>

definition mcpFetch :: "mcp_world \<Rightarrow> mcp_plan \<Rightarrow> jval \<Rightarrow> mcp_state \<Rightarrow> mcp_content reply res \<times> mcp_state" where
  "mcpFetch w p body st =
     (let pinned = url.truncate (mp_pinned p) in
      case mw_parse w (u_text pinned) of
        None \<Rightarrow> (Inl (TypeError ''Invalid URL''), st)
      | Some supplied \<Rightarrow>
          let req = \<lparr>mq_url = u_text pinned, mq_hostname = u_hostname supplied, mq_headers = mcpHeaders p st, mq_body = body\<rparr> in
          if unsafeDestination pinned False False (url.truncate supplied) then (Throw ''MCP_UNSAFE_DESTINATION'', st)
          else (pinnedFetch (\<lambda>s. map_option url.truncate (mw_parse w s)) (\<lambda>_. mw_net w (length (ms_sent st)) req) pinned False False (url.truncate supplied),
                st\<lparr>ms_sent := ms_sent st @ [req]\<rparr>))"

fun readBoundedBody :: "(int \<times> jstr) list \<Rightarrow> int \<Rightarrow> jstr \<Rightarrow> jstr res" where
  "readBoundedBody [] bytes t = Inr t"
| "readBoundedBody ((n, chunk) # chunks) bytes t =
     (if MAX_RESPONSE_BYTES < bytes + n then Throw ''MCP_RESPONSE_TOO_LARGE'' else readBoundedBody chunks (bytes + n) (t @ chunk))"

definition rpcBody :: "nat \<Rightarrow> jstr \<Rightarrow> jval \<Rightarrow> jval" where
  "rpcBody n method params =
     JObj [(''jsonrpc'', JStr ''2.0''), (''id'', num (of_nat n)), (''method'', JStr method), (''params'', params)]"

definition sameOrigin :: "mcp_world \<Rightarrow> mcp_plan \<Rightarrow> jstr \<Rightarrow> bool res" where
  "sameOrigin w p reported =
     (if reported = [] then Inr True
      else case (mw_parse w reported, mw_parse w (u_text (mp_pinned p))) of
             (Some a, Some b) \<Rightarrow> Inr (mu_origin a = mu_origin b)
           | _ \<Rightarrow> Inl (TypeError ''Invalid URL''))"

text \<open>The answer to the request with this id, as \<^verbatim>\<open>request\<close> checks it.\<close>

definition rpcAnswer :: "nat \<Rightarrow> jval \<Rightarrow> jval res" where
  "rpcAnswer n parsed =
     (if js_get parsed ''jsonrpc'' \<noteq> JStr ''2.0'' \<or> js_get parsed ''id'' \<noteq> num (of_nat n) \<or> truthy (js_get parsed ''error'') \<or>
         (case parsed of JObj o' \<Rightarrow> ''result'' \<notin> fst ` set o' | _ \<Rightarrow> True)
      then Throw ''MCP_INVALID_JSONRPC'' else Inr parsed)"

definition mcpRequest :: "mcp_world \<Rightarrow> mcp_plan \<Rightarrow> nat \<Rightarrow> jstr \<Rightarrow> jval \<Rightarrow> mcp_state \<Rightarrow> jval res \<times> mcp_state" where
  "mcpRequest w p n method params st =
     (case mcpFetch w p (rpcBody n method params) st of
        (Inl e, st') \<Rightarrow> (Inl e, st')
      | (Inr response, st') \<Rightarrow>
          (let c = re_content response in
           if \<not> mc_ok c then (Throw (''MCP_HTTP_'' @ int_str (mc_status c)), st')
           else case sameOrigin w p (re_url response) of
             Inl e \<Rightarrow> (Inl e, st')
           | Inr same \<Rightarrow>
               if \<not> same then (Throw ''MCP_UNSAFE_REDIRECT'', st')
               else (let st'' = (if mc_session c = [] then st' else st'\<lparr>ms_session := Some (mc_session c)\<rparr>) in
                 (res_bind (readBoundedBody (mc_chunks c) 0 []) (\<lambda>body.
                    case json_parse body of None \<Rightarrow> Throw ''Unexpected token'' | Some parsed \<Rightarrow> rpcAnswer n parsed), st''))))"

section \<open>The session\<close>

definition initializeParams :: jval where
  "initializeParams = JObj [(''protocolVersion'', JStr ''2025-03-26''), (''capabilities'', JObj []),
     (''clientInfo'', JObj [(''name'', JStr ''treseko-engine''), (''version'', JStr ''universal-mcp/v1'')])]"

text \<open>\<open>attempt <= limit\<close> holds for this many attempts.\<close>

definition attemptsAllowed :: "jnum \<Rightarrow> nat" where
  "attemptsAllowed limit = (case limit of Fin q \<Rightarrow> nat (\<lfloor>q\<rfloor> + 1) | _ \<Rightarrow> 0)"

text \<open>
  The retry loop: an error is thrown when its attempt is the number \<open>limit\<close>, otherwise the next attempt follows; \<open>Inr None\<close> when the loop ends
  without an answer.
\<close>

fun mcpAttempts :: "(mcp_state \<Rightarrow> jval res \<times> mcp_state) \<Rightarrow> jnum \<Rightarrow> nat \<Rightarrow> nat \<Rightarrow> mcp_state \<Rightarrow> jval option res \<times> mcp_state" where
  "mcpAttempts call limit 0 attempt st = (Inr None, st)"
| "mcpAttempts call limit (Suc left) attempt st =
     (case call st of
        (Inr v, st') \<Rightarrow> (Inr (Some v), st')
      | (Inl e, st') \<Rightarrow> if num_eq (Fin (of_nat attempt)) limit then (Inl e, st') else mcpAttempts call limit left (attempt + 1) st')"

definition mcpRetry :: "(mcp_state \<Rightarrow> jval res \<times> mcp_state) \<Rightarrow> jnum \<Rightarrow> mcp_state \<Rightarrow> jval option res \<times> mcp_state" where
  "mcpRetry call limit st = mcpAttempts call limit (attemptsAllowed limit) 0 st"

definition of_answer :: "jval option \<Rightarrow> jstr list \<Rightarrow> jval" where
  "of_answer v path = (case v of None \<Rightarrow> JUndef | Some x \<Rightarrow> js_path x path)"

definition discoveredTool :: "jval \<Rightarrow> jval option \<Rightarrow> jval res" where
  "discoveredTool ref discovery =
     (case of_answer discovery [''result'', ''tools''] of
        JUndef \<Rightarrow> Inr JUndef
      | JNull \<Rightarrow> Inr JUndef
      | JArr tools \<Rightarrow> Inr (case find (\<lambda>item. strict_eq (js_get item ''name'') ref) tools of Some t \<Rightarrow> t | None \<Rightarrow> JUndef)
      | _ \<Rightarrow> Inl (TypeError ''find is not a function''))"

definition catalogMatch :: "mcp_world \<Rightarrow> jval \<Rightarrow> jval \<Rightarrow> bool" where
  "catalogMatch w tool discovered \<longleftrightarrow>
     truthy discovered \<and>
     (if js_get tool ''operation'' = JStr ''read'' then js_path discovered [''annotations'', ''readOnlyHint''] = JBool True
      else js_path discovered [''annotations'', ''readOnlyHint''] \<noteq> JBool True) \<and>
     sameJson (mw_collate w) (js_get discovered ''inputSchema'') (js_get tool ''input_schema'')"

text \<open>A mutation is retried only when the server declares it idempotent and the call has a key.\<close>

definition callRetries :: "mcp_plan \<Rightarrow> jval \<Rightarrow> jnum" where
  "callRetries p discovered =
     (if js_get (mp_tool p) ''operation'' \<in> {JStr ''read'', JStr ''preview''} \<or>
         js_path discovered [''annotations'', ''idempotentHint''] = JBool True \<and>
         (case js_get (mp_args p) ''idempotency_key'' of JStr k \<Rightarrow> k \<noteq> [] | _ \<Rightarrow> False)
      then mp_retries p else Fin 0)"

definition callParams :: "mcp_plan \<Rightarrow> jval" where
  "callParams p = JObj [(''name'', mp_ref p), (''arguments'', mp_args p)]"

definition mcpTrace :: "mcp_plan \<Rightarrow> jval \<Rightarrow> bool \<Rightarrow> jval \<Rightarrow> jval" where
  "mcpTrace p endpointRef toolFailed result' =
     JObj [(''type'', JStr ''mcp_tool_call''), (''status'', JStr (if toolFailed then ''failed'' else ''success'')),
           (''adapter'', JStr ''universal-mcp/v1''), (''endpoint_ref'', endpointRef), (''tool_ref'', mp_ref p),
           (''arguments'', scrub (mp_secret p) (mp_args p)), (''result'', result')]"

definition mcpOutcome :: "mcp_plan \<Rightarrow> jval \<Rightarrow> jval option \<Rightarrow> jval res" where
  "mcpOutcome p endpointRef output =
     map_ok (\<lambda>result'.
       let toolFailed = (of_answer output [''result'', ''isError''] = JBool True) in
       JObj [(''status'', JStr (if toolFailed then ''FAILED'' else ''SUCCESS'')), (''confidence'', num 100),
             (''reason'', JStr (if toolFailed then ''La herramienta MCP devolvio un error'' else ''MCP tool ejecutada'')),
             (''events'', JArr [mcpTrace p endpointRef toolFailed result']), (''output_json'', JObj [(''result'', result')]),
             (''sharedMemoryPatch'', JObj [(''mcp_result'', result')])])
       (boundedResult (of_answer output [''result'']) (mp_secret p))"

text \<open>The steps after the checks: session, catalogue, call.\<close>

definition mcpSession :: "mcp_world \<Rightarrow> mcp_plan \<Rightarrow> jval \<Rightarrow> mcp_state \<Rightarrow> (mcp_stop + jval) \<times> mcp_state" where
  "mcpSession w p endpointRef st0 =
     (case mcpRequest w p 0 ''initialize'' initializeParams st0 of
        (Inl e, st) \<Rightarrow> (Inl Crashed, st)
      | (Inr initialization, st) \<Rightarrow>
          if js_path initialization [''result'', ''protocolVersion''] \<noteq> JStr ''2025-03-26''
          then (Inl (Blocked ''Version de protocolo MCP incompatible''), st)
          else case mcpFetch w p (JObj [(''jsonrpc'', JStr ''2.0''), (''method'', JStr ''notifications/initialized'')]) (st\<lparr>ms_protocol := True\<rparr>) of
            (Inl e, st1) \<Rightarrow> (Inl Crashed, st1)
          | (Inr initialized, st1) \<Rightarrow>
              if mc_status (re_content initialized) \<notin> {202, 204} then (Inl Crashed, st1)
              else case mcpRetry (mcpRequest w p 1 ''tools/list'' (JObj [])) (mp_retries p) st1 of
                (Inl e, st2) \<Rightarrow> (Inl Crashed, st2)
              | (Inr discovery, st2) \<Rightarrow>
                  (case discoveredTool (mp_ref p) discovery of
                     Inl e \<Rightarrow> (Inl Crashed, st2)
                   | Inr discovered \<Rightarrow>
                       if \<not> catalogMatch w (mp_tool p) discovered
                       then (Inl (Blocked ''La herramienta no coincide con el catalogo persistido''), st2)
                       else case mcpRetry (mcpRequest w p 2 ''tools/call'' (callParams p)) (callRetries p discovered) st2 of
                         (Inl e, st3) \<Rightarrow> (Inl Crashed, st3)
                       | (Inr output, st3) \<Rightarrow>
                           (case mcpOutcome p endpointRef output of Inl e \<Rightarrow> (Inl Crashed, st3) | Inr v \<Rightarrow> (Inr v, st3))))"

definition blockedResult :: "jstr \<Rightarrow> jval" where
  "blockedResult reason =
     JObj [(''status'', JStr ''BLOCKED''), (''confidence'', num 100), (''reason'', JStr (take 160 reason)),
           (''events'', JArr [JObj [(''type'', JStr ''mcp_tool_blocked''), (''status'', JStr ''blocked''), (''reason'', JStr (take 160 reason)),
              (''adapter'', JStr ''universal-mcp/v1'')]])]"

definition failedResult :: jval where
  "failedResult =
     JObj [(''status'', JStr ''FAILED''), (''confidence'', num 100), (''reason'', JStr ''Fallo controlado de MCP''),
           (''events'', JArr [JObj [(''type'', JStr ''mcp_tool_call''), (''status'', JStr ''failed''), (''adapter'', JStr ''universal-mcp/v1'')]])]"

definition stopResult :: "mcp_stop \<Rightarrow> jval" where
  "stopResult s = (case s of Blocked reason \<Rightarrow> blockedResult reason | Crashed \<Rightarrow> failedResult)"

definition executeMcpToolAgent :: "mcp_world \<Rightarrow> jval \<Rightarrow> jval \<Rightarrow> jval \<times> mcp_state" where
  "executeMcpToolAgent w node input =
     (let st0 = \<lparr>ms_sent = [], ms_session = None, ms_protocol = False\<rparr> in
      case mcpPlan w node input of
        Inl s \<Rightarrow> (stopResult s, st0)
      | Inr p \<Rightarrow>
          (case mcpSession w p (js_get (mcpConfig node) ''mcp_endpoint_ref'') st0 of
             (Inl s, st) \<Rightarrow> (stopResult s, st)
           | (Inr v, st) \<Rightarrow> (v, st)))"

end
