(* ===== verification/McpProofs.thy ===== *)
theory McpProofs
  imports McpTool
begin

text \<open>
  Properties of the MCP tool agent: what was checked when a request was sent, how many requests there are, what a
  success reports and that results are redacted.
\<close>

section \<open>Authorisation\<close>

text \<open>The endpoint and the tool are the persisted ones, and the host is a public one the administrator listed.\<close>

definition allowed_endpoint :: "mcp_world \<Rightarrow> jval \<Rightarrow> bool" where
  "allowed_endpoint w node \<longleftrightarrow>
     truthy (js_get (mcpEndpoint node) ''admin_allowlisted'') \<and> truthy (js_get (mcpTool node) ''input_schema'') \<and>
     strict_eq (js_get (mcpTool node) ''name'') (js_get (mcpConfig node) ''mcp_tool_ref'') \<and>
     (\<exists>u hosts. mw_parse w (to_string (js_get (mcpEndpoint node) ''url'')) = Some u \<and> u_protocol u = ''https:'' \<and>
        u_username u = [] \<and> u_password u = [] \<and> \<not> isForbiddenAddress (u_hostname u) \<and>
        js_get (mcpEndpoint node) ''allowed_hosts'' = JArr hosts \<and> JStr (toLowerCase (u_hostname u)) \<in> set hosts)"

text \<open>A reading tool is declared read only; any other operation has a scope that was granted, and its confirmation.\<close>

definition allowed_operation :: "jval \<Rightarrow> jval \<Rightarrow> bool" where
  "allowed_operation node input \<longleftrightarrow>
     (let tool = mcpTool node; operation = js_get tool ''operation''; scope = js_get tool ''required_scope'' in
      operation = JStr ''read'' \<and> js_get tool ''read_only'' = JBool True \<or>
      operation \<in> {JStr ''preview'', JStr ''commit'', JStr ''rollback''} \<and>
      (\<exists>s. scope = JStr s \<and> rx_test SCOPE s) \<and>
      has_elem (js_get (mcpEndpoint node) ''allowed_scopes'') scope \<and>
      has_elem (first_truthy [js_get input ''mcp_scopes'', js_path input [''context'', ''mcp_scopes''], js_path input [''sharedMemory'', ''mcp_scopes'']]) scope \<and>
      (truthy (expectedConfirmation tool) \<longrightarrow>
        strict_eq (first_truthy [js_get input ''workflow_confirmation'', js_path input [''context'', ''workflow_confirmation''],
          js_path input [''sharedMemory'', ''workflow_confirmation'']]) (expectedConfirmation tool)))"

definition authorised :: "mcp_world \<Rightarrow> jval \<Rightarrow> jval \<Rightarrow> bool" where
  "authorised w node input \<longleftrightarrow>
     js_path (mcpContract node) [''implementation'', ''native_adapter''] = JStr ''universal-mcp/v1'' \<and>
     js_includes (js_get (mcpContract node) ''capabilities'') ''integration.mcp_call'' = Inr True \<and>
     list_all (\<lambda>key. js_get (js_or (js_get (mcpContract node) ''security'') (JObj [])) key = JBool False)
       [''allow_private_network'', ''allow_filesystem'', ''allow_shell'', ''allow_arbitrary_code''] \<and>
     allowed_endpoint w node \<and> allowed_operation node input \<and>
     js_path (mcpTool node) [''input_schema'', ''type''] = JStr ''object'' \<and>
     mw_schema w (js_get (mcpTool node) ''input_schema'') (mcpArguments input) \<and>
     \<not> containsInlineUnsafeValue (mcpArguments input) []"

text \<open>The credential the request may carry: the one stored under the reference of the endpoint.\<close>

definition stored_credential :: "mcp_world \<Rightarrow> jval \<Rightarrow> jstr \<Rightarrow> bool" where
  "stored_credential w node secret \<longleftrightarrow>
     (\<exists>resolve. mw_credential w = Some resolve \<and>
        resolve (to_string (js_get (mcpEndpoint node) ''credential_id'')) = Inr (JStr secret) \<and> secret \<noteq> [])"

lemma plan_checks:
  assumes "mcpPlan w node input = Inr p"
  shows "js_path (mcpContract node) [''implementation'', ''native_adapter''] = JStr ''universal-mcp/v1'' \<and>
     js_includes (js_get (mcpContract node) ''capabilities'') ''integration.mcp_call'' = Inr True \<and> \<not> openPolicy node \<and> allowlisted w node \<and>
     (js_get (mcpTool node) ''operation'' = JStr ''read'' \<and> js_get (mcpTool node) ''read_only'' = JBool True \<or>
      governed (mcpTool node) \<and> governedRefusal (mcpEndpoint node) (mcpTool node) input = None) \<and>
     matchesSchema (mw_schema w) (js_get (mcpTool node) ''input_schema'') (mcpArguments input) \<and> \<not> containsInlineUnsafeValue (mcpArguments input) []"
    "stored_credential w node (mp_secret p) \<and> mp_tool p = mcpTool node \<and> mp_args p = mcpArguments input \<and>
     mp_retries p = mcpRetries (mcpContract node)"
  using assms unfolding mcpPlan_def Let_def
  by (simp split: if_split_asm sum.split_asm option.split_asm jval.split_asm; auto simp: stored_credential_def governed_def)+

lemma allowlisted_endpoint: "allowlisted w node \<Longrightarrow> allowed_endpoint w node"
  by (auto simp: allowlisted_def allowed_endpoint_def safeUrl_def mcpRef_def split: option.splits jval.splits)

lemma governed_operation:
  "governed (mcpTool node) \<Longrightarrow> governedRefusal (mcpEndpoint node) (mcpTool node) input = None \<Longrightarrow> allowed_operation node input"
  by (auto simp: governed_def governedRefusal_def allowed_operation_def validScope_def from_input_def Let_def split: if_splits jval.splits)

lemma read_operation:
  "js_get (mcpTool node) ''operation'' = JStr ''read'' \<Longrightarrow> js_get (mcpTool node) ''read_only'' = JBool True \<Longrightarrow> allowed_operation node input"
  by (simp add: allowed_operation_def Let_def)

lemma plan_authorised:
  assumes "mcpPlan w node input = Inr p"
  shows "authorised w node input" "stored_credential w node (mp_secret p) \<and> mp_tool p = mcpTool node \<and> mp_args p = mcpArguments input \<and>
     mp_retries p = mcpRetries (mcpContract node)"
proof -
  show "authorised w node input"
    using plan_checks(1) [OF assms] allowlisted_endpoint governed_operation read_operation
    by (auto simp: authorised_def openPolicy_def matchesSchema_def)
qed (rule plan_checks(2) [OF assms])

section \<open>Requests\<close>

definition safe_request :: "jstr \<Rightarrow> mcp_request \<Rightarrow> bool" where
  "safe_request secret r \<longleftrightarrow>
     \<not> isForbiddenAddress (mq_hostname r) \<and>
     (\<forall>v. (''x-mcp-api-key'', v) \<in> set (mq_headers r) \<longrightarrow> v = secret)"

text \<open>What a step of the session adds to the requests: at most \<open>n\<close>, all safe and with the given body.\<close>

definition adds :: "mcp_plan \<Rightarrow> nat \<Rightarrow> jval \<Rightarrow> mcp_state \<Rightarrow> mcp_state \<Rightarrow> bool" where
  "adds p n body st st' \<longleftrightarrow>
     (\<exists>rs. ms_sent st' = ms_sent st @ rs \<and> length rs \<le> n \<and> list_all (\<lambda>r. safe_request (mp_secret p) r \<and> mq_body r = body) rs)"

lemma adds_refl [simp]: "adds p n body st st" by (simp add: adds_def)

lemma adds_update [simp]:
  "adds p n body st (st'\<lparr>ms_session := s\<rparr>) = adds p n body st st'" "adds p n body st (st'\<lparr>ms_protocol := b\<rparr>) = adds p n body st st'"
  "adds p n body (st\<lparr>ms_protocol := b\<rparr>) st' = adds p n body st st'"
  by (simp_all add: adds_def)

lemma adds_trans: "adds p m body a b \<Longrightarrow> adds p n body b c \<Longrightarrow> adds p (m + n) body a c"
  by (fastforce simp: adds_def)

lemma adds_mono: "adds p m body a b \<Longrightarrow> m \<le> n \<Longrightarrow> adds p n body a b"
  by (fastforce simp: adds_def)

lemma truncate_text [simp]: "u_text (url.truncate u) = u_text u" "u_hostname (url.truncate u) = u_hostname u"
  by (simp_all add: url.truncate_def)

lemma fetch_adds: "mcpFetch w p body st = (out, st') \<Longrightarrow> adds p 1 body st st'"
  by (auto simp: mcpFetch_def Let_def adds_def safe_request_def unsafeDestination_def mcpHeaders_def sessionHeaders_def
      split: option.splits if_splits)

lemma request_adds: "mcpRequest w p n method params st = (out, st') \<Longrightarrow> adds p 1 (rpcBody n method params) st st'"
  by (auto simp: mcpRequest_def Let_def split: prod.splits sum.splits if_splits dest!: fetch_adds)

lemma attempts_add:
  "mcpAttempts (mcpRequest w p n method params) limit left k st = (out, st') \<Longrightarrow> adds p left (rpcBody n method params) st st'"
proof (induction left arbitrary: k st)
  case (Suc left)
  obtain r s where r: "mcpRequest w p n method params st = (r, s)" by (cases "mcpRequest w p n method params st")
  note a = request_adds [OF r]
  show ?case
  proof (cases "r")
    case (Inl e)
    show ?thesis
    proof (cases "num_eq (Fin (of_nat k)) limit")
      case True
      have "mcpAttempts (mcpRequest w p n method params) limit (Suc left) k st = (Inl e, s)"
        by (simp only: mcpAttempts.simps r Inl True prod.case sum.case if_True)
      then have "st' = s" using Suc.prems by simp
      then show ?thesis using adds_mono [OF a] by simp
    next
      case False
      then have "mcpAttempts (mcpRequest w p n method params) limit left (k + 1) s = (out, st')" using Suc.prems r Inl by simp
      from adds_trans [OF a Suc.IH [OF this]] show ?thesis by simp
    qed
  qed (use Suc.prems r adds_mono [OF a] in simp)
qed simp

lemma retry_adds:
  "mcpRetry (mcpRequest w p n method params) limit st = (out, st') \<Longrightarrow> adds p (attemptsAllowed limit) (rpcBody n method params) st st'"
  unfolding mcpRetry_def by (rule attempts_add)

lemma attemptsAllowed_retries: "attemptsAllowed (mcpRetries c) \<le> 4"
proof -
  have "nat (\<lfloor>q\<rfloor> + 1) \<le> 4" if "q \<le> 3" for q :: rat using that by (simp add: nat_le_iff floor_le_iff)
  then show ?thesis
    by (cases "to_number (js_or (js_path c [''execution'', ''max_retries'']) (num 0))")
      (auto simp: mcpRetries_def attemptsAllowed_def num_max_def num_min_def)
qed

definition notification :: jval where
  "notification = JObj [(''jsonrpc'', JStr ''2.0''), (''method'', JStr ''notifications/initialized'')]"

text \<open>A session sends its requests in four groups; the last one has the calls of the tool.\<close>

definition session_log :: "mcp_plan \<Rightarrow> nat \<Rightarrow> mcp_state \<Rightarrow> mcp_state \<Rightarrow> bool" where
  "session_log p calls st0 st \<longleftrightarrow>
     (\<exists>st1 st2 st3. adds p 1 (rpcBody 0 ''initialize'' initializeParams) st0 st1 \<and> adds p 1 notification st1 st2 \<and>
        adds p (attemptsAllowed (mp_retries p)) (rpcBody 1 ''tools/list'' (JObj [])) st2 st3 \<and>
        adds p calls (rpcBody 2 ''tools/call'' (callParams p)) st3 st)"

lemmas session_logI = session_log_def [THEN iffD2, OF exI, OF exI, OF exI, OF conjI, OF _ conjI, OF _ _ conjI]

lemma session_adds:
  assumes "mcpSession w p endpointRef st0 = (out, st)"
  shows "\<exists>d. session_log p (attemptsAllowed (callRetries p d)) st0 st"
proof -
  obtain r1 s1 where 1: "mcpRequest w p 0 ''initialize'' initializeParams st0 = (r1, s1)" by fastforce
  obtain r2 s2 where 2: "mcpFetch w p notification (s1\<lparr>ms_protocol := True\<rparr>) = (r2, s2)" by fastforce
  obtain r3 s3 where 3: "mcpRetry (mcpRequest w p 1 ''tools/list'' (JObj [])) (mp_retries p) s2 = (r3, s3)" by fastforce
  define d where "d = (case r3 of Inl e \<Rightarrow> JUndef | Inr v \<Rightarrow> case discoveredTool (mp_ref p) v of Inl e \<Rightarrow> JUndef | Inr d \<Rightarrow> d)"
  obtain r4 s4 where 4: "mcpRetry (mcpRequest w p 2 ''tools/call'' (callParams p)) (callRetries p d) s3 = (r4, s4)" by fastforce
  note a1 = request_adds [OF 1] and a2 = fetch_adds [OF 2, unfolded adds_update] and a3 = retry_adds [OF 3] and a4 = retry_adds [OF 4]
  have "st = s1 \<or> st = s2 \<or> st = s3 \<or> st = s4"
    using assms 4 unfolding mcpSession_def 1 prod.case notification_def [symmetric] 2 3 d_def
    by (auto split: sum.split_asm if_split_asm prod.split_asm)
  then show ?thesis
    using session_logI [OF a1 a2 a3 a4] session_logI [OF a1 a2 a3 adds_refl] session_logI [OF a1 a2 adds_refl adds_refl]
      session_logI [OF a1 adds_refl adds_refl adds_refl] by blast
qed

definition tool_calls :: "mcp_state \<Rightarrow> mcp_request list" where
  "tool_calls st = filter (\<lambda>r. js_get (mq_body r) ''method'' = JStr ''tools/call'') (ms_sent st)"

lemma adds_sent: "adds p n body st st' \<Longrightarrow> length (ms_sent st') \<le> length (ms_sent st) + n"
  by (auto simp: adds_def)

lemma adds_calls:
  "adds p n body st st' \<Longrightarrow> length (tool_calls st') \<le> length (tool_calls st) + (if js_get body ''method'' = JStr ''tools/call'' then n else 0)"
proof -
  have "length (filter (\<lambda>r. js_get (mq_body r) ''method'' = JStr ''tools/call'') rs) \<le> (if js_get body ''method'' = JStr ''tools/call'' then n else 0)"
    if "length rs \<le> n" "list_all (\<lambda>r. safe_request (mp_secret p) r \<and> mq_body r = body) rs" for rs
    using that by (auto simp: list_all_iff filter_empty_conv intro: le_trans [OF length_filter_le])
  then show "adds p n body st st' \<Longrightarrow> ?thesis" by (fastforce simp: adds_def tool_calls_def)
qed

lemma adds_safe: "adds p n body st st' \<Longrightarrow> list_all (safe_request (mp_secret p)) (ms_sent st) \<Longrightarrow> list_all (safe_request (mp_secret p)) (ms_sent st')"
  by (auto simp: adds_def list_all_iff)

lemma rpcBody_method [simp]: "js_get (rpcBody n method params) ''method'' = JStr method"
  by (simp add: rpcBody_def obj_get_def)

lemma notification_method [simp]: "js_get notification ''method'' = JStr ''notifications/initialized''"
  by (simp add: notification_def obj_get_def)

lemma session_log_facts:
  assumes "session_log p calls st0 st" "ms_sent st0 = []"
  shows "length (ms_sent st) \<le> 2 + attemptsAllowed (mp_retries p) + calls" "length (tool_calls st) \<le> calls" "list_all (safe_request (mp_secret p)) (ms_sent st)"
proof -
  obtain st1 st2 st3 where a: "adds p 1 (rpcBody 0 ''initialize'' initializeParams) st0 st1" "adds p 1 notification st1 st2"
      "adds p (attemptsAllowed (mp_retries p)) (rpcBody 1 ''tools/list'' (JObj [])) st2 st3"
      "adds p calls (rpcBody 2 ''tools/call'' (callParams p)) st3 st"
    using assms(1) unfolding session_log_def by blast
  show "length (ms_sent st) \<le> 2 + attemptsAllowed (mp_retries p) + calls"
    using a [THEN adds_sent] assms(2) by simp
  show "length (tool_calls st) \<le> calls"
    using a [THEN adds_calls] assms(2) by (simp add: tool_calls_def [of st0])
  show "list_all (safe_request (mp_secret p)) (ms_sent st)"
    using a [THEN adds_safe] assms(2) by simp
qed

lemma execute_cases:
  assumes "executeMcpToolAgent w node input = (out, st)"
  obtains (stopped) s where "mcpPlan w node input = Inl s" "out = stopResult s" "ms_sent st = []"
    | (ran_session) p st0 r where "mcpPlan w node input = Inr p" "ms_sent st0 = []"
        "mcpSession w p (js_get (mcpConfig node) ''mcp_endpoint_ref'') st0 = (r, st)"
        "out = (case r of Inl s \<Rightarrow> stopResult s | Inr v \<Rightarrow> v)"
proof (cases "mcpPlan w node input")
  case (Inl s)
  then show thesis using assms stopped unfolding executeMcpToolAgent_def Let_def by auto
next
  case (Inr p)
  define st0 where "st0 = \<lparr>ms_sent = [], ms_session = None, ms_protocol = False\<rparr>"
  obtain r st' where r: "mcpSession w p (js_get (mcpConfig node) ''mcp_endpoint_ref'') st0 = (r, st')" by fastforce
  have "out = (case r of Inl s \<Rightarrow> stopResult s | Inr v \<Rightarrow> v) \<and> st = st'"
    using assms unfolding executeMcpToolAgent_def Let_def Inr st0_def [symmetric] sum.case r prod.case by (auto split: sum.splits)
  with r show thesis by (intro ran_session [OF Inr, of st0 r]) (simp_all add: st0_def)
qed

definition replayable :: "jval \<Rightarrow> jval \<Rightarrow> bool" where
  "replayable node input \<longleftrightarrow>
     js_get (mcpTool node) ''operation'' \<in> {JStr ''read'', JStr ''preview''} \<or>
     (\<exists>k. js_get (mcpArguments input) ''idempotency_key'' = JStr k \<and> k \<noteq> [])"

section \<open>What a success reports\<close>

text \<open>The network answered a recorded request of this method and id.\<close>

definition answered :: "mcp_world \<Rightarrow> nat \<Rightarrow> jstr \<Rightarrow> mcp_state \<Rightarrow> jval \<Rightarrow> bool" where
  "answered w n method st answer \<longleftrightarrow>
     (\<exists>k < length (ms_sent st). \<exists>reply body.
        js_get (mq_body (ms_sent st ! k)) ''method'' = JStr method \<and> mw_net w k (ms_sent st ! k) = Inr reply \<and> mc_ok (re_content reply) \<and>
        readBoundedBody (mc_chunks (re_content reply)) 0 [] = Inr body \<and> json_parse body = Some answer \<and> rpcAnswer n answer = Inr answer)"

lemma answered_session [simp]: "answered w n method (st\<lparr>ms_session := s\<rparr>) = answered w n method st"
  by (simp add: answered_def fun_eq_iff)

lemma pinnedFetch_reply: "pinnedFetch parse net pinned a b supplied = Inr reply \<Longrightarrow> net (u_text pinned) = Inr reply"
  by (auto simp: pinnedFetch_def res_bind_def split: if_splits sum.splits option.splits)

lemma fetch_reply:
  assumes "mcpFetch w p body st = (Inr reply, st')"
  shows "\<exists>req. ms_sent st' = ms_sent st @ [req] \<and> mq_body req = body \<and> mw_net w (length (ms_sent st)) req = Inr reply"
  using assms unfolding mcpFetch_def Let_def
  by (auto split: option.split_asm if_split_asm dest!: pinnedFetch_reply)

lemma request_reply:
  assumes "mcpRequest w p n method params st = (Inr answer, st')"
  shows "answered w n method st' answer"
proof -
  obtain reply s where f: "mcpFetch w p (rpcBody n method params) st = (Inr reply, s)"
    using assms unfolding mcpRequest_def by (auto split: prod.splits sum.splits)
  obtain req where "ms_sent s = ms_sent st @ [req]" "mq_body req = rpcBody n method params" "mw_net w (length (ms_sent st)) req = Inr reply"
    using fetch_reply [OF f] by blast
  then have "answered w n method s answer" if "mc_ok (re_content reply)" "readBoundedBody (mc_chunks (re_content reply)) 0 [] = Inr body"
      "json_parse body = Some answer" "rpcAnswer n answer = Inr answer" for body
    unfolding answered_def using that by (intro exI [of _ "length (ms_sent st)"]) simp
  then show ?thesis
    using assms unfolding mcpRequest_def f
    by (auto simp: Let_def res_bind_def rpcAnswer_def split: sum.split_asm if_split_asm option.split_asm)
qed

lemma attempts_reply:
  "mcpAttempts (mcpRequest w p n method params) limit left k st = (Inr (Some answer), st') \<Longrightarrow> answered w n method st' answer"
  by (induction left arbitrary: k st) (auto split: prod.splits sum.splits if_splits dest: request_reply)

text \<open>With a whole limit, the loop answers or throws.\<close>

lemma attempts_whole: "mcpAttempts call (Fin (of_nat (k + d))) (Suc d) k st \<noteq> (Inr None, st')"
proof (induction d arbitrary: k st)
  case (Suc d)
  from Suc [of "Suc k"] show ?case by (auto split: prod.splits sum.splits)
qed (auto split: prod.splits sum.splits)

lemma retry_whole: "mcpRetry call (Fin (of_nat m)) st \<noteq> (Inr None, st')"
  using attempts_whole [of call 0 m st st'] by (simp add: mcpRetry_def attemptsAllowed_def nat_add_distrib)

text \<open>The result of a session: what the network answered to the call, or nothing when the loop ended without an answer.\<close>

lemma session_result:
  assumes "mcpSession w p endpointRef st0 = (Inr v, st)"
  obtains produced d where "mcpOutcome p endpointRef produced = Inr v" "\<And>answer. produced = Some answer \<Longrightarrow> answered w 2 ''tools/call'' st answer"
    "produced = None \<Longrightarrow> \<exists>st2. mcpRetry (mcpRequest w p 2 ''tools/call'' (callParams p)) (callRetries p d) st2 = (Inr None, st)"
proof -
  obtain r1 s1 where 1: "mcpRequest w p 0 ''initialize'' initializeParams st0 = (r1, s1)" by fastforce
  obtain r2 s2 where 2: "mcpFetch w p notification (s1\<lparr>ms_protocol := True\<rparr>) = (r2, s2)" by fastforce
  obtain r3 s3 where 3: "mcpRetry (mcpRequest w p 1 ''tools/list'' (JObj [])) (mp_retries p) s2 = (r3, s3)" by fastforce
  from assms obtain d produced where
    "mcpRetry (mcpRequest w p 2 ''tools/call'' (callParams p)) (callRetries p d) s3 = (Inr produced, st)" "mcpOutcome p endpointRef produced = Inr v"
    unfolding mcpSession_def 1 prod.case notification_def [symmetric] 2 3
    by (auto split: sum.split_asm if_split_asm prod.split_asm)
  then show thesis
    using that [of produced d] by (cases produced) (auto simp: mcpRetry_def dest: attempts_reply)
qed

lemma outcome_fields:
  assumes "mcpOutcome p endpointRef produced = Inr v"
  shows "js_get v ''status'' = JStr (if of_answer produced [''result'', ''isError''] = JBool True then ''FAILED'' else ''SUCCESS'')"
    "boundedResult (of_answer produced [''result'']) (mp_secret p) = Inr (js_path v [''output_json'', ''result''])"
    "js_path v [''sharedMemoryPatch'', ''mcp_result''] = js_path v [''output_json'', ''result'']"
    "\<exists>failed. js_get v ''events'' = JArr [mcpTrace p endpointRef failed (js_path v [''output_json'', ''result''])]"
  using assms by (auto simp: mcpOutcome_def map_ok_Inr_iff Let_def obj_get_def)

lemma stop_fields: "js_get (stopResult s) ''status'' \<noteq> JStr ''SUCCESS''" "js_path (stopResult s) [''output_json'', ''result''] = JUndef"
  by (cases s; simp add: stopResult_def blockedResult_def failedResult_def obj_get_def object_proto_def)+

section \<open>Redaction\<close>

text \<open>No property with a secret name holds anything but the mark, at any depth.\<close>

fun clean :: "jval \<Rightarrow> bool" where
  "clean (JArr xs) = list_all clean xs"
| "clean (JObj o') = list_all (\<lambda>kv. if isSecretKey (fst kv) then snd kv = JStr redacted else clean (snd kv)) o'"
| "clean v = True"

lemma set_obj_of: "set (obj_of kvs) \<subseteq> set kvs"
  unfolding obj_of_def using set_obj_spread [of "[]" kvs] by simp

lemma clean_scrub: "clean (scrub credential v)"
proof (induction credential v rule: scrub.induct)
  case (2 credential o')
  let ?kvs = "js_entries (map (\<lambda>kv. (fst kv, if isSecretKey (fst kv) then JStr redacted else scrub credential (snd kv))) o')"
  show ?case
    using set_obj_of [of ?kvs] 2 by (fastforce simp: list_all_iff split: if_splits)
qed (auto simp: list_all_iff split: option.splits)

lemma boundedResult_ok:
  assumes "boundedResult v secret = Inr r"
  shows "r = scrub secret v" "clean r" "utf8_bytes (case json_stringify r of Some t \<Rightarrow> t | None \<Rightarrow> []) \<le> MAX_RESULT_BYTES"
  using assms clean_scrub by (auto simp: boundedResult_def Let_def split: if_splits)

definition redacted_result :: "jval \<Rightarrow> bool" where
  "redacted_result out \<longleftrightarrow>
     (let result' = js_path out [''output_json'', ''result''] in
      clean result' \<and> utf8_bytes (case json_stringify result' of Some t \<Rightarrow> t | None \<Rightarrow> []) \<le> MAX_RESULT_BYTES \<and>
      js_path out [''sharedMemoryPatch'', ''mcp_result''] = result' \<and>
      (case js_get out ''events'' of
         JArr es \<Rightarrow> list_all (\<lambda>e. clean (js_get e ''arguments'') \<and> js_get e ''result'' = result') es
       | _ \<Rightarrow> False))"

lemma stop_redacted: "redacted_result (stopResult s)"
  by (cases s) (simp_all add: redacted_result_def stopResult_def blockedResult_def failedResult_def obj_get_def object_proto_def
      utf8_bytes_def MAX_RESULT_BYTES_def MAX_RESPONSE_BYTES_def)

section \<open>A session\<close>

text \<open>An endpoint with a reading tool, and a server that answers the n-th request with the n-th of these bodies.\<close>

definition sampleSchema :: jval where
  "sampleSchema = JObj [(''type'', JStr ''object'')]"

definition sampleNode :: "jval \<Rightarrow> jval" where
  "sampleNode retries = JObj
     [(''config_json'', JObj [(''mcp_endpoint_ref'', JStr ''t''), (''mcp_tool_ref'', JStr ''p.get''),
        (''mcp_endpoints'', JObj [(''t'', JObj [(''url'', JStr ''https://m.test/mcp''), (''admin_allowlisted'', JBool True),
           (''allowed_hosts'', JArr [JStr ''m.test'']), (''credential_id'', JStr ''vault:ref''),
           (''tools'', JObj [(''p.get'', JObj [(''name'', JStr ''p.get''), (''operation'', JStr ''read''), (''read_only'', JBool True),
              (''input_schema'', sampleSchema)])])])])]),
      (''universal_agent'', JObj [(''contract'', JObj [(''implementation'', JObj [(''native_adapter'', JStr ''universal-mcp/v1'')]),
         (''capabilities'', JArr [JStr ''integration.mcp_call'']),
         (''security'', JObj [(''allow_private_network'', JBool False), (''allow_filesystem'', JBool False), (''allow_shell'', JBool False),
            (''allow_arbitrary_code'', JBool False)]),
         (''execution'', JObj [(''timeout_sec'', num 2), (''max_retries'', retries)])])])]"

definition sampleUrl :: "jstr \<Rightarrow> mcp_url" where
  "sampleUrl host = \<lparr>u_text = ''https://'' @ host @ ''/mcp'', u_protocol = ''https:'', u_hostname = host, u_host = host, u_username = [],
     u_password = [], u_hash = [], mu_search = [], mu_origin = ''https://'' @ host\<rparr>"

definition sampleReply :: "int \<Rightarrow> jval \<Rightarrow> mcp_content reply" where
  "sampleReply status' body =
     \<lparr>re_url = [], re_content = \<lparr>mc_status = status', mc_ok = (status' < 300), mc_session = [],
        mc_chunks = (case json_stringify body of Some t \<Rightarrow> [(0, t)] | None \<Rightarrow> [])\<rparr>\<rparr>"

definition rpcResult :: "nat \<Rightarrow> jval \<Rightarrow> mcp_content reply" where
  "rpcResult n v = sampleReply 200 (JObj [(''jsonrpc'', JStr ''2.0''), (''id'', num (of_nat n)), (''result'', v)])"

definition sampleWorld :: "mcp_content reply \<Rightarrow> mcp_world" where
  "sampleWorld answer =
     \<lparr>mw_parse = (\<lambda>t. if t = ''https://m.test/mcp'' then Some (sampleUrl ''m.test'')
                      else if t = ''https://93.184.216.34/mcp'' then Some (sampleUrl ''93.184.216.34'') else None),
      mw_with_host = (\<lambda>u h. sampleUrl h), mw_lookup = (\<lambda>h. Some [''93.184.216.34'']), mw_schema = (\<lambda>s v. True),
      mw_credential = Some (\<lambda>r. Inr (JStr ''k3y'')), mw_collate = (\<lambda>a b. a = b),
      mw_net = (\<lambda>n req. Inr
        (if n = 0 then rpcResult 0 (JObj [(''protocolVersion'', JStr ''2025-03-26'')])
         else if n = 1 then sampleReply 202 JUndef
         else if n = 2 then rpcResult 1 (JObj [(''tools'', JArr [JObj [(''name'', JStr ''p.get''),
           (''annotations'', JObj [(''readOnlyHint'', JBool True)]), (''inputSchema'', sampleSchema)]])])
         else answer))\<rparr>"


definition sampleCall :: "mcp_content reply" where
  "sampleCall = rpcResult 2 (JObj [(''token'', JStr ''k3y''), (''m'', JStr ''a k3y'')])"

lemma sample_run:
  "(let (out, st) = executeMcpToolAgent (sampleWorld sampleCall) (sampleNode (num 1)) (JObj []) in
    (js_get out ''status'', js_path out [''output_json'', ''result''], length (ms_sent st), length (tool_calls st))) =
   (JStr ''SUCCESS'', JObj [(''token'', JStr ''[redacted]''), (''m'', JStr ''a [redacted]'')], 4, 1)"
  by code_simp

lemma sample_fraction:
  "(let (out, st) = executeMcpToolAgent (sampleWorld (sampleReply 500 JUndef)) (sampleNode (num (1 / 2))) (JObj []) in
    (js_get out ''status'', js_path out [''output_json'', ''result''], length (ms_sent st), length (tool_calls st))) =
   (JStr ''SUCCESS'', JUndef, 4, 1)"
  by code_simp

lemma sample_whole:
  "(let (out, st) = executeMcpToolAgent (sampleWorld (sampleReply 500 JUndef)) (sampleNode (num 1)) (JObj []) in
    (js_get out ''status'', length (ms_sent st), length (tool_calls st))) = (JStr ''FAILED'', 5, 2)"
  by code_simp

section \<open>Properties\<close>



text \<open>A run sends at most ten requests, and at most four of them call the tool; a commit or a rollback without an idempotency key is sent at most once.\<close>

theorem mcp_bounded:
  assumes "executeMcpToolAgent w node input = (out, st)"
  shows "length (ms_sent st) \<le> 10 \<and> length (tool_calls st) \<le> (if replayable node input then 4 else 1)"
  using assms
proof (cases rule: execute_cases)
  case (ran_session p st0 r)
  note plan = plan_authorised [OF ran_session(1)]
  obtain d where "session_log p (attemptsAllowed (callRetries p d)) st0 st" using session_adds [OF ran_session(3)] by blast
  note facts = session_log_facts [OF this ran_session(2)]
  have "attemptsAllowed (mp_retries p) \<le> 4" using plan attemptsAllowed_retries by simp
  moreover have "attemptsAllowed (callRetries p d) \<le> (if replayable node input then 4 else 1)"
    using plan calculation by (auto simp: callRetries_def replayable_def attemptsAllowed_def split: jval.splits)
  ultimately show ?thesis using facts by (auto split: if_splits)
qed (simp add: tool_calls_def)

theorem mcp_bounded_witness:
  "let (out, st) = executeMcpToolAgent (sampleWorld (sampleReply 500 JUndef)) (sampleNode (num 1)) (JObj []) in
   length (ms_sent st) = 5 \<and> length (ms_sent st) \<le> 10"
proof -
  obtain out st where e: "executeMcpToolAgent (sampleWorld (sampleReply 500 JUndef)) (sampleNode (num 1)) (JObj []) = (out, st)" by fastforce
  from mcp_bounded [OF e] sample_whole show ?thesis by (simp add: e)
qed

text \<open>With a whole number of retries, a success reports what the network answered: some recorded call of the tool was answered by a valid JSON-RPC response
  that is not a tool error, and the result is that answer, redacted with the stored credential and bounded.\<close>

theorem mcp_success_sound:
  assumes "executeMcpToolAgent w node input = (out, st)" "js_get out ''status'' = JStr ''SUCCESS''"
    "\<exists>k. mcpRetries (mcpContract node) = Fin (of_nat k)"
  shows "\<exists>answer secret. answered w 2 ''tools/call'' st answer \<and> js_path answer [''result'', ''isError''] \<noteq> JBool True \<and>
    stored_credential w node secret \<and> boundedResult (js_get answer ''result'') secret = Inr (js_path out [''output_json'', ''result''])"
  using assms(1)
proof (cases rule: execute_cases)
  case (ran_session p st0 r)
  note plan = plan_authorised [OF ran_session(1)]
  obtain v where v: "r = Inr v" "out = v" using ran_session(4) assms(2) stop_fields(1) by (cases r) auto
  obtain produced d where o: "mcpOutcome p (js_get (mcpConfig node) ''mcp_endpoint_ref'') produced = Inr v"
      "\<And>answer. produced = Some answer \<Longrightarrow> answered w 2 ''tools/call'' st answer"
      "produced = None \<Longrightarrow> \<exists>st2. mcpRetry (mcpRequest w p 2 ''tools/call'' (callParams p)) (callRetries p d) st2 = (Inr None, st)"
    using session_result [OF ran_session(3) [unfolded v]] by blast
  obtain k where k: "mp_retries p = Fin (of_nat k)" using plan assms(3) by auto
  have "produced \<noteq> None"
  proof
    assume "produced = None"
    moreover have "callRetries p d = Fin (of_nat k) \<or> callRetries p d = Fin (of_nat 0)" by (simp add: callRetries_def k)
    ultimately show False using o(3) retry_whole by metis
  qed
  then obtain answer where "produced = Some answer" by auto
  then show ?thesis
    using o(2) outcome_fields(1,2) [OF o(1)] plan assms(2) by (intro exI [of _ answer] exI [of _ "mp_secret p"]) (auto simp: v of_answer_def split: if_splits)
qed (use assms(2) stop_fields(1) in simp)

theorem mcp_success_sound_witness:
  "\<exists>answer. answered (sampleWorld sampleCall) 2 ''tools/call'' (snd (executeMcpToolAgent (sampleWorld sampleCall) (sampleNode (num 1)) (JObj []))) answer"
proof -
  obtain out st where e: "executeMcpToolAgent (sampleWorld sampleCall) (sampleNode (num 1)) (JObj []) = (out, st)" by fastforce
  then have "js_get out ''status'' = JStr ''SUCCESS''" using sample_run by simp
  moreover have "mcpRetries (mcpContract (sampleNode (num 1))) = Fin (of_nat 1)" by code_simp
  ultimately show ?thesis using mcp_success_sound [OF e] by (auto simp: e)
qed


text \<open>With a number of retries that is not whole, which neither the engine nor the backend excludes, the loop never rethrows: when every call of the tool fails, the agent
  still reports a success, with no result.\<close>

theorem mcp_fractional_success:
  assumes "\<And>k. limit \<noteq> Fin (of_nat k)" "\<And>s. isl (fst (call s))"
  shows "fst (mcpRetry call limit st) = Inr None \<and>
    (\<exists>v. mcpOutcome p endpointRef None = Inr v \<and> js_get v ''status'' = JStr ''SUCCESS'' \<and> js_path v [''output_json'', ''result''] = JUndef)"
proof
  have "fst (mcpAttempts call limit left k st) = Inr None" for left k
  proof (induction left arbitrary: k st)
    case (Suc left)
    have "\<not> num_eq (Fin (of_nat k)) limit" using assms(1) [of k] by (cases limit) auto
    with Suc assms(2) [of st] show ?case by (auto split: prod.split sum.split)
  qed simp
  then show "fst (mcpRetry call limit st) = Inr None" by (simp add: mcpRetry_def)
  have "\<exists>v. mcpOutcome p endpointRef None = Inr v"
    by (simp add: mcpOutcome_def of_answer_def boundedResult_def utf8_bytes_def MAX_RESULT_BYTES_def MAX_RESPONSE_BYTES_def)
  then obtain v where v: "mcpOutcome p endpointRef None = Inr v" by blast
  show "\<exists>v. mcpOutcome p endpointRef None = Inr v \<and> js_get v ''status'' = JStr ''SUCCESS'' \<and> js_path v [''output_json'', ''result''] = JUndef"
    using v outcome_fields(1,2) [OF v] by (auto simp: of_answer_def boundedResult_def Let_def split: if_splits)
qed

theorem mcp_fractional_success_witness:
  "fst (mcpRetry (\<lambda>s. (Throw ''MCP_HTTP_500'', s)) (Fin (1 / 2)) \<lparr>ms_sent = [], ms_session = None, ms_protocol = True\<rparr>) = Inr None \<and>
   (let (out, st) = executeMcpToolAgent (sampleWorld (sampleReply 500 JUndef)) (sampleNode (num (1 / 2))) (JObj []) in
    (js_get out ''status'', js_path out [''output_json'', ''result''], length (ms_sent st), length (tool_calls st))) =
   (JStr ''SUCCESS'', JUndef, 4, 1)"
proof -
  have "Fin (1 / 2) \<noteq> Fin (of_nat k)" for k
  proof
    assume "Fin (1 / 2) = Fin (of_nat k)"
    then have "(1 :: rat) = of_nat (2 * k)" by simp
    then have "1 = 2 * k" by (metis of_nat_1 of_nat_eq_iff)
    then show False by presburger
  qed
  from mcp_fractional_success [OF this] sample_fraction show ?thesis by simp
qed

end
