(* ===== verification/StepContract.thy ===== *)
theory StepContract
  imports Consensus JsonText Rx
begin

text \<open>
  The contract of a test step: \<^verbatim>\<open>engine/src/automation/step-contract-base.ts\<close>, \<^verbatim>\<open>semantic-expectations.ts\<close>,
  \<^verbatim>\<open>step-contract-assertions.ts\<close> and \<^verbatim>\<open>step-contract-evaluation.ts\<close>. The expected result of a step, in prose and in
  key-value data, becomes typed assertions with a coverage; after the action they are evaluated on what the
  browser shows.

  An optional string that the code only reads through \<^verbatim>\<open>|| ''\<close> or \<^verbatim>\<open>filter(Boolean)\<close> is a string, empty when absent. Text is
  Latin-1, so the typographic quotes of two expressions never occur, and the normal form \<^verbatim>\<open>NFD\<close> without combining marks replaces
  a letter by its base letter.
\<close>

section \<open>Types\<close>

datatype assertion_type =
    Text_contains | Text_contains_any | Element_contains | Element_visible | Element_value | Url_matches | Url_not_matches
  | Url_changed | Http_status | Json_field_equals | Element_count | Field_required | Option_selected | Checkbox_checked
  | Button_enabled | Images_loaded

fun type_name :: "assertion_type \<Rightarrow> jstr" where
  "type_name Text_contains = ''text_contains''"
| "type_name Text_contains_any = ''text_contains_any''"
| "type_name Element_contains = ''element_contains''"
| "type_name Element_visible = ''element_visible''"
| "type_name Element_value = ''element_value''"
| "type_name Url_matches = ''url_matches''"
| "type_name Url_not_matches = ''url_not_matches''"
| "type_name Url_changed = ''url_changed''"
| "type_name Http_status = ''http_status''"
| "type_name Json_field_equals = ''json_field_equals''"
| "type_name Element_count = ''element_count''"
| "type_name Field_required = ''field_required''"
| "type_name Option_selected = ''option_selected''"
| "type_name Checkbox_checked = ''checkbox_checked''"
| "type_name Button_enabled = ''button_enabled''"
| "type_name Images_loaded = ''images_loaded''"

datatype comparator = Equals | At_least

record assertion_body =
  a_type :: assertion_type
  a_source :: jstr
  a_target :: "jstr option"
  a_expected :: jval
  a_alternatives :: "jstr list option"
  a_comparator :: "comparator option"

record step_assertion = assertion_body +
  a_id :: jstr

datatype validation_mode = Dom | Visual_semantic | Manual_review

record validation_plan =
  p_mode :: validation_mode
  p_assertions :: "assertion_body list"
  p_reason :: jstr
  p_confidence :: int

record planned_step = qa_step +
  q_plan :: "validation_plan option"

datatype coverage = Full | Partial | No_coverage

record step_contract =
  k_step :: jnum
  k_assertions :: "step_assertion list"
  k_recognized :: "jstr list"
  k_unresolved :: "jstr list"
  k_coverage :: coverage
  k_audit :: bool

record box =
  bx_x :: rat
  bx_y :: rat
  bx_width :: rat
  bx_height :: rat

record element =
  el_ref :: jstr
  el_tag :: jstr
  el_role :: jstr
  el_name :: jstr
  el_text :: jstr
  el_value :: jstr
  el_type :: jstr
  el_placeholder :: jstr
  el_label :: jstr
  el_title :: jstr
  el_disabled :: bool
  el_checked :: bool
  el_required :: bool
  el_valid :: "bool option"
  el_selected :: "jstr list"
  el_image_complete :: bool
  el_natural_width :: rat
  el_visible :: bool
  el_editable :: bool
  el_clickable :: bool
  el_box :: "box option"

record observation =
  ob_url :: jstr
  ob_title :: jstr
  ob_ready :: jstr
  ob_visible_text :: "jstr list"
  ob_body :: jstr
  ob_elements :: "element list"
  ob_loading :: "jstr list"
  ob_viewport :: "(rat \<times> rat) option"

section \<open>Text\<close>

text \<open>The base letter of a Latin-1 letter that has a canonical decomposition.\<close>

definition base_char :: "char \<Rightarrow> char" where
  "base_char c =
     (let n = code_unit c in
      if 192 \<le> n \<and> n \<le> 197 then CHR ''A'' else if n = 199 then CHR ''C'' else if 200 \<le> n \<and> n \<le> 203 then CHR ''E''
      else if 204 \<le> n \<and> n \<le> 207 then CHR ''I'' else if n = 209 then CHR ''N'' else if 210 \<le> n \<and> n \<le> 214 then CHR ''O''
      else if 217 \<le> n \<and> n \<le> 220 then CHR ''U'' else if n = 221 then CHR ''Y''
      else if 224 \<le> n \<and> n \<le> 229 then CHR ''a'' else if n = 231 then CHR ''c'' else if 232 \<le> n \<and> n \<le> 235 then CHR ''e''
      else if 236 \<le> n \<and> n \<le> 239 then CHR ''i'' else if n = 241 then CHR ''n'' else if 242 \<le> n \<and> n \<le> 246 then CHR ''o''
      else if 249 \<le> n \<and> n \<le> 252 then CHR ''u'' else if n = 253 \<or> n = 255 then CHR ''y'' else c)"

definition strip_marks :: "jstr \<Rightarrow> jstr" where
  "strip_marks s = map base_char s"

text \<open>\<^verbatim>\<open>replace(/\s+/g, ' ')\<close>.\<close>

fun squeeze :: "jstr \<Rightarrow> jstr" where
  "squeeze [] = []"
| "squeeze (c # s) =
     (if is_space c then (case s of d # _ \<Rightarrow> if is_space d then squeeze s else CHR '' '' # squeeze s | [] \<Rightarrow> '' '')
      else c # squeeze s)"

definition normalizeText :: "jstr \<Rightarrow> jstr" where
  "normalizeText value = trim (squeeze (toLowerCase (strip_marks value)))"

text \<open>The text of a value that is not falsy, as \<^verbatim>\<open>String(value || '')\<close>.\<close>

definition text_of :: "jval \<Rightarrow> jstr" where
  "text_of v = (if truthy v then to_string v else [])"

text \<open>\<^verbatim>\<open>replace(/[...]+$/g, '')\<close>.\<close>

definition strip_end :: "(char \<Rightarrow> bool) \<Rightarrow> jstr \<Rightarrow> jstr" where
  "strip_end p s = rev (dropWhile p (rev s))"

definition drop_s :: "jstr \<Rightarrow> jstr" where
  "drop_s s = (if ends_with s ''s'' then butlast s else s)"

definition nonblank :: "jstr list \<Rightarrow> jstr list" where
  "nonblank ws = filter (\<lambda>w. w \<noteq> []) ws"

text \<open>\<^verbatim>\<open>split(/\s+/).filter(Boolean)\<close>.\<close>

definition tokens :: "jstr \<Rightarrow> jstr list" where
  "tokens s = nonblank (split_on (CHR '' '') (squeeze s))"

text \<open>\<^verbatim>\<open>match?.[n] || ''\<close>, and \<^verbatim>\<open>split\<close> at the matches of an expression that matches no empty text.\<close>

definition group_of :: "rx \<Rightarrow> nat \<Rightarrow> jstr \<Rightarrow> jstr" where
  "group_of x n s = (case rx_exec x s of None \<Rightarrow> [] | Some m \<Rightarrow> (case rx_cap m n of None \<Rightarrow> [] | Some t \<Rightarrow> t))"

fun pieces :: "nat \<Rightarrow> jstr \<Rightarrow> (nat \<times> rx_match) list \<Rightarrow> jstr list" where
  "pieces i s [] = [s]"
| "pieces i s ((k, m) # ms) = take (k - i) s # pieces (k + length (rm_text m)) (drop (k - i + length (rm_text m)) s) ms"

definition rx_split :: "rx \<Rightarrow> jstr \<Rightarrow> jstr list" where
  "rx_split x s = pieces 0 s (rx_all x s)"

section \<open>Step data\<close>

definition quotedBy :: "jstr \<Rightarrow> jstr \<Rightarrow> bool" where
  "quotedBy q s \<longleftrightarrow> starts_with s q \<and> ends_with s q"

definition unquote :: "jstr \<Rightarrow> jstr" where
  "unquote value =
     (let trimmed = trim value in
      if 2 \<le> length trimmed \<and> (quotedBy [CHR 34] trimmed \<or> quotedBy [CHR 39] trimmed) then butlast (tl trimmed) else trimmed)"

definition key_start :: "char \<Rightarrow> bool" where
  "key_start c \<longleftrightarrow> is_word c \<and> \<not> is_digit c"

definition keyPattern :: rx where
  "keyPattern = cat [WordB, Grp 1 (Cat (Sym key_start) (star (word_or ''.-''))), star space, one_of '':='', star space]"

text \<open>Assigning \<^verbatim>\<open>__proto__\<close> creates no property.\<close>

definition data_put :: "(jstr \<times> jstr) list \<Rightarrow> jstr \<Rightarrow> jstr \<Rightarrow> (jstr \<times> jstr) list" where
  "data_put d k v = (if k = ''__proto__'' then d else obj_put d k v)"

fun dataPairs :: "jstr \<Rightarrow> (nat \<times> rx_match) list \<Rightarrow> (jstr \<times> jstr) list" where
  "dataPairs t [] = []"
| "dataPairs t ((k, m) # ms) =
     (let valueStart = k + length (rm_text m); nextStart = (case ms of [] \<Rightarrow> length t | (k', _) # _ \<Rightarrow> k');
          rawValue = strip_end (\<lambda>c. is_space c \<or> c \<in> set '',;'') (take (nextStart - valueStart) (drop valueStart t))
      in (toLowerCase (case rx_cap m 1 of None \<Rightarrow> [] | Some key \<Rightarrow> key), unquote rawValue) # dataPairs t ms)"

definition parseStepData :: "jstr \<Rightarrow> (jstr \<times> jstr) list" where
  "parseStepData value =
     (let t = trim value in
      if t = [] then [] else foldl (\<lambda>d kv. data_put d (fst kv) (snd kv)) [] (dataPairs t (rx_all keyPattern t)))"

definition stepDataValue :: "('z) qa_step_scheme \<Rightarrow> jstr list \<Rightarrow> jstr" where
  "stepDataValue step keys =
     (case concat (map (\<lambda>d. List.map_filter (\<lambda>key. map_of d (toLowerCase key)) keys) [parseStepData (q_data step), parseStepData (q_action step)]) of
        [] \<Rightarrow> [] | v # _ \<Rightarrow> v)"

definition hasStepDataKey :: "('z) qa_step_scheme \<Rightarrow> jstr list \<Rightarrow> bool" where
  "hasStepDataKey step keys =
     (let values = parseStepData (q_data step @ [CHR 10] @ q_action step) in list_ex (\<lambda>key. toLowerCase key \<in> fst ` set values) keys)"

definition elementCorpus :: "element \<Rightarrow> jstr" where
  "elementCorpus e =
     normalizeText (join '' '' (nonblank [el_name e, el_label e, el_text e, el_placeholder e, el_title e, el_role e, el_type e]))"

text \<open>A key of the data, empty when absent.\<close>

definition data_get :: "(jstr \<times> jstr) list \<Rightarrow> jstr \<Rightarrow> jstr" where
  "data_get d k = (case map_of d k of None \<Rightarrow> [] | Some v \<Rightarrow> v)"

fun first_text :: "jstr list \<Rightarrow> jstr" where
  "first_text [] = []"
| "first_text (s # ss) = (if s \<noteq> [] then s else first_text ss)"

section \<open>Expectations that need an auditor\<close>

definition gap :: rx where "gap = star any_char"

definition EMPTY_LIST :: rx where
  "EMPTY_LIST =
     (let list' = words [''carrito'', ''lista'']; list_en = words [''cart'', ''list''] in
      alt [cat [lit ''no'', plus1 space, lit ''se'', plus1 space, lit ''muestran'', plus1 space, lit ''productos'', gap, list'],
           cat [list', gap, lit ''sin'', plus1 space, lit ''productos''],
           cat [list', gap, lit ''vaci'', one_of ''oa''],
           cat [lit ''empty'', gap, list_en],
           cat [list_en, gap, lit ''empty'']])"

definition emptyListRequirement :: jstr where
  "emptyListRequirement = ''Comprobar que el carrito o lista termino de cargar, que no hay error ni indicador de carga, y citar evidencia positiva de vacio: contador cero, contenedor sin filas identificado o mensaje explicito de vacio. La ausencia de botones Remove no prueba un carrito vacio.''"

definition semanticEvidenceRequirement :: "('z) qa_step_scheme \<Rightarrow> jstr option" where
  "semanticEvidenceRequirement step =
     (let d = foldl (\<lambda>m kv. obj_put m (fst kv) (snd kv)) (parseStepData (q_action step)) (parseStepData (q_data step));
          claim = first_text (map (data_get d) [''expected_false_claim'', ''afirmacion_falsa'', ''false_claim'', ''claim_falso'']) in
      if claim \<noteq> [] then
        Some (''Evaluar la afirmacion completa, incluidas negaciones y relaciones: '' @ claim
          @ ''. Citar evidencia que la respalde o contradiga; palabras dispersas no prueban su veracidad.'')
      else if rx_test EMPTY_LIST (toLowerCase (strip_marks (q_expected step))) then Some emptyListRequirement else None)"

section \<open>Recognised assertions\<close>

definition body :: "assertion_type \<Rightarrow> jstr \<Rightarrow> assertion_body" where
  "body t source = \<lparr>a_type = t, a_source = source, a_target = None, a_expected = JUndef, a_alternatives = None, a_comparator = None\<rparr>"

definition assertionId :: "jnum \<Rightarrow> nat \<Rightarrow> jstr" where
  "assertionId number index = ''step-'' @ num_str number @ ''-assertion-'' @ nat_str (index + 1)"

definition with_id :: "jstr \<Rightarrow> assertion_body \<Rightarrow> step_assertion" where
  "with_id i a = assertion_body.extend a (step_assertion.fields i)"

definition body_of :: "step_assertion \<Rightarrow> assertion_body" where
  "body_of a = assertion_body.truncate a"

definition splitExpectation :: "jstr \<Rightarrow> jstr list" where
  "splitExpectation value =
     nonblank (map (\<lambda>item. strip_end (\<lambda>c. c \<in> set ''.!'') (trim item))
       (rx_split (ignore_case (alt [cat [plus1 space, lit ''y'', plus1 space], lit '';'', one_of [CHR 10]])) value))"

definition opt_str :: "jstr option \<Rightarrow> jval" where
  "opt_str s = (case s of None \<Rightarrow> JUndef | Some t \<Rightarrow> JStr t)"

definition fingerprint :: "('z) assertion_body_scheme \<Rightarrow> jstr option" where
  "fingerprint a =
     json_stringify (JArr [JStr (type_name (a_type a)), opt_str (a_target a), a_expected a,
       (case a_alternatives a of None \<Rightarrow> JUndef | Some xs \<Rightarrow> JArr (map JStr xs))])"

definition addAssertion :: "jnum \<Rightarrow> step_assertion list \<Rightarrow> assertion_body \<Rightarrow> step_assertion list" where
  "addAssertion number assertions a =
     (if list_ex (\<lambda>b. fingerprint b = fingerprint a) assertions then assertions
      else assertions @ [with_id (assertionId number (length assertions)) a])"

text \<open>
  The explicit assertions of the step data, in the order of the code: four groups of keys, then the keys that name a JSON field. Each comes with
  its text.
\<close>

definition explicitMapping :: "(jstr \<times> jstr) list \<Rightarrow> jstr list \<Rightarrow> assertion_type \<Rightarrow> jstr option \<Rightarrow> (assertion_body \<times> jstr) list" where
  "explicitMapping d keys t target =
     (case find (\<lambda>k. k \<in> fst ` set d) keys of
        None \<Rightarrow> []
      | Some key \<Rightarrow>
          (let raw = data_get d key; source = key @ ''='' @ raw in
           [(body t source\<lparr>a_target := target,
               a_expected := (if t \<in> {Http_status, Element_count} then JNum (string_to_number raw) else JStr raw),
               a_comparator := (if t = Element_count then Some Equals else None)\<rparr>, source)]))"

definition explicitAssertions :: "(jstr \<times> jstr) list \<Rightarrow> (assertion_body \<times> jstr) list" where
  "explicitAssertions d =
     (let countTarget = first_text [data_get d ''count_target'', data_get d ''objeto''] in
      explicitMapping d [''expected_text'', ''texto_esperado''] Text_contains None
      @ explicitMapping d [''expected_url'', ''url_esperada''] Url_matches None
      @ explicitMapping d [''status_code'', ''http_status''] Http_status None
      @ explicitMapping d [''expected_count'', ''cantidad_esperada''] Element_count (if countTarget = [] then None else Some countTarget)
      @ map (\<lambda>(key, value). (let source = key @ ''='' @ value in
            (body Json_field_equals source\<lparr>a_target := Some (drop 5 key), a_expected := JStr value\<rparr>, source)))
          (filter (\<lambda>kv. starts_with (fst kv) ''json.'') (js_entries d)))"

section \<open>Expectations in prose\<close>

text \<open>Each rule gives the assertions of a fragment it recognises; \<open>normalized\<close> is the normalised fragment.\<close>

definition quotation :: rx where
  "quotation = (let q = [CHR 34, CHR 39] in cat [one_of q, Grp 1 (Rep 2 (Some 160) True (none_of q)), one_of q])"

definition quotedRule :: "jstr \<Rightarrow> assertion_body list option" where
  "quotedRule fragment =
     (let quoted = map (\<lambda>(k, m). trim (case rx_cap m 1 of None \<Rightarrow> [] | Some t \<Rightarrow> t)) (rx_all quotation fragment) in
      if quoted = [] then None else Some (map (\<lambda>v. body Text_contains fragment\<lparr>a_expected := JStr v\<rparr>) quoted))"

definition STATUS :: rx where
  "STATUS = cat [alt [Cat (lit ''status'') (opt (lit '' code'')), lit ''codigo http''], star space, opt (one_of '':=''), star space,
     Grp 1 (Rep 3 (Some 3) True digit)]"

definition statusRule :: "jstr \<Rightarrow> jstr \<Rightarrow> assertion_body list option" where
  "statusRule fragment normalized =
     (let code = group_of STATUS 1 normalized in
      if code = [] then None else Some [body Http_status fragment\<lparr>a_expected := JNum (string_to_number code)\<rparr>])"

definition urlPhrase :: "jstr list \<Rightarrow> rx \<Rightarrow> rx" where
  "urlPhrase verbs middle = cat [words [''url'', ''direccion'', ''pagina''], plus1 space, words verbs, plus1 space, middle, Grp 1 (plus1 (word_or ''./-''))]"

definition urlRule :: "rx \<Rightarrow> jstr \<Rightarrow> jstr \<Rightarrow> assertion_body list option" where
  "urlRule x fragment normalized =
     (let suffix = group_of x 1 normalized in
      if suffix = [] then None
      else Some [body Url_matches fragment\<lparr>a_expected := JStr (strip_end (\<lambda>c. c \<in> set ''.,;:'') suffix)\<rparr>])"

definition urlSuffix :: rx where
  "urlSuffix = urlPhrase [''termina'', ''finaliza'', ''acaba''] (cat [words [''en'', ''con''], plus1 space])"

definition urlContains :: rx where
  "urlContains = urlPhrase [''contiene'', ''incluye''] Eps"

definition JSON_FIELD :: rx where
  "JSON_FIELD = cat [WordB, Grp 1 (alt [lit ''status'', Cat (lit ''item'') (opt (lit ''s'')), lit ''environment'']), star space,
     opt (alt [lit ''es'', lit ''='', lit '':'']), star space, Grp 2 (plus1 (word_or ''.-''))]"

definition jsonRule :: "jstr \<Rightarrow> jstr \<Rightarrow> jstr \<Rightarrow> assertion_body list option" where
  "jsonRule expected fragment normalized =
     (let fields = (if rx_test (cat [WordB, words [''json'', ''respuesta''], WordB]) (normalizeText expected) then rx_all JSON_FIELD normalized else []) in
      if fields = [] then None
      else Some (List.map_filter (\<lambda>(k, m).
        (case (rx_cap m 1, rx_cap m 2) of
           (Some f, Some v) \<Rightarrow> if f = [] \<or> v = [] then None else
             Some (body Json_field_equals fragment\<lparr>a_target := Some (if f = ''item'' then ''items'' else f),
               a_expected := JStr (strip_end (\<lambda>c. c \<in> set ''.,;:'') v)\<rparr>)
         | _ \<Rightarrow> None)) fields))"

definition ROW :: rx where
  "ROW = cat [lit ''fila de'', plus1 space, Grp 1 (plus1 (word_or ''@.-'')), lazy_star any_char,
     words [''indicar'', ''mostrar'', ''contener'', ''dice'', ''estado''], plus1 space, Grp 2 (plus1 any_char), Eol]"

definition rowRule :: "jstr \<Rightarrow> jstr \<Rightarrow> assertion_body list option" where
  "rowRule fragment normalized =
     (let key = group_of ROW 1 normalized; value = group_of ROW 2 normalized in
      if key = [] \<or> value = [] then None
      else Some [body Element_contains fragment\<lparr>a_target := Some key, a_expected := JStr (trim value)\<rparr>])"

definition COUNT :: rx where
  "COUNT = cat [WordB, Grp 1 (plus1 digit), plus1 space,
     Grp 2 (alt (map (\<lambda>w. Cat (lit w) (opt (lit ''s''))) [''producto'', ''fila'', ''item'', ''elemento'', ''imagene''])), WordB]"

definition countRule :: "jstr \<Rightarrow> jstr \<Rightarrow> assertion_body list option" where
  "countRule fragment normalized =
     (let n = group_of COUNT 1 normalized; noun = group_of COUNT 2 normalized in
      if n = [] \<or> noun = [] then None
      else Some [body Element_count fragment\<lparr>a_target := Some (drop_s noun), a_expected := JNum (string_to_number n), a_comparator := Some Equals\<rparr>])"

text \<open>\<^verbatim>\<open>a.*b\<close> or \<^verbatim>\<open>b.*a\<close>, the shape of several tests.\<close>

definition either_order :: "jstr list \<Rightarrow> jstr list \<Rightarrow> rx" where
  "either_order a b = Or (cat [words a, gap, words b]) (cat [words b, gap, words a])"

definition testRule :: "rx \<Rightarrow> assertion_body \<Rightarrow> jstr \<Rightarrow> assertion_body list option" where
  "testRule x a normalized = (if rx_test x normalized then Some [a] else None)"

definition imagesRule :: "jstr \<Rightarrow> jstr \<Rightarrow> assertion_body list option" where
  "imagesRule fragment = testRule
     (cat [Cat (lit ''imagene'') (opt (lit ''s'')), gap,
        alt [lit ''cargan'', lit ''cargadas'', lit ''sin errores'', cat [lit ''ninguna'', gap, lit ''rota'']]])
     (body Images_loaded fragment)"

definition requiredRule :: "jstr \<Rightarrow> jstr \<Rightarrow> assertion_body list option" where
  "requiredRule fragment = testRule (either_order [''titulo''] [''obligatorio'', ''required''])
     (body Field_required fragment\<lparr>a_target := Some ''titulo''\<rparr>)"

definition optionRule :: "jstr \<Rightarrow> jstr \<Rightarrow> assertion_body list option" where
  "optionRule fragment = testRule (Or (cat [lit ''opcion alta'', gap, lit ''seleccionada'']) (lit ''alta queda seleccionada''))
     (body Option_selected fragment\<lparr>a_target := Some ''severity'', a_expected := JStr ''high''\<rparr>)"

definition checkboxRule :: "jstr \<Rightarrow> jstr \<Rightarrow> assertion_body list option" where
  "checkboxRule fragment = testRule
     (alt [cat [lit ''control'', gap, lit ''marcado''], lit ''queda marcado'', cat [lit ''confirmar datos'', gap, lit ''activ'']])
     (body Checkbox_checked fragment\<lparr>a_target := Some ''confirm''\<rparr>)"

definition BUTTON :: rx where
  "BUTTON = cat [lit ''boton'', plus1 space, Grp 1 (lazy_plus any_char),
     alt [cat [plus1 space, lit ''esta'', plus1 space, lit ''habilitado''], cat [plus1 space, lit ''habilitado''], cat [plus1 space, lit ''visible''], Eol]]"

definition buttonRule :: "jstr \<Rightarrow> jstr \<Rightarrow> assertion_body list option" where
  "buttonRule fragment normalized =
     (let name = group_of BUTTON 1 normalized in
      if name = [] then None
      else Some [body (if rx_test (lit ''habilitado'') normalized then Button_enabled else Element_visible) fragment\<lparr>a_target := Some (trim name)\<rparr>])"

definition formRule :: "jstr \<Rightarrow> jstr \<Rightarrow> assertion_body list option" where
  "formRule fragment = testRule (either_order [''formulario''] [''visible'', ''disponible''])
     (body Element_visible fragment\<lparr>a_target := Some ''formulario''\<rparr>)"

definition loginErrorRule :: "jstr \<Rightarrow> jstr \<Rightarrow> assertion_body list option" where
  "loginErrorRule fragment = testRule
     (either_order [''error'', ''invalid'', ''incorrect''] [''credencial'', ''usuario'', ''password'', ''contrasena''])
     (body Text_contains_any fragment\<lparr>a_alternatives :=
        Some [''invalid'', ''incorrect'', ''error'', ''invalido'', ''invalida'', ''incorrecto'', ''incorrecta'']\<rparr>)"

definition secureAreaRule :: "jstr \<Rightarrow> jstr \<Rightarrow> assertion_body list option" where
  "secureAreaRule fragment = testRule
     (cat [words [''no se ingreso'', ''no ingresar'', ''fuera''], gap, words [''area segura'', ''secure area'']])
     (body Url_not_matches fragment\<lparr>a_expected := JStr ''/secure''\<rparr>)"

definition VISIBLE_CONTENT :: rx where
  "VISIBLE_CONTENT = cat [alt [Cat (lit ''mostrar'') (opt (lit ''se'')), lit ''muestra'', lit ''contener'', lit ''contiene'', lit ''aparece'', lit ''verse'',
       Cat (lit ''visualiza'') (opt (lit ''rse'')), Cat (lit ''informa'') (opt (lit ''r'')), lit ''indicar''],
     plus1 space, Grp 1 (plus1 any_char), Eol]"

definition ARTICLE :: rx where
  "ARTICLE = cat [Bol, opt (Cat (lit ''inmediatamente'') (plus1 space)), words [''el'', ''la'', ''los'', ''las''], plus1 space]"

definition CAPTION :: rx where
  "CAPTION = cat [Bol, opt (Cat (lit ''exactamente'') (plus1 space)), opt (words [''el'', ''la'', ''los'', ''las'']), star space,
     words [''titulo'', ''mensaje'', ''nombre''], plus1 space]"

definition visibleRule :: "jstr \<Rightarrow> jstr \<Rightarrow> assertion_body list option" where
  "visibleRule fragment normalized =
     (let content = group_of VISIBLE_CONTENT 1 normalized;
          expected = trim (rx_replace CAPTION (\<lambda>_. []) (rx_replace ARTICLE (\<lambda>_. []) content)) in
      if content \<noteq> [] \<and> 3 \<le> length expected \<and> length (tokens expected) \<le> 10 \<and> \<not> rx_test (cat [plus1 space, lit ''o'', plus1 space]) expected
      then Some [body Text_contains fragment\<lparr>a_expected := JStr expected\<rparr>] else None)"

fun first_rule :: "'a option list \<Rightarrow> 'a option" where
  "first_rule [] = None"
| "first_rule (r # rs) = (case r of Some x \<Rightarrow> Some x | None \<Rightarrow> first_rule rs)"

definition parseExpectationFragment :: "jstr \<Rightarrow> jstr \<Rightarrow> assertion_body list option" where
  "parseExpectationFragment expected fragment =
     (let normalized = normalizeText fragment in
      first_rule
        [quotedRule fragment, statusRule fragment normalized, urlRule urlSuffix fragment normalized, urlRule urlContains fragment normalized,
         jsonRule expected fragment normalized, rowRule fragment normalized, countRule fragment normalized, imagesRule fragment normalized,
         requiredRule fragment normalized, optionRule fragment normalized, checkboxRule fragment normalized, buttonRule fragment normalized,
         formRule fragment normalized, loginErrorRule fragment normalized, secureAreaRule fragment normalized, visibleRule fragment normalized])"

section \<open>The contract\<close>

text \<open>The assertions of the fragments, added one fragment after the other, and the fragments that no rule recognised.\<close>

definition assertionsOf :: "jstr \<Rightarrow> jstr \<Rightarrow> assertion_body list" where
  "assertionsOf expected fragment = (case parseExpectationFragment expected fragment of None \<Rightarrow> [] | Some as \<Rightarrow> as)"

definition fragmentAssertions :: "jstr \<Rightarrow> jstr list \<Rightarrow> assertion_body list" where
  "fragmentAssertions expected fragments = concat (map (assertionsOf expected) fragments)"

definition recognised :: "jstr \<Rightarrow> jstr \<Rightarrow> bool" where
  "recognised expected fragment \<longleftrightarrow> parseExpectationFragment expected fragment \<noteq> None"

definition unresolved :: "jstr \<Rightarrow> jstr \<Rightarrow> bool" where
  "unresolved expected fragment \<longleftrightarrow> parseExpectationFragment expected fragment = None"

definition semanticContract :: "jnum \<Rightarrow> jstr \<Rightarrow> jstr \<Rightarrow> step_contract" where
  "semanticContract number expected requirement =
     \<lparr>k_step = number, k_assertions = [], k_recognized = [], k_unresolved = nonblank [expected, requirement],
      k_coverage = No_coverage, k_audit = True\<rparr>"

definition plannedContract :: "jnum \<Rightarrow> jstr \<Rightarrow> validation_plan \<Rightarrow> step_contract" where
  "plannedContract number expected plan =
     (let assertions = map (\<lambda>(i, a). with_id (assertionId number i) a) (enumerate 0 (p_assertions plan));
          isDomPlan = (p_mode plan = Dom \<and> assertions \<noteq> []) in
      \<lparr>k_step = number, k_assertions = assertions, k_recognized = (if isDomPlan then [p_reason plan] else []),
       k_unresolved = (if isDomPlan then [] else nonblank [expected]),
       k_coverage = (if isDomPlan then Full else No_coverage), k_audit = (\<not> isDomPlan)\<rparr>)"

definition parsedContract :: "('z) qa_step_scheme \<Rightarrow> step_contract" where
  "parsedContract step =
     (let number = q_number step; expected = q_expected step; explicit = explicitAssertions (parseStepData (q_data step));
          fragments = splitExpectation expected;
          assertions = foldl (addAssertion number) [] (map fst explicit @ fragmentAssertions expected fragments);
          open' = filter (unresolved expected) fragments;
          coverage' = (if assertions = [] then No_coverage else if open' = [] then Full else Partial) in
      \<lparr>k_step = number, k_assertions = assertions, k_recognized = map snd explicit @ filter (recognised expected) fragments,
       k_unresolved = open', k_coverage = coverage', k_audit = (coverage' \<noteq> Full)\<rparr>)"

definition buildStepContract :: "planned_step \<Rightarrow> step_contract" where
  "buildStepContract step =
     (case semanticEvidenceRequirement step of
        Some requirement \<Rightarrow> semanticContract (q_number step) (q_expected step) requirement
      | None \<Rightarrow>
          (case q_plan step of
             Some plan \<Rightarrow> plannedContract (q_number step) (q_expected step) plan
           | None \<Rightarrow> parsedContract step))"

section \<open>Evaluation\<close>

text \<open>
  The code builds three expressions from text of the data. Two escape the text, so that it stands for itself. The third does not: text without
  syntax characters stands for itself, and on the other source texts \<open>regexp\<close> is the \<^verbatim>\<open>RegExp\<close> constructor, \<open>None\<close> a syntax error.
\<close>

record step_result =
  r_assertion :: step_assertion
  r_ok :: bool
  r_reason :: jstr

record evaluation =
  ev_ok :: bool
  ev_conclusive :: bool
  ev_reason :: jstr
  ev_results :: "step_result list"

definition pageCorpus :: "observation \<Rightarrow> jstr" where
  "pageCorpus ob =
     normalizeText (join '' '' ([ob_url ob, ob_title ob, ob_body ob] @ ob_visible_text ob @ map elementCorpus (ob_elements ob)))"

definition matchingElement :: "observation \<Rightarrow> jstr \<Rightarrow> element option" where
  "matchingElement ob target =
     (let expected = normalizeText target in
      if expected = ''formulario'' then find (\<lambda>e. el_visible e \<and> el_editable e) (ob_elements ob)
      else find (\<lambda>e. el_visible e \<and> str_includes (elementCorpus e) expected) (ob_elements ob))"

text \<open>The phrase as an expression: every run of white space matches any run of white space.\<close>

fun phraseRx :: "jstr \<Rightarrow> rx" where
  "phraseRx [] = Eps"
| "phraseRx (c # s) =
     (if is_space c then (case s of d # _ \<Rightarrow> if is_space d then phraseRx s else Cat (plus1 space) (phraseRx s) | [] \<Rightarrow> plus1 space)
      else Cat (Sym ((=) c)) (phraseRx s))"

definition containsNormalizedPhrase :: "jstr \<Rightarrow> jval \<Rightarrow> bool" where
  "containsNormalizedPhrase value expected =
     (let phrase = trim (normalizeText (text_of expected)) in
      phrase \<noteq> [] \<and> rx_test (cat [Or Bol nonword, phraseRx phrase, Or Eol nonword]) (normalizeText value))"

definition target_of :: "('z) assertion_body_scheme \<Rightarrow> jstr" where
  "target_of a = (case a_target a of None \<Rightarrow> [] | Some t \<Rightarrow> t)"

definition statusHolds :: "observation \<Rightarrow> jval \<Rightarrow> bool \<times> jstr" where
  "statusHolds ob expected =
     (let actual = group_of STATUS 1 (normalizeText (ob_body ob)) in (num_eq (string_to_number actual) (to_number expected), actual))"

definition jsonText :: "jstr \<Rightarrow> jstr" where
  "jsonText s = (case rx_exec (cat [lit ''{'', star (none_of []), lit ''}'']) s of None \<Rightarrow> [] | Some m \<Rightarrow> rm_text m)"

definition jsonHolds :: "observation \<Rightarrow> jstr \<Rightarrow> jval \<Rightarrow> bool \<times> jstr" where
  "jsonHolds ob target expected =
     (case json_parse (jsonText (ob_body ob)) of
        None \<Rightarrow> (False, [])
      | Some v \<Rightarrow> (let actual = to_string (js_coalesce (js_path v (split_on (CHR ''.'') target)) (JStr [])) in (actual = to_string expected, actual)))"

definition countMatches :: "jstr \<Rightarrow> element \<Rightarrow> bool" where
  "countMatches target e \<longleftrightarrow> el_visible e \<and>
     (target = [] \<or>
      (if CHR ''_'' \<in> set target then rx_test (cat [Or Bol space, lit target, Or Eol space]) (elementCorpus e)
       else str_includes (elementCorpus e) target))"

definition plainText :: "jstr \<Rightarrow> bool" where
  "plainText s \<longleftrightarrow> list_all (\<lambda>c. code_unit c \<noteq> 92 \<and> c \<notin> set ''^$.*+?()[]{}|'') s"

definition countExpression :: "(jstr \<Rightarrow> rx option) \<Rightarrow> jstr \<Rightarrow> rx option" where
  "countExpression regexp singular =
     (if plainText singular then Some (cat [WordB, Grp 1 (plus1 digit), plus1 space, lit singular, opt (lit ''s''), WordB])
      else regexp ([CHR 92] @ ''b('' @ [CHR 92] @ ''d+)'' @ [CHR 92] @ ''s+'' @ singular @ ''s?'' @ [CHR 92] @ ''b''))"

definition announcedCount :: "(jstr \<Rightarrow> rx option) \<Rightarrow> observation \<Rightarrow> jstr \<Rightarrow> nat option res" where
  "announcedCount regexp ob target =
     (case countExpression regexp (drop_s target) of
        None \<Rightarrow> Inl (Error ''Invalid regular expression'')
      | Some x \<Rightarrow> (let n = group_of x 1 (normalizeText (ob_body ob)) in Inr (if n = [] then None else Some (digits_val n))))"

definition countHolds :: "(jstr \<Rightarrow> rx option) \<Rightarrow> observation \<Rightarrow> ('z) assertion_body_scheme \<Rightarrow> (bool \<times> jstr) res" where
  "countHolds regexp ob a =
     (let target = normalizeText (target_of a);
          seen = length (filter (countMatches target) (ob_elements ob));
          judge = (\<lambda>count. ((if a_comparator a = Some At_least then num_le (to_number (a_expected a)) (Fin (of_nat count))
                             else num_eq (Fin (of_nat count)) (to_number (a_expected a))), nat_str count)) in
      if seen = 0 \<and> target \<noteq> []
      then map_ok (\<lambda>announced. judge (case announced of None \<Rightarrow> seen | Some n \<Rightarrow> n)) (announcedCount regexp ob target)
      else Inr (judge seen))"

definition bool_str :: "bool \<Rightarrow> jstr" where
  "bool_str b = (if b then ''true'' else ''false'')"

definition imagesHold :: "observation \<Rightarrow> bool \<times> jstr" where
  "imagesHold ob =
     (let images = filter (\<lambda>e. el_tag e = ''img'') (ob_elements ob);
          broken = filter (\<lambda>e. \<not> el_image_complete e \<or> el_natural_width e \<le> 0) images in
      (images \<noteq> [] \<and> broken = [], nat_str (length images - length broken) @ ''/'' @ nat_str (length images)))"

text \<open>What \<^verbatim>\<open>case\<close> decides for one assertion: whether it holds, and what was observed.\<close>

definition checkAssertion :: "(jstr \<Rightarrow> rx option) \<Rightarrow> jstr \<Rightarrow> observation \<Rightarrow> ('z) assertion_body_scheme \<Rightarrow> (bool \<times> jstr) res" where
  "checkAssertion regexp beforeUrl ob a =
     (let expected = normalizeText (text_of (a_expected a)); found = matchingElement ob (target_of a) in
      case a_type a of
        Text_contains \<Rightarrow> Inr (str_includes (pageCorpus ob) expected, [])
      | Text_contains_any \<Rightarrow>
          Inr (list_ex (\<lambda>v. str_includes (pageCorpus ob) (normalizeText v)) (case a_alternatives a of None \<Rightarrow> [] | Some xs \<Rightarrow> xs), [])
      | Element_contains \<Rightarrow>
          Inr (case found of None \<Rightarrow> (False, []) | Some e \<Rightarrow> (containsNormalizedPhrase (elementCorpus e) (a_expected a), elementCorpus e))
      | Url_matches \<Rightarrow> Inr (str_includes (normalizeText (ob_url ob)) expected, ob_url ob)
      | Url_not_matches \<Rightarrow> Inr (\<not> str_includes (normalizeText (ob_url ob)) expected, ob_url ob)
      | Url_changed \<Rightarrow> Inr (normalizeText beforeUrl \<noteq> normalizeText (ob_url ob), ob_url ob)
      | Http_status \<Rightarrow> Inr (statusHolds ob (a_expected a))
      | Json_field_equals \<Rightarrow> Inr (jsonHolds ob (target_of a) (a_expected a))
      | Element_count \<Rightarrow> countHolds regexp ob a
      | Field_required \<Rightarrow>
          Inr (case found of
                 None \<Rightarrow> (False, ''missing'')
               | Some e \<Rightarrow> (el_required e \<and> el_valid e = Some False,
                   bool_str (el_required e) @ ''/'' @ (case el_valid e of None \<Rightarrow> ''undefined'' | Some b \<Rightarrow> bool_str b)))
      | Option_selected \<Rightarrow>
          (let selected = (case found of None \<Rightarrow> [] | Some e \<Rightarrow> el_selected e) in
           Inr (list_ex (\<lambda>v. normalizeText v = expected) selected, join '','' selected))
      | Checkbox_checked \<Rightarrow> (let checked = (case found of None \<Rightarrow> False | Some e \<Rightarrow> el_checked e) in Inr (checked, bool_str checked))
      | Button_enabled \<Rightarrow> Inr (case found of None \<Rightarrow> (False, ''missing'') | Some e \<Rightarrow> (\<not> el_disabled e, bool_str (\<not> el_disabled e)))
      | Images_loaded \<Rightarrow> Inr (imagesHold ob)
      | Element_visible \<Rightarrow> Inr (found \<noteq> None, case found of None \<Rightarrow> [] | Some e \<Rightarrow> first_text [el_value e, el_text e])
      | Element_value \<Rightarrow>
          Inr (case found of
                 None \<Rightarrow> (False, [])
               | Some e \<Rightarrow> (el_value e = text_of (a_expected a), first_text [el_value e, el_text e])))"

definition resultOf :: "step_assertion \<Rightarrow> bool \<times> jstr \<Rightarrow> step_result" where
  "resultOf a = (\<lambda>(ok, actual).
     \<lparr>r_assertion = a, r_ok = ok,
      r_reason = type_name (a_type a) @ '' '' @ (if ok then ''cumplida'' else ''no cumplida'')
        @ (if actual = [] then [] else '' (observado: '' @ actual @ '')'')\<rparr>)"

definition evaluationReason :: "step_contract \<Rightarrow> step_result list \<Rightarrow> jstr" where
  "evaluationReason k results =
     (let failed = filter (\<lambda>r. \<not> r_ok r) results in
      if results = [] then ''El resultado esperado requiere auditoria semantica; no se reconocieron aserciones tipadas.''
      else if failed \<noteq> [] then join '' | '' (map r_reason failed)
      else if k_coverage k = Full then ''Contrato comprobado: '' @ nat_str (length results) @ '' asercion(es) cumplidas.''
      else ''Aserciones reconocidas cumplidas, pero quedan '' @ nat_str (length (k_unresolved k)) @ '' fragmento(s) para auditoria semantica.'')"

definition evaluateStepContract :: "(jstr \<Rightarrow> rx option) \<Rightarrow> step_contract \<Rightarrow> jstr \<Rightarrow> observation \<Rightarrow> evaluation res" where
  "evaluateStepContract regexp k beforeUrl ob =
     map_ok (\<lambda>results.
       let failed = filter (\<lambda>r. \<not> r_ok r) results in
       \<lparr>ev_ok = (failed = []), ev_conclusive = (failed \<noteq> [] \<or> k_coverage k = Full \<and> results \<noteq> []),
        ev_reason = evaluationReason k results, ev_results = results\<rparr>)
     (map_res (\<lambda>a. map_ok (resultOf a) (checkAssertion regexp beforeUrl ob a)) (k_assertions k))"

end
