(* ===== verification/StepPlanner.thy ===== *)
theory StepPlanner
  imports StepContract
begin

text \<open>
  \<^verbatim>\<open>engine/src/automation/context-data-interpreter.ts\<close> and \<^verbatim>\<open>execution-validation-planner.ts\<close>: the data of a step read as
  roles and values, and the plan that says how the result of a step is validated.
\<close>

section \<open>Step data as inputs\<close>

record resolved_input =
  ri_role :: jstr
  ri_value :: jstr
  ri_source :: jstr
  ri_hints :: jval
  ri_confidence :: int
  ri_masked :: bool

record step_context =
  sx_raw :: jstr
  sx_normalized :: jstr
  sx_inputs :: "resolved_input list"
  sx_ambiguities :: "jstr list"

definition enye :: jstr where "enye = [CHR 0xF1]"

definition ROLE_ALIASES :: "(jstr \<times> jstr list) list" where
  "ROLE_ALIASES =
     [(''username'', [''username'', ''user'', ''usuario'', ''usuaria'', ''login'', ''nombre de usuario'']),
      (''email'', [''email'', ''e-mail'', ''correo'', ''correo electronico'', ''mail'']),
      (''password'', [''password'', ''pass'', ''clave'', ''contrasena'', ''contrase'' @ enye @ ''a'']),
      (''search'', [''search'', ''buscar'', ''busqueda'', ''t'' @ [CHR 0xE9] @ ''rmino'', ''termino'', ''query'']),
      (''url'', [''url'', ''uri'', ''direccion'', ''direcci'' @ [CHR 0xF3] @ ''n'', ''base_url'', ''base url''])]"

definition normalizeKey :: "jstr \<Rightarrow> jstr" where
  "normalizeKey value = trim (squeeze (map (\<lambda>c. if c \<in> set ''_-'' then CHR '' '' else c) (toLowerCase (strip_marks value))))"

definition canonicalRole :: "jstr \<Rightarrow> jstr" where
  "canonicalRole key =
     (let normalized = normalizeKey key in
      case find (\<lambda>(role, aliases). normalized \<in> set aliases) ROLE_ALIASES of Some (role, _) \<Rightarrow> role | None \<Rightarrow> normalized)"

definition isSecretRole :: "jstr \<Rightarrow> bool" where
  "isSecretRole role \<longleftrightarrow> role \<in> {''password'', ''token'', ''secret''}"

definition letter :: "char \<Rightarrow> bool" where
  "letter c \<longleftrightarrow> (let n = code_unit c in
     65 \<le> n \<and> n \<le> 90 \<or> 97 \<le> n \<and> n \<le> 122 \<or> n \<in> {170, 181, 186} \<or> 192 \<le> n \<and> n \<le> 214 \<or> 216 \<le> n \<and> n \<le> 246 \<or> 248 \<le> n)"

definition key_char :: "char \<Rightarrow> bool" where
  "key_char c \<longleftrightarrow> letter c \<or> is_digit c \<or> c \<in> set '' _-''"

definition pairKey :: rx where
  "pairKey = Cat (Sym letter) (Rep 1 (Some 40) True (Sym key_char))"

definition pairStop :: "char \<Rightarrow> bool" where
  "pairStop c \<longleftrightarrow> c \<in> set '',;|'' \<or> code_unit c = 10"

definition in_value :: "char \<Rightarrow> bool" where
  "in_value c \<longleftrightarrow> \<not> pairStop c"

definition PAIR :: rx where
  "PAIR = cat [Grp 1 pairKey, star space, one_of '':='', star space, Grp 2 (lazy_plus (Sym in_value)),
     Look (alt [cat [plus1 space, pairKey, star space, one_of '':=''], Sym pairStop, Eol])]"

definition cap_text :: "rx_match \<Rightarrow> nat \<Rightarrow> jstr" where
  "cap_text m n = (case rx_cap m n of None \<Rightarrow> [] | Some t \<Rightarrow> t)"

definition parsePairs :: "jstr \<Rightarrow> (jstr \<times> jstr) list" where
  "parsePairs d =
     filter (\<lambda>(key, value). key \<noteq> [] \<and> value \<noteq> []) (map (\<lambda>(k, m). (trim (cap_text m 1), trim (cap_text m 2))) (rx_all PAIR d))"

definition plain_value :: "jval \<Rightarrow> jstr" where
  "plain_value v = (case v of JStr s \<Rightarrow> s | JNum n \<Rightarrow> num_str n | JBool b \<Rightarrow> bool_str b | _ \<Rightarrow> [])"

definition parseJsonPairs :: "jstr \<Rightarrow> (jstr \<times> jstr) list" where
  "parseJsonPairs d =
     (case json_parse d of
        Some (JObj o') \<Rightarrow> filter (\<lambda>(key, value). value \<noteq> []) (map (\<lambda>kv. (fst kv, plain_value (snd kv))) (js_entries o'))
      | _ \<Rightarrow> [])"

definition roleHints :: "jstr \<Rightarrow> jval" where
  "roleHints role =
     (case map_of ROLE_ALIASES role of
        Some aliases \<Rightarrow> JArr (map JStr aliases)
      | None \<Rightarrow> if role \<in> set object_proto then JHost role else JArr [JStr role])"

definition input_of :: "jstr \<Rightarrow> jstr \<Rightarrow> jstr \<Rightarrow> int \<Rightarrow> resolved_input" where
  "input_of role value source confidence' =
     \<lparr>ri_role = role, ri_value = value, ri_source = source, ri_hints = roleHints role, ri_confidence = confidence', ri_masked = isSecretRole role\<rparr>"

text \<open>The loop over the pairs of the data: a role with the same value is taken once.\<close>

definition addPair :: "jstr \<Rightarrow> resolved_input list \<Rightarrow> jstr \<times> jstr \<Rightarrow> resolved_input list" where
  "addPair source inputs = (\<lambda>(key, value).
     let role = canonicalRole key in
     if list_ex (\<lambda>i. ri_role i @ '':'' @ ri_value i = role @ '':'' @ value) inputs then inputs
     else inputs @ [input_of role value source 100])"

text \<open>The loop over a source of the context: a role that is already known is not overwritten.\<close>

definition addContextValue :: "jstr \<Rightarrow> resolved_input list \<Rightarrow> jstr \<times> jval \<Rightarrow> resolved_input list" where
  "addContextValue source inputs = (\<lambda>(key, raw).
     if nullish raw \<or> is_object raw then inputs
     else let role = canonicalRole key; t = trim (to_string raw) in
       if list_ex (\<lambda>i. ri_role i = role) inputs \<or> t = [] then inputs else inputs @ [input_of role t source 90])"

definition addContextSource :: "resolved_input list \<Rightarrow> jstr \<times> jval \<Rightarrow> resolved_input list" where
  "addContextSource inputs = (\<lambda>(source, v). if is_object v then foldl (addContextValue source) inputs (js_entries (own_props v)) else inputs)"

definition interpretStepData :: "jstr \<Rightarrow> jval \<Rightarrow> jstr \<Rightarrow> step_context" where
  "interpretStepData d context' source =
     (let rawData = trim d; pairs = parseJsonPairs rawData @ parsePairs rawData;
          inputs = foldl addContextSource (foldl (addPair source) [] pairs)
            [(''case.data'', js_get context' ''datos_caso''), (''dataset'', js_get context' ''dataset''),
             (''environment'', js_get context' ''environment''), (''variables'', js_get context' ''variables'')] in
      \<lparr>sx_raw = rawData, sx_normalized = join ''; '' (map (\<lambda>i. ri_role i @ ''='' @ ri_value i) inputs), sx_inputs = inputs,
       sx_ambiguities = (if rawData \<noteq> [] \<and> pairs = [] \<and> inputs = []
         then [''No se pudo identificar una clave y un valor en los datos del paso.''] else [])\<rparr>)"

definition valueForRole :: "step_context \<Rightarrow> jstr list \<Rightarrow> jstr option" where
  "valueForRole resolved roles =
     map_option ri_value (find (\<lambda>i. ri_role i \<in> set (map canonicalRole roles)) (sx_inputs resolved))"

definition redactInput :: "jstr \<Rightarrow> jstr \<Rightarrow> jstr" where
  "redactInput value role = (if isSecretRole role then ''********'' else value)"

definition displayResolvedInput :: "resolved_input \<Rightarrow> jstr" where
  "displayResolvedInput i = ri_role i @ '': '' @ redactInput (ri_value i) (ri_role i)"

section \<open>The plan of a step\<close>

text \<open>What the planner reads from the step.\<close>

record step_text =
  t_expected :: jstr
  t_text :: jstr
  t_expected_text :: jstr
  t_action :: jstr
  t_data :: jstr
  t_structured :: "(jstr \<times> jstr) list"

definition stepText :: "('z) qa_step_scheme \<Rightarrow> step_text" where
  "stepText step =
     (let expected = trim (q_expected step) in
      \<lparr>t_expected = expected, t_text = normalizeText (q_action step @ '' '' @ q_data step @ '' '' @ expected),
       t_expected_text = normalizeText expected, t_action = normalizeText (q_action step), t_data = trim (q_data step),
       t_structured = parseStepData (trim (q_data step))\<rparr>)"

definition plan_assertion :: "assertion_type \<Rightarrow> jstr \<Rightarrow> jstr \<Rightarrow> jval \<Rightarrow> assertion_body" where
  "plan_assertion t source target expected =
     body t source\<lparr>a_target := (if target = [] then None else Some target), a_expected := expected\<rparr>"

fun first_some :: "jstr option list \<Rightarrow> jstr \<Rightarrow> jstr" where
  "first_some [] d = d"
| "first_some (Some v # vs) d = v"
| "first_some (None # vs) d = first_some vs d"

definition first_key :: "(jstr \<times> jstr) list \<Rightarrow> jstr list \<Rightarrow> jstr option list" where
  "first_key d keys = map (map_of d) keys"

definition word_of :: "jstr list \<Rightarrow> rx" where
  "word_of ws = cat [WordB, words ws, WordB]"

definition contrasena :: "jstr list" where
  "contrasena = [''password'', ''contrasena'', ''contrase'' @ enye @ ''a'', ''clave'']"

definition USERNAME :: rx where
  "USERNAME = word_of [''username'', ''usuario'', ''user'', ''correo'', ''email'']"

definition PASSWORD :: rx where
  "PASSWORD = word_of contrasena"

definition LOGIN_FORM :: rx where
  "LOGIN_FORM = either_order [''formulario'', ''pantalla'', ''pagina''] [''acceso'', ''inicio de sesion'', ''login'']"

definition LOGIN_BUTTON :: rx where
  "LOGIN_BUTTON = Or (cat [WordB, words [''boton'', ''button''], gap, words [''login'', ''iniciar sesion'']])
     (cat [words [''login'', ''iniciar sesion''], gap, words [''boton'', ''button'']])"

definition loginStage :: "step_text \<Rightarrow> assertion_body list" where
  "loginStage t =
     (let source = t_expected t; username = rx_test USERNAME (t_text t); password = rx_test PASSWORD (t_text t) in
      if rx_test LOGIN_FORM (t_text t) \<and> (username \<or> password) then
        (if username then [plan_assertion Element_visible source ''username'' JUndef] else [])
        @ (if password then [plan_assertion Element_visible source ''password'' JUndef] else [])
        @ (if rx_test LOGIN_BUTTON (t_text t)
           then [plan_assertion (if rx_test (lit ''habilitad'') (t_text t) then Button_enabled else Element_visible) source ''login'' JUndef] else [])
      else [])"

definition FIELD_VALUE :: rx where
  "FIELD_VALUE =
     (let field = words ([''username'', ''usuario'', ''user'', ''correo'', ''email''] @ contrasena);
          shows = words [''muestra'', ''queda'', ''conserva'', ''contiene'', ''completad''] in
      Or (cat [words [''campo'', ''input'', ''control''], plus1 space, field, lazy_star any_char, shows]) (cat [field, plus1 space, shows]))"

definition writesValue :: "jstr \<Rightarrow> bool" where
  "writesValue action \<longleftrightarrow>
     rx_test (words [''escribir'', ''ingresar'', ''completar'', ''introducir'', ''cargar'', ''type'']) action \<and>
     \<not> rx_test (lit ''sin completar'') action"

definition slashParts :: "jstr \<Rightarrow> jstr list" where
  "slashParts d = nonblank (map trim (split_on (CHR ''/'') d))"

definition explicitInput :: "step_text \<Rightarrow> jstr option list" where
  "explicitInput t = first_key (t_structured t) [''value'', ''input'', ''text'']"

definition conventionalField :: "jstr \<Rightarrow> jstr option" where
  "conventionalField t =
     map_option fst (find (\<lambda>(field, x). rx_test x t)
       [(''first name'', cat [WordB, lit ''first'', star space, lit ''name'', WordB]),
        (''last name'', cat [WordB, lit ''last'', star space, lit ''name'', WordB]),
        (''postal code'', cat [WordB, alt [cat [lit ''postal'', star space, lit ''code''], cat [lit ''zip'', star space, lit ''code''],
           cat [lit ''codigo'', star space, lit ''postal'']], WordB])])"

definition valueStage :: "step_text \<Rightarrow> assertion_body list" where
  "valueStage t =
     (let resolved = interpretStepData (t_data t) (JObj []) ''step.data''; d = t_structured t in
      if t_data t \<noteq> [] \<and> (rx_test FIELD_VALUE (t_text t) \<or> writesValue (t_action t)) \<and> length (slashParts (t_data t)) \<noteq> 2 then
        if rx_test USERNAME (t_text t) then
          [plan_assertion Element_value (t_expected t) ''username''
             (JStr (first_some (explicitInput t @ valueForRole resolved [''username'', ''email''] # first_key d [''username'', ''usuario'', ''user'', ''email'', ''login'']) (t_data t)))]
        else if rx_test PASSWORD (t_text t) then
          [plan_assertion Element_value (t_expected t) ''password''
             (JStr (first_some (explicitInput t @ valueForRole resolved [''password'']
                # first_key d [''password'', ''contrasena'', ''contrase'' @ enye @ ''a'', ''pass'']) (t_data t)))]
        else case conventionalField (t_text t) of
          None \<Rightarrow> []
        | Some target \<Rightarrow>
            if list_all (\<lambda>v. v = None) (explicitInput t) then []
            else [plan_assertion Element_value (t_expected t) target (JStr (first_some (explicitInput t) []))]
      else [])"

definition credentialsStage :: "step_text \<Rightarrow> assertion_body list" where
  "credentialsStage t =
     (case slashParts (t_data t) of
        [user, pass] \<Rightarrow>
          if rx_test (words [''ingresar'', ''escribir'', ''introducir'', ''completar'']) (t_action t) \<and>
             rx_test (either_order [''usuario'', ''username'', ''user''] [''clave'', ''password'', ''contrasena'']) (t_text t)
          then [plan_assertion Element_value (t_expected t) ''username'' (JStr user), plan_assertion Element_value (t_expected t) ''password'' (JStr pass)]
          else []
      | _ \<Rightarrow> [])"

definition checkoutStage :: "step_text \<Rightarrow> assertion_body list" where
  "checkoutStage t =
     (case slashParts (t_data t) of
        first # last' # postal # _ \<Rightarrow>
          if rx_test (words [''tres campos'', ''first name'', ''last name'', ''postal code'', ''codigo postal'']) (t_text t)
          then map (\<lambda>(target, v). plan_assertion Element_value (t_expected t) target (JStr v))
            [(''first name'', first), (''last name'', last'), (''postal code'', postal)]
          else []
      | _ \<Rightarrow> [])"

definition loginErrorStage :: "step_text \<Rightarrow> assertion_body list" where
  "loginErrorStage t =
     (if rx_test (words [''epic sadface'', ''locked out'', ''do not match'', ''username is required'']) (t_expected_text t)
      then [body Text_contains_any (t_expected t)\<lparr>a_alternatives := Some [''epic sadface'', ''username and password do not match'',
        ''sorry, this user has been locked out'', ''username is required'']\<rparr>]
      else [])"

definition absent :: "step_text \<Rightarrow> jstr \<Rightarrow> assertion_body" where
  "absent t target = plan_assertion Element_count (t_expected t) target (num 0)\<lparr>a_comparator := Some Equals\<rparr>"

definition errorGoneStage :: "step_text \<Rightarrow> assertion_body list" where
  "errorGoneStage t =
     (if rx_test (cat [words [''mensaje'', ''alerta''], gap, lit ''error'', gap,
          alt [lit ''deja de estar visible'', lit ''desaparece'', cat [lit ''no'', gap, lit ''visible'']]]) (t_expected_text t)
      then [absent t ''error-button''] else [])"

definition logoutStage :: "step_text \<Rightarrow> assertion_body list" where
  "logoutStage t =
     (let logout = words [''logout'', ''cerrar sesion'']; shown = words [''visible'', ''muestra''] in
      if rx_test (Or (cat [words [''opcion'', ''boton'', ''enlace''], gap, logout, gap, shown]) (cat [logout, gap, shown])) (t_expected_text t)
      then [plan_assertion Element_visible (t_expected t) ''logout'' JUndef] else [])"

definition RETURNS_TO_LOGIN :: rx where
  "RETURNS_TO_LOGIN = cat [words [''url'', ''direccion''], gap, words [''vuelve'', ''regresa'', ''retorna''], lazy_star any_char,
     alt [word_of [''inicio''], word_of [''login''], cat [WordB, lit ''a'', plus1 space, lit ''/'', star space, Or (one_of ''.!'') Eol]]]"

definition returnStage :: "step_text \<Rightarrow> assertion_body list" where
  "returnStage t =
     (let returns = rx_test RETURNS_TO_LOGIN (t_expected_text t) in
      if returns \<or> rx_test (cat [lit ''username'', gap, lit ''visible'']) (t_expected_text t)
      then plan_assertion Element_visible (t_expected t) ''username'' JUndef
        # (if returns then [plan_assertion Url_matches (t_expected t) [] (JStr ''/'')] else [])
      else [])"

definition URL_TARGET :: rx where
  "URL_TARGET = cat [lit ''/'', star (Cat (plus1 (word_or ''.-'')) (lit ''/'')), plus1 (word_or ''.-''), opt (Cat (lit ''?'') (plus1 (word_or ''=&.-'')))]"

definition urlStage :: "step_text \<Rightarrow> assertion_body list" where
  "urlStage t =
     (case rx_exec URL_TARGET (t_expected t) of
        Some m \<Rightarrow>
          if rx_test (word_of [''url'']) (t_text t) then
            [plan_assertion
               (if rx_test (Or (cat [WordB, lit ''no'', plus1 space, words [''termina'', ''incluye'', ''contiene'']]) (lit ''no termina'')) (t_text t)
                then Url_not_matches else Url_matches)
               (t_expected t) [] (JStr (strip_end (\<lambda>c. c \<in> set ''.,;:'') (rm_text m)))]
          else []
      | None \<Rightarrow> [])"

definition detailStage :: "step_text \<Rightarrow> assertion_body list" where
  "detailStage t =
     (if rx_test (Or (cat [words [''abrir'', ''detalle''], gap, words [''producto'', ''sauce'']]) (cat [words [''producto'', ''sauce''], gap, lit ''detalle''])) (t_text t) \<and>
         rx_test (cat [words [''visualiza'', ''muestra''], gap, lit ''detalle'']) (t_expected_text t)
      then [plan_assertion Url_matches (t_expected t) [] (JStr ''inventory-item.html'')] else [])"

text \<open>The first comma becomes a point, and a price with two decimals.\<close>

fun replace_first :: "char \<Rightarrow> jstr \<Rightarrow> jstr \<Rightarrow> jstr" where
  "replace_first c t [] = []"
| "replace_first c t (d # s) = (if d = c then t @ s else d # replace_first c t s)"

definition price :: rx where
  "price = Cat (plus1 digit) (opt (Cat (one_of ''.,'') (Rep 2 (Some 2) True digit)))"

definition decimal_point :: "jstr \<Rightarrow> jstr" where
  "decimal_point s = replace_first (CHR '','') ''.'' s"

definition FIRST_PRODUCT :: rx where
  "FIRST_PRODUCT = ignore_case (cat [lit ''primer producto visible es'', plus1 space, Grp 1 (lazy_plus any_char), plus1 space, lit ''con precio'', plus1 space,
     Grp 2 (Cat (opt (lit ''$'')) price)])"

definition FIRST_VISIBLE :: rx where
  "FIRST_VISIBLE = ignore_case (cat [lit ''primer producto visible es'', plus1 space, Grp 1 (lazy_plus any_char), opt (one_of ''.!''), star space, Eol])"

definition NAME_AND_PRICE :: rx where
  "NAME_AND_PRICE = ignore_case (cat [lit ''se muestran'', plus1 space, Grp 1 (lazy_plus any_char), plus1 space, lit ''y'', plus1 space, Grp 2 (Cat (lit ''$'') price)])"

definition VISIBLE_PAIR :: rx where
  "VISIBLE_PAIR = ignore_case (cat [opt (Cat (lit ''se'') (plus1 space)), lit ''visualizan'', plus1 space, Grp 1 (lazy_plus any_char), plus1 space, lit ''y'', plus1 space,
     Grp 2 (lazy_plus any_char), opt (one_of ''.!''), Eol])"

definition EXACT_PRICE :: rx where
  "EXACT_PRICE = ignore_case (cat [words [''muestra'', ''precio''], lazy_star any_char, Grp 1 (Cat (lit ''$'') price)])"

definition PRODUCT_COUNT :: rx where
  "PRODUCT_COUNT = ignore_case (cat [WordB, Grp 1 (plus1 digit), plus1 space, Or (Cat (lit ''tarjeta'') (opt (lit ''s''))) (Cat (lit ''producto'') (opt (lit ''s''))),
     plus1 space, lit ''de'', plus1 space, lit ''producto''])"

text \<open>Two texts that must both be visible, when the expression finds two groups.\<close>

definition pairStage :: "rx \<Rightarrow> (jstr \<Rightarrow> jstr) \<Rightarrow> step_text \<Rightarrow> assertion_body list" where
  "pairStage x second t =
     (let a = group_of x 1 (t_expected t); b = group_of x 2 (t_expected t) in
      if a = [] \<or> b = [] then []
      else [plan_assertion Text_contains (t_expected t) [] (JStr (trim a)), plan_assertion Text_contains (t_expected t) [] (JStr (second b))])"

definition firstVisibleStage :: "step_text \<Rightarrow> assertion_body list" where
  "firstVisibleStage t =
     (let a = group_of FIRST_VISIBLE 1 (t_expected t) in
      if a = [] then [] else [plan_assertion Element_contains (t_expected t) ''inventory_item'' (JStr (trim a))])"

definition priceStage :: "step_text \<Rightarrow> assertion_body list" where
  "priceStage t =
     (let a = group_of EXACT_PRICE 1 (t_expected t) in
      if a = [] then [] else [plan_assertion Text_contains (t_expected t) [] (JStr (decimal_point (replace_first (CHR ''$'') [] a)))])"

definition productCountStage :: "step_text \<Rightarrow> assertion_body list" where
  "productCountStage t =
     (let n = group_of PRODUCT_COUNT 1 (t_expected t) in
      if n = [] then []
      else [plan_assertion Element_count (t_expected t) ''inventory_item'' (JNum (string_to_number n))\<lparr>a_comparator := Some Equals\<rparr>])"

definition cartStage :: "step_text \<Rightarrow> assertion_body list" where
  "cartStage t =
     (let e = t_expected_text t;
          expectsRemove = rx_test (Or (cat [lit ''boton'', gap, words [''cambia'', ''muestra'', ''queda''], gap, word_of [''remove'']])
             (cat [word_of [''remove''], gap, words [''visible'', ''muestra'']])) e;
          expectsAddToCart = rx_test (Or (cat [lit ''boton'', gap, words [''vuelve'', ''cambia'', ''muestra'', ''queda''], gap, lit ''add to cart''])
             (cat [lit ''add to cart'', gap, words [''visible'', ''muestra'']])) e;
          badgeCount = group_of (ignore_case (cat [lit ''badge'', lazy_star any_char, words [''muestra'', ''indica'', ''tiene'', ''con''], star space,
             Grp 1 (plus1 digit)])) 1 (t_expected t);
          badgeDisappears = rx_test (cat [lit ''badge'', gap, words [''desaparece'', ''no aparece'', ''no se muestra'', ''oculta'']]) e in
      (if expectsRemove then [plan_assertion Element_visible (t_expected t) ''remove'' JUndef] else [])
      @ (if expectsAddToCart then [plan_assertion Element_visible (t_expected t) ''add to cart'' JUndef] else [])
      @ (if badgeCount \<noteq> [] then [plan_assertion Element_contains (t_expected t) ''badge'' (JStr badgeCount)] else [])
      @ (if badgeDisappears then [absent t ''badge''] else []))"

text \<open>Every stage runs only when the ones before it gave nothing.\<close>

definition planStages :: "step_text \<Rightarrow> assertion_body list list" where
  "planStages t =
     [loginStage t, valueStage t, credentialsStage t, checkoutStage t, loginErrorStage t, errorGoneStage t, logoutStage t, returnStage t,
      urlStage t, detailStage t, pairStage FIRST_PRODUCT decimal_point t, firstVisibleStage t, pairStage NAME_AND_PRICE decimal_point t,
      pairStage VISIBLE_PAIR trim t, priceStage t, productCountStage t, cartStage t]"

fun first_nonempty :: "'a list list \<Rightarrow> 'a list" where
  "first_nonempty [] = []"
| "first_nonempty (xs # xss) = (if xs \<noteq> [] then xs else first_nonempty xss)"

definition planStep :: "('z) qa_step_scheme \<Rightarrow> validation_plan" where
  "planStep step =
     (case semanticEvidenceRequirement step of
        Some requirement \<Rightarrow> \<lparr>p_mode = Visual_semantic, p_assertions = [], p_reason = requirement, p_confidence = 0\<rparr>
      | None \<Rightarrow>
          (let t = stepText step; assertions = first_nonempty (planStages t); legacy = parsedContract step in
           if assertions = [] \<and> k_coverage legacy = Full \<and> k_assertions legacy \<noteq> [] then
             \<lparr>p_mode = Dom, p_assertions = map body_of (k_assertions legacy),
              p_reason = ''El analista reutilizo aserciones estructuradas verificables.'', p_confidence = 98\<rparr>
           else if assertions \<noteq> [] then
             \<lparr>p_mode = Dom, p_assertions = assertions,
              p_reason = ''El resultado esperado describe controles visibles; se validan los controles, no la redaccion literal.'', p_confidence = 96\<rparr>
           else
             \<lparr>p_mode = Visual_semantic, p_assertions = [],
              p_reason = (if t_expected t \<noteq> [] then ''El resultado esperado requiere interpretacion semantica o visual durante la auditoria.''
                          else ''El paso no define un resultado esperado verificable.''),
              p_confidence = (if t_expected t \<noteq> [] then 70 else 100)\<rparr>))"

definition planExecutionValidation :: "planned_step list \<Rightarrow> planned_step list" where
  "planExecutionValidation steps = map (\<lambda>step. step\<lparr>q_plan := Some (planStep step)\<rparr>) steps"

end
