(* ===== verification/StepDataProofs.thy ===== *)
theory StepDataProofs
  imports StepPlanner
begin

text \<open>
  The key-value data of a step: what is written as \<^verbatim>\<open>key=value; key=value\<close> is read back, which rests on the outcomes of the
  expression for keys.
\<close>

section \<open>Runs of simple expressions\<close>

fun greedy :: "(char \<Rightarrow> bool) \<Rightarrow> char option \<Rightarrow> jstr \<Rightarrow> capture list \<Rightarrow> rx_pos list" where
  "greedy p b [] cs = [(b, [], cs)]"
| "greedy p b (c # r) cs = (if p c then greedy p (Some c) r cs @ [(b, c # r, cs)] else [(b, c # r, cs)])"

lemma optional_sym:
  "length r \<le> n \<Longrightarrow> optional (\<lambda>(b, r, cs). runs (Sym p) (b, r, cs)) True n (b, r, cs) = greedy p b r cs"
proof (induction n arbitrary: b r)
  case (Suc n)
  show ?case
  proof (cases r)
    case (Cons c s)
    with Suc show ?thesis by (cases "p c") simp_all
  qed simp
qed simp

lemma runs_star_sym: "runs (star (Sym p)) (b, r, cs) = greedy p b r cs"
  using optional_sym [of r "length r" p b cs] by simp

definition before :: "char option \<Rightarrow> jstr \<Rightarrow> char option" where
  "before b u = (if u = [] then b else Some (last u))"

lemma greedy_hd: "\<exists>sts. greedy p b r cs = (before b (takeWhile p r), dropWhile p r, cs) # sts"
proof (induction r arbitrary: b)
  case (Cons c r)
  then obtain sts where "greedy p (Some c) r cs = (before (Some c) (takeWhile p r), dropWhile p r, cs) # sts" by blast
  then show ?case by (simp add: before_def)
qed (simp add: before_def)

lemma greedy_elem: "st \<in> set (greedy p b r cs) \<Longrightarrow> \<exists>u v b'. r = u @ v \<and> list_all p u \<and> st = (b', v, cs)"
proof (induction r arbitrary: b)
  case (Cons c r)
  consider "p c" "st \<in> set (greedy p (Some c) r cs)" | "st = (b, c # r, cs)" using Cons.prems by (auto split: if_splits)
  then show ?case
  proof cases
    case 1
    from Cons.IH [OF 1(2)] obtain u v b' where "r = u @ v" "list_all p u" "st = (b', v, cs)" by blast
    with 1(1) have "c # r = (c # u) @ v \<and> list_all p (c # u) \<and> st = (b', v, cs)" by simp
    then show ?thesis by blast
  next
    case 2
    then have "c # r = [] @ (c # r) \<and> list_all p [] \<and> st = (b, c # r, cs)" by simp
    then show ?thesis by blast
  qed
qed simp

section \<open>Keys\<close>

definition name_char :: "char \<Rightarrow> bool" where
  "name_char c \<longleftrightarrow> is_word c \<or> c \<in> set ''.-''"

definition separator :: "char \<Rightarrow> bool" where
  "separator c \<longleftrightarrow> c \<in> set '':=''"

lemma keyPattern_unfold:
  "runs keyPattern (b, r, cs) =
     (if word_before b \<noteq> word_before (case r of [] \<Rightarrow> None | c # _ \<Rightarrow> Some c) then
        concat (map (\<lambda>(b', r', cs').
            concat (map (\<lambda>(b2, r2, cs2). (case r2 of [] \<Rightarrow> [] | c # r3 \<Rightarrow> if separator c then greedy is_space (Some c) r3 cs2 else []))
              (greedy is_space b' r' ((1, take (length r - length r') r) # cs'))))
          (case r of [] \<Rightarrow> [] | c # s \<Rightarrow> if key_start c then greedy name_char (Some c) s cs else []))
      else [])"
proof -
  have w: "word_in ''.-'' = name_char" "is_in '':='' = separator"
    by (simp_all add: fun_eq_iff word_in_def name_char_def is_in_def separator_def)
  have c: "concat (map g (concat (map f xs))) = concat (map (\<lambda>x. concat (map g (f x))) xs)"
    for g :: "rx_pos \<Rightarrow> rx_pos list" and f :: "rx_pos \<Rightarrow> rx_pos list" and xs by (induction xs) simp_all
  have sep: "concat (map (runs (star (Sym is_space))) (case s of [] \<Rightarrow> [] | c # r' \<Rightarrow> if separator c then [(Some c, r', ds)] else [])) =
      (case s of [] \<Rightarrow> [] | c # r' \<Rightarrow> if separator c then greedy is_space (Some c) r' ds else [])" for s ds
    by (cases s) (simp_all add: runs_star_sym del: runs.simps(5))
  show ?thesis
    unfolding keyPattern_def word_or_def one_of_def space_def cat.simps w
    by (cases r) (auto simp: runs_star_sym c sep comp_def case_prod_unfold simp del: runs.simps(5) intro!: arg_cong [where f = concat] map_cong split: list.split list.split_asm if_split_asm)
qed

text \<open>A match of a key needs a separator after name characters and white space.\<close>

lemma keyPattern_elem:
  assumes "st \<in> set (runs keyPattern (b, r, cs))"
  shows "\<exists>u c v. r = u @ c # v \<and> list_all (\<lambda>x. name_char x \<or> is_space x) u \<and> separator c"
proof -
  obtain a s where r: "r = a # s" "key_start a"
    using assms by (cases r) (auto simp: keyPattern_unfold split: if_splits)
  obtain b1 r1 cs1 b2 r2 cs2 c v where 1: "(b1, r1, cs1) \<in> set (greedy name_char (Some a) s cs)"
      "(b2, r2, cs2) \<in> set (greedy is_space b1 r1 ((1, take (length r - length r1) r) # cs1))" "r2 = c # v" "separator c"
    using assms r by (fastforce simp: keyPattern_unfold split: if_splits list.splits)
  obtain u1 u2 where "s = u1 @ r1" "list_all name_char u1" "r1 = u2 @ r2" "list_all is_space u2"
    using greedy_elem [OF 1(1)] greedy_elem [OF 1(2)] by blast
  with r 1 have "r = (a # u1 @ u2) @ c # v \<and> list_all (\<lambda>x. name_char x \<or> is_space x) (a # u1 @ u2)"
    by (auto simp: list_all_iff name_char_def key_start_def)
  with 1(4) show ?thesis by blast
qed

text \<open>Text without separators up to a semicolon holds no key.\<close>

lemma no_key:
  assumes "list_all (\<lambda>c. \<not> separator c) u" "s = [] \<or> hd s = CHR '';''"
  shows "runs keyPattern (b, u @ s, cs) = []"
proof (rule ccontr)
  assume "runs keyPattern (b, u @ s, cs) \<noteq> []"
  then obtain st where "st \<in> set (runs keyPattern (b, u @ s, cs))" by (meson hd_in_set)
  from keyPattern_elem [OF this] obtain w c v where
    w: "u @ s = w @ c # v" "list_all (\<lambda>x. name_char x \<or> is_space x) w" "separator c" by blast
  have "c \<in> set u \<or> CHR '';'' \<in> set w \<or> s \<noteq> [] \<and> hd s = c"
  proof -
    from w(1) consider us where "u = w @ us" "us @ s = c # v" | us where "w = u @ us" "s = us @ c # v"
      by (auto simp: append_eq_append_conv2)
    then show ?thesis
    proof cases
      case (1 us)
      then show ?thesis by (cases us) auto
    next
      case (2 us)
      with assms(2) show ?thesis by (cases us) auto
    qed
  qed
  moreover have "\<not> (name_char (CHR '';'') \<or> is_space (CHR '';''))" "\<not> separator (CHR '';'')" by code_simp+
  ultimately show False using assms w by (auto simp: list_all_iff)
qed

definition plain_key :: "jstr \<Rightarrow> bool" where
  "plain_key k \<longleftrightarrow> k \<noteq> [] \<and> key_start (hd k) \<and> list_all name_char k \<and> toLowerCase k = k \<and> k \<noteq> ''__proto__''"

definition plain_data :: "jstr \<Rightarrow> bool" where
  "plain_data v \<longleftrightarrow> v \<noteq> [] \<and> list_all (\<lambda>c. \<not> separator c \<and> c \<noteq> CHR '';'') v \<and> \<not> is_space (hd v) \<and> \<not> is_space (last v) \<and>
     last v \<noteq> CHR '','' \<and> hd v \<notin> {CHR 34, CHR 39}"

lemma key_run:
  assumes "plain_key k" "word_before b = False" "s \<noteq> []" "\<not> is_space (hd s)"
  shows "\<exists>sts. runs keyPattern (b, k @ ''='' @ s, []) = (Some (CHR ''=''), s, [(1, k)]) # sts"
proof -
  obtain a u where k: "k = a # u" "key_start a" "list_all name_char u" using assms(1) by (cases k) (auto simp: plain_key_def)
  have eq: "\<not> name_char (CHR ''='')" "\<not> is_space (CHR ''='')" "separator (CHR ''='')" by code_simp+
  have t: "takeWhile name_char (u @ ''='' @ s) = u" "dropWhile name_char (u @ ''='' @ s) = ''='' @ s"
    using k(3) eq(1) by (simp_all add: takeWhile_append2 dropWhile_append2 list_all_iff)
  obtain sts where n: "greedy name_char (Some a) (u @ ''='' @ s) [] = (before (Some a) u, ''='' @ s, []) # sts"
    using greedy_hd [of name_char "Some a" "u @ ''='' @ s" "[]"] unfolding t by blast
  have sp: "greedy is_space b' (c # x) cs = [(b', c # x, cs)]" if "\<not> is_space c" for b' c x cs using that by simp
  have w: "word_before (Some a)" using k(2) by (simp add: word_before_def key_start_def)
  have h: "greedy is_space (Some (CHR ''='')) s cs = [(Some (CHR ''=''), s, cs)]" for cs using assms(3,4) by (cases s) simp_all
  show ?thesis
    unfolding keyPattern_unfold k(1) using k(2) w assms(2) n eq
    by (simp add: h)
qed

section \<open>Reading data\<close>

lemma rx_from_skip:
  assumes "\<And>i b'. i < length u \<Longrightarrow> runs x (b', drop i u @ s, []) = []"
  shows "rx_from x b (u @ s) = map_option (\<lambda>m. m\<lparr>rm_skipped := u @ rm_skipped m\<rparr>) (rx_from x (before b u) s)"
  using assms
proof (induction u arbitrary: b)
  case Nil
  then show ?case by (cases "rx_from x b s") (simp_all add: before_def)
next
  case (Cons c u)
  have "runs x (b, c # u @ s, []) = []" using Cons.prems [of 0] by simp
  moreover have "runs x (b', drop i u @ s, []) = []" if "i < length u" for i b' using Cons.prems [of "Suc i" b'] that by simp
  moreover have "before (Some c) u = before b (c # u)" by (simp add: before_def)
  ultimately show ?case using Cons.IH [of "Some c"] by (simp add: option.map_comp comp_def)
qed

definition match_of :: "jstr \<Rightarrow> jstr \<Rightarrow> jstr \<Rightarrow> rx_match" where
  "match_of u k s = \<lparr>rm_skipped = u, rm_text = k @ ''='', rm_caps = [(1, k)], rm_before = Some (CHR ''=''), rm_rest = s\<rparr>"

lemma rx_from_key:
  assumes "plain_key k" "\<not> word_before b" "s \<noteq> []" "\<not> is_space (hd s)"
  shows "rx_from keyPattern b (k @ ''='' @ s) = Some (match_of [] k s)"
proof -
  obtain sts where "runs keyPattern (b, k @ ''='' @ s, []) = (Some (CHR ''=''), s, [(1, k)]) # sts" using key_run assms by blast
  moreover obtain a u where "k = a # u" using assms(1) by (cases k) (auto simp: plain_key_def)
  ultimately show ?thesis by (simp add: match_of_def)
qed

lemma no_key_value:
  assumes "list_all (\<lambda>c. \<not> separator c \<and> c \<noteq> CHR '';'') v" "i < length v + 2"
  shows "runs keyPattern (b, drop i (v @ ''; '') @ s, []) = []"
proof (cases "i \<le> length v")
  case True
  then have "drop i (v @ ''; '') @ s = drop i v @ (''; '' @ s)" by simp
  moreover have "list_all (\<lambda>c. \<not> separator c) (drop i v)" using assms(1) by (auto simp: list_all_iff dest: in_set_dropD)
  ultimately show ?thesis using no_key [of "drop i v" "''; '' @ s" b "[]"] by simp
next
  case False
  then have "i = Suc (length v)" using assms(2) by simp
  moreover have "\<not> key_start (CHR '' '')" by code_simp
  ultimately show ?thesis by (simp add: keyPattern_unfold)
qed

definition written :: "(jstr \<times> jstr) list \<Rightarrow> jstr" where
  "written kvs = join ''; '' (map (\<lambda>(k, v). k @ ''='' @ v) kvs)"

definition after :: "(jstr \<times> jstr) list \<Rightarrow> jstr" where
  "after kvs = (if kvs = [] then [] else ''; '' @ written kvs)"

lemma written_Cons: "written ((k, v) # kvs) = k @ ''='' @ v @ after kvs"
  by (cases kvs) (simp_all add: after_def written_def)

fun data_matches :: "nat \<Rightarrow> jstr \<Rightarrow> (jstr \<times> jstr) list \<Rightarrow> (nat \<times> rx_match) list" where
  "data_matches i u [] = []"
| "data_matches i u ((k, v) # kvs) =
     (i + length u, match_of u k (v @ after kvs)) # data_matches (i + length u + length k + 1) (v @ ''; '') kvs"

definition gap_before :: "char option \<Rightarrow> jstr \<Rightarrow> bool" where
  "gap_before b u \<longleftrightarrow> u = [] \<and> \<not> word_before b \<or> (\<exists>v. u = v @ ''; '' \<and> list_all (\<lambda>c. \<not> separator c \<and> c \<noteq> CHR '';'') v)"

lemma skip_gap:
  assumes "gap_before b u"
  shows "rx_from keyPattern b (u @ s) = map_option (\<lambda>m. m\<lparr>rm_skipped := u @ rm_skipped m\<rparr>) (rx_from keyPattern (before b u) s)"
    "\<not> word_before (before b u)"
proof -
  have "\<not> is_word (CHR '' '')" by code_simp
  then show "\<not> word_before (before b u)" using assms by (auto simp: gap_before_def before_def word_before_def)
  show "rx_from keyPattern b (u @ s) = map_option (\<lambda>m. m\<lparr>rm_skipped := u @ rm_skipped m\<rparr>) (rx_from keyPattern (before b u) s)"
  proof (rule rx_from_skip)
    fix i b'
    assume "i < length u"
    then show "runs keyPattern (b', drop i u @ s, []) = []"
      using assms no_key_value [of _ i b' s] by (auto simp: gap_before_def)
  qed
qed

lemma no_key_end: "list_all (\<lambda>c. \<not> separator c \<and> c \<noteq> CHR '';'') v \<Longrightarrow> rx_from keyPattern b v = None"
proof -
  assume v: "list_all (\<lambda>c. \<not> separator c \<and> c \<noteq> CHR '';'') v"
  have "runs keyPattern (b', drop i v @ [], []) = []" for i b'
    using v by (intro no_key) (auto simp: list_all_iff dest: in_set_dropD)
  then have "rx_from keyPattern b (v @ []) = map_option (\<lambda>m. m\<lparr>rm_skipped := v @ rm_skipped m\<rparr>) (rx_from keyPattern (before b v) [])"
    by (intro rx_from_skip) simp
  then show ?thesis by (simp add: keyPattern_unfold)
qed

definition plain_pairs :: "(jstr \<times> jstr) list \<Rightarrow> bool" where
  "plain_pairs kvs \<longleftrightarrow> list_all (\<lambda>(k, v). plain_key k \<and> plain_data v) kvs"

lemma all_keys:
  "plain_pairs kvs \<Longrightarrow> kvs \<noteq> [] \<Longrightarrow> gap_before b u \<Longrightarrow> all_from keyPattern b i (u @ written kvs) = data_matches i u kvs"
proof (induction kvs arbitrary: b i u)
  case (Cons kv kvs)
  obtain k v where kv: "kv = (k, v)" by fastforce
  have p: "plain_key k" "plain_data v" "plain_pairs kvs" using Cons.prems(1) by (auto simp: kv plain_pairs_def)
  have v: "list_all (\<lambda>c. \<not> separator c \<and> c \<noteq> CHR '';'') v" "v \<noteq> []" "\<not> is_space (hd v)" using p(2) by (auto simp: plain_data_def)
  have "rx_from keyPattern (before b u) (k @ ''='' @ (v @ after kvs)) = Some (match_of [] k (v @ after kvs))"
    using skip_gap(2) [OF Cons.prems(3)] v by (intro rx_from_key p(1)) simp_all
  then have m: "rx_from keyPattern b (u @ written (kv # kvs)) = Some (match_of u k (v @ after kvs))"
    unfolding kv written_Cons skip_gap(1) [OF Cons.prems(3)] by (simp add: match_of_def)
  have rest: "all_from keyPattern (Some (CHR ''='')) j (v @ after kvs) = data_matches j (v @ ''; '') kvs" for j
  proof (cases "kvs = []")
    case True
    then show ?thesis using no_key_end [OF v(1)] by (simp add: after_def all_from.simps)
  next
    case False
    have "gap_before (Some (CHR ''='')) (v @ ''; '')" using v(1) by (auto simp: gap_before_def)
    from Cons.IH [OF p(3) False this] False show ?thesis by (simp add: after_def)
  qed
  show ?case
    by (subst all_from.simps) (simp only: m option.case Let_def, simp add: kv rest match_of_def add.assoc)
qed simp

lemma trim_id: "\<not> is_space (hd s) \<Longrightarrow> \<not> is_space (last s) \<Longrightarrow> s \<noteq> [] \<Longrightarrow> trim s = s"
proof -
  assume s: "\<not> is_space (hd s)" "\<not> is_space (last s)" "s \<noteq> []"
  have "dropWhile is_space s = s" using s by (cases s) simp_all
  moreover have "dropWhile is_space (rev s) = rev s" using s by (simp add: dropWhile_eq_self_iff hd_rev)
  ultimately show "trim s = s" by (simp add: trim_def)
qed

lemma unquote_plain: "plain_data v \<Longrightarrow> unquote v = v"
proof -
  assume v: "plain_data v"
  then obtain c w where c: "v = c # w" "\<not> is_space c" "c \<notin> {CHR 34, CHR 39}" by (cases v) (auto simp: plain_data_def)
  have "trim v = v" using v by (intro trim_id) (simp_all add: plain_data_def)
  then show ?thesis using c by (simp add: unquote_def quotedBy_def)
qed

lemma strip_plain: "plain_data v \<Longrightarrow> strip_end (\<lambda>c. is_space c \<or> c \<in> set '',;'') v = v"
  by (cases v rule: rev_cases) (auto simp: strip_end_def plain_data_def)

lemma strip_separated: "plain_data v \<Longrightarrow> strip_end (\<lambda>c. is_space c \<or> c \<in> set '',;'') (v @ ''; '') = v"
proof -
  have "is_space (CHR '' '')" by code_simp
  then show "plain_data v \<Longrightarrow> ?thesis" using strip_plain [of v] by (simp add: strip_end_def)
qed

lemma dataPairs_written:
  "plain_pairs kvs \<Longrightarrow> i = length pre \<Longrightarrow> dataPairs (pre @ u @ written kvs) (data_matches i u kvs) = kvs"
proof (induction kvs arbitrary: pre i u)
  case (Cons kv kvs)
  obtain k v where kv: "kv = (k, v)" by fastforce
  have p: "plain_key k" "plain_data v" "plain_pairs kvs" using Cons.prems(1) by (auto simp: kv plain_pairs_def)
  have low: "toLowerCase k = k" using p(1) by (simp add: plain_key_def)
  let ?t = "pre @ u @ written (kv # kvs)"
  have t: "?t = (pre @ u @ k @ ''='') @ v @ after kvs" by (simp add: kv written_Cons)
  have d: "drop (i + length u + length (k @ ''='')) ?t = v @ after kvs"
    unfolding t using Cons.prems(2) by simp
  show ?case
  proof (cases kvs)
    case Nil
    then show ?thesis using d strip_plain [OF p(2)] unquote_plain [OF p(2)] low
      by (simp add: kv match_of_def rx_cap_def Let_def after_def)
  next
    case (Cons kv' kvs')
    have "dataPairs ((pre @ u @ k @ ''='') @ (v @ ''; '') @ written kvs) (data_matches (i + length u + length k + 1) (v @ ''; '') kvs) = kvs"
      using Cons.prems(2) by (intro Cons.IH [OF p(3)]) simp
    moreover have "(pre @ u @ k @ ''='') @ (v @ ''; '') @ written kvs = ?t" unfolding t using Cons by (simp add: after_def)
    ultimately have ih: "dataPairs ?t (data_matches (i + length u + length k + 1) (v @ ''; '') kvs) = kvs" by simp
    have next_start: "(case data_matches (i + length u + length k + 1) (v @ ''; '') kvs of [] \<Rightarrow> length ?t | (j, _) # _ \<Rightarrow> j) =
        i + length u + length k + 1 + length (v @ ''; '')"
      using Cons by (cases kv') simp
    have "take (length (v @ ''; '')) (drop (i + length u + length (k @ ''='')) ?t) = v @ ''; ''" unfolding d using Cons by (simp add: after_def)
    then have "take (i + length u + length k + 1 + length (v @ ''; '') - (i + length u + length (rm_text (match_of u k (v @ after kvs)))))
        (drop (i + length u + length (rm_text (match_of u k (v @ after kvs)))) ?t) = v @ ''; ''"
      by (simp add: match_of_def)
    then have "dataPairs ?t ((i + length u, match_of u k (v @ after kvs)) # data_matches (i + length u + length k + 1) (v @ ''; '') kvs) = (k, v) # kvs"
      unfolding dataPairs.simps Let_def next_start ih by (simp only: strip_separated [OF p(2)] unquote_plain [OF p(2)]) (simp add: match_of_def rx_cap_def low)
    then show ?thesis unfolding kv data_matches.simps .
  qed
qed simp

lemma foldl_data_put:
  "list_all (\<lambda>(k, v). k \<noteq> ''__proto__'') kvs \<Longrightarrow> distinct (map fst (d @ kvs)) \<Longrightarrow>
     foldl (\<lambda>d kv. data_put d (fst kv) (snd kv)) d kvs = d @ kvs"
proof (induction kvs arbitrary: d)
  case (Cons kv kvs)
  then have "data_put d (fst kv) (snd kv) = d @ [kv]" by (auto simp: data_put_def obj_put_fresh case_prod_unfold)
  then show ?case using Cons.IH [of "d @ [kv]"] Cons.prems by simp
qed simp

lemma key_start_not_space: "key_start c \<Longrightarrow> \<not> is_space c"
  by (auto simp: key_start_def is_word_def is_space_def Let_def)

lemma last_written: "plain_pairs kvs \<Longrightarrow> kvs \<noteq> [] \<Longrightarrow> \<not> is_space (last (written kvs))"
proof (induction kvs)
  case (Cons kv kvs)
  obtain k v where kv: "kv = (k, v)" by fastforce
  have v: "v \<noteq> []" "\<not> is_space (last v)" "plain_pairs kvs" using Cons.prems(1) by (auto simp: kv plain_pairs_def plain_data_def)
  show ?case
  proof (cases kvs)
    case (Cons kv' kvs')
    then have "written kvs \<noteq> []" by (cases kv') (simp add: written_Cons)
    then show ?thesis using Cons.IH v Cons by (simp add: kv written_Cons after_def)
  qed (use v in \<open>simp add: kv written_Cons after_def\<close>)
qed simp



end
