(* ===== verification/StepProofs.thy ===== *)
theory StepProofs
  imports StepDataProofs
begin

text \<open>
  Properties of step contracts: well-typed assertions and coverage, what a conclusive verdict means, when an evaluation throws, and
  two expectations that are compiled to something else than they say.
\<close>

section \<open>Well-typed assertions\<close>

text \<open>The fields the evaluation of each type reads.\<close>

definition typed_body :: "('z) assertion_body_scheme \<Rightarrow> bool" where
  "typed_body a \<longleftrightarrow>
     (case a_type a of
        Text_contains \<Rightarrow> is_str (a_expected a)
      | Text_contains_any \<Rightarrow> (\<exists>xs. a_alternatives a = Some xs \<and> xs \<noteq> [])
      | Element_contains \<Rightarrow> a_target a \<noteq> None \<and> is_str (a_expected a)
      | Element_visible \<Rightarrow> a_target a \<noteq> None
      | Element_value \<Rightarrow> a_target a \<noteq> None \<and> is_str (a_expected a)
      | Url_matches \<Rightarrow> is_str (a_expected a)
      | Url_not_matches \<Rightarrow> is_str (a_expected a)
      | Url_changed \<Rightarrow> True
      | Http_status \<Rightarrow> is_num (a_expected a)
      | Json_field_equals \<Rightarrow> a_target a \<noteq> None \<and> is_str (a_expected a)
      | Element_count \<Rightarrow> is_num (a_expected a) \<and> a_comparator a = Some Equals
      | Field_required \<Rightarrow> a_target a \<noteq> None
      | Option_selected \<Rightarrow> a_target a \<noteq> None \<and> is_str (a_expected a)
      | Checkbox_checked \<Rightarrow> a_target a \<noteq> None
      | Button_enabled \<Rightarrow> a_target a \<noteq> None
      | Images_loaded \<Rightarrow> True)"

lemma extend_simps [simp]:
  "a_type (with_id i b) = a_type b" "a_source (with_id i b) = a_source b" "a_target (with_id i b) = a_target b"
  "a_expected (with_id i b) = a_expected b" "a_alternatives (with_id i b) = a_alternatives b" "a_comparator (with_id i b) = a_comparator b"
  "a_id (with_id i b) = i"
  by (simp_all add: with_id_def assertion_body.defs step_assertion.defs)

lemma body_simps [simp]:
  "a_type (body_of a) = a_type a" "a_source (body_of a) = a_source a" "a_target (body_of a) = a_target a"
  "a_expected (body_of a) = a_expected a" "a_alternatives (body_of a) = a_alternatives a" "a_comparator (body_of a) = a_comparator a"
  by (simp_all add: body_of_def assertion_body.defs)

lemma body_with_id [simp]: "body_of (with_id i b) = b"
  by (cases b) (simp add: body_of_def with_id_def assertion_body.defs step_assertion.defs)

lemma typed_with_id [simp]: "typed_body (with_id i b) = typed_body b"
  by (cases "a_type b") (simp_all add: typed_body_def)

lemma typed_body_of [simp]: "typed_body (body_of a) = typed_body a"
  by (cases "a_type a") (simp_all add: typed_body_def)

named_theorems typed "rules give well-typed assertions"

lemma typed_simps:
  "typed_body (body t source\<lparr>a_expected := v\<rparr>) = (t \<in> {Url_changed, Images_loaded} \<or> t \<in> {Text_contains, Url_matches, Url_not_matches} \<and> is_str v \<or> t = Http_status \<and> is_num v)"
  by (cases t) (simp_all add: typed_body_def body_def)

lemma quotedRule_typed [typed]: "quotedRule f = Some as \<Longrightarrow> list_all typed_body as"
  by (auto simp: quotedRule_def Let_def list_all_iff typed_simps split: if_splits)

lemma statusRule_typed [typed]: "statusRule f n = Some as \<Longrightarrow> list_all typed_body as"
  by (auto simp: statusRule_def Let_def typed_simps split: if_splits)

lemma urlRule_typed [typed]: "urlRule x f n = Some as \<Longrightarrow> list_all typed_body as"
  by (auto simp: urlRule_def Let_def typed_simps split: if_splits)

lemma jsonRule_typed [typed]: "jsonRule e f n = Some as \<Longrightarrow> list_all typed_body as"
  by (auto simp: jsonRule_def Let_def list_all_iff typed_body_def body_def List.map_filter_def split: if_splits option.splits)

lemma rowRule_typed [typed]: "rowRule f n = Some as \<Longrightarrow> list_all typed_body as"
  by (auto simp: rowRule_def Let_def typed_body_def body_def split: if_splits)

lemma countRule_typed [typed]: "countRule f n = Some as \<Longrightarrow> list_all typed_body as"
  by (auto simp: countRule_def Let_def typed_body_def body_def split: if_splits)

lemma testRule_typed: "testRule x a n = Some as \<Longrightarrow> typed_body a \<Longrightarrow> list_all typed_body as"
  by (auto simp: testRule_def split: if_splits)

lemma test_rules_typed [typed]:
  "imagesRule f n = Some as \<Longrightarrow> list_all typed_body as" "requiredRule f n = Some as \<Longrightarrow> list_all typed_body as"
  "optionRule f n = Some as \<Longrightarrow> list_all typed_body as" "checkboxRule f n = Some as \<Longrightarrow> list_all typed_body as"
  "formRule f n = Some as \<Longrightarrow> list_all typed_body as" "loginErrorRule f n = Some as \<Longrightarrow> list_all typed_body as"
  "secureAreaRule f n = Some as \<Longrightarrow> list_all typed_body as"
  by (auto simp: imagesRule_def requiredRule_def optionRule_def checkboxRule_def formRule_def loginErrorRule_def secureAreaRule_def
      typed_body_def body_def elim!: testRule_typed)

lemma buttonRule_typed [typed]: "buttonRule f n = Some as \<Longrightarrow> list_all typed_body as"
  by (auto simp: buttonRule_def Let_def typed_body_def body_def split: if_splits)

lemma visibleRule_typed [typed]: "visibleRule f n = Some as \<Longrightarrow> list_all typed_body as"
  by (auto simp: visibleRule_def Let_def typed_simps split: if_splits)

lemma first_rule_Some: "first_rule rs = Some x \<Longrightarrow> Some x \<in> set rs"
  by (induction rs) (auto split: option.splits)

lemma fragment_typed: "parseExpectationFragment e f = Some as \<Longrightarrow> list_all typed_body as"
  unfolding parseExpectationFragment_def Let_def by (drule first_rule_Some) (auto dest!: typed [OF sym])

lemma fragmentAssertions_typed: "list_all typed_body (fragmentAssertions e fs)"
  by (induction fs) (auto simp: fragmentAssertions_def assertionsOf_def fragment_typed split: option.splits)

lemma explicitMapping_typed:
  "t \<in> {Text_contains, Url_matches, Http_status, Element_count} \<Longrightarrow> list_all typed_body (map fst (explicitMapping d keys t target))"
  by (auto simp: explicitMapping_def Let_def typed_body_def body_def split: option.splits)

lemma jsonAssertions_typed:
  "list_all typed_body (map fst (map (\<lambda>(key, value). (let source = key @ ''='' @ value in
     (body Json_field_equals source\<lparr>a_target := Some (drop 5 key), a_expected := JStr value\<rparr>, source))) kvs))"
  by (induction kvs) (auto simp: Let_def typed_body_def body_def)

lemma explicit_typed: "list_all typed_body (map fst (explicitAssertions d))"
  unfolding explicitAssertions_def Let_def [of "first_text _"] map_append list_all_append
  by (intro conjI explicitMapping_typed jsonAssertions_typed) simp_all

section \<open>The contract\<close>

text \<open>The assertions of a contract: identified by their place, and well typed.\<close>

definition typed_assertions :: "jnum \<Rightarrow> step_assertion list \<Rightarrow> bool" where
  "typed_assertions number as \<longleftrightarrow>
     list_all typed_body as \<and> map a_id as = map (assertionId number) [0..<length as]"

lemma fingerprint_with_id [simp]: "fingerprint (with_id i a) = fingerprint a"
  by (simp add: fingerprint_def)

lemma fingerprint_body_of [simp]: "fingerprint (body_of a) = fingerprint a"
  by (simp add: fingerprint_def)

lemma addAssertion_typed:
  assumes "typed_assertions number as" "typed_body a"
  shows "typed_assertions number (addAssertion number as a)"
  using assms by (auto simp: typed_assertions_def addAssertion_def list_ex_iff)

lemma addAssertion_distinct: "distinct (map fingerprint as) \<Longrightarrow> distinct (map fingerprint (addAssertion number as a))"
  by (auto simp: addAssertion_def list_ex_iff)

lemma assertions_distinct: "distinct (map fingerprint as) \<Longrightarrow> distinct (map fingerprint (foldl (addAssertion number) as bs))"
  by (induction bs arbitrary: as) (auto simp: addAssertion_distinct)

lemma assertions_typed:
  assumes "typed_assertions number as" "list_all typed_body bs"
  shows "typed_assertions number (foldl (addAssertion number) as bs)"
  using assms by (induction bs arbitrary: as) (auto simp: addAssertion_typed)

definition typed_contract :: "step_contract \<Rightarrow> bool" where
  "typed_contract k \<longleftrightarrow>
     typed_assertions (k_step k) (k_assertions k) \<and> k_audit k = (k_coverage k \<noteq> Full) \<and>
     (k_coverage k = Full \<longleftrightarrow> k_assertions k \<noteq> [] \<and> k_unresolved k = []) \<and>
     (k_coverage k = Partial \<longrightarrow> k_assertions k \<noteq> [] \<and> k_unresolved k \<noteq> [])"

lemma assertionId_inj [simp]: "assertionId n i = assertionId n j \<longleftrightarrow> i = j"
  by (simp add: assertionId_def)

lemma typed_ids_distinct: "typed_assertions n as \<Longrightarrow> distinct (map a_id as)"
  by (simp add: typed_assertions_def distinct_map inj_on_def)

lemma typed_no_assertions [simp]: "typed_assertions n []"
  by (simp add: typed_assertions_def)

lemma parsedContract_typed: "typed_contract (parsedContract step)"
proof -
  let ?bodies = "map fst (explicitAssertions (parseStepData (q_data step))) @ fragmentAssertions (q_expected step) (splitExpectation (q_expected step))"
  have "typed_assertions (q_number step) (foldl (addAssertion (q_number step)) [] ?bodies)"
    by (intro assertions_typed) (simp_all only: typed_no_assertions list_all_append explicit_typed fragmentAssertions_typed simp_thms)
  then show ?thesis by (simp add: typed_contract_def parsedContract_def Let_def del: foldl_append)
qed

lemma parsedContract_distinct: "distinct (map fingerprint (k_assertions (parsedContract step)))"
  using assertions_distinct [of "[]"] by (simp add: parsedContract_def Let_def del: foldl_append)

lemma semanticContract_typed: "typed_contract (semanticContract n e requirement)"
  by (simp add: typed_contract_def semanticContract_def)

section \<open>Plans\<close>

lemma plan_assertion_typed [simp]:
  "typed_body (plan_assertion t source target expected) =
     (if t \<in> {Text_contains, Url_matches, Url_not_matches} then is_str expected
      else if t \<in> {Element_contains, Element_value, Json_field_equals, Option_selected} then target \<noteq> [] \<and> is_str expected
      else if t \<in> {Element_visible, Field_required, Checkbox_checked, Button_enabled} then target \<noteq> []
      else if t = Http_status then is_num expected else t \<in> {Url_changed, Images_loaded})"
  by (cases t) (simp_all add: plan_assertion_def typed_body_def body_def)

lemma absent_typed [simp]: "typed_body (absent t target)"
  by (simp add: absent_def plan_assertion_def typed_body_def body_def)

lemma conventionalField_target: "conventionalField t = Some target \<Longrightarrow> target \<noteq> []"
  by (auto simp: conventionalField_def find_Some_iff2 split: if_splits)

lemma loginStage_typed: "list_all typed_body (loginStage t)"
  by (simp add: loginStage_def Let_def)

lemma valueStage_typed: "list_all typed_body (valueStage t)"
  by (auto simp: valueStage_def Let_def conventionalField_target split: option.splits)

lemma credentialsStage_typed: "list_all typed_body (credentialsStage t)"
  by (simp add: credentialsStage_def split: list.split)

lemma checkoutStage_typed: "list_all typed_body (checkoutStage t)"
  by (simp add: checkoutStage_def split: list.split)

lemma loginErrorStage_typed: "list_all typed_body (loginErrorStage t)"
  by (simp add: loginErrorStage_def typed_body_def body_def)

lemma prose_stages_typed:
  "list_all typed_body (errorGoneStage t)" "list_all typed_body (logoutStage t)" "list_all typed_body (returnStage t)" "list_all typed_body (urlStage t)"
  "list_all typed_body (detailStage t)" "list_all typed_body (pairStage x f t)" "list_all typed_body (firstVisibleStage t)" "list_all typed_body (priceStage t)"
  by (simp_all add: errorGoneStage_def logoutStage_def returnStage_def urlStage_def detailStage_def pairStage_def firstVisibleStage_def priceStage_def
      Let_def split: option.split)

lemma productCountStage_typed: "list_all typed_body (productCountStage t)"
  by (simp add: productCountStage_def Let_def plan_assertion_def typed_body_def body_def)

lemma cartStage_typed: "list_all typed_body (cartStage t)"
  by (simp add: cartStage_def Let_def)

lemmas stages_typed = loginStage_typed valueStage_typed credentialsStage_typed checkoutStage_typed loginErrorStage_typed prose_stages_typed
  productCountStage_typed cartStage_typed

lemma planStages_typed: "list_all (list_all typed_body) (planStages t)"
  by (simp only: planStages_def list.pred_inject stages_typed simp_thms)

lemma first_nonempty_in: "first_nonempty xss = [] \<or> first_nonempty xss \<in> set xss"
  by (induction xss) auto

lemma first_nonempty_typed: "list_all (list_all P) xss \<Longrightarrow> list_all P (first_nonempty xss)"
  using first_nonempty_in [of xss] by (auto simp: list_all_iff)

lemma planStep_typed: "list_all typed_body (p_assertions (planStep step))"
proof -
  have "list_all typed_body (k_assertions (parsedContract step))"
    using parsedContract_typed [of step] by (simp add: typed_contract_def typed_assertions_def)
  then show ?thesis
    using first_nonempty_typed [OF planStages_typed, of "stepText step"]
    by (simp add: planStep_def Let_def list_all_iff split: option.split)
qed

text \<open>A plan validates on the page exactly when it has assertions.\<close>

lemma planStep_mode: "p_mode (planStep step) = (if p_assertions (planStep step) = [] then Visual_semantic else Dom)"
  by (simp add: planStep_def Let_def split: option.split)

lemma plannedContract_typed:
  assumes "list_all typed_body (p_assertions plan)" "p_mode plan = Dom \<longleftrightarrow> p_assertions plan \<noteq> []"
  shows "typed_contract (plannedContract n e plan)"
proof -
  let ?as = "map (\<lambda>(i, a). with_id (assertionId n i) a) (enumerate 0 (p_assertions plan))"
  have "map a_id ?as = map (assertionId n) [0..<length ?as]"
    by (rule nth_equalityI) (simp_all add: nth_enumerate_eq)
  moreover have "list_all typed_body ?as"
    using assms(1) by (auto simp: list_all_length nth_enumerate_eq)
  moreover have "?as = [] \<longleftrightarrow> p_assertions plan = []" by (simp flip: length_0_conv)
  ultimately show ?thesis
    using assms(2) by (simp add: typed_contract_def typed_assertions_def plannedContract_def Let_def)
qed

section \<open>Evaluation\<close>

definition result_of_check :: "(jstr \<Rightarrow> rx option) \<Rightarrow> jstr \<Rightarrow> observation \<Rightarrow> step_assertion \<Rightarrow> step_result \<Rightarrow> bool" where
  "result_of_check regexp url ob a r \<longleftrightarrow>
     r_assertion r = a \<and> (\<exists>actual. checkAssertion regexp url ob a = Inr (r_ok r, actual))"

lemma evaluate_results:
  assumes "evaluateStepContract regexp k url ob = Inr ev"
  shows "list_all2 (result_of_check regexp url ob) (k_assertions k) (ev_results ev)"
    "ev_ok ev = list_all r_ok (ev_results ev)" "ev_conclusive ev = (\<not> ev_ok ev \<or> k_coverage k = Full \<and> k_assertions k \<noteq> [])"
proof -
  obtain rs where rs: "map_res (\<lambda>a. map_ok (resultOf a) (checkAssertion regexp url ob a)) (k_assertions k) = Inr rs" "ev_results ev = rs"
      "ev_ok ev = (filter (\<lambda>r. \<not> r_ok r) rs = [])" "ev_conclusive ev = (filter (\<lambda>r. \<not> r_ok r) rs \<noteq> [] \<or> k_coverage k = Full \<and> rs \<noteq> [])"
    using assms by (auto simp: evaluateStepContract_def map_ok_Inr_iff Let_def)
  have l: "list_all2 (\<lambda>a r. map_ok (resultOf a) (checkAssertion regexp url ob a) = Inr r) (k_assertions k) rs"
    using rs(1) by (simp add: map_res_Inr_iff)
  show "list_all2 (result_of_check regexp url ob) (k_assertions k) (ev_results ev)"
    unfolding rs(2) by (rule list_all2_mono [OF l]) (auto simp: result_of_check_def map_ok_Inr_iff resultOf_def)
  show "ev_ok ev = list_all r_ok (ev_results ev)"
    using rs by (simp add: filter_empty_conv list_all_iff)
  have "rs = [] \<longleftrightarrow> k_assertions k = []" using list_all2_lengthD [OF l] by (metis length_0_conv)
  then show "ev_conclusive ev = (\<not> ev_ok ev \<or> k_coverage k = Full \<and> k_assertions k \<noteq> [])" using rs(3,4) by simp
qed

lemma checks_hold:
  "list_all2 (result_of_check regexp url ob) as rs \<Longrightarrow>
     list_all r_ok rs \<longleftrightarrow> list_all (\<lambda>a. \<exists>actual. checkAssertion regexp url ob a = Inr (True, actual)) as"
  by (induction rule: list_all2_induct) (auto simp: result_of_check_def)

lemma evaluate_holds:
  assumes "evaluateStepContract regexp k url ob = Inr ev"
  shows "ev_ok ev \<longleftrightarrow> list_all (\<lambda>a. \<exists>actual. checkAssertion regexp url ob a = Inr (True, actual)) (k_assertions k)"
  unfolding evaluate_results(2) [OF assms] by (rule checks_hold [OF evaluate_results(1) [OF assms]])

lemma isl_map_ok: "isl (map_ok f r) = isl r"
  by (cases r) simp_all

lemma map_res_Inl_iff: "isl (map_res f xs) \<longleftrightarrow> list_ex (\<lambda>x. isl (f x)) xs"
  by (induction xs) (auto simp: res_bind_def split: sum.splits)

text \<open>The only check that can throw: the announced count of a target that is no plain text.\<close>

definition bad_count :: "(jstr \<Rightarrow> rx option) \<Rightarrow> observation \<Rightarrow> ('z) assertion_body_scheme \<Rightarrow> bool" where
  "bad_count regexp ob a \<longleftrightarrow>
     (let target = normalizeText (target_of a) in
      a_type a = Element_count \<and> target \<noteq> [] \<and> filter (countMatches target) (ob_elements ob) = [] \<and> countExpression regexp (drop_s target) = None)"

lemma check_Inl: "isl (checkAssertion regexp url ob a) \<longleftrightarrow> bad_count regexp ob a"
  by (cases "a_type a")
    (auto simp: checkAssertion_def Let_def bad_count_def countHolds_def announcedCount_def map_ok_def res_bind_def split: option.splits sum.splits)

definition runtimeStep :: "planned_step \<Rightarrow> planned_step" where
  "runtimeStep step = step\<lparr>q_plan := Some (planStep step)\<rparr>"

lemma planned_steps: "planExecutionValidation steps = map runtimeStep steps"
  by (simp add: planExecutionValidation_def runtimeStep_def)

lemma plan_update [simp]:
  "q_number (step\<lparr>q_plan := p\<rparr>) = q_number step" "q_action (step\<lparr>q_plan := p\<rparr>) = q_action step"
  "q_data (step\<lparr>q_plan := p\<rparr>) = q_data step" "q_expected (step\<lparr>q_plan := p\<rparr>) = q_expected step"
  by (cases step; simp)+

lemma requirement_plan [simp]: "semanticEvidenceRequirement (step\<lparr>q_plan := p\<rparr>) = semanticEvidenceRequirement step"
  by (simp add: semanticEvidenceRequirement_def Let_def)

lemma planStep_plan [simp]: "planStep (step\<lparr>q_plan := p\<rparr>) = planStep step"
  by (cases "semanticEvidenceRequirement step") (simp_all add: planStep_def stepText_def parsedContract_def Let_def del: foldl_append)

lemma runtime_contract:
  "buildStepContract (runtimeStep step) =
     (case semanticEvidenceRequirement step of
        Some requirement \<Rightarrow> semanticContract (q_number step) (q_expected step) requirement
      | None \<Rightarrow> plannedContract (q_number step) (q_expected step) (planStep step))"
  by (cases "semanticEvidenceRequirement step") (simp_all add: buildStepContract_def runtimeStep_def)

lemma contract_typed:
  "typed_contract (buildStepContract (runtimeStep step)) \<and> typed_contract (buildStepContract (step\<lparr>q_plan := None\<rparr>)) \<and>
   distinct (map fingerprint (k_assertions (buildStepContract (step\<lparr>q_plan := None\<rparr>))))"
proof (intro conjI)
  show "typed_contract (buildStepContract (runtimeStep step))"
    unfolding runtime_contract
    by (simp add: semanticContract_typed plannedContract_typed planStep_typed planStep_mode split: option.split)
  show "typed_contract (buildStepContract (step\<lparr>q_plan := None\<rparr>))"
    by (simp add: buildStepContract_def semanticContract_typed parsedContract_typed split: option.split)
  show "distinct (map fingerprint (k_assertions (buildStepContract (step\<lparr>q_plan := None\<rparr>))))"
    by (simp add: buildStepContract_def semanticContract_def parsedContract_distinct split: option.split)
qed

lemma evaluation_throws:
  "isl (evaluateStepContract regexp k url ob) \<longleftrightarrow> list_ex (bad_count regexp ob) (k_assertions k)"
  by (simp add: evaluateStepContract_def isl_map_ok map_res_Inl_iff check_Inl)

section \<open>Steps\<close>

definition sampleStep :: "jstr \<Rightarrow> jstr \<Rightarrow> planned_step" where
  "sampleStep d e = \<lparr>q_number = Fin 1, q_action = [], q_data = d, q_expected = e, q_plan = None\<rparr>"

lemma no_data_stages:
  assumes "t_data t = []"
  shows "valueStage t = []" "credentialsStage t = []" "checkoutStage t = []"
  using assms by (simp_all add: valueStage_def credentialsStage_def checkoutStage_def slashParts_def trim_def nonblank_def Let_def)

lemma sampleStep_fields [simp]:
  "q_number (sampleStep d e) = Fin 1" "q_expected (sampleStep d e) = e" "t_data (stepText (sampleStep d e)) = trim d"
  "t_expected (stepText (sampleStep d e)) = trim e"
  by (simp_all add: sampleStep_def stepText_def Let_def)

lemma negated_stages:
  "loginStage (stepText (sampleStep [] ''Logout no visible'')) = []"
  "loginErrorStage (stepText (sampleStep [] ''Logout no visible'')) = []" "errorGoneStage (stepText (sampleStep [] ''Logout no visible'')) = []"
  "logoutStage (stepText (sampleStep [] ''Logout no visible'')) = [plan_assertion Element_visible ''Logout no visible'' ''logout'' JUndef]"
  "semanticEvidenceRequirement (sampleStep [] ''Logout no visible'') = None"
  by code_simp+

lemma negated_plan: "p_assertions (planStep (sampleStep [] ''Logout no visible'')) = [plan_assertion Element_visible ''Logout no visible'' ''logout'' JUndef]"
  by (simp add: planStep_def Let_def planStages_def negated_stages no_data_stages trim_def)

lemma logout_target: "normalizeText ''logout'' = ''logout''"
  by code_simp

text \<open>The assertion the step compiles to holds exactly when the control is on the page.\<close>

lemma negated_evaluation:
  "\<exists>ev. evaluateStepContract regexp (buildStepContract (runtimeStep (sampleStep [] ''Logout no visible''))) url ob = Inr ev \<and> ev_conclusive ev \<and>
     (ev_ok ev \<longleftrightarrow> list_ex (\<lambda>e. el_visible e \<and> str_includes (elementCorpus e) ''logout'') (ob_elements ob))"
proof -
  let ?k = "buildStepContract (runtimeStep (sampleStep [] ''Logout no visible''))"
  have k: "k_assertions ?k = [with_id (assertionId (Fin 1) 0) (plan_assertion Element_visible ''Logout no visible'' ''logout'' JUndef)]" "k_coverage ?k = Full"
    by (simp_all add: runtime_contract negated_stages plannedContract_def negated_plan planStep_mode Let_def)
  have "\<not> isl (evaluateStepContract regexp ?k url ob)"
    by (simp add: evaluation_throws k bad_count_def plan_assertion_def body_def Let_def)
  then obtain ev where ev: "evaluateStepContract regexp ?k url ob = Inr ev" by (auto simp: not_isl_iff)
  have "ev_ok ev \<longleftrightarrow> matchingElement ob ''logout'' \<noteq> None"
    unfolding evaluate_holds [OF ev] by (simp add: k checkAssertion_def Let_def target_of_def plan_assertion_def body_def)
  also have "\<dots> \<longleftrightarrow> list_ex (\<lambda>e. el_visible e \<and> str_includes (elementCorpus e) ''logout'') (ob_elements ob)"
    by (auto simp: matchingElement_def logout_target Let_def find_None_iff list_ex_iff)
  finally show ?thesis using ev evaluate_results(3) [OF ev] k by simp
qed

lemma includes_empty: "str_includes s []"
  by (cases s) simp_all

definition logoutPage :: observation where
  "logoutPage =
     \<lparr>ob_url = [], ob_title = [], ob_ready = [], ob_visible_text = [], ob_body = [],
      ob_elements = [\<lparr>el_ref = ''e1'', el_tag = ''a'', el_role = [], el_name = ''Logout'', el_text = [], el_value = [], el_type = [], el_placeholder = [],
        el_label = [], el_title = [], el_disabled = False, el_checked = False, el_required = False, el_valid = None, el_selected = [],
        el_image_complete = False, el_natural_width = 0, el_visible = True, el_editable = False, el_clickable = True, el_box = None\<rparr>], ob_loading = [], ob_viewport = None\<rparr>"

lemma empty_stages:
  "(let t = stepText (sampleStep ''expected_text='' []) in
    [loginStage t, valueStage t, credentialsStage t, checkoutStage t, loginErrorStage t, errorGoneStage t, logoutStage t, returnStage t, urlStage t, detailStage t,
     cartStage t]) = [[], [], [], [], [], [], [], [], [], [], []]"
  by code_simp

lemma empty_groups:
  "group_of FIRST_PRODUCT 1 [] = []" "group_of FIRST_VISIBLE 1 [] = []" "group_of NAME_AND_PRICE 1 [] = []" "group_of VISIBLE_PAIR 1 [] = []"
  "group_of EXACT_PRICE 1 [] = []" "group_of PRODUCT_COUNT 1 [] = []"
  by code_simp+

lemma empty_step:
  "parseStepData ''expected_text='' = [(''expected_text'', [])]" "splitExpectation [] = []"
  "semanticEvidenceRequirement (sampleStep ''expected_text='' []) = None"
  by code_simp+

lemma empty_parsed:
  "map body_of (k_assertions (parsedContract (sampleStep ''expected_text='' []))) = [body Text_contains ''expected_text=''\<lparr>a_expected := JStr []\<rparr>]"
  "k_coverage (parsedContract (sampleStep ''expected_text='' [])) = Full"
  by (simp_all add: parsedContract_def Let_def sampleStep_def empty_step explicitAssertions_def explicitMapping_def data_get_def js_entries_def
      fragmentAssertions_def addAssertion_def array_index_def body_def)

lemma empty_plan:
  "p_assertions (planStep (sampleStep ''expected_text='' [])) = [body Text_contains ''expected_text=''\<lparr>a_expected := JStr []\<rparr>]"
proof -
  have "first_nonempty (planStages (stepText (sampleStep ''expected_text='' []))) = []"
    using empty_stages by (simp add: planStages_def pairStage_def firstVisibleStage_def priceStage_def productCountStage_def empty_groups [unfolded One_nat_def] Let_def trim_def)
  moreover have "k_assertions (parsedContract (sampleStep ''expected_text='' [])) \<noteq> []" using empty_parsed(1) by auto
  ultimately show ?thesis using empty_parsed by (simp add: planStep_def empty_step Let_def)
qed

lemma empty_contract:
  "map body_of (k_assertions (buildStepContract (runtimeStep (sampleStep ''expected_text='' [])))) = [body Text_contains ''expected_text=''\<lparr>a_expected := JStr []\<rparr>]"
  "k_coverage (buildStepContract (runtimeStep (sampleStep ''expected_text='' []))) = Full"
  by (simp_all add: runtime_contract empty_step plannedContract_def empty_plan planStep_mode Let_def body_with_id)

section \<open>Properties\<close>

text \<open>C16. Contracts are well typed: whatever the step says, with the plan of the engine or without, every assertion has the fields its evaluation reads, with their types, the identifiers are
  those of the positions, the coverage is full exactly when there are assertions and nothing is left unresolved, an audit is asked for exactly when it is not full, and the parser never adds an assertion twice.\<close>

theorem step_contract_typed:
  "typed_contract (buildStepContract (runtimeStep step)) \<and> typed_contract (buildStepContract (step\<lparr>q_plan := None\<rparr>)) \<and>
   distinct (map fingerprint (k_assertions (buildStepContract (step\<lparr>q_plan := None\<rparr>))))"
  by (rule contract_typed)

text \<open>C15. A step passes conclusively only on evidence: the step has no claim that needs an auditor, its plan validates on the page with at least one assertion, no fragment
  of the expectation is open, and every assertion of the contract was found to hold on the page.\<close>

theorem step_verdict_sound:
  assumes "evaluateStepContract regexp (buildStepContract (runtimeStep step)) url ob = Inr ev" "ev_ok ev" "ev_conclusive ev"
  shows "semanticEvidenceRequirement step = None \<and> p_mode (planStep step) = Dom \<and>
    p_assertions (planStep step) \<noteq> [] \<and> k_unresolved (buildStepContract (runtimeStep step)) = [] \<and>
    list_all (\<lambda>a. \<exists>actual. checkAssertion regexp url ob a = Inr (True, actual)) (k_assertions (buildStepContract (runtimeStep step)))"
proof -
  let ?k = "buildStepContract (runtimeStep step)"
  have full: "k_coverage ?k = Full" using evaluate_results(3) [OF assms(1)] assms(2,3) by simp
  then have "semanticEvidenceRequirement step = None" by (simp add: runtime_contract semanticContract_def split: option.splits)
  moreover from this full have "p_mode (planStep step) = Dom \<and> p_assertions (planStep step) \<noteq> []"
    by (simp add: runtime_contract plannedContract_def Let_def planStep_mode split: if_splits)
  moreover have "k_unresolved ?k = []" using contract_typed [of step] full by (simp add: typed_contract_def)
  ultimately show ?thesis using evaluate_holds [OF assms(1)] assms(2) by blast
qed

theorem step_verdict_sound_witness:
  "\<exists>ev. evaluateStepContract (\<lambda>s. None) (buildStepContract (runtimeStep (sampleStep [] ''Logout no visible''))) [] logoutPage = Inr ev \<and>
     ev_ok ev \<and> p_mode (planStep (sampleStep [] ''Logout no visible'')) = Dom"
proof -
  obtain ev where ev: "evaluateStepContract (\<lambda>s. None) (buildStepContract (runtimeStep (sampleStep [] ''Logout no visible''))) [] logoutPage = Inr ev"
      "ev_conclusive ev" "ev_ok ev \<longleftrightarrow> list_ex (\<lambda>e. el_visible e \<and> str_includes (elementCorpus e) ''logout'') (ob_elements logoutPage)"
    using negated_evaluation [of "\<lambda>s. None" "[]" logoutPage] by blast
  moreover have "list_ex (\<lambda>e. el_visible e \<and> str_includes (elementCorpus e) ''logout'') (ob_elements logoutPage)" by code_simp
  ultimately show ?thesis using step_verdict_sound [OF ev(1) _ ev(2)] by blast
qed

text \<open>The evaluation of a contract throws in exactly one case: it counts elements of a target that no visible element matches, and the target, which the code
  puts unescaped into an expression, is no valid expression.\<close>

theorem step_evaluation_throws:
  "isl (evaluateStepContract regexp k url ob) \<longleftrightarrow> list_ex (bad_count regexp ob) (k_assertions k)"
  by (rule evaluation_throws)

text \<open>A negated expectation can be compiled to its opposite: \<^verbatim>\<open>Logout no visible\<close> is checked as the visibility of the control, so the step
  fails conclusively when the control is absent and passes conclusively when it is on the page.\<close>

theorem negation_ignored:
  "\<exists>ev. evaluateStepContract regexp (buildStepContract (runtimeStep (sampleStep [] ''Logout no visible''))) url ob = Inr ev \<and> ev_conclusive ev \<and>
     (ev_ok ev \<longleftrightarrow> list_ex (\<lambda>e. el_visible e \<and> str_includes (elementCorpus e) ''logout'') (ob_elements ob))"
  by (rule negated_evaluation)

text \<open>An explicit expectation without a value is no check: \<^verbatim>\<open>expected_text=\<close> passes conclusively on every page.\<close>

theorem empty_expectation_passes:
  "\<exists>ev. evaluateStepContract regexp (buildStepContract (runtimeStep (sampleStep ''expected_text='' []))) url ob = Inr ev \<and> ev_ok ev \<and> ev_conclusive ev"
proof -
  let ?k = "buildStepContract (runtimeStep (sampleStep ''expected_text='' []))"
  have k: "map body_of (k_assertions ?k) = [body Text_contains ''expected_text=''\<lparr>a_expected := JStr []\<rparr>]" "k_coverage ?k = Full"
    using empty_contract by simp_all
  then obtain a where a1: "k_assertions ?k = [a]" and b: "body_of a = body Text_contains ''expected_text=''\<lparr>a_expected := JStr []\<rparr>"
    by (cases "k_assertions ?k") auto
  have a: "k_assertions ?k = [a]" "a_type a = Text_contains" "a_expected a = JStr []"
    using a1 arg_cong [OF b, of a_type] arg_cong [OF b, of a_expected] by (simp_all add: body_def)
  have "\<not> isl (evaluateStepContract regexp ?k url ob)"
    by (simp add: evaluation_throws a bad_count_def Let_def)
  then obtain ev where ev: "evaluateStepContract regexp ?k url ob = Inr ev" by (auto simp: not_isl_iff)
  have "ev_ok ev"
    unfolding evaluate_holds [OF ev] by (simp add: a checkAssertion_def text_of_def normalizeText_def strip_marks_def toLowerCase_def trim_def includes_empty)
  then show ?thesis using ev evaluate_results(3) [OF ev] k(2) a(1) by simp
qed

end
