(* ===== verification/StepIo.thy ===== *)
theory StepIo
  imports StepPlanner
begin

text \<open>
  What the step runner does to the world: the operations it performs on the page, the requests to the planning model, and
  a small monad of computations that read and change the world, may throw and may fail to return.

  The record \<open>env\<close> stands for what is outside: the page of Playwright, the in-page observer, the model, the clock, and the URL
  parser. Every call is one operation on an abstract world. The trace records the calls in order. Log lines are not modelled.
\<close>

section \<open>Actions\<close>

text \<open>\<^verbatim>\<open>StrictActionName\<close> and \<^verbatim>\<open>StrictAIAction\<close> of \<^verbatim>\<open>automation/action-types.ts\<close>. Fields a model fills freely are plain values.\<close>

datatype action_name =
    A_navigate | A_click | A_click_at | A_type | A_fill_form | A_check | A_select | A_press | A_wait | A_assert_visible | A_assert_text
  | A_finish | A_fail | A_blocked

fun action_str :: "action_name \<Rightarrow> jstr" where
  "action_str A_navigate = ''navigate''"
| "action_str A_click = ''click''"
| "action_str A_click_at = ''click_at''"
| "action_str A_type = ''type''"
| "action_str A_fill_form = ''fill_form''"
| "action_str A_check = ''check''"
| "action_str A_select = ''select''"
| "action_str A_press = ''press''"
| "action_str A_wait = ''wait''"
| "action_str A_assert_visible = ''assert_visible''"
| "action_str A_assert_text = ''assert_text''"
| "action_str A_finish = ''finish''"
| "action_str A_fail = ''fail''"
| "action_str A_blocked = ''blocked''"

datatype confidence_source = Model | Rules

record strict_action =
  sa_action :: action_name
  sa_target :: jval
  sa_x :: "rat option"
  sa_y :: "rat option"
  sa_value :: jval
  sa_fields :: "jval list option"
  sa_submit :: bool
  sa_reason :: jstr
  sa_expected :: jval
  sa_confidence :: jnum
  sa_step :: jnum
  sa_source :: "confidence_source option"
  sa_fallback :: bool

record step_execution = execution_outcome +
  x_command :: jstr
  x_error :: "jstr option"

section \<open>The world\<close>

datatype page_op =
    P_goto jstr
  | P_pause rat
  | P_settle jstr
  | P_idle
  | P_scroll jstr
  | P_click jstr
  | P_mouse rat rat
  | P_key jstr
  | P_type jstr jstr
  | P_fill jstr jstr
  | P_tag jstr
  | P_type_attr jstr
  | P_check jstr
  | P_uncheck jstr
  | P_select_label jstr jstr
  | P_select_value jstr jstr
  | P_focus jstr
  | P_submit_form jstr
  | P_visible jstr
  | P_body_text
  | P_inner_text jstr
  | P_hit_test jval rat rat

record plan_request =
  rq_step :: planned_step
  rq_goal :: jstr
  rq_observation :: observation
  rq_history :: jstr
  rq_screenshot :: jstr
  rq_attempt :: nat

record plan_reply =
  pr_data :: jval
  pr_metrics :: jval
  pr_raw :: jval

record 'w env =
  en_op :: "page_op \<Rightarrow> 'w \<Rightarrow> jval res \<times> 'w"
  en_observe :: "'w \<Rightarrow> observation res \<times> 'w"
  en_screenshot :: "'w \<Rightarrow> jstr res \<times> 'w"
  en_url :: "'w \<Rightarrow> jstr"
  en_now :: "'w \<Rightarrow> int \<times> 'w"
  en_plan :: "plan_request \<Rightarrow> 'w \<Rightarrow> plan_reply res \<times> 'w"
  en_report :: "bool \<Rightarrow> page_view \<Rightarrow> 'w \<Rightarrow> unit res \<times> 'w"
  en_select_all :: jstr
  en_stack :: "js_error \<Rightarrow> jstr"
  en_regexp :: "jstr \<Rightarrow> rx option"
  en_origin :: "jstr \<Rightarrow> jstr option"

text \<open>What the frontend is told of a step.\<close>

record step_event =
  sv_agent :: jstr
  sv_step :: jnum
  sv_attempt :: "nat option"
  sv_status :: backend_status
  sv_message :: jstr
  sv_category :: "jstr option"
  sv_executed :: "bool option"

datatype event = Performed page_op | Observed observation | Asked plan_request | Reported bool | Announced jnum nat | Emitted step_event

section \<open>Computations\<close>

datatype 'a outcome = Done 'a | Raised js_error | Forever

type_synonym 'w machine = "'w \<times> event list"
type_synonym ('w, 'a) io = "'w machine \<Rightarrow> 'a outcome \<times> 'w machine"

definition io_return :: "'a \<Rightarrow> ('w, 'a) io" where
  "io_return x s = (Done x, s)"

definition io_throw :: "js_error \<Rightarrow> ('w, 'a) io" where
  "io_throw err s = (Raised err, s)"

definition io_bind :: "('w, 'a) io \<Rightarrow> ('a \<Rightarrow> ('w, 'b) io) \<Rightarrow> ('w, 'b) io" where
  "io_bind m f s =
     (case m s of
        (Done x, s') \<Rightarrow> f x s'
      | (Raised err, s') \<Rightarrow> (Raised err, s')
      | (Forever, s') \<Rightarrow> (Forever, s'))"

definition io_then :: "('w, 'a) io \<Rightarrow> ('w, 'b) io \<Rightarrow> ('w, 'b) io" where
  "io_then m n = io_bind m (\<lambda>_. n)"

definition io_catch :: "('w, 'a) io \<Rightarrow> (js_error \<Rightarrow> ('w, 'a) io) \<Rightarrow> ('w, 'a) io" where
  "io_catch m h s = (case m s of (Raised err, s') \<Rightarrow> h err s' | r \<Rightarrow> r)"

definition io_res :: "'a res \<Rightarrow> ('w, 'a) io" where
  "io_res r = (case r of Inl err \<Rightarrow> io_throw err | Inr x \<Rightarrow> io_return x)"

text \<open>A call of the world, with the events it leaves in the trace.\<close>

definition io_call :: "('w \<Rightarrow> 'a res \<times> 'w) \<Rightarrow> ('a res \<Rightarrow> event list) \<Rightarrow> ('w, 'a) io" where
  "io_call f note' s =
     (case f (fst s) of (r, w) \<Rightarrow> (case r of Inl err \<Rightarrow> Raised err | Inr x \<Rightarrow> Done x, (w, snd s @ note' r)))"

definition perform :: "'w env \<Rightarrow> page_op \<Rightarrow> ('w, jval) io" where
  "perform e op' = io_call (en_op e op') (\<lambda>_. [Performed op'])"

definition ignoring :: "('w, jval) io \<Rightarrow> ('w, jval) io" where
  "ignoring m = io_catch m (\<lambda>_. io_return JUndef)"

definition observe :: "'w env \<Rightarrow> ('w, observation) io" where
  "observe e = io_call (en_observe e) (\<lambda>r. case r of Inr ob \<Rightarrow> [Observed ob] | Inl _ \<Rightarrow> [])"

definition screenshot :: "'w env \<Rightarrow> ('w, jstr) io" where
  "screenshot e = io_call (en_screenshot e) (\<lambda>_. [])"

definition ask :: "'w env \<Rightarrow> plan_request \<Rightarrow> ('w, plan_reply) io" where
  "ask e q = io_call (en_plan e q) (\<lambda>_. [Asked q])"

definition report :: "'w env \<Rightarrow> bool \<Rightarrow> page_view \<Rightarrow> ('w, unit) io" where
  "report e ok v = io_call (en_report e ok v) (\<lambda>_. [Reported ok])"

definition now :: "'w env \<Rightarrow> ('w, int) io" where
  "now e s = (case en_now e (fst s) of (t, w) \<Rightarrow> (Done t, (w, snd s)))"

definition page_url :: "'w env \<Rightarrow> ('w, jstr) io" where
  "page_url e s = (Done (en_url e (fst s)), s)"

definition emit :: "step_event \<Rightarrow> ('w, unit) io" where
  "emit v s = (Done (), (fst s, snd s @ [Emitted v]))"

fun perform_all :: "'w env \<Rightarrow> page_op list \<Rightarrow> ('w, jval) io" where
  "perform_all e [] = io_return JUndef"
| "perform_all e (p # ps) = io_then (perform e p) (perform_all e ps)"

end
