(* ===== verification/ActionExecutor.thy ===== *)
theory ActionExecutor
  imports StepIo
begin

text \<open>
  \<^verbatim>\<open>engine/src/automation/action-executor.ts\<close>, \<^verbatim>\<open>coordinate-click-safety.ts\<close> and \<^verbatim>\<open>step-runner-coordinate.ts\<close>: what a model
  proposes becomes a strict action, the action is validated against the last observation, and a valid action becomes operations on the page.
\<close>

section \<open>Normalisation\<close>

definition PLACEHOLDER_REASONS :: rx where
  "PLACEHOLDER_REASONS = ignore_case (alt
     [lit ''motivo breve'', cat [lit ''raz'', one_of [CHR ''o'', CHR 0xF3], lit ''n breve''], cat [Bol, lit ''reason'', Eol],
      cat [Bol, lit ''todo'', Eol], cat [Bol, lit ''n/a'', Eol], cat [Bol, lit ''sin razon informada''],
      cat [Bol, lit ''la ia no informo un motivo util'']])"

definition isPlaceholderReason :: "jstr \<Rightarrow> bool" where
  "isPlaceholderReason reason = (let v = trim reason in if v = [] then True else rx_test PLACEHOLDER_REASONS v)"

definition normalizeUrl :: "jstr \<Rightarrow> jstr" where
  "normalizeUrl value =
     (let trimmed = trim value in
      if trimmed = [] then [] else
      if rx_test (ignore_case (cat [Bol, lit ''http'', opt (lit ''s''), lit ''://''])) trimmed then trimmed else ''https://'' @ trimmed)"

fun action_named :: "jstr \<Rightarrow> action_name list \<Rightarrow> action_name" where
  "action_named s [] = A_blocked"
| "action_named s (a # as) = (if s = action_str a then a else action_named s as)"

definition ALLOWED_ACTIONS :: "action_name list" where
  "ALLOWED_ACTIONS =
     [A_navigate, A_click, A_click_at, A_type, A_fill_form, A_check, A_select, A_press, A_wait, A_assert_visible, A_assert_text, A_finish, A_fail, A_blocked]"

definition finite_num :: "jval \<Rightarrow> rat option" where
  "finite_num v = (case to_number v of Fin q \<Rightarrow> Some q | _ \<Rightarrow> None)"

definition noUsefulReason :: jstr where
  "noUsefulReason = ''La IA no informo un motivo util para esta accion.''"

definition normalizeAction :: "jval \<Rightarrow> jnum \<Rightarrow> strict_action" where
  "normalizeAction raw fallbackStepNumber =
     (let rawReason = take 500 (text_of (js_or (js_get raw ''reason'') (js_get raw ''thought'')));
          coordinate = (\<lambda>k. 
            js_coalesce (js_get raw k) (js_coalesce (js_get raw (''coordinate_'' @ k)) (js_coalesce (js_path raw [''coords'', k]) (js_path raw [''coordinates'', k]))))
      in
      \<lparr>sa_action = action_named (trim (to_string (js_or (js_get raw ''action'') (JStr ''blocked'')))) ALLOWED_ACTIONS,
       sa_target = first_truthy [js_get raw ''target_ref'', js_get raw ''elementId'', js_get raw ''selector'', JUndef],
       sa_x = finite_num (coordinate ''x''), sa_y = finite_num (coordinate ''y''),
       sa_value = first_defined [js_get raw ''value'', js_get raw ''text'', js_get raw ''url'', JUndef],
       sa_fields = (case js_get raw ''fields'' of JArr fs \<Rightarrow> Some fs | _ \<Rightarrow> None),
       sa_submit = truthy (first_truthy [js_get raw ''submit_after_type'', js_get raw ''submitAfterType'', js_get raw ''press_enter_after_type'']),
       sa_reason = (if isPlaceholderReason rawReason then noUsefulReason else rawReason),
       sa_expected = first_truthy [js_get raw ''expected'', js_get raw ''expected_result'', JUndef],
       sa_confidence = (case to_number (js_get raw ''confidence'') of Fin q \<Rightarrow> Fin q | _ \<Rightarrow> Fin 0),
       sa_step = fallbackStepNumber, sa_source = None, sa_fallback = False\<rparr>)"

text \<open>A strict action as the plain object it is, when a rule hands it to \<^verbatim>\<open>normalizeAction\<close>.\<close>

definition num_val :: "rat option \<Rightarrow> jval" where
  "num_val q = (case q of Some r \<Rightarrow> JNum (Fin r) | None \<Rightarrow> JUndef)"

definition action_value :: "strict_action \<Rightarrow> jval" where
  "action_value a =
     JObj [(''action'', JStr (action_str (sa_action a))), (''target_ref'', sa_target a), (''x'', num_val (sa_x a)), (''y'', num_val (sa_y a)),
       (''value'', sa_value a), (''fields'', case sa_fields a of Some fs \<Rightarrow> JArr fs | None \<Rightarrow> JUndef),
       (''submit_after_type'', JBool (sa_submit a)), (''reason'', JStr (sa_reason a)), (''expected'', sa_expected a),
       (''confidence'', JNum (sa_confidence a)), (''step_number'', JNum (sa_step a))]"

section \<open>Validation against an observation\<close>

definition refuse :: "jstr \<Rightarrow> validation" where
  "refuse reason = \<lparr>v_ok = False, v_reason = reason, v_conclusive = False\<rparr>"

definition accepted :: validation where
  "accepted = \<lparr>v_ok = True, v_reason = ''Accion valida'', v_conclusive = False\<rparr>"

definition has_ref :: "jval \<Rightarrow> element \<Rightarrow> bool" where
  "has_ref v el \<longleftrightarrow> v = JStr (el_ref el)"

definition element_at :: "observation \<Rightarrow> jval \<Rightarrow> element option" where
  "element_at ob v = find (has_ref v) (ob_elements ob)"

text \<open>The first refusal of a list of guards.\<close>

fun first_refusal :: "(bool \<times> jstr) list \<Rightarrow> jstr option" where
  "first_refusal [] = None"
| "first_refusal ((g, reason) # gs) = (if g then Some reason else first_refusal gs)"

definition targetRefusal :: "strict_action \<Rightarrow> observation \<Rightarrow> jstr option" where
  "targetRefusal a ob =
     (let name = action_str (sa_action a); target = ''El target '' @ to_string (sa_target a) in
      if \<not> truthy (sa_target a) then Some (''La accion '' @ name @ '' requiere target_ref'')
      else case element_at ob (sa_target a) of
        None \<Rightarrow> Some (''No existe el target '' @ to_string (sa_target a) @ '' en el snapshot actual'')
      | Some el \<Rightarrow> first_refusal
          [(\<not> el_visible el, target @ '' no esta visible''),
           (el_disabled el, target @ '' esta deshabilitado''),
           (sa_action a = A_type \<and> \<not> el_editable el, target @ '' no es editable''),
           (sa_action a = A_click \<and> \<not> el_clickable el \<and> \<not> el_editable el, target @ '' no parece clickeable'')])"

definition fieldRefusal :: "observation \<Rightarrow> jval \<Rightarrow> jstr option" where
  "fieldRefusal ob field =
     (let ref = js_get field ''target_ref''; target = ''El target '' @ to_string ref in
      if \<not> truthy ref \<or> nullish (js_get field ''value'') then Some ''Cada field de fill_form requiere target_ref y value''
      else case element_at ob ref of
        None \<Rightarrow> Some (''No existe el target '' @ to_string ref @ '' en el snapshot actual'')
      | Some el \<Rightarrow> first_refusal
          [(\<not> el_visible el, target @ '' no esta visible''),
           (el_disabled el, target @ '' esta deshabilitado''),
           (\<not> el_editable el, target @ '' no es editable'')])"

fun first_refused :: "('a \<Rightarrow> jstr option) \<Rightarrow> 'a list \<Rightarrow> jstr option" where
  "first_refused f [] = None"
| "first_refused f (x # xs) = (case f x of Some r \<Rightarrow> Some r | None \<Rightarrow> first_refused f xs)"

definition formRefusal :: "strict_action \<Rightarrow> observation \<Rightarrow> jstr option" where
  "formRefusal a ob =
     (case sa_fields a of
        None \<Rightarrow> Some ''La accion fill_form requiere fields''
      | Some fs \<Rightarrow> if fs = [] then Some ''La accion fill_form requiere fields'' else first_refused (fieldRefusal ob) fs)"

definition checkRefusal :: "strict_action \<Rightarrow> observation \<Rightarrow> jstr option" where
  "checkRefusal a ob =
     (let target = ''El target '' @ to_string (sa_target a) in
      if \<not> truthy (sa_target a) then Some ''La accion check requiere target_ref''
      else case element_at ob (sa_target a) of
        None \<Rightarrow> Some (''No existe el target '' @ to_string (sa_target a) @ '' en el snapshot actual'')
      | Some el \<Rightarrow> first_refusal
          [(el_disabled el, target @ '' esta deshabilitado''),
           (el_type el \<notin> {''checkbox'', ''radio''}, target @ '' no es checkbox ni radio'')])"

definition pointRefusal :: "strict_action \<Rightarrow> observation \<Rightarrow> jstr option" where
  "pointRefusal a ob =
     (case (sa_x a, sa_y a) of
        (Some x, Some y) \<Rightarrow>
          (case ob_viewport ob of
             Some (width, height) \<Rightarrow>
               if x < 0 \<or> y < 0 \<or> x > width \<or> y > height
               then Some (''Las coordenadas '' @ num_str (Fin x) @ '','' @ num_str (Fin y) @ '' estan fuera del viewport'') else None
           | None \<Rightarrow> None)
      | _ \<Rightarrow> Some ''La accion click_at requiere coordenadas x/y'')"

definition ACTIONS_WITH_TARGET :: "action_name list" where
  "ACTIONS_WITH_TARGET = [A_click, A_type, A_select, A_assert_visible]"

definition actionRefusal :: "strict_action \<Rightarrow> observation \<Rightarrow> jnum \<Rightarrow> jstr option" where
  "actionRefusal a ob currentStep =
     first_rule
       [if \<not> num_eq (sa_step a) currentStep
        then Some (''La accion apunta al paso '' @ num_str (sa_step a) @ '', pero se esta ejecutando el paso '' @ num_str currentStep) else None,
        if sa_action a \<in> {A_blocked, A_fail} \<and> isPlaceholderReason (sa_reason a)
        then Some ''La IA devolvio un bloqueo sin motivo diagnostico real'' else None,
        if sa_action a \<in> set ACTIONS_WITH_TARGET then targetRefusal a ob else None,
        if sa_action a = A_fill_form then formRefusal a ob else None,
        if sa_action a = A_check then checkRefusal a ob else None,
        if sa_action a = A_click_at then pointRefusal a ob else None,
        if sa_action a \<in> {A_navigate, A_type, A_select, A_press, A_assert_text} \<and> trim (text_of (sa_value a)) = []
        then Some (''La accion '' @ action_str (sa_action a) @ '' requiere value'') else None]"

definition validateAction :: "strict_action \<Rightarrow> observation \<Rightarrow> jnum \<Rightarrow> validation" where
  "validateAction a ob currentStep = (case actionRefusal a ob currentStep of Some reason \<Rightarrow> refuse reason | None \<Rightarrow> accepted)"

section \<open>Clicks by coordinates\<close>

definition shouldUseCoordinateClickFallback :: "strict_action \<Rightarrow> jstr \<Rightarrow> bool" where
  "shouldUseCoordinateClickFallback a validationReason \<longleftrightarrow>
     sa_action a = A_click \<and> sa_x a \<noteq> None \<and> sa_y a \<noteq> None \<and>
     rx_test (ignore_case (words [''no parece clickeable'', ''requiere target_ref'', ''no existe el target''])) validationReason"

definition toCoordinateClickFallback :: "strict_action \<Rightarrow> jstr \<Rightarrow> strict_action" where
  "toCoordinateClickFallback a validationReason =
     a\<lparr>sa_action := A_click_at, sa_fallback := True,
       sa_reason := str_or (trim (sa_reason a)) ''Click visual por coordenadas.'' @ '' Fallback visual: '' @ validationReason\<rparr>"

definition elementName :: "element \<Rightarrow> jstr" where
  "elementName el = first_text [el_name el, el_label el, el_text el, el_title el]"

text \<open>The identity of an element: the code joins these in JSON, which is injective.\<close>

definition identity :: "element \<Rightarrow> (jstr \<times> jstr \<times> jstr \<times> jstr) option" where
  "identity el = (let name = trim (elementName el) in if name = [] then None else Some (el_tag el, el_role el, name, el_type el))"

definition same_identity :: "(jstr \<times> jstr \<times> jstr \<times> jstr) \<Rightarrow> element \<Rightarrow> bool" where
  "same_identity key el \<longleftrightarrow> identity el = Some key \<and> el_visible el \<and> \<not> el_disabled el"

definition refreshCoordinateTarget :: "strict_action \<Rightarrow> observation \<Rightarrow> observation \<Rightarrow> strict_action option" where
  "refreshCoordinateTarget a earlier after =
     (case Option.bind (element_at earlier (sa_target a)) identity of
        None \<Rightarrow> None
      | Some key \<Rightarrow>
          if ob_url earlier \<noteq> ob_url after \<or> ob_ready after \<noteq> ''complete'' \<or> ob_loading after \<noteq> [] then None
          else (case filter (same_identity key) (ob_elements after) of
            [target] \<Rightarrow>
              (case el_box target of
                 None \<Rightarrow> None
               | Some box \<Rightarrow>
                   if bx_width box \<le> 0 \<or> bx_height box \<le> 0 then None
                   else Some (a\<lparr>sa_target := JStr (el_ref target), sa_x := Some (bx_x box + bx_width box / 2), sa_y := Some (bx_y box + bx_height box / 2)\<rparr>))
          | _ \<Rightarrow> None))"

record refreshed =
  rf_action :: strict_action
  rf_observation :: observation
  rf_screenshot :: jstr
  rf_validation :: validation

definition revalidateCoordinateClick :: "'w env \<Rightarrow> strict_action \<Rightarrow> observation \<Rightarrow> jnum \<Rightarrow> validation \<Rightarrow> ('w, refreshed) io" where
  "revalidateCoordinateClick e a earlier stepNumber failure =
     io_bind (observe e) (\<lambda>ob.
     io_bind (screenshot e) (\<lambda>shot.
       io_return
         (case refreshCoordinateTarget a earlier ob of
            Some target \<Rightarrow>
              (let a' = toCoordinateClickFallback target (v_reason failure) in
               \<lparr>rf_action = a', rf_observation = ob, rf_screenshot = shot, rf_validation = validateAction a' ob stepNumber\<rparr>)
          | None \<Rightarrow>
              \<lparr>rf_action = a, rf_observation = ob, rf_screenshot = shot,
               rf_validation = refuse ''El objetivo del clic no se pudo confirmar en la observacion nueva; se requiere replanificar.''\<rparr>)))"

definition auditCoordinatePostValidation :: "strict_action \<Rightarrow> validation \<Rightarrow> validation" where
  "auditCoordinatePostValidation a v =
     (if sa_fallback a \<and> \<not> v_conclusive v
      then \<lparr>v_ok = False, v_reason = ''Clic por coordenadas ejecutado; su efecto requiere auditoria con la evidencia posterior.'', v_conclusive = False\<rparr>
      else v)"

section \<open>Execution\<close>

definition UNIT_AMOUNT :: rx where
  "UNIT_AMOUNT = ignore_case (cat
     [Grp 1 (cat [plus1 digit, opt (cat [one_of ''.,'', plus1 digit])]), star space,
      opt (Grp 2 (alt [lit ''ms'', cat [lit ''milisegundo'', opt (lit ''s'')], lit ''s'', lit ''seg'', cat [lit ''segundo'', opt (lit ''s'')],
        lit ''m'', lit ''min'', cat [lit ''minuto'', opt (lit ''s'')]]))])"

definition comma_point :: "jstr \<Rightarrow> jstr" where
  "comma_point s = map (\<lambda>c. if c = CHR '','' then CHR ''.'' else c) s"

definition parseWaitMs :: "jval \<Rightarrow> rat" where
  "parseWaitMs value =
     (let raw = toLowerCase (trim (if nullish value then [] else to_string value)) in
      if raw = [] then 1500
      else case string_to_number raw of
        Fin n \<Rightarrow> if 0 < n \<and> n < 1000 then n * 1000 else n
      | _ \<Rightarrow>
        (case rx_exec UNIT_AMOUNT raw of
           None \<Rightarrow> 1500
         | Some m \<Rightarrow>
             (case string_to_number (comma_point (cap_text m 1)) of
                Fin amount \<Rightarrow>
                  (let unit = toLowerCase (str_or (cap_text m 2) ''ms'') in
                   if starts_with unit ''m'' \<and> unit \<noteq> ''ms'' then amount * 60 * 1000
                   else if unit = ''s'' \<or> starts_with unit ''seg'' then amount * 1000 else amount)
              | _ \<Rightarrow> 1500)))"

definition MAX_WAIT_MS :: rat where "MAX_WAIT_MS = 300000"

text \<open>The pause a \<^verbatim>\<open>wait\<close> makes, in milliseconds.\<close>

definition wait_ms :: "jval \<Rightarrow> rat" where
  "wait_ms v = min MAX_WAIT_MS (max 500 (parseWaitMs v))"

definition STABLE_AFTER_ACTION_MS :: rat where "STABLE_AFTER_ACTION_MS = 1000"

definition ref_of :: "strict_action \<Rightarrow> jstr" where
  "ref_of a = to_string (sa_target a)"

definition value_text :: "strict_action \<Rightarrow> jstr" where
  "value_text a = text_of (sa_value a)"

definition field_list :: "strict_action \<Rightarrow> jval list" where
  "field_list a = (case sa_fields a of Some fs \<Rightarrow> fs | None \<Rightarrow> [])"

definition need_target :: "strict_action \<Rightarrow> ('w, jval) io \<Rightarrow> ('w, jval) io" where
  "need_target a m = (if truthy (sa_target a) then m else io_throw (Error (action_str (sa_action a) @ '' requiere target_ref'')))"

definition settle :: "'w env \<Rightarrow> jstr \<Rightarrow> ('w, jval) io" where
  "settle e previousUrl = perform e (P_settle previousUrl)"

text \<open>\<^verbatim>\<open>coordinateTargetAtPoint\<close>: the element under the point is still the target; a failing query counts as no.\<close>

definition coordinateTargetAtPoint :: "'w env \<Rightarrow> strict_action \<Rightarrow> ('w, jval) io" where
  "coordinateTargetAtPoint e a =
     (case (sa_x a, sa_y a) of
        (Some x, Some y) \<Rightarrow>
          if truthy (sa_target a) then io_catch (perform e (P_hit_test (sa_target a) x y)) (\<lambda>_. io_return (JBool False))
          else io_return (JBool False)
      | _ \<Rightarrow> io_return (JBool False))"

definition runClickAt :: "'w env \<Rightarrow> strict_action \<Rightarrow> ('w, jval) io" where
  "runClickAt e a =
     (case (sa_x a, sa_y a) of
        (Some x, Some y) \<Rightarrow>
          io_bind (if sa_fallback a then coordinateTargetAtPoint e a else io_return (JBool True)) (\<lambda>hit.
          if \<not> truthy hit then io_throw (Error ''El objetivo cambio o esta cubierto; no se ejecuto el clic por coordenadas.'')
          else io_bind (page_url e) (\<lambda>url. io_then (perform e (P_mouse x y)) (settle e url)))
      | _ \<Rightarrow> io_throw (Error ''click_at requiere coordenadas x/y''))"

definition runType :: "'w env \<Rightarrow> strict_action \<Rightarrow> ('w, jval) io" where
  "runType e a =
     io_bind (page_url e) (\<lambda>url.
     io_then (perform_all e [P_scroll (ref_of a), P_click (ref_of a)])
    (io_then (ignoring (perform e (P_key (en_select_all e))))
    (io_then (perform e (P_type (ref_of a) (value_text a)))
    (io_then (if sa_submit a then perform e (P_key ''Enter'') else io_return JUndef) (settle e url)))))"

definition affirmative :: "jstr \<Rightarrow> bool" where
  "affirmative s \<longleftrightarrow> toLowerCase s \<in> {''1'', ''true'', ''yes'', ''si'', ''on''}"

definition fillField :: "'w env \<Rightarrow> jval \<Rightarrow> ('w, jval) io" where
  "fillField e field =
     (let r = to_string (js_get field ''target_ref''); v = to_string (js_get field ''value'') in
      io_bind (perform e (P_tag r)) (\<lambda>tag.
      io_bind (perform e (P_type_attr r)) (\<lambda>kind.
      io_then (perform e (P_scroll r))
        (if tag = JStr ''select'' then perform e (P_select_value r v)
         else if kind \<in> {JStr ''checkbox'', JStr ''radio''} then perform e (if affirmative v then P_check r else P_uncheck r)
         else perform e (P_fill r v)))))"

fun fillFields :: "'w env \<Rightarrow> jval list \<Rightarrow> ('w, jval) io" where
  "fillFields e [] = io_return JUndef"
| "fillFields e (f # fs) = io_then (fillField e f) (fillFields e fs)"

definition submitForm :: "'w env \<Rightarrow> jval list \<Rightarrow> ('w, jval) io" where
  "submitForm e fs =
     io_bind (io_catch (perform e (P_submit_form (to_string (js_get (last fs) ''target_ref'')))) (\<lambda>_. io_return (JBool False))) (\<lambda>submitted.
     if truthy submitted then io_return JUndef else perform e (P_key ''Enter''))"

definition runFillForm :: "'w env \<Rightarrow> strict_action \<Rightarrow> ('w, jval) io" where
  "runFillForm e a =
     (let fs = field_list a in
      io_bind (page_url e) (\<lambda>url.
      if fs = [] then io_throw (Error ''fill_form requiere fields'')
      else io_then (fillFields e fs)
        (io_then (if sa_submit a then submitForm e fs else io_return JUndef) (settle e url))))"

definition runSelect :: "'w env \<Rightarrow> strict_action \<Rightarrow> ('w, jval) io" where
  "runSelect e a =
     io_bind (page_url e) (\<lambda>url.
     io_then (perform e (P_scroll (ref_of a)))
    (io_then (io_catch (perform e (P_select_label (ref_of a) (value_text a))) (\<lambda>_. perform e (P_select_value (ref_of a) (value_text a))))
       (settle e url)))"

definition contains_text :: "jval \<Rightarrow> jstr \<Rightarrow> bool" where
  "contains_text v t \<longleftrightarrow> str_includes (toLowerCase (to_string v)) (toLowerCase t)"

definition runAssertText :: "'w env \<Rightarrow> strict_action \<Rightarrow> ('w, jval) io" where
  "runAssertText e a =
     (let t = value_text a in
      io_bind (perform e P_body_text) (\<lambda>bodyText.
      if truthy (sa_target a) then
        io_bind (io_catch (perform e (P_inner_text (ref_of a))) (\<lambda>_. io_return (JStr []))) (\<lambda>content.
        if \<not> contains_text content t \<and> \<not> contains_text bodyText t
        then io_throw (Error (''Texto no encontrado en target ni pagina: '' @ t)) else io_return JUndef)
      else if \<not> contains_text bodyText t then io_throw (Error (''Texto no visible: '' @ t)) else io_return JUndef))"

definition runAction :: "'w env \<Rightarrow> strict_action \<Rightarrow> ('w, jval) io" where
  "runAction e a =
     (case sa_action a of
        A_navigate \<Rightarrow> perform_all e [P_goto (normalizeUrl (value_text a)), P_pause STABLE_AFTER_ACTION_MS]
      | A_click \<Rightarrow> need_target a (io_bind (page_url e) (\<lambda>url. perform_all e [P_scroll (ref_of a), P_click (ref_of a), P_settle url]))
      | A_click_at \<Rightarrow> runClickAt e a
      | A_type \<Rightarrow> need_target a (runType e a)
      | A_fill_form \<Rightarrow> runFillForm e a
      | A_check \<Rightarrow>
          need_target a (io_then (perform_all e [P_scroll (ref_of a), P_check (ref_of a)]) (io_bind (page_url e) (settle e)))
      | A_select \<Rightarrow> need_target a (runSelect e a)
      | A_press \<Rightarrow>
          io_bind (page_url e) (\<lambda>url.
          io_then (if truthy (sa_target a) then perform e (P_focus (ref_of a)) else io_return JUndef)
            (perform_all e [P_key (to_string (js_or (sa_value a) (JStr ''Enter''))), P_settle url]))
      | A_wait \<Rightarrow> perform e (P_pause (wait_ms (sa_value a)))
      | A_assert_visible \<Rightarrow> need_target a (perform e (P_visible (ref_of a)))
      | A_assert_text \<Rightarrow> runAssertText e a
      | A_finish \<Rightarrow> io_return JUndef
      | A_fail \<Rightarrow> io_throw (Error (str_or (sa_reason a) ''La IA marco el paso como fallido''))
      | A_blocked \<Rightarrow> io_throw (Error (str_or (sa_reason a) ''La IA bloqueo el paso'')))"

text \<open>The text \<^verbatim>\<open>command\<close> of an action that ran.\<close>

definition submit_suffix :: "strict_action \<Rightarrow> jstr" where
  "submit_suffix a = (if sa_submit a then '' + Enter'' else [])"

definition coordinate_str :: "rat option \<Rightarrow> jstr" where
  "coordinate_str q = (case q of Some r \<Rightarrow> num_str (num_round (Fin r)) | None \<Rightarrow> [])"

definition json_text :: "jval \<Rightarrow> jstr" where
  "json_text v = (case json_stringify v of Some t \<Rightarrow> t | None \<Rightarrow> ''undefined'')"

definition commandOf :: "strict_action \<Rightarrow> jstr" where
  "commandOf a =
     (case sa_action a of
        A_navigate \<Rightarrow> ''page.goto('' @ json_quote (normalizeUrl (value_text a)) @ '')''
      | A_click \<Rightarrow> ''locator('' @ ref_of a @ '').click()''
      | A_click_at \<Rightarrow> ''page.mouse.click('' @ coordinate_str (sa_x a) @ '', '' @ coordinate_str (sa_y a) @ '')''
      | A_type \<Rightarrow> ''locator('' @ ref_of a @ '').pressSequentially('' @ json_text (js_or (sa_value a) (JStr [])) @ '')'' @ submit_suffix a
      | A_fill_form \<Rightarrow> ''fill_form('' @ join '','' (map (\<lambda>f. to_string (js_get f ''target_ref'')) (field_list a))
          @ '')'' @ submit_suffix a
      | A_check \<Rightarrow> ''locator('' @ ref_of a @ '').check()''
      | A_select \<Rightarrow> ''locator('' @ ref_of a @ '').selectOption('' @ json_text (js_or (sa_value a) (JStr [])) @ '')''
      | A_press \<Rightarrow> ''page.keyboard.press('' @ json_text (js_or (sa_value a) (JStr ''Enter'')) @ '')''
      | A_wait \<Rightarrow> ''page.waitForTimeout('' @ num_str (Fin (wait_ms (sa_value a))) @ '')''
      | A_assert_visible \<Rightarrow> ''expect locator('' @ ref_of a @ '') visible''
      | A_assert_text \<Rightarrow> ''assert text visible '' @ json_quote (value_text a)
      | A_finish \<Rightarrow> ''finish''
      | A_fail \<Rightarrow> ''fail''
      | A_blocked \<Rightarrow> ''blocked'')"

text \<open>\<^verbatim>\<open>executeStrictAction\<close>: every exception becomes a failed execution.\<close>

definition failedExecution :: "'w env \<Rightarrow> strict_action \<Rightarrow> js_error \<Rightarrow> step_execution" where
  "failedExecution e a err =
     \<lparr>e_ok = False, e_message = str_or (error_message err) ''Error'', x_command = action_str (sa_action a),
      x_error = Some (str_or (en_stack e err) (str_or (error_message err) ''Error''))\<rparr>"

definition doneExecution :: "strict_action \<Rightarrow> int \<Rightarrow> step_execution" where
  "doneExecution a elapsed =
     \<lparr>e_ok = True, e_message = ''Accion ejecutada en '' @ int_str elapsed @ ''ms'', x_command = commandOf a, x_error = None\<rparr>"

definition executeStrictAction :: "'w env \<Rightarrow> strict_action \<Rightarrow> ('w, step_execution) io" where
  "executeStrictAction e a =
     io_bind (now e) (\<lambda>started.
     io_catch
       (io_then (runAction e a) (io_then (ignoring (perform e P_idle)) (io_bind (now e) (\<lambda>t. io_return (doneExecution a (t - started))))))
       (\<lambda>err. io_return (failedExecution e a err)))"

end
