(* ===== verification/StepActions.thy ===== *)
theory StepActions
  imports ActionExecutor
begin

text \<open>
  \<^verbatim>\<open>engine/src/automation/step-contract-actions.ts\<close>: the actions that rules infer from a step and from what the page shows,
  before a model is asked. Each rule gives an action or none, and the first action is taken.
\<close>

section \<open>Finding a control\<close>

definition corpus_has :: "element \<Rightarrow> jstr \<Rightarrow> bool" where
  "corpus_has el term \<longleftrightarrow> str_includes (elementCorpus el) term"

definition any_term :: "jstr list \<Rightarrow> element \<Rightarrow> bool" where
  "any_term terms el = list_ex (corpus_has el) terms"

definition found_by :: "jstr list \<Rightarrow> (element \<Rightarrow> bool) \<Rightarrow> element \<Rightarrow> bool" where
  "found_by terms p el = (if el_visible el then if p el then any_term terms el else False else False)"

definition findElement :: "observation \<Rightarrow> jstr list \<Rightarrow> (element \<Rightarrow> bool) \<Rightarrow> element option" where
  "findElement ob terms p = find (found_by (nonblank (map normalizeText terms)) p) (ob_elements ob)"

definition user_field :: "element \<Rightarrow> bool" where
  "user_field el \<longleftrightarrow> el_editable el \<and> el_type el \<noteq> ''password''"

definition password_field :: "element \<Rightarrow> bool" where
  "password_field el \<longleftrightarrow> el_editable el \<and> el_type el = ''password''"

definition usable :: "element \<Rightarrow> bool" where
  "usable el \<longleftrightarrow> el_clickable el \<and> \<not> el_disabled el"

definition text_field :: "element \<Rightarrow> bool" where
  "text_field el \<longleftrightarrow> el_editable el \<and> el_tag el \<noteq> ''select''"

definition select_tag :: "element \<Rightarrow> bool" where "select_tag el \<longleftrightarrow> el_tag el = ''select''"
definition checkbox :: "element \<Rightarrow> bool" where "checkbox el \<longleftrightarrow> el_type el = ''checkbox''"
definition submit_button :: "element \<Rightarrow> bool" where "submit_button el \<longleftrightarrow> el_clickable el \<and> el_tag el = ''button''"

definition action_control :: "element \<Rightarrow> bool" where
  "action_control el \<longleftrightarrow> el_tag el = ''button'' \<or> toLowerCase (el_role el) \<in> {''button'', ''menuitem''}"

section \<open>Building an action\<close>

definition rule_action :: "rat \<Rightarrow> planned_step \<Rightarrow> action_name \<Rightarrow> jstr \<Rightarrow> strict_action" where
  "rule_action c step name reason =
     \<lparr>sa_action = name, sa_target = JUndef, sa_x = None, sa_y = None, sa_value = JUndef, sa_fields = None, sa_submit = False, sa_reason = reason,
      sa_expected = (if q_expected step = [] then JUndef else JStr (q_expected step)), sa_confidence = Fin c, sa_step = q_number step,
      sa_source = None, sa_fallback = False\<rparr>"

definition click_on :: "rat \<Rightarrow> planned_step \<Rightarrow> jstr \<Rightarrow> element \<Rightarrow> strict_action" where
  "click_on c step reason el = rule_action c step A_click reason\<lparr>sa_target := JStr (el_ref el)\<rparr>"

definition type_into :: "rat \<Rightarrow> planned_step \<Rightarrow> jstr \<Rightarrow> jstr \<Rightarrow> element \<Rightarrow> strict_action" where
  "type_into c step reason v el = rule_action c step A_type reason\<lparr>sa_target := JStr (el_ref el), sa_value := JStr v\<rparr>"

definition field_value :: "jstr \<Rightarrow> jstr \<Rightarrow> jval" where
  "field_value ref v = JObj [(''target_ref'', JStr ref), (''value'', JStr v)]"

definition fill_with :: "rat \<Rightarrow> planned_step \<Rightarrow> jstr \<Rightarrow> bool \<Rightarrow> jval list \<Rightarrow> strict_action" where
  "fill_with c step reason submit fs = rule_action c step A_fill_form reason\<lparr>sa_fields := Some fs, sa_submit := submit\<rparr>"

text \<open>\<^verbatim>\<open>data.a ?? data.b ?? ...\<close>.\<close>

fun data_first :: "(jstr \<times> jstr) list \<Rightarrow> jstr list \<Rightarrow> jstr option" where
  "data_first d [] = None"
| "data_first d (k # ks) = (case map_of d k of Some v \<Rightarrow> Some v | None \<Rightarrow> data_first d ks)"

definition guarded :: "bool \<Rightarrow> 'a option \<Rightarrow> 'a option" where
  "guarded b x = (if b then x else None)"

section \<open>Structured data\<close>

definition USER_TERMS :: "jstr list" where "USER_TERMS = [''username'', ''usuario'', ''email'', ''login'', ''user'']"

definition PASSWORD_TERMS :: "jstr list" where
  "PASSWORD_TERMS = [''password'', ''contrasena'', ''contrase'' @ enye @ ''a'']"

definition SUBMITS :: rx where
  "SUBMITS = cat [WordB, words [''enviar'', ''submit'', ''iniciar sesion'', ''confirmar envio''], WordB]"

definition step_sentence :: "planned_step \<Rightarrow> jstr" where
  "step_sentence step = normalizeText (q_action step @ '' '' @ q_expected step)"

definition explicitlySubmits :: "planned_step \<Rightarrow> bool" where
  "explicitlySubmits step = rx_test SUBMITS (normalizeText (q_action step))"

definition user_key :: "planned_step \<Rightarrow> jstr option" where
  "user_key step = data_first (parseStepData (q_data step)) [''username'', ''usuario'', ''user'', ''email'', ''login'']"

definition password_key :: "planned_step \<Rightarrow> jstr option" where
  "password_key step = data_first (parseStepData (q_data step)) [''password'', ''contrase'' @ enye @ ''a'', ''contrasena'', ''pass'']"

definition userField :: "observation \<Rightarrow> element option" where "userField ob = findElement ob USER_TERMS user_field"
definition passwordField :: "observation \<Rightarrow> element option" where "passwordField ob = findElement ob PASSWORD_TERMS password_field"

definition credentialsRule :: "planned_step \<Rightarrow> observation \<Rightarrow> strict_action option" where
  "credentialsRule step ob =
     (case (user_key step, password_key step) of
        (Some user, Some pass) \<Rightarrow>
          (case (userField ob, passwordField ob) of
             (Some u, Some p) \<Rightarrow>
               Some (fill_with 100 step
                 (if explicitlySubmits step then ''Completar las credenciales estructuradas y enviar porque el paso lo solicita explicitamente.''
                  else ''Completar las credenciales estructuradas sin enviar el formulario.'')
                 (explicitlySubmits step) [field_value (el_ref u) user, field_value (el_ref p) pass])
           | _ \<Rightarrow> None)
      | _ \<Rightarrow> None)"

definition userRule :: "planned_step \<Rightarrow> observation \<Rightarrow> strict_action option" where
  "userRule step ob =
     Option.bind (user_key step) (\<lambda>v. map_option (type_into 100 step ''Completar el usuario estructurado sin enviar el formulario.'' v) (userField ob))"

definition passwordRule :: "planned_step \<Rightarrow> observation \<Rightarrow> strict_action option" where
  "passwordRule step ob =
     Option.bind (password_key step)
       (\<lambda>v. map_option (type_into 100 step ''Completar la contrasena estructurada sin enviar el formulario.'' v) (passwordField ob))"

definition PRESSES :: "jstr list" where
  "PRESSES = [''presionar'', ''pulsar'', ''hacer clic'', ''clic'', ''click'', ''enviar'']"

definition LOGIN_PRESS :: rx where
  "LOGIN_PRESS = Or (cat [words PRESSES, gap, opt (words [''boton '', ''button '']), lit ''login''])
     (cat [opt (words [''boton '', ''button '']), lit ''login'', gap, words PRESSES])"

definition loginRule :: "planned_step \<Rightarrow> observation \<Rightarrow> strict_action option" where
  "loginRule step ob =
     guarded (rx_test LOGIN_PRESS (step_sentence step))
       (map_option (click_on 100 step ''Activar el boton Login visible indicado por el paso.'') (findElement ob [''login'', ''iniciar sesion''] usable))"

definition titleKey :: "planned_step \<Rightarrow> bool" where
  "titleKey step \<longleftrightarrow> (let keys = fst ` set (parseStepData (q_data step)) in ''title'' \<in> keys \<or> ''titulo'' \<in> keys)"

definition titleText :: "planned_step \<Rightarrow> jstr" where
  "titleText step = (case data_first (parseStepData (q_data step)) [''title'', ''titulo''] of Some v \<Rightarrow> v | None \<Rightarrow> [])"

definition CONFIRM_TERMS :: "jstr list" where "CONFIRM_TERMS = [''confirmed'', ''confirmar'', ''confirmado'']"

definition confirm_key :: "planned_step \<Rightarrow> jstr option" where
  "confirm_key step = data_first (parseStepData (q_data step)) [''confirmed'', ''confirmado'']"

definition field_for :: "jstr option \<Rightarrow> element option \<Rightarrow> jval list" where
  "field_for v el = (case (v, el) of (Some t, Some e) \<Rightarrow> [field_value (el_ref e) t] | _ \<Rightarrow> [])"

definition formFields :: "planned_step \<Rightarrow> observation \<Rightarrow> jval list" where
  "formFields step ob =
     field_for (if titleKey step \<and> titleText step \<noteq> [] then Some (titleText step) else None) (findElement ob [''title'', ''titulo''] text_field)
     @ field_for (data_first (parseStepData (q_data step)) [''severity'', ''severidad'']) (findElement ob [''severity'', ''severidad''] select_tag)
     @ field_for (confirm_key step) (findElement ob CONFIRM_TERMS checkbox)"

definition formFieldsRule :: "planned_step \<Rightarrow> observation \<Rightarrow> strict_action option" where
  "formFieldsRule step ob =
     (let fs = formFields step ob in
      guarded (fs \<noteq> []) (Some (fill_with 100 step
        (if explicitlySubmits step then ''Completar los controles y enviar porque el paso lo solicita explicitamente.''
         else ''Completar los controles del formulario sin enviarlo.'')
        (explicitlySubmits step) fs)))"

definition emptyTitleRule :: "planned_step \<Rightarrow> observation \<Rightarrow> strict_action option" where
  "emptyTitleRule step ob =
     guarded (titleKey step \<and> titleText step = [] \<and> rx_test (words [''enviar'', ''crear'', ''submit'', ''sin completar'']) (step_sentence step))
       (map_option (click_on 100 step ''Enviar el formulario sin completar el campo requerido.'')
         (findElement ob [''crear incidencia'', ''enviar'', ''submit'', ''crear''] submit_button))"

definition filter_key :: "planned_step \<Rightarrow> jstr option" where
  "filter_key step = data_first (parseStepData (q_data step)) [''filter'', ''filtro'']"

definition visible_text_field :: "element \<Rightarrow> bool" where
  "visible_text_field el \<longleftrightarrow> el_visible el \<and> text_field el"

definition or_else :: "'a option \<Rightarrow> 'a option \<Rightarrow> 'a option" where
  "or_else x y = (case x of None \<Rightarrow> y | Some v \<Rightarrow> Some v)"

definition inputRule :: "planned_step \<Rightarrow> observation \<Rightarrow> strict_action option" where
  "inputRule step ob =
     (let wanted = filter_key step;
          value = or_else wanted (data_first (parseStepData (q_data step)) [''search_term'', ''termino'', ''query'', ''busqueda''])
      in case value of
           None \<Rightarrow> None
         | Some v \<Rightarrow>
             map_option (type_into 100 step
                 (if wanted \<noteq> None then ''Aplicar el filtro estructurado del caso.'' else ''Ingresar el termino de busqueda estructurado del caso.'') v)
               (or_else (findElement ob (if wanted \<noteq> None then [''filter'', ''filtrar''] else [''search'', ''buscar'']) text_field)
                  (find visible_text_field (ob_elements ob))))"

definition confirmRule :: "planned_step \<Rightarrow> observation \<Rightarrow> strict_action option" where
  "confirmRule step ob =
     guarded (confirm_key step \<noteq> None)
       (map_option (\<lambda>el. rule_action 100 step A_check ''Activar el control de confirmacion indicado por el caso.''\<lparr>sa_target := JStr (el_ref el)\<rparr>)
         (findElement ob CONFIRM_TERMS checkbox))"

definition hintRule :: "planned_step \<Rightarrow> observation \<Rightarrow> strict_action option" where
  "hintRule step ob =
     (let opens = (map_of (parseStepData (q_data step)) ''action'' = Some ''open_modal'');
          term = (if opens \<or> rx_test (lit ''detalle'') (step_sentence step) then ''abrir detalle'' else ''cargar resultado'') in
      guarded (opens \<or> rx_test (words [''pulsar'', ''abrir el detalle'', ''cargar resultado'']) (step_sentence step))
        (map_option (click_on 100 step (''Ejecutar la accion visible '' @ [CHR 34] @ term @ [CHR 34] @ ''.'')) (findElement ob [term] usable)))"

definition inferStructuredAction :: "planned_step \<Rightarrow> observation \<Rightarrow> strict_action option" where
  "inferStructuredAction step ob =
     first_rule [credentialsRule step ob, userRule step ob, passwordRule step ob, loginRule step ob, formFieldsRule step ob, emptyTitleRule step ob,
       inputRule step ob, confirmRule step ob, hintRule step ob]"

section \<open>Conventions of the interface\<close>

definition strategy :: "jstr \<Rightarrow> jstr" where
  "strategy s = ''Estrategia determinista del workflow: '' @ s"

definition control_with :: "jstr list \<Rightarrow> bool \<Rightarrow> element \<Rightarrow> bool" where
  "control_with terms controlOnly el =
     (if \<not> el_visible el \<or> el_disabled el \<or> \<not> el_clickable el then False
      else if controlOnly \<and> \<not> action_control el then False else any_term terms el)"

definition visibleControl :: "observation \<Rightarrow> jstr list \<Rightarrow> bool \<Rightarrow> element option" where
  "visibleControl ob terms controlOnly = find (control_with (map normalizeText terms) controlOnly) (ob_elements ob)"

definition act_text :: "planned_step \<Rightarrow> jstr" where "act_text step = normalizeText (q_action step)"
definition raw_data :: "planned_step \<Rightarrow> jstr" where "raw_data step = trim (q_data step)"
definition on_page :: "observation \<Rightarrow> jstr \<Rightarrow> bool" where "on_page ob page = str_includes (normalizeText (ob_url ob)) page"

definition press :: "planned_step \<Rightarrow> observation \<Rightarrow> jstr list \<Rightarrow> bool \<Rightarrow> jstr \<Rightarrow> strict_action option" where
  "press step ob terms controlOnly reason = map_option (click_on 99 step (strategy reason)) (visibleControl ob terms controlOnly)"

definition isTyping :: "planned_step \<Rightarrow> bool" where
  "isTyping step \<longleftrightarrow>
     rx_test (words [''escribir'', ''ingresar'', ''introducir'', ''completar'', ''tipear'']) (act_text step) \<and>
     \<not> rx_test (lit ''sin completar'') (act_text step)"

definition FIRST_NAME :: "jstr list" where "FIRST_NAME = [''first name'', ''first_name'']"
definition LAST_NAME :: "jstr list" where "LAST_NAME = [''last name'', ''last_name'']"
definition POSTAL_CODE :: "jstr list" where "POSTAL_CODE = [''postal code'', ''postal_code'', ''zip'']"

definition nth_text :: "jstr list \<Rightarrow> nat \<Rightarrow> jstr" where
  "nth_text xs n = (if n < length xs then xs ! n else [])"

text \<open>Whether a control already shows its value; a control without text has no value in the snapshot.\<close>

definition shows_value :: "observation \<Rightarrow> element \<times> jstr \<Rightarrow> bool" where
  "shows_value ob = (\<lambda>(el, v). v \<noteq> [] \<and> (case element_at ob (JStr (el_ref el)) of Some found \<Rightarrow> el_value found = v | None \<Rightarrow> False))"

text \<open>The three checkout fields: filled when they do not hold the values yet, otherwise the form is continued.\<close>

definition checkoutFields :: "planned_step \<Rightarrow> observation \<Rightarrow> jstr list \<Rightarrow> bool \<Rightarrow> jstr \<Rightarrow> jstr \<Rightarrow> strict_action option" where
  "checkoutFields step ob values submit fillReason continueReason =
     (case (findElement ob FIRST_NAME user_field, findElement ob LAST_NAME user_field, findElement ob POSTAL_CODE user_field) of
        (Some a, Some b, Some c) \<Rightarrow>
          (let filled = [(a, nth_text values 0), (b, nth_text values 1), (c, nth_text values 2)] in
           if \<not> list_all (shows_value ob) filled
           then Some (fill_with 99 step (strategy fillReason) submit (map (\<lambda>(el, v). field_value (el_ref el) v) filled))
           else press step ob [''continue''] True continueReason)
      | _ \<Rightarrow> None)"

definition CHECKOUT_FLOW :: rx where
  "CHECKOUT_FLOW = Or (cat [lit ''completar'', gap, words [''checkout'', ''datos'']]) (cat [lit ''finalizar '', opt (lit ''la ''), lit ''compra''])"

definition CONTINUE :: rx where
  "CONTINUE = Or (cat [opt (lit ''hacer clic en ''), lit ''continue'']) (lit ''continuar'')"

definition purchaseRule :: "planned_step \<Rightarrow> observation \<Rightarrow> strict_action option" where
  "purchaseRule step ob =
     guarded (rx_test CHECKOUT_FLOW (act_text step) \<and> 3 \<le> length (slashParts (raw_data step)))
       (first_rule
         [guarded (on_page ob ''cart.html'') (press step ob [''checkout''] True ''abrir Checkout desde el carrito.''),
          guarded (on_page ob ''checkout-step-one.html'')
            (checkoutFields step ob (map trim (split_on (CHR ''/'') (raw_data step))) (rx_test CONTINUE (act_text step))
              ''completar los datos de Checkout.'' ''continuar al resumen de compra.''),
          guarded (on_page ob ''checkout-step-two.html'') (press step ob [''finish''] True ''finalizar la compra desde el resumen.'')])"

definition SECRET_WORDS :: "jstr list" where "SECRET_WORDS = [''password'', ''contrasena'', ''clave'']"

definition REPLACE_PASSWORD :: rx where
  "REPLACE_PASSWORD =
     Or (cat [words [''reemplazar'', ''cambiar''], gap, words SECRET_WORDS, lazy_star any_char, words [''login'', ''iniciar sesion'']])
        (cat [words [''login'', ''iniciar sesion''], lazy_star any_char, words [''reemplazar'', ''cambiar''], gap, words SECRET_WORDS])"

definition secret_field :: "element \<Rightarrow> bool" where
  "secret_field el \<longleftrightarrow> el_editable el \<and> (el_type el = ''password'' \<or> any_term SECRET_WORDS el)"

definition replaceRule :: "planned_step \<Rightarrow> observation \<Rightarrow> strict_action option" where
  "replaceRule step ob =
     guarded (rx_test REPLACE_PASSWORD (act_text step) \<and> raw_data step \<noteq> [])
       (map_option (\<lambda>el. type_into 99 step (strategy ''reemplazar la contrasena y enviar el login.'') (raw_data step) el\<lparr>sa_submit := True\<rparr>)
         (findElement ob SECRET_WORDS secret_field))"

definition ADD_FROM_DETAIL :: rx where
  "ADD_FROM_DETAIL = Or (cat [words [''agregar'', ''add to cart''], gap, words [''detalle'', ''carrito'']])
     (cat [lit ''detalle'', gap, words [''agregar'', ''carrito'']])"

definition detailRule :: "planned_step \<Rightarrow> observation \<Rightarrow> strict_action option" where
  "detailRule step ob =
     guarded (on_page ob ''inventory-item.html'' \<and> rx_test ADD_FROM_DETAIL (act_text step))
       (press step ob [''add to cart''] True ''agregar el producto visible desde su detalle.'')"

definition product_char :: "char \<Rightarrow> bool" where
  "product_char c \<longleftrightarrow> is_word c \<and> c \<noteq> CHR ''_'' \<or> c \<in> set ''(). -''"

definition PRODUCT :: rx where
  "PRODUCT = ignore_case (cat
     [Grp 1 (Or (cat [lit ''Sauce Labs '', lazy_plus (Sym product_char)]) (lit ''Test.allTheThings() T-Shirt (Red)'')),
      Look (alt [cat [plus1 space, opt (cat [lit ''y'', plus1 space]), words [''abrir'', ''completar'', ''agregar'', ''al carrito'', ''checkout'']],
        one_of ''.!;,'', Eol])])"

definition productFromStep :: "planned_step \<Rightarrow> jstr" where
  "productFromStep step =
     (if rx_test (ignore_case (words [''sauce labs'', ''test.allthethings''])) (raw_data step) then raw_data step
      else group_of PRODUCT 1 (q_action step))"

definition CART_INTENT :: rx where
  "CART_INTENT = alt
     [lit ''add to cart'',
      cat [lit ''agregar'', opt (cat [plus1 space, lit ''el'']), plus1 space, words [''producto'', ''sauce'', ''test.allthethings'']],
      cat [lit ''anadir'', opt (cat [plus1 space, lit ''el'']), plus1 space, lit ''producto'']]"

definition product_terms :: "nat \<Rightarrow> jstr \<Rightarrow> jstr list" where
  "product_terms n s = filter (\<lambda>t. n \<le> length t) (map normalizeText (split_on (CHR '' '') (squeeze s)))"

definition product_button :: "jstr list \<Rightarrow> element \<Rightarrow> bool" where
  "product_button terms el \<longleftrightarrow>
     el_visible el \<and> \<not> el_disabled el \<and> action_control el \<and> corpus_has el ''add to cart'' \<and> list_all (corpus_has el) terms"

definition OPEN_CART :: rx where
  "OPEN_CART = Or (cat [words [''abrir'', ''completar''], gap, words [''carrito'', ''checkout'']]) (cat [words [''carrito'', ''checkout''], gap, lit ''abrir''])"

definition url_has :: "observation \<Rightarrow> jstr \<Rightarrow> bool" where
  "url_has ob page = rx_test (ignore_case (lit page)) (ob_url ob)"

definition cartRule :: "planned_step \<Rightarrow> observation \<Rightarrow> strict_action option" where
  "cartRule step ob =
     (let product = productFromStep step in
      guarded (rx_test CART_INTENT (act_text step) \<and> product \<noteq> [])
        (first_rule
          [map_option (click_on 99 step (strategy (''agregar el producto indicado ('' @ product @ '') al carrito.'')))
             (find (product_button (product_terms 3 product)) (ob_elements ob)),
           guarded (rx_test OPEN_CART (act_text step) \<and> \<not> url_has ob ''cart.html'')
             (press step ob [''shopping_cart'', ''shopping cart'', ''cart''] False ''abrir el carrito para continuar el flujo compuesto.''),
           guarded (rx_test OPEN_CART (act_text step) \<and> url_has ob ''cart.html'')
             (press step ob [''checkout''] True ''abrir Checkout desde el carrito.'')]))"

definition continueRule :: "planned_step \<Rightarrow> observation \<Rightarrow> strict_action option" where
  "continueRule step ob =
     guarded (rx_test (lit ''continue shopping'') (act_text step)) (press step ob [''continue shopping''] True ''continuar comprando desde el carrito.'')"

text \<open>The controls with conventional names: when the action mentions them, their terms, whether only a control counts, and the reason.\<close>

definition click_phrase :: "jstr \<Rightarrow> rx" where
  "click_phrase s = cat [opt (words [''hacer clic en '', ''clic en '']), lit s]"

definition semanticControls :: "(rx \<times> jstr list \<times> bool \<times> jstr) list" where
  "semanticControls =
     [(lit ''reset app state'', [''reset app state''], False, ''restablecer el estado de la aplicacion''),
      (Or (cat [words [''abrir'', ''ir al''], gap, lit ''carrito'']) (cat [lit ''icono'', gap, lit ''carrito'']),
         [''shopping_cart'', ''shopping cart'', ''cart''], False, ''abrir el carrito visible''),
      (alt [lit ''menu lateral'', lit ''boton menu'', cat [lit ''abrir'', gap, lit ''menu'']],
         [''react-burger-menu-btn'', ''menu''], False, ''abrir el menu lateral visible''),
      (words [''logout'', ''cerrar sesion''], [''logout''], False, ''cerrar la sesion actual''),
      (lit ''continue shopping'', [''continue shopping''], False, ''continuar comprando''),
      (click_phrase ''checkout'', [''checkout''], True, ''abrir Checkout''),
      (click_phrase ''continue'', [''continue''], True, ''continuar el checkout''),
      (Or (click_phrase ''finish'') (lit ''finalizar la compra''), [''finish''], True, ''finalizar la compra''),
      (lit ''back home'', [''back home''], True, ''volver al inicio del catalogo''),
      (lit ''back to products'', [''back to products''], True, ''volver al catalogo''),
      (click_phrase ''cancel'', [''cancel''], True, ''cancelar el checkout''),
      (cat [lit ''cerrar'', gap, words [''mensaje'', ''alerta'', ''error'']],
         [''error-button'', ''error button'', ''close''], True, ''cerrar el mensaje de error'')]"

definition semanticControl :: "planned_step \<Rightarrow> observation \<Rightarrow> (rx \<times> jstr list \<times> bool \<times> jstr) \<Rightarrow> strict_action option" where
  "semanticControl step ob = (\<lambda>(x, terms, controlOnly, reason).
     guarded (rx_test x (act_text step)) (press step ob terms controlOnly (reason @ ''.'')))"

definition controlsRule :: "planned_step \<Rightarrow> observation \<Rightarrow> strict_action option" where
  "controlsRule step ob = first_rule (map (semanticControl step ob) semanticControls)"

definition checkoutRule :: "planned_step \<Rightarrow> observation \<Rightarrow> strict_action option" where
  "checkoutRule step ob =
     guarded (isTyping step \<and>
         rx_test (words [''first name'', ''last name'', ''postal code'', ''codigo postal'', ''completar datos'', ''completar checkout'']) (act_text step) \<and>
         3 \<le> length (slashParts (raw_data step)))
       (checkoutFields step ob (slashParts (raw_data step)) False
         ''completar los tres datos requeridos del checkout.'' ''continuar despues de completar los datos del checkout.'')"

definition finishRule :: "planned_step \<Rightarrow> observation \<Rightarrow> strict_action option" where
  "finishRule step ob =
     guarded (rx_test (words [''completar checkout'', ''finalizar la compra'', ''finalizar compra'']) (act_text step))
       (press step ob [''finish''] True ''finalizar el checkout compuesto.'')"

definition USER_WORD :: rx where
  "USER_WORD = word_of [''username'', ''usuario'', ''user'', ''email'', ''login'']"

definition PASS_WORD :: rx where
  "PASS_WORD = word_of [''password'', ''contrasena'', ''contrase'' @ enye @ ''a'', ''clave'']"

definition compactRule :: "planned_step \<Rightarrow> observation \<Rightarrow> strict_action option" where
  "compactRule step ob =
     (case slashParts (raw_data step) of
        [user, pass] \<Rightarrow>
          guarded (rx_test PASS_WORD (act_text step))
            (case (userField ob, passwordField ob) of
               (Some u, Some p) \<Rightarrow>
                 Some (fill_with 99 step (strategy ''completar las credenciales compactas del paso.'') False
                   [field_value (el_ref u) user, field_value (el_ref p) pass])
             | _ \<Rightarrow> None)
      | _ \<Rightarrow> None)"

definition fieldRule :: "planned_step \<Rightarrow> observation \<Rightarrow> strict_action option" where
  "fieldRule step ob =
     (let user = rx_test USER_WORD (act_text step); pass = rx_test PASS_WORD (act_text step);
          target = findElement ob (if user then USER_TERMS else PASSWORD_TERMS) (if pass then password_field else user_field) in
      guarded (user \<or> pass)
        (case target of
           None \<Rightarrow> None
         | Some el \<Rightarrow>
             or_else
               (guarded (rx_test (cat [words [''hacer clic'', ''clic''], gap, lit ''login'']) (act_text step) \<and> shows_value ob (el, raw_data step))
                 (press step ob [''login''] True ''enviar el login despues de reemplazar la credencial.''))
               (Some (type_into 99 step
                 (strategy (''completar el campo visible '' @ (if user then ''de usuario'' else ''de contrasena'') @ '' indicado por el paso.''))
                 (raw_data step) el))))"

definition typingRule :: "planned_step \<Rightarrow> observation \<Rightarrow> strict_action option" where
  "typingRule step ob =
     guarded (isTyping step \<and> raw_data step \<noteq> []) (first_rule [compactRule step ob, fieldRule step ob])"

definition CLICKS :: rx where
  "CLICKS = alt [lit ''hacer clic'', cat [WordB, lit ''clic'', WordB], cat [WordB, lit ''click'', WordB], lit ''pulsar'', lit ''presionar'', lit ''abrir'']"

definition CART_ACTION :: rx where
  "CART_ACTION = cat [WordB, Grp 1 (words [''add to cart'', ''remove'']), WordB]"

definition cart_button :: "jstr \<Rightarrow> jstr list \<Rightarrow> element \<Rightarrow> bool" where
  "cart_button name terms el \<longleftrightarrow>
     el_visible el \<and> \<not> el_disabled el \<and> el_clickable el \<and> action_control el \<and> corpus_has el name \<and> list_all (corpus_has el) terms"

definition product_link :: "jstr list \<Rightarrow> element \<Rightarrow> bool" where
  "product_link terms el \<longleftrightarrow>
     el_visible el \<and> \<not> el_disabled el \<and> el_clickable el \<and> (el_tag el = ''a'' \<or> toLowerCase (el_role el) = ''link'') \<and> list_all (corpus_has el) terms"

definition NOISE :: rx where
  "NOISE = ignore_case (word_of [''boton'', ''button'', ''enlace'', ''link''])"

definition clickRule :: "planned_step \<Rightarrow> observation \<Rightarrow> strict_action option" where
  "clickRule step ob =
     (let d = raw_data step; name = group_of CART_ACTION 1 (act_text step) in
      guarded (rx_test CLICKS (act_text step) \<and> d \<noteq> [])
        (first_rule
          [guarded (name \<noteq> [])
             (map_option (click_on 99 step (strategy (name @ '' para el producto indicado ('' @ d @ '').'')))
               (find (cart_button name (product_terms 3 d)) (ob_elements ob))),
           guarded (rx_test (Or (lit ''nombre del producto'') (cat [lit ''detalle'', opt (lit '' del producto'')])) (act_text step))
             (map_option (click_on 99 step (strategy (''abrir el detalle del producto indicado ('' @ d @ '').'')))
               (find (product_link (product_terms 3 d)) (ob_elements ob))),
           map_option (click_on 99 step (strategy (''activar el control visible indicado por el paso ('' @ d @ '').'')))
             (findElement ob (product_terms 2 (rx_replace_all NOISE (\<lambda>_. '' '') d)) usable)]))"

definition enabled_select :: "element \<Rightarrow> bool" where
  "enabled_select el \<longleftrightarrow> el_visible el \<and> \<not> el_disabled el \<and> select_tag el"

definition SELECTS :: rx where
  "SELECTS = Or (cat [words [''seleccionar'', ''elegir'', ''cambiar''], lazy_star any_char, words [''selector'', ''orden'', ''opcion'', ''lista'']])
     (word_of [''seleccionar''])"

definition selectRule :: "planned_step \<Rightarrow> observation \<Rightarrow> strict_action option" where
  "selectRule step ob =
     guarded (rx_test SELECTS (act_text step) \<and> raw_data step \<noteq> [])
       (map_option (\<lambda>el. rule_action 99 step A_select
            (strategy (''seleccionar la opcion visible indicada por el paso ('' @ raw_data step @ '').''))
              \<lparr>sa_target := JStr (el_ref el), sa_value := JStr (raw_data step)\<rparr>)
         (find enabled_select (ob_elements ob)))"

definition PRICE :: rx where
  "PRICE = cat [lit ''$'', plus1 digit, opt (cat [one_of ''.,'', Rep 2 (Some 2) True digit])]"

definition ASSERTS :: rx where
  "ASSERTS = words [''comprobar'', ''verificar'', ''validar'', ''confirmar'', ''asegurar'', ''contar'']"

text \<open>The last branch of the code, for an assertion with data, is never reached: an assertion has already been finished.\<close>

definition assertRule :: "planned_step \<Rightarrow> observation \<Rightarrow> strict_action option" where
  "assertRule step ob =
     guarded (rx_test ASSERTS (act_text step))
       (Some (case rx_exec PRICE (q_expected step) of
          Some m \<Rightarrow> rule_action 99 step A_assert_text (strategy ''comprobar el precio exacto indicado por el resultado esperado.'')
            \<lparr>sa_value := JStr (comma_point (drop 1 (rm_text m)))\<rparr>
        | None \<Rightarrow> rule_action 99 step A_finish (strategy ''evaluar la evidencia actual con el contrato del paso.'')))"

definition inferConventionalUiAction :: "planned_step \<Rightarrow> observation \<Rightarrow> strict_action option" where
  "inferConventionalUiAction step ob =
     first_rule [purchaseRule step ob, replaceRule step ob, detailRule step ob, cartRule step ob, continueRule step ob, controlsRule step ob,
       checkoutRule step ob, finishRule step ob, typingRule step ob, clickRule step ob, selectRule step ob, assertRule step ob]"

end
