(* ===== verification/StepRecovery.thy ===== *)
theory StepRecovery
  imports StepActions
begin

text \<open>
  \<^verbatim>\<open>engine/src/automation/step-runner-recovery.ts\<close> and the part of \<^verbatim>\<open>step-runner-helpers.ts\<close> that classifies steps: the recovery
  actions of the runner, the compound steps, the steps that open the browser or a URL, and the retry limit of the workflow.

  Here text is folded without trimming, unlike in the contract. The functions of the helper file that nothing calls
  (\<^verbatim>\<open>expectsVisibleOutcome\<close>, \<^verbatim>\<open>expectedCountRequirement\<close> and \<^verbatim>\<open>countVisibleTerm\<close>) are left out.
\<close>

section \<open>Text\<close>

definition foldText :: "jstr \<Rightarrow> jstr" where
  "foldText value = toLowerCase (strip_marks value)"

definition whole_text :: "planned_step \<Rightarrow> jstr" where
  "whole_text step = foldText (q_action step @ '' '' @ q_data step @ '' '' @ q_expected step)"

definition action_and_expected :: "planned_step \<Rightarrow> jstr" where
  "action_and_expected step = foldText (q_action step @ '' '' @ q_expected step)"

definition fold_action :: "planned_step \<Rightarrow> jstr" where
  "fold_action step = foldText (q_action step)"

fun first_seen :: "'a list \<Rightarrow> 'a list \<Rightarrow> 'a list" where
  "first_seen seen [] = rev seen"
| "first_seen seen (x # xs) = first_seen (if x \<in> set seen then seen else x # seen) xs"

definition alphanumeric :: "char \<Rightarrow> bool" where
  "alphanumeric c \<longleftrightarrow> (let n = code_unit c in 97 \<le> n \<and> n \<le> 122 \<or> is_digit c)"

definition blank_others :: "jstr \<Rightarrow> jstr" where
  "blank_others s = map (\<lambda>c. if alphanumeric c then c else CHR '' '') s"

text \<open>\<^verbatim>\<open>replace(/[^a-z0-9]+/g, ' ').split(/\s+/)\<close> with the words of three letters and more.\<close>

definition words_of :: "jstr \<Rightarrow> jstr list" where
  "words_of s = filter (\<lambda>w. 3 \<le> length w) (split_on (CHR '' '') (blank_others s))"

definition QUOTED :: rx where
  "QUOTED = (let q = [CHR 34, CHR 39] in cat [one_of q, Grp 1 (Rep 2 (Some 120) True (none_of q)), one_of q])"

definition LINK :: rx where
  "LINK = cat [lit ''http'', opt (lit ''s''), lit ''://'', plus1 nonspace]"

definition evidenceTerms :: "planned_step \<Rightarrow> strict_action \<Rightarrow> jstr list" where
  "evidenceTerms step a =
     (let keyValues = nonblank (map snd (js_entries (parseStepData (q_data step))));
          quotedExpected = nonblank (map (\<lambda>(k, m). trim (cap_text m 1)) (rx_all QUOTED (q_expected step)));
          parts = join '' '' (map to_string (filter truthy [JStr (join '' '' keyValues), sa_value a, JStr (join '' '' quotedExpected)]));
          source = trim (str_or parts (q_data step)) in
      if source = [] \<or> source = ''-'' then []
      else take 5 (first_seen [] (words_of (rx_replace_all LINK (\<lambda>_. '' '') (foldText source)))))"

definition seen_text :: "element \<Rightarrow> jstr" where
  "seen_text el = join '' '' (nonblank [el_name el, el_label el, el_text el, el_value el, el_placeholder el, el_title el, el_role el])"

definition observationCorpus :: "observation \<Rightarrow> jstr" where
  "observationCorpus ob = foldText (join '' '' ([ob_url ob, ob_title ob, ob_body ob] @ ob_visible_text ob @ map seen_text (ob_elements ob)))"

definition expectsDynamicResults :: "planned_step \<Rightarrow> bool" where
  "expectsDynamicResults step \<longleftrightarrow>
     rx_test (words [''aparece'', ''aparecen'', ''resultado'', ''resultados'', ''sugerencia'', ''sugerencias'', ''desplegable'', ''dropdown'', ''lista'',
       ''opciones'', ''filtrar'', ''filtro'', ''quedan'', ''contador'']) (action_and_expected step)"

definition result_text :: "element \<Rightarrow> jstr" where
  "result_text el = foldText (join '' '' (nonblank [el_name el, el_label el, el_text el, el_value el, el_placeholder el, el_title el]))"

definition shows_result :: "strict_action \<Rightarrow> jstr list \<Rightarrow> element \<Rightarrow> bool" where
  "shows_result a terms el \<longleftrightarrow>
     \<not> has_ref (sa_target a) el \<and> \<not> el_editable el \<and> list_ex (str_includes (result_text el)) terms"

definition hasDynamicResultEvidence :: "planned_step \<Rightarrow> strict_action \<Rightarrow> observation \<Rightarrow> bool" where
  "hasDynamicResultEvidence step a ob =
     (if sa_action a \<noteq> A_type then True
      else if \<not> expectsDynamicResults step then True
      else (let terms = evidenceTerms step a in
        if terms = [] then True
        else if list_ex (str_includes (foldText (join '' '' (ob_visible_text ob)))) terms then True
        else list_ex (shows_result a terms) (ob_elements ob)))"

section \<open>Steps that open the browser or a URL\<close>

definition OPENS :: "jstr list" where "OPENS = [''abrir'', ''abre'', ''open'']"
definition BROWSERS :: "jstr list" where "BROWSERS = [''navegador'', ''browser'', ''chrome'', ''crome'', ''firefox'', ''edge'']"

definition spoken :: "planned_step \<Rightarrow> jstr" where
  "spoken step = toLowerCase (q_action step @ '' '' @ q_data step)"

definition isBrowserOpenStep :: "planned_step \<Rightarrow> bool" where
  "isBrowserOpenStep step \<longleftrightarrow>
     rx_test (cat [words OPENS, gap, words BROWSERS]) (spoken step) \<or> rx_test (cat [words BROWSERS, gap, words OPENS]) (spoken step)"

definition url_char :: "char \<Rightarrow> bool" where
  "url_char c \<longleftrightarrow> \<not> is_space c \<and> c \<notin> set '',;''"

definition URL_KEY :: rx where
  "URL_KEY = ignore_case (cat [WordB, words [''url'', ''base_url'', ''url_base''], star space, one_of '':='', star space, Grp 1 (plus1 (Sym url_char))])"

definition URL_DIRECT :: rx where
  "URL_DIRECT = ignore_case (Or (cat [WordB, lit ''http'', opt (lit ''s''), lit ''://'', plus1 (Sym url_char)]) (cat [WordB, lit ''www.'', plus1 (Sym url_char)]))"

definition OUTER_QUOTES :: rx where
  "OUTER_QUOTES = (let q = [CHR 34, CHR 39] in Or (cat [Bol, one_of q]) (cat [one_of q, Eol]))"

definition matched_text :: "rx \<Rightarrow> jstr \<Rightarrow> jstr" where
  "matched_text x s = (case rx_exec x s of Some m \<Rightarrow> rm_text m | None \<Rightarrow> [])"

definition extractStepUrl :: "planned_step \<Rightarrow> jstr" where
  "extractStepUrl step =
     (let t = trim (q_action step @ [CHR 10] @ q_data step) in
      if t = [] then []
      else normalizeUrl (rx_replace_all OUTER_QUOTES (\<lambda>_. []) (str_or (group_of URL_KEY 1 t) (matched_text URL_DIRECT t))))"

definition NAVIGATES :: rx where
  "NAVIGATES = ignore_case (words [''ingresar'', ''abrir'', ''navegar'', ''cargar'', ''visitar'', ''ir a'', ''go to'', ''navigate'', ''url''])"

definition isUrlNavigationStep :: "planned_step \<Rightarrow> bool" where
  "isUrlNavigationStep step \<longleftrightarrow> extractStepUrl step \<noteq> [] \<and> rx_test NAVIGATES (spoken step)"

definition actionExplicitlySubmits :: "planned_step \<Rightarrow> bool" where
  "actionExplicitlySubmits step = rx_test SUBMITS (fold_action step)"

section \<open>Recovery actions\<close>

definition field_text :: "element \<Rightarrow> jstr" where
  "field_text el = foldText (join '' '' (nonblank [el_role el, el_name el, el_label el, el_placeholder el, el_title el, el_type el]))"

definition open_field :: "element \<Rightarrow> bool" where
  "open_field el \<longleftrightarrow> el_visible el \<and> \<not> el_disabled el \<and> el_editable el"

definition search_field :: "element \<Rightarrow> bool" where
  "search_field el \<longleftrightarrow> open_field el \<and>
     (el_role el = ''searchbox'' \<or> el_type el = ''search'' \<or>
      rx_test (words [''search'', ''buscar'', ''busqueda'', ''consulta'', ''query'']) (field_text el))"

text \<open>\<^verbatim>\<open>a?.ref || b?.ref || ''\<close>.\<close>

definition found_ref :: "element option \<Rightarrow> jstr" where
  "found_ref x = (case x of Some el \<Rightarrow> el_ref el | None \<Rightarrow> [])"

definition findSearchInput :: "observation \<Rightarrow> jstr" where
  "findSearchInput ob = str_or (found_ref (find search_field (ob_elements ob))) (found_ref (find open_field (ob_elements ob)))"

definition secret_input :: "element \<Rightarrow> bool" where
  "secret_input el \<longleftrightarrow> open_field el \<and> (el_type el = ''password'' \<or> rx_test (words [''password'', ''contrase'']) (field_text el))"

definition user_input :: "element \<Rightarrow> bool" where
  "user_input el \<longleftrightarrow> open_field el \<and> el_type el \<noteq> ''password'' \<and>
     rx_test (words [''username'', ''usuario'', ''email'', ''login'', ''user'']) (field_text el)"

definition open_secret :: "element \<Rightarrow> bool" where "open_secret el \<longleftrightarrow> open_field el \<and> el_type el = ''password''"
definition open_user :: "element \<Rightarrow> bool" where "open_user el \<longleftrightarrow> open_field el \<and> el_type el \<noteq> ''password''"

definition findCredentialField :: "observation \<Rightarrow> bool \<Rightarrow> jstr" where
  "findCredentialField ob secret =
     str_or (found_ref (find (if secret then secret_input else user_input) (ob_elements ob)))
       (found_ref (find (if secret then open_secret else open_user) (ob_elements ob)))"

definition link_text :: "element \<Rightarrow> jstr" where
  "link_text el = foldText (join '' '' (nonblank [el_role el, el_name el, el_label el, el_text el, el_value el, el_placeholder el, el_title el]))"

definition result_link :: "jstr list \<Rightarrow> element \<Rightarrow> bool" where
  "result_link ws el \<longleftrightarrow> el_visible el \<and> \<not> el_disabled el \<and> (el_clickable el \<or> el_role el = ''link'') \<and>
     list_all (str_includes (link_text el)) ws"

definition findPreferredResultTarget :: "observation \<Rightarrow> jstr \<Rightarrow> jstr" where
  "findPreferredResultTarget ob preferred =
     (let ws = words_of (foldText preferred) in if ws = [] then [] else found_ref (find (result_link ws) (ob_elements ob)))"

definition preferredWikipediaUrl :: "(jstr \<Rightarrow> jstr option) \<Rightarrow> jstr \<Rightarrow> jstr \<Rightarrow> jstr" where
  "preferredWikipediaUrl origin currentUrl preferred =
     (if preferred = [] \<or> \<not> rx_test (ignore_case (lit ''wikipedia.org'')) currentUrl then []
      else case origin currentUrl of
        None \<Rightarrow> []
      | Some site \<Rightarrow>
          (let slug = map (\<lambda>c. if c = CHR '' '' then CHR ''_'' else c) (squeeze (trim preferred)) in
           site @ ''/wiki/'' @ rx_replace_all (lit ''%29'') (\<lambda>_. '')'') (rx_replace_all (lit ''%28'') (\<lambda>_. ''('') (encodeURIComponent slug))))"

definition claimRule :: "planned_step \<Rightarrow> strict_action option" where
  "claimRule step =
     (let claim = stepDataValue step [''expected_false_claim'', ''afirmacion_falsa'', ''false_claim'', ''claim_falso''] in
      guarded (claim \<noteq> [])
        (Some (rule_action 0 step A_finish
           (''Afirmacion pendiente de auditoria semantica con evidencia: '' @ [CHR 34] @ claim @ [CHR 34] @ ''.'')\<lparr>sa_value := JStr claim\<rparr>)))"

definition recover :: "jstr \<Rightarrow> jstr" where
  "recover s = ''Recuperacion deterministica: '' @ s"

definition quote :: "jstr \<Rightarrow> jstr" where
  "quote s = [CHR 34] @ s @ [CHR 34]"

definition LOGIN_TEXT :: rx where
  "LOGIN_TEXT = words [''login'', ''sesion'', ''iniciar'', ''ingresar'', ''credencial'', ''usuario'', ''password'', ''contrase'']"

definition SUBMIT_TEXT :: rx where
  "SUBMIT_TEXT = alt
     [cat [lit ''iniciar'', plus1 space, lit ''sesion''], cat [lit ''iniciar'', plus1 space, lit ''login''], cat [lit ''login'', plus1 space, lit ''valido''],
      cat [lit ''hacer'', plus1 space, lit ''login''], lit ''enviar'', lit ''submit'', lit ''ingreso exitoso'', lit ''area segura'']"

definition recoverCredentials :: "planned_step \<Rightarrow> observation \<Rightarrow> strict_action option" where
  "recoverCredentials step ob =
     (let user = stepDataValue step [''username'', ''usuario'', ''user'', ''email'', ''login''];
          pass = stepDataValue step [''password'', ''contrase'' @ enye @ ''a'', ''contrasena'', ''pass''];
          userTarget = findCredentialField ob False; passTarget = findCredentialField ob True;
          submit = rx_test SUBMIT_TEXT (whole_text step) in
      guarded (user \<noteq> [] \<and> pass \<noteq> [] \<and> rx_test LOGIN_TEXT (whole_text step) \<and> userTarget \<noteq> [] \<and> passTarget \<noteq> [])
        (Some (fill_with 95 step
          (recover (if submit then ''completar credenciales y enviar formulario.'' else ''completar credenciales visibles.''))
          submit [field_value userTarget user, field_value passTarget pass])))"

definition recoverSearch :: "planned_step \<Rightarrow> observation \<Rightarrow> strict_action option" where
  "recoverSearch step ob =
     (let term = stepDataValue step [''search_term'', ''termino'', ''term'', ''query'', ''busqueda'']; target = findSearchInput ob in
      guarded (term \<noteq> [] \<and> rx_test (words [''buscar'', ''busqueda'', ''search'']) (whole_text step) \<and> target \<noteq> [])
        (Some (rule_action 92 step A_type (recover (''escribir el termino de busqueda '' @ quote term @ ''.''))
          \<lparr>sa_target := JStr target, sa_value := JStr term, sa_submit := True\<rparr>)))"

definition recoverResult :: "(jstr \<Rightarrow> jstr option) \<Rightarrow> planned_step \<Rightarrow> observation \<Rightarrow> strict_action option" where
  "recoverResult origin step ob =
     (let preferred = stepDataValue step [''resultado_preferido'', ''preferred_result'', ''preferred'', ''result''];
          target = findPreferredResultTarget ob preferred; url = preferredWikipediaUrl origin (ob_url ob) preferred in
      guarded (preferred \<noteq> [] \<and> rx_test (words [''abrir'', ''abre'', ''resultado'', ''relevante'', ''navegar'']) (whole_text step))
        (if target \<noteq> [] then
           Some (rule_action 94 step A_click (recover (''abrir el resultado preferido '' @ quote preferred @ ''.''))\<lparr>sa_target := JStr target\<rparr>)
         else if url \<noteq> [] then
           Some (rule_action 90 step A_navigate (recover (''navegar al articulo preferido '' @ quote preferred @ ''.''))\<lparr>sa_value := JStr url\<rparr>)
         else None))"

definition STABILITY :: rx where
  "STABILITY = Or
     (cat [words [''repetir'', ''reintentar'', ''recarga'', ''recargar'', ''estado estable'', ''estabilidad'', ''esperar''], gap,
        words [''observ'', ''carga'', ''naveg'', ''estado'']])
     (cat [words [''observ'', ''estado''], gap, words [''estable'', ''recarga'']])"

definition recoverStability :: "planned_step \<Rightarrow> strict_action option" where
  "recoverStability step =
     guarded (rx_test STABILITY (whole_text step))
       (Some (rule_action 88 step A_wait (recover ''esperar y volver a validar la estabilidad observable de la pagina.'')\<lparr>sa_value := JStr ''1000''\<rparr>))"

definition RECORD_OUTCOME :: rx where
  "RECORD_OUTCOME = Or
     (cat [words [''registrar'', ''documentar'', ''guardar''], gap, words [''resultado'', ''evidencia'', ''url'', ''viewport'']])
     (cat [lit ''resultado'', gap, words [''evidencia'', ''registrar'']])"

definition recoverRecord :: "planned_step \<Rightarrow> strict_action option" where
  "recoverRecord step =
     guarded (rx_test RECORD_OUTCOME (whole_text step))
       (Some (rule_action 86 step A_finish (recover ''cerrar el caso conservando la evidencia acumulada para auditoria.'')))"

definition VALIDATES :: rx where
  "VALIDATES = words [''validar'', ''confirmar'', ''verificar'', ''registrar evidencia'', ''buscar visualmente'', ''observar'', ''visual'']"

definition recoverValidation :: "planned_step \<Rightarrow> observation \<Rightarrow> strict_action option" where
  "recoverValidation step ob =
     (let keyword = stepDataValue step [''expected_keyword'', ''keyword'', ''texto'', ''text''];
          terms = evidenceTerms step (rule_action 90 step A_finish []) in
      guarded (rx_test VALIDATES (whole_text step))
        (if keyword \<noteq> [] then
           Some (rule_action 90 step A_assert_text (recover (''validar texto visible '' @ quote keyword @ ''.''))\<lparr>sa_value := JStr keyword\<rparr>)
         else if (terms = [] \<or> list_ex (str_includes (observationCorpus ob)) terms) \<and> ob_ready ob = ''complete'' then
           Some (rule_action 88 step A_finish (recover ''la pagina esta cargada y el snapshot contiene evidencia visual suficiente.''))
         else None))"

definition deterministicRecoveryAction :: "(jstr \<Rightarrow> jstr option) \<Rightarrow> planned_step \<Rightarrow> observation \<Rightarrow> strict_action option" where
  "deterministicRecoveryAction origin step ob =
     first_rule [claimRule step, recoverCredentials step ob, recoverSearch step ob, recoverResult origin step ob, recoverStability step,
       recoverRecord step, recoverValidation step ob]"

section \<open>Compound steps\<close>

definition COMPOUND :: rx where
  "COMPOUND = alt
     [cat [WordB, lit ''y'', plus1 space, words [''abrir'', ''hacer clic'', ''luego'', ''completar'', ''finalizar'']],
      cat [words [''luego'', ''despues''], plus1 space, lit ''en''],
      cat [lit ''menu'', gap, words [''reset'', ''logout'']],
      cat [lit ''back home'', gap, lit ''menu''],
      lit ''completar checkout'',
      cat [lit ''completar datos'', gap, words [''continue'', ''finalizar'']],
      cat [lit ''reemplazar'', gap, words [''clic'', ''login'']]]"

definition isCompoundFlowStep :: "planned_step \<Rightarrow> bool" where
  "isCompoundFlowStep step = rx_test COMPOUND (fold_action step)"

text \<open>The conditions in the order of the code; the first that applies decides.\<close>

fun first_case :: "(bool \<times> bool) list \<Rightarrow> bool" where
  "first_case [] = False"
| "first_case ((applies, decision) # cs) = (if applies then decision else first_case cs)"

definition needsCompoundContinuation :: "planned_step \<Rightarrow> observation \<Rightarrow> bool" where
  "needsCompoundContinuation step ob =
     (let action = fold_action step; url = foldText (ob_url ob); says = (\<lambda>x. rx_test x action); away = (\<lambda>page. \<not> str_includes url page) in
      first_case
        [(says (Or (lit ''completar checkout'') (cat [lit ''completar datos'', gap, lit ''finalizar''])),
            \<not> str_includes (observationCorpus ob) ''thank you for your order''),
         (says (lit ''checkout'') \<and> says (words [''abrir'', ''agregar'']) \<and> away ''checkout-step-one.html'', True),
         (says (Or (cat [lit ''abrir'', gap, lit ''carrito'']) (cat [lit ''agregar'', gap, lit ''carrito''])) \<and> away ''cart.html'', True),
         (says (lit ''continue shopping'') \<and> away ''inventory.html'', True),
         (says (cat [lit ''continue'', gap, words [''luego'', ''despues''], gap, lit ''cancel'']) \<and> away ''inventory.html'', True),
         (says (cat [lit ''back home'', gap, lit ''menu'', gap, lit ''logout'']) \<and> \<not> rx_test (cat [lit ''saucedemo.com'', opt (lit ''/''), Eol]) url, True),
         (says (cat [lit ''menu'', gap, lit ''reset app state'']), str_includes (observationCorpus ob) ''shopping_cart_badge''),
         (says (cat [lit ''reemplazar'', gap, words [''clic'', ''login'']]) \<and> away ''inventory.html'', True)])"

section \<open>Blocked answers, retries and the workflow\<close>

definition mentionsAction :: rx where
  "mentionsAction = words [''ingresar'', ''completar'', ''escribir'', ''tipear'', ''buscar'', ''seleccionar'', ''click'', ''clic'', ''presionar'', ''enviar'',
     ''abrir'', ''navegar'', ''validar'', ''confirmar'', ''registrar'', ''evidencia'', ''visual'', ''observar'', ''verificar'']"

definition usable_element :: "element \<Rightarrow> bool" where
  "usable_element el \<longleftrightarrow> el_visible el \<and> \<not> el_disabled el \<and>
     (el_editable el \<or> el_clickable el \<or> toLowerCase (el_role el) \<in> {''button'', ''link'', ''textbox'', ''combobox'', ''searchbox''})"

definition STRUCTURED :: rx where
  "STRUCTURED = ignore_case (cat [words [''username'', ''usuario'', ''user'', ''email'', ''password'', ''contrase'', ''search_term'', ''query'', ''termino'', ''url'',
     ''base_url''], star space, one_of '':=''])"

definition stepLooksActionable :: "planned_step \<Rightarrow> observation \<Rightarrow> bool" where
  "stepLooksActionable step ob \<longleftrightarrow>
     rx_test mentionsAction (whole_text step) \<and> list_ex usable_element (ob_elements ob) \<and>
     (rx_test STRUCTURED (q_data step) \<or>
      rx_test (words [''click'', ''clic'', ''presionar'', ''abrir'', ''navegar'', ''validar'', ''confirmar'']) (whole_text step) \<or>
      list_ex el_editable (ob_elements ob))"

definition REAL_BLOCKER :: rx where
  "REAL_BLOCKER = words [''falta'', ''faltan'', ''missing'', ''no existe'', ''no esta disponible'', ''no visible'', ''sin dato'', ''sin datos'', ''imposible'',
     ''no se puede'', ''requiere credencial'', ''requiere acceso'']"

definition isActionableBlocked :: "strict_action \<Rightarrow> planned_step \<Rightarrow> observation \<Rightarrow> bool" where
  "isActionableBlocked a step ob \<longleftrightarrow>
     sa_action a = A_blocked \<and> \<not> rx_test REAL_BLOCKER (foldText (sa_reason a)) \<and> stepLooksActionable step ob"

definition agent_id :: "jstr \<Rightarrow> jval \<Rightarrow> bool" where
  "agent_id i agent \<longleftrightarrow> toUpperCase (text_of (js_get agent ''id'')) = i"

definition getWorkflowAgent :: "jval list \<Rightarrow> jstr \<Rightarrow> jval" where
  "getWorkflowAgent workflow i = (case find (agent_id i) workflow of Some agent \<Rightarrow> agent | None \<Rightarrow> JUndef)"

definition retryLimitFromWorkflow :: "jval list \<Rightarrow> rat \<Rightarrow> rat" where
  "retryLimitFromWorkflow workflow fallbackAttempts =
     (let sentinel = getWorkflowAgent workflow ''SENTINEL'' in
      if js_get sentinel ''enabled'' = JBool False then 1
      else case to_number (js_get sentinel ''retry_limit'') of
        Fin limit \<Rightarrow> max 1 (min 6 (limit + 1))
      | _ \<Rightarrow> fallbackAttempts)"

definition conventional_agent :: "jval \<Rightarrow> bool" where
  "conventional_agent agent \<longleftrightarrow>
     js_get agent ''enabled'' \<noteq> JBool False \<and>
     (js_path agent [''config'', ''conventional_ui_inference''] = JBool True \<or> js_path agent [''config_json'', ''conventional_ui_inference''] = JBool True)"

definition conventionalUiInferenceEnabled :: "jval list \<Rightarrow> bool" where
  "conventionalUiInferenceEnabled workflow = list_ex conventional_agent workflow"

end
