(* ===== verification/StepRunner.thy ===== *)
theory StepRunner
  imports StepRecovery
begin

text \<open>
  \<^verbatim>\<open>engine/src/automation/step-runner.ts\<close>, with the functions of \<^verbatim>\<open>step-runner-helpers.ts\<close> that build results and prompts
  and the wait of \<^verbatim>\<open>step-runner-recovery.ts\<close>: the loop that runs the steps of a case, attempt by attempt.

  The text of the observation in a prompt is a function of the observation, so that a request carries the observation itself. A wait for
  evidence polls until its deadline, so it is a partial function: a clock that stands still never lets it return.
\<close>

section \<open>Records of a run\<close>

record checkpoint =
  cp_step :: jnum
  cp_attempt :: nat
  cp_created :: int
  cp_url :: jstr
  cp_title :: jstr
  cp_ready :: jstr
  cp_text :: "jstr list"
  cp_results :: "step_result list"
  cp_coverage :: coverage
  cp_shot :: bool
  cp_recoverable :: bool

record page_pick = page_view +
  pk_ready :: jstr
  pk_loading :: "jstr list"
  pk_body :: jstr

record step_item =
  i_step :: jnum
  i_attempt :: nat
  i_before :: page_pick
  i_after :: page_pick
  i_action :: strict_action
  i_execution :: step_execution
  i_duration :: jnum
  i_screenshot :: jstr
  i_metrics :: jval
  i_validation :: validation
  i_post :: validation
  i_raw :: jval
  i_contract :: step_contract
  i_checkpoint :: checkpoint

record run_result =
  u_number :: jnum
  u_status :: backend_status
  u_observations :: jstr
  u_error :: "jstr option"
  u_screenshot :: jstr
  u_history :: "step_item list"
  u_confidence :: "jnum option"
  u_category :: "jstr option"
  u_contract :: "step_contract option"
  u_checkpoints :: "checkpoint list option"

record run_state =
  rs_results :: "run_result list"
  rs_history :: "step_item list"
  rs_visited :: "jstr list"
  rs_errors :: "jstr list"
  rs_checkpoints :: "checkpoint list"

record run_options =
  ro_task :: jstr
  ro_max :: "rat option"
  ro_workflow :: "jval list"
  ro_context :: jval

definition pick_before :: "observation \<Rightarrow> page_pick" where
  "pick_before ob = \<lparr>pv_url = ob_url ob, pv_title = ob_title ob, pv_text = [], pk_ready = ob_ready ob, pk_loading = ob_loading ob, pk_body = []\<rparr>"

definition pick_after :: "observation \<Rightarrow> page_pick" where
  "pick_after ob =
     \<lparr>pv_url = ob_url ob, pv_title = ob_title ob, pv_text = ob_visible_text ob, pk_ready = ob_ready ob, pk_loading = ob_loading ob,
      pk_body = ob_body ob\<rparr>"

definition visit :: "jstr \<Rightarrow> run_state \<Rightarrow> run_state" where
  "visit url rs = (if url \<in> set (rs_visited rs) then rs else rs\<lparr>rs_visited := rs_visited rs @ [url]\<rparr>)"

definition add_item :: "step_item \<Rightarrow> run_state \<Rightarrow> run_state" where
  "add_item i rs = rs\<lparr>rs_checkpoints := rs_checkpoints rs @ [i_checkpoint i], rs_history := rs_history rs @ [i]\<rparr>"

definition add_result :: "run_result \<Rightarrow> run_state \<Rightarrow> run_state" where
  "add_result r rs = rs\<lparr>rs_results := rs_results rs @ [r]\<rparr>"

definition add_error :: "jnum \<Rightarrow> jstr \<Rightarrow> run_state \<Rightarrow> run_state" where
  "add_error n message rs = rs\<lparr>rs_errors := rs_errors rs @ [''Paso '' @ num_str n @ '': '' @ message]\<rparr>"

section \<open>Results\<close>

definition buildCheckpoint :: "'w env \<Rightarrow> planned_step \<Rightarrow> nat \<Rightarrow> step_contract \<Rightarrow> observation \<Rightarrow> observation \<Rightarrow> bool \<Rightarrow> ('w, checkpoint) io" where
  "buildCheckpoint e step n k earlier after shot =
     io_bind (io_res (evaluateStepContract (en_regexp e) k (ob_url earlier) after)) (\<lambda>ev.
     io_bind (now e) (\<lambda>t.
       io_return \<lparr>cp_step = q_number step, cp_attempt = n, cp_created = t, cp_url = ob_url after, cp_title = ob_title after, cp_ready = ob_ready after,
         cp_text = take 20 (ob_visible_text after), cp_results = ev_results ev, cp_coverage = k_coverage k, cp_shot = shot,
         cp_recoverable = (\<not> ev_conclusive ev \<or> \<not> ev_ok ev)\<rparr>))"

definition statusFromAction :: "strict_action \<Rightarrow> bool \<Rightarrow> backend_status" where
  "statusFromAction a ok =
     (if ok \<and> sa_action a \<noteq> A_fail \<and> sa_action a \<noteq> A_blocked then PASO else if sa_action a = A_blocked then BLOQUEADO else FALLO)"

definition confidenceFromHistory :: "step_item list \<Rightarrow> jnum" where
  "confidenceFromHistory history =
     (case history of
        [] \<Rightarrow> Fin 0
      | _ \<Rightarrow> (case sa_confidence (i_action (last history)) of Fin q \<Rightarrow> Fin (max 0 (min 100 q)) | _ \<Rightarrow> Fin 0))"

definition postCommand :: jstr where "postCommand = ''postActionValidation''"

definition finalStatus :: "step_item \<Rightarrow> backend_status" where
  "finalStatus i =
     (if x_command (i_execution i) = postCommand then (if v_conclusive (i_post i) then FALLO else BLOQUEADO)
      else statusFromAction (i_action i) (e_ok (i_execution i)))"

definition finalReason :: "jnum \<Rightarrow> step_item \<Rightarrow> jstr" where
  "finalReason n i =
     (if e_ok (i_execution i) then str_or (sa_reason (i_action i)) (''Paso '' @ num_str n @ '' ejecutado correctamente'')
      else str_or (e_message (i_execution i)) (str_or (sa_reason (i_action i)) (''Paso '' @ num_str n @ '' no pudo ejecutarse'')))"

definition opt_or :: "jstr option \<Rightarrow> jstr \<Rightarrow> jstr" where
  "opt_or x d = (case x of Some s \<Rightarrow> str_or s d | None \<Rightarrow> d)"

definition finalizeStepResult :: "planned_step \<Rightarrow> step_contract \<Rightarrow> step_item \<Rightarrow> step_item list \<Rightarrow> run_result" where
  "finalizeStepResult step k i history =
     (let x = i_execution i; failed = \<not> e_ok x in
      \<lparr>u_number = q_number step, u_status = finalStatus i, u_observations = finalReason (q_number step) i,
       u_error = (if failed then Some (opt_or (x_error x) (e_message x)) else None),
       u_screenshot = i_screenshot i, u_history = history, u_confidence = Some (confidenceFromHistory history),
       u_category = (if failed then Some (if x_command x = postCommand then ''expected_result_not_met''
           else if v_ok (i_validation i) then ''model_blocked'' else ''invalid_model_action'') else None),
       u_contract = Some k, u_checkpoints = Some (map i_checkpoint history)\<rparr>)"

section \<open>Prompts\<close>

fun coverage_name :: "coverage \<Rightarrow> jstr" where
  "coverage_name Full = ''full''"
| "coverage_name Partial = ''partial''"
| "coverage_name No_coverage = ''none''"

definition assertion_label :: "step_assertion \<Rightarrow> jstr" where
  "assertion_label a =
     type_name (a_type a) @ '':'' @
     first_text [target_of a, text_of (a_expected a), (case a_alternatives a of Some xs \<Rightarrow> join ''|'' xs | None \<Rightarrow> []), ''-'']"

definition new_line :: jstr where "new_line = [CHR 10]"

definition stepGoal :: "jstr \<Rightarrow> planned_step \<Rightarrow> step_contract \<Rightarrow> jstr" where
  "stepGoal task step k = join new_line
     [''Caso: '' @ task,
      ''Paso '' @ num_str (q_number step),
      ''Accion esperada: '' @ str_or (q_action step) ''-'',
      ''Datos normalizados: '' @ str_or (q_data step) ''-'',
      ''Resultado esperado: '' @ str_or (q_expected step) ''-'',
      ''Contrato verificable: '' @ str_or (join '', '' (map assertion_label (k_assertions k))) ''sin aserciones tipadas'',
      ''Cobertura: '' @ coverage_name (k_coverage k),
      ''Pendiente de evaluacion semantica: '' @ str_or (join '' | '' (k_unresolved k)) ''nada'']"

definition coordinate_text :: "rat option \<Rightarrow> jstr" where
  "coordinate_text q = (case q of Some r \<Rightarrow> num_str (Fin r) | None \<Rightarrow> ''undefined'')"

definition itemLine :: "step_item \<Rightarrow> jstr" where
  "itemLine i =
     (let a = i_action i; x = i_execution i; cp = i_checkpoint i;
          target = (if truthy (sa_target a) then to_string (sa_target a)
            else if sa_action a = A_click_at then coordinate_text (sa_x a) @ '','' @ coordinate_text (sa_y a) else []) in
      ''Paso '' @ num_str (i_step i) @ '' intento '' @ nat_str (i_attempt i) @ '': '' @ action_str (sa_action a) @ '' '' @ target @ '' ''
        @ text_of (sa_value a) @ '' -> '' @ (if e_ok x then ''OK'' else ''ERROR'') @ '': '' @ e_message x
        @ '' checkpoint='' @ coverage_name (cp_coverage cp) @ ''/'' @ (if cp_recoverable cp then ''recuperable'' else ''terminal''))"

definition last_items :: "nat \<Rightarrow> step_item list \<Rightarrow> step_item list" where
  "last_items n is' = drop (length is' - n) is'"

definition summarizeHistory :: "step_item list \<Rightarrow> jstr" where
  "summarizeHistory history = str_or (join new_line (map itemLine (last_items 8 history))) ''Sin acciones previas.''"

definition checkpointLine :: "step_result \<Rightarrow> jstr" where
  "checkpointLine r = type_name (a_type (r_assertion r)) @ ''='' @ (if r_ok r then ''OK'' else ''FALLO'')"

definition latestCheckpointContext :: "step_item list \<Rightarrow> jstr" where
  "latestCheckpointContext history =
     (case history of
        [] \<Rightarrow> ''Sin checkpoint previo.''
      | _ \<Rightarrow> (let cp = i_checkpoint (last history) in join new_line
          [''Checkpoint paso '' @ num_str (cp_step cp) @ '', intento '' @ nat_str (cp_attempt cp),
           ''URL: '' @ cp_url cp,
           ''Titulo: '' @ cp_title cp,
           ''Cobertura del contrato: '' @ coverage_name (cp_coverage cp),
           ''Aserciones: '' @ str_or (join '', '' (map checkpointLine (cp_results cp))) ''sin aserciones tipadas'',
           ''Recuperable: '' @ (if cp_recoverable cp then ''si'' else ''no'')]))"

section \<open>Waiting for the expected evidence\<close>

definition validateExpectedOutcome :: "'w env \<Rightarrow> planned_step \<Rightarrow> observation \<Rightarrow> observation \<Rightarrow> validation res" where
  "validateExpectedOutcome e step earlier after =
     map_ok (\<lambda>ev. \<lparr>v_ok = ev_ok ev, v_reason = ev_reason ev, v_conclusive = ev_conclusive ev\<rparr>)
       (evaluateStepContract (en_regexp e) (buildStepContract step) (ob_url earlier) after)"

definition evidenceSeen :: "'w env \<Rightarrow> planned_step \<Rightarrow> strict_action \<Rightarrow> jstr \<Rightarrow> observation \<Rightarrow> bool res" where
  "evidenceSeen e step a url latest =
     map_ok (\<lambda>ev. if ev_conclusive ev then ev_ok ev else hasDynamicResultEvidence step a latest)
       (evaluateStepContract (en_regexp e) (buildStepContract step) url latest)"

definition lookAgain :: "'w env \<Rightarrow> ('w, observation) io" where
  "lookAgain e = io_then (perform e (P_pause 200)) (observe e)"

partial_function (option) poll ::
  "'w env \<Rightarrow> planned_step \<Rightarrow> strict_action \<Rightarrow> jstr \<Rightarrow> int \<Rightarrow> observation \<Rightarrow> 'w machine \<Rightarrow> (observation outcome \<times> 'w machine) option" where
  "poll e step a url deadline latest s =
     (case en_now e (fst s) of (t, w) \<Rightarrow>
        if t < deadline then
          (case evidenceSeen e step a url latest of
             Inl err \<Rightarrow> Some (Raised err, (w, snd s))
           | Inr seen \<Rightarrow>
               if seen then Some (Done latest, (w, snd s))
               else (case lookAgain e (w, snd s) of
                 (Done ob, s') \<Rightarrow> poll e step a url deadline ob s'
               | (Raised err, s') \<Rightarrow> Some (Raised err, s')
               | (Forever, s') \<Rightarrow> Some (Forever, s')))
        else Some (Done latest, (w, snd s)))"

declare poll.simps [code]

definition polling :: "'w env \<Rightarrow> planned_step \<Rightarrow> strict_action \<Rightarrow> jstr \<Rightarrow> int \<Rightarrow> observation \<Rightarrow> ('w, observation) io" where
  "polling e step a url deadline latest s =
     (case poll e step a url deadline latest s of Some r \<Rightarrow> r | None \<Rightarrow> (Forever, s))"

definition waits :: "planned_step \<Rightarrow> strict_action \<Rightarrow> bool" where
  "waits step a \<longleftrightarrow> (sa_action a = A_type \<and> expectsDynamicResults step) \<or> sa_action a \<in> {A_click, A_check, A_fill_form, A_select}"

definition waitForExpectedEvidence :: "'w env \<Rightarrow> planned_step \<Rightarrow> strict_action \<Rightarrow> ('w, observation) io" where
  "waitForExpectedEvidence e step a =
     io_bind (now e) (\<lambda>t.
     io_bind (page_url e) (\<lambda>url.
     io_bind (observe e) (\<lambda>latest.
       (let deadline = t + (if waits step a then 3000 else 0) in
        if deadline = 0 then io_return latest else polling e step a url deadline latest))))"

section \<open>One attempt\<close>

definition chosenByRules :: "'w env \<Rightarrow> bool \<Rightarrow> planned_step \<Rightarrow> observation \<Rightarrow> strict_action option" where
  "chosenByRules e conventional step ob =
     or_else (inferStructuredAction step ob)
       (or_else (guarded conventional (inferConventionalUiAction step ob)) (deterministicRecoveryAction (en_origin e) step ob))"

definition noMetrics :: jval where
  "noMetrics = JObj (map (\<lambda>k. (k, num 0)) [''latencyMs'', ''promptTokens'', ''completionTokens'', ''totalTokens'', ''estimatedCost''])"

definition planAction :: "'w env \<Rightarrow> run_options \<Rightarrow> bool \<Rightarrow> planned_step \<Rightarrow> step_contract \<Rightarrow> nat \<Rightarrow> step_item list \<Rightarrow> observation \<Rightarrow> jstr \<Rightarrow>
    ('w, confidence_source \<times> plan_reply) io" where
  "planAction e opts conventional step k n history ob shot =
     (case chosenByRules e conventional step ob of
        Some a \<Rightarrow> io_return (Rules, \<lparr>pr_data = action_value a, pr_metrics = noMetrics,
          pr_raw = JObj [(''deterministic'', JBool True), (''action'', action_value a)]\<rparr>)
      | None \<Rightarrow>
          io_bind (ask e \<lparr>rq_step = step, rq_goal = stepGoal (ro_task opts) step k, rq_observation = ob,
              rq_history = summarizeHistory history @ new_line @ new_line @ latestCheckpointContext history, rq_screenshot = shot, rq_attempt = n\<rparr>)
            (\<lambda>reply. io_return (Model, reply)))"

definition proposedAction :: "planned_step \<Rightarrow> confidence_source \<Rightarrow> jval \<Rightarrow> strict_action" where
  "proposedAction step source raw =
     (let a = normalizeAction raw (q_number step)\<lparr>sa_source := Some source\<rparr> in
      if sa_action a = A_fill_form \<and> sa_submit a \<and> \<not> actionExplicitlySubmits step
      then a\<lparr>sa_submit := False, sa_reason := sa_reason a @ '' El envio queda separado para preservar atomicidad.''\<rparr>
      else a)"

text \<open>A blocked answer for a step that can be executed is replaced by a recovery action, or refused.\<close>

definition judge :: "'w env \<Rightarrow> planned_step \<Rightarrow> observation \<Rightarrow> strict_action \<Rightarrow> strict_action \<times> validation" where
  "judge e step ob a =
     (let v = validateAction a ob (q_number step) in
      if v_ok v \<and> isActionableBlocked a step ob then
        (case deterministicRecoveryAction (en_origin e) step ob of
           Some r \<Rightarrow> (let a' = r\<lparr>sa_source := Some Rules\<rparr> in (a', validateAction a' ob (q_number step)))
         | None \<Rightarrow> (a, refuse ''La IA devolvio blocked para un paso ejecutable. Debe elegir type, click, select, press, navigate, assert_visible o assert_text usando los datos y target_ref visibles.''))
      else (a, v))"

definition locate :: "'w env \<Rightarrow> planned_step \<Rightarrow> observation \<Rightarrow> jstr \<Rightarrow> strict_action \<times> validation \<Rightarrow> ('w, refreshed) io" where
  "locate e step ob shot = (\<lambda>(a, v).
     if \<not> v_ok v \<and> shouldUseCoordinateClickFallback a (v_reason v) then revalidateCoordinateClick e a ob (q_number step) v
     else io_return \<lparr>rf_action = a, rf_observation = ob, rf_screenshot = shot, rf_validation = v\<rparr>)"

record effect =
  ef_execution :: step_execution
  ef_succeeded :: bool
  ef_after :: observation
  ef_post :: validation

definition failed_with :: "jstr \<Rightarrow> jstr \<Rightarrow> step_execution" where
  "failed_with command reason = \<lparr>e_ok = False, e_message = reason, x_command = command, x_error = Some reason\<rparr>"

definition conclusively :: "jstr \<Rightarrow> validation" where
  "conclusively reason = \<lparr>v_ok = False, v_reason = reason, v_conclusive = True\<rparr>"

definition carryOut :: "'w env \<Rightarrow> planned_step \<Rightarrow> refreshed \<Rightarrow> ('w, effect) io" where
  "carryOut e step rf =
     (let a = rf_action rf; ob = rf_observation rf; v = rf_validation rf in
      if \<not> v_ok v then
        io_return \<lparr>ef_execution = failed_with ''validateAction'' (v_reason v), ef_succeeded = False, ef_after = ob, ef_post = conclusively (v_reason v)\<rparr>
      else
        io_bind (executeStrictAction e a) (\<lambda>x.
        if e_ok x then
          io_then (ignoring (perform e P_idle))
         (io_bind (waitForExpectedEvidence e step a) (\<lambda>after.
          io_bind (io_res (validateExpectedOutcome e step ob after)) (\<lambda>outcome.
            (let post = auditCoordinatePostValidation a outcome in
             io_return \<lparr>ef_execution = (if v_ok post then x else failed_with postCommand (v_reason post)), ef_succeeded = True, ef_after = after,
               ef_post = post\<rparr>))))
        else
          io_bind (io_catch (observe e) (\<lambda>_. io_return ob)) (\<lambda>after.
            io_return \<lparr>ef_execution = x, ef_succeeded = False, ef_after = after, ef_post = conclusively (e_message x)\<rparr>)))"

definition MISSING :: rx where
  "MISSING = ignore_case (words [''falta'', ''faltan'', ''no se encontro'', ''no visible'', ''missing''])"

definition acted :: "strict_action \<Rightarrow> bool \<Rightarrow> bool" where
  "acted a ok \<longleftrightarrow> ok \<and> sa_action a \<noteq> A_blocked \<and> sa_action a \<noteq> A_fail"

definition attemptEvent :: "step_item \<Rightarrow> step_event" where
  "attemptEvent i =
     (let x = i_execution i; a = i_action i in
      \<lparr>sv_agent = (if e_ok x then ''SENTINEL'' else ''QA_GUARD''), sv_step = i_step i, sv_attempt = Some (i_attempt i),
       sv_status = (if e_ok x then PASO else if x_command x = postCommand \<and> v_conclusive (i_post i) then FALLO else BLOQUEADO),
       sv_message = e_message x,
       sv_category = Some (if e_ok x then (if rx_test MISSING (str_or (v_reason (i_post i)) (sa_reason a)) then ''required_element_not_found'' else ''passed'')
         else ''browser_action_failed''),
       sv_executed = Some (acted a (e_ok x))\<rparr>)"

definition recordAttempt :: "'w env \<Rightarrow> planned_step \<Rightarrow> step_contract \<Rightarrow> nat \<Rightarrow> plan_reply \<Rightarrow> refreshed \<Rightarrow> effect \<Rightarrow> ('w, step_item) io" where
  "recordAttempt e step k n reply rf ef =
     io_then (report e (e_ok (ef_execution ef))
       \<lparr>pv_url = ob_url (ef_after ef), pv_title = ob_title (ef_after ef), pv_text = take 20 (ob_visible_text (ef_after ef))\<rparr>)
    (io_bind (io_catch (screenshot e) (\<lambda>_. io_return (rf_screenshot rf))) (\<lambda>shot.
     io_bind (buildCheckpoint e step n k (rf_observation rf) (ef_after ef) (shot \<noteq> [])) (\<lambda>cp.
       (let i = \<lparr>i_step = q_number step, i_attempt = n, i_before = pick_before (rf_observation rf), i_after = pick_after (ef_after ef),
            i_action = rf_action rf, i_execution = ef_execution ef,
            i_duration = to_number (js_or (js_get (pr_metrics reply) ''latencyMs'') (num 0)), i_screenshot = shot, i_metrics = pr_metrics reply,
            i_validation = rf_validation rf, i_post = ef_post ef, i_raw = pr_raw reply, i_contract = k, i_checkpoint = cp\<rparr> in
        io_then (emit (attemptEvent i)) (io_return i)))))"

definition attemptStep :: "'w env \<Rightarrow> run_options \<Rightarrow> bool \<Rightarrow> planned_step \<Rightarrow> step_contract \<Rightarrow> nat \<Rightarrow> run_state \<Rightarrow>
    ('w, run_state \<times> step_item \<times> effect) io" where
  "attemptStep e opts conventional step k n rs =
     io_bind (observe e) (\<lambda>ob.
     io_bind (screenshot e) (\<lambda>shot.
     io_then (\<lambda>s. (Done (), (fst s, snd s @ [Announced (q_number step) n])))
    (io_bind (planAction e opts conventional step k n (rs_history rs) ob shot) (\<lambda>(source, reply).
     io_bind (locate e step ob shot (judge e step ob (proposedAction step source (pr_data reply)))) (\<lambda>rf.
     io_bind (carryOut e step rf) (\<lambda>ef.
     io_bind (recordAttempt e step k n reply rf ef) (\<lambda>i.
       io_return (add_item i (visit (ob_url ob) rs), i, ef))))))))"

definition unfinished :: "planned_step \<Rightarrow> effect \<Rightarrow> bool" where
  "unfinished step ef \<longleftrightarrow> ef_succeeded ef \<and> isCompoundFlowStep step \<and> needsCompoundContinuation step (ef_after ef)"

definition concludes :: "planned_step \<Rightarrow> step_item \<Rightarrow> effect \<Rightarrow> bool" where
  "concludes step i ef \<longleftrightarrow>
     (e_ok (i_execution i) \<and> \<not> unfinished step ef) \<or>
     (sa_fallback (i_action i) \<and> ef_succeeded ef \<and> \<not> v_conclusive (i_post i)) \<or>
     (v_ok (i_validation i) \<and> sa_action (i_action i) \<in> {A_blocked, A_fail}) \<or>
     (x_command (i_execution i) = postCommand \<and> v_conclusive (i_post i) \<and> \<not> unfinished step ef)"

text \<open>The attempts of a step that are left; the last number of a whole limit ends the step whatever its outcome.\<close>

fun attempts :: "'w env \<Rightarrow> run_options \<Rightarrow> bool \<Rightarrow> planned_step \<Rightarrow> step_contract \<Rightarrow> rat \<Rightarrow> nat list \<Rightarrow> step_item list \<Rightarrow> run_state \<Rightarrow>
    ('w, run_state \<times> run_result option) io" where
  "attempts e opts conventional step k limit [] history rs = io_return (rs, None)"
| "attempts e opts conventional step k limit (n # ns) history rs =
     io_bind (attemptStep e opts conventional step k n rs) (\<lambda>(rs', i, ef).
       if concludes step i ef \<or> of_nat n = limit then
         (let r = finalizeStepResult step k i (history @ [i]) in
          io_return (if e_ok (i_execution i) then rs' else add_error (q_number step) (finalReason (q_number step) i) rs', Some r))
       else attempts e opts conventional step k limit ns (history @ [i]) rs')"

section \<open>Steps that need no plan\<close>

definition openReason :: jstr where
  "openReason = ''El navegador ya esta abierto y la pagina inicial esta cargada.''"

definition inconclusive :: "jstr \<Rightarrow> validation" where
  "inconclusive reason = \<lparr>v_ok = True, v_reason = reason, v_conclusive = False\<rparr>"

definition runOpenStep :: "'w env \<Rightarrow> planned_step \<Rightarrow> step_contract \<Rightarrow> run_state \<Rightarrow> ('w, run_state) io" where
  "runOpenStep e step k rs =
     io_bind (observe e) (\<lambda>ob.
     io_bind (screenshot e) (\<lambda>shot.
     io_bind (buildCheckpoint e step 1 k ob ob True) (\<lambda>cp.
       (let i = \<lparr>i_step = q_number step, i_attempt = 1, i_before = pick_before ob, i_after = pick_after ob,
            i_action = rule_action 100 step A_finish openReason\<lparr>sa_source := Some Rules\<rparr>,
            i_execution = \<lparr>e_ok = True, e_message = ''Navegador disponible'', x_command = ''browser already initialized'', x_error = None\<rparr>,
            i_duration = Fin 0, i_screenshot = shot, i_metrics = JUndef, i_validation = inconclusive ''Navegador disponible'',
            i_post = inconclusive ''Pagina inicial cargada y observable'', i_raw = JUndef, i_contract = k, i_checkpoint = cp\<rparr> in
        io_then (emit \<lparr>sv_agent = ''BROWSER'', sv_step = q_number step, sv_attempt = None, sv_status = PASO, sv_message = openReason,
            sv_category = None, sv_executed = None\<rparr>)
          (io_return (add_result \<lparr>u_number = q_number step, u_status = PASO, u_observations = openReason, u_error = None, u_screenshot = shot,
              u_history = [i], u_confidence = None, u_category = None, u_contract = Some k, u_checkpoints = Some [cp]\<rparr>
            (visit (ob_url ob) (add_item i rs))))))))"

definition navigateAction :: "planned_step \<Rightarrow> strict_action" where
  "navigateAction step =
     rule_action 100 step A_navigate (''Navegacion deterministica usando la URL del paso: '' @ extractStepUrl step)
       \<lparr>sa_value := JStr (extractStepUrl step), sa_source := Some Rules\<rparr>"

definition navigationStatus :: "step_execution \<Rightarrow> validation \<Rightarrow> backend_status" where
  "navigationStatus x post = (if \<not> e_ok x then BLOQUEADO else if v_ok post then PASO else FALLO)"

definition navigationMessage :: "planned_step \<Rightarrow> step_execution \<Rightarrow> validation \<Rightarrow> jstr" where
  "navigationMessage step x post =
     (if e_ok x then v_reason post else ''No se pudo navegar a '' @ extractStepUrl step @ '': '' @ e_message x)"

definition navigationEvent :: "planned_step \<Rightarrow> step_execution \<Rightarrow> validation \<Rightarrow> step_event" where
  "navigationEvent step x post =
     (let status' = navigationStatus x post; message = navigationMessage step x post in
      \<lparr>sv_agent = ''SENTINEL'', sv_step = q_number step, sv_attempt = None, sv_status = status', sv_message = message,
       sv_category = Some (if status' = PASO then ''passed'' else if rx_test MISSING message then ''required_element_not_found''
         else if \<not> e_ok x then ''navigation_error'' else ''expected_result_not_met''),
       sv_executed = Some (e_ok x)\<rparr>)"

definition navigationResult :: "planned_step \<Rightarrow> step_item \<Rightarrow> run_result" where
  "navigationResult step i =
     (let x = i_execution i; post = i_post i; status' = navigationStatus x post in
      \<lparr>u_number = q_number step, u_status = status', u_observations = navigationMessage step x post,
       u_error = (if status' = PASO then None else Some (if e_ok x then v_reason post else opt_or (x_error x) (e_message x))),
       u_screenshot = i_screenshot i, u_history = [i], u_confidence = Some (sa_confidence (i_action i)),
       u_category = (if status' = PASO then None else Some (if e_ok x then ''expected_result_not_met'' else ''navigation_error'')),
       u_contract = None, u_checkpoints = None\<rparr>)"

definition runUrlStep :: "'w env \<Rightarrow> planned_step \<Rightarrow> step_contract \<Rightarrow> run_state \<Rightarrow> ('w, run_state) io" where
  "runUrlStep e step k rs =
     io_bind (observe e) (\<lambda>ob.
     io_bind (now e) (\<lambda>startedAt.
     io_bind (executeStrictAction e (navigateAction step)) (\<lambda>x.
     io_bind (waitForExpectedEvidence e step (navigateAction step)) (\<lambda>after.
     io_bind (if e_ok x then io_res (validateExpectedOutcome e step ob after) else io_return (refuse (e_message x))) (\<lambda>post.
     io_bind (screenshot e) (\<lambda>shot.
     io_bind (now e) (\<lambda>t.
     io_bind (buildCheckpoint e step 1 k ob after (shot \<noteq> [])) (\<lambda>cp.
       (let i = \<lparr>i_step = q_number step, i_attempt = 1, i_before = pick_before ob, i_after = pick_after after, i_action = navigateAction step,
            i_execution = x, i_duration = Fin (of_int (t - startedAt)), i_screenshot = shot, i_metrics = JUndef,
            i_validation = inconclusive ''URL detectada en datos del paso'', i_post = post, i_raw = JUndef, i_contract = k, i_checkpoint = cp\<rparr>;
            r = navigationResult step i; rs' = add_item i (visit (ob_url after) rs) in
        io_then (emit (navigationEvent step x post))
          (io_return (add_result r (if u_status r = PASO then rs' else add_error (q_number step) (u_observations r) rs'))))))))))))"

section \<open>The run\<close>

definition effectiveStep :: "jval \<Rightarrow> planned_step \<Rightarrow> planned_step" where
  "effectiveStep context' step =
     (let normalized = sx_normalized (interpretStepData (q_data step) context' ''step.data'') in
      if normalized = [] then step else step\<lparr>q_data := normalized\<rparr>)"

definition stepLimit :: "rat \<Rightarrow> planned_step \<Rightarrow> rat" where
  "stepLimit maxAttempts step = (if isCompoundFlowStep step then max maxAttempts 6 else maxAttempts)"

definition attemptNumbers :: "rat \<Rightarrow> nat list" where
  "attemptNumbers limit = [1..<Suc (nat \<lfloor>limit\<rfloor>)]"

definition runPlannedStep :: "'w env \<Rightarrow> run_options \<Rightarrow> bool \<Rightarrow> rat \<Rightarrow> planned_step \<Rightarrow> step_contract \<Rightarrow> run_state \<Rightarrow> ('w, run_state) io" where
  "runPlannedStep e opts conventional maxAttempts step k rs =
     (let limit = stepLimit maxAttempts step in
      io_bind (attempts e opts conventional step k limit (attemptNumbers limit) [] rs) (\<lambda>(rs', r).
        io_return (case r of Some r' \<Rightarrow> add_result r' rs' | None \<Rightarrow> rs')))"

definition runStep :: "'w env \<Rightarrow> run_options \<Rightarrow> bool \<Rightarrow> rat \<Rightarrow> planned_step \<Rightarrow> run_state \<Rightarrow> ('w, run_state) io" where
  "runStep e opts conventional maxAttempts source rs =
     (let step = effectiveStep (ro_context opts) source; k = buildStepContract step in
      if isBrowserOpenStep step then runOpenStep e step k rs
      else if isUrlNavigationStep step then runUrlStep e step k rs
      else runPlannedStep e opts conventional maxAttempts step k rs)"

text \<open>A step with a result that is not a pass ends the run.\<close>

definition stopped :: "run_state \<Rightarrow> run_state \<Rightarrow> bool" where
  "stopped rs rs' \<longleftrightarrow> length (rs_results rs) < length (rs_results rs') \<and> u_status (last (rs_results rs')) \<noteq> PASO"

fun runSteps :: "'w env \<Rightarrow> run_options \<Rightarrow> bool \<Rightarrow> rat \<Rightarrow> planned_step list \<Rightarrow> run_state \<Rightarrow> ('w, run_state) io" where
  "runSteps e opts conventional maxAttempts [] rs = io_return rs"
| "runSteps e opts conventional maxAttempts (step # steps) rs =
     io_bind (runStep e opts conventional maxAttempts step rs) (\<lambda>rs'.
       if stopped rs rs' then io_return rs' else runSteps e opts conventional maxAttempts steps rs')"

definition emptyRun :: run_state where
  "emptyRun = \<lparr>rs_results = [], rs_history = [], rs_visited = [], rs_errors = [], rs_checkpoints = []\<rparr>"

definition attemptLimit :: "run_options \<Rightarrow> rat" where
  "attemptLimit opts =
     retryLimitFromWorkflow (ro_workflow opts) (max 1 (case ro_max opts of Some n \<Rightarrow> if n = 0 then 2 else n | None \<Rightarrow> 2))"

definition runQaSteps :: "'w env \<Rightarrow> run_options \<Rightarrow> planned_step list \<Rightarrow> ('w, run_state) io" where
  "runQaSteps e opts steps = runSteps e opts (conventionalUiInferenceEnabled (ro_workflow opts)) (attemptLimit opts) steps emptyRun"

end
