(* ===== verification/StepIoLaws.thy ===== *)
theory StepIoLaws
  imports StepRunner
begin

text \<open>
  Laws of the computations of the step runner: when they return a value, which events they leave in the trace, and triples over the trace.
\<close>

section \<open>Returning\<close>

named_theorems io_done "when a computation returns a value"

lemma io_return_Done [io_done]: "io_return x s = (Done y, s') \<longleftrightarrow> y = x \<and> s' = s"
  by (auto simp: io_return_def)

lemma io_throw_Done [io_done]: "io_throw err s \<noteq> (Done y, s')"
  by (simp add: io_throw_def)

lemma io_bind_Done [io_done]: "io_bind m f s = (Done y, s'') \<longleftrightarrow> (\<exists>x s'. m s = (Done x, s') \<and> f x s' = (Done y, s''))"
  by (auto simp: io_bind_def split: prod.splits outcome.splits)

lemma io_then_Done [io_done]: "io_then m n s = (Done y, s'') \<longleftrightarrow> (\<exists>x s'. m s = (Done x, s') \<and> n s' = (Done y, s''))"
  by (simp add: io_then_def io_bind_Done)

lemma io_res_Done [io_done]: "io_res r s = (Done y, s') \<longleftrightarrow> r = Inr y \<and> s' = s"
  by (cases r) (auto simp: io_res_def io_return_def io_throw_def)

lemma io_catch_Done:
  "io_catch m h s = (Done y, s'') \<longleftrightarrow> m s = (Done y, s'') \<or> (\<exists>err s'. m s = (Raised err, s') \<and> h err s' = (Done y, s''))"
  by (auto simp: io_catch_def split: prod.splits outcome.splits)

lemma emit_Done [io_done]: "emit v s = (Done u, s') \<longleftrightarrow> s' = (fst s, snd s @ [Emitted v])"
  by (auto simp: emit_def)

section \<open>Events\<close>

text \<open>Whatever its outcome, the computation extends the trace by events of the set.\<close>

definition emits :: "event set \<Rightarrow> ('w, 'a) io \<Rightarrow> bool" where
  "emits E m \<longleftrightarrow> (\<forall>s. \<exists>es. snd (snd (m s)) = snd s @ es \<and> set es \<subseteq> E)"

named_theorems emits_rules "events of computations"

lemma emitsD: "emits E m \<Longrightarrow> m s = (r, s') \<Longrightarrow> \<exists>es. snd s' = snd s @ es \<and> set es \<subseteq> E"
  unfolding emits_def by (metis snd_conv)

lemma emits_mono: "emits E m \<Longrightarrow> E \<subseteq> F \<Longrightarrow> emits F m"
  unfolding emits_def by blast

lemma emits_return [emits_rules]: "emits E (io_return x)"
  by (simp add: emits_def io_return_def)

lemma emits_throw [emits_rules]: "emits E (io_throw err)"
  by (simp add: emits_def io_throw_def)

lemma emits_res [emits_rules]: "emits E (io_res r)"
  by (cases r) (simp_all add: io_res_def emits_rules)

lemma emits_bind [emits_rules]:
  assumes "emits E m" "\<And>x. emits E (f x)"
  shows "emits E (io_bind m f)"
  unfolding emits_def
proof
  fix s
  obtain r s1 where m: "m s = (r, s1)" by (cases "m s") auto
  obtain es where es: "snd s1 = snd s @ es" "set es \<subseteq> E" using emitsD [OF assms(1) m] by blast
  show "\<exists>es. snd (snd (io_bind m f s)) = snd s @ es \<and> set es \<subseteq> E"
  proof (cases r)
    case (Done x)
    obtain r2 s2 where f: "f x s1 = (r2, s2)" by (cases "f x s1") auto
    obtain fs where "snd s2 = snd s1 @ fs" "set fs \<subseteq> E" using emitsD [OF assms(2) f] by blast
    then show ?thesis using es by (auto simp: io_bind_def m Done f intro!: exI [of _ "es @ fs"])
  qed (use es in \<open>auto simp: io_bind_def m\<close>)
qed

lemma emits_then [emits_rules]: "emits E m \<Longrightarrow> emits E n \<Longrightarrow> emits E (io_then m n)"
  by (simp add: io_then_def emits_bind)

lemma emits_catch [emits_rules]:
  assumes "emits E m" "\<And>err. emits E (h err)"
  shows "emits E (io_catch m h)"
  unfolding emits_def
proof
  fix s
  obtain r s1 where m: "m s = (r, s1)" by (cases "m s") auto
  obtain es where es: "snd s1 = snd s @ es" "set es \<subseteq> E" using emitsD [OF assms(1) m] by blast
  show "\<exists>es. snd (snd (io_catch m h s)) = snd s @ es \<and> set es \<subseteq> E"
  proof (cases r)
    case (Raised err)
    obtain r2 s2 where h: "h err s1 = (r2, s2)" by (cases "h err s1") auto
    obtain fs where "snd s2 = snd s1 @ fs" "set fs \<subseteq> E" using emitsD [OF assms(2) h] by blast
    then show ?thesis using es by (auto simp: io_catch_def m Raised h intro!: exI [of _ "es @ fs"])
  qed (use es in \<open>auto simp: io_catch_def m\<close>)
qed

lemma emits_call: "(\<And>r. set (es r) \<subseteq> E) \<Longrightarrow> emits E (io_call f es)"
  by (auto simp: emits_def io_call_def split: prod.splits sum.splits)

lemma emits_perform [emits_rules]: "Performed p \<in> E \<Longrightarrow> emits E (perform e p)"
  by (simp add: perform_def emits_call)

lemma emits_ignoring [emits_rules]: "emits E m \<Longrightarrow> emits E (ignoring m)"
  by (simp add: ignoring_def emits_rules)

lemma emits_observe [emits_rules]: "range Observed \<subseteq> E \<Longrightarrow> emits E (observe e)"
  unfolding observe_def by (rule emits_call) (auto split: sum.splits)

lemma emits_screenshot [emits_rules]: "emits E (screenshot e)"
  by (simp add: screenshot_def emits_call)

lemma emits_ask [emits_rules]: "Asked q \<in> E \<Longrightarrow> emits E (ask e q)"
  by (simp add: ask_def emits_call)

lemma emits_report [emits_rules]: "Reported ok \<in> E \<Longrightarrow> emits E (report e ok v)"
  by (simp add: report_def emits_call)

lemma emits_now [emits_rules]: "emits E (now e)"
  by (auto simp: emits_def now_def split: prod.splits)

lemma emits_page_url [emits_rules]: "emits E (page_url e)"
  by (auto simp: emits_def page_url_def)

lemma emits_emit [emits_rules]: "Emitted v \<in> E \<Longrightarrow> emits E (emit v)"
  by (auto simp: emits_def emit_def)

lemma emits_all [emits_rules]: "list_all (\<lambda>p. Performed p \<in> E) ps \<Longrightarrow> emits E (perform_all e ps)"
  by (induction ps) (simp_all add: emits_rules)

section \<open>Triples over the trace\<close>

text \<open>From a trace with the first property, a returned value leaves a trace with the second, any other outcome one with the third.\<close>

definition triple :: "(event list \<Rightarrow> bool) \<Rightarrow> ('w, 'a) io \<Rightarrow> ('a \<Rightarrow> event list \<Rightarrow> bool) \<Rightarrow> (event list \<Rightarrow> bool) \<Rightarrow> bool" where
  "triple P m Q E \<longleftrightarrow> (\<forall>s. P (snd s) \<longrightarrow> (case m s of (Done x, s') \<Rightarrow> Q x (snd s') | (_, s') \<Rightarrow> E (snd s')))"

lemma triple_bind: "triple P m R E \<Longrightarrow> (\<And>x. triple (R x) (f x) Q E) \<Longrightarrow> triple P (io_bind m f) Q E"
  by (fastforce simp: triple_def io_bind_def split: prod.splits outcome.splits)

lemma triple_then: "triple P m (\<lambda>_. R) E \<Longrightarrow> triple R n Q E \<Longrightarrow> triple P (io_then m n) Q E"
  unfolding io_then_def by (rule triple_bind)

lemma triple_return: "(\<And>t. P t \<Longrightarrow> Q x t) \<Longrightarrow> triple P (io_return x) Q E"
  by (simp add: triple_def io_return_def)

lemma triple_weaken:
  "triple P m Q E \<Longrightarrow> (\<And>t. P' t \<Longrightarrow> P t) \<Longrightarrow> (\<And>x t. Q x t \<Longrightarrow> Q' x t) \<Longrightarrow> (\<And>t. E t \<Longrightarrow> E' t) \<Longrightarrow> triple P' m Q' E'"
  by (fastforce simp: triple_def split: prod.splits outcome.splits)

lemma triple_emits:
  fixes m :: "('w, 'a) io"
  assumes "emits F m" "\<And>t es. P t \<Longrightarrow> set es \<subseteq> F \<Longrightarrow> Q (t @ es)"
  shows "triple P m (\<lambda>_. Q) Q"
proof -
  have "Q (snd s')" if "P (snd s)" "m s = (r, s')" for s r s'
    using emitsD [OF assms(1) that(2)] assms(2) that(1) by auto
  then show ?thesis by (fastforce simp: triple_def split: prod.splits outcome.splits)
qed

lemma triple_trace: "triple P m (\<lambda>_. Q) Q \<Longrightarrow> P (snd s) \<Longrightarrow> Q (snd (snd (m s)))"
  by (cases "m s"; cases "fst (m s)") (auto simp: triple_def dest!: spec [of _ "fst s"] spec [of _ "snd s"])

lemma triple_pre_false: "(\<And>t. \<not> P t) \<Longrightarrow> triple P m Q E"
  by (simp add: triple_def)

section \<open>Events of actions\<close>

text \<open>The operations an observation allows: what they address is an element of it, visible and enabled where that matters.\<close>

definition addressed :: "observation \<Rightarrow> jstr \<Rightarrow> (element \<Rightarrow> bool) \<Rightarrow> bool" where
  "addressed ob r p \<longleftrightarrow> list_ex (\<lambda>el. el_ref el = r \<and> \<not> el_disabled el \<and> p el) (ob_elements ob)"

definition op_allowed :: "observation \<Rightarrow> page_op \<Rightarrow> bool" where
  "op_allowed ob p =
     (case p of
        P_click r \<Rightarrow> addressed ob r (\<lambda>el. el_visible el \<and> (el_clickable el \<or> el_editable el))
      | P_type r _ \<Rightarrow> addressed ob r (\<lambda>el. el_visible el \<and> el_editable el)
      | P_fill r _ \<Rightarrow> addressed ob r (\<lambda>el. el_visible el \<and> el_editable el)
      | P_uncheck r \<Rightarrow> addressed ob r (\<lambda>el. el_visible el \<and> el_editable el)
      | P_check r \<Rightarrow> addressed ob r (\<lambda>_. True)
      | P_select_label r _ \<Rightarrow> addressed ob r el_visible
      | P_select_value r _ \<Rightarrow> addressed ob r el_visible
      | _ \<Rightarrow> True)"

definition acts :: "observation \<Rightarrow> event set" where
  "acts ob = {Performed p | p. op_allowed ob p}"

lemma acts_iff [simp]: "Performed p \<in> acts ob \<longleftrightarrow> op_allowed ob p" "Observed o' \<notin> acts ob" "Asked q \<notin> acts ob"
  by (auto simp: acts_def)

lemma element_at_some: "element_at ob v = Some el \<Longrightarrow> el \<in> set (ob_elements ob) \<and> v = JStr (el_ref el)"
  by (auto simp: element_at_def find_Some_iff has_ref_def)

lemma addressedI: "element_at ob v = Some el \<Longrightarrow> \<not> el_disabled el \<Longrightarrow> p el \<Longrightarrow> addressed ob (to_string v) p"
  by (drule element_at_some) (auto simp: addressed_def list_ex_iff)

lemma first_refusal_None: "first_refusal gs = None \<longleftrightarrow> list_all (\<lambda>g. \<not> fst g) gs"
  by (induction gs rule: first_refusal.induct) auto

lemma first_rule_None: "first_rule rs = None \<longleftrightarrow> list_all (\<lambda>r. r = None) rs"
  by (induction rs rule: first_rule.induct) (auto split: option.splits)

lemma first_refused_None: "first_refused f xs = None \<longleftrightarrow> list_all (\<lambda>x. f x = None) xs"
  by (induction xs) (auto split: option.splits)

lemma validate_ok: "v_ok (validateAction a ob n) \<longleftrightarrow> actionRefusal a ob n = None"
  by (simp add: validateAction_def refuse_def accepted_def split: option.splits)

lemma valid_target:
  assumes "actionRefusal a ob n = None" "sa_action a \<in> set ACTIONS_WITH_TARGET"
  obtains el where "element_at ob (sa_target a) = Some el" "el_visible el" "\<not> el_disabled el" "sa_action a = A_type \<longrightarrow> el_editable el"
    "sa_action a = A_click \<longrightarrow> el_clickable el \<or> el_editable el"
  using assms by (auto simp: actionRefusal_def first_rule_None targetRefusal_def first_refusal_None Let_def split: if_splits option.splits)

lemma valid_field:
  assumes "fieldRefusal ob f = None"
  obtains el where "element_at ob (js_get f ''target_ref'') = Some el" "el_visible el" "\<not> el_disabled el" "el_editable el"
  using assms by (auto simp: fieldRefusal_def first_refusal_None Let_def split: if_splits option.splits)

lemma valid_form: "actionRefusal a ob n = None \<Longrightarrow> sa_action a = A_fill_form \<Longrightarrow> list_all (\<lambda>f. fieldRefusal ob f = None) (field_list a)"
  by (auto simp: actionRefusal_def first_rule_None formRefusal_def first_refused_None field_list_def split: if_splits option.splits)

lemma valid_check:
  assumes "actionRefusal a ob n = None" "sa_action a = A_check"
  obtains el where "element_at ob (sa_target a) = Some el" "\<not> el_disabled el"
  using assms by (auto simp: actionRefusal_def first_rule_None checkRefusal_def first_refusal_None Let_def split: if_splits option.splits)

lemma harmless_ops [simp]:
  "op_allowed ob (P_goto u)" "op_allowed ob (P_pause t)" "op_allowed ob (P_settle u)" "op_allowed ob P_idle" "op_allowed ob (P_scroll r)"
  "op_allowed ob (P_mouse x y)" "op_allowed ob (P_key k)" "op_allowed ob (P_tag r)" "op_allowed ob (P_type_attr r)" "op_allowed ob (P_focus r)"
  "op_allowed ob (P_submit_form r)" "op_allowed ob (P_visible r)" "op_allowed ob P_body_text" "op_allowed ob (P_inner_text r)"
  "op_allowed ob (P_hit_test v x y)"
  by (simp_all add: op_allowed_def)

lemma emits_if [emits_rules]: "(b \<Longrightarrow> emits E m) \<Longrightarrow> (\<not> b \<Longrightarrow> emits E n) \<Longrightarrow> emits E (if b then m else n)"
  by simp

lemma emits_need [emits_rules]: "emits E m \<Longrightarrow> emits E (need_target a m)"
  by (simp add: need_target_def emits_rules)

lemma emits_fields: "list_all (\<lambda>f. fieldRefusal ob f = None) fs \<Longrightarrow> emits (acts ob) (fillFields e fs)"
proof (induction fs)
  case (Cons f fs)
  then obtain el where el: "element_at ob (js_get f ''target_ref'') = Some el" "el_visible el" "\<not> el_disabled el" "el_editable el"
    by (auto elim: valid_field)
  have "emits (acts ob) (fillField e f)"
    unfolding fillField_def Let_def by (intro emits_rules) (auto simp: op_allowed_def intro!: addressedI [OF el(1)] el)
  then show ?case using Cons by (simp add: emits_rules)
qed (simp add: emits_rules)

lemma emits_runAction:
  assumes "actionRefusal a ob n = None"
  shows "emits (acts ob) (runAction e a)"
proof (cases "sa_action a")
  case A_click
  then obtain el where "element_at ob (sa_target a) = Some el" "el_visible el" "\<not> el_disabled el" "el_clickable el \<or> el_editable el"
    using assms by (auto elim: valid_target simp: ACTIONS_WITH_TARGET_def)
  then have "op_allowed ob (P_click (ref_of a))" by (auto simp: op_allowed_def ref_of_def intro: addressedI)
  then show ?thesis unfolding runAction_def A_click by (auto intro!: emits_rules)
next
  case A_type
  then obtain el where "element_at ob (sa_target a) = Some el" "el_visible el" "\<not> el_disabled el" "el_editable el"
    using assms by (auto elim: valid_target simp: ACTIONS_WITH_TARGET_def)
  then have "op_allowed ob (P_click (ref_of a))" "op_allowed ob (P_type (ref_of a) v)" for v
    by (auto simp: op_allowed_def ref_of_def intro: addressedI)
  then show ?thesis unfolding runAction_def A_type runType_def settle_def by (auto intro!: emits_rules)
next
  case A_select
  then obtain el where "element_at ob (sa_target a) = Some el" "el_visible el" "\<not> el_disabled el"
    using assms by (auto elim: valid_target simp: ACTIONS_WITH_TARGET_def)
  then have "op_allowed ob (P_select_label (ref_of a) v)" "op_allowed ob (P_select_value (ref_of a) v)" for v
    by (auto simp: op_allowed_def ref_of_def intro: addressedI)
  then show ?thesis unfolding runAction_def A_select runSelect_def settle_def by (auto intro!: emits_rules)
next
  case A_check
  then obtain el where "element_at ob (sa_target a) = Some el" "\<not> el_disabled el" using assms by (auto elim: valid_check)
  then have "op_allowed ob (P_check (ref_of a))" by (auto simp: op_allowed_def ref_of_def intro: addressedI)
  then show ?thesis unfolding runAction_def A_check settle_def by (auto intro!: emits_rules)
next
  case A_fill_form
  have "emits (acts ob) (fillFields e (field_list a))" by (rule emits_fields [OF valid_form [OF assms A_fill_form]])
  then show ?thesis unfolding runAction_def A_fill_form runFillForm_def submitForm_def settle_def Let_def by (auto intro!: emits_rules)
qed (auto simp: runAction_def runClickAt_def coordinateTargetAtPoint_def runAssertText_def settle_def Let_def intro!: emits_rules split: option.splits)

lemma emits_execute: "emits E (runAction e a) \<Longrightarrow> Performed P_idle \<in> E \<Longrightarrow> emits E (executeStrictAction e a)"
  unfolding executeStrictAction_def by (intro emits_rules) auto

section \<open>Events of the wait\<close>

definition looks :: "event set" where
  "looks = range Observed \<union> {Performed (P_pause t) | t. True}"

lemma looks_iff [simp]: "Observed o' \<in> looks" "Performed (P_pause t) \<in> looks" "Asked q \<notin> looks" "range Observed \<subseteq> looks"
  by (auto simp: looks_def)

lemma emits_lookAgain: "emits looks (lookAgain e)"
  unfolding lookAgain_def by (intro emits_rules) auto

text \<open>A property of the outcome of \<open>poll\<close> by induction on its unfoldings.\<close>

lemma poll_induct:
  assumes stop: "\<And>latest s t w. en_now e (fst s) = (t, w) \<Longrightarrow> R latest s (Done latest, (w, snd s))"
    and fail: "\<And>latest s t w err. en_now e (fst s) = (t, w) \<Longrightarrow> R latest s (Raised err, (w, snd s))"
    and again: "\<And>latest s t w ob s' r. en_now e (fst s) = (t, w) \<Longrightarrow> lookAgain e (w, snd s) = (Done ob, s') \<Longrightarrow> R ob s' r \<Longrightarrow> R latest s r"
    and lost: "\<And>latest s t w x s'. en_now e (fst s) = (t, w) \<Longrightarrow> lookAgain e (w, snd s) = (x, s') \<Longrightarrow> (\<And>ob. x \<noteq> Done ob) \<Longrightarrow>
      R latest s (case x of Raised err \<Rightarrow> Raised err | _ \<Rightarrow> Forever, s')"
    and r: "poll e step a url deadline latest s = Some r"
  shows "R latest s r"
proof -
  let ?P = "\<lambda>e' step' a' url' deadline' latest s r. e' = e \<and> step' = step \<and> a' = a \<and> url' = url \<and> deadline' = deadline \<longrightarrow> R latest s r"
  have "?P e step a url deadline latest s r"
  proof (rule poll.raw_induct [of ?P, OF _ r], intro impI, elim conjE)
    fix poll' e' step' a' url' deadline' latest s r
    assume IH: "\<And>e' step' a' url' deadline' latest s r. poll' e' step' a' url' deadline' latest s = Some r \<Longrightarrow>
        e' = e \<and> step' = step \<and> a' = a \<and> url' = url \<and> deadline' = deadline \<longrightarrow> R latest s r"
      and eqs: "e' = e" "step' = step" "a' = a" "url' = url" "deadline' = deadline"
      and body: "(case en_now e' (fst s) of (t, w) \<Rightarrow>
        if t < deadline' then
          (case evidenceSeen e' step' a' url' latest of
             Inl err \<Rightarrow> Some (Raised err, (w, snd s))
           | Inr seen \<Rightarrow>
               if seen then Some (Done latest, (w, snd s))
               else (case lookAgain e' (w, snd s) of
                 (Done ob, s') \<Rightarrow> poll' e' step' a' url' deadline' ob s'
               | (Raised err, s') \<Rightarrow> Some (Raised err, s')
               | (Forever, s') \<Rightarrow> Some (Forever, s')))
        else Some (Done latest, (w, snd s))) = Some r"
    obtain t w where now: "en_now e (fst s) = (t, w)" by fastforce
    obtain x s' where look: "lookAgain e (w, snd s) = (x, s')" by (cases "lookAgain e (w, snd s)") auto
    note b = body [unfolded eqs now look prod.case]
    consider "r = (Done latest, (w, snd s))" | err where "r = (Raised err, (w, snd s))"
      | ob where "x = Done ob" "poll' e step a url deadline ob s' = Some r"
      | "\<And>ob. x \<noteq> Done ob" "r = (case x of Raised err \<Rightarrow> Raised err | _ \<Rightarrow> Forever, s')"
      using b by (auto split: if_splits sum.splits outcome.splits)
    then show "R latest s r"
    proof cases
      case 3
      then show ?thesis using IH [OF 3(2)] again [OF now look [unfolded 3(1)]] by simp
    qed (use stop [OF now] fail [OF now] lost [OF now look] in auto)
  qed
  then show ?thesis by simp
qed

end
