(* ===== verification/StepTraces.thy ===== *)
theory StepTraces
  imports StepIoLaws
begin

text \<open>
  The trace of a run of the step runner: operations act on what was last observed, the model is asked a bounded number of times, and a run
  returns when its clock runs.
\<close>

section \<open>Events of polling\<close>

lemma emits_polling: "emits looks (polling e step a url deadline latest)"
  unfolding emits_def
proof
  fix s
  show "\<exists>es. snd (snd (polling e step a url deadline latest s)) = snd s @ es \<and> set es \<subseteq> looks"
  proof (cases "poll e step a url deadline latest s")
    case (Some r)
    have "\<exists>es. snd (snd r) = snd s @ es \<and> set es \<subseteq> looks"
    proof (rule poll_induct [OF _ _ _ _ Some])
      fix s t w ob s' r
      assume "lookAgain e (w, snd s) = (Done ob, s')" "\<exists>es. snd (snd r) = snd s' @ es \<and> set es \<subseteq> looks"
      moreover from this(1) obtain fs where "snd s' = snd s @ fs" "set fs \<subseteq> looks"
        using emitsD [OF emits_lookAgain, of e "(w, snd s)"] by auto
      ultimately show "\<exists>es. snd (snd r) = snd s @ es \<and> set es \<subseteq> looks" by (metis append.assoc set_append Un_least)
    next
      fix s t w x s'
      assume "lookAgain e (w, snd s) = (x, s')"
      then show "\<exists>es. snd (snd (case x of Raised err \<Rightarrow> Raised err | _ \<Rightarrow> Forever, s')) = snd s @ es \<and> set es \<subseteq> looks"
        using emitsD [OF emits_lookAgain, of e "(w, snd s)"] by auto
    qed auto
    then show ?thesis by (simp add: polling_def Some)
  qed (simp add: polling_def)
qed

lemma emits_wait: "emits looks (waitForExpectedEvidence e step a)"
  unfolding waitForExpectedEvidence_def Let_def by (intro emits_rules emits_polling) auto

section \<open>Actions act on what was last observed\<close>

fun last_seen :: "observation option \<Rightarrow> event list \<Rightarrow> observation option" where
  "last_seen last' [] = last'"
| "last_seen last' (v # vs) = last_seen (case v of Observed ob \<Rightarrow> Some ob | _ \<Rightarrow> last') vs"

text \<open>Every operation of the trace is allowed by the observation before it.\<close>

fun checked :: "observation option \<Rightarrow> event list \<Rightarrow> bool" where
  "checked last' [] = True"
| "checked last' (v # vs) =
     ((case v of Performed p \<Rightarrow> (case last' of Some ob \<Rightarrow> op_allowed ob p | None \<Rightarrow> \<forall>ob. op_allowed ob p) | _ \<Rightarrow> True) \<and>
      checked (case v of Observed ob \<Rightarrow> Some ob | _ \<Rightarrow> last') vs)"

lemma last_seen_append [simp]: "last_seen o' (xs @ ys) = last_seen (last_seen o' xs) ys"
  by (induction o' xs rule: last_seen.induct) simp_all

lemma checked_append [simp]: "checked o' (xs @ ys) \<longleftrightarrow> checked o' xs \<and> checked (last_seen o' xs) ys"
  by (induction o' xs rule: checked.induct) auto

definition safe :: "event list \<Rightarrow> bool" where "safe t \<longleftrightarrow> checked None t"
definition seen :: "observation \<Rightarrow> event list \<Rightarrow> bool" where "seen ob t \<longleftrightarrow> checked None t \<and> last_seen None t = Some ob"

lemma checked_acts: "set es \<subseteq> acts ob \<Longrightarrow> checked (Some ob) es \<and> last_seen (Some ob) es = Some ob"
  by (induction es) (auto simp: acts_def)

definition calm :: "event set" where
  "calm = {v. \<forall>p. v = Performed p \<longrightarrow> (\<forall>ob. op_allowed ob p)}"

lemma calm_iff [simp]: "Performed p \<in> calm \<longleftrightarrow> (\<forall>ob. op_allowed ob p)" "Observed o' \<in> calm" "Asked q \<in> calm" "Reported b \<in> calm"
  "Emitted v \<in> calm" "Announced n k \<in> calm" "range Observed \<subseteq> calm" "looks \<subseteq> calm"
  by (auto simp: calm_def looks_def)

lemma checked_calm: "set es \<subseteq> calm \<Longrightarrow> checked o' es"
  by (induction es arbitrary: o') (auto simp: calm_def split: option.splits event.splits)

lemma last_seen_quiet: "set es \<inter> range Observed = {} \<Longrightarrow> last_seen o' es = o'"
  by (induction es arbitrary: o') (auto split: event.splits)

lemma triple_calm: "emits calm m \<Longrightarrow> triple safe m (\<lambda>_. safe) safe"
  by (rule triple_emits) (auto simp: safe_def checked_calm)

lemma triple_quiet: "emits (calm - range Observed) m \<Longrightarrow> triple (seen ob) m (\<lambda>_. seen ob) (seen ob)"
  by (rule triple_emits) (auto simp: seen_def intro!: checked_calm last_seen_quiet)

lemma triple_acts: "emits (acts ob) m \<Longrightarrow> triple (seen ob) m (\<lambda>_. seen ob) (seen ob)"
  by (rule triple_emits) (auto simp: seen_def checked_acts)

lemma seen_safe: "seen ob t \<Longrightarrow> safe t"
  by (simp add: seen_def safe_def)

lemma triple_observe: "triple safe (observe e) seen safe"
  by (auto simp: triple_def observe_def io_call_def safe_def seen_def split: prod.splits sum.splits)

lemma triple_screenshot: "triple P (screenshot e) (\<lambda>_. P) P"
  by (auto simp: triple_def screenshot_def io_call_def split: prod.splits sum.splits)


lemma judge_validates: "judge e step ob a = (a', v) \<Longrightarrow> v_ok v \<Longrightarrow> actionRefusal a' ob (q_number step) = None"
  by (auto simp: judge_def validate_ok refuse_def Let_def split: if_splits option.splits)

definition valid_in :: "planned_step \<Rightarrow> refreshed \<Rightarrow> bool" where
  "valid_in step rf \<longleftrightarrow> (v_ok (rf_validation rf) \<longrightarrow> actionRefusal (rf_action rf) (rf_observation rf) (q_number step) = None)"

lemma triple_locate:
  assumes "judge e step ob a = av"
  shows "triple (seen ob) (locate e step ob shot av) (\<lambda>rf t. seen (rf_observation rf) t \<and> valid_in step rf) safe"
proof -
  obtain a' v where av: "av = (a', v)" by fastforce
  note valid = judge_validates [OF assms [unfolded av]]
  show ?thesis
  proof (cases "\<not> v_ok v \<and> shouldUseCoordinateClickFallback a' (v_reason v)")
    case True
    have "triple (seen ob) (revalidateCoordinateClick e a' ob (q_number step) v) (\<lambda>rf t. seen (rf_observation rf) t \<and> valid_in step rf) safe"
      unfolding revalidateCoordinateClick_def
    proof (rule triple_bind [where R = seen])
      show "triple (seen ob) (observe e) seen safe" by (rule triple_weaken [OF triple_observe]) (auto dest: seen_safe)
      fix ob' :: observation
      let ?S = "\<lambda>shot. io_return (case refreshCoordinateTarget a' ob ob' of
          Some target \<Rightarrow> (let a'' = toCoordinateClickFallback target (v_reason v) in
             \<lparr>rf_action = a'', rf_observation = ob', rf_screenshot = shot, rf_validation = validateAction a'' ob' (q_number step)\<rparr>)
        | None \<Rightarrow> \<lparr>rf_action = a', rf_observation = ob', rf_screenshot = shot,
             rf_validation = refuse ''El objetivo del clic no se pudo confirmar en la observacion nueva; se requiere replanificar.''\<rparr>)"
      show "triple (seen ob') (io_bind (screenshot e) ?S) (\<lambda>rf t. seen (rf_observation rf) t \<and> valid_in step rf) safe"
        by (rule triple_bind [where R = "\<lambda>_. seen ob'", OF triple_weaken [OF triple_screenshot [of "seen ob'"]]])
          (auto dest: seen_safe intro!: triple_return simp: valid_in_def validate_ok refuse_def Let_def split: option.splits)
    qed
    then show ?thesis by (simp add: locate_def av True)
  next
    case False
    then have "locate e step ob shot av = io_return \<lparr>rf_action = a', rf_observation = ob, rf_screenshot = shot, rf_validation = v\<rparr>"
      by (auto simp: locate_def av)
    then show ?thesis using valid by (auto intro!: triple_return simp: valid_in_def)
  qed
qed


lemma triple_safe: "triple (seen ob) m (\<lambda>_. seen ob) (seen ob) \<Longrightarrow> triple (seen ob) m (\<lambda>_. safe) safe"
  by (erule triple_weaken) (auto dest: seen_safe)

lemma triple_mix: "triple (seen ob) m (\<lambda>_. seen ob) (seen ob) \<Longrightarrow> triple (seen ob) m (\<lambda>_. seen ob) safe"
  by (erule triple_weaken) (auto dest: seen_safe)

lemma emits_looks_calm: "emits looks m \<Longrightarrow> emits calm m"
  by (erule emits_mono) simp

lemma triple_carryOut:
  assumes "valid_in step rf"
  shows "triple (seen (rf_observation rf)) (carryOut e step rf) (\<lambda>_. safe) safe"
proof (cases "v_ok (rf_validation rf)")
  case False
  then show ?thesis by (auto simp: carryOut_def Let_def intro!: triple_return dest: seen_safe)
next
  case True
  let ?ob = "rf_observation rf" and ?a = "rf_action rf"
  have act: "emits (acts ?ob) (executeStrictAction e ?a)"
    using assms True by (auto simp: valid_in_def intro: emits_execute emits_runAction)
  have cont: "emits calm (if e_ok x then
          io_then (ignoring (perform e P_idle))
         (io_bind (waitForExpectedEvidence e step ?a) (\<lambda>after.
          io_bind (io_res (validateExpectedOutcome e step ?ob after)) (\<lambda>outcome.
            (let post = auditCoordinatePostValidation ?a outcome in
             io_return \<lparr>ef_execution = (if v_ok post then x else failed_with postCommand (v_reason post)), ef_succeeded = True, ef_after = after,
               ef_post = post\<rparr>))))
        else
          io_bind (io_catch (observe e) (\<lambda>_. io_return ?ob)) (\<lambda>after.
            io_return \<lparr>ef_execution = x, ef_succeeded = False, ef_after = after, ef_post = conclusively (e_message x)\<rparr>))" for x
    unfolding Let_def by (intro emits_rules emits_looks_calm [OF emits_wait]) auto
  show ?thesis
    using True unfolding carryOut_def Let_def
    by (simp add: triple_bind [OF triple_safe [OF triple_acts [OF act]] triple_calm [OF cont [unfolded Let_def]]])
qed

lemma emits_checkpoint [emits_rules]: "emits E (buildCheckpoint e step n k ob after shot)"
  unfolding buildCheckpoint_def by (intro emits_rules)

lemma emits_record: "emits calm (recordAttempt e step k n reply rf ef)"
  unfolding recordAttempt_def Let_def by (intro emits_rules) auto

lemma emits_plan: "emits (calm - range Observed) (planAction e opts conventional step k n history ob shot)"
  unfolding planAction_def by (auto intro!: emits_rules split: option.splits)

lemma emits_announce: "emits {Announced n k} (\<lambda>s. (Done (), (fst s, snd s @ [Announced n k])))"
  by (auto simp: emits_def)

lemma triple_attempt: "triple safe (attemptStep e opts conventional step k n rs) (\<lambda>_. safe) safe"
  unfolding attemptStep_def
proof (rule triple_bind [OF triple_observe])
  fix ob :: observation
  let ?final = "\<lambda>shot reply rf ef. io_bind (recordAttempt e step k n reply rf ef) (\<lambda>i. io_return (add_item i (visit (ob_url ob) rs), i, ef))"
  have ends: "triple safe (?final shot reply rf ef) (\<lambda>_. safe) safe" for shot reply rf ef
    by (intro triple_calm emits_rules emits_record)
  have rest: "triple (seen ob) (io_bind (locate e step ob shot (judge e step ob a))
      (\<lambda>rf. io_bind (carryOut e step rf) (?final shot reply rf))) (\<lambda>_. safe) safe" for shot reply a
  proof (rule triple_bind [OF triple_locate [OF refl]])
    fix rf
    show "triple (\<lambda>t. seen (rf_observation rf) t \<and> valid_in step rf) (io_bind (carryOut e step rf) (?final shot reply rf)) (\<lambda>_. safe) safe"
    proof (cases "valid_in step rf")
      case True
      then show ?thesis using triple_bind [OF triple_carryOut [OF True] ends] by (simp add: triple_weaken)
    qed (simp add: triple_pre_false)
  qed
  have quiet: "emits (calm - range Observed) (\<lambda>s. (Done (), (fst s, snd s @ [Announced m j])))" for m j
    by (rule emits_mono [OF emits_announce]) auto
  show "triple (seen ob)
      (io_bind (screenshot e) (\<lambda>shot.
       io_then (\<lambda>s. (Done (), (fst s, snd s @ [Announced (q_number step) n])))
      (io_bind (planAction e opts conventional step k n (rs_history rs) ob shot) (\<lambda>(source, reply).
       io_bind (locate e step ob shot (judge e step ob (proposedAction step source (pr_data reply)))) (\<lambda>rf.
       io_bind (carryOut e step rf) (\<lambda>ef. io_bind (recordAttempt e step k n reply rf ef) (\<lambda>i.
         io_return (add_item i (visit (ob_url ob) rs), i, ef)))))))) (\<lambda>_. safe) safe"
    by (rule triple_bind [OF triple_mix [OF triple_screenshot]], rule triple_then [OF triple_mix [OF triple_quiet [OF quiet]]],
        rule triple_bind [OF triple_mix [OF triple_quiet [OF emits_plan]]], clarsimp simp: rest)
qed

lemma triple_attempts: "triple safe (attempts e opts conventional step k limit ns history rs) (\<lambda>_. safe) safe"
proof (induction ns arbitrary: history rs)
  case (Cons n ns)
  show ?case
    unfolding attempts.simps
    by (rule triple_bind [OF triple_attempt]) (auto simp: Let_def Cons.IH intro!: triple_return split: prod.splits)
qed (simp add: triple_return)

lemma emits_navigate: "emits calm (executeStrictAction e (navigateAction step))"
  by (rule emits_execute) (auto simp: runAction_def navigateAction_def rule_action_def intro!: emits_rules)

lemma emits_urlStep: "emits calm (runUrlStep e step k rs)"
  unfolding runUrlStep_def Let_def by (intro emits_rules emits_navigate emits_looks_calm [OF emits_wait]) auto

lemma emits_openStep: "emits calm (runOpenStep e step k rs)"
  unfolding runOpenStep_def Let_def by (intro emits_rules) auto

lemma triple_step: "triple safe (runStep e opts conventional maxAttempts step rs) (\<lambda>_. safe) safe"
  unfolding runStep_def runPlannedStep_def Let_def
  by (auto intro!: triple_calm emits_urlStep emits_openStep triple_bind [OF triple_attempts] triple_return split: prod.splits)

lemma triple_steps: "triple safe (runSteps e opts conventional maxAttempts steps rs) (\<lambda>_. safe) safe"
proof (induction steps arbitrary: rs)
  case (Cons step steps)
  show ?case unfolding runSteps.simps by (rule triple_bind [OF triple_step]) (auto simp: Cons.IH intro: triple_return)
qed (simp add: triple_return)

lemma run_checked: "checked None (snd (snd (runQaSteps e opts steps (w, []))))"
  using triple_trace [OF triple_steps, of "(w, [])"] by (simp add: runQaSteps_def safe_def)

section \<open>Requests to the model\<close>

fun asked :: "event list \<Rightarrow> nat" where
  "asked [] = 0"
| "asked (v # vs) = (case v of Asked _ \<Rightarrow> 1 | _ \<Rightarrow> 0) + asked vs"

definition silent :: "event set" where
  "silent = - range Asked"

lemma asked_append [simp]: "asked (xs @ ys) = asked xs + asked ys"
  by (induction xs) simp_all

lemma asked_silent: "set es \<subseteq> silent \<Longrightarrow> asked es = 0"
  by (induction es) (auto simp: silent_def split: event.splits)

definition asked_at_most :: "nat \<Rightarrow> event list \<Rightarrow> bool" where
  "asked_at_most n t \<longleftrightarrow> asked t \<le> n"

lemma silent_iff [simp]: "Performed p \<in> silent" "Observed o' \<in> silent" "Reported b \<in> silent" "Emitted v \<in> silent" "Announced n k \<in> silent"
  "range Observed \<subseteq> silent" "looks \<subseteq> silent"
  by (auto simp: silent_def looks_def)

lemma emits_looks_silent: "emits looks m \<Longrightarrow> emits silent m"
  by (erule emits_mono) simp

lemma triple_silent: "emits silent m \<Longrightarrow> triple (asked_at_most n) m (\<lambda>_. asked_at_most n) (asked_at_most n)"
  by (rule triple_emits) (auto simp: asked_at_most_def asked_silent)

lemma asked_more: "asked_at_most n t \<Longrightarrow> n \<le> m \<Longrightarrow> asked_at_most m t"
  by (simp add: asked_at_most_def)

lemma triple_grow:
  "triple (asked_at_most n) m (\<lambda>_. asked_at_most k) (asked_at_most k) \<Longrightarrow> k \<le> j \<Longrightarrow> triple (asked_at_most n) m (\<lambda>_. asked_at_most k) (asked_at_most j)"
  by (erule triple_weaken) (auto elim: asked_more)

lemma triple_grow_all:
  "triple (asked_at_most n) m (\<lambda>_. asked_at_most k) (asked_at_most k) \<Longrightarrow> k \<le> j \<Longrightarrow> triple (asked_at_most n) m (\<lambda>_. asked_at_most j) (asked_at_most j)"
  by (erule triple_weaken) (auto elim: asked_more)

lemma triple_asked: "emits silent m \<Longrightarrow> n \<le> n' \<Longrightarrow> triple (asked_at_most n) m (\<lambda>_. asked_at_most n) (asked_at_most n')"
  by (rule triple_weaken [OF triple_silent [of m n]]) (auto elim: asked_more)

lemma emits_fillFields: "emits silent (fillFields e fs)"
  by (induction fs) (auto simp: fillField_def Let_def intro!: emits_rules)

lemma emits_action_silent: "emits silent (executeStrictAction e a)"
proof (rule emits_execute)
  show "emits silent (runAction e a)"
    unfolding runAction_def
    by (cases "sa_action a")
      (auto simp: runClickAt_def coordinateTargetAtPoint_def runAssertText_def runType_def runSelect_def runFillForm_def submitForm_def settle_def Let_def
        intro!: emits_rules emits_fillFields split: option.splits)
qed simp

lemma triple_plan:
  "triple (asked_at_most n) (planAction e opts conventional step k j history ob shot) (\<lambda>_. asked_at_most (Suc n)) (asked_at_most (Suc n))"
proof (cases "chosenByRules e conventional step ob")
  case None
  show ?thesis
    unfolding planAction_def None option.case
    by (rule triple_bind [where R = "\<lambda>_. asked_at_most (Suc n)"])
      (auto simp: triple_def ask_def io_call_def io_return_def asked_at_most_def split: prod.splits sum.splits)
qed (auto simp: planAction_def asked_at_most_def intro!: triple_return)

lemma emits_carryOut: "emits silent (carryOut e step rf)"
  unfolding carryOut_def Let_def by (intro emits_rules emits_action_silent emits_looks_silent [OF emits_wait]) auto

lemma emits_locate: "emits silent (locate e step ob shot av)"
  by (cases av) (auto simp: locate_def revalidateCoordinateClick_def Let_def intro!: emits_rules)

lemma triple_attempt_asks:
  "triple (asked_at_most n) (attemptStep e opts conventional step k j rs) (\<lambda>_. asked_at_most (Suc n)) (asked_at_most (Suc n))"
  unfolding attemptStep_def
proof (rule triple_bind [OF triple_asked])
  fix ob :: observation
  let ?rest = "\<lambda>shot (source, reply). io_bind (locate e step ob shot (judge e step ob (proposedAction step source (pr_data reply)))) (\<lambda>rf.
       io_bind (carryOut e step rf) (\<lambda>ef. io_bind (recordAttempt e step k j reply rf ef) (\<lambda>i.
         io_return (add_item i (visit (ob_url ob) rs), i, ef))))"
  have rest: "emits silent (?rest shot p)" for shot p
    unfolding recordAttempt_def Let_def by (cases p) (auto intro!: emits_rules emits_locate emits_carryOut)
  have announce: "emits silent (\<lambda>s. (Done (), (fst s, snd s @ [Announced m i])))" for m i
    by (rule emits_mono [OF emits_announce]) simp
  show "triple (asked_at_most n)
      (io_bind (screenshot e) (\<lambda>shot.
       io_then (\<lambda>s. (Done (), (fst s, snd s @ [Announced (q_number step) j])))
      (io_bind (planAction e opts conventional step k j (rs_history rs) ob shot) (?rest shot)))) (\<lambda>_. asked_at_most (Suc n)) (asked_at_most (Suc n))"
    by (rule triple_bind [OF triple_asked], rule emits_screenshot, simp, rule triple_then [OF triple_asked [OF announce]], simp,
        rule triple_bind [OF triple_plan triple_silent [OF rest]])
qed (auto intro!: emits_rules)

lemma triple_attempts_asks:
  "triple (asked_at_most n) (attempts e opts conventional step k limit ns history rs) (\<lambda>_. asked_at_most (n + length ns)) (asked_at_most (n + length ns))"
proof (induction ns arbitrary: n history rs)
  case (Cons j ns)
  show ?case
    unfolding attempts.simps
  proof (rule triple_bind [OF triple_grow [OF triple_attempt_asks]])
    fix x :: "run_state \<times> step_item \<times> effect"
    obtain rs' i ef where x: "x = (rs', i, ef)" by (cases x)
    show "triple (asked_at_most (Suc n)) (case x of (rs', i, ef) \<Rightarrow>
        if concludes step i ef \<or> of_nat j = limit then
          (let r = finalizeStepResult step k i (history @ [i]) in
           io_return (if e_ok (i_execution i) then rs' else add_error (q_number step) (finalReason (q_number step) i) rs', Some r))
        else attempts e opts conventional step k limit ns (history @ [i]) rs') (\<lambda>_. asked_at_most (n + length (j # ns))) (asked_at_most (n + length (j # ns)))"
      using Cons.IH [of "Suc n" "history @ [i]" rs'] by (auto simp: x Let_def intro!: triple_return elim: asked_more)
  qed simp
qed (simp add: triple_return)

lemma emits_urlStep_silent: "emits silent (runUrlStep e step k rs)"
  unfolding runUrlStep_def Let_def by (intro emits_rules emits_action_silent emits_looks_silent [OF emits_wait]) auto

lemma emits_openStep_silent: "emits silent (runOpenStep e step k rs)"
  unfolding runOpenStep_def Let_def by (intro emits_rules) auto

lemma length_attemptNumbers [simp]: "length (attemptNumbers limit) = nat \<lfloor>limit\<rfloor>"
  by (simp add: attemptNumbers_def del: upt_Suc)

lemma stepLimit_le: "nat \<lfloor>stepLimit m step\<rfloor> \<le> nat \<lfloor>max 6 m\<rfloor>"
  by (auto simp: stepLimit_def max.commute intro!: nat_mono floor_mono)

lemma triple_step_asks:
  "triple (asked_at_most n) (runStep e opts conventional m step rs) (\<lambda>_. asked_at_most (n + nat \<lfloor>max 6 m\<rfloor>)) (asked_at_most (n + nat \<lfloor>max 6 m\<rfloor>))"
proof -
  let ?step = "effectiveStep (ro_context opts) step"
  let ?K = "nat \<lfloor>max 6 m\<rfloor>"
  have planned: "triple (asked_at_most n) (runPlannedStep e opts conventional m ?step (buildStepContract ?step) rs)
      (\<lambda>_. asked_at_most (n + ?K)) (asked_at_most (n + ?K))"
    unfolding runPlannedStep_def Let_def
    by (rule triple_bind [OF triple_grow_all [OF triple_attempts_asks]])
      (use stepLimit_le [of m ?step] in \<open>auto intro!: triple_return split: prod.splits\<close>)
  have "triple (asked_at_most n) q (\<lambda>_. asked_at_most (n + ?K)) (asked_at_most (n + ?K))" if "emits silent q" for q :: "('a, run_state) io"
    by (rule triple_grow_all [OF triple_silent [OF that]]) simp
  then show ?thesis unfolding runStep_def Let_def using planned by (simp add: emits_urlStep_silent emits_openStep_silent)
qed

lemma triple_steps_asks:
  "triple (asked_at_most n) (runSteps e opts conventional m steps rs)
     (\<lambda>_. asked_at_most (n + length steps * nat \<lfloor>max 6 m\<rfloor>)) (asked_at_most (n + length steps * nat \<lfloor>max 6 m\<rfloor>))"
proof (induction steps arbitrary: n rs)
  case (Cons step steps)
  show ?case
    unfolding runSteps.simps
  proof (rule triple_bind [OF triple_grow [OF triple_step_asks]])
    fix rs'
    show "triple (asked_at_most (n + nat \<lfloor>max 6 m\<rfloor>))
        (if stopped rs rs' then io_return rs' else runSteps e opts conventional m steps rs')
        (\<lambda>_. asked_at_most (n + length (step # steps) * nat \<lfloor>max 6 m\<rfloor>)) (asked_at_most (n + length (step # steps) * nat \<lfloor>max 6 m\<rfloor>))"
      using Cons.IH [of "n + nat \<lfloor>max 6 m\<rfloor>" rs'] by (auto simp: add.assoc intro!: triple_return elim: asked_more)
  qed simp
qed (simp add: triple_return)

lemma attemptLimit_le: "max 6 (attemptLimit opts) \<le> max 6 (case ro_max opts of Some n \<Rightarrow> n | None \<Rightarrow> 2)"
  by (auto simp: attemptLimit_def retryLimitFromWorkflow_def Let_def split: option.splits jnum.splits)

lemma run_asks: "asked (snd (snd (runQaSteps e opts steps (w, [])))) \<le> length steps * nat \<lfloor>max 6 (case ro_max opts of Some n \<Rightarrow> n | None \<Rightarrow> 2)\<rfloor>"
proof -
  have "asked (snd (snd (runQaSteps e opts steps (w, [])))) \<le> length steps * nat \<lfloor>max 6 (attemptLimit opts)\<rfloor>"
    using triple_trace [OF triple_steps_asks [of 0], of "(w, [])"] by (simp add: runQaSteps_def asked_at_most_def)
  also have "\<dots> \<le> length steps * nat \<lfloor>max 6 (case ro_max opts of Some n \<Rightarrow> n | None \<Rightarrow> 2)\<rfloor>"
    by (intro mult_left_mono nat_mono floor_mono attemptLimit_le) simp
  finally show ?thesis .
qed

section \<open>Runs that return\<close>

definition returns :: "('w, 'a) io \<Rightarrow> bool" where
  "returns m \<longleftrightarrow> (\<forall>s. fst (m s) \<noteq> Forever)"

named_theorems returns_rules "computations that return or throw"

lemma returns_return [returns_rules]: "returns (io_return x)" by (simp add: returns_def io_return_def)
lemma returns_throw [returns_rules]: "returns (io_throw err)" by (simp add: returns_def io_throw_def)
lemma returns_res [returns_rules]: "returns (io_res r)" by (cases r) (simp_all add: io_res_def returns_rules)

lemma returnsD: "returns m \<Longrightarrow> m s = (r, s') \<Longrightarrow> r \<noteq> Forever"
  unfolding returns_def by (metis fst_conv)

lemma returnsI: "(\<And>s s'. m s \<noteq> (Forever, s')) \<Longrightarrow> returns m"
  unfolding returns_def by (metis prod.collapse)

lemma returns_bind [returns_rules]: "returns m \<Longrightarrow> (\<And>x. returns (f x)) \<Longrightarrow> returns (io_bind m f)"
  by (rule returnsI) (auto simp: io_bind_def dest: returnsD split: prod.splits outcome.splits)

lemma returns_then [returns_rules]: "returns m \<Longrightarrow> returns n \<Longrightarrow> returns (io_then m n)"
  by (simp add: io_then_def returns_bind)

lemma returns_catch [returns_rules]: "returns m \<Longrightarrow> (\<And>err. returns (h err)) \<Longrightarrow> returns (io_catch m h)"
  by (rule returnsI) (auto simp: io_catch_def dest: returnsD split: prod.splits outcome.splits)

lemma returns_call: "returns (io_call f es)"
  by (auto simp: returns_def io_call_def split: prod.splits sum.splits)

lemma returns_calls [returns_rules]:
  "returns (perform e p)" "returns (observe e)" "returns (screenshot e)" "returns (ask e q)" "returns (report e ok v)"
  by (simp_all add: perform_def observe_def screenshot_def ask_def report_def returns_call)

lemma returns_reads [returns_rules]: "returns (now e)" "returns (page_url e)" "returns (emit v)"
  by (auto simp: returns_def now_def page_url_def emit_def split: prod.splits)

lemma returns_ignoring [returns_rules]: "returns m \<Longrightarrow> returns (ignoring m)"
  by (simp add: ignoring_def returns_rules)

lemma returns_all [returns_rules]: "returns (perform_all e ps)"
  by (induction ps) (simp_all add: returns_rules)

lemma returns_if [returns_rules]: "returns m \<Longrightarrow> returns n \<Longrightarrow> returns (if b then m else n)"
  by simp

lemma returns_fillFields: "returns (fillFields e fs)"
  by (induction fs) (auto simp: fillField_def Let_def intro!: returns_rules)

lemma returns_execute [returns_rules]: "returns (executeStrictAction e a)"
proof -
  have "returns (runAction e a)"
    unfolding runAction_def
    by (cases "sa_action a")
      (auto simp: runClickAt_def coordinateTargetAtPoint_def runAssertText_def runType_def runSelect_def runFillForm_def submitForm_def settle_def
        need_target_def Let_def intro!: returns_rules returns_fillFields split: option.splits)
  then show ?thesis unfolding executeStrictAction_def by (intro returns_rules)
qed

text \<open>
  What is assumed of the clock: it never goes back, and a pause of 200 milliseconds that ends normally lets it advance.
\<close>

definition clock_runs :: "'w env \<Rightarrow> ('w \<Rightarrow> int) \<Rightarrow> bool" where
  "clock_runs e time \<longleftrightarrow>
     (\<forall>w. fst (en_now e w) = time w \<and> time w \<le> time (snd (en_now e w))) \<and>
     (\<forall>w. time w \<le> time (snd (en_observe e w))) \<and>
     (\<forall>w. \<not> isl (fst (en_op e (P_pause 200) w)) \<longrightarrow> time w < time (snd (en_op e (P_pause 200) w)))"

lemma lookAgain_time:
  assumes "clock_runs e time" "lookAgain e (w, t) = (Done ob, s')"
  shows "time w < time (fst s')"
proof -
  obtain r w1 where p: "en_op e (P_pause 200) w = (r, w1)" by fastforce
  obtain q w2 where o': "en_observe e w1 = (q, w2)" by fastforce
  have "fst s' = w2" "\<not> isl r" using assms(2)
    by (auto simp: lookAgain_def io_then_def io_bind_def perform_def observe_def io_call_def p o' split: sum.splits)
  moreover have "time w1 \<le> time w2" using assms(1) o' unfolding clock_runs_def by (metis snd_conv)
  moreover have "time w < time w1" using assms(1) p \<open>\<not> isl r\<close> unfolding clock_runs_def by (metis fst_conv snd_conv)
  ultimately show ?thesis by simp
qed

lemma lookAgain_returns: "fst (lookAgain e s) \<noteq> Forever"
proof -
  have "returns (lookAgain e)" unfolding lookAgain_def by (intro returns_rules)
  then show ?thesis unfolding returns_def by blast
qed

lemma poll_returns:
  assumes "clock_runs e time"
  shows "\<exists>r s'. poll e step a url deadline latest s = Some (r, s') \<and> r \<noteq> Forever"
proof (induction "nat (deadline - time (fst s))" arbitrary: latest s rule: less_induct)
  case less
  obtain t w where now: "en_now e (fst s) = (t, w)" by fastforce
  obtain x s' where look: "lookAgain e (w, snd s) = (x, s')" by (cases "lookAgain e (w, snd s)") auto
  have t: "t = time (fst s)" "time (fst s) \<le> time w" using assms now unfolding clock_runs_def by (metis fst_conv, metis snd_conv)
  have x: "x \<noteq> Forever" using lookAgain_returns [of e "(w, snd s)"] look by simp
  have "\<exists>r s''. poll e step a url deadline ob s' = Some (r, s'') \<and> r \<noteq> Forever" if "x = Done ob" "t < deadline" for ob
  proof (rule less.hyps)
    have "time w < time (fst s')" using lookAgain_time [OF assms] look that(1) by blast
    then show "nat (deadline - time (fst s')) < nat (deadline - time (fst s))" using t that(2) by simp
  qed
  then show ?case
    using x by (subst poll.simps) (auto simp: now look split: sum.splits outcome.splits)
qed

lemma returns_wait:
  assumes "clock_runs e time"
  shows "returns (waitForExpectedEvidence e step a)"
proof -
  have "returns (polling e step a url deadline latest)" for url deadline latest
    unfolding returns_def
  proof
    fix s
    obtain r s' where "poll e step a url deadline latest s = Some (r, s')" "r \<noteq> Forever" using poll_returns [OF assms] by blast
    then show "fst (polling e step a url deadline latest s) \<noteq> Forever" by (simp add: polling_def)
  qed
  then show ?thesis unfolding waitForExpectedEvidence_def Let_def by (intro returns_rules)
qed

lemma returns_checkpoint [returns_rules]: "returns (buildCheckpoint e step n k ob after shot)"
  unfolding buildCheckpoint_def by (intro returns_rules)

lemma returns_plan: "returns (planAction e opts conventional step k n history ob shot)"
  unfolding planAction_def by (auto intro!: returns_rules split: option.splits)

lemma returns_locate: "returns (locate e step ob shot av)"
  by (cases av) (auto simp: locate_def revalidateCoordinateClick_def Let_def intro!: returns_rules)

lemma returns_announce: "returns (\<lambda>s. (Done (), (fst s, snd s @ [Announced m j])))"
  by (simp add: returns_def)

lemma returns_attempt:
  assumes "clock_runs e time"
  shows "returns (attemptStep e opts conventional step k n rs)"
  unfolding attemptStep_def carryOut_def recordAttempt_def Let_def
  by (auto intro!: returns_rules returns_wait [OF assms] returns_plan returns_locate returns_announce split: prod.splits)

lemma returns_attempts: "clock_runs e time \<Longrightarrow> returns (attempts e opts conventional step k limit ns history rs)"
proof (induction ns arbitrary: history rs)
  case (Cons n ns)
  show ?case unfolding attempts.simps
    by (rule returns_bind [OF returns_attempt [OF Cons.prems]]) (auto simp: Let_def intro!: returns_rules Cons split: prod.splits)
qed (simp add: returns_rules)

lemma returns_step: "clock_runs e time \<Longrightarrow> returns (runStep e opts conventional m step rs)"
  unfolding runStep_def runOpenStep_def runUrlStep_def runPlannedStep_def Let_def
  by (auto intro!: returns_rules returns_wait returns_attempts split: prod.splits)

lemma returns_run: "clock_runs e time \<Longrightarrow> returns (runQaSteps e opts steps)"
proof -
  assume "clock_runs e time"
  then have "returns (runSteps e opts conventional m steps rs)" for conventional m rs
    by (induction steps arbitrary: rs) (auto intro!: returns_rules returns_step)
  then show ?thesis by (simp add: runQaSteps_def returns_def)
qed

end
