(* ===== verification/StepEvidence.thy ===== *)
theory StepEvidence
  imports StepTraces
begin

text \<open>
  What a returned run of the step runner shows: the evidence behind a step that passes, and how the results correspond to the steps.
\<close>

section \<open>What a returned attempt shows\<close>

text \<open>
  The evidence for a step that passes: its last action was executed, it is no refusal, and the contract of the step, evaluated on the observation
  that the attempt recorded, holds; after a click by coordinates it holds conclusively.
\<close>

definition justified :: "(jstr \<Rightarrow> rx option) \<Rightarrow> planned_step \<Rightarrow> step_item \<Rightarrow> bool" where
  "justified regexp step i \<longleftrightarrow>
     e_ok (i_execution i) \<and> sa_action (i_action i) \<noteq> A_fail \<and> sa_action (i_action i) \<noteq> A_blocked \<and>
     (\<exists>(ob :: observation) ev. i_after i = pick_after ob \<and>
        evaluateStepContract regexp (buildStepContract step) (pv_url (i_before i)) ob = Inr ev \<and> ev_ok ev \<and>
        (sa_fallback (i_action i) \<longrightarrow> ev_conclusive ev))"

lemma execute_ok:
  assumes "executeStrictAction e a s = (Done x, s')" "e_ok x"
  shows "sa_action a \<noteq> A_fail \<and> sa_action a \<noteq> A_blocked \<and> x_command x = commandOf a"
proof -
  obtain y s1 s2 where run: "runAction e a s1 = (Done y, s2)" and x: "x_command x = commandOf a"
    using assms by (fastforce simp: executeStrictAction_def io_done io_catch_Done failedExecution_def doneExecution_def)
  have "sa_action a \<noteq> A_fail \<and> sa_action a \<noteq> A_blocked" using run by (auto simp: runAction_def io_done)
  then show ?thesis using x by simp
qed

lemma commandOf_post: "commandOf a \<noteq> postCommand"
  by (cases "sa_action a") (simp_all add: commandOf_def postCommand_def)

lemma audit_ok:
  "v_ok (auditCoordinatePostValidation a v) \<longleftrightarrow> v_ok v \<and> (sa_fallback a \<longrightarrow> v_conclusive v)"
  by (auto simp: auditCoordinatePostValidation_def)

lemma expected_outcome:
  "validateExpectedOutcome e step earlier after = Inr v \<longleftrightarrow>
     (\<exists>ev. evaluateStepContract (en_regexp e) (buildStepContract step) (ob_url earlier) after = Inr ev \<and>
        v = \<lparr>v_ok = ev_ok ev, v_reason = ev_reason ev, v_conclusive = ev_conclusive ev\<rparr>)"
  by (auto simp: validateExpectedOutcome_def map_ok_Inr_iff)

lemma carryOut_ok:
  assumes "carryOut e step rf s = (Done ef, s')" "e_ok (ef_execution ef)"
  shows "sa_action (rf_action rf) \<noteq> A_fail \<and> sa_action (rf_action rf) \<noteq> A_blocked \<and> x_command (ef_execution ef) \<noteq> postCommand \<and>
    (\<exists>ev. evaluateStepContract (en_regexp e) (buildStepContract step) (ob_url (rf_observation rf)) (ef_after ef) = Inr ev \<and> ev_ok ev \<and>
       (sa_fallback (rf_action rf) \<longrightarrow> ev_conclusive ev))"
proof -
  let ?a = "rf_action rf"
  have "v_ok (rf_validation rf)" using assms by (auto simp: carryOut_def io_done failed_with_def Let_def split: if_splits)
  then obtain x s1 where x: "executeStrictAction e ?a s = (Done x, s1)" "e_ok x"
    and rest: "e_ok x \<longrightarrow> (\<exists>v. validateExpectedOutcome e step (rf_observation rf) (ef_after ef) = Inr v \<and>
      v_ok (auditCoordinatePostValidation ?a v) \<and> ef_execution ef = x)"
    using assms by (fastforce simp: carryOut_def io_done failed_with_def Let_def split: if_splits)
  then obtain v where "validateExpectedOutcome e step (rf_observation rf) (ef_after ef) = Inr v" "v_ok (auditCoordinatePostValidation ?a v)"
      "ef_execution ef = x" by blast
  then show ?thesis using execute_ok [OF x] commandOf_post [of ?a] by (auto simp: expected_outcome audit_ok)
qed

lemma recordAttempt_Done:
  assumes "recordAttempt e step k n reply rf ef s = (Done i, s')"
  shows "i_step i = q_number step \<and> i_attempt i = n \<and> i_before i = pick_before (rf_observation rf) \<and> i_after i = pick_after (ef_after ef) \<and>
    i_action i = rf_action rf \<and> i_execution i = ef_execution ef \<and> i_validation i = rf_validation rf \<and> i_post i = ef_post ef \<and> i_contract i = k"
  using assms by (auto simp: recordAttempt_def io_done Let_def)

lemma pick_url [simp]: "pv_url (pick_before ob) = ob_url ob"
  by (simp add: pick_before_def)

text \<open>The items and the accumulated run after one attempt.\<close>

lemma attempt_Done:
  assumes "attemptStep e opts conventional step k n rs s = (Done (rs', i, ef), s')"
  shows "rs_results rs' = rs_results rs \<and> rs_errors rs' = rs_errors rs \<and> i_attempt i = n \<and>
    (e_ok (i_execution i) \<longrightarrow> justified (en_regexp e) step i \<and> x_command (i_execution i) \<noteq> postCommand)"
proof -
  obtain ob rf reply s1 s2 s3 where c: "carryOut e step rf s1 = (Done ef, s2)" and r: "recordAttempt e step k n reply rf ef s2 = (Done i, s3)"
    and rs: "rs' = add_item i (visit (ob_url (ob :: observation)) rs)"
    using assms by (auto simp: attemptStep_def io_done split: prod.splits)
  show ?thesis
    using carryOut_ok [OF c] recordAttempt_Done [OF r] by (auto simp: rs add_item_def visit_def justified_def)
qed

lemma finalize_simps [simp]:
  "u_number (finalizeStepResult step k i h) = q_number step" "u_history (finalizeStepResult step k i h) = h"
  "u_status (finalizeStepResult step k i h) = finalStatus i"
  by (simp_all add: finalizeStepResult_def Let_def)

lemma finalStatus_PASO: "finalStatus i = PASO \<Longrightarrow> e_ok (i_execution i)"
  by (auto simp: finalStatus_def statusFromAction_def split: if_splits)

lemma justified_PASO: "justified regexp step i \<Longrightarrow> x_command (i_execution i) \<noteq> postCommand \<Longrightarrow> finalStatus i = PASO"
  by (auto simp: justified_def finalStatus_def statusFromAction_def)

text \<open>What a step adds to the run: a result, with an error exactly when it does not pass, and the evidence when it does.\<close>

definition passes :: "(jstr \<Rightarrow> rx option) \<Rightarrow> planned_step \<Rightarrow> run_result \<Rightarrow> bool" where
  "passes regexp step r \<longleftrightarrow> isBrowserOpenStep step \<or> (u_history r \<noteq> [] \<and> justified regexp step (last (u_history r)))"

definition adds :: "(jstr \<Rightarrow> rx option) \<Rightarrow> planned_step \<Rightarrow> run_state \<Rightarrow> run_state \<Rightarrow> bool" where
  "adds regexp step rs rs' \<longleftrightarrow>
     (\<exists>r. rs_results rs' = rs_results rs @ [r] \<and> u_number r = q_number step \<and>
        (if u_status r = PASO then rs_errors rs' = rs_errors rs \<and> passes regexp step r else \<exists>m. rs_errors rs' = rs_errors rs @ [m]))"

definition adds_nothing :: "run_state \<Rightarrow> run_state \<Rightarrow> bool" where
  "adds_nothing rs rs' \<longleftrightarrow> rs_results rs' = rs_results rs \<and> rs_errors rs' = rs_errors rs"

lemma attempts_Done:
  assumes "attempts e opts conventional step k limit ns history rs s = (Done (rs', r), s')"
  shows "rs_results rs' = rs_results rs \<and>
    (case r of
       None \<Rightarrow> rs_errors rs' = rs_errors rs \<and> list_all (\<lambda>n. of_nat n \<noteq> limit) ns
     | Some r' \<Rightarrow> u_number r' = q_number step \<and>
         (if u_status r' = PASO then rs_errors rs' = rs_errors rs \<and> u_history r' \<noteq> [] \<and> justified (en_regexp e) step (last (u_history r'))
          else \<exists>m. rs_errors rs' = rs_errors rs @ [m]))"
  using assms
proof (induction ns arbitrary: history rs s)
  case Nil
  then show ?case by (auto simp: io_done)
next
  case (Cons n ns)
  from Cons.prems obtain rs1 i ef s1 where a: "attemptStep e opts conventional step k n rs s = (Done (rs1, i, ef), s1)"
    and rest: "(if concludes step i ef \<or> of_nat n = limit then
         (let r = finalizeStepResult step k i (history @ [i]) in
          io_return (if e_ok (i_execution i) then rs1 else add_error (q_number step) (finalReason (q_number step) i) rs1, Some r))
       else attempts e opts conventional step k limit ns (history @ [i]) rs1) s1 = (Done (rs', r), s')"
    by (auto simp: io_done split: prod.splits)
  note facts = attempt_Done [OF a]
  show ?case
  proof (cases "concludes step i ef \<or> of_nat n = limit")
    case True
    then have rs': "rs' = (if e_ok (i_execution i) then rs1 else add_error (q_number step) (finalReason (q_number step) i) rs1)"
      and r: "r = Some (finalizeStepResult step k i (history @ [i]))" using rest by (simp_all add: io_done Let_def)
    have "finalStatus i = PASO \<longleftrightarrow> e_ok (i_execution i)" using facts justified_PASO finalStatus_PASO by blast
    then show ?thesis using facts by (auto simp: rs' r add_error_def)
  next
    case False
    then show ?thesis using Cons.IH [of "history @ [i]" rs1 s1] rest facts by (auto split: option.splits)
  qed
qed

lemma runPlanned_Done:
  assumes "runPlannedStep e opts conventional m step k rs s = (Done rs', s')"
  shows "adds (en_regexp e) step rs rs' \<or> (adds_nothing rs rs' \<and> list_all (\<lambda>n. of_nat n \<noteq> stepLimit m step) (attemptNumbers (stepLimit m step)))"
proof -
  from assms obtain rs1 r s1 where a: "attempts e opts conventional step k (stepLimit m step) (attemptNumbers (stepLimit m step)) [] rs s = (Done (rs1, r), s1)"
    and rs': "rs' = (case r of Some r' \<Rightarrow> add_result r' rs1 | None \<Rightarrow> rs1)"
    by (fastforce simp: runPlannedStep_def io_done Let_def)
  note facts = attempts_Done [OF a]
  show ?thesis
    using facts by (cases r) (auto simp: rs' adds_def adds_nothing_def passes_def add_result_def split: if_splits)
qed

lemma runUrl_Done:
  assumes "runUrlStep e step k rs s = (Done rs', s')"
  shows "adds (en_regexp e) step rs rs'"
proof -
  from assms obtain ob x after post shot t0 t cp s1 s2 s3 where
    x: "executeStrictAction e (navigateAction step) s1 = (Done x, s2)"
    and post: "(if e_ok x then io_res (validateExpectedOutcome e step (ob :: observation) after) else io_return (refuse (e_message x))) s3 = (Done post, s3)"
    and rs': "rs' = (let i = \<lparr>i_step = q_number step, i_attempt = 1, i_before = pick_before ob, i_after = pick_after after, i_action = navigateAction step,
            i_execution = x, i_duration = Fin (of_int (t - t0)), i_screenshot = shot, i_metrics = JUndef,
            i_validation = inconclusive ''URL detectada en datos del paso'', i_post = post, i_raw = JUndef, i_contract = k, i_checkpoint = cp\<rparr>;
            r = navigationResult step i; rs1 = add_item i (visit (ob_url after) rs) in
        add_result r (if u_status r = PASO then rs1 else add_error (q_number step) (u_observations r) rs1))"
    unfolding runUrlStep_def Let_def by (fastforce simp: io_done split: if_splits)
  have nav: "sa_action (navigateAction step) = A_navigate" "\<not> sa_fallback (navigateAction step)" by (simp_all add: navigateAction_def rule_action_def)
  have ok: "navigationStatus x post = PASO \<Longrightarrow> e_ok x \<and> v_ok post" by (auto simp: navigationStatus_def split: if_splits)
  then have "navigationStatus x post = PASO \<Longrightarrow> \<exists>ev. evaluateStepContract (en_regexp e) (buildStepContract step) (ob_url ob) after = Inr ev \<and> ev_ok ev"
    using post by (auto simp: io_done expected_outcome)
  then show ?thesis using ok nav
    by (auto simp: rs' adds_def passes_def justified_def navigationResult_def add_result_def add_item_def visit_def add_error_def Let_def)
qed

lemma runOpen_Done:
  assumes "runOpenStep e step k rs s = (Done rs', s')" "isBrowserOpenStep step"
  shows "adds (en_regexp e) step rs rs'"
  using assms by (auto simp: runOpenStep_def io_done adds_def passes_def add_result_def visit_def add_item_def Let_def)

lemma whole_limit: "(1 :: rat) \<le> of_nat n \<Longrightarrow> \<not> list_all (\<lambda>j. of_nat j \<noteq> (of_nat n :: rat)) (attemptNumbers (of_nat n))"
  by (auto simp: attemptNumbers_def list_all_iff intro!: bexI [of _ n])

lemma stepLimit_whole: "stepLimit (of_nat n) step = of_nat (if isCompoundFlowStep step then max n 6 else n)"
  by (simp add: stepLimit_def max_def)

lemma step_Done:
  assumes "runStep e opts conventional m source rs s = (Done rs', s')"
  shows "adds (en_regexp e) (effectiveStep (ro_context opts) source) rs rs' \<or>
    (adds_nothing rs rs' \<and> (\<forall>n. m = of_nat n \<longrightarrow> n = 0))"
proof -
  let ?step = "effectiveStep (ro_context opts) source"
  have whole: "n = 0" if "list_all (\<lambda>j. of_nat j \<noteq> stepLimit m ?step) (attemptNumbers (stepLimit m ?step))" "m = of_nat n" for n
  proof (rule ccontr)
    let ?n = "if isCompoundFlowStep ?step then max n 6 else n"
    assume "n \<noteq> 0"
    then have "(1 :: rat) \<le> of_nat ?n" by auto
    then show False using whole_limit that stepLimit_whole by metis
  qed
  consider "isBrowserOpenStep ?step" "runOpenStep e ?step (buildStepContract ?step) rs s = (Done rs', s')"
    | "runUrlStep e ?step (buildStepContract ?step) rs s = (Done rs', s')"
    | "runPlannedStep e opts conventional m ?step (buildStepContract ?step) rs s = (Done rs', s')"
    using assms by (cases "isBrowserOpenStep ?step"; cases "isUrlNavigationStep ?step") (simp_all add: runStep_def Let_def)
  then show ?thesis
  proof cases
    case 3
    then show ?thesis using runPlanned_Done [OF 3] whole by blast
  qed (use runOpen_Done runUrl_Done in blast)+
qed

section \<open>What a returned run shows\<close>

definition step_ok :: "(jstr \<Rightarrow> rx option) \<Rightarrow> jval \<Rightarrow> planned_step \<Rightarrow> run_result \<Rightarrow> bool" where
  "step_ok regexp context' source r \<longleftrightarrow>
     (let step = effectiveStep context' source in u_number r = q_number source \<and> (u_status r = PASO \<longrightarrow> passes regexp step r))"

lemma effective_number [simp]: "q_number (effectiveStep c source) = q_number source"
  by (simp add: effectiveStep_def Let_def)

lemma adds_stopped:
  "adds regexp (effectiveStep c source) rs rs' \<Longrightarrow>
     \<exists>r. rs_results rs' = rs_results rs @ [r] \<and> step_ok regexp c source r \<and> (stopped rs rs' \<longleftrightarrow> u_status r \<noteq> PASO) \<and>
       (if u_status r = PASO then rs_errors rs' = rs_errors rs else rs_errors rs' \<noteq> [])"
proof -
  assume "adds regexp (effectiveStep c source) rs rs'"
  then obtain r where r: "rs_results rs' = rs_results rs @ [r]" "u_number r = q_number source"
      "if u_status r = PASO then rs_errors rs' = rs_errors rs \<and> passes regexp (effectiveStep c source) r else \<exists>m. rs_errors rs' = rs_errors rs @ [m]"
    by (auto simp: adds_def simp del: if_split)
  then have "step_ok regexp c source r" by (simp add: step_ok_def Let_def split: if_split_asm)
  moreover have "stopped rs rs' \<longleftrightarrow> u_status r \<noteq> PASO" by (simp add: stopped_def r(1))
  ultimately show ?thesis using r by (intro exI [of _ r]) (cases "u_status r = PASO"; auto)
qed

lemma steps_justified:
  assumes "runSteps e opts conventional m steps rs s = (Done rs', s')" "r \<in> set (rs_results rs')"
  shows "r \<in> set (rs_results rs) \<or> (\<exists>source \<in> set steps. step_ok (en_regexp e) (ro_context opts) source r)"
  using assms
proof (induction steps arbitrary: rs s)
  case (Cons source steps)
  then obtain rs1 s1 where one: "runStep e opts conventional m source rs s = (Done rs1, s1)"
    and rest: "(if stopped rs rs1 then io_return rs1 else runSteps e opts conventional m steps rs1) s1 = (Done rs', s')"
    by (auto simp: io_done)
  have later: "r \<in> set (rs_results rs1) \<or> (\<exists>source \<in> set steps. step_ok (en_regexp e) (ro_context opts) source r)"
    using rest Cons.IH [of rs1 s1] Cons.prems(2) by (auto simp: io_done split: if_splits)
  have "r \<in> set (rs_results rs) \<or> step_ok (en_regexp e) (ro_context opts) source r" if "r \<in> set (rs_results rs1)"
    using step_Done [OF one] that by (auto simp: adds_nothing_def dest!: adds_stopped)
  then show ?case using later by auto
qed (auto simp: io_done)

text \<open>With a whole number of attempts the results belong to the first steps, in their order, and the run stops at the first that does not pass.\<close>

definition prefix_run :: "(jstr \<Rightarrow> rx option) \<Rightarrow> jval \<Rightarrow> planned_step list \<Rightarrow> run_result list \<Rightarrow> jstr list \<Rightarrow> bool" where
  "prefix_run regexp c steps results errors \<longleftrightarrow>
     length results \<le> length steps \<and> list_all2 (step_ok regexp c) (take (length results) steps) results \<and>
     list_all (\<lambda>r. u_status r = PASO) (butlast results) \<and>
     (errors = [] \<longleftrightarrow> length results = length steps \<and> list_all (\<lambda>r. u_status r = PASO) results)"

lemma steps_prefix:
  assumes "runSteps e opts conventional (of_nat n) steps rs s = (Done rs', s')" "0 < n" "rs_errors rs = []"
  shows "\<exists>new. rs_results rs' = rs_results rs @ new \<and> prefix_run (en_regexp e) (ro_context opts) steps new (rs_errors rs')"
  using assms
proof (induction steps arbitrary: rs s)
  case Nil
  then show ?case by (auto simp: io_done prefix_run_def)
next
  case (Cons source steps)
  then obtain rs1 s1 where one: "runStep e opts conventional (of_nat n) source rs s = (Done rs1, s1)"
    and rest: "(if stopped rs rs1 then io_return rs1 else runSteps e opts conventional (of_nat n) steps rs1) s1 = (Done rs', s')"
    by (auto simp: io_done)
  from step_Done [OF one] \<open>0 < n\<close> have "adds (en_regexp e) (effectiveStep (ro_context opts) source) rs rs1" by auto
  then obtain r where r: "rs_results rs1 = rs_results rs @ [r]" "step_ok (en_regexp e) (ro_context opts) source r" "stopped rs rs1 \<longleftrightarrow> u_status r \<noteq> PASO"
    "if u_status r = PASO then rs_errors rs1 = rs_errors rs else rs_errors rs1 \<noteq> []" using adds_stopped by blast
  show ?case
  proof (cases "u_status r = PASO")
    case True
    then have go: "runSteps e opts conventional (of_nat n) steps rs1 s1 = (Done rs', s')" using rest r(3) by simp
    obtain new where new: "rs_results rs' = rs_results rs1 @ new" "prefix_run (en_regexp e) (ro_context opts) steps new (rs_errors rs')"
      using Cons.IH [OF go \<open>0 < n\<close>] r(4) True Cons.prems(3) by auto
    have "prefix_run (en_regexp e) (ro_context opts) (source # steps) (r # new) (rs_errors rs')"
      using new(2) r(2) True by (auto simp: prefix_run_def)
    then show ?thesis using new(1) r(1) by (intro exI [of _ "r # new"]) simp
  next
    case False
    then have "rs' = rs1" using rest r(3) by (simp add: io_done)
    then show ?thesis using r False by (intro exI [of _ "[r]"]) (auto simp: prefix_run_def)
  qed
qed

end
