(* ===== verification/StepRunnerProofs.thy ===== *)
theory StepRunnerProofs
  imports StepEvidence StepProofs
begin

text \<open>
  Properties of the step runner, with a small world in which they can be observed, and three ways in which a run does not do what its steps say.
\<close>

section \<open>A small world\<close>

definition samplePage :: observation where
  "samplePage = \<lparr>ob_url = ''u'', ob_title = [], ob_ready = ''complete'', ob_visible_text = [''Ok''], ob_body = ''Ok'', ob_elements = [], ob_loading = [], ob_viewport = None\<rparr>"

definition sampleEnv :: "jstr \<Rightarrow> int env" where
  "sampleEnv answer =
     \<lparr>en_op = (\<lambda>p t. (Inr JUndef, t + 1)), en_observe = (\<lambda>t. (Inr samplePage, t)), en_screenshot = (\<lambda>t. (Inr ''img'', t)),
      en_url = (\<lambda>t. ''u''), en_now = (\<lambda>t. (t, t)),
      en_plan = (\<lambda>q t. (Inr \<lparr>pr_data = JObj [(''action'', JStr answer), (''reason'', JStr ''ok''), (''confidence'', num 80)],
        pr_metrics = JUndef, pr_raw = JUndef\<rparr>, t)),
      en_report = (\<lambda>ok v t. (Inr (), t)), en_select_all = ''Control+A'', en_stack = (\<lambda>_. []), en_regexp = (\<lambda>_. None), en_origin = (\<lambda>_. None)\<rparr>"

definition plainStep :: "jstr \<Rightarrow> jstr \<Rightarrow> planned_step" where
  "plainStep a x = \<lparr>q_number = Fin 1, q_action = a, q_data = [], q_expected = x, q_plan = None\<rparr>"

definition quotedOk :: jstr where
  "quotedOk = [CHR 34, CHR ''O'', CHR ''k'', CHR 34]"

definition sampleOptions :: "jval list \<Rightarrow> jval \<Rightarrow> run_options" where
  "sampleOptions workflow context' = \<lparr>ro_task = [], ro_max = Some 2, ro_workflow = workflow, ro_context = context'\<rparr>"

lemma env_simps [simp]:
  "en_op (sampleEnv a) p t = (Inr JUndef, t + 1)" "en_observe (sampleEnv a) t = (Inr samplePage, t)" "en_screenshot (sampleEnv a) t = (Inr ''img'', t)"
  "en_url (sampleEnv a) t = ''u''" "en_now (sampleEnv a) t = (t, t)"
  "en_plan (sampleEnv a) q t = (Inr \<lparr>pr_data = JObj [(''action'', JStr a), (''reason'', JStr ''ok''), (''confidence'', num 80)],
        pr_metrics = JUndef, pr_raw = JUndef\<rparr>, t)"
  "en_report (sampleEnv a) ok v t = (Inr (), t)" "en_regexp (sampleEnv a) = (\<lambda>_. None)" "en_origin (sampleEnv a) = (\<lambda>_. None)" "en_stack (sampleEnv a) = (\<lambda>_. [])"
  by (simp_all add: sampleEnv_def)

lemma call_simps [simp]:
  "perform (sampleEnv a) p (t, tr) = (Done JUndef, (t + 1, tr @ [Performed p]))"
  "observe (sampleEnv a) (t, tr) = (Done samplePage, (t, tr @ [Observed samplePage]))"
  "screenshot (sampleEnv a) (t, tr) = (Done ''img'', (t, tr))"
  "now (sampleEnv a) (t, tr) = (Done t, (t, tr))"
  "page_url (sampleEnv a) (t, tr) = (Done ''u'', (t, tr))"
  "ask (sampleEnv a) q (t, tr) = (Done \<lparr>pr_data = JObj [(''action'', JStr a), (''reason'', JStr ''ok''), (''confidence'', num 80)],
        pr_metrics = JUndef, pr_raw = JUndef\<rparr>, (t, tr @ [Asked q]))"
  "report (sampleEnv a) ok v (t, tr) = (Done (), (t, tr @ [Reported ok]))"
  "emit ev (t, tr) = (Done (), (t, tr @ [Emitted ev]))"
  by (simp_all add: perform_def observe_def screenshot_def now_def page_url_def ask_def report_def emit_def io_call_def)

lemma io_simps [simp]:
  "io_return x s = (Done x, s)" "io_throw err s = (Raised err, s)" "io_bind m f s = (case m s of (Done x, s') \<Rightarrow> f x s' | (Raised err, s') \<Rightarrow> (Raised err, s') | (Forever, s') \<Rightarrow> (Forever, s'))"
  "io_then m n s = (case m s of (Done x, s') \<Rightarrow> n s' | (Raised err, s') \<Rightarrow> (Raised err, s') | (Forever, s') \<Rightarrow> (Forever, s'))"
  "io_catch m h s = (case m s of (Raised err, s') \<Rightarrow> h err s' | r \<Rightarrow> r)"
  by (simp_all add: io_return_def io_throw_def io_bind_def io_then_def io_catch_def)

lemma finish_action: "normalizeAction (JObj [(''action'', JStr ''finish''), (''reason'', JStr ''ok''), (''confidence'', num 80)]) n =
   \<lparr>sa_action = A_finish, sa_target = JUndef, sa_x = None, sa_y = None, sa_value = JUndef, sa_fields = None, sa_submit = False, sa_reason = ''ok'',
    sa_expected = JUndef, sa_confidence = Fin 80, sa_step = n, sa_source = None, sa_fallback = False\<rparr>"
  by code_simp

lemma finish_valid: "sa_action a = A_finish \<Longrightarrow> num_eq (sa_step a) n \<Longrightarrow> validateAction a ob n = accepted"
  by (simp add: validateAction_def actionRefusal_def ACTIONS_WITH_TARGET_def)

lemma click_action: "normalizeAction (JObj [(''action'', JStr ''click''), (''reason'', JStr ''ok''), (''confidence'', num 80)]) n =
   \<lparr>sa_action = A_click, sa_target = JUndef, sa_x = None, sa_y = None, sa_value = JUndef, sa_fields = None, sa_submit = False, sa_reason = ''ok'',
    sa_expected = JUndef, sa_confidence = Fin 80, sa_step = n, sa_source = None, sa_fallback = False\<rparr>"
  by code_simp

lemma click_refused: "sa_action a = A_click \<Longrightarrow> sa_target a = JUndef \<Longrightarrow> \<not> v_ok (validateAction a ob n)"
  by (auto simp: validate_ok actionRefusal_def first_rule_None ACTIONS_WITH_TARGET_def targetRefusal_def)

lemma sample_attempt:
  assumes "chosenByRules (sampleEnv ''finish'') conventional step samplePage = None"
    and "evaluateStepContract (\<lambda>_. None) (buildStepContract step) ''u'' samplePage = Inr ev" "ev_ok ev"
    and "num_eq (q_number step) (q_number step)"
  shows "\<exists>rs' i ef s'. attemptStep (sampleEnv ''finish'') opts conventional step (buildStepContract step) n rs (t, tr) = (Done (rs', i, ef), s') \<and>
    e_ok (i_execution i) \<and> finalStatus i = PASO \<and> rs_results rs' = rs_results rs \<and> rs_errors rs' = rs_errors rs"
proof -
  have [simp]: "ob_url samplePage = ''u''" by (simp add: samplePage_def)
  show ?thesis
  using assms
  by (simp add: attemptStep_def planAction_def proposedAction_def judge_def finish_action finish_valid accepted_def isActionableBlocked_def locate_def
    carryOut_def executeStrictAction_def runAction_def ignoring_def waitForExpectedEvidence_def waits_def polling_def poll.simps
    io_res_def validateExpectedOutcome_def auditCoordinatePostValidation_def recordAttempt_def buildCheckpoint_def Let_def
    finalStatus_def statusFromAction_def doneExecution_def commandOf_def postCommand_def add_item_def visit_def)
qed

lemma sample_refusal:
  assumes "chosenByRules (sampleEnv ''click'') conventional step samplePage = None"
    and "evaluateStepContract (\<lambda>_. None) (buildStepContract step) ''u'' samplePage = Inr ev"
  shows "\<exists>rs' i ef s'. attemptStep (sampleEnv ''click'') opts conventional step (buildStepContract step) n rs (t, tr) = (Done (rs', i, ef), s') \<and>
    \<not> concludes step i ef \<and> \<not> e_ok (i_execution i) \<and> rs_results rs' = rs_results rs \<and> rs_errors rs' = rs_errors rs"
proof -
  have [simp]: "ob_url samplePage = ''u''" by (simp add: samplePage_def)
  show ?thesis
    using assms
    by (simp add: attemptStep_def planAction_def proposedAction_def judge_def click_action click_refused locate_def shouldUseCoordinateClickFallback_def
      carryOut_def io_res_def recordAttempt_def buildCheckpoint_def Let_def failed_with_def conclusively_def concludes_def postCommand_def
      add_item_def visit_def)
qed

definition verStep :: planned_step where
  "verStep = plainStep ''Ver'' quotedOk"

lemma verStep_chosen: "chosenByRules (sampleEnv a) False verStep samplePage = None"
proof -
  have "inferStructuredAction verStep samplePage = None" by code_simp
  moreover have "deterministicRecoveryAction (\<lambda>_. None) verStep samplePage = None" by code_simp
  ultimately show ?thesis by (simp add: chosenByRules_def or_else_def guarded_def)
qed

lemma verStep_kind: "\<not> isBrowserOpenStep verStep" "\<not> isUrlNavigationStep verStep" "\<not> isCompoundFlowStep verStep" "num_eq (q_number verStep) (q_number verStep)"
  by code_simp+

lemma no_context: "sx_normalized (interpretStepData [] (JObj []) ''step.data'') = []"
  by code_simp

lemma verStep_effective [simp]: "effectiveStep (JObj []) verStep = verStep"
  using no_context by (simp add: effectiveStep_def verStep_def plainStep_def)

lemma verStep_contract: "\<exists>ev. evaluateStepContract (\<lambda>_. None) (buildStepContract verStep) ''u'' samplePage = Inr ev \<and> ev_ok ev"
proof -
  have "case evaluateStepContract (\<lambda>_. None) (buildStepContract verStep) ''u'' samplePage of Inr ev \<Rightarrow> ev_ok ev | Inl _ \<Rightarrow> False" by code_simp
  then show ?thesis by (auto split: sum.splits)
qed

lemma sample_limit: "attemptLimit (sampleOptions [] c) = 2"
  by (simp add: attemptLimit_def sampleOptions_def retryLimitFromWorkflow_def getWorkflowAgent_def)

lemma sample_pass:
  "\<exists>rs s'. runQaSteps (sampleEnv ''finish'') (sampleOptions [] (JObj [])) [verStep] (0, []) = (Done rs, s') \<and>
     map u_status (rs_results rs) = [PASO] \<and> rs_errors rs = []"
proof -
  let ?e = "sampleEnv ''finish''" and ?o = "sampleOptions [] (JObj [])" and ?k = "buildStepContract verStep"
  obtain ev where ev: "evaluateStepContract (\<lambda>_. None) ?k ''u'' samplePage = Inr ev" "ev_ok ev" using verStep_contract by blast
  obtain rs' i ef s' where a: "attemptStep ?e ?o False verStep ?k 1 emptyRun (0, []) = (Done (rs', i, ef), s')" "e_ok (i_execution i)"
      "finalStatus i = PASO" "rs_results rs' = []" "rs_errors rs' = []"
    using sample_attempt [OF verStep_chosen ev verStep_kind(4), of ?o 1 emptyRun 0 "[]"] by (auto simp: emptyRun_def)
  have "concludes verStep i ef" using a(2) verStep_kind(3) by (simp add: concludes_def unfinished_def)
  then have "attempts ?e ?o False verStep ?k 2 (attemptNumbers 2) [] emptyRun (0, []) = (Done (rs', Some (finalizeStepResult verStep ?k i [i])), s')"
    using a(1,2) by (simp add: attemptNumbers_def upt_rec Let_def)
  then have "runStep ?e ?o False 2 verStep emptyRun (0, []) = (Done (add_result (finalizeStepResult verStep ?k i [i]) rs'), s')"
    using verStep_kind by (simp add: runStep_def runPlannedStep_def Let_def stepLimit_def sampleOptions_def)
  then show ?thesis
    using a sample_limit by (simp add: runQaSteps_def sampleOptions_def conventionalUiInferenceEnabled_def add_result_def)
qed

section \<open>Blocked answers\<close>

lemma guarded_Some: "guarded b x = Some y \<longleftrightarrow> b \<and> x = Some y"
  by (simp add: guarded_def)

lemma or_else_Some: "or_else x y = Some z \<longleftrightarrow> x = Some z \<or> (x = None \<and> y = Some z)"
  by (cases x) (simp_all add: or_else_def)

lemma act_of_builders [simp]:
  "sa_action (rule_action c step name reason) = name" "sa_action (click_on c step reason el) = A_click"
  "sa_action (type_into c step reason v el) = A_type" "sa_action (fill_with c step reason submit fs) = A_fill_form"
  by (simp_all add: rule_action_def click_on_def type_into_def fill_with_def)

definition acting :: "strict_action option \<Rightarrow> bool" where
  "acting x \<longleftrightarrow> (\<forall>a. x = Some a \<longrightarrow> sa_action a \<noteq> A_blocked)"

lemma acting_first: "list_all acting rs \<Longrightarrow> acting (first_rule rs)"
  by (induction rs rule: first_rule.induct) (auto simp: acting_def split: option.splits)

declare first_rule.simps [simp del]

lemma acting_simps [simp]:
  "acting None" "acting (Some a) \<longleftrightarrow> sa_action a \<noteq> A_blocked" "acting (guarded b x) \<longleftrightarrow> (b \<longrightarrow> acting x)"
  "acting (map_option (click_on c step reason) y)" "acting (map_option (type_into c step reason v) y)"
  by (auto simp: acting_def guarded_def)

lemma acting_or: "acting x \<Longrightarrow> acting y \<Longrightarrow> acting (or_else x y)"
  by (cases x) (simp_all add: or_else_def)

lemma acting_press: "acting (press step ob terms b reason)"
  by (simp add: press_def)

lemma acting_if: "acting x \<Longrightarrow> acting y \<Longrightarrow> acting (if b then x else y)"
  by simp

lemma acting_three:
  "(\<And>a b c. acting (f a b c)) \<Longrightarrow> acting (case (x, y, z) of (Some a, Some b, Some c) \<Rightarrow> f a b c | _ \<Rightarrow> None)"
  by (cases x; cases y; cases z) simp_all

lemma acting_checkout: "acting (checkoutFields step ob values submit r1 r2)"
proof -
  have fill: "acting (Some (fill_with 99 step r submit fs))" for r fs by simp
  show ?thesis
    unfolding checkoutFields_def Let_def by (rule acting_three) (rule acting_if [OF fill acting_press])
qed

lemma acting_map: "(\<And>el. sa_action (g el) \<noteq> A_blocked) \<Longrightarrow> acting (map_option g x)"
  by (cases x) simp_all

lemma acting_bind: "(\<And>v. acting (f v)) \<Longrightarrow> acting (Option.bind x f)"
  by (cases x) simp_all

lemma structured_acts: "acting (inferStructuredAction step ob)"
proof -
  have "acting (credentialsRule step ob)" by (auto simp: credentialsRule_def split: option.splits)
  moreover have "acting (userRule step ob)" "acting (passwordRule step ob)"
    by (simp_all add: userRule_def passwordRule_def acting_bind)
  moreover have "acting (loginRule step ob)" "acting (formFieldsRule step ob)" "acting (emptyTitleRule step ob)"
    by (simp_all add: loginRule_def formFieldsRule_def emptyTitleRule_def Let_def)
  moreover have "acting (inputRule step ob)"
    by (cases "or_else (filter_key step) (data_first (parseStepData (q_data step)) [''search_term'', ''termino'', ''query'', ''busqueda''])")
      (simp_all add: inputRule_def Let_def acting_map)
  moreover have "acting (confirmRule step ob)" "acting (hintRule step ob)"
    by (simp_all add: confirmRule_def hintRule_def Let_def acting_map)
  ultimately show ?thesis unfolding inferStructuredAction_def by (intro acting_first) simp
qed

lemma conventional_acts: "acting (inferConventionalUiAction step ob)"
proof -
  have "acting (purchaseRule step ob)" by (auto simp: purchaseRule_def acting_press acting_checkout intro!: acting_first)
  moreover have "acting (replaceRule step ob)" by (simp add: replaceRule_def acting_map)
  moreover have "acting (cartRule step ob)" by (auto simp: cartRule_def Let_def acting_press intro!: acting_first)
  moreover have "acting (controlsRule step ob)"
    unfolding controlsRule_def by (rule acting_first) (auto simp: list_all_iff semanticControl_def acting_press)
  moreover have "acting (fieldRule step ob)" by (auto simp: fieldRule_def Let_def acting_press intro!: acting_or split: option.splits)
  moreover have "acting (compactRule step ob)" by (auto simp: compactRule_def split: list.splits option.splits)
  moreover have "acting (clickRule step ob)" by (auto simp: clickRule_def Let_def intro!: acting_first)
  moreover have "acting (selectRule step ob)" by (simp add: selectRule_def acting_map)
  moreover have "acting (assertRule step ob)" by (auto simp: assertRule_def split: option.splits)
  ultimately show ?thesis
    unfolding inferConventionalUiAction_def
    by (intro acting_first)
      (auto simp: detailRule_def continueRule_def checkoutRule_def finishRule_def typingRule_def acting_press acting_checkout intro!: acting_first)
qed

lemma recovery_acts: "acting (deterministicRecoveryAction origin step ob)"
  unfolding deterministicRecoveryAction_def
  by (rule acting_first)
    (auto simp: claimRule_def recoverCredentials_def recoverSearch_def recoverResult_def recoverStability_def recoverRecord_def recoverValidation_def Let_def)

lemma chosen_acts: "acting (chosenByRules e conventional step ob)"
  unfolding chosenByRules_def by (intro acting_or structured_acts recovery_acts) (simp add: conventional_acts)

lemma normalized_name: "sa_action (normalizeAction (action_value a) n) = sa_action a"
  by (cases "sa_action a")
    (simp_all add: normalizeAction_def action_value_def Let_def obj_get_def js_or_def ALLOWED_ACTIONS_def trim_def is_space_def code_unit_def)

lemma proposed_name: "sa_action (proposedAction step source raw) = sa_action (normalizeAction raw (q_number step))"
  by (simp add: proposedAction_def Let_def)

lemma judge_fst: "sa_action a \<noteq> A_blocked \<or> deterministicRecoveryAction (en_origin e) step ob = None \<Longrightarrow> fst (judge e step ob a) = a"
  by (auto simp: judge_def Let_def isActionableBlocked_def)

lemma plan_cases:
  assumes "planAction e opts conventional step k n history ob shot s = (Done (source, reply), s')"
  shows "sa_action (proposedAction step source (pr_data reply)) \<noteq> A_blocked \<or> deterministicRecoveryAction (en_origin e) step ob = None"
proof (cases "chosenByRules e conventional step ob")
  case None
  then show ?thesis by (auto simp: chosenByRules_def or_else_def split: option.splits)
next
  case (Some a)
  then have "pr_data reply = action_value a" using assms by (auto simp: planAction_def)
  then show ?thesis using Some chosen_acts [of e conventional step ob] by (simp add: proposed_name normalized_name)
qed

section \<open>Steps that are not run\<close>

lemma evaluation_returns:
  assumes "list_all (\<lambda>a. a_type a \<noteq> Element_count) (k_assertions k)"
  shows "\<exists>ev. evaluateStepContract regexp k url ob = Inr ev"
proof -
  have "\<not> isl (evaluateStepContract regexp k url ob)"
    using assms by (auto simp: evaluation_throws bad_count_def list_ex_iff list_all_iff)
  then show ?thesis by (simp add: not_isl_iff)
qed

definition knowledgeStep :: planned_step where
  "knowledgeStep = plainStep ''Abrir Knowledge Base'' quotedOk"

lemma knowledge_opens: "isBrowserOpenStep knowledgeStep"
  by code_simp

lemma knowledge_contract: "list_all (\<lambda>a. a_type a \<noteq> Element_count) (k_assertions (buildStepContract knowledgeStep))"
  by code_simp

lemma knowledge_effective [simp]: "effectiveStep (JObj []) knowledgeStep = knowledgeStep"
  using no_context by (simp add: effectiveStep_def knowledgeStep_def plainStep_def)

fun performed :: "event list \<Rightarrow> page_op list" where
  "performed [] = []"
| "performed (v # vs) = (case v of Performed p \<Rightarrow> p # performed vs | _ \<Rightarrow> performed vs)"

lemma performed_append [simp]: "performed (xs @ ys) = performed xs @ performed ys"
  by (induction xs) (auto split: event.splits)

lemma knowledge_run:
  assumes "en_observe e w = (Inr ob, w1)" "en_screenshot e w1 = (Inr shot, w2)"
  shows "\<exists>rs s'. runQaSteps e (sampleOptions [] (JObj [])) [knowledgeStep] (w, []) = (Done rs, s') \<and>
     map u_status (rs_results rs) = [PASO] \<and> rs_errors rs = [] \<and> performed (snd s') = [] \<and> asked (snd s') = 0"
proof -
  obtain ev where ev: "evaluateStepContract (en_regexp e) (buildStepContract knowledgeStep) (ob_url ob) ob = Inr ev"
    using evaluation_returns [OF knowledge_contract] by blast
  obtain t w3 where now: "en_now e w2 = (t, w3)" by fastforce
  show ?thesis
    by (simp add: runQaSteps_def sampleOptions_def runStep_def Let_def knowledge_opens runOpenStep_def buildCheckpoint_def observe_def screenshot_def
      now_def emit_def io_call_def assms ev now io_res_def emptyRun_def add_result_def visit_def add_item_def stopped_def)
qed

text \<open>The variables of an environment, as the backend sends them, and a step that clicks.\<close>

definition baseUrl :: jval where
  "baseUrl = JObj [(''variables'', JObj [(''base_url'', JStr ''https://a.b'')])]"

definition clickStep :: "jstr \<Rightarrow> planned_step" where
  "clickStep expected = plainStep ''Hacer clic en Salir'' expected"

lemma base_data: "sx_normalized (interpretStepData [] baseUrl ''step.data'') = ''url=https://a.b''"
  by code_simp

lemma base_step: "extractStepUrl (clickStep []\<lparr>q_data := ''url=https://a.b''\<rparr>) = ''https://a.b''"
    "isUrlNavigationStep (clickStep []\<lparr>q_data := ''url=https://a.b''\<rparr>)" "\<not> isBrowserOpenStep (clickStep []\<lparr>q_data := ''url=https://a.b''\<rparr>)"
  by code_simp+

lemma base_effective: "effectiveStep baseUrl (clickStep expected) = clickStep expected\<lparr>q_data := ''url=https://a.b''\<rparr>"
  using base_data by (simp add: effectiveStep_def clickStep_def plainStep_def)

lemma same_words:
  "q_action step = q_action step' \<Longrightarrow> q_data step = q_data step' \<Longrightarrow>
     extractStepUrl step = extractStepUrl step' \<and> isUrlNavigationStep step = isUrlNavigationStep step' \<and> isBrowserOpenStep step = isBrowserOpenStep step'"
  by (simp add: extractStepUrl_def isUrlNavigationStep_def isBrowserOpenStep_def spoken_def)

definition navigation :: "jstr \<Rightarrow> event set" where
  "navigation url = range Observed \<union> range Emitted \<union> {Performed p | p. p \<in> {P_goto url, P_idle} \<or> (\<exists>t. p = P_pause t)}"

lemma navigation_iff [simp]: "Observed o' \<in> navigation url" "Emitted v \<in> navigation url" "Performed (P_goto url) \<in> navigation url"
  "Performed P_idle \<in> navigation url" "Performed (P_pause t) \<in> navigation url" "range Observed \<subseteq> navigation url" "looks \<subseteq> navigation url"
  by (auto simp: navigation_def looks_def)

lemma emits_url_step:
  assumes "normalizeUrl (extractStepUrl step) = url"
  shows "emits (navigation url) (runUrlStep e step k rs)"
proof -
  have "value_text (navigateAction step) = extractStepUrl step" "sa_action (navigateAction step) = A_navigate"
    by (simp_all add: navigateAction_def rule_action_def value_text_def text_of_def)
  then have "runAction e (navigateAction step) = perform_all e [P_goto url, P_pause STABLE_AFTER_ACTION_MS]"
    using assms by (simp add: runAction_def)
  then have "emits (navigation url) (executeStrictAction e (navigateAction step))"
    by (intro emits_execute) (simp_all only: perform_all.simps, intro emits_rules, simp_all)
  then show ?thesis
    unfolding runUrlStep_def Let_def by (intro emits_rules emits_mono [OF emits_wait]) auto
qed

lemma base_run: "set (snd (snd (runQaSteps e (sampleOptions [] baseUrl) [clickStep expected] (w, [])))) \<subseteq> navigation ''https://a.b''"
proof -
  let ?step = "clickStep expected\<lparr>q_data := ''url=https://a.b''\<rparr>"
  have same: "extractStepUrl ?step = ''https://a.b''" "isUrlNavigationStep ?step" "\<not> isBrowserOpenStep ?step"
    using same_words [of ?step "clickStep []\<lparr>q_data := ''url=https://a.b''\<rparr>"] base_step by (simp_all add: clickStep_def plainStep_def)
  have url: "normalizeUrl ''https://a.b'' = ''https://a.b''" by code_simp
  have "emits (navigation ''https://a.b'') (runSteps e (sampleOptions [] baseUrl) conventional m [clickStep expected] rs)" for conventional m rs
    unfolding runSteps.simps
    by (intro emits_rules) (simp_all add: runStep_def sampleOptions_def base_effective same Let_def emits_url_step url)
  then have "emits (navigation ''https://a.b'') (runQaSteps e (sampleOptions [] baseUrl) [clickStep expected])"
    by (simp add: runQaSteps_def emits_def)
  then show ?thesis unfolding emits_def by (metis append_Nil snd_conv)
qed

text \<open>A retry limit that is not whole.\<close>

definition halfLimit :: "rat \<Rightarrow> jval list" where
  "halfLimit q = [JObj [(''id'', JStr ''sentinel''), (''retry_limit'', JNum (Fin q))]]"

lemma half_limit: "attemptLimit (sampleOptions (halfLimit (3/2)) c) = 5/2" "attemptLimit (sampleOptions (halfLimit 1) c) = 2"
    "conventionalUiInferenceEnabled (halfLimit q) = False"
proof -
  have "getWorkflowAgent (halfLimit q) ''SENTINEL'' = JObj [(''id'', JStr ''sentinel''), (''retry_limit'', JNum (Fin q))]" for q
  proof -
    have "agent_id ''SENTINEL'' (JObj [(''id'', JStr ''sentinel''), (''retry_limit'', JNum (Fin q))])"
      by (simp add: agent_id_def obj_get_def text_of_def) code_simp
    then show ?thesis by (simp add: getWorkflowAgent_def halfLimit_def)
  qed
  then show "attemptLimit (sampleOptions (halfLimit (3/2)) c) = 5/2" "attemptLimit (sampleOptions (halfLimit 1) c) = 2"
    by (simp_all add: attemptLimit_def sampleOptions_def retryLimitFromWorkflow_def obj_get_def Let_def)
  show "conventionalUiInferenceEnabled (halfLimit q) = False"
    by (simp add: conventionalUiInferenceEnabled_def halfLimit_def conventional_agent_def obj_get_def)
qed

lemma half_attempts:
  assumes "of_nat n \<noteq> limit" "of_nat m \<noteq> limit" "n \<noteq> m"
  shows "\<exists>rs' s'. attempts (sampleEnv ''click'') opts False verStep (buildStepContract verStep) limit [n, m] h rs s = (Done (rs', None), s') \<and>
    rs_results rs' = rs_results rs \<and> rs_errors rs' = rs_errors rs"
proof -
  obtain ev where ev: "evaluateStepContract (\<lambda>_. None) (buildStepContract verStep) ''u'' samplePage = Inr ev" using verStep_contract by blast
  obtain t tr where s: "s = (t, tr)" by fastforce
  obtain rs1 i1 ef1 t1 tr1 where a: "attemptStep (sampleEnv ''click'') opts False verStep (buildStepContract verStep) n rs (t, tr) = (Done (rs1, i1, ef1), (t1, tr1))"
      "\<not> concludes verStep i1 ef1" "rs_results rs1 = rs_results rs" "rs_errors rs1 = rs_errors rs"
    using sample_refusal [OF verStep_chosen ev, of opts n rs t tr] by fastforce
  obtain rs2 i2 ef2 s2 where b: "attemptStep (sampleEnv ''click'') opts False verStep (buildStepContract verStep) m rs1 (t1, tr1) = (Done (rs2, i2, ef2), s2)"
      "\<not> concludes verStep i2 ef2" "rs_results rs2 = rs_results rs1" "rs_errors rs2 = rs_errors rs1"
    using sample_refusal [OF verStep_chosen ev, of opts m rs1 t1 tr1] by fastforce
  show ?thesis using a b assms by (simp add: s)
qed

lemma half_run:
  "\<exists>rs s'. runQaSteps (sampleEnv ''click'') (sampleOptions (halfLimit (3/2)) (JObj [])) [verStep] (0, []) = (Done rs, s') \<and>
     rs_results rs = [] \<and> rs_errors rs = []"
proof -
  let ?o = "sampleOptions (halfLimit (3/2)) (JObj [])"
  have "\<lfloor>5/2 :: rat\<rfloor> = 2" by (simp add: floor_eq_iff)
  then have numbers: "attemptNumbers (5/2) = [1, 2]" by (simp add: attemptNumbers_def upt_rec)
  obtain rs' s' where a: "attempts (sampleEnv ''click'') ?o False verStep (buildStepContract verStep) (5/2) [1, 2] [] emptyRun (0, []) = (Done (rs', None), s')"
      "rs_results rs' = []" "rs_errors rs' = []"
    using half_attempts [of 1 "5/2" 2 ?o "[]" emptyRun "(0, [])"] by (auto simp: emptyRun_def)
  have "runStep (sampleEnv ''click'') ?o False (5/2) verStep emptyRun (0, []) = (Done rs', s')"
    using verStep_kind a(1) by (simp add: runStep_def runPlannedStep_def stepLimit_def Let_def numbers sampleOptions_def)
  then have "runSteps (sampleEnv ''click'') ?o False (5/2) [verStep] emptyRun (0, []) = (Done rs', s')"
    by (simp add: sampleOptions_def)
  then have "runQaSteps (sampleEnv ''click'') ?o [verStep] (0, []) = (Done rs', s')"
    unfolding runQaSteps_def half_limit(1) by (simp add: sampleOptions_def half_limit(3))
  then show ?thesis using a(2,3) by blast
qed

section \<open>Properties\<close>

lemma limit_positive: "attemptLimit opts = of_nat n \<Longrightarrow> 0 < n"
proof -
  assume "attemptLimit opts = of_nat n"
  moreover have "1 \<le> attemptLimit opts" by (simp add: attemptLimit_def retryLimitFromWorkflow_def Let_def split: option.splits jnum.splits)
  ultimately show "0 < n" by (cases n) simp_all
qed

text \<open>C3. A step passes only on evidence: whatever the page and the model do, a step result with the status \<open>PASO\<close> belongs to a step of the case, with its data resolved, and
  either that step is taken for the opening of the browser, or its last attempt executed an action that is no refusal, and the contract of the step, evaluated on the observation the attempt
  recorded, holds, conclusively so after a click by coordinates.\<close>

theorem run_pass_justified:
  assumes "runQaSteps e opts steps s = (Done rs, s')" "r \<in> set (rs_results rs)" "u_status r = PASO"
  shows "\<exists>source \<in> set steps. let step = effectiveStep (ro_context opts) source in u_number r = q_number source \<and>
    (isBrowserOpenStep step \<or> (u_history r \<noteq> [] \<and> justified (en_regexp e) step (last (u_history r))))"
  using steps_justified [OF assms(1) [unfolded runQaSteps_def] assms(2)] assms(3)
  by (auto simp: emptyRun_def step_ok_def passes_def Let_def)

theorem run_pass_justified_witness:
  "\<exists>rs s' r. runQaSteps (sampleEnv ''finish'') (sampleOptions [] (JObj [])) [verStep] (0, []) = (Done rs, s') \<and> rs_results rs = [r] \<and> u_status r = PASO \<and>
     justified (\<lambda>_. None) verStep (last (u_history r))"
proof -
  obtain rs s' where run: "runQaSteps (sampleEnv ''finish'') (sampleOptions [] (JObj [])) [verStep] (0, []) = (Done rs, s')"
    and "map u_status (rs_results rs) = [PASO]" using sample_pass by auto
  then obtain r where r: "rs_results rs = [r]" "u_status r = PASO" by auto
  then have "justified (\<lambda>_. None) verStep (last (u_history r))"
    using run_pass_justified [OF run] verStep_kind(1) by (simp add: sampleOptions_def Let_def)
  then show ?thesis using run r by blast
qed

text \<open>C14. The list of errors says how a run ended. With a whole number of attempts the results of a run that returns belong to its first steps, in their order, all but the last one
  pass, and there is no error exactly when every step has a result that passes, which is when the audit takes the technical status to be \<open>PASO\<close>.\<close>

theorem run_errors_exact:
  assumes "runQaSteps e opts steps s = (Done rs, s')" "attemptLimit opts = of_nat n" "\<And>r. s_status (view r) = u_status r"
  shows "prefix_run (en_regexp e) (ro_context opts) steps (rs_results rs) (rs_errors rs) \<and>
    (rs_errors rs = [] \<longleftrightarrow> technicalStatus (map qa_step.truncate steps) (map view (rs_results rs)) (rs_errors rs) = PASO)"
proof -
  have prefix: "prefix_run (en_regexp e) (ro_context opts) steps (rs_results rs) (rs_errors rs)"
    using steps_prefix [OF assms(1) [unfolded runQaSteps_def assms(2)] limit_positive [OF assms(2)]] by (simp add: emptyRun_def)
  have "list_all (\<lambda>r. s_status r = PASO) (map view (rs_results rs)) \<longleftrightarrow> list_all (\<lambda>r. u_status r = PASO) (rs_results rs)"
    by (simp add: list_all_iff assms(3))
  then show ?thesis using prefix by (auto simp: technicalStatus_def prefix_run_def)
qed

theorem run_errors_exact_witness:
  "\<exists>rs s'. runQaSteps (sampleEnv ''finish'') (sampleOptions [] (JObj [])) [verStep] (0, []) = (Done rs, s') \<and>
     technicalStatus [qa_step.truncate verStep] (map (\<lambda>r. \<lparr>s_number = u_number r, s_status = u_status r, s_history = []\<rparr>) (rs_results rs)) (rs_errors rs) = PASO"
proof -
  obtain rs s' where run: "runQaSteps (sampleEnv ''finish'') (sampleOptions [] (JObj [])) [verStep] (0, []) = (Done rs, s')" "rs_errors rs = []"
    using sample_pass by blast
  have limit: "attemptLimit (sampleOptions [] (JObj [])) = of_nat 2" using sample_limit by simp
  show ?thesis
    using run_errors_exact [OF run(1) limit, of "\<lambda>r. \<lparr>s_number = u_number r, s_status = u_status r, s_history = []\<rparr>"] run by simp
qed


text \<open>C21. The model is asked a bounded number of times: at most six times for each step, or the configured number of attempts when that is larger, however the run ends.\<close>

theorem run_asks_bounded:
  "asked (snd (snd (runQaSteps e opts steps (w, [])))) \<le> length steps * nat \<lfloor>max 6 (case ro_max opts of Some n \<Rightarrow> n | None \<Rightarrow> 2)\<rfloor>"
  by (rule run_asks)

text \<open>C10. A run ends when its clock runs: if the clock never goes back and a pause that ends normally lets it advance, the run returns or throws, though each wait for evidence polls the page
  until a deadline.\<close>

theorem run_ends:
  assumes "clock_runs e time"
  shows "fst (runQaSteps e opts steps s) \<noteq> Forever"
  using returns_run [OF assms] unfolding returns_def by blast

theorem run_ends_witness:
  "clock_runs (sampleEnv ''finish'') (\<lambda>t. t) \<and> fst (runQaSteps (sampleEnv ''finish'') (sampleOptions [] (JObj [])) [verStep] (0, [])) \<noteq> Forever"
proof -
  have "clock_runs (sampleEnv ''finish'') (\<lambda>t. t)" by (simp add: clock_runs_def)
  then show ?thesis using run_ends by blast
qed

text \<open>C25. A blocked answer is never replaced by a recovery: the rules have already been tried on the same observation when the model is asked, and no rule blocks, so that the action judged is the
  action proposed, and a blocked answer to a step that can be executed is always refused.\<close>

theorem blocked_never_recovered:
  assumes "planAction e opts conventional step k n history ob shot s = (Done (source, reply), s')"
  shows "fst (judge e step ob (proposedAction step source (pr_data reply))) = proposedAction step source (pr_data reply) \<and>
    (isActionableBlocked (proposedAction step source (pr_data reply)) step ob \<longrightarrow>
       \<not> v_ok (snd (judge e step ob (proposedAction step source (pr_data reply)))))"
proof -
  let ?a = "proposedAction step source (pr_data reply)"
  have none: "sa_action ?a \<noteq> A_blocked \<or> deterministicRecoveryAction (en_origin e) step ob = None" by (rule plan_cases [OF assms])
  moreover have "isActionableBlocked ?a step ob \<Longrightarrow> sa_action ?a = A_blocked" by (simp add: isActionableBlocked_def)
  ultimately show ?thesis
    using judge_fst [OF none] by (auto simp: judge_def Let_def refuse_def)
qed

theorem blocked_never_recovered_witness:
  "\<exists>reply s'. planAction (sampleEnv ''blocked'') (sampleOptions [] (JObj [])) False verStep (buildStepContract verStep) 1 [] samplePage [] (0, []) = (Done (Model, reply), s') \<and>
     fst (judge (sampleEnv ''blocked'') verStep samplePage (proposedAction verStep Model (pr_data reply))) = proposedAction verStep Model (pr_data reply)"
proof -
  obtain reply s' where "planAction (sampleEnv ''blocked'') (sampleOptions [] (JObj [])) False verStep (buildStepContract verStep) 1 [] samplePage [] (0, []) =
      (Done (Model, reply), s')"
    by (auto simp: planAction_def verStep_chosen)
  then show ?thesis using blocked_never_recovered by blast
qed


text \<open>A word can make a step pass unseen: \<^verbatim>\<open>Abrir Knowledge Base\<close> contains the name of a browser, so that on every page that can be observed the step passes, though
  its expectation is not checked, nothing is done on the page and no model is asked.\<close>

theorem word_opens_browser:
  assumes "en_observe e w = (Inr ob, w1)" "en_screenshot e w1 = (Inr shot, w2)"
  shows "\<exists>rs s'. runQaSteps e (sampleOptions [] (JObj [])) [knowledgeStep] (w, []) = (Done rs, s') \<and>
     map u_status (rs_results rs) = [PASO] \<and> rs_errors rs = [] \<and> performed (snd s') = [] \<and> asked (snd s') = 0"
  by (rule knowledge_run [OF assms])

theorem word_opens_browser_witness:
  "\<exists>rs s'. runQaSteps (sampleEnv ''finish'') (sampleOptions [] (JObj [])) [knowledgeStep] (0, []) = (Done rs, s') \<and>
     map u_status (rs_results rs) = [PASO] \<and> performed (snd s') = []"
  using word_opens_browser [of "sampleEnv ''finish''" 0 samplePage 0 "''img''" 0] by auto

text \<open>A retry limit that is not whole loses steps: with the limit \<^verbatim>\<open>1.5\<close> no attempt is the last one, and a step whose action is refused every time leaves neither
  a result nor an error.\<close>

theorem fractional_limit_loses_step:
  "\<exists>rs s'. runQaSteps (sampleEnv ''click'') (sampleOptions (halfLimit (3/2)) (JObj [])) [verStep] (0, []) = (Done rs, s') \<and>
     rs_results rs = [] \<and> rs_errors rs = []"
  by (rule half_run)

end
