(* ===== verification/AnalysisReview.thy ===== *)
theory AnalysisReview
  imports GenerationSources
begin

text \<open>
  \<^verbatim>\<open>engine/src/generation-analysis-review.ts\<close>: the audit of the questions and assumptions of an analysis against the sources.

  The agent is a parameter and sees the number of the call, and so is the time that has passed when the answer of the first call has been checked.
  The durations and the prompt hash of a trace are left out. \<^verbatim>\<open>canonicalCriterionId\<close> is not used in that file.
\<close>

section \<open>Sources and evidence\<close>

definition trimmed_text :: "jval \<Rightarrow> jstr" where
  "trimmed_text v = trim (text_of v)"

definition questionsOf :: "jval \<Rightarrow> jstr list" where
  "questionsOf analysis = filter (\<lambda>q. q \<noteq> []) (map trimmed_text (arr_elems (js_get analysis ''questions'')))"

definition assumptionsOf :: "jval \<Rightarrow> jval list" where
  "assumptionsOf analysis = filter is_object (arr_elems (js_get analysis ''proposed_assumptions''))"

definition sourceText :: "evidence_source list \<Rightarrow> jstr \<Rightarrow> jstr list" where
  "sourceText sources i =
     (case map_of (rev (map (\<lambda>source. (text_of (es_id source), textLeaves (es_content source))) sources)) i of Some ts \<Rightarrow> ts | None \<Rightarrow> [])"

definition isBoundary :: "evidence_source \<Rightarrow> bool" where
  "isBoundary source \<longleftrightarrow>
     es_type source = JStr ''user_answer'' \<and> toUpperCase (text_of (js_get (es_content source) ''scope_decision'')) = ''OUT_OF_SCOPE''
     \<and> trimmed_text (js_get (es_content source) ''pregunta'') \<noteq> [] \<and> trimmed_text (js_get (es_content source) ''respuesta'') \<noteq> []"

text \<open>The questions that the user has put out of scope, by source.\<close>

definition scopeBoundaries :: "evidence_source list \<Rightarrow> jstr \<Rightarrow> jstr option" where
  "scopeBoundaries sources =
     map_of (rev (map (\<lambda>source. (text_of (es_id source), trimmed_text (js_get (es_content source) ''pregunta''))) (filter isBoundary sources)))"

definition literalCitation :: "evidence_source list \<Rightarrow> jval \<Rightarrow> bool" where
  "literalCitation sources entry \<longleftrightarrow>
     (let q = trimmed_text (js_get entry ''quote'') in
      3 \<le> length q \<and> list_ex (\<lambda>t. str_includes t q) (sourceText sources (text_of (js_get entry ''source_id''))))"

definition validEvidence :: "evidence_source list \<Rightarrow> jval \<Rightarrow> bool" where
  "validEvidence sources entries \<longleftrightarrow> is_array entries \<and> list_all (literalCitation sources) (arr_elems entries)"

section \<open>Checking an audit\<close>

type_synonym audit_issue = "jstr \<times> jstr"

definition A_SHAPE :: audit_issue where
  "A_SHAPE = (''AUDIT_RESPONSE_SHAPE_INVALID'', ''El revisor no devolvi'' @ [CHR 0xF3] @ '' las decisiones de an'' @ [CHR 0xE1] @ ''lisis requeridas.'')"
definition A_QUESTION_COUNT :: audit_issue where
  "A_QUESTION_COUNT = (''AUDIT_QUESTION_COUNT_MISMATCH'', ''El revisor omiti'' @ [CHR 0xF3] @ '' preguntas o agreg'' @ [CHR 0xF3] @ '' decisiones ajenas.'')"
definition A_ASSUMPTION_COUNT :: audit_issue where
  "A_ASSUMPTION_COUNT = (''AUDIT_ASSUMPTION_COUNT_MISMATCH'', ''El revisor omiti'' @ [CHR 0xF3] @ '' supuestos o agreg'' @ [CHR 0xF3] @ '' decisiones ajenas.'')"
definition A_QUESTION :: audit_issue where
  "A_QUESTION = (''AUDIT_QUESTION_MISMATCH'', ''El revisor no mantuvo las preguntas originales en el mismo orden.'')"
definition A_QUESTION_STATUS :: audit_issue where
  "A_QUESTION_STATUS = (''AUDIT_QUESTION_STATUS_INVALID'', ''El revisor devolvi'' @ [CHR 0xF3] @ '' un estado de pregunta no v'' @ [CHR 0xE1] @ ''lido.'')"
definition A_BOUNDARY :: audit_issue where
  "A_BOUNDARY = (''AUDIT_SCOPE_BOUNDARY_INVALID'', ''El revisor intent'' @ [CHR 0xF3] @ '' cerrar una pregunta sin una decisi'' @ [CHR 0xF3] @ ''n expl'' @ [CHR 0xED]
     @ ''cita de alcance coincidente.'')"
definition A_BOUNDARY_ASSERTION :: audit_issue where
  "A_BOUNDARY_ASSERTION = (''AUDIT_SCOPE_BOUNDARY_ASSERTION_INVALID'', ''Una decisi'' @ [CHR 0xF3]
     @ ''n fuera de alcance no puede presentarse como respuesta factual ni citarse como evidencia del requisito.'')"
definition A_BOUNDARY_REASON :: audit_issue where
  "A_BOUNDARY_REASON = (''AUDIT_SCOPE_BOUNDARY_REASON_MISSING'', ''El revisor debe explicar que conserva la decisi'' @ [CHR 0xF3] @ ''n de alcance del usuario.'')"
definition A_QUESTION_EVIDENCE :: audit_issue where
  "A_QUESTION_EVIDENCE = (''AUDIT_QUESTION_EVIDENCE_INVALID'', ''El revisor cit'' @ [CHR 0xF3] @ '' texto que no existe en las fuentes.'')"
definition A_BOUNDARY_UNEXPECTED :: audit_issue where
  "A_BOUNDARY_UNEXPECTED = (''AUDIT_SCOPE_BOUNDARY_UNEXPECTED'', ''El revisor adjunt'' @ [CHR 0xF3] @ '' un l'' @ [CHR 0xED] @ ''mite de alcance a una pregunta que no est'' @ [CHR 0xE1]
     @ '' marcada fuera de alcance.'')"
definition A_ANSWER :: audit_issue where
  "A_ANSWER = (''AUDIT_ANSWER_EVIDENCE_MISSING'', ''El revisor marc'' @ [CHR 0xF3] @ '' una pregunta como respondida sin cita y respuesta.'')"
definition A_UNRESOLVED :: audit_issue where
  "A_UNRESOLVED = (''AUDIT_UNRESOLVED_ANSWER_PRESENT'', ''El revisor agreg'' @ [CHR 0xF3] @ '' una respuesta a una pregunta que dej'' @ [CHR 0xF3] @ '' abierta.'')"
definition A_ASSUMPTION :: audit_issue where
  "A_ASSUMPTION = (''AUDIT_ASSUMPTION_MISMATCH'', ''El revisor no mantuvo los identificadores originales de supuestos en el mismo orden.'')"
definition A_ASSUMPTION_STATUS :: audit_issue where
  "A_ASSUMPTION_STATUS = (''AUDIT_ASSUMPTION_STATUS_INVALID'', ''El revisor devolvi'' @ [CHR 0xF3] @ '' un estado de supuesto no v'' @ [CHR 0xE1] @ ''lido.'')"
definition A_ASSUMPTION_EVIDENCE :: audit_issue where
  "A_ASSUMPTION_EVIDENCE = (''AUDIT_ASSUMPTION_EVIDENCE_INVALID'', ''El revisor cit'' @ [CHR 0xF3] @ '' texto que no existe en las fuentes.'')"
definition A_EXPLICIT :: audit_issue where
  "A_EXPLICIT = (''AUDIT_EXPLICIT_ASSUMPTION_EVIDENCE_MISSING'', ''El revisor marc'' @ [CHR 0xF3] @ '' un supuesto como expl'' @ [CHR 0xED] @ ''cito sin una cita de la fuente.'')"

definition questionIssue :: "evidence_source list \<Rightarrow> jval \<Rightarrow> jstr \<Rightarrow> audit_issue option" where
  "questionIssue sources item original =
     (let status' = js_get item ''status''; answer = trimmed_text (js_get item ''answer''); boundaryId = trimmed_text (js_get item ''scope_boundary_id'');
          evidence' = js_get item ''evidence'' in
      if trimmed_text (js_get item ''question'') \<noteq> original then Some A_QUESTION
      else if status' \<notin> JStr ` {''ANSWERED'', ''UNANSWERED'', ''CONFLICTED'', ''OUT_OF_SCOPE''} then Some A_QUESTION_STATUS
      else if status' = JStr ''OUT_OF_SCOPE'' then
        (if boundaryId = [] \<or> scopeBoundaries sources boundaryId \<noteq> Some original then Some A_BOUNDARY
         else if answer \<noteq> [] \<or> arr_elems evidence' \<noteq> [] then Some A_BOUNDARY_ASSERTION
         else if trimmed_text (js_get item ''reason'') = [] then Some A_BOUNDARY_REASON
         else None)
      else if \<not> validEvidence sources evidence' then Some A_QUESTION_EVIDENCE
      else if boundaryId \<noteq> [] then Some A_BOUNDARY_UNEXPECTED
      else if status' = JStr ''ANSWERED'' \<and> (answer = [] \<or> arr_elems evidence' = []) then Some A_ANSWER
      else if status' \<noteq> JStr ''ANSWERED'' \<and> answer \<noteq> [] then Some A_UNRESOLVED
      else None)"

text \<open>An assumption that is not needed for no reason counts as uncertain.\<close>

definition judgedAssumption :: "jval \<Rightarrow> jval" where
  "judgedAssumption item =
     (if js_get item ''status'' = JStr ''UNNECESSARY'' \<and> trimmed_text (js_get item ''reason'') = []
      then JObj (obj_put (own_props item) ''status'' (JStr ''UNCERTAIN'')) else item)"

definition assumptionIssue :: "evidence_source list \<Rightarrow> jval \<Rightarrow> jval \<Rightarrow> audit_issue option" where
  "assumptionIssue sources item original =
     (if trimmed_text (js_get item ''id'') \<noteq> trimmed_text (js_get original ''id'') then Some A_ASSUMPTION
      else if js_get item ''status'' \<notin> JStr ` {''EXPLICIT'', ''NECESSARY'', ''UNNECESSARY'', ''UNCERTAIN''} then Some A_ASSUMPTION_STATUS
      else if \<not> validEvidence sources (js_get item ''evidence'') then Some A_ASSUMPTION_EVIDENCE
      else if js_get item ''status'' = JStr ''EXPLICIT'' \<and> arr_elems (js_get item ''evidence'') = [] then Some A_EXPLICIT
      else None)"

text \<open>The first issue of a list of decisions.\<close>

fun first_issue :: "('a \<Rightarrow> 'b \<Rightarrow> audit_issue option) \<Rightarrow> ('a \<times> 'b) list \<Rightarrow> audit_issue option" where
  "first_issue f [] = None"
| "first_issue f ((x, y) # rest) = (case f x y of Some issue \<Rightarrow> Some issue | None \<Rightarrow> first_issue f rest)"

definition auditIssue :: "jval \<Rightarrow> jval \<Rightarrow> evidence_source list \<Rightarrow> audit_issue option" where
  "auditIssue raw analysis sources =
     (let decisions = arr_elems (js_get raw ''question_decisions''); judged = map judgedAssumption (arr_elems (js_get raw ''assumption_decisions'')) in
      if \<not> truthy raw \<or> \<not> is_array (js_get raw ''question_decisions'') \<or> \<not> is_array (js_get raw ''assumption_decisions'') then Some A_SHAPE
      else if length decisions \<noteq> length (questionsOf analysis) then Some A_QUESTION_COUNT
      else if length judged \<noteq> length (assumptionsOf analysis) then Some A_ASSUMPTION_COUNT
      else case first_issue (questionIssue sources) (zip decisions (questionsOf analysis)) of
          Some issue \<Rightarrow> Some issue
        | None \<Rightarrow> first_issue (assumptionIssue sources) (zip judged (assumptionsOf analysis)))"

section \<open>The audited analysis\<close>

text \<open>\<^verbatim>\<open>answer.trim()\<close>, which only a string has.\<close>

definition trimmed :: "jval \<Rightarrow> jval res" where
  "trimmed v = (case v of JStr s \<Rightarrow> Inr (JStr (trim s)) | _ \<Rightarrow> Inl (TypeError ''answer.trim is not a function''))"

definition closes :: "jval \<Rightarrow> bool" where
  "closes item \<longleftrightarrow> js_get item ''status'' \<in> JStr ` {''ANSWERED'', ''OUT_OF_SCOPE''}"

definition keeps_open :: "jval \<Rightarrow> bool" where
  "keeps_open item \<longleftrightarrow> js_get item ''status'' \<in> JStr ` {''NECESSARY'', ''UNCERTAIN''}"

definition scoped_out :: "jval \<Rightarrow> bool" where
  "scoped_out item \<longleftrightarrow> js_get item ''status'' = JStr ''OUT_OF_SCOPE''"

definition resolvedQuestion :: "jval \<Rightarrow> jval res" where
  "resolvedQuestion item =
     map_ok (\<lambda>answer. JObj ([(''question'', js_get item ''question''), (''answer'', answer), (''evidence'', js_get item ''evidence'')]
         @ (if scoped_out item then [(''resolution'', JStr ''OUT_OF_SCOPE''), (''scope_boundary_id'', js_get item ''scope_boundary_id'')] else [])))
       (trimmed (js_get item ''answer''))"

definition questionDecision :: "jval \<Rightarrow> jval" where
  "questionDecision item =
     JObj ([(''question'', js_get item ''question''), (''status'', js_get item ''status''), (''answer'', js_or (js_get item ''answer'') (JStr [])),
         (''reason'', JStr (text_of (js_get item ''reason''))), (''evidence'', js_get item ''evidence'')]
       @ (if scoped_out item then [(''scope_boundary_id'', js_get item ''scope_boundary_id'')] else []))"

definition assumptionDecision :: "jval \<Rightarrow> jval" where
  "assumptionDecision item =
     JObj [(''id'', js_get item ''id''), (''status'', js_get item ''status''), (''reason'', JStr (text_of (js_get item ''reason''))), (''evidence'', js_get item ''evidence'')]"

definition removedAssumption :: "jval \<Rightarrow> jval" where
  "removedAssumption item =
     JObj [(''id'', js_get item ''id''), (''status'', js_get item ''status''), (''reason'', js_get item ''reason''), (''evidence'', js_get item ''evidence'')]"

definition retainedAssumptions :: "jval list \<Rightarrow> jval list \<Rightarrow> jval list" where
  "retainedAssumptions judged originals = map snd (filter (\<lambda>(item, original). keeps_open item) (zip judged originals))"

definition critical :: "jval \<Rightarrow> bool" where
  "critical item \<longleftrightarrow> toUpperCase (text_of (js_get item ''risk'')) = ''CRITICAL''"

definition readinessOf :: "jval list \<Rightarrow> jval list \<Rightarrow> jstr" where
  "readinessOf questions assumptions =
     (if list_ex critical assumptions then ''BLOCKED'' else if questions \<noteq> [] \<or> assumptions \<noteq> [] then ''NEEDS_CLARIFICATION'' else ''READY'')"

definition auditedAnalysis :: "jval \<Rightarrow> jval \<Rightarrow> jval res" where
  "auditedAnalysis raw analysis =
     (let decisions = arr_elems (js_get raw ''question_decisions''); judged = map judgedAssumption (arr_elems (js_get raw ''assumption_decisions''));
          open' = map (\<lambda>item. js_get item ''question'') (filter (\<lambda>item. \<not> closes item) decisions);
          retained = retainedAssumptions judged (assumptionsOf analysis) in
      res_bind (map_res resolvedQuestion (filter closes decisions)) (\<lambda>resolved.
      map_ok (\<lambda>former. JObj (obj_spread (own_props analysis)
          [(''questions'', JArr open'), (''proposed_assumptions'', JArr retained),
           (''analysis_consistency_review'', JObj
             [(''version'', num 1), (''question_decisions'', JArr (map questionDecision decisions)), (''assumption_decisions'', JArr (map assumptionDecision judged)),
              (''removed_assumptions'', JArr (map removedAssumption (filter (\<lambda>item. \<not> keeps_open item) judged)))]),
           (''resolved_questions'', JArr (arr_elems former @ resolved)),
           (''readiness'', JStr (readinessOf open' retained))]))
        (js_member analysis ''resolved_questions'')))"

record audit =
  au_analysis :: jval
  au_issue :: "audit_issue option"

abbreviation au_valid :: "audit \<Rightarrow> bool" where
  "au_valid a \<equiv> au_issue a = None"

definition checkedRequirementAnalysisAudit :: "jval \<Rightarrow> jval \<Rightarrow> evidence_source list \<Rightarrow> audit res" where
  "checkedRequirementAnalysisAudit raw analysis sources =
     (case auditIssue raw analysis sources of
        Some issue \<Rightarrow> Inr \<lparr>au_analysis = analysis, au_issue = Some issue\<rparr>
      | None \<Rightarrow> map_ok (\<lambda>updated. \<lparr>au_analysis = updated, au_issue = None\<rparr>) (auditedAnalysis raw analysis))"

section \<open>The review\<close>

record audit_request =
  aq_repair :: "jstr option"
  aq_sources :: "(jstr \<times> jstr \<times> jstr list) list"
  aq_questions :: "jstr list"
  aq_assumptions :: "jval list"
  aq_timeout :: int

type_synonym auditor = "nat \<Rightarrow> audit_request \<Rightarrow> agent_reply res"

definition fragments :: "jval \<Rightarrow> jstr list" where
  "fragments content = concat (map (\<lambda>value. filter (\<lambda>line. line \<noteq> []) (map trim (split_lines value))) (textLeaves content))"

definition auditRequest :: "jstr option \<Rightarrow> jval \<Rightarrow> evidence_source list \<Rightarrow> int \<Rightarrow> audit_request" where
  "auditRequest repair analysis sources timeout =
     \<lparr>aq_repair = repair, aq_sources = map (\<lambda>source. (text_of (es_id source), text_of (es_type source), fragments (es_content source))) sources,
      aq_questions = questionsOf analysis, aq_assumptions = assumptionsOf analysis, aq_timeout = timeout\<rparr>"

definition METRICS :: "jstr list" where
  "METRICS = [''latencyMs'', ''promptTokens'', ''completionTokens'', ''totalTokens'', ''estimatedCost'']"

definition addMetrics :: "jval \<Rightarrow> jnum list \<Rightarrow> jnum list" where
  "addMetrics metrics totals = map2 (\<lambda>key n. num_add n (to_number (js_or (js_get metrics key) (num 0)))) METRICS totals"

record audit_trace =
  at_status :: jval
  at_retries :: nat
  at_metrics :: "jnum list"

record audit_result =
  ar_audit :: audit
  ar_trace :: audit_trace

definition auditTrace :: "audit \<Rightarrow> agent_reply \<Rightarrow> nat \<Rightarrow> jnum list \<Rightarrow> audit_result" where
  "auditTrace checked result' retries metrics =
     \<lparr>ar_audit = checked, ar_trace =
       \<lparr>at_status = (if au_valid checked then js_or (js_get (ag_data result') ''status'') (JStr ''SUCCESS'') else JStr ''INVALID_CONTRACT''),
        at_retries = retries, at_metrics = metrics\<rparr>\<rparr>"

definition skippedAudit :: "jval \<Rightarrow> audit_result" where
  "skippedAudit analysis =
     \<lparr>ar_audit = \<lparr>au_analysis = JObj (obj_put (own_props analysis) ''analysis_consistency_review''
         (JObj [(''version'', num 1), (''status'', JStr ''SKIPPED_NO_DECISIONS'')])), au_issue = None\<rparr>,
      ar_trace = \<lparr>at_status = JStr ''SKIPPED_NO_DECISIONS'', at_retries = 0, at_metrics = replicate 5 (Fin 0)\<rparr>\<rparr>"

text \<open>A rejected answer is asked for once more, with the reason, when at least five seconds are left.\<close>

definition reviewRequirementAnalysis :: "auditor \<Rightarrow> int \<Rightarrow> jval \<Rightarrow> evidence_source list \<Rightarrow> int \<Rightarrow> audit_result res" where
  "reviewRequirementAnalysis agent elapsed analysis sources timeoutMs =
     (if questionsOf analysis = [] \<and> assumptionsOf analysis = [] then Inr (skippedAudit analysis)
      else
        res_bind (agent 0 (auditRequest None analysis sources timeoutMs)) (\<lambda>first.
        let metrics = addMetrics (ag_metrics first) (replicate 5 (Fin 0)); remaining = timeoutMs - elapsed in
        res_bind (checkedRequirementAnalysisAudit (decisionOf first) analysis sources) (\<lambda>checked.
          case au_issue checked of
            Some issue \<Rightarrow>
              if 5000 \<le> remaining then
                res_bind (agent 1 (auditRequest (Some (fst issue)) analysis sources remaining)) (\<lambda>again.
                map_ok (\<lambda>checked'. auditTrace checked' again 1 (addMetrics (ag_metrics again) metrics))
                  (checkedRequirementAnalysisAudit (decisionOf again) analysis sources))
              else Inr (auditTrace checked first 0 metrics)
          | None \<Rightarrow> Inr (auditTrace checked first 0 metrics))))"

end
