(* ===== verification/StoryContracts.thy ===== *)
theory StoryContracts
  imports GenerationSources "HOL-Library.Multiset"
begin

text \<open>
  \<^verbatim>\<open>engine/src/generation-contracts.ts\<close>, except the contract of a case (theory CaseBatches) and the sources (theory GenerationSources): the nodes of a
  generation workflow, its endpoints, the analysis of an answer, the proposals of an answer and their contract.

  The URL parser and \<^verbatim>\<open>localeCompare\<close>, which depends on the locale of the host, are parameters. The order of the nodes is that of a stable sort, which is
  the order of the code when the comparison is consistent. The values are trees, so that no value is visited twice. Schemas and guidance are texts of prompts
  and left out.
\<close>

section \<open>Texts and endpoints\<close>

definition STORY_SENTENCE :: rx where
  "STORY_SENTENCE = (let any' = Sym (\<lambda>c. True) in
     ignore_case (cat [Bol, lit ''Como'', plus1 space, Grp 1 (lazy_plus any'), lit '','', star space, lit ''quiero'', plus1 space, Grp 2 (lazy_plus any'),
       opt (cat [lit ''.'', star space, lit ''Para'', plus1 space, Grp 3 (lazy_plus any')]), opt (lit ''.''), Eol]))"

definition formatStoryDescription :: "jval \<Rightarrow> jstr" where
  "formatStoryDescription value =
     (let source = trim (text_of value) in
      case rx_exec STORY_SENTENCE source of
        None \<Rightarrow> source
      | Some m \<Rightarrow>
          (let benefit = trim (cap_text m 3) in
           join [CHR 10] (filter (\<lambda>line. line \<noteq> [])
             [''**Como:** '' @ trim (cap_text m 1), ''**Quiero:** '' @ trim (cap_text m 2), if benefit = [] then [] else ''**Para:** '' @ benefit])))"

definition shouldDisableGenerationThinking :: "jval \<Rightarrow> bool" where
  "shouldDisableGenerationThinking provider \<longleftrightarrow>
     map (\<lambda>c. if c = CHR ''_'' then CHR ''-'' else c) (toLowerCase (trim (text_of provider))) \<in> {''lm-studio'', ''ollama''}"

text \<open>Protocol and host name of a parsed URL.\<close>

type_synonym url_parser = "jstr \<Rightarrow> (jstr \<times> jstr) option"

definition LOOPBACK :: "jstr list" where
  "LOOPBACK = [''localhost'', ''127.0.0.1'', ''::1'', ''host.docker.internal'']"

definition PRIVATE_RANGE :: rx where
  "PRIVATE_RANGE = alt [cat [Bol, lit ''10.''], cat [Bol, lit ''192.168.''],
     cat [Bol, lit ''172.'', alt [cat [lit ''1'', one_of ''6789''], cat [lit ''2'', digit], cat [lit ''3'', one_of ''01'']], lit ''.'']]"

definition allowedHosts :: "jstr \<Rightarrow> jstr list" where
  "allowedHosts env = filter (\<lambda>host. host \<noteq> []) (map trim (split_on (CHR '','') env))"

definition allowedEndpoint :: "url_parser \<Rightarrow> jstr \<Rightarrow> jval \<Rightarrow> bool" where
  "allowedEndpoint parse env endpoint =
     (case parse (text_of endpoint) of
        None \<Rightarrow> False
      | Some (protocol, hostname) \<Rightarrow>
          protocol \<in> {''http:'', ''https:''} \<and>
          (if hostname \<in> set LOOPBACK then True else if rx_test PRIVATE_RANGE hostname then False else hostname \<in> set (allowedHosts env)))"

definition allowedFallbacks :: "url_parser \<Rightarrow> jstr \<Rightarrow> jval \<Rightarrow> bool" where
  "allowedFallbacks parse env value \<longleftrightarrow>
     \<not> is_array value \<or> list_all (\<lambda>item. allowedEndpoint parse env (js_or (js_get item ''llm_endpoint'') (js_get item ''endpoint''))) (arr_elems value)"

section \<open>The nodes of a workflow\<close>

definition STORY_NODE_TYPES :: "jstr list" where
  "STORY_NODE_TYPES = [''RequirementAnalyzer'', ''StoryGenerator'', ''QaStoryCritic'', ''TraceabilityAuditor'']"

definition CASE_NODE_TYPES :: "jstr list" where
  "CASE_NODE_TYPES = [''CaseScopeAnalyzer'', ''TestDesignPlanner'', ''TestCaseAuthor'', ''QaCaseCritic'', ''CoverageTraceabilityAuditor'']"

definition node_before :: "(jstr \<Rightarrow> jstr \<Rightarrow> int) \<Rightarrow> jval \<Rightarrow> jval \<Rightarrow> bool" where
  "node_before localeCompare a b \<longleftrightarrow>
     (let x = to_number (js_or (js_get a ''position_x'') (num 0)); y = to_number (js_or (js_get b ''position_x'') (num 0)) in
      num_lt x y \<or> (\<not> num_lt y x \<and> localeCompare (to_string (js_get a ''name'')) (to_string (js_get b ''name'')) \<le> 0))"

definition purposeNodes :: "(jstr \<Rightarrow> jstr \<Rightarrow> int) \<Rightarrow> jstr \<Rightarrow> jstr \<Rightarrow> jstr list \<Rightarrow> jval \<Rightarrow> jval list res" where
  "purposeNodes localeCompare purpose' err types d =
     (let workflow = js_get d ''workflow''; nodes = filter (\<lambda>node. js_get node ''enabled'' \<noteq> JBool False) (arr_elems (js_get d ''nodes'')) in
      if js_get workflow ''workflow_purpose'' \<noteq> JStr purpose' \<or> js_get workflow ''workflow_format'' \<noteq> JStr ''universal_v2''
         \<or> js_get workflow ''status'' \<noteq> JStr ''ACTIVE'' then Throw err
      else if list_ex nullish nodes then Inl (TypeError ''Cannot read properties of null'')
      else if nodes = [] \<or> list_ex (\<lambda>node. js_get node ''type'' \<notin> JStr ` set types \<or> trim (text_of (js_get node ''prompt_template'')) = []) nodes
      then Throw ''WORKFLOW_INVALID_NODES''
      else if list_ex (\<lambda>t. \<not> list_ex (\<lambda>node. js_get node ''type'' = JStr t) nodes) types then Throw ''WORKFLOW_REQUIRED_NODE_MISSING''
      else Inr (sort_by (node_before localeCompare) nodes))"

definition workflowNodes :: "(jstr \<Rightarrow> jstr \<Rightarrow> int) \<Rightarrow> jval \<Rightarrow> jval list res" where
  "workflowNodes localeCompare d = purposeNodes localeCompare ''story_generation'' ''WORKFLOW_NOT_STORY_GENERATION'' STORY_NODE_TYPES d"

definition caseWorkflowNodes :: "(jstr \<Rightarrow> jstr \<Rightarrow> int) \<Rightarrow> jval \<Rightarrow> jval list res" where
  "caseWorkflowNodes localeCompare d = purposeNodes localeCompare ''test_case_generation'' ''WORKFLOW_NOT_TEST_CASE_GENERATION'' CASE_NODE_TYPES d"

section \<open>The analysis of an answer\<close>

definition analysisIn :: "jval \<Rightarrow> jval" where
  "analysisIn value = (if is_object (js_get value ''analysis'') then js_get value ''analysis'' else value)"

definition READINESS :: "jstr list" where
  "READINESS = [''READY'', ''NEEDS_CLARIFICATION'', ''BLOCKED'']"

definition validAnalysis :: "jval \<Rightarrow> bool" where
  "validAnalysis analysis \<longleftrightarrow> is_object analysis \<and> toUpperCase (text_of (js_get analysis ''readiness'')) \<in> set READINESS
     \<and> is_array (js_get analysis ''questions'') \<and> is_array (js_get analysis ''proposed_assumptions'')"

definition closedQuestions :: "jval \<Rightarrow> jstr list" where
  "closedQuestions c = filter (\<lambda>q. q \<noteq> []) (map (\<lambda>item. trim (text_of (js_get item ''question'')))
     (filter (\<lambda>item. toUpperCase (text_of (js_get item ''scope_decision'')) = ''OUT_OF_SCOPE'') (arr_elems (js_get c ''question_answers''))))"

definition openQuestions :: "jval \<Rightarrow> jval \<Rightarrow> jstr list" where
  "openQuestions analysis c =
     filter (\<lambda>q. q \<noteq> [] \<and> q \<notin> set (closedQuestions c)) (map (\<lambda>q. trim (text_of q)) (arr_elems (js_get analysis ''questions'')))"

definition nextReadiness :: "jstr \<Rightarrow> jstr list \<Rightarrow> jval list \<Rightarrow> jstr" where
  "nextReadiness readiness questions assumptions =
     (if readiness = ''BLOCKED'' then ''BLOCKED''
      else if questions \<noteq> [] \<or> list_ex (\<lambda>item. toUpperCase (text_of (js_get item ''risk'')) = ''CRITICAL'') assumptions then ''NEEDS_CLARIFICATION''
      else if readiness = ''NEEDS_CLARIFICATION'' then ''READY'' else readiness)"

definition caseAnalysis :: "jval \<Rightarrow> jval \<Rightarrow> jval" where
  "caseAnalysis value c =
     (let analysis = analysisIn value; questions = openQuestions analysis c in
      if \<not> validAnalysis analysis then JNull
      else JObj (obj_spread (own_props analysis)
        [(''readiness'', JStr (nextReadiness (toUpperCase (text_of (js_get analysis ''readiness''))) questions (arr_elems (js_get analysis ''proposed_assumptions'')))),
         (''questions'', JArr (map JStr questions))]))"

definition analysisFromOutput :: "jval \<Rightarrow> jval" where
  "analysisFromOutput value =
     (let analysis = analysisIn value in
      if \<not> validAnalysis analysis then JNull
      else JObj (obj_put (own_props analysis) ''readiness''
        (JStr (if list_ex (\<lambda>q. trim (text_of q) \<noteq> []) (arr_elems (js_get analysis ''questions'')) then ''NEEDS_CLARIFICATION''
           else toUpperCase (text_of (js_get analysis ''readiness''))))))"

definition generationAnalysisContext :: "jval \<Rightarrow> jval" where
  "generationAnalysisContext analysis =
     (if \<not> is_object analysis then JNull
      else JObj (filter (\<lambda>kv. fst kv \<notin> {''story_outline'', ''estimacion'', ''source_inventory''}) (own_props analysis)))"

section \<open>Comparison of intents\<close>

definition intentMatch :: "jval list \<Rightarrow> jval \<Rightarrow> jval list" where
  "intentMatch existing m =
     (let story = (case map_of (rev (map (\<lambda>item. (text_of (js_get item ''id''), item)) existing)) (text_of (js_get m ''existing_story_id'')) of
          Some s \<Rightarrow> s | None \<Rightarrow> JUndef);
          confidence' = toUpperCase (text_of (js_get m ''confidence'')) in
      if \<not> truthy story \<or> js_get m ''same_intent'' \<noteq> JBool True \<or> confidence' \<notin> {''HIGH'', ''MEDIUM''} then []
      else [JObj [(''id'', JStr (to_string (js_get story ''id''))), (''codigo'', JStr (text_of (js_get story ''codigo''))),
        (''titulo'', JStr (text_of (js_get story ''titulo''))), (''kind'', JStr ''AI_INTENT''), (''confidence'', JStr confidence'),
        (''reason'', JStr (take 400 (text_of (js_get m ''reason''))))]])"

definition normalizeIntentComparisons :: "jval \<Rightarrow> jval list \<Rightarrow> jval list \<Rightarrow> (jstr \<times> jval list) list" where
  "normalizeIntentComparisons value proposals existing =
     concat (map (\<lambda>item.
       let proposalId = text_of (js_get item ''proposal_local_id'');
           matches = concat (map (intentMatch existing) (arr_elems (js_get item ''matches''))) in
       if proposalId \<notin> set (map (\<lambda>p. text_of (js_get p ''local_id'')) proposals) \<or> matches = [] then [] else [(proposalId, matches)])
     (arr_elems (js_get value ''comparisons'')))"

section \<open>The proposals of an answer\<close>

definition ACCEPTANCE_CRITERION_TYPES :: "jstr list" where
  "ACCEPTANCE_CRITERION_TYPES = [''FUNCTIONAL'', ''SECURITY'', ''ACCESSIBILITY'', ''PERFORMANCE'', ''TECHNICAL'']"

definition criterionType :: "jstr \<Rightarrow> jstr" where
  "criterionType rawType =
     (if rawType \<in> set ACCEPTANCE_CRITERION_TYPES then rawType
      else if str_includes rawType ''SECURITY'' then ''SECURITY''
      else if str_includes rawType ''ACCESSIBILITY'' then ''ACCESSIBILITY''
      else if str_includes rawType ''PERFORMANCE'' then ''PERFORMANCE''
      else if str_includes rawType ''TECHNICAL'' then ''TECHNICAL''
      else ''FUNCTIONAL'')"

definition normalizeCriterion :: "jval \<Rightarrow> jval" where
  "normalizeCriterion criterion =
     (if \<not> is_object criterion then criterion
      else JObj (obj_put (own_props criterion) ''type''
        (JStr (criterionType (toUpperCase (to_string (js_or (js_get criterion ''type'') (JStr ''FUNCTIONAL'')))))))) "

definition DEFAULT_QUALITY :: jobj where
  "DEFAULT_QUALITY =
     [(''invest'', JObj []), (''testability'', JStr ''WARN''), (''duplicate_risk'', JStr ''LOW''), (''overlap_risk'', JStr ''LOW''),
      (''implementation_leakage'', JArr []),
      (''warnings'', JArr [JStr (''Calidad pendiente de validaci'' @ [CHR 0xF3] @ ''n determin'' @ [CHR 0xED] @ ''stica.'')])]"

definition normalizeGeneratedProposal :: "jval \<Rightarrow> jval" where
  "normalizeGeneratedProposal proposal =
     (if \<not> is_object proposal then proposal
      else let quality = js_get proposal ''quality''; criteria = js_get proposal ''acceptance_criteria'';
               withQuality = obj_put (own_props proposal) ''quality'' (JObj (obj_spread DEFAULT_QUALITY (if is_object quality then own_props quality else []))) in
        JObj (if is_array criteria then obj_put withQuality ''acceptance_criteria'' (JArr (map normalizeCriterion (arr_elems criteria))) else withQuality))"

definition sourceReferencesForGeneration :: "jval \<Rightarrow> jstr list" where
  "sourceReferencesForGeneration c =
     (let ref = (\<lambda>prefix item. if truthy (js_get item ''id'') then [prefix @ to_string (js_get item ''id'')] else []) in
      ref ''requirement:'' (js_get c ''requisito'')
      @ concat (map (ref ''component:'') (arr_elems (js_get c ''componentes'')))
      @ concat (map (ref ''wiki:'') (arr_elems (js_get c ''wiki''))))"

definition padded :: "jnum \<Rightarrow> jstr" where
  "padded n = replicate (3 - length (num_str n)) (CHR ''0'') @ num_str n"

definition array_or_empty :: "jval \<Rightarrow> jval" where
  "array_or_empty v = (if is_array v then v else JArr [])"

definition enrichCriterion :: "jnum \<Rightarrow> nat \<times> jval \<Rightarrow> jval" where
  "enrichCriterion proposalNumber = (\<lambda>(index, criterion).
     JObj (obj_spread (own_props criterion)
       [(''local_id'', JStr (to_string (js_or (js_get criterion ''local_id'') (JStr (''AC-PROP-'' @ padded proposalNumber @ ''-'' @ nat_str (index + 1)))))),
        (''mandatory'', JBool (js_get criterion ''mandatory'' \<noteq> JBool False)),
        (''source_refs'', array_or_empty (js_get criterion ''source_refs'')),
        (''assumption_ids'', array_or_empty (js_get criterion ''assumption_ids''))]))"

definition enrichCompactStoryProposal :: "jval \<Rightarrow> jnum \<Rightarrow> jval" where
  "enrichCompactStoryProposal proposal proposalNumber =
     (if \<not> is_object proposal then proposal
      else let criteria = js_get proposal ''acceptance_criteria'' in
        normalizeGeneratedProposal (JObj (obj_spread (own_props proposal)
          [(''local_id'', JStr (to_string (js_or (js_get proposal ''local_id'') (JStr (''PROP-'' @ padded proposalNumber))))),
           (''source_refs'', array_or_empty (js_get proposal ''source_refs'')),
           (''assumption_ids'', array_or_empty (js_get proposal ''assumption_ids'')),
           (''open_questions'', array_or_empty (js_get proposal ''open_questions'')),
           (''acceptance_criteria'', if is_array criteria then JArr (map (enrichCriterion proposalNumber) (enumerate 0 (arr_elems criteria))) else criteria)])))"

section \<open>References to assumptions\<close>

definition strings_of :: "jval \<Rightarrow> jstr list" where
  "strings_of v = map to_string (arr_elems v)"

definition rejectedRefs :: "jstr list \<Rightarrow> jval \<Rightarrow> jstr list" where
  "rejectedRefs accepted v = filter (\<lambda>i. i \<notin> set accepted) (strings_of (js_get v ''assumption_ids''))"

definition acceptedRefs :: "jstr list \<Rightarrow> jval \<Rightarrow> jstr list" where
  "acceptedRefs accepted v = filter (\<lambda>i. i \<in> set accepted) (strings_of (js_get v ''assumption_ids''))"

text \<open>The references to assumptions that are not accepted are dropped from what cites an allowed source.\<close>

definition droppable :: "jstr list \<Rightarrow> jstr list \<Rightarrow> jval \<Rightarrow> bool" where
  "droppable allowed accepted v \<longleftrightarrow> rejectedRefs accepted v \<noteq> [] \<and> list_ex (\<lambda>i. i \<in> set allowed) (strings_of (js_get v ''source_refs''))"

record removed_refs =
  rm_proposal :: jstr
  rm_criterion :: "jstr option"
  rm_ids :: "jstr list"

definition cleanCriterion :: "jstr list \<Rightarrow> jstr list \<Rightarrow> jval \<Rightarrow> jval" where
  "cleanCriterion allowed accepted criterion =
     (if \<not> is_object criterion \<or> \<not> droppable allowed accepted criterion then criterion
      else JObj (obj_put (own_props criterion) ''assumption_ids'' (JArr (map JStr (acceptedRefs accepted criterion)))))"

definition removedCriterion :: "jstr list \<Rightarrow> jstr list \<Rightarrow> jstr \<Rightarrow> jval \<Rightarrow> removed_refs list" where
  "removedCriterion allowed accepted proposalId criterion =
     (let i = take 100 (text_of (js_get criterion ''local_id'')) in
      if \<not> is_object criterion \<or> \<not> droppable allowed accepted criterion then []
      else [\<lparr>rm_proposal = proposalId, rm_criterion = (if i = [] then None else Some i), rm_ids = take 20 (rejectedRefs accepted criterion)\<rparr>])"

definition cleanProposal :: "jstr list \<Rightarrow> jstr list \<Rightarrow> jval \<Rightarrow> jval" where
  "cleanProposal allowed accepted proposal =
     (let criteria = js_get proposal ''acceptance_criteria'' in
      if \<not> is_object proposal then proposal
      else JObj (obj_spread (own_props proposal)
        [(''assumption_ids'', JArr (map JStr (if droppable allowed accepted proposal then acceptedRefs accepted proposal else strings_of (js_get proposal ''assumption_ids'')))),
         (''acceptance_criteria'', if is_array criteria then JArr (map (cleanCriterion allowed accepted) (arr_elems criteria)) else criteria)]))"

definition removedProposal :: "jstr list \<Rightarrow> jstr list \<Rightarrow> jval \<Rightarrow> removed_refs list" where
  "removedProposal allowed accepted proposal =
     (let proposalId = take 100 (text_of (js_get proposal ''local_id'')) in
      if \<not> is_object proposal then []
      else (if droppable allowed accepted proposal
            then [\<lparr>rm_proposal = proposalId, rm_criterion = None, rm_ids = take 20 (rejectedRefs accepted proposal)\<rparr>] else [])
        @ concat (map (removedCriterion allowed accepted proposalId) (arr_elems (js_get proposal ''acceptance_criteria''))))"

definition removeUnacceptedStoryAssumptionRefs :: "jval list \<Rightarrow> jstr list \<Rightarrow> jstr list \<Rightarrow> jval list \<times> removed_refs list" where
  "removeUnacceptedStoryAssumptionRefs proposals allowed accepted =
     (map (cleanProposal allowed accepted) proposals, take 50 (concat (map (removedProposal allowed accepted) proposals)))"

section \<open>The contract of a story\<close>

definition blank :: "jval \<Rightarrow> jstr \<Rightarrow> bool" where
  "blank v field = (trim (text_of (js_get v field)) = [])"

definition isCompleteStoryProposal :: "jval \<Rightarrow> bool" where
  "isCompleteStoryProposal value \<longleftrightarrow>
     is_object value \<and> list_all (\<lambda>field. \<not> blank value field) [''local_id'', ''title'', ''story_type'', ''actor'', ''goal'', ''benefit'']
     \<and> is_array (js_get value ''acceptance_criteria'') \<and> is_object (js_get value ''quality'')
     \<and> list_all (\<lambda>criterion. is_object criterion \<and> \<not> blank criterion ''local_id'' \<and> \<not> blank criterion ''title'') (arr_elems (js_get value ''acceptance_criteria''))"

definition completeStoryProposalSet :: "jval \<Rightarrow> bool" where
  "completeStoryProposalSet value \<longleftrightarrow> is_array value \<and> arr_elems value \<noteq> [] \<and> list_all isCompleteStoryProposal (arr_elems value)"

definition STORY_FIELDS :: "jstr list" where
  "STORY_FIELDS = [''local_id'', ''story_type'', ''title'', ''actor'', ''goal'', ''benefit'', ''description'']"

definition CRITERION_FIELDS :: "jstr list" where
  "CRITERION_FIELDS = [''local_id'', ''type'', ''title'', ''given'', ''when'', ''observable_result'']"

definition criterionIssues :: "jstr list \<Rightarrow> jstr list \<Rightarrow> nat \<times> jval \<Rightarrow> jstr list" where
  "criterionIssues allowed accepted = (\<lambda>(index, criterion).
     (let name = ''El criterio '' @ nat_str (index + 1);
          sourceRefs = strings_of (js_get criterion ''source_refs''); assumptionIds = strings_of (js_get criterion ''assumption_ids'') in
      if \<not> is_object criterion then [name @ '' no es un objeto JSON.'']
      else map (\<lambda>field. name @ '' no tiene '' @ field @ ''.'') (filter (blank criterion) CRITERION_FIELDS)
        @ (if list_ex (\<lambda>item. trim (text_of item) \<noteq> []) (arr_elems (js_get criterion ''then'')) then [] else [name @ '' no tiene then.''])
        @ (if list_all (\<lambda>i. i \<in> set allowed) sourceRefs then [] else [name @ '' cita fuentes que no est'' @ [CHR 0xE1] @ ''n en el contexto.''])
        @ (if list_all (\<lambda>i. i \<in> set accepted) assumptionIds then [] else [name @ '' cita supuestos no aceptados.''])
        @ (if list_ex (\<lambda>i. i \<in> set allowed) sourceRefs \<or> list_ex (\<lambda>i. i \<in> set accepted) assumptionIds then []
           else [name @ '' necesita una fuente del contexto o un supuesto aceptado.''])))"

definition storyContractIssues :: "jval \<Rightarrow> jstr list \<Rightarrow> jstr list \<Rightarrow> jstr list" where
  "storyContractIssues value allowed accepted =
     (case arr_elems value of
        [] \<Rightarrow> [''No se devolvi'' @ [CHR 0xF3] @ '' ninguna propuesta.'']
      | proposal # _ \<Rightarrow>
          if \<not> is_object proposal then [''La propuesta no es un objeto JSON.'']
          else map (\<lambda>field. ''Falta '' @ field @ ''.'') (filter (blank proposal) STORY_FIELDS)
            @ (if \<not> is_array (js_get proposal ''source_refs'') \<and> \<not> is_array (js_get proposal ''assumption_ids'')
               then [''Falta la trazabilidad de la propuesta.''] else [])
            @ (case arr_elems (js_get proposal ''acceptance_criteria'') of
                 [] \<Rightarrow> [''Falta al menos un criterio de aceptaci'' @ [CHR 0xF3] @ ''n.'']
               | criteria \<Rightarrow> concat (map (criterionIssues allowed accepted) (enumerate 0 criteria)))
            @ (if is_object (js_get proposal ''quality'') then [] else [''Falta quality.'']))"

definition compactPriorProposals :: "jval \<Rightarrow> jval list" where
  "compactPriorProposals value =
     (let items = arr_elems value in
      map (\<lambda>proposal. JObj
        [(''local_id'', JStr (text_of (js_get proposal ''local_id''))),
         (''title'', JStr (take 300 (text_of (js_or (js_get proposal ''title'') (js_get proposal ''titulo''))))),
         (''actor'', JStr (take 160 (text_of (js_get proposal ''actor'')))), (''goal'', JStr (take 500 (text_of (js_get proposal ''goal''))))])
      (drop (length items - 10) items))"

section \<open>Finding the proposals\<close>

definition titled :: "jval \<Rightarrow> bool" where
  "titled item \<longleftrightarrow> is_object item \<and> (truthy (js_get item ''title'') \<or> truthy (js_get item ''titulo''))"

definition WRAPPERS :: "jstr list" where
  "WRAPPERS = [''propuestas'', ''historias'', ''decision'', ''data'', ''result'', ''output'']"

definition wrapped :: "jval \<Rightarrow> jval list" where
  "wrapped current = filter (\<lambda>v. v \<noteq> JUndef) (map (js_get current) WRAPPERS)"

lemma size_elem: "x \<in> set xs \<Longrightarrow> size x < size (JArr xs)"
  by (induction xs) auto

lemma size_get: "js_get (JObj o') k = v \<Longrightarrow> k \<notin> set object_proto \<Longrightarrow> v \<noteq> JUndef \<Longrightarrow> size v < size (JObj o')"
proof -
  assume "js_get (JObj o') k = v" "k \<notin> set object_proto" "v \<noteq> JUndef"
  then have "(k, v) \<in> set o'" by (auto simp: obj_get_def split: option.splits dest: map_of_SomeD)
  then show ?thesis by (induction o') auto
qed

lemma wrapped_smaller: "is_object current \<Longrightarrow> \<not> is_array current \<Longrightarrow> v \<in> set (wrapped current) \<Longrightarrow> size v < size current"
proof (cases current)
  case (JObj o')
  moreover have "k \<in> set WRAPPERS \<Longrightarrow> k \<notin> set object_proto" for k by (auto simp: WRAPPERS_def object_proto_def)
  moreover assume "v \<in> set (wrapped current)"
  ultimately show ?thesis using size_get by (auto simp: wrapped_def)
qed (auto simp: wrapped_def WRAPPERS_def object_proto_def)

lemma queue_smaller:
  "(\<And>v. v \<in> set vs \<Longrightarrow> size v < size current) \<Longrightarrow> (mset (rest @ vs), mset (current # rest)) \<in> mult (measure size)"
  using one_step_implies_mult [of "{#current#}" "mset vs" "measure size" "mset rest"] by auto

function find_proposals :: "jval list \<Rightarrow> jval list" where
  "find_proposals [] = []"
| "find_proposals (current # queue) =
     (if \<not> is_object current then find_proposals queue
      else if is_array current then
        (if list_ex titled (arr_elems current) then arr_elems current else find_proposals (queue @ arr_elems current))
      else find_proposals (queue @ wrapped current))"
  by pat_completeness auto
termination
proof (relation "inv_image (mult (measure size)) mset", goal_cases)
  case 1
  show ?case by (simp add: wf_mult)
next
  case (2 current queue)
  show ?case using queue_smaller [of "[]" current queue] by simp
next
  case (3 current queue)
  have "size v < size current" if "v \<in> set (arr_elems current)" for v using 3 that size_elem by (cases current) auto
  then show ?case using queue_smaller [of "arr_elems current" current queue] by simp
next
  case (4 current queue)
  show ?case using queue_smaller [of "wrapped current" current queue] wrapped_smaller 4 by simp
qed

definition extractStoryProposals :: "jval \<Rightarrow> jval list" where
  "extractStoryProposals value = find_proposals [value]"

record slot =
  sl_proposals :: "jval list"
  sl_count :: nat
  sl_index :: jnum

definition element_at :: "jval list \<Rightarrow> jnum \<Rightarrow> jval" where
  "element_at xs n = (case n of Fin q \<Rightarrow> if 0 \<le> q \<and> q = of_int \<lfloor>q\<rfloor> \<and> nat \<lfloor>q\<rfloor> < length xs then xs ! nat \<lfloor>q\<rfloor> else JUndef | _ \<Rightarrow> JUndef)"

definition proposalForSlot :: "jval \<Rightarrow> jnum \<Rightarrow> slot" where
  "proposalForSlot out proposalNumber =
     (let candidates = extractStoryProposals out;
          index = num_min (num_max (Fin 0) (num_add proposalNumber (Fin (- 1)))) (Fin (of_nat (length candidates - 1))) in
      if candidates \<noteq> [] then \<lparr>sl_proposals = [normalizeGeneratedProposal (element_at candidates index)], sl_count = length candidates, sl_index = index\<rparr>
      else if titled out then \<lparr>sl_proposals = [normalizeGeneratedProposal out], sl_count = 1, sl_index = Fin 0\<rparr>
      else \<lparr>sl_proposals = [], sl_count = 0, sl_index = Fin (- 1)\<rparr>)"

end
