(* ===== verification/SourceProofs.thy ===== *)
theory SourceProofs
  imports AnalysisReview StoryContracts
begin

text \<open>
  What the preparation of the sources keeps (the parts of a source cover it, the rules of the inventory quote their source), what a valid audit
  of an analysis accounts for, and what the contract of a story requires.
\<close>

section \<open>What preparation keeps\<close>

lemma shrink_bounds: "0 < n \<Longrightarrow> 0 < shrink p n \<and> shrink p n \<le> n \<and> (shrink p n = 1 \<or> \<not> p (shrink p n))"
proof (induction p n rule: shrink.induct)
  case (1 p n)
  then show ?case by (subst (1 2 3 4) shrink.simps) (auto simp: div_less_dividend intro: le_trans)
qed

lemma partSize_bounds:
  assumes "offset < length t"
  shows "0 < partSize l i t offset" "partSize l i t offset \<le> length t - offset" "partSize l i t offset \<le> chunkSize l"
    "partSize l i t offset = 1 \<or> \<not> too_long l i t offset (partSize l i t offset)"
proof -
  have "0 < min (chunkSize l) (length t - offset)" using assms by (simp add: chunkSize_def)
  from shrink_bounds [OF this] show "0 < partSize l i t offset" "partSize l i t offset \<le> length t - offset" "partSize l i t offset \<le> chunkSize l"
    "partSize l i t offset = 1 \<or> \<not> too_long l i t offset (partSize l i t offset)"
    unfolding partSize_def by (metis min.bounded_iff)+
qed

text \<open>The parts of a text from an offset on: each starts where the text has been read to, or up to \<open>overlap\<close> characters before, and the last one ends the text.\<close>

fun tiles :: "jstr \<Rightarrow> nat \<Rightarrow> jstr list \<Rightarrow> bool" where
  "tiles t offset [] = (length t \<le> offset)"
| "tiles t offset (part # parts) =
     (part \<noteq> [] \<and> take (length part) (drop offset t) = part \<and>
      (if length part = length t - offset then parts = [] else tiles t (offset + max 1 (length part - overlap (length part))) parts))"

lemma parts_tile:
  "\<exists>parts. partsFrom l i t offset = Inr parts \<and> tiles t offset parts \<and>
     (\<forall>part \<in> set parts. length part \<le> chunkSize l)"
proof (induction l i t offset rule: partsFrom.induct)
  case (1 l i t offset)
  show ?case
  proof (cases "offset < length t")
    case False
    then show ?thesis by (subst partsFrom.simps) simp
  next
    case True
    let ?n = "partSize l i t offset"
    let ?part = "take ?n (drop offset t)"
    have n: "0 < ?n" "?n \<le> length t - offset" "?n \<le> chunkSize l" using partSize_bounds [OF True] by blast+
    then have len: "length ?part = ?n" by simp
    obtain parts where parts: "partsFrom l i t (offset + advance t offset ?n) = Inr parts" "tiles t (offset + advance t offset ?n) parts"
        "\<forall>part \<in> set parts. length part \<le> chunkSize l"
      using 1 True n(1) by fastforce
    have "?n = length t - offset \<Longrightarrow> parts = []"
      using parts(1) True by (subst (asm) partsFrom.simps) (simp add: advance_def)
    then show ?thesis
      using True n parts len by (subst partsFrom.simps) (auto simp: Let_def advance_def split: if_splits)
  qed
qed

lemma tiles_covers: "tiles t offset parts \<Longrightarrow> offset \<le> k \<Longrightarrow> k < length t \<Longrightarrow> \<exists>o' part. part \<in> set parts \<and> o' \<le> k \<and> k < o' + length part \<and> take (length part) (drop o' t) = part"
proof (induction parts arbitrary: offset)
  case (Cons part parts)
  show ?case
  proof (cases "k < offset + length part")
    case True
    then show ?thesis using Cons.prems by force
  next
    case False
    then have "length part \<noteq> length t - offset" using Cons.prems by auto
    moreover have "offset + max 1 (length part - overlap (length part)) \<le> k" using False Cons.prems by (cases part) auto
    ultimately show ?thesis using Cons.IH [of "offset + max 1 (length part - overlap (length part))"] Cons.prems by fastforce
  qed
qed simp

text \<open>The rules of an inventory quote the source they come from.\<close>

definition quotes_of :: "jstr list \<Rightarrow> source_rule list \<Rightarrow> bool" where
  "quotes_of leaves rules \<longleftrightarrow> (\<forall>(t, q) \<in> set rules. 3 \<le> length q \<and> list_ex (\<lambda>leaf. str_includes leaf q) leaves)"

lemma addRule_quotes: "addRule leaves rules rule = Inr rules' \<Longrightarrow> quotes_of leaves rules \<Longrightarrow> quotes_of leaves rules'"
  by (auto simp: addRule_def Let_def quotes_of_def split: if_splits)

lemma readPart_quotes:
  assumes "readPart agent leaves i n s part = Inr s'" "quotes_of leaves (fst s)"
  shows "quotes_of leaves (fst s')"
proof -
  obtain rules qs trs index p where s: "s = (rules, qs, trs)" "part = (index, p)" by (metis prod.exhaust)
  from assms(1) obtain raw rules' where "fold_res (addRule leaves) rules raw = Inr rules'" "fst s' = rules'"
    unfolding s readPart_def by (auto simp: Let_def res_simps split: if_splits)
  then show ?thesis using fold_res_invariant [of "addRule leaves" rules raw rules' "quotes_of leaves"] addRule_quotes assms(2) s by auto
qed

definition entry_quotes :: "evidence_source \<Rightarrow> source_inventory \<Rightarrow> bool" where
  "entry_quotes source entry \<longleftrightarrow> si_id entry = es_id source \<and> quotes_of (textLeaves (es_content source)) (si_rules entry)"

lemma readSource_entry:
  assumes "readSource agent l p source = Inr p'"
  shows "\<exists>entry. pr_inventory p' = pr_inventory p @ [entry] \<and> entry_quotes source entry"
proof -
  from assms obtain t parts rules qs trs where f: "fold_res (readPart agent (textLeaves (es_content source)) (es_id source) (length parts)) ([], [], pr_traces p)
      (enumerate 0 parts) = Inr (rules, qs, trs)"
    and p': "pr_inventory p' = pr_inventory p @ [\<lparr>si_id = es_id source, si_type = es_type source, si_rules = rules,
      si_questions = rev (remdups (rev qs)), si_parts = length parts\<rparr>]"
    by (auto simp: readSource_def res_simps split: option.splits)
  have "quotes_of (textLeaves (es_content source)) (fst (rules, qs, trs))"
    using fold_res_invariant [OF f, of "\<lambda>s. quotes_of (textLeaves (es_content source)) (fst s)"] readPart_quotes by (simp add: quotes_of_def)
  then show ?thesis using p' by (auto simp: entry_quotes_def)
qed

lemma readSources_from: "fold_res (readSource agent l) p sources = Inr p' \<Longrightarrow>
   \<exists>entries. pr_inventory p' = pr_inventory p @ entries \<and> list_all2 entry_quotes sources entries"
proof (induction sources arbitrary: p)
  case (Cons source sources)
  then obtain p1 where p1: "readSource agent l p source = Inr p1" "fold_res (readSource agent l) p1 sources = Inr p'" by (auto simp: res_simps)
  obtain entry where "pr_inventory p1 = pr_inventory p @ [entry]" "entry_quotes source entry" using readSource_entry [OF p1(1)] by blast
  moreover obtain entries where "pr_inventory p' = pr_inventory p1 @ entries" "list_all2 entry_quotes sources entries" using Cons.IH [OF p1(2)] by blast
  ultimately show ?case by (intro exI [of _ "entry # entries"]) simp
qed simp

lemma readSources_entries: "readSources agent l sources = Inr p \<Longrightarrow> list_all2 entry_quotes sources (pr_inventory p)"
  using readSources_from [of agent l "\<lparr>pr_inventory = [], pr_traces = [], pr_total = 0\<rparr>"] unfolding readSources_def by fastforce

section \<open>The facts of a story are quotes\<close>

definition literal_fact :: "jstr \<Rightarrow> source_fact \<Rightarrow> bool" where
  "literal_fact description f \<longleftrightarrow> 3 \<le> length (sf_quote f) \<and> str_includes description (sf_quote f)"

lemma collect_literal: "list_all (literal_fact d) out \<Longrightarrow> list_all (literal_fact d) (collectFacts d i out seen raws)"
  by (induction d i out seen raws rule: collectFacts.induct) (simp_all add: Let_def literal_fact_def)

lemma first_issue_None: "first_issue f xys = None \<Longrightarrow> \<forall>(x, y) \<in> set xys. f x y = None"
  by (induction f xys rule: first_issue.induct) (auto split: option.splits)

lemma auditIssue_None:
  assumes "auditIssue raw analysis sources = None"
  shows "length (arr_elems (js_get raw ''question_decisions'')) = length (questionsOf analysis)"
    "length (arr_elems (js_get raw ''assumption_decisions'')) = length (assumptionsOf analysis)"
    "k < length (questionsOf analysis) \<Longrightarrow> questionIssue sources (arr_elems (js_get raw ''question_decisions'') ! k) (questionsOf analysis ! k) = None"
    "k < length (assumptionsOf analysis) \<Longrightarrow> assumptionIssue sources (judgedAssumption (arr_elems (js_get raw ''assumption_decisions'') ! k)) (assumptionsOf analysis ! k) = None"
proof -
  let ?ds = "arr_elems (js_get raw ''question_decisions'')" and ?js = "arr_elems (js_get raw ''assumption_decisions'')"
  have l: "length ?ds = length (questionsOf analysis)" "length ?js = length (assumptionsOf analysis)"
    and q: "first_issue (questionIssue sources) (zip ?ds (questionsOf analysis)) = None"
    and a: "first_issue (assumptionIssue sources) (zip (map judgedAssumption ?js) (assumptionsOf analysis)) = None"
    using assms by (auto simp: auditIssue_def Let_def split: if_splits option.splits)
  show "length ?ds = length (questionsOf analysis)" "length ?js = length (assumptionsOf analysis)" using l by blast+
  show "questionIssue sources (?ds ! k) (questionsOf analysis ! k) = None" if "k < length (questionsOf analysis)"
    using first_issue_None [OF q] that l(1) by (auto simp: set_zip)
  show "assumptionIssue sources (judgedAssumption (?js ! k)) (assumptionsOf analysis ! k) = None" if "k < length (assumptionsOf analysis)"
  proof -
    have "(judgedAssumption (?js ! k), assumptionsOf analysis ! k) \<in> set (zip (map judgedAssumption ?js) (assumptionsOf analysis))"
      using that l(2) by (force simp: set_zip)
    then show ?thesis using first_issue_None [OF a] by blast
  qed
qed

text \<open>A question is answered by a citation of a source, or the user has put it out of scope.\<close>

definition answered :: "evidence_source list \<Rightarrow> jval \<Rightarrow> bool" where
  "answered sources item \<longleftrightarrow> js_get item ''status'' = JStr ''ANSWERED'' \<and> trimmed_text (js_get item ''answer'') \<noteq> []
     \<and> arr_elems (js_get item ''evidence'') \<noteq> [] \<and> list_all (literalCitation sources) (arr_elems (js_get item ''evidence''))"

definition excluded :: "evidence_source list \<Rightarrow> jval \<Rightarrow> jstr \<Rightarrow> bool" where
  "excluded sources item q \<longleftrightarrow> scoped_out item \<and> (\<exists>source \<in> set sources. isBoundary source \<and> text_of (es_id source) = trimmed_text (js_get item ''scope_boundary_id'')
     \<and> trimmed_text (js_get (es_content source) ''pregunta'') = q)"

lemma boundary_source: "scopeBoundaries sources i = Some q \<Longrightarrow> \<exists>source \<in> set sources. isBoundary source \<and> text_of (es_id source) = i
     \<and> trimmed_text (js_get (es_content source) ''pregunta'') = q"
  unfolding scopeBoundaries_def by (drule map_of_SomeD) auto

lemma question_closed:
  assumes "questionIssue sources item q = None" "closes item"
  shows "answered sources item \<or> excluded sources item q"
proof (cases "scoped_out item")
  case True
  then have "scopeBoundaries sources (trimmed_text (js_get item ''scope_boundary_id'')) = Some q"
    using assms(1) by (simp add: questionIssue_def scoped_out_def Let_def split: if_splits)
  then show ?thesis using boundary_source True by (simp add: excluded_def)
next
  case False
  then have st: "js_get item ''status'' = JStr ''ANSWERED''" using assms(2) by (auto simp: closes_def scoped_out_def)
  then show ?thesis using assms(1) by (auto simp: questionIssue_def answered_def validEvidence_def Let_def split: if_splits)
qed

lemma question_text: "questionIssue sources item q = None \<Longrightarrow> trimmed_text (js_get item ''question'') = q"
  by (auto simp: questionIssue_def Let_def split: if_splits)

definition explicit_fact :: "evidence_source list \<Rightarrow> jval \<Rightarrow> bool" where
  "explicit_fact sources item \<longleftrightarrow> js_get item ''status'' = JStr ''EXPLICIT'' \<and> arr_elems (js_get item ''evidence'') \<noteq> []
     \<and> list_all (literalCitation sources) (arr_elems (js_get item ''evidence''))"

definition unnecessary :: "jval \<Rightarrow> bool" where
  "unnecessary item \<longleftrightarrow> js_get item ''status'' = JStr ''UNNECESSARY'' \<and> trimmed_text (js_get item ''reason'') \<noteq> []"

lemma judged_status:
  "js_get (judgedAssumption item) ''status'' =
     (if js_get item ''status'' = JStr ''UNNECESSARY'' \<and> trimmed_text (js_get item ''reason'') = [] then JStr ''UNCERTAIN'' else js_get item ''status'')"
  by (simp add: judgedAssumption_def obj_get_obj_put_eq)

lemma judged_other: "js_get item ''status'' \<noteq> JStr ''UNNECESSARY'' \<Longrightarrow> judgedAssumption item = item"
  by (simp add: judgedAssumption_def)

lemma assumption_dropped:
  assumes "assumptionIssue sources (judgedAssumption item) original = None" "\<not> keeps_open (judgedAssumption item)"
  shows "explicit_fact sources item \<or> unnecessary item"
proof -
  have st: "js_get (judgedAssumption item) ''status'' \<in> {JStr ''EXPLICIT'', JStr ''UNNECESSARY''}"
    using assms by (auto simp: assumptionIssue_def keeps_open_def split: if_splits)
  then consider "js_get item ''status'' = JStr ''EXPLICIT''" | "js_get item ''status'' = JStr ''UNNECESSARY''" "trimmed_text (js_get item ''reason'') \<noteq> []"
    by (auto simp: judged_status split: if_splits)
  then show ?thesis
  proof cases
    case 1
    then have "judgedAssumption item = item" by (simp add: judged_other)
    then show ?thesis using assms(1) 1 by (auto simp: assumptionIssue_def explicit_fact_def validEvidence_def split: if_splits)
  qed (simp add: unnecessary_def)
qed

lemma audited_fields:
  assumes "auditedAnalysis raw analysis = Inr updated"
  defines "open' \<equiv> map (\<lambda>item. js_get item ''question'') (filter (\<lambda>item. \<not> closes item) (arr_elems (js_get raw ''question_decisions'')))"
    and "retained \<equiv> retainedAssumptions (map judgedAssumption (arr_elems (js_get raw ''assumption_decisions''))) (assumptionsOf analysis)"
  shows "js_get updated ''questions'' = JArr open'" "js_get updated ''proposed_assumptions'' = JArr retained"
    "js_get updated ''readiness'' = JStr (readinessOf open' retained)"
  using assms by (auto simp: auditedAnalysis_def Let_def res_simps obj_spread_def obj_get_obj_put_eq)

lemma retained_mem:
  assumes "k < length js" "length js = length originals" "keeps_open (js ! k)"
  shows "originals ! k \<in> set (retainedAssumptions js originals)"
proof -
  have "(js ! k, originals ! k) \<in> set (zip js originals)" using assms by (auto simp: set_zip)
  then show ?thesis using assms(3) by (force simp: retainedAssumptions_def)
qed

lemma readinessOf_ready: "readinessOf questions assumptions = ''READY'' \<longleftrightarrow> questions = [] \<and> assumptions = []"
  by (auto simp: readinessOf_def)

lemma audit_cases:
  assumes "checkedRequirementAnalysisAudit raw analysis sources = Inr a"
  obtains "au_valid a" "auditIssue raw analysis sources = None" "auditedAnalysis raw analysis = Inr (au_analysis a)"
  | "\<not> au_valid a" "au_analysis a = analysis"
  using assms by (auto simp: checkedRequirementAnalysisAudit_def res_simps split: option.splits)

text \<open>C12. A valid audit of an analysis accounts for every question and assumption: a question is answered with literal quotes of the sources, was put
  out of scope by the user in an answer to that very question, or is still open; an assumption is backed by literal quotes, declared unnecessary for a reason, or still to
  be decided; and the analysis is READY only when nothing is open.\<close>

theorem analysis_audit_accounts:
  assumes "checkedRequirementAnalysisAudit raw analysis sources = Inr a" "au_valid a"
  shows "(\<forall>k < length (questionsOf analysis). let item = arr_elems (js_get raw ''question_decisions'') ! k in
       answered sources item \<or> excluded sources item (questionsOf analysis ! k)
       \<or> (trimmed_text (js_get item ''question'') = questionsOf analysis ! k \<and> js_get item ''question'' \<in> set (arr_elems (js_get (au_analysis a) ''questions''))))
    \<and> (\<forall>k < length (assumptionsOf analysis). let item = arr_elems (js_get raw ''assumption_decisions'') ! k in
       explicit_fact sources item \<or> unnecessary item \<or> assumptionsOf analysis ! k \<in> set (arr_elems (js_get (au_analysis a) ''proposed_assumptions'')))
    \<and> (js_get (au_analysis a) ''readiness'' = JStr ''READY'' \<longleftrightarrow>
         arr_elems (js_get (au_analysis a) ''questions'') = [] \<and> arr_elems (js_get (au_analysis a) ''proposed_assumptions'') = [])"
proof -
  have issue: "auditIssue raw analysis sources = None" and updated: "auditedAnalysis raw analysis = Inr (au_analysis a)"
    using audit_cases [OF assms(1)] assms(2) by blast+
  let ?ds = "arr_elems (js_get raw ''question_decisions'')" and ?js = "arr_elems (js_get raw ''assumption_decisions'')"
  note none = auditIssue_None [OF issue] and fields = audited_fields [OF updated]
  have "answered sources (?ds ! k) \<or> excluded sources (?ds ! k) (questionsOf analysis ! k)
       \<or> (trimmed_text (js_get (?ds ! k) ''question'') = questionsOf analysis ! k \<and> js_get (?ds ! k) ''question'' \<in> set (arr_elems (js_get (au_analysis a) ''questions'')))"
    if k: "k < length (questionsOf analysis)" for k
  proof (cases "closes (?ds ! k)")
    case True
    then show ?thesis using question_closed [OF none(3) [OF k]] by blast
  next
    case False
    then show ?thesis using question_text [OF none(3) [OF k]] k none(1) by (auto simp: fields(1))
  qed
  moreover have "explicit_fact sources (?js ! k) \<or> unnecessary (?js ! k) \<or> assumptionsOf analysis ! k \<in> set (arr_elems (js_get (au_analysis a) ''proposed_assumptions''))"
    if k: "k < length (assumptionsOf analysis)" for k
  proof (cases "keeps_open (judgedAssumption (?js ! k))")
    case False
    then show ?thesis using assumption_dropped [OF none(4) [OF k]] by blast
  next
    case True
    then show ?thesis using retained_mem [of k "map judgedAssumption ?js" "assumptionsOf analysis"] k none(2) by (simp add: fields(2))
  qed
  moreover have "js_get (au_analysis a) ''readiness'' = JStr ''READY'' \<longleftrightarrow>
         arr_elems (js_get (au_analysis a) ''questions'') = [] \<and> arr_elems (js_get (au_analysis a) ''proposed_assumptions'') = []"
    by (simp only: fields arr_elems.simps jval.inject readinessOf_ready)
  ultimately show ?thesis by (simp only: Let_def) blast
qed

lemma inventory_source: "inventorySource x = Inr source \<Longrightarrow> js_get (es_content source) ''scope_decision'' = JUndef"
  by (auto simp: inventorySource_def res_simps obj_get_def object_proto_def)

lemma inventory_not_boundary: "inventorySource x = Inr source \<Longrightarrow> \<not> isBoundary source"
  using inventory_source [of x source] by (auto simp: isBoundary_def text_of_def toUpperCase_def)

lemma inventory_boundaries: "map_res inventorySource xs = Inr sources \<Longrightarrow> \<forall>source \<in> set sources. \<not> isBoundary source"
  by (induction xs arbitrary: sources) (auto simp: res_simps dest: inventory_not_boundary)

text \<open>C39. Once the sources of a generation are read as an inventory, the decisions of the user that put a question out of scope are lost: the audit that follows such
  a decision is rejected.\<close>

theorem inventory_loses_boundary:
  assumes "generationSources c = Inr sources" "js_member c ''source_inventory'' = Inr inventory" "truthy (js_get inventory ''complete'')" "is_array (js_get inventory ''sources'')"
    and "trimmed_text (js_get item ''question'') = q" "js_get item ''status'' = JStr ''OUT_OF_SCOPE''"
  shows "questionIssue sources item q = Some A_BOUNDARY"
proof -
  have "\<forall>source \<in> set sources. \<not> isBoundary source"
    using assms(1-4) inventory_boundaries by (auto simp: generationSources_def res_simps split: if_splits)
  then have "scopeBoundaries sources = Map.empty" by (simp add: scopeBoundaries_def)
  then show ?thesis using assms(5,6) by (simp add: questionIssue_def Let_def)
qed

text \<open>C40. An audit that passes every check throws when a question it puts out of scope has no answer, instead of the empty string.\<close>

theorem absent_answer_throws:
  assumes "auditIssue raw analysis sources = None" "item \<in> set (arr_elems (js_get raw ''question_decisions''))" "scoped_out item" "\<forall>s. js_get item ''answer'' \<noteq> JStr s"
  shows "\<exists>message. checkedRequirementAnalysisAudit raw analysis sources = Inl (TypeError message)"
proof -
  have throws: "\<exists>message. map_res resolvedQuestion items = Inl (TypeError message)" if "item \<in> set items" for items
    using that
  proof (induction items)
    case (Cons x items)
    show ?case
    proof (cases "resolvedQuestion x")
      case (Inl err)
      then show ?thesis by (auto simp: resolvedQuestion_def trimmed_def split: jval.splits)
    next
      case (Inr y)
      then have "x \<noteq> item" using assms(4) by (auto simp: resolvedQuestion_def trimmed_def split: jval.splits)
      then show ?thesis using Cons Inr by auto
    qed
  qed simp
  have "item \<in> set (filter closes (arr_elems (js_get raw ''question_decisions'')))" using assms(2,3) by (auto simp: closes_def scoped_out_def)
  from throws [OF this] show ?thesis using assms(1) by (auto simp: checkedRequirementAnalysisAudit_def auditedAnalysis_def Let_def)
qed

lemma criterionIssues_Nil:
  assumes "criterionIssues allowed accepted (k, criterion) = []"
  shows "is_object criterion" "set (strings_of (js_get criterion ''source_refs'')) \<subseteq> set allowed" "set (strings_of (js_get criterion ''assumption_ids'')) \<subseteq> set accepted"
    "strings_of (js_get criterion ''source_refs'') \<noteq> [] \<or> strings_of (js_get criterion ''assumption_ids'') \<noteq> []"
    "\<forall>field \<in> set CRITERION_FIELDS. \<not> blank criterion field" "\<exists>item \<in> set (arr_elems (js_get criterion ''then'')). trim (text_of item) \<noteq> []"
proof -
  let ?s = "strings_of (js_get criterion ''source_refs'')" and ?a = "strings_of (js_get criterion ''assumption_ids'')"
  have obj: "is_object criterion" using assms by (simp add: criterionIssues_def Let_def split: if_splits)
  with assms have "filter (blank criterion) CRITERION_FIELDS = []" "list_ex (\<lambda>item. trim (text_of item) \<noteq> []) (arr_elems (js_get criterion ''then''))"
      "list_all (\<lambda>i. i \<in> set allowed) ?s" "list_all (\<lambda>i. i \<in> set accepted) ?a"
      "list_ex (\<lambda>i. i \<in> set allowed) ?s \<or> list_ex (\<lambda>i. i \<in> set accepted) ?a"
    by (simp_all add: criterionIssues_def Let_def split: if_splits)
  then show "is_object criterion" "set ?s \<subseteq> set allowed" "set ?a \<subseteq> set accepted" "?s \<noteq> [] \<or> ?a \<noteq> []"
      "\<forall>field \<in> set CRITERION_FIELDS. \<not> blank criterion field" "\<exists>item \<in> set (arr_elems (js_get criterion ''then'')). trim (text_of item) \<noteq> []"
    using obj by (auto simp: list_all_iff list_ex_iff filter_empty_conv)
qed


text \<open>What is found is an array inside the value, one of whose elements has a title.\<close>

inductive inside :: "jval \<Rightarrow> jval \<Rightarrow> bool" where
  itself: "inside v v"
| element: "inside v (JArr xs) \<Longrightarrow> x \<in> set xs \<Longrightarrow> inside v x"
| member: "inside v w \<Longrightarrow> x \<in> set (wrapped w) \<Longrightarrow> inside v x"

lemma find_inside: "\<forall>w \<in> set queue. inside v w \<Longrightarrow> find_proposals queue = [] \<or> inside v (JArr (find_proposals queue)) \<and> list_ex titled (find_proposals queue)"
proof (induction queue rule: find_proposals.induct)
  case (2 current queue)
  have "is_array current \<Longrightarrow> current = JArr (arr_elems current)" by (cases current) auto
  then have "\<And>x. is_array current \<Longrightarrow> x \<in> set (arr_elems current) \<Longrightarrow> inside v x" using 2(4) inside.element [of v] by (metis list.set_intros(1))
  moreover have "\<And>x. x \<in> set (wrapped current) \<Longrightarrow> inside v x" using 2(4) inside.member [of v] by auto
  ultimately show ?case using 2 \<open>is_array current \<Longrightarrow> current = JArr (arr_elems current)\<close> by (auto split: if_splits)
qed simp

section \<open>Properties\<close>

text \<open>C33. The parts a source is read in can always be computed, none is longer than the chunk size, and together they cover the source: every character is in a part
  that is a piece of the source.\<close>

theorem source_parts_cover:
  "\<exists>parts. partsFrom l i t 0 = Inr parts \<and> (\<forall>part \<in> set parts. length part \<le> chunkSize l)
     \<and> (\<forall>k < length t. \<exists>start part. part \<in> set parts \<and> start \<le> k \<and> k < start + length part \<and> take (length part) (drop start t) = part)"
proof -
  obtain parts where p: "partsFrom l i t 0 = Inr parts" "tiles t 0 parts" "\<forall>part \<in> set parts. length part \<le> chunkSize l" using parts_tile by blast
  have "\<exists>start part. part \<in> set parts \<and> start \<le> k \<and> k < start + length part \<and> take (length part) (drop start t) = part" if "k < length t" for k
    using tiles_covers [OF p(2) _ that] by blast
  then show ?thesis using p(1,3) by blast
qed

theorem source_parts_cover_witness:
  "\<exists>parts start part. partsFrom 600 (JStr ''s'') ''alpha'' 0 = Inr parts \<and> part \<in> set parts \<and> start \<le> 4 \<and> 4 < start + length part
     \<and> take (length part) (drop start ''alpha'') = part"
proof -
  obtain parts where p: "partsFrom 600 (JStr ''s'') ''alpha'' 0 = Inr parts"
    and cover: "\<And>k. k < length ''alpha'' \<Longrightarrow> \<exists>start part. part \<in> set parts \<and> start \<le> k \<and> k < start + length part \<and> take (length part) (drop start ''alpha'') = part"
    using source_parts_cover [of 600 "JStr ''s''" "''alpha''"] by blast
  have "4 < length ''alpha''" by simp
  from cover [OF this] show ?thesis using p by blast
qed

text \<open>C30. The inventory has an entry for each source, in their order and with its identifier, and every rule of it quotes a text of that source literally.\<close>

theorem inventory_quotes:
  assumes "readSources agent inputLimit sources = Inr p"
  shows "length (pr_inventory p) = length sources \<and> (\<forall>k < length sources. si_id (pr_inventory p ! k) = es_id (sources ! k)
    \<and> (\<forall>(rule, q) \<in> set (si_rules (pr_inventory p ! k)). 3 \<le> length q \<and> (\<exists>leaf \<in> set (textLeaves (es_content (sources ! k))). str_includes leaf q)))"
proof -
  have e: "list_all2 entry_quotes sources (pr_inventory p)" by (rule readSources_entries [OF assms])
  have "entry_quotes (sources ! k) (pr_inventory p ! k)" if "k < length sources" for k using list_all2_nthD [OF e that] .
  then show ?thesis using list_all2_lengthD [OF e] by (simp add: entry_quotes_def quotes_of_def list_ex_iff)
qed

definition demo_extractor :: extractor where
  "demo_extractor n part = Inr \<lparr>ag_data = JObj [(''complete'', JBool True), (''rules'', JArr [JObj [(''text'', JStr ''r''), (''quote'', JStr ''alpha'')]]),
     (''questions'', JArr [])], ag_metrics = JNull\<rparr>"

lemma str_999999: "rat_str 999999 = ''999999''"
proof -
  have "digit_char 9 = CHR ''9''" by code_simp
  then show ?thesis by (simp add: rat_str_def int_str_def nat_str.simps)
qed

text \<open>The source \<^verbatim>\<open>alpha\<close> is read in one part.\<close>

lemma demo_short: "too_long 600 (JStr ''s'') (''\"alpha\"'') 0 7 = False"
  by (simp add: too_long_def json_text_of_def str_999999 json_quote_def json_escape_def code_unit_def, code_simp)

lemma demo_size: "partSize 600 (JStr ''s'') (''\"alpha\"'') 0 = 7"
proof -
  have "min (chunkSize 600) (length (''\"alpha\"'') - 0) = 7" by (simp add: chunkSize_def)
  then show ?thesis unfolding partSize_def by (simp only: shrink.simps [of _ 7] demo_short) simp
qed

lemma demo_parts: "partsFrom 600 (JStr ''s'') (''\"alpha\"'') 0 = Inr [(''\"alpha\"'')]"
  by (subst partsFrom.simps, simp add: demo_size advance_def, subst partsFrom.simps, simp)

lemma demo_quote: "json_quote ''alpha'' = (''\"alpha\"'')"
  by code_simp

lemma demo_read: "readPart demo_extractor [''alpha''] (JStr ''s'') 1 ([], [], []) (0, (''\"alpha\"'')) =
   Inr ([(''r'', ''alpha'')], [], [\<lparr>pt_source = JStr ''s'', pt_part = 1, pt_total = 1, pt_metrics = JNull\<rparr>])"
  by code_simp

lemma demo_inventory: "\<exists>p. readSources demo_extractor 600 [evidence ''s'' ''wiki'' (JStr ''alpha'')] = Inr p \<and> si_rules (pr_inventory p ! 0) = [(''r'', ''alpha'')]"
  using demo_read by (simp add: readSources_def readSource_def evidence_def demo_quote demo_parts)

theorem inventory_quotes_witness:
  "\<exists>p. readSources demo_extractor 600 [evidence ''s'' ''wiki'' (JStr ''alpha'')] = Inr p \<and> si_rules (pr_inventory p ! 0) = [(''r'', ''alpha'')]
     \<and> si_id (pr_inventory p ! 0) = JStr ''s''"
proof -
  obtain p where p: "readSources demo_extractor 600 [evidence ''s'' ''wiki'' (JStr ''alpha'')] = Inr p" "si_rules (pr_inventory p ! 0) = [(''r'', ''alpha'')]"
    using demo_inventory by blast
  from inventory_quotes [OF p(1)] have "si_id (pr_inventory p ! 0) = JStr ''s''" by (simp add: evidence_def)
  then show ?thesis using p by blast
qed

definition demo_analysis :: jval where
  "demo_analysis = JObj [(''questions'', JArr [JStr ''q?'']), (''proposed_assumptions'', JArr [])]"

definition demo_sources :: "evidence_source list" where
  "demo_sources = [evidence ''s'' ''wiki'' (JStr ''alpha''),
     evidence ''u'' ''user_answer'' (JObj [(''pregunta'', JStr ''q?''), (''respuesta'', JStr ''no''), (''scope_decision'', JStr ''OUT_OF_SCOPE'')])]"

definition demo_audit :: "jobj \<Rightarrow> jval" where
  "demo_audit decision = JObj [(''question_decisions'', JArr [JObj ((''question'', JStr ''q?'') # decision)]), (''assumption_decisions'', JArr [])]"

definition demo_answer :: jval where
  "demo_answer = demo_audit [(''status'', JStr ''ANSWERED''), (''answer'', JStr ''a''),
     (''evidence'', JArr [JObj [(''source_id'', JStr ''s''), (''quote'', JStr ''alpha'')]])]"

lemma demo_answered: "case checkedRequirementAnalysisAudit demo_answer demo_analysis demo_sources of
    Inr a \<Rightarrow> au_issue a = None \<and> js_get (au_analysis a) ''readiness'' = JStr ''READY'' | Inl _ \<Rightarrow> False"
  by code_simp

theorem analysis_audit_accounts_witness:
  "\<exists>a. checkedRequirementAnalysisAudit demo_answer demo_analysis demo_sources = Inr a \<and> js_get (au_analysis a) ''readiness'' = JStr ''READY''
     \<and> arr_elems (js_get (au_analysis a) ''questions'') = []"
proof -
  obtain a where a: "checkedRequirementAnalysisAudit demo_answer demo_analysis demo_sources = Inr a" "au_valid a" "js_get (au_analysis a) ''readiness'' = JStr ''READY''"
    using demo_answered by (auto split: sum.splits)
  from analysis_audit_accounts [OF a(1,2)] have "arr_elems (js_get (au_analysis a) ''questions'') = []" using a(3) by blast
  then show ?thesis using a by blast
qed

definition demo_exclusion :: jval where
  "demo_exclusion = demo_audit [(''status'', JStr ''OUT_OF_SCOPE''), (''scope_boundary_id'', JStr ''u''), (''reason'', JStr ''r'')]"

theorem absent_answer_throws_witness:
  "\<exists>message. checkedRequirementAnalysisAudit demo_exclusion demo_analysis demo_sources = Inl (TypeError message)"
proof (rule absent_answer_throws)
  let ?item = "JObj [(''question'', JStr ''q?''), (''status'', JStr ''OUT_OF_SCOPE''), (''scope_boundary_id'', JStr ''u''), (''reason'', JStr ''r'')]"
  show "auditIssue demo_exclusion demo_analysis demo_sources = None" by code_simp
  show "?item \<in> set (arr_elems (js_get demo_exclusion ''question_decisions''))" by (simp add: demo_exclusion_def demo_audit_def obj_get_def)
  show "scoped_out ?item" by (simp add: scoped_out_def obj_get_def)
  show "\<forall>s. js_get ?item ''answer'' \<noteq> JStr s" by (simp add: obj_get_def)
qed

definition demo_large :: jval where
  "demo_large = JObj [(''source_inventory'', JObj [(''complete'', JBool True), (''sources'', JArr [JObj [(''id'', JStr ''user-answer:1''), (''type'', JStr ''user_answer''),
     (''rules'', JArr []), (''questions'', JArr [])]])])]"

lemma demo_large_sources: "case generationSources demo_large of Inr sources \<Rightarrow> map es_type sources = [JStr ''user_answer''] | Inl _ \<Rightarrow> False"
  by code_simp

theorem inventory_loses_boundary_witness:
  "\<exists>sources. generationSources demo_large = Inr sources \<and>
     questionIssue sources (JObj [(''question'', JStr ''q?''), (''status'', JStr ''OUT_OF_SCOPE''), (''scope_boundary_id'', JStr ''user-answer:1'')]) ''q?'' = Some A_BOUNDARY"
proof -
  obtain sources where s: "generationSources demo_large = Inr sources" using demo_large_sources by (auto split: sum.splits)
  have "js_member demo_large ''source_inventory'' = Inr (js_get demo_large ''source_inventory'')" by code_simp
  moreover have "truthy (js_get (js_get demo_large ''source_inventory'') ''complete'')" "is_array (js_get (js_get demo_large ''source_inventory'') ''sources'')" by code_simp+
  moreover have "trimmed_text (js_get (JObj [(''question'', JStr ''q?''), (''status'', JStr ''OUT_OF_SCOPE''), (''scope_boundary_id'', JStr ''user-answer:1'')]) ''question'') = ''q?''"
    by code_simp
  moreover have "js_get (JObj [(''question'', JStr ''q?''), (''status'', JStr ''OUT_OF_SCOPE''), (''scope_boundary_id'', JStr ''user-answer:1'')]) ''status'' = JStr ''OUT_OF_SCOPE''"
    by code_simp
  ultimately show ?thesis using inventory_loses_boundary [OF s] s by blast
qed

definition demo_draft :: jval where
  "demo_draft = JArr [JObj ([(f, JStr ''x''). f \<leftarrow> [''local_id'', ''story_type'', ''title'', ''actor'', ''goal'', ''benefit'', ''description'']]
     @ [(''source_refs'', JArr []), (''quality'', JObj []),
        (''acceptance_criteria'', JArr [JObj ([(f, JStr ''x''). f \<leftarrow> [''local_id'', ''type'', ''title'', ''given'', ''when'', ''observable_result'']]
           @ [(''then'', JArr [JStr ''x'']), (''source_refs'', JArr [JStr ''s''])])])])]"


end
