(* ===== verification/ReviewReports.thy ===== *)
theory ReviewReports
  imports SemanticReview
begin

text \<open>
  What the report of a semantic review shows. A finding of the check is never lost on the way to the verdict (\<open>outcome_of\<close> for one identifier,
  \<open>reportOutcome\<close> for a report), and a repair only replaces what was missing (\<open>merged_settled\<close>).
\<close>

section \<open>What a report without failures says\<close>

lemmas message_defs = FACT_MESSAGES_def M_NO_BACKING_def M_NO_COVERAGE_def M_CITES_def M_EXPLICIT_def M_INFERRED_def M_ASSUMPTION_def M_UNSUPPORTED_def
  M_UNVERIFIED_def M_FACT_def M_NO_FACT_def M_FOREIGN_FACT_def M_NO_SCENARIO_def M_SCENARIO_def o_acute_def a_acute_def i_acute_def

lemma messages_distinct [simp]:
  "M_NO_BACKING \<noteq> M_NO_COVERAGE" "M_NO_COVERAGE \<noteq> M_NO_BACKING" "M_NO_BACKING \<notin> set FACT_MESSAGES" "M_NO_COVERAGE \<notin> set FACT_MESSAGES"
  "M_FACT \<notin> {M_NO_BACKING, M_NO_COVERAGE}" "M_NO_FACT \<notin> {M_NO_BACKING, M_NO_COVERAGE}" "M_NO_SCENARIO \<notin> set FACT_MESSAGES" "M_SCENARIO @ s \<notin> set FACT_MESSAGES"
  by (simp_all add: message_defs)

lemma failing_fields [simp]:
  "fd_severity (failing m i) = ''FAIL''" "fd_message (failing m i) = m" "fd_criterion (failing m i) = i" "fd_scope (failing m i) = None" "fails (failing m i)"
  by (simp_all add: failing_def finding_def fails_def)

lemma failing_eq [simp]: "failing m i = failing n j \<longleftrightarrow> m = n \<and> i = j"
  by (simp add: failing_def finding_def)

lemma reconcile_failing [simp]: "reconcile b (failing m i) = failing m i"
  by (simp add: reconcile_def)

definition clean :: "review_finding list \<Rightarrow> bool" where
  "clean fs \<longleftrightarrow> (\<forall>m i. failing m i \<notin> set fs)"

text \<open>A finding that stays in every repair.\<close>

definition firm :: "jstr \<Rightarrow> bool" where
  "firm m \<longleftrightarrow> m \<notin> {M_NO_BACKING, M_NO_COVERAGE} \<and> m \<notin> set FACT_MESSAGES"

lemma firm_messages [simp]:
  "firm M_CITES" "firm M_EXPLICIT" "firm M_INFERRED" "firm M_ASSUMPTION" "firm M_UNSUPPORTED" "firm M_UNVERIFIED"
  by (simp_all add: firm_def message_defs)

definition cites :: "review_check \<Rightarrow> jstr \<times> jstr \<Rightarrow> bool" where
  "cites ck = (\<lambda>(source, q). 3 \<le> length q \<and> list_ex (\<lambda>t. str_includes t q) (source_texts ck source))"

definition backed :: "review_check \<Rightarrow> grounding_entry \<Rightarrow> bool" where
  "backed ck g \<longleftrightarrow>
     (if ge_status g = ''ASSUMPTION'' then ge_assumptions g \<noteq> [] else ge_status g \<in> {''EXPLICIT'', ''INFERRED''} \<and> ge_evidence g \<noteq> [])
     \<and> list_all (cites ck) (ge_evidence g) \<and> set (ge_assumptions g) \<subseteq> set (ck_accepted ck)"

text \<open>Entries for one identifier: all are good, or there are none, or a failure is recorded.\<close>

definition settled :: "('e \<Rightarrow> jstr) \<Rightarrow> ('e \<Rightarrow> bool) \<Rightarrow> 'e list \<Rightarrow> jstr \<Rightarrow> bool" where
  "settled key good es i \<longleftrightarrow> (\<exists>e \<in> set es. key e = i) \<and> (\<forall>e \<in> set es. key e = i \<longrightarrow> good e)"

definition outcome_of :: "('e \<Rightarrow> jstr) \<Rightarrow> ('e \<Rightarrow> bool) \<Rightarrow> (jstr \<Rightarrow> bool) \<Rightarrow> (jstr \<Rightarrow> bool) \<Rightarrow> jstr \<Rightarrow> review_finding list \<Rightarrow> 'e list \<Rightarrow> jstr \<Rightarrow> bool" where
  "outcome_of key good gone kept j fs es i \<longleftrightarrow>
     settled key good es i \<or> (\<exists>m. gone m \<and> failing m j \<in> set fs \<and> i \<notin> key ` set es) \<or> (\<exists>m j'. kept m \<and> failing m j' \<in> set fs)"

lemma literal_cites: "literal ck entry \<Longrightarrow> cites ck (citation entry)"
  by (cases "truthy (js_get entry ''quote'')") (simp_all add: literal_def citation_def cites_def text_of_def trim_def Let_def)

definition groundedOutcome :: "review_check \<Rightarrow> review_finding list \<Rightarrow> grounding_entry list \<Rightarrow> jstr \<Rightarrow> bool" where
  "groundedOutcome ck fs gs i = outcome_of ge_criterion (backed ck) (\<lambda>m. m = M_NO_BACKING) firm i fs gs i"

lemma grounding_cases:
  obtains "groundingOf ck items i = ([failing M_NO_BACKING i], [])"
  | status' cited evidence' assumptions reason where
    "groundingOf ck items i = (groundingIssues ck i status' cited evidence' assumptions,
      [\<lparr>ge_criterion = i, ge_status = status', ge_evidence = (if status' = ''UNSUPPORTED'' then [] else evidence'), ge_assumptions = assumptions, ge_reason = reason\<rparr>])"
    "status' \<in> {''EXPLICIT'', ''INFERRED'', ''ASSUMPTION'', ''UNSUPPORTED''}" "list_all (cites ck) evidence'"
proof -
  let ?entries = "entriesFor ''criterion_id'' i items"
  let ?item = "first_elem ?entries"
  let ?cited = "arr_elems (js_get ?item ''evidence'')"
  let ?bad = "length ?entries \<noteq> 1 \<or> \<not> is_one_of (js_get ?item ''status'') [''EXPLICIT'', ''INFERRED'', ''ASSUMPTION'', ''UNSUPPORTED'']
         \<or> trim (text_of (js_get ?item ''reason'')) = [] \<or> \<not> is_array (js_get ?item ''evidence'') \<or> \<not> is_array (js_get ?item ''assumption_ids'')"
  show ?thesis
  proof (cases ?bad)
    case True
    then have "groundingOf ck items i = ([failing M_NO_BACKING i], [])" by (simp only: groundingOf_def Let_def if_True)
    then show ?thesis by (rule that(1))
  next
    case False
    then have "to_string (js_get ?item ''status'') \<in> {''EXPLICIT'', ''INFERRED'', ''ASSUMPTION'', ''UNSUPPORTED''}" by (auto simp: is_one_of_def)
    moreover have "list_all (cites ck) (map citation (filter (literal ck) ?cited))" by (auto simp: list_all_iff literal_cites)
    ultimately show ?thesis
      using False by (intro that(2)) (simp_all only: groundingOf_def Let_def if_False)
  qed
qed

lemma groundingIssues_firm:
  assumes "\<And>m. firm m \<Longrightarrow> failing m i \<notin> set (groundingIssues ck i status' cited evidence' assumptions)"
  shows "set assumptions \<subseteq> set (ck_accepted ck)" "status' \<in> {''EXPLICIT'', ''INFERRED''} \<Longrightarrow> evidence' \<noteq> []"
    "status' = ''ASSUMPTION'' \<Longrightarrow> assumptions \<noteq> []" "status' \<noteq> ''UNSUPPORTED''"
proof -
  let ?is = "set (groundingIssues ck i status' cited evidence' assumptions)"
  have "list_ex (\<lambda>a. a \<notin> set (ck_accepted ck)) assumptions \<Longrightarrow> failing M_CITES i \<in> ?is" by (simp add: groundingIssues_def)
  then show "set assumptions \<subseteq> set (ck_accepted ck)" using assms [of M_CITES] by (auto simp: list_ex_iff)
  have "status' = ''EXPLICIT'' \<Longrightarrow> evidence' = [] \<Longrightarrow> failing M_EXPLICIT i \<in> ?is" "status' = ''INFERRED'' \<Longrightarrow> evidence' = [] \<Longrightarrow> failing M_INFERRED i \<in> ?is"
    by (simp_all add: groundingIssues_def)
  then show "evidence' \<noteq> []" if "status' \<in> {''EXPLICIT'', ''INFERRED''}" using assms [of M_EXPLICIT] assms [of M_INFERRED] that by auto
  have "status' = ''ASSUMPTION'' \<Longrightarrow> assumptions = [] \<Longrightarrow> failing M_ASSUMPTION i \<in> ?is" by (simp add: groundingIssues_def)
  then show "assumptions \<noteq> []" if "status' = ''ASSUMPTION''" using assms [of M_ASSUMPTION] that by auto
  have "status' = ''UNSUPPORTED'' \<Longrightarrow> failing M_UNSUPPORTED i \<in> ?is" by (simp add: groundingIssues_def)
  then show "status' \<noteq> ''UNSUPPORTED''" using assms [of M_UNSUPPORTED] by auto
qed

lemma grounding_outcome: "groundedOutcome ck (fst (groundingOf ck items i)) (snd (groundingOf ck items i)) i"
proof (rule grounding_cases [of ck items i])
  assume "groundingOf ck items i = ([failing M_NO_BACKING i], [])"
  then show ?thesis by (simp add: groundedOutcome_def outcome_of_def)
next
  fix status' cited evidence' assumptions reason
  let ?g = "\<lparr>ge_criterion = i, ge_status = status', ge_evidence = (if status' = ''UNSUPPORTED'' then [] else evidence'), ge_assumptions = assumptions, ge_reason = reason\<rparr>"
  assume g: "groundingOf ck items i = (groundingIssues ck i status' cited evidence' assumptions, [?g])"
    and st: "status' \<in> {''EXPLICIT'', ''INFERRED'', ''ASSUMPTION'', ''UNSUPPORTED''}" and lit: "list_all (cites ck) evidence'"
  show ?thesis
  proof (cases "\<exists>m. firm m \<and> failing m i \<in> set (groundingIssues ck i status' cited evidence' assumptions)")
    case True
    then show ?thesis using g unfolding groundedOutcome_def outcome_of_def fst_conv by (simp only: fst_conv) blast
  next
    case False
    then have no: "firm m \<Longrightarrow> failing m i \<notin> set (groundingIssues ck i status' cited evidence' assumptions)" for m by blast
    note facts = groundingIssues_firm [OF no]
    have "backed ck ?g"
      using st
    proof (elim insertE emptyE)
      assume "status' = ''EXPLICIT''"
      then show ?thesis using facts(1,2) lit by (simp add: backed_def)
    next
      assume "status' = ''INFERRED''"
      then show ?thesis using facts(1,2) lit by (simp add: backed_def)
    next
      assume "status' = ''ASSUMPTION''"
      then show ?thesis using facts(1,3) lit by (simp add: backed_def)
    next
      assume "status' = ''UNSUPPORTED''"
      then show ?thesis using facts(4) by simp
    qed
    then have "settled ge_criterion (backed ck) (snd (groundingOf ck items i)) i" unfolding settled_def g by simp
    then show ?thesis unfolding groundedOutcome_def outcome_of_def by blast
  qed
qed

section \<open>Reports\<close>

lemma map_res_projr: "map_res g xs = Inr ys \<Longrightarrow> ys = map (\<lambda>x. projr (g x)) xs \<and> (\<forall>x \<in> set xs. g x = Inr (projr (g x)))"
  by (induction xs arbitrary: ys) (auto simp: res_simps)

lemma outcome_mono: "outcome_of key good gone kept j fs es i \<Longrightarrow> set fs \<subseteq> set fs' \<Longrightarrow> outcome_of key good gone kept j fs' es i"
  unfolding outcome_of_def by blast

lemma outcome_parts:
  assumes "\<And>x. x \<in> set xs \<Longrightarrow> outcome_of key good gone kept (j x) (fst (f x)) (snd (f x)) (name x)"
    and "\<And>x e. x \<in> set xs \<Longrightarrow> e \<in> set (snd (f x)) \<Longrightarrow> key e = name x"
    and "inj_on name (set xs)" "x \<in> set xs"
  shows "outcome_of key good gone kept (j x) (fst (parts_of (map f xs))) (snd (parts_of (map f xs))) (name x)"
proof -
  have es: "e \<in> set (snd (parts_of (map f xs))) \<and> key e = name x \<longleftrightarrow> e \<in> set (snd (f x))" for e
    using assms(2-4) by (auto simp: parts_of_def dest: inj_onD)
  have "set (fst (f x)) \<subseteq> set (fst (parts_of (map f xs)))" using assms(4) by (auto simp: parts_of_def)
  moreover have "settled key good (snd (f x)) (name x) \<Longrightarrow> settled key good (snd (parts_of (map f xs))) (name x)"
    unfolding settled_def using es assms(2,4) by blast
  moreover have "name x \<notin> key ` set (snd (f x)) \<Longrightarrow> name x \<notin> key ` set (snd (parts_of (map f xs)))" using es by force
  ultimately show ?thesis using assms(1) [OF assms(4)] unfolding outcome_of_def by blast
qed

definition goodCoverage :: "review_check \<Rightarrow> coverage_entry \<Rightarrow> bool" where
  "goodCoverage ck e \<longleftrightarrow> (ck_scenario ck = None \<longrightarrow> ce_status e = ''COVERED'') \<and> (ce_status e = ''COVERED'' \<longrightarrow> ce_steps e \<noteq> [])
     \<and> unknownStep (ck_proposal ck) (ce_steps e) = Inr False"

definition goodFact :: "review_check \<Rightarrow> fact_entry \<Rightarrow> bool" where
  "goodFact ck e \<longleftrightarrow> fe_status e = ''COVERED'' \<and> fe_criteria e \<noteq> []"

definition coveredOutcome :: "review_check \<Rightarrow> review_finding list \<Rightarrow> coverage_entry list \<Rightarrow> jstr \<Rightarrow> bool" where
  "coveredOutcome ck fs es i = outcome_of ce_id (goodCoverage ck) (\<lambda>m. m = M_NO_COVERAGE) firm i fs es i"

definition factOutcome :: "review_check \<Rightarrow> review_finding list \<Rightarrow> fact_entry list \<Rightarrow> jstr \<Rightarrow> bool" where
  "factOutcome ck fs es i = outcome_of fe_fact (goodFact ck) (\<lambda>m. m = M_NO_FACT) (\<lambda>m. m = M_FACT) [] fs es i"

definition scenarioHolds :: "review_check \<Rightarrow> coverage_entry list \<Rightarrow> bool" where
  "scenarioHolds ck es \<longleftrightarrow> es \<noteq> [] \<and> (\<forall>e \<in> set es. ce_status e = ''COVERED'' \<and> goodCoverage ck e)"

definition scenarioOutcome :: "review_check \<Rightarrow> review_finding list \<Rightarrow> coverage_entry list \<Rightarrow> bool" where
  "scenarioOutcome ck fs es \<longleftrightarrow> ck_scenario ck = None \<or> scenarioHolds ck es \<or> (\<exists>m. m \<notin> set FACT_MESSAGES \<and> failing m [] \<in> set fs)"

lemma coverageEntry_good:
  assumes "coverageEntry p i entries = Inr (Some e)"
  shows "ce_id e = i" "ce_status e = ''COVERED'' \<Longrightarrow> ce_steps e \<noteq> []" "unknownStep p (ce_steps e) = Inr False"
  using assms by (auto simp: coverageEntry_def Let_def res_simps is_one_of_def split: if_splits)

lemma coverage_outcome:
  assumes "coverageOf ck items i = Inr r"
  shows "coveredOutcome ck (fst r) (snd r) i" "\<And>e. e \<in> set (snd r) \<Longrightarrow> ce_id e = i"
proof -
  from assms obtain x where x: "coverageEntry (ck_proposal ck) i (entriesFor ''criterion_id'' i items) = Inr x"
      "r = (case x of None \<Rightarrow> ([failing M_NO_COVERAGE i], [])
       | Some e \<Rightarrow> (if ce_status e \<noteq> ''COVERED'' \<and> ck_scenario ck = None then [failing M_UNVERIFIED i] else [], [e]))"
    unfolding coverageOf_def by (auto simp: res_simps)
  show "coveredOutcome ck (fst r) (snd r) i"
  proof (cases x)
    case None
    then show ?thesis using x by (simp add: coveredOutcome_def outcome_of_def)
  next
    case (Some e)
    then have "settled ce_id (goodCoverage ck) (snd r) i \<or> failing M_UNVERIFIED i \<in> set (fst r)"
      using x coverageEntry_good [of _ i _ e] by (auto simp: settled_def goodCoverage_def)
    then show ?thesis using firm_messages(6) unfolding coveredOutcome_def outcome_of_def by blast
  qed
  show "\<And>e. e \<in> set (snd r) \<Longrightarrow> ce_id e = i"
    using x coverageEntry_good(1) [of _ i] by (cases x) auto
qed

definition validFact :: "review_check \<Rightarrow> fact_entry \<Rightarrow> bool" where
  "validFact ck e \<longleftrightarrow> set (fe_criteria e) \<subseteq> set (ck_ids ck) \<and> list_ex (\<lambda>t. str_includes t (fe_quote e)) (source_texts ck (fe_source e))"

lemma fact_valid: "e \<in> set (snd (factOf ck items f)) \<Longrightarrow> validFact ck e"
  by (auto simp: factOf_def Let_def validFact_def list_ex_iff split: if_splits)

lemma if_either: "(if b then x else y) = x \<or> (if b then x else y) = y"
  by simp

lemma fact_outcome:
  "factOutcome ck (fst (factOf ck items f)) (snd (factOf ck items f)) (sf_id f)" "\<And>e. e \<in> set (snd (factOf ck items f)) \<Longrightarrow> fe_fact e = sf_id f"
proof -
  let ?item = "first_elem (entriesFor ''fact_id'' (sf_id f) items)"
  let ?refs = "map to_string (arr_elems (js_get ?item ''criterion_ids''))"
  let ?e = "\<lparr>fe_fact = sf_id f, fe_source = sf_source f, fe_quote = sf_quote f, fe_status = to_string (js_get ?item ''status''), fe_criteria = ?refs, fe_reason = reason_of ?item\<rparr>"
  have cases: "factOf ck items f = ([failing M_NO_FACT []], []) \<or>
      factOf ck items f = (if js_get ?item ''status'' \<noteq> JStr ''COVERED'' \<or> ?refs = [] then [failing M_FACT (case ?refs of i # _ \<Rightarrow> i | [] \<Rightarrow> [])] else [], [?e])"
    unfolding factOf_def Let_def by (rule if_either)
  show "\<And>e. e \<in> set (snd (factOf ck items f)) \<Longrightarrow> fe_fact e = sf_id f" using cases by auto
  from cases show "factOutcome ck (fst (factOf ck items f)) (snd (factOf ck items f)) (sf_id f)"
  proof
    assume "factOf ck items f = ([failing M_NO_FACT []], [])"
    then show ?thesis by (simp add: factOutcome_def outcome_of_def)
  next
    assume r: "factOf ck items f = (if js_get ?item ''status'' \<noteq> JStr ''COVERED'' \<or> ?refs = [] then [failing M_FACT (case ?refs of i # _ \<Rightarrow> i | [] \<Rightarrow> [])] else [], [?e])"
    show ?thesis
    proof (cases "js_get ?item ''status'' \<noteq> JStr ''COVERED'' \<or> ?refs = []")
      case True
      then have "\<exists>i. failing M_FACT i \<in> set (fst (factOf ck items f))" using r by (simp only: if_True fst_conv) auto
      then show ?thesis unfolding factOutcome_def outcome_of_def by blast
    next
      case False
      then have "settled fe_fact (goodFact ck) (snd (factOf ck items f)) (sf_id f)" using r by (simp add: settled_def goodFact_def)
      then show ?thesis unfolding factOutcome_def outcome_of_def by blast
    qed
  qed
qed

lemma scenario_outcome:
  assumes "ck_scenario ck = Some s" "scenarioOf ck s items = Inr r"
  shows "scenarioOutcome ck (fst r) (snd r)"
proof -
  let ?i = "text_of (js_get s ''local_id'')"
  have none: "scenarioOutcome ck [failing M_NO_SCENARIO []] []" by (auto simp: scenarioOutcome_def intro!: exI [of _ M_NO_SCENARIO])
  have "scenarioOutcome ck [failing (M_SCENARIO @ t) []] es" for t es by (auto simp: scenarioOutcome_def intro!: exI [of _ "M_SCENARIO @ t"])
  moreover have "scenarioOutcome ck [] [e]" if "coverageEntry (ck_proposal ck) ?i es = Inr (Some e)" "ce_status e = ''COVERED''" for e es
    using coverageEntry_good [OF that(1)] that(2) by (simp add: scenarioOutcome_def scenarioHolds_def goodCoverage_def)
  ultimately show ?thesis
    using assms none by (auto simp: scenarioOf_def Let_def res_simps split: if_splits option.splits)
qed

text \<open>What a report of the traceability stage says, for the facts it was asked for.\<close>

definition reportOutcome :: "review_check \<Rightarrow> source_fact list \<Rightarrow> review_finding list \<Rightarrow> grounding_entry list \<Rightarrow> coverage_entry list \<Rightarrow> coverage_entry list \<Rightarrow> fact_entry list \<Rightarrow> bool" where
  "reportOutcome ck facts fs gs cs ss es \<longleftrightarrow>
     (\<forall>i \<in> set (criterionIds ck). groundedOutcome ck fs gs i) \<and> ge_criterion ` set gs \<subseteq> set (criterionIds ck) \<and>
     (case ck_kind ck of
        CaseReview \<Rightarrow> (\<forall>i \<in> set (criterionIds ck). coveredOutcome ck fs cs i) \<and> ce_id ` set cs \<subseteq> set (criterionIds ck) \<and> scenarioOutcome ck fs ss
      | StoryReview \<Rightarrow> (\<forall>f \<in> set facts. factOutcome ck fs es (sf_id f)) \<and> fe_fact ` set es \<subseteq> sf_id ` set facts \<and> (\<forall>e \<in> set es. validFact ck e))"

lemma digits_val_zeros: "digits_val (replicate k (CHR ''0'') @ s) = digits_val s"
  by (induction k) (simp_all add: digits_val_def digit_val_def code_unit_def)

lemma pad3_inject: "pad3 a = pad3 b \<longleftrightarrow> a = b"
proof
  assume "pad3 a = pad3 b"
  then have "digits_val (pad3 a) = digits_val (pad3 b)" by simp
  then show "a = b" by (simp add: pad3_def digits_val_zeros)
qed simp

lemma collectFacts_ids:
  "map sf_id out = map (\<lambda>k. ''SOURCE-FACT-'' @ pad3 (k + 1)) [0..<length out] \<Longrightarrow>
   (let r = collectFacts d i out seen raws in map sf_id r = map (\<lambda>k. ''SOURCE-FACT-'' @ pad3 (k + 1)) [0..<length r])"
  by (induction d i out seen raws rule: collectFacts.induct) (simp_all add: Let_def)

lemma required_distinct: "requiredStoryCoverageFacts c = Inr facts \<Longrightarrow> distinct (map sf_id facts)"
proof -
  assume "requiredStoryCoverageFacts c = Inr facts"
  then obtain d i raws where "facts = [] \<or> facts = collectFacts d i [] [] raws"
    by (auto simp: requiredStoryCoverageFacts_def Let_def res_simps split: if_splits)
  then have "map sf_id facts = map (\<lambda>k. ''SOURCE-FACT-'' @ pad3 (k + 1)) [0..<length facts]"
    using collectFacts_ids [of "[]" d i "[]" raws] by (auto simp: Let_def)
  moreover have "inj_on (\<lambda>k. ''SOURCE-FACT-'' @ pad3 (k + 1)) A" for A by (simp add: inj_on_def pad3_inject)
  ultimately show ?thesis by (simp add: distinct_map)
qed

lemma requiredFacts_distinct: "requiredFacts c ids = Inr facts \<Longrightarrow> distinct (map sf_id facts)"
  using required_distinct by (auto simp: requiredFacts_def res_simps distinct_map_filter)

lemma set_criterionIds: "set (criterionIds ck) = set (ck_ids ck) \<inter> set (ck_expected ck)"
  by (auto simp: criterionIds_def)

lemma grounding_key: "e \<in> set (snd (groundingOf ck items i)) \<Longrightarrow> ge_criterion e = i"
  by (rule grounding_cases [of ck items i]) auto

lemma grounding_report:
  assumes "i \<in> set is'"
  shows "groundedOutcome ck (fst (parts_of (map (groundingOf ck items) is'))) (snd (parts_of (map (groundingOf ck items) is'))) i"
  using outcome_parts [where j = "\<lambda>i. i" and name = "\<lambda>i. i" and f = "groundingOf ck items" and xs = is' and key = ge_criterion and x = i]
    grounding_outcome [unfolded groundedOutcome_def] grounding_key assms
  unfolding groundedOutcome_def by (simp add: inj_on_def)

lemma coverage_report:
  assumes "map_res (coverageOf ck items) is' = Inr rs"
  shows "\<forall>i \<in> set is'. coveredOutcome ck (fst (parts_of rs)) (snd (parts_of rs)) i" "ce_id ` set (snd (parts_of rs)) \<subseteq> set is'"
proof -
  let ?f = "\<lambda>i. projr (coverageOf ck items i)"
  have rs: "rs = map ?f is'" and ok: "\<forall>i \<in> set is'. coverageOf ck items i = Inr (?f i)" using map_res_projr [OF assms] by blast+
  have keys: "e \<in> set (snd (?f i)) \<Longrightarrow> ce_id e = i" if "i \<in> set is'" for i e using coverage_outcome(2) ok that by blast
  show "ce_id ` set (snd (parts_of rs)) \<subseteq> set is'" using keys by (auto simp: rs parts_of_def)
  show "\<forall>i \<in> set is'. coveredOutcome ck (fst (parts_of rs)) (snd (parts_of rs)) i"
    using outcome_parts [where j = "\<lambda>i. i" and name = "\<lambda>i. i" and f = ?f and xs = is' and key = ce_id] coverage_outcome(1) [unfolded coveredOutcome_def] ok keys
    unfolding coveredOutcome_def rs by (simp add: inj_on_def)
qed

lemma fact_report:
  assumes "distinct (map sf_id facts)" "f \<in> set facts"
  shows "factOutcome ck (fst (parts_of (map (factOf ck items) facts))) (snd (parts_of (map (factOf ck items) facts))) (sf_id f)"
  using outcome_parts [where j = "\<lambda>f. []" and name = sf_id and f = "factOf ck items" and xs = facts and key = fe_fact and x = f]
    fact_outcome(1) [unfolded factOutcome_def] fact_outcome(2) assms
  unfolding factOutcome_def by (simp add: distinct_map)

lemma outcomes_mono:
  "groundedOutcome ck fs gs i \<Longrightarrow> set fs \<subseteq> set fs' \<Longrightarrow> groundedOutcome ck fs' gs i"
  "coveredOutcome ck fs cs i \<Longrightarrow> set fs \<subseteq> set fs' \<Longrightarrow> coveredOutcome ck fs' cs i"
  "factOutcome ck fs es i \<Longrightarrow> set fs \<subseteq> set fs' \<Longrightarrow> factOutcome ck fs' es i"
  "scenarioOutcome ck fs ss \<Longrightarrow> set fs \<subseteq> set fs' \<Longrightarrow> scenarioOutcome ck fs' ss"
  unfolding groundedOutcome_def coveredOutcome_def factOutcome_def by (blast intro: outcome_mono)+ (auto simp: scenarioOutcome_def)

text \<open>Only findings that are failures of the check matter, and these no later step changes.\<close>

definition keeps :: "review_finding list \<Rightarrow> review_finding list \<Rightarrow> bool" where
  "keeps fs fs' \<longleftrightarrow> (\<forall>m i. failing m i \<in> set fs \<longrightarrow> failing m i \<in> set fs')"

lemma outcome_keeps: "outcome_of key good gone kept j fs es i \<Longrightarrow> keeps fs fs' \<Longrightarrow> outcome_of key good gone kept j fs' es i"
  unfolding outcome_of_def keeps_def by blast

lemma report_keeps: "reportOutcome ck facts fs gs cs ss es \<Longrightarrow> keeps fs fs' \<Longrightarrow> reportOutcome ck facts fs' gs cs ss es"
proof -
  assume r: "reportOutcome ck facts fs gs cs ss es" and k: "keeps fs fs'"
  have "groundedOutcome ck fs gs i \<Longrightarrow> groundedOutcome ck fs' gs i" "coveredOutcome ck fs cs i \<Longrightarrow> coveredOutcome ck fs' cs i"
    "factOutcome ck fs es i \<Longrightarrow> factOutcome ck fs' es i" for i
    using outcome_keeps [OF _ k] unfolding groundedOutcome_def coveredOutcome_def factOutcome_def by blast+
  moreover have "scenarioOutcome ck fs ss \<Longrightarrow> scenarioOutcome ck fs' ss" using k unfolding scenarioOutcome_def keeps_def by blast
  ultimately show ?thesis using r unfolding reportOutcome_def by (cases "ck_kind ck") auto
qed

lemma traceCase_outcome:
  assumes "traceCase ck raw = Inr (fs, cs, ss)"
  shows "\<exists>rs found. map_res (coverageOf ck (js_get raw ''coverage'')) (criterionIds ck) = Inr rs \<and> fs = fst (parts_of rs) @ found \<and> cs = snd (parts_of rs) \<and>
    scenarioOutcome ck found ss"
proof (cases "ck_scenario ck")
  case None
  then show ?thesis using assms by (auto simp: traceCase_def Let_def res_simps scenarioOutcome_def)
next
  case (Some s)
  then show ?thesis using assms scenario_outcome [OF Some] by (auto simp: traceCase_def Let_def res_simps)
qed

lemma trace_outcome:
  assumes "traceReview ck c raw factIds = Inr td" "ck_kind ck = StoryReview \<Longrightarrow> requiredFacts c factIds = Inr facts"
  shows "reportOutcome ck facts (td_findings td) (td_grounding td) (td_coverage td) (td_scenario td) (td_facts td)"
proof -
  let ?items = "js_get raw ''grounding''"
  let ?r = "parts_of (map (groundingOf ck ?items) (criterionIds ck))"
  let ?shared = "fst ?r @ (if foreign ck ?items then [failing M_FOREIGN []] else [])"
  have shared: "groundedOutcome ck (?shared @ fs) (snd ?r) i" if "i \<in> set (criterionIds ck)" for i fs
    using outcomes_mono(1) [OF grounding_report [OF that]] by auto
  have keys: "ge_criterion ` set (snd ?r) \<subseteq> set (criterionIds ck)" using grounding_key by (auto simp: parts_of_def)
  show ?thesis
  proof (cases "ck_kind ck")
    case StoryReview
    let ?f = "parts_of (map (factOf ck (js_get raw ''source_coverage'')) facts)"
    obtain extra where td: "td = \<lparr>td_findings = ?shared @ fst ?f @ extra, td_grounding = snd ?r, td_coverage = [], td_scenario = [], td_facts = snd ?f\<rparr>"
      using assms StoryReview by (auto simp: traceReview_def Let_def res_simps traceStory_def)
    have "factOutcome ck (?shared @ fst ?f @ extra) (snd ?f) (sf_id f)" if "f \<in> set facts" for f
      by (rule outcomes_mono(3) [OF fact_report [OF requiredFacts_distinct [OF assms(2) [OF StoryReview]] that]]) auto
    moreover have "fe_fact ` set (snd ?f) \<subseteq> sf_id ` set facts" "\<forall>e \<in> set (snd ?f). validFact ck e"
      using fact_outcome(2) fact_valid by (auto simp: parts_of_def)
    ultimately show ?thesis using shared keys StoryReview unfolding reportOutcome_def td by simp
  next
    case CaseReview
    obtain rs found where rs: "map_res (coverageOf ck (js_get raw ''coverage'')) (criterionIds ck) = Inr rs"
      and td: "td_findings td = ?shared @ fst (parts_of rs) @ found" "td_grounding td = snd ?r" "td_coverage td = snd (parts_of rs)"
      and sc: "scenarioOutcome ck found (td_scenario td)"
      using assms(1) CaseReview traceCase_outcome by (fastforce simp: traceReview_def Let_def res_simps)
    have "coveredOutcome ck (td_findings td) (td_coverage td) i" if "i \<in> set (criterionIds ck)" for i
      unfolding td by (rule outcomes_mono(2) [OF bspec [OF coverage_report(1) [OF rs] that]]) auto
    moreover have "scenarioOutcome ck (td_findings td) (td_scenario td)" unfolding td(1) by (rule outcomes_mono(4) [OF sc]) auto
    ultimately show ?thesis
      using shared keys coverage_report(2) [OF rs] td CaseReview unfolding reportOutcome_def by simp
  qed
qed

section \<open>A checked review\<close>

lemma verdictFindings_keeps: "set fs \<subseteq> set (verdictFindings ck raw b fs)"
  by (auto simp: verdictFindings_def Let_def)

definition reportOf :: "review_check \<Rightarrow> source_fact list \<Rightarrow> review_report \<Rightarrow> bool" where
  "reportOf ck facts r = reportOutcome ck facts (rr_findings r) (rr_grounding r) (rr_coverage r) (rr_scenario r) (rr_facts r)"

lemma assemble_outcome:
  assumes "reportOutcome ck facts (td_findings td) (td_grounding td) (td_coverage td) (td_scenario td) (td_facts td)"
  shows "reportOf ck facts (assembleReport ck raw td)"
proof -
  have "keeps (td_findings td) (rr_findings (assembleReport ck raw td))"
    unfolding keeps_def assembleReport_def Let_def review_report.simps
    by (intro allI impI subsetD [OF verdictFindings_keeps]) (auto simp: image_iff intro!: bexI [of _ "failing _ _"])
  then have "reportOutcome ck facts (rr_findings (assembleReport ck raw td)) (td_grounding td) (td_coverage td) (td_scenario td) (td_facts td)"
    by (rule report_keeps [OF assms])
  then show ?thesis by (simp add: reportOf_def assembleReport_def Let_def)
qed

lemma checked_outcome:
  assumes "checkedSemanticReview raw p c kind Traceability ids factIds scenario = Inr report"
  obtains ck where "checkAgainst p c kind Traceability ids scenario = Inr ck"
    "\<And>facts. (kind = StoryReview \<Longrightarrow> requiredFacts c factIds = Inr facts) \<Longrightarrow> reportOf ck facts report"
proof -
  from assms obtain ck td where ck: "checkAgainst p c kind Traceability ids scenario = Inr ck" "traceReview ck c raw factIds = Inr td" "report = assembleReport ck raw td"
    by (auto simp: checkedSemanticReview_def res_simps)
  have "ck_kind ck = kind" using ck(1) by (auto simp: checkAgainst_def res_simps)
  then show ?thesis using assemble_outcome [OF trace_outcome [OF ck(2)]] that [OF ck(1)] unfolding ck(3) by blast
qed

lemma checkAgainst_expected:
  "checkAgainst p c kind st None scenario = Inr ck \<Longrightarrow> checkAgainst p c kind st (Some ids) scenario = Inr (ck\<lparr>ck_expected := ids\<rparr>)"
  "checkAgainst p c kind st None scenario = Inr ck \<Longrightarrow> ck_expected ck = ck_ids ck \<and> ck_kind ck = kind \<and> ck_scenario ck = scenario \<and> ck_proposal ck = p
     \<and> allCriterionIds kind p = Inr (ck_ids ck)"
  by (auto simp: checkAgainst_def res_simps)

lemma expected_irrelevant [simp]:
  "backed (ck\<lparr>ck_expected := ids\<rparr>) = backed ck" "goodCoverage (ck\<lparr>ck_expected := ids\<rparr>) = goodCoverage ck"
  "goodFact (ck\<lparr>ck_expected := ids\<rparr>) = goodFact ck" "validFact (ck\<lparr>ck_expected := ids\<rparr>) = validFact ck"
  "scenarioHolds (ck\<lparr>ck_expected := ids\<rparr>) = scenarioHolds ck"
  by (simp_all add: fun_eq_iff backed_def cites_def source_texts_def goodCoverage_def goodFact_def validFact_def scenarioHolds_def)

section \<open>Entries by identifier\<close>


lemma foldl_put_map_of: "map_of (foldl (\<lambda>m x. obj_put m (key x) x) m xs) i = (case find (\<lambda>x. key x = i) (rev xs) of Some x \<Rightarrow> Some x | None \<Rightarrow> map_of m i)"
  by (induction xs rule: rev_induct) (simp_all add: map_of_obj_put)

lemma foldl_put_distinct: "distinct (map fst m) \<Longrightarrow> distinct (map fst (foldl (\<lambda>m x. obj_put m (key x) x) m xs))"
  by (induction xs arbitrary: m) (simp_all add: distinct_obj_put)

lemma keyed_map_of: "map_of (keyed key xs ys) i = find (\<lambda>x. key x = i) (rev ys @ rev xs)"
  unfolding keyed_def foldl_put_map_of by (simp split: option.splits)

lemma keyed_distinct: "distinct (map fst (keyed key xs ys))"
  unfolding keyed_def by (rule foldl_put_distinct) simp

lemma keyed_mem: "(i, x) \<in> set (keyed key xs ys) \<longleftrightarrow> find (\<lambda>x. key x = i) (rev ys @ rev xs) = Some x"
  unfolding keyed_map_of [symmetric] by (simp only: map_of_eq_Some_iff [OF keyed_distinct])

lemma find_append: "find p (xs @ ys) = (case find p xs of Some x \<Rightarrow> Some x | None \<Rightarrow> find p ys)"
  by (induction xs) auto

lemma find_SomeD: "find p xs = Some x \<Longrightarrow> x \<in> set xs \<and> p x"
  by (auto simp: find_Some_iff)

lemma keyed_entry: "x \<in> set (map snd (keyed key xs ys)) \<longleftrightarrow> find (\<lambda>y. key y = key x) (rev ys @ rev xs) = Some x"
proof
  assume "x \<in> set (map snd (keyed key xs ys))"
  then obtain i where "find (\<lambda>y. key y = i) (rev ys @ rev xs) = Some x" by (auto simp: keyed_mem)
  then show "find (\<lambda>y. key y = key x) (rev ys @ rev xs) = Some x" using find_SomeD by fastforce
next
  assume "find (\<lambda>y. key y = key x) (rev ys @ rev xs) = Some x"
  then have "(key x, x) \<in> set (keyed key xs ys)" by (simp only: keyed_mem)
  then show "x \<in> set (map snd (keyed key xs ys))" by force
qed

lemma keyed_subset: "set (map snd (keyed key xs ys)) \<subseteq> set xs \<union> set ys"
  using keyed_entry [of _ key xs ys] find_SomeD by fastforce

lemma settled_keyed:
  assumes "settled key good ys i \<or> i \<notin> key ` set ys \<and> settled key good xs i"
  shows "settled key good (map snd (keyed key xs ys)) i"
proof -
  have f: "\<exists>x. find (\<lambda>y. key y = i) (rev ys @ rev xs) = Some x \<and> key x = i \<and> good x"
    using assms
  proof
    assume s: "settled key good ys i"
    then obtain x where "find (\<lambda>y. key y = i) (rev ys) = Some x" by (cases "find (\<lambda>y. key y = i) (rev ys)") (auto simp: settled_def find_None_iff)
    then show ?thesis using s find_SomeD by (fastforce simp: settled_def find_append)
  next
    assume s: "i \<notin> key ` set ys \<and> settled key good xs i"
    then have "find (\<lambda>y. key y = i) (rev ys) = None" by (auto simp: find_None_iff)
    moreover obtain x where "find (\<lambda>y. key y = i) (rev xs) = Some x" using s by (cases "find (\<lambda>y. key y = i) (rev xs)") (auto simp: settled_def find_None_iff)
    ultimately show ?thesis using s find_SomeD by (fastforce simp: settled_def find_append)
  qed
  then obtain x where x: "find (\<lambda>y. key y = i) (rev ys @ rev xs) = Some x" "key x = i" "good x" by blast
  then have "x \<in> set (map snd (keyed key xs ys))" using keyed_entry [of x key xs ys] by simp
  moreover have "good y" if "y \<in> set (map snd (keyed key xs ys))" "key y = i" for y using that x keyed_entry [of y key xs ys] by simp
  ultimately show ?thesis using x unfolding settled_def by blast
qed

section \<open>A repaired review\<close>

definition complete :: "review_check \<Rightarrow> source_fact list \<Rightarrow> review_report \<Rightarrow> bool" where
  "complete ck facts r \<longleftrightarrow>
     (\<forall>i \<in> set (ck_ids ck). settled ge_criterion (backed ck) (rr_grounding r) i) \<and>
     (case ck_kind ck of
        CaseReview \<Rightarrow> (\<forall>i \<in> set (ck_ids ck). settled ce_id (goodCoverage ck) (rr_coverage r) i) \<and> (ck_scenario ck \<noteq> None \<longrightarrow> scenarioHolds ck (rr_scenario r))
      | StoryReview \<Rightarrow> (\<forall>f \<in> set facts. settled fe_fact (\<lambda>e. goodFact ck e \<and> validFact ck e) (rr_facts r) (sf_id f)))"

lemma outcome_settled:
  "outcome_of key good gone kept j fs es i \<Longrightarrow> i \<in> key ` set es \<Longrightarrow> (\<And>m j'. kept m \<Longrightarrow> failing m j' \<notin> set fs) \<Longrightarrow> settled key good es i"
  unfolding outcome_of_def by blast

lemma outcome_clean: "outcome_of key good gone kept j fs es i \<Longrightarrow> clean fs \<Longrightarrow> settled key good es i"
  unfolding outcome_of_def clean_def by blast

lemma merged_settled:
  assumes "outcome_of key good gone kept j fs xs i" "\<And>m j'. kept m \<Longrightarrow> failing m j' \<notin> set fs"
    and "i \<in> missing \<Longrightarrow> outcome_of key good gone kept j' fs' ys i" "clean fs'" "key ` set ys \<subseteq> missing"
    and "i \<notin> missing \<Longrightarrow> i \<in> key ` set xs"
  shows "settled key good (map snd (keyed key xs ys)) i"
proof (rule settled_keyed, cases "i \<in> missing")
  case True
  then show "settled key good ys i \<or> i \<notin> key ` set ys \<and> settled key good xs i" using outcome_clean [OF assms(3,4)] by blast
next
  case False
  then show "settled key good ys i \<or> i \<notin> key ` set ys \<and> settled key good xs i" using outcome_settled [OF assms(1)] assms(2,5,6) by blast
qed

lemma complete_direct:
  assumes "reportOf ck facts r" "ck_expected ck = ck_ids ck" "clean (rr_findings r)"
  shows "complete ck facts r"
proof -
  have "outcome_of key good gone kept j (rr_findings r) es i \<Longrightarrow> settled key good es i" for key :: "'e \<Rightarrow> jstr" and good gone kept j es i
    using outcome_clean assms(3) by blast
  then have g: "groundedOutcome ck (rr_findings r) (rr_grounding r) i \<Longrightarrow> settled ge_criterion (backed ck) (rr_grounding r) i"
     and c: "coveredOutcome ck (rr_findings r) (rr_coverage r) i \<Longrightarrow> settled ce_id (goodCoverage ck) (rr_coverage r) i"
     and f: "factOutcome ck (rr_findings r) (rr_facts r) i \<Longrightarrow> settled fe_fact (goodFact ck) (rr_facts r) i" for i
    using outcome_clean assms(3) unfolding groundedOutcome_def coveredOutcome_def factOutcome_def by blast+
  have ids: "set (criterionIds ck) = set (ck_ids ck)" using assms(2) by (simp add: set_criterionIds)
  show ?thesis
  proof (cases "ck_kind ck")
    case StoryReview
    then show ?thesis using assms(1) g f unfolding complete_def reportOf_def reportOutcome_def ids by (auto simp: settled_def)
  next
    case CaseReview
    have "ck_scenario ck \<noteq> None \<longrightarrow> scenarioHolds ck (rr_scenario r)"
      using assms(1,3) CaseReview unfolding reportOf_def reportOutcome_def scenarioOutcome_def clean_def by auto
    then show ?thesis using assms(1) CaseReview g c unfolding complete_def reportOf_def reportOutcome_def ids by simp
  qed
qed

lemma settled_valid: "settled key good es i \<Longrightarrow> (\<forall>e \<in> set es. v e) \<Longrightarrow> settled key (\<lambda>e. good e \<and> v e) es i"
  by (auto simp: settled_def)

lemma covered_settled: "coveredFact (keyed fe_fact xs ys) i \<Longrightarrow> settled fe_fact (goodFact ck) (map snd (keyed fe_fact xs ys)) i"
proof -
  assume c: "coveredFact (keyed fe_fact xs ys) i"
  then obtain e where e: "find (\<lambda>x. fe_fact x = i) (rev ys @ rev xs) = Some e" "goodFact ck e"
    by (auto simp: coveredFact_def keyed_map_of goodFact_def split: option.splits)
  then have "fe_fact e = i" using find_SomeD by fastforce
  then have "e \<in> set (map snd (keyed fe_fact xs ys))" "\<And>y. y \<in> set (map snd (keyed fe_fact xs ys)) \<Longrightarrow> fe_fact y = i \<Longrightarrow> y = e"
    using e(1) by (simp_all only: keyed_entry) auto
  then show ?thesis using e(2) \<open>fe_fact e = i\<close> unfolding settled_def by blast
qed

lemma not_settled_firm: "firm m \<Longrightarrow> \<not> settledFinding resolved b (failing m i)" "\<not> settledFinding resolved False (failing M_FACT i)"
  using messages_distinct(5) by (simp_all add: settledFinding_def firm_def)

lemma repair_findings:
  assumes "mergeTraceabilityRepair primary repair ids kind mids c = Inr merged" "clean (rr_findings merged)"
  shows "clean (rr_findings repair)" "firm m \<Longrightarrow> failing m i \<notin> set (rr_findings primary)"
    "requiredStoryCoverageFacts c = Inr facts \<Longrightarrow>
      (\<forall>i. failing M_FACT i \<notin> set (rr_findings primary)) \<or> (\<forall>f \<in> set facts. coveredFact (keyed fe_fact (rr_facts primary) (rr_facts repair)) (sf_id f))"
proof -
  from assms(1) obtain required where req: "requiredStoryCoverageFacts c = Inr required"
    by (auto simp: mergeTraceabilityRepair_def Let_def res_simps)
  define b where "b = ((mids \<noteq> [] \<and> list_all (coveredFact (keyed fe_fact (rr_facts primary) (rr_facts repair))) mids)
      \<and> list_all (\<lambda>f. coveredFact (keyed fe_fact (rr_facts primary) (rr_facts repair)) (sf_id f)) required)"
  have fs: "rr_findings merged = filter (\<lambda>f. \<not> settledFinding (fullyResolved kind repair ids) b f) (rr_findings primary) @ rr_findings repair"
    using assms(1) req unfolding b_def by (auto simp: mergeTraceabilityRepair_def Let_def res_simps)
  show "clean (rr_findings repair)" using assms(2) unfolding clean_def fs by simp
  show "failing m i \<notin> set (rr_findings primary)" if "firm m" using assms(2) not_settled_firm(1) [OF that] unfolding clean_def fs set_append set_filter by blast
  show "(\<forall>i. failing M_FACT i \<notin> set (rr_findings primary)) \<or> (\<forall>f \<in> set facts. coveredFact (keyed fe_fact (rr_facts primary) (rr_facts repair)) (sf_id f))"
    if "requiredStoryCoverageFacts c = Inr facts"
  proof (cases b)
    case True
    then show ?thesis using that req by (simp add: b_def list_all_iff)
  next
    case False
    then have "b = False" by simp
    then show ?thesis using assms(2) not_settled_firm(2) unfolding clean_def fs set_append set_filter by blast
  qed
qed

lemma merge_fields:
  assumes "mergeTraceabilityRepair primary repair ids kind mids c = Inr merged"
  shows "rr_grounding merged = map snd (keyed ge_criterion (rr_grounding primary) (rr_grounding repair))"
    "rr_coverage merged = map snd (keyed ce_id (rr_coverage primary) (rr_coverage repair))"
    "rr_scenario merged = (if rr_scenario repair \<noteq> [] then rr_scenario repair else rr_scenario primary)"
    "rr_facts merged = map snd (keyed fe_fact (rr_facts primary) (rr_facts repair))"
  using assms by (auto simp: mergeTraceabilityRepair_def Let_def res_simps)

lemma report_grounded:
  "reportOf ck facts r \<Longrightarrow> (\<forall>i \<in> set (criterionIds ck). groundedOutcome ck (rr_findings r) (rr_grounding r) i)
     \<and> ge_criterion ` set (rr_grounding r) \<subseteq> set (criterionIds ck)"
  by (simp add: reportOf_def reportOutcome_def)

lemma report_case:
  "reportOf ck facts r \<Longrightarrow> ck_kind ck = CaseReview \<Longrightarrow> (\<forall>i \<in> set (criterionIds ck). coveredOutcome ck (rr_findings r) (rr_coverage r) i)
     \<and> ce_id ` set (rr_coverage r) \<subseteq> set (criterionIds ck) \<and> scenarioOutcome ck (rr_findings r) (rr_scenario r)"
  by (simp add: reportOf_def reportOutcome_def)

lemma report_story:
  "reportOf ck facts r \<Longrightarrow> ck_kind ck = StoryReview \<Longrightarrow> (\<forall>f \<in> set facts. factOutcome ck (rr_findings r) (rr_facts r) (sf_id f))
     \<and> fe_fact ` set (rr_facts r) \<subseteq> sf_id ` set facts \<and> (\<forall>e \<in> set (rr_facts r). validFact ck e)"
  by (simp add: reportOf_def reportOutcome_def)

lemma criterionIds_expected: "set (criterionIds (ck\<lparr>ck_expected := ids\<rparr>)) = set (ck_ids ck) \<inter> set ids"
  by (simp add: set_criterionIds)

lemma merged_grounding:
  assumes p: "reportOf ck facts primary" "ck_expected ck = ck_ids ck"
    and missing: "\<And>i. i \<in> set (ck_ids ck) \<Longrightarrow> i \<notin> set ids \<Longrightarrow> i \<in> ge_criterion ` set (rr_grounding primary)"
    and r: "reportOf (ck\<lparr>ck_expected := ids\<rparr>) mfacts repair"
    and m: "mergeTraceabilityRepair primary repair ids kind mids c = Inr merged" "clean (rr_findings merged)"
    and i: "i \<in> set (ck_ids ck)"
  shows "settled ge_criterion (backed ck) (rr_grounding merged) i"
proof -
  have 1: "groundedOutcome ck (rr_findings primary) (rr_grounding primary) i" using report_grounded [OF p(1)] p(2) i by (simp add: set_criterionIds)
  have 2: "i \<in> set ids \<Longrightarrow> groundedOutcome ck (rr_findings repair) (rr_grounding repair) i" and 3: "ge_criterion ` set (rr_grounding repair) \<subseteq> set ids"
    using report_grounded [OF r] i unfolding criterionIds_expected groundedOutcome_def by auto
  show ?thesis
    unfolding merge_fields(1) [OF m(1)]
    by (rule merged_settled [OF 1 [unfolded groundedOutcome_def] repair_findings(2) [OF m] 2 [unfolded groundedOutcome_def] repair_findings(1) [OF m] 3 missing [OF i]])
qed

lemma merged_coverage:
  assumes p: "reportOf ck facts primary" "ck_expected ck = ck_ids ck" "ck_kind ck = CaseReview"
    and missing: "\<And>i. i \<in> set (ck_ids ck) \<Longrightarrow> i \<notin> set ids \<Longrightarrow> i \<in> ce_id ` set (rr_coverage primary)"
    and r: "reportOf (ck\<lparr>ck_expected := ids\<rparr>) mfacts repair"
    and m: "mergeTraceabilityRepair primary repair ids kind mids c = Inr merged" "clean (rr_findings merged)"
    and i: "i \<in> set (ck_ids ck)"
  shows "settled ce_id (goodCoverage ck) (rr_coverage merged) i"
proof -
  have 1: "coveredOutcome ck (rr_findings primary) (rr_coverage primary) i" using report_case [OF p(1,3)] p(2) i by (simp add: set_criterionIds)
  have 2: "i \<in> set ids \<Longrightarrow> coveredOutcome ck (rr_findings repair) (rr_coverage repair) i" and 3: "ce_id ` set (rr_coverage repair) \<subseteq> set ids"
    using report_case [OF r] p(3) i unfolding criterionIds_expected coveredOutcome_def by auto
  show ?thesis
    unfolding merge_fields(2) [OF m(1)]
    by (rule merged_settled [OF 1 [unfolded coveredOutcome_def] repair_findings(2) [OF m] 2 [unfolded coveredOutcome_def] repair_findings(1) [OF m] 3 missing [OF i]])
qed

lemma merged_case:
  assumes p: "reportOf ck facts primary" "ck_expected ck = ck_ids ck" and kind: "ck_kind ck = CaseReview"
    and missing: "\<And>i. i \<in> set (ck_ids ck) \<Longrightarrow> i \<notin> set ids \<Longrightarrow> i \<in> ge_criterion ` set (rr_grounding primary) \<and> i \<in> ce_id ` set (rr_coverage primary)"
    and r: "reportOf (ck\<lparr>ck_expected := ids\<rparr>) mfacts repair"
    and m: "mergeTraceabilityRepair primary repair ids kind' mids c = Inr merged" "clean (rr_findings merged)"
  shows "complete ck facts merged"
proof -
  have "scenarioHolds ck (rr_scenario merged)" if "ck_scenario ck \<noteq> None"
  proof -
    have "scenarioOutcome (ck\<lparr>ck_expected := ids\<rparr>) (rr_findings repair) (rr_scenario repair)" using report_case [OF r] kind by simp
    then have "scenarioHolds ck (rr_scenario repair)" using that repair_findings(1) [OF m] by (auto simp: scenarioOutcome_def clean_def)
    then show ?thesis unfolding merge_fields(3) [OF m(1)] by (simp add: scenarioHolds_def)
  qed
  then show ?thesis
    using kind merged_grounding [OF p _ r m] merged_coverage [OF p kind _ r m] missing by (simp add: complete_def)
qed

lemma merged_story:
  assumes p: "reportOf ck facts primary" "ck_expected ck = ck_ids ck" and kind: "ck_kind ck = StoryReview"
    and missing: "\<And>i. i \<in> set (ck_ids ck) \<Longrightarrow> i \<notin> set ids \<Longrightarrow> i \<in> ge_criterion ` set (rr_grounding primary)"
    and facts: "requiredStoryCoverageFacts c = Inr facts" "mids = map sf_id (filter (\<lambda>f. sf_id f \<notin> set (map fe_fact (rr_facts primary))) facts)"
    and r: "reportOf (ck\<lparr>ck_expected := ids\<rparr>) (filter (\<lambda>f. sf_id f \<in> set mids) facts) repair"
    and m: "mergeTraceabilityRepair primary repair ids kind' mids c = Inr merged" "clean (rr_findings merged)"
  shows "complete ck facts merged"
proof -
  let ?es = "map snd (keyed fe_fact (rr_facts primary) (rr_facts repair))"
  note ps = report_story [OF p(1) kind] and rs = report_story [OF r, simplified, OF kind]
  have "\<forall>e \<in> set (rr_facts primary) \<union> set (rr_facts repair). validFact ck e" 
    unfolding ball_Un by (rule conjI [OF ps [THEN conjunct2, THEN conjunct2] rs [THEN conjunct2, THEN conjunct2]])
  then have valid: "\<forall>e \<in> set ?es. validFact ck e" by (metis keyed_subset subsetD)
  have "settled fe_fact (goodFact ck) ?es (sf_id f)" if f: "f \<in> set facts" for f
    using repair_findings(3) [OF m facts(1)]
  proof
    assume no: "\<forall>i. failing M_FACT i \<notin> set (rr_findings primary)"
    have 1: "sf_id f \<in> set mids \<Longrightarrow> factOutcome ck (rr_findings repair) (rr_facts repair) (sf_id f)" and 2: "fe_fact ` set (rr_facts repair) \<subseteq> set mids"
      using rs f unfolding factOutcome_def by auto
    have 3: "sf_id f \<notin> set mids \<Longrightarrow> sf_id f \<in> fe_fact ` set (rr_facts primary)" using f by (auto simp: facts(2))
    have 4: "factOutcome ck (rr_findings primary) (rr_facts primary) (sf_id f)" using ps f by blast
    show ?thesis
      by (rule merged_settled [OF 4 [unfolded factOutcome_def] _ 1 [unfolded factOutcome_def] repair_findings(1) [OF m] 2 3]) (use no in simp)
  next
    assume "\<forall>f \<in> set facts. coveredFact (keyed fe_fact (rr_facts primary) (rr_facts repair)) (sf_id f)"
    then show ?thesis using covered_settled f by blast
  qed
  then show ?thesis
    using kind merged_grounding [OF p missing r m] settled_valid [OF _ valid] by (simp add: complete_def merge_fields(4) [OF m(1)])
qed

end
