(* ===== verification/ReviewProofs.thy ===== *)
theory ReviewProofs
  imports ReviewReports
begin

text \<open>
  From the reports of the stages to the reviewed proposals: a verdict other than \<^verbatim>\<open>FAIL\<close> stands on checked evidence, only checked evidence is
  attached, and the calls of the model are bounded.
\<close>

section \<open>A stage\<close>

definition subjectCheck :: "review_subject \<Rightarrow> review_check res" where
  "subjectCheck sb = checkAgainst (sb_proposal sb) (sb_context sb) (sb_kind sb) Traceability None (sb_scenario sb)"

lemma requiredFacts_simps:
  "requiredStoryCoverageFacts c = Inr facts \<Longrightarrow> requiredFacts c None = Inr facts"
  "requiredStoryCoverageFacts c = Inr facts \<Longrightarrow> requiredFacts c (Some ids) = Inr (filter (\<lambda>f. sf_id f \<in> set ids) facts)"
  by (simp_all add: requiredFacts_def)

lemma review_outcome:
  assumes "checkReview sb Traceability None None raw = Inr report" "storyFacts sb = Inr facts"
  obtains ck where "subjectCheck sb = Inr ck" "reportOf ck facts report"
proof (rule checked_outcome [OF assms(1) [unfolded checkReview_def]])
  fix ck
  assume "checkAgainst (sb_proposal sb) (sb_context sb) (sb_kind sb) Traceability None (sb_scenario sb) = Inr ck"
    and r: "\<And>facts. (sb_kind sb = StoryReview \<Longrightarrow> requiredFacts (sb_context sb) None = Inr facts) \<Longrightarrow> reportOf ck facts report"
  moreover have "reportOf ck facts report" using assms(2) by (intro r) (auto simp: storyFacts_def requiredFacts_simps split: if_splits)
  ultimately show ?thesis using that by (simp add: subjectCheck_def)
qed

lemma completion_outcome:
  assumes "checkReview sb Traceability (Some ids) (if sb_kind sb = StoryReview then Some mids else None) raw = Inr repaired" "storyFacts sb = Inr facts"
    and "subjectCheck sb = Inr ck"
  shows "reportOf (ck\<lparr>ck_expected := ids\<rparr>) (filter (\<lambda>f. sf_id f \<in> set mids) facts) repaired"
proof (rule checked_outcome [OF assms(1) [unfolded checkReview_def]])
  fix ck'
  assume c: "checkAgainst (sb_proposal sb) (sb_context sb) (sb_kind sb) Traceability (Some ids) (sb_scenario sb) = Inr ck'"
    and r: "\<And>facts. (sb_kind sb = StoryReview \<Longrightarrow> requiredFacts (sb_context sb) (if sb_kind sb = StoryReview then Some mids else None) = Inr facts) \<Longrightarrow> reportOf ck' facts repaired"
  have ck': "ck' = ck\<lparr>ck_expected := ids\<rparr>" using checkAgainst_expected(1) [OF assms(3) [unfolded subjectCheck_def], of ids] c by simp
  show ?thesis
    unfolding ck' [symmetric] by (rule r) (use assms(2) in \<open>simp add: storyFacts_def requiredFacts_simps\<close>)
qed

lemma retry_cases:
  assumes "retryReview agent node t sb report vs = (report', trs, vs')"
  shows "report' = report \<or> (\<exists>raw. checkReview sb Traceability None None raw = Inr report')" "vs_calls vs' \<le> vs_calls vs + 1"
  using assms unfolding retryReview_def by (auto simp: Let_def called_def split: prod.splits sum.splits if_splits)

lemma repair_cases:
  assumes "repairReview agent node t sb report vs = Inr (report', trs, vs')"
  obtains ids mids where "missingTraceabilityIds report (sb_proposal sb) (sb_kind sb) = Inr ids"
    "(if sb_kind sb = StoryReview then missingStorySourceFactIds report (sb_context sb) else Inr []) = Inr mids"
    "report' = report \<or> (\<exists>raw repaired. checkReview sb Traceability (Some ids) (if sb_kind sb = StoryReview then Some mids else None) raw = Inr repaired
       \<and> mergeTraceabilityRepair report repaired ids (sb_kind sb) mids (sb_context sb) = Inr report')"
    "vs_calls vs' \<le> vs_calls vs + 1"
proof -
  from assms obtain ids mids where ids: "missingTraceabilityIds report (sb_proposal sb) (sb_kind sb) = Inr ids"
      "(if sb_kind sb = StoryReview then missingStorySourceFactIds report (sb_context sb) else Inr []) = Inr mids"
    unfolding repairReview_def by (auto simp only: res_simps)
  show ?thesis
  proof (cases "ids = [] \<and> mids = []")
    case True
    then show ?thesis using assms ids by (intro that [OF ids]) (simp_all add: repairReview_def)
  next
    case False
    then show ?thesis using assms ids by (intro that [OF ids]) (auto simp: repairReview_def Let_def res_simps called_def)
  qed
qed

lemma checked_ids:
  assumes "subjectCheck sb = Inr ck"
  shows "ck_expected ck = ck_ids ck" "ck_kind ck = sb_kind sb" "ck_scenario ck = sb_scenario sb" "allCriterionIds (sb_kind sb) (sb_proposal sb) = Inr (ck_ids ck)"
  using checkAgainst_expected(2) assms unfolding subjectCheck_def by blast+

lemma repair_complete:
  assumes "subjectCheck sb = Inr ck" "reportOf ck facts report" "storyFacts sb = Inr facts"
    and "repairReview agent node t sb report vs = Inr (report', trs, vs')" "clean (rr_findings report')"
  shows "complete ck facts report'"
proof (rule repair_cases [OF assms(4)])
  fix ids mids
  assume ids: "missingTraceabilityIds report (sb_proposal sb) (sb_kind sb) = Inr ids"
    and mids: "(if sb_kind sb = StoryReview then missingStorySourceFactIds report (sb_context sb) else Inr []) = Inr mids"
    and cases: "report' = report \<or> (\<exists>raw repaired. checkReview sb Traceability (Some ids) (if sb_kind sb = StoryReview then Some mids else None) raw = Inr repaired
       \<and> mergeTraceabilityRepair report repaired ids (sb_kind sb) mids (sb_context sb) = Inr report')"
  note ck = checked_ids [OF assms(1)]
  have missing: "i \<in> ge_criterion ` set (rr_grounding report)" "sb_kind sb = CaseReview \<Longrightarrow> i \<in> ce_id ` set (rr_coverage report)"
    if "i \<in> set (ck_ids ck)" "i \<notin> set ids" for i
    using ids ck(4) that by (auto simp: missingTraceabilityIds_def list_ex_iff intro: image_eqI [OF sym])
  from cases show ?thesis
  proof
    assume "report' = report"
    then show ?thesis using complete_direct [OF assms(2) ck(1)] assms(5) by simp
  next
    assume "\<exists>raw repaired. checkReview sb Traceability (Some ids) (if sb_kind sb = StoryReview then Some mids else None) raw = Inr repaired
       \<and> mergeTraceabilityRepair report repaired ids (sb_kind sb) mids (sb_context sb) = Inr report'"
    then obtain raw repaired where c: "checkReview sb Traceability (Some ids) (if sb_kind sb = StoryReview then Some mids else None) raw = Inr repaired"
      and m: "mergeTraceabilityRepair report repaired ids (sb_kind sb) mids (sb_context sb) = Inr report'" by blast
    note r = completion_outcome [OF c assms(3,1)]
    show ?thesis
    proof (cases "sb_kind sb")
      case CaseReview
      then show ?thesis using merged_case [OF assms(2) ck(1) _ _ r m assms(5)] missing ck(2) by simp
    next
      case StoryReview
      have "requiredStoryCoverageFacts (sb_context sb) = Inr facts" "mids = map sf_id (filter (\<lambda>f. sf_id f \<notin> set (map fe_fact (rr_facts report))) facts)"
        using assms(3) mids StoryReview by (auto simp: storyFacts_def missingStorySourceFactIds_def)
      then show ?thesis using merged_story [OF assms(2) ck(1) _ _ _ _ r m assms(5)] missing(1) ck(2) StoryReview by simp
    qed
  qed
qed

lemma stage_complete:
  assumes "reviewStage agent nodes sb prior t Traceability vs = Inr (report, vs')" "clean (rr_findings report)"
  obtains ck facts where "subjectCheck sb = Inr ck" "storyFacts sb = Inr facts" "complete ck facts report"
proof -
  from assms(1) obtain node raw first others vs1 vs2 facts where facts: "storyFacts sb = Inr facts"
    and first: "checkReview sb Traceability None None raw = Inr first"
    and finished: "completeReview agent node t sb Traceability first vs1 = Inr (report, others, vs2)"
    unfolding reviewStage_def by (auto simp: res_simps)
  obtain ck where ck: "subjectCheck sb = Inr ck" "reportOf ck facts first" using review_outcome [OF first facts] .
  from finished obtain rp retries vs3 repairs where retried: "rp = first \<or> retryReview agent node t sb first vs1 = (rp, retries, vs3)"
    and repaired: "repairReview agent node t sb rp vs3 = Inr (report, repairs, vs2)"
    unfolding completeReview_def by (auto simp: res_simps split: prod.splits if_splits)
  have "reportOf ck facts rp"
    using retried
  proof
    assume "retryReview agent node t sb first vs1 = (rp, retries, vs3)"
    from retry_cases(1) [OF this] show ?thesis using ck review_outcome [OF _ facts] by (metis sum.inject(2))
  qed (simp add: ck(2))
  from that [OF ck(1) facts repair_complete [OF ck(1) this facts repaired assms(2)]] show ?thesis .
qed

section \<open>The reviewed proposals\<close>

lemma distinct_findings_key: "f \<in> set fs \<Longrightarrow> finding_key f \<notin> set seen \<Longrightarrow> \<exists>g \<in> set (distinct_findings seen fs). finding_key g = finding_key f"
proof (induction seen fs rule: distinct_findings.induct)
  case (2 seen h fs)
  then show ?case by (cases "finding_key f = finding_key h") auto
qed simp

lemma distinct_findings_fail: "f \<in> set fs \<Longrightarrow> fails f \<Longrightarrow> list_ex fails (distinct_findings [] fs)"
  using distinct_findings_key [of f fs "[]"] by (auto simp: list_ex_iff fails_def finding_key_def)

lemma semanticReview_clean: "rr_verdict (semanticReview scenario quality traceability) \<noteq> ''FAIL'' \<Longrightarrow> clean (rr_findings traceability)"
proof (rule ccontr)
  assume v: "rr_verdict (semanticReview scenario quality traceability) \<noteq> ''FAIL''" and "\<not> clean (rr_findings traceability)"
  then obtain m i where "failing m i \<in> set (rr_findings traceability)" by (auto simp: clean_def)
  then have "failing m i \<in> set (map (reconcile (assignedScenarioCovered scenario traceability)) (rr_findings quality @ rr_findings traceability))"
    by (auto simp: image_iff intro!: bexI [of _ "failing m i"])
  from distinct_findings_fail [OF this] show False using v by (simp add: semanticReview_def verdictOf_def Let_def)
qed

lemma semanticReview_fields [simp]:
  "rr_grounding (semanticReview s q t) = rr_grounding t" "rr_coverage (semanticReview s q t) = rr_coverage t"
  "rr_scenario (semanticReview s q t) = rr_scenario t" "rr_facts (semanticReview s q t) = rr_facts t"
  by (simp_all add: semanticReview_def Let_def)

lemma complete_fields:
  "rr_grounding r = rr_grounding r' \<Longrightarrow> rr_coverage r = rr_coverage r' \<Longrightarrow> rr_scenario r = rr_scenario r' \<Longrightarrow> rr_facts r = rr_facts r' \<Longrightarrow>
     complete ck facts r = complete ck facts r'"
  by (cases "ck_kind ck") (simp_all add: complete_def)

lemma proposal_stages:
  assumes "reviewProposal agent nodes sb vs = Inr (r, vs')"
  obtains quality traceability vs1 where
    "reviewStage agent nodes sb None (fst (REVIEWERS (sb_kind sb))) Quality vs = Inr (quality, vs1)"
    "reviewStage agent nodes sb (Some quality) (snd (REVIEWERS (sb_kind sb))) Traceability vs1 = Inr (traceability, vs')"
    "rd_review r = semanticReview (sb_scenario sb) quality traceability" "groundedProposal (sb_kind sb) (rd_review r) (sb_proposal sb) = Inr (rd_proposal r)"
  using assms unfolding reviewProposal_def by (auto simp: Let_def res_simps)

lemma proposal_complete:
  assumes "reviewProposal agent nodes sb vs = Inr (r, vs')" "rr_verdict (rd_review r) \<noteq> ''FAIL''"
  obtains ck facts where "subjectCheck sb = Inr ck" "storyFacts sb = Inr facts" "complete ck facts (rd_review r)"
proof (rule proposal_stages [OF assms(1)])
  fix q t vs1
  assume t: "reviewStage agent nodes sb (Some q) (snd (REVIEWERS (sb_kind sb))) Traceability vs1 = Inr (t, vs')" and r: "rd_review r = semanticReview (sb_scenario sb) q t"
  from stage_complete [OF t semanticReview_clean [OF assms(2) [unfolded r]]] obtain ck facts
    where ck: "subjectCheck sb = Inr ck" "storyFacts sb = Inr facts" "complete ck facts t" .
  have "complete ck facts (rd_review r) = complete ck facts t" unfolding r by (rule complete_fields) simp_all
  with ck show ?thesis by (intro that) simp_all
qed

lemma reviewAll_each:
  assumes "reviewAll agent nodes c kind scenarios ps vs = Inr (rs, vs')"
  shows "list_all2 (\<lambda>p r. \<exists>vs1 vs2. reviewProposal agent nodes (subjectFor c kind scenarios p) vs1 = Inr (r, vs2)) ps rs"
  using assms by (induction ps arbitrary: vs rs) (auto simp: res_simps)

lemma reviewed_each:
  assumes "reviewGeneratedProposals agent nodes proposals c kind scenarios = Inr (rs, traces)"
  shows "length rs = length proposals"
    "k < length proposals \<Longrightarrow> \<exists>vs1 vs2. reviewProposal agent nodes (subjectFor c kind scenarios (k, proposals ! k)) vs1 = Inr (rs ! k, vs2)"
proof -
  from assms have *: "list_all2 (\<lambda>p r. \<exists>vs1 vs2. reviewProposal agent nodes (subjectFor c kind scenarios p) vs1 = Inr (r, vs2)) (enumerate 0 proposals) rs"
    unfolding reviewGeneratedProposals_def by (auto simp: res_simps dest: reviewAll_each)
  show "length rs = length proposals" using list_all2_lengthD [OF *] by simp
  show "\<exists>vs1 vs2. reviewProposal agent nodes (subjectFor c kind scenarios (k, proposals ! k)) vs1 = Inr (rs ! k, vs2)" if "k < length proposals"
    using list_all2_nthD [OF *, of k] that by (simp add: nth_enumerate_eq)
qed

section \<open>What is attached to a proposal\<close>

definition literalGrounding :: "review_check \<Rightarrow> grounding_entry \<Rightarrow> bool" where
  "literalGrounding ck g \<longleftrightarrow> ge_criterion g \<in> set (ck_ids ck) \<and> list_all (cites ck) (ge_evidence g)"

lemma groundingOf_literal: "i \<in> set (ck_ids ck) \<Longrightarrow> g \<in> set (snd (groundingOf ck items i)) \<Longrightarrow> literalGrounding ck g"
  by (rule grounding_cases [of ck items i]) (auto simp: literalGrounding_def)

lemma trace_literal: "traceReview ck c raw factIds = Inr td \<Longrightarrow> g \<in> set (td_grounding td) \<Longrightarrow> literalGrounding ck g"
proof -
  assume "traceReview ck c raw factIds = Inr td" "g \<in> set (td_grounding td)"
  then have "g \<in> set (snd (parts_of (map (groundingOf ck (js_get raw ''grounding'')) (criterionIds ck))))"
    by (auto simp: traceReview_def Let_def res_simps split: review_kind.splits)
  then show ?thesis using groundingOf_literal by (auto simp: parts_of_def criterionIds_def)
qed

lemma checked_literal:
  assumes "checkReview sb Traceability ids factIds raw = Inr report" "subjectCheck sb = Inr ck" "g \<in> set (rr_grounding report)"
  shows "literalGrounding ck g"
proof -
  from assms(1) obtain ck' td where ck': "checkAgainst (sb_proposal sb) (sb_context sb) (sb_kind sb) Traceability ids (sb_scenario sb) = Inr ck'"
    and td: "traceReview ck' (sb_context sb) raw factIds = Inr td" "report = assembleReport ck' raw td"
    unfolding checkReview_def by (auto simp: checkedSemanticReview_def res_simps)
  have "g \<in> set (td_grounding td)" using assms(3) td(2) by (simp add: assembleReport_def Let_def)
  then have "literalGrounding ck' g" by (rule trace_literal [OF td(1)])
  moreover have "literalGrounding ck' = literalGrounding ck"
    using ck' assms(2) checkAgainst_expected(1) [of "sb_proposal sb" "sb_context sb" "sb_kind sb" Traceability "sb_scenario sb" ck]
    by (cases ids) (auto simp: subjectCheck_def fun_eq_iff literalGrounding_def cites_def source_texts_def)
  ultimately show ?thesis by simp
qed

lemma repair_literal:
  assumes "repairReview agent node t sb report vs = Inr (report', trs, vs')" "subjectCheck sb = Inr ck" "\<forall>g \<in> set (rr_grounding report). literalGrounding ck g"
  shows "\<forall>g \<in> set (rr_grounding report'). literalGrounding ck g"
proof (rule repair_cases [OF assms(1)])
  fix ids mids
  assume "report' = report \<or> (\<exists>raw repaired. checkReview sb Traceability (Some ids) (if sb_kind sb = StoryReview then Some mids else None) raw = Inr repaired
       \<and> mergeTraceabilityRepair report repaired ids (sb_kind sb) mids (sb_context sb) = Inr report')"
  then show ?thesis
  proof
    assume "\<exists>raw repaired. checkReview sb Traceability (Some ids) (if sb_kind sb = StoryReview then Some mids else None) raw = Inr repaired
       \<and> mergeTraceabilityRepair report repaired ids (sb_kind sb) mids (sb_context sb) = Inr report'"
    then obtain raw repaired where c: "checkReview sb Traceability (Some ids) (if sb_kind sb = StoryReview then Some mids else None) raw = Inr repaired"
      and m: "mergeTraceabilityRepair report repaired ids (sb_kind sb) mids (sb_context sb) = Inr report'" by blast
    show ?thesis
      using keyed_subset [of ge_criterion "rr_grounding report" "rr_grounding repaired"] checked_literal [OF c assms(2)] assms(3)
      unfolding merge_fields(1) [OF m] by blast
  qed (simp add: assms(3))
qed

lemma stage_literal:
  assumes "reviewStage agent nodes sb prior t Traceability vs = Inr (report, vs')" "subjectCheck sb = Inr ck"
  shows "\<forall>g \<in> set (rr_grounding report). literalGrounding ck g"
proof -
  from assms(1) obtain node raw first others vs1 vs2 where first: "checkReview sb Traceability None None raw = Inr first"
    and finished: "completeReview agent node t sb Traceability first vs1 = Inr (report, others, vs2)"
    unfolding reviewStage_def by (auto simp: res_simps)
  from finished obtain rp retries vs3 repairs where retried: "rp = first \<or> retryReview agent node t sb first vs1 = (rp, retries, vs3)"
    and repaired: "repairReview agent node t sb rp vs3 = Inr (report, repairs, vs2)"
    unfolding completeReview_def by (auto simp: res_simps split: prod.splits if_splits)
  have "rp = first \<or> (\<exists>raw. checkReview sb Traceability None None raw = Inr rp)" using retried retry_cases(1) by blast
  then have "\<forall>g \<in> set (rr_grounding rp). literalGrounding ck g" using checked_literal [OF _ assms(2)] first by blast
  then show ?thesis by (rule repair_literal [OF repaired assms(2)])
qed

lemma stage_check:
  assumes "reviewStage agent nodes sb prior t Traceability vs = Inr (report, vs')"
  obtains ck where "subjectCheck sb = Inr ck"
proof -
  from assms obtain raw first facts where "checkReview sb Traceability None None raw = Inr first" "storyFacts sb = Inr facts"
    unfolding reviewStage_def by (auto simp: res_simps)
  then show ?thesis using review_outcome that by blast
qed

lemma proposal_literal:
  assumes "reviewProposal agent nodes sb vs = Inr (r, vs')"
  obtains ck where "subjectCheck sb = Inr ck" "\<forall>g \<in> set (rr_grounding (rd_review r)). literalGrounding ck g"
    "groundedProposal (sb_kind sb) (rd_review r) (sb_proposal sb) = Inr (rd_proposal r)"
proof (rule proposal_stages [OF assms])
  fix q t vs1
  assume t: "reviewStage agent nodes sb (Some q) (snd (REVIEWERS (sb_kind sb))) Traceability vs1 = Inr (t, vs')" and r: "rd_review r = semanticReview (sb_scenario sb) q t"
    and g: "groundedProposal (sb_kind sb) (rd_review r) (sb_proposal sb) = Inr (rd_proposal r)"
  obtain ck where ck: "subjectCheck sb = Inr ck" using stage_check [OF t] .
  have "\<forall>g \<in> set (rr_grounding (rd_review r)). literalGrounding ck g" using stage_literal [OF t ck] unfolding r by simp
  then show ?thesis using that ck g by blast
qed

section \<open>The number of calls\<close>

lemma retry_tally:
  "retryReview agent node t sb report vs = (report', trs, vs') \<Longrightarrow> length trs = 1 \<and> vs_calls vs' \<le> vs_calls vs + 1 \<and> vs_calls vs \<le> vs_calls vs' \<and> vs_traces vs' = vs_traces vs"
  unfolding retryReview_def by (auto simp: Let_def called_def split: prod.splits sum.splits if_splits)

lemma repair_tally:
  "repairReview agent node t sb report vs = Inr (report', trs, vs') \<Longrightarrow> vs_calls vs' = vs_calls vs + length trs \<and> length trs \<le> 1 \<and> vs_traces vs' = vs_traces vs"
  unfolding repairReview_def by (auto simp: Let_def res_simps called_def split: if_splits)

lemma complete_tally:
  assumes "completeReview agent node t sb st first vs = Inr (report, others, vs')"
  shows "vs_calls vs \<le> vs_calls vs'" "vs_calls vs' \<le> vs_calls vs + length others" "length others \<le> (if st = Quality then 0 else 2)" "vs_traces vs' = vs_traces vs"
proof -
  have "vs_calls vs \<le> vs_calls vs' \<and> vs_calls vs' \<le> vs_calls vs + length others \<and> length others \<le> (if st = Quality then 0 else 2) \<and> vs_traces vs' = vs_traces vs"
  proof (cases "st = Quality")
    case False
    then obtain rp retries vs1 repairs where r: "(rp, retries, vs1) = (if malformedReview first then retryReview agent node t sb first vs else (first, [], vs))"
      and p: "repairReview agent node t sb rp vs1 = Inr (report, repairs, vs')" "others = repairs @ retries"
      using assms unfolding completeReview_def by (auto simp: res_simps split: prod.splits)
    have "length retries \<le> 1 \<and> vs_calls vs1 \<le> vs_calls vs + length retries \<and> vs_calls vs \<le> vs_calls vs1 \<and> vs_traces vs1 = vs_traces vs"
      using r retry_tally [of agent node t sb first vs rp retries vs1] by (cases "malformedReview first") auto
    then show ?thesis using repair_tally [OF p(1)] p(2) False by auto
  qed (use assms in \<open>auto simp: completeReview_def\<close>)
  then show "vs_calls vs \<le> vs_calls vs'" "vs_calls vs' \<le> vs_calls vs + length others" "length others \<le> (if st = Quality then 0 else 2)" "vs_traces vs' = vs_traces vs"
    by blast+
qed

lemma stage_tally:
  assumes "reviewStage agent nodes sb prior t st vs = Inr (report, vs')"
  shows "vs_calls vs + 1 \<le> vs_calls vs'" "vs_calls vs' + length (vs_traces vs) \<le> vs_calls vs + length (vs_traces vs')"
    "length (vs_traces vs) + 1 \<le> length (vs_traces vs')" "length (vs_traces vs') \<le> length (vs_traces vs) + (if st = Quality then 1 else 3)"
proof -
  from assms obtain node raw first others vs2 tr where c: "completeReview agent node t sb st first (called vs) = Inr (report, others, vs2)"
    and vs': "vs_calls vs' = vs_calls vs2" "vs_traces vs' = vs_traces vs2 @ tr # others"
    unfolding reviewStage_def by (auto simp: res_simps)
  note tally = complete_tally [OF c]
  show "vs_calls vs + 1 \<le> vs_calls vs'" "vs_calls vs' + length (vs_traces vs) \<le> vs_calls vs + length (vs_traces vs')"
    "length (vs_traces vs) + 1 \<le> length (vs_traces vs')" "length (vs_traces vs') \<le> length (vs_traces vs) + (if st = Quality then 1 else 3)"
    using tally vs' by (auto simp: called_def split: if_splits)
qed

lemma proposal_tally:
  assumes "reviewProposal agent nodes sb vs = Inr (r, vs')"
  shows "vs_calls vs + 2 \<le> vs_calls vs' \<and> vs_calls vs' + length (vs_traces vs) \<le> vs_calls vs + length (vs_traces vs')
    \<and> length (vs_traces vs) \<le> length (vs_traces vs') \<and> length (vs_traces vs') \<le> length (vs_traces vs) + 4"
proof (rule proposal_stages [OF assms])
  fix q t vs1
  assume "reviewStage agent nodes sb None (fst (REVIEWERS (sb_kind sb))) Quality vs = Inr (q, vs1)"
    and "reviewStage agent nodes sb (Some q) (snd (REVIEWERS (sb_kind sb))) Traceability vs1 = Inr (t, vs')"
  from stage_tally [OF this(1)] stage_tally [OF this(2)] show ?thesis by simp
qed

lemma all_tally:
  "reviewAll agent nodes c kind scenarios ps vs = Inr (rs, vs') \<Longrightarrow>
     vs_calls vs + 2 * length ps \<le> vs_calls vs' \<and> vs_calls vs' + length (vs_traces vs) \<le> vs_calls vs + length (vs_traces vs')
     \<and> length (vs_traces vs) \<le> length (vs_traces vs') \<and> length (vs_traces vs') \<le> length (vs_traces vs) + 4 * length ps \<and> length rs = length ps"
proof (induction ps arbitrary: vs rs)
  case (Cons p ps)
  then obtain r rs' vs1 where p: "reviewProposal agent nodes (subjectFor c kind scenarios p) vs = Inr (r, vs1)"
    and ps: "reviewAll agent nodes c kind scenarios ps vs1 = Inr (rs', vs')" "rs = r # rs'" by (auto simp: res_simps)
  from proposal_tally [OF p] Cons.IH [OF ps(1)] ps(2) show ?case by simp
qed simp

section \<open>Properties\<close>

text \<open>C4. A review passes only on evidence: when the verdict on a proposal is not \<^verbatim>\<open>FAIL\<close>, whatever the reviewers answer and however often they are
  asked again, every criterion is backed by literal quotes of its sources or by accepted assumptions only; for a case every criterion is covered by existing steps
  (when no scenario is planned) and the planned scenario is; for a story every required fact is covered by criteria of the story and quoted literally.\<close>

theorem review_evidence:
  assumes "reviewGeneratedProposals agent nodes proposals c kind scenarios = Inr (rs, traces)" "k < length proposals"
    and "rr_verdict (rd_review (rs ! k)) \<noteq> ''FAIL''"
  shows "\<exists>ck facts. subjectCheck (subjectFor c kind scenarios (k, proposals ! k)) = Inr ck \<and> storyFacts (subjectFor c kind scenarios (k, proposals ! k)) = Inr facts
    \<and> (\<forall>i \<in> set (ck_ids ck). \<exists>g \<in> set (rr_grounding (rd_review (rs ! k))). ge_criterion g = i \<and> backed ck g)
    \<and> (kind = CaseReview \<longrightarrow>
         (\<forall>i \<in> set (ck_ids ck). \<exists>e \<in> set (rr_coverage (rd_review (rs ! k))). ce_id e = i \<and> goodCoverage ck e)
         \<and> (ck_scenario ck \<noteq> None \<longrightarrow> scenarioHolds ck (rr_scenario (rd_review (rs ! k)))))
    \<and> (kind = StoryReview \<longrightarrow>
         (\<forall>f \<in> set facts. \<exists>e \<in> set (rr_facts (rd_review (rs ! k))). fe_fact e = sf_id f \<and> goodFact ck e \<and> validFact ck e))"
proof -
  obtain vs1 vs2 where r: "reviewProposal agent nodes (subjectFor c kind scenarios (k, proposals ! k)) vs1 = Inr (rs ! k, vs2)"
    using reviewed_each(2) [OF assms(1,2)] by blast
  from proposal_complete [OF r assms(3)] obtain ck facts where ck: "subjectCheck (subjectFor c kind scenarios (k, proposals ! k)) = Inr ck"
      "storyFacts (subjectFor c kind scenarios (k, proposals ! k)) = Inr facts" and done': "complete ck facts (rd_review (rs ! k))" .
  have "ck_kind ck = kind" using checked_ids(2) [OF ck(1)] by (simp add: subjectFor_def)
  with done' have "(\<forall>i \<in> set (ck_ids ck). settled ge_criterion (backed ck) (rr_grounding (rd_review (rs ! k))) i)
      \<and> (kind = CaseReview \<longrightarrow> (\<forall>i \<in> set (ck_ids ck). settled ce_id (goodCoverage ck) (rr_coverage (rd_review (rs ! k))) i)
           \<and> (ck_scenario ck \<noteq> None \<longrightarrow> scenarioHolds ck (rr_scenario (rd_review (rs ! k)))))
      \<and> (kind = StoryReview \<longrightarrow> (\<forall>f \<in> set facts. settled fe_fact (\<lambda>e. goodFact ck e \<and> validFact ck e) (rr_facts (rd_review (rs ! k))) (sf_id f)))"
    by (cases kind) (simp_all add: complete_def)
  then show ?thesis using ck unfolding settled_def by (intro exI [of _ ck] exI [of _ facts]) blast
qed

text \<open>A reviewed case.\<close>

definition demo_context :: jval where
  "demo_context = JObj [(''historia'', JObj [(''id'', JStr ''H1'')]), (''criterios'', JArr [JObj [(''id'', JStr ''C1''), (''regla'', JStr ''paga'')]]),
     (''analysis'', JObj [])]"

definition demo_review :: jval where
  "demo_review = JObj [(''verdict'', JStr ''PASS''), (''findings'', JArr []),
     (''grounding'', JArr [JObj [(''criterion_id'', JStr ''C1''), (''status'', JStr ''EXPLICIT''), (''reason'', JStr ''q''), (''assumption_ids'', JArr []),
        (''evidence'', JArr [JObj [(''source_id'', JStr ''criterion:C1''), (''quote'', JStr ''paga'')]])]]),
     (''coverage'', JArr [JObj [(''criterion_id'', JStr ''C1''), (''status'', JStr ''COVERED''), (''reason'', JStr ''q''), (''step_numbers'', JArr [num 1])]])]"

definition demo_nodes :: "jval list" where
  "demo_nodes = map (\<lambda>t. JObj [(''type'', JStr t), (''name'', JStr t)]) [''QaCaseCritic'', ''CoverageTraceabilityAuditor'']"

definition demo_case :: jval where
  "demo_case = JObj [(''criterion_refs'', JArr [JStr ''C1'']), (''steps'', JArr [JObj [(''number'', num 1)]])]"

lemma demo_reviewed:
  "case reviewGeneratedProposals (\<lambda>n rq. Inr \<lparr>ag_data = demo_review, ag_metrics = JNull\<rparr>) demo_nodes [demo_case] demo_context CaseReview [] of
     Inr (rs, traces) \<Rightarrow> length rs = 1 \<and> rr_verdict (rd_review (rs ! 0)) = ''PASS'' \<and> length traces = 2
   | Inl _ \<Rightarrow> False"
  by code_simp

lemma demo_result:
  obtains rs traces where "reviewGeneratedProposals (\<lambda>n rq. Inr \<lparr>ag_data = demo_review, ag_metrics = JNull\<rparr>) demo_nodes [demo_case] demo_context CaseReview [] = Inr (rs, traces)"
    "length rs = 1" "rr_verdict (rd_review (rs ! 0)) = ''PASS''" "length traces = 2"
  using demo_reviewed by (auto split: sum.splits)

lemma demo_criteria: "allCriterionIds CaseReview demo_case = Inr [''C1'']"
  by code_simp

lemma demo_ids: "subjectCheck (subjectFor demo_context CaseReview [] (0, demo_case)) = Inr ck \<Longrightarrow> ck_ids ck = [''C1'']"
  using checked_ids(4) [of "subjectFor demo_context CaseReview [] (0, demo_case)" ck] demo_criteria by (simp add: subjectFor_def)

theorem review_evidence_witness:
  "\<exists>rs traces ck. reviewGeneratedProposals (\<lambda>n rq. Inr \<lparr>ag_data = demo_review, ag_metrics = JNull\<rparr>) demo_nodes [demo_case] demo_context CaseReview [] = Inr (rs, traces)
     \<and> rr_verdict (rd_review (rs ! 0)) = ''PASS'' \<and> (\<exists>g \<in> set (rr_grounding (rd_review (rs ! 0))). ge_criterion g = ''C1'' \<and> backed ck g)
     \<and> (\<exists>e \<in> set (rr_coverage (rd_review (rs ! 0))). ce_id e = ''C1'' \<and> goodCoverage ck e)"
proof (rule demo_result)
  fix rs traces
  assume r: "reviewGeneratedProposals (\<lambda>n rq. Inr \<lparr>ag_data = demo_review, ag_metrics = JNull\<rparr>) demo_nodes [demo_case] demo_context CaseReview [] = Inr (rs, traces)"
    and v: "rr_verdict (rd_review (rs ! 0)) = ''PASS''"
  have "0 < length [demo_case]" "rr_verdict (rd_review (rs ! 0)) \<noteq> ''FAIL''" using v by simp_all
  from review_evidence [OF r this] obtain ck where ck: "subjectCheck (subjectFor demo_context CaseReview [] (0, demo_case)) = Inr ck"
    "\<forall>i \<in> set (ck_ids ck). \<exists>g \<in> set (rr_grounding (rd_review (rs ! 0))). ge_criterion g = i \<and> backed ck g"
    "\<forall>i \<in> set (ck_ids ck). \<exists>e \<in> set (rr_coverage (rd_review (rs ! 0))). ce_id e = i \<and> goodCoverage ck e" by auto
  then show ?thesis using r v demo_ids [OF ck(1)] by (intro exI [of _ rs] exI [of _ traces] exI [of _ ck]) simp
qed

lemma groundedCriterion_refs:
  assumes "groundedCriterion report x = Inr y" "JStr s \<in> set (arr_elems (js_get y ''source_refs''))"
  shows "\<exists>g \<in> set (rr_grounding report). \<exists>q. (s, q) \<in> set (ge_evidence g)"
proof -
  from assms(1) obtain i where "js_get y ''source_refs'' = JArr (map JStr (sourceRefsForGrounding (find (\<lambda>g. JStr (ge_criterion g) = i) (rr_grounding report))))"
    by (auto simp: groundedCriterion_def Let_def res_simps obj_spread_def obj_get_obj_put_eq)
  then have s: "s \<in> set (sourceRefsForGrounding (find (\<lambda>g. JStr (ge_criterion g) = i) (rr_grounding report)))" using assms(2) by auto
  then obtain g where g: "find (\<lambda>g. JStr (ge_criterion g) = i) (rr_grounding report) = Some g"
    by (cases "find (\<lambda>g. JStr (ge_criterion g) = i) (rr_grounding report)") (simp_all add: sourceRefsForGrounding_def)
  with s have "s \<in> fst ` set (ge_evidence g)" by (auto simp: sourceRefsForGrounding_def split: if_splits)
  then show ?thesis using find_SomeD [OF g] by force
qed

lemma map_res_source: "map_res f xs = Inr ys \<Longrightarrow> y \<in> set ys \<Longrightarrow> \<exists>x \<in> set xs. f x = Inr y"
  by (induction xs arbitrary: ys) (auto simp: res_simps)

lemma groundedProposal_refs:
  assumes "groundedProposal StoryReview report proposal = Inr grounded" "criterion \<in> set (arr_elems (js_get grounded ''acceptance_criteria''))"
    and "JStr s \<in> set (arr_elems (js_get criterion ''source_refs''))"
  shows "\<exists>g \<in> set (rr_grounding report). \<exists>q. (s, q) \<in> set (ge_evidence g)"
proof -
  from assms(1) obtain items criteria where "map_res (groundedCriterion report) items = Inr criteria" "js_get grounded ''acceptance_criteria'' = JArr criteria"
    by (auto simp: groundedProposal_def res_simps obj_spread_def obj_get_obj_put_eq)
  then show ?thesis using map_res_source groundedCriterion_refs assms(2,3) by (metis arr_elems.simps(1))
qed



text \<open>C26. Every proposal is reviewed, with two to four calls of the model: a report for each, in their order, and each call leaves a trace.\<close>

theorem review_calls_bounded:
  assumes "reviewAll agent nodes c kind scenarios (enumerate 0 proposals) \<lparr>vs_calls = 0, vs_traces = []\<rparr> = Inr (rs, vs)"
  shows "length rs = length proposals \<and> 2 * length proposals \<le> vs_calls vs \<and> vs_calls vs \<le> length (vs_traces vs) \<and> length (vs_traces vs) \<le> 4 * length proposals"
  using all_tally [OF assms] by simp

theorem review_calls_bounded_witness:
  "\<exists>rs vs. reviewAll (\<lambda>n rq. Inr \<lparr>ag_data = demo_review, ag_metrics = JNull\<rparr>) demo_nodes demo_context CaseReview [] (enumerate 0 [demo_case]) \<lparr>vs_calls = 0, vs_traces = []\<rparr> = Inr (rs, vs)
     \<and> length rs = 1 \<and> 2 \<le> vs_calls vs \<and> vs_calls vs \<le> 4"
proof (rule demo_result)
  fix rs traces
  assume "reviewGeneratedProposals (\<lambda>n rq. Inr \<lparr>ag_data = demo_review, ag_metrics = JNull\<rparr>) demo_nodes [demo_case] demo_context CaseReview [] = Inr (rs, traces)"
  then obtain vs where r: "reviewAll (\<lambda>n rq. Inr \<lparr>ag_data = demo_review, ag_metrics = JNull\<rparr>) demo_nodes demo_context CaseReview [] (enumerate 0 [demo_case])
      \<lparr>vs_calls = 0, vs_traces = []\<rparr> = Inr (rs, vs)"
    by (auto simp: reviewGeneratedProposals_def res_simps simp del: reviewAll.simps enumerate_simps)
  from review_calls_bounded [OF r] show ?thesis using r by (intro exI [of _ rs] exI [of _ vs]) (simp del: reviewAll.simps enumerate_simps)
qed

end
