(* ===== verification/Spec2Isabelle.thy ===== *)
theory Spec2Isabelle
  imports CompilerProofs Registry StateMapping ExecutorProofs AdmissionProofs Consensus TransportProofs CallbackProofs
    CaseBatchProofs RetryProofs McpProofs StepProofs StepRunnerProofs SourceProofs ReviewProofs
begin

text \<open>
  Treseko platform: the engine (\<^verbatim>\<open>engine/src\<close>).

  The engine runs quality-assurance workflows: graphs whose nodes are agents (planners, browser
  executors, validators) and whose edges carry conditions. A persisted definition is compiled to a
  plan, an executor walks the plan, each node is dispatched to the handler of its adapter, and the
  outputs are merged into a shared memory from which the edge to the next node is chosen. Around it the engine
  calls model providers, authors test cases, audits the evidence of a run, delivers the final result to the
  backend and stops taking work while it is being updated.

  \<^bold>\<open>Layers.\<close>

  \<^item> \<open>Prelude\<close>: results with errors (\<open>res\<close>), strings, decimal numerals, stable sorting. \<open>JsValues\<close> and \<open>JsLaws\<close>: the values of
  JavaScript the sources compute with (conversions, property access with prototypes, spread, strict
  equality, JSON text) and their laws; the locale \<open>dictionary\<close> is the contract of a property list and is
  interpreted on it. \<open>JsonText\<close>: a JSON parser; quoted strings read back. \<open>Rx\<close>: regular expressions with groups, lazy repetition and
  lookahead, matched in the order of the language. \<open>Transitions\<close>: locales for invariants and descending measures of step relations.

  \<^item> Graph runtime (\<^verbatim>\<open>ai/graph-runtime\<close>, \<^verbatim>\<open>ai/workflow.ts\<close>). \<open>Conditions\<close>: \<^verbatim>\<open>condition-evaluator.ts\<close>. \<open>StateMapping\<close>: \<^verbatim>\<open>mapping.ts\<close>.
  \<open>Contracts\<close>: \<^verbatim>\<open>contracts.ts\<close>, \<^verbatim>\<open>v3-adapter-policy.ts\<close>. \<open>Compiler\<close>, \<open>CompilerProofs\<close>: \<^verbatim>\<open>compiler.ts\<close>. \<open>Registry\<close>: \<^verbatim>\<open>runtime-registry.ts\<close>.
  \<open>AgentManifests\<close>: \<^verbatim>\<open>ai/agent-runtime-manifest.ts\<close>. \<open>WorkflowParts\<close>: \<^verbatim>\<open>runtime-mode.ts\<close>, \<^verbatim>\<open>workflow-mode.ts\<close>,
  \<^verbatim>\<open>workflow-routing.ts\<close>, \<^verbatim>\<open>workflow-timeout.ts\<close>, \<^verbatim>\<open>workflow-mapping.ts\<close>. \<open>UniversalAgent\<close>: \<^verbatim>\<open>ai/universal-agent.ts\<close>. \<open>V3Runtime\<close>,
  \<open>V3Proofs\<close>: \<^verbatim>\<open>v3-runtime.ts\<close>. \<open>Handlers\<close>: \<^verbatim>\<open>authoritative-handler-resolver.ts\<close>, \<^verbatim>\<open>node-runtime-view.ts\<close>,
  \<^verbatim>\<open>builtin-adapter-aliases.ts\<close> and the table of \<^verbatim>\<open>builtin-atomic-adapters.ts\<close>. \<open>PlannerContract\<close>: the deterministic planner of
  \<^verbatim>\<open>ai/custom-agents.ts\<close>. \<open>Executor\<close>, \<open>ExecutorProofs\<close>: \<^verbatim>\<open>executeWorkflowGraph\<close>; the state of a run is the record
  \<open>exec_state\<close>, one turn of its loop is \<open>loopStep\<close>.

  \<^item> Admission (\<^verbatim>\<open>update-admission.ts\<close>): \<open>Admission\<close>, \<open>AdmissionProofs\<close>. The directory is explicit state, an association list from
  paths to inodes, which other processes may change between any two steps; the steps of \<^verbatim>\<open>beginLease\<close> are the
  relation \<open>admission_step\<close>.

  \<^item> Audit (\<^verbatim>\<open>audit/consensus.ts\<close>): \<open>Consensus\<close>.

  \<^item> Network safety (\<^verbatim>\<open>ai/mcp-secure-transport.ts\<close>): \<open>SecureTransport\<close> with 32-bit words for IPv4, \<open>TransportProofs\<close>.

  \<^item> MCP tools (\<^verbatim>\<open>ai/mcp-tool-agent.ts\<close>): \<open>McpTool\<close>, \<open>McpProofs\<close>, on top of the transport. \<open>mcpPlan\<close> has the checks before the network,
  \<open>mcpSession\<close> the session, \<open>executeMcpToolAgent\<close> both; the state records every request sent.

  \<^item> Step validation (\<^verbatim>\<open>automation/step-contract-base.ts\<close>, \<^verbatim>\<open>step-contract-assertions.ts\<close>, \<^verbatim>\<open>step-contract-evaluation.ts\<close>, \<^verbatim>\<open>semantic-expectations.ts\<close>):
  \<open>StepContract\<close>; \<^verbatim>\<open>context-data-interpreter.ts\<close> and \<^verbatim>\<open>execution-validation-planner.ts\<close>: \<open>StepPlanner\<close>. One definition per rule of the two
  recognisers, in their order. \<open>StepDataProofs\<close> is about the key-value data, \<open>StepProofs\<close> about contracts and verdicts.

  \<^item> Step runner (\<^verbatim>\<open>automation/step-runner.ts\<close>). \<open>StepIo\<close>: the world a run sees (page operations, observer, model, clock), the trace of its
  events, and computations that return, throw or wait forever. \<open>ActionExecutor\<close>: \<^verbatim>\<open>action-executor.ts\<close>,
  \<^verbatim>\<open>coordinate-click-safety.ts\<close>, \<^verbatim>\<open>step-runner-coordinate.ts\<close>. \<open>StepActions\<close>: \<^verbatim>\<open>step-contract-actions.ts\<close>, one definition per rule.
  \<open>StepRecovery\<close>: \<^verbatim>\<open>step-runner-recovery.ts\<close> and the classes of steps of \<^verbatim>\<open>step-runner-helpers.ts\<close>. \<open>StepRunner\<close>: the rest of the helpers
  and \<^verbatim>\<open>runQaSteps\<close>; an attempt is \<open>planAction\<close>, \<open>judge\<close>, \<open>locate\<close>, \<open>carryOut\<close> and \<open>recordAttempt\<close> in this order, \<open>run_state\<close> is what a run
  collects. \<open>StepIoLaws\<close> has the rules for events and outcomes, \<open>StepTraces\<close> what holds of every trace, \<open>StepEvidence\<close> of every result,
  \<open>StepRunnerProofs\<close> the properties.

  \<^item> Delivery (\<^verbatim>\<open>delivery/terminal-callback.ts\<close>): \<open>TerminalCallback\<close>, \<open>CallbackProofs\<close>, on top of the transport.

  \<^item> Case authoring (\<^verbatim>\<open>case-authoring-batching.ts\<close>, \<^verbatim>\<open>case-proposal-contract.ts\<close>): \<open>CaseBatches\<close>, \<open>CaseBatchProofs\<close>.

  \<^item> Generation of stories and cases. \<open>GenerationSources\<close>: the sources (\<^verbatim>\<open>untrustedSources\<close> of \<^verbatim>\<open>generation-contracts.ts\<close>) and
  \<^verbatim>\<open>generation-context.ts\<close>. \<open>StoryContracts\<close>: the rest of \<^verbatim>\<open>generation-contracts.ts\<close>. \<open>AnalysisReview\<close>: \<^verbatim>\<open>generation-analysis-review.ts\<close>.
  \<open>SourceProofs\<close> has the properties of these three. \<open>SemanticReview\<close>: \<^verbatim>\<open>generation-review.ts\<close>; \<open>checkAgainst\<close> collects what a review is checked against,
  \<open>checkedSemanticReview\<close> checks it, \<open>reviewStage\<close> asks for it, for a corrected one and for what is missing, \<open>reviewGeneratedProposals\<close> is the whole.
  \<open>ReviewReports\<close> shows what a report says, \<open>ReviewProofs\<close> what the reviewed proposals rest on.

  \<^item> Model calls (\<^verbatim>\<open>ai/provider-adapters.ts\<close>, \<^verbatim>\<open>ai/requestRetry.ts\<close>): \<open>ProviderAdapters\<close>, \<open>RequestRetry\<close>, \<open>RetryProofs\<close>.

  \<^bold>\<open>What is shown.\<close> A workflow that compiles as universal V3 is closed, its run ends and calls its handlers a
  bounded number of times; one that does not compile is not run. Edge selection, input mappings and state
  patches do what they say and nothing else. While the update fence is up no work is admitted. A case passes only on
  evidence. A delivery that reports success was acknowledged, redelivery loses no result, and neither leaves for a forbidden address. Case
  authoring returns one valid proposal per scenario. A model call is bounded, uses each key only with its own destination, and
  returns the answer to its last request. The MCP agent sends nothing that was not authorised, a bounded number of requests, and returns only
  redacted results. Step contracts are well typed, and a step passes conclusively only when every assertion was found to hold; two theorems show
  expectations that are compiled to something else than they say. A run of steps ends when its clock runs, acts only on what it has just
  observed, asks the model a bounded number of times, and gives a pass only to a step whose last attempt left evidence for it; three theorems show steps
  that are replaced, skipped or lost. A generated proposal whose review does not fail stands on literal quotes of its sources and on accepted assumptions, and
  a valid audit of an analysis accounts for every question and assumption; two theorems show decisions of the user that an audit loses or trips over.

  \<^bold>\<open>Bounds and fuel.\<close> The run of a V3 workflow is \<open>run_loop\<close> with fuel; \<open>v3_run_terminates\<close> gives the fuel that is enough, from the pass
  limits of the plan. The JSON parser has fuel twice the length of the text plus one, and more never changes its answer
  (\<open>json_parse_fuel\<close>). The other loops terminate by a measure: batches by the visits left, model calls by the attempts left, deliveries by the
  attempts of their limit, the search for proposals in an answer by the multiset of the sizes that wait in its queue, the parts of a source by what is left of it. The wait for evidence is a partial function, since it polls until its deadline; \<open>run_ends\<close> shows that it returns when a pause
  lets the clock advance.

  \<^bold>\<open>Parameters.\<close> Handlers, the model, the operations of a page, the observer that runs inside it, the network, the resolver, the URL parser, the JSON schema validator, the credential store, the comparison of names in the locale of the host,
  clocks, digests, environment variables and regular expressions built from data with syntax characters are arguments of the definitions that use them.

  \<^bold>\<open>Text.\<close> A string is a list of characters up to \<^verbatim>\<open>U+00FF\<close>; numbers are exact rationals with \<^verbatim>\<open>NaN\<close> and the infinities, so rounding
  of floating point is not modelled.

  \<^bold>\<open>Not modelled.\<close> Bodies of the adapters that drive a browser or a model, the browser session and the code it runs inside a page, the
  text of an observation in a prompt, log lines, HTML reports, the HTTP server and its routes, the chatbot evaluator, the frontend (rendering and effects), the backend and the worker (other
  languages).
\<close>

end
